(* ===== verification/Prelude.thy ===== *)
theory Prelude
  imports Main "HOL-Library.Sublist"
begin

text \<open>
  Shared vocabulary of the development: JavaScript's nullish operators on optional values,
  insertion-ordered de-duplication (\<open>[...new Set(xs)]\<close>), \<open>Array.prototype.findIndex\<close>,
  \<open>slice\<close> and stable sorting, with the rewrite rules the component theories rely on.
  A value that the TypeScript types as \<open>T | null\<close> or \<open>T | undefined\<close> is an
  \<open>'a option\<close>.  A plain object used as a dictionary (\<open>Record<string, T>\<close>) is a map
  \<open>string \<rightharpoonup> 'a\<close>; inherited prototype members are not part of the model.
\<close>

named_theorems js_simps \<open>evaluation rules for the JavaScript library operations\<close>

type_synonym 'a js_record = "string \<rightharpoonup> 'a"

section \<open>Nullish coalescing\<close>

text \<open>\<open>a ?? b\<close>: the right operand only when the left one is null or undefined.\<close>

definition nullish :: "'a option \<Rightarrow> 'a \<Rightarrow> 'a" where
  "nullish a b = (case a of None \<Rightarrow> b | Some x \<Rightarrow> x)"

lemma nullish_simps [simp, js_simps]:
  "nullish None b = b" "nullish (Some x) b = x"
  by (simp_all add: nullish_def)

text \<open>\<open>a ?? b\<close> where the right operand may be absent as well.\<close>

definition nullish2 :: "'a option \<Rightarrow> 'a option \<Rightarrow> 'a option" where
  "nullish2 a b = (case a of None \<Rightarrow> b | Some x \<Rightarrow> Some x)"

lemma nullish2_simps [simp, js_simps]:
  "nullish2 None b = b" "nullish2 (Some x) b = Some x"
  by (simp_all add: nullish2_def)

lemma nullish2_eq_None [simp]: "nullish2 a b = None \<longleftrightarrow> a = None \<and> b = None"
  by (cases a) auto

section \<open>Insertion-ordered sets\<close>

text \<open>\<open>[...new Set(xs)]\<close> keeps the first occurrence of every element.\<close>

fun uniq :: "'a list \<Rightarrow> 'a list" where
  "uniq [] = []"
| "uniq (x # xs) = x # removeAll x (uniq xs)"

lemma set_uniq [simp]: "set (uniq xs) = set xs"
  by (induction xs) auto

lemma distinct_uniq [simp]: "distinct (uniq xs)"
  by (induction xs) (auto simp: distinct_removeAll)

lemma uniq_distinct: "distinct xs \<Longrightarrow> uniq xs = xs"
  by (induction xs) (auto simp: removeAll_id)

lemma uniq_Nil_iff [simp]: "uniq xs = [] \<longleftrightarrow> xs = []"
  by (cases xs) auto

lemma length_uniq_le: "length (uniq xs) \<le> length xs"
  by (induction xs) (auto intro: order_trans [OF length_removeAll_less_eq])

section \<open>Searching and replacing by index\<close>

text \<open>\<open>xs.findIndex(p)\<close>, with \<open>None\<close> for \<open>-1\<close>.\<close>

fun find_index :: "('a \<Rightarrow> bool) \<Rightarrow> 'a list \<Rightarrow> nat option" where
  "find_index p [] = None"
| "find_index p (x # xs) = (if p x then Some 0 else map_option Suc (find_index p xs))"

lemma find_index_SomeD:
  "find_index p xs = Some i \<Longrightarrow> i < length xs \<and> p (xs ! i) \<and> (\<forall>j < i. \<not> p (xs ! j))"
proof (induction xs arbitrary: i)
  case (Cons x xs)
  then show ?case
    by (cases i) (auto simp: less_Suc_eq_0_disj nth_Cons split: if_splits)
qed simp

lemma find_index_None_iff: "find_index p xs = None \<longleftrightarrow> (\<forall>x \<in> set xs. \<not> p x)"
  by (induction xs) auto

lemma find_index_Some_mem: "find_index p xs = Some i \<Longrightarrow> xs ! i \<in> set xs"
  by (auto dest: find_index_SomeD)

lemma find_index_update_map:
  "find_index p xs = Some i \<Longrightarrow> f y = f (xs ! i) \<Longrightarrow> map f (xs[i := y]) = map f xs"
  by (metis list_update_id map_update)

section \<open>Slices\<close>

text \<open>\<open>xs.slice(0, n)\<close>: a negative end counts from the end of the array.\<close>

definition slice_to :: "int \<Rightarrow> 'a list \<Rightarrow> 'a list" where
  "slice_to n xs =
     (if 0 \<le> n then take (nat n) xs else take (nat (int (length xs) + n)) xs)"

lemma set_slice_to_subset: "set (slice_to n xs) \<subseteq> set xs"
  by (auto simp: slice_to_def dest: in_set_takeD)

lemma length_slice_to_le: "0 \<le> n \<Longrightarrow> int (length (slice_to n xs)) \<le> n"
  by (simp add: slice_to_def)

text \<open>\<open>xs.slice(-n)\<close> for positive \<open>n\<close>: the last \<open>n\<close> elements.\<close>

definition slice_last :: "nat \<Rightarrow> 'a list \<Rightarrow> 'a list" where
  "slice_last n xs = drop (length xs - n) xs"

lemma length_slice_last [simp]: "length (slice_last n xs) = min n (length xs)"
  by (auto simp: slice_last_def)

lemma set_slice_last_subset: "set (slice_last n xs) \<subseteq> set xs"
  by (auto simp: slice_last_def dest: in_set_dropD)

section \<open>Small facts shared by the component proofs\<close>

lemma map_filter_partition_mset:
  "set (filter p xs @ filter (\<lambda>x. \<not> p x) xs) = set xs"
  by auto

lemma distinct_map_partition:
  "distinct (map f xs) \<Longrightarrow> distinct (map f (filter p xs @ filter (\<lambda>x. \<not> p x) xs))"
proof (induction xs)
  case (Cons x xs)
  then show ?case by (auto simp: image_iff)
qed simp

lemma distinct_map_filterI: "distinct (map f xs) \<Longrightarrow> distinct (map f (filter p xs))"
  by (rule distinct_map_filter)

lemma foldl_invariant:
  assumes "I s" and "\<And>s x. x \<in> set xs \<Longrightarrow> I s \<Longrightarrow> I (f s x)"
  shows "I (foldl f s xs)"
  using assms by (induction xs arbitrary: s) auto

lemma successively_snoc:
  "successively P (xs @ [x]) \<longleftrightarrow> successively P xs \<and> (xs = [] \<or> P (last xs) x)"
  by (auto simp: successively_append_iff)

lemma successively_drop: "successively P xs \<Longrightarrow> successively P (drop n xs)"
  by (metis append_take_drop_id successively_append_iff)

lemma successively_map2:
  assumes "length fs = length xs" "set fs \<subseteq> F"
    and "\<And>f g a b. f \<in> F \<Longrightarrow> g \<in> F \<Longrightarrow> P (f a) (g b) = P a b"
  shows "successively P (map2 (\<lambda>f x. f x) fs xs) = successively P xs"
  using assms(1,2)
proof (induction fs xs rule: list_induct2)
  case (Cons f fs x xs)
  then show ?case using assms(3) by (cases fs; cases xs) auto
qed simp

lemma subseq_mem: "x \<in> set xs \<Longrightarrow> subseq xs ys \<Longrightarrow> x \<in> set ys"
proof -
  assume "x \<in> set xs" "subseq xs ys"
  then obtain y where "y \<in> set ys" "x = y" using list_emb_set [of "(=)" xs ys x] by blast
  then show ?thesis by simp
qed

lemma find_index_first:
  "find_index p xs = Some k \<Longrightarrow> p y \<Longrightarrow> find_index p (xs[k := y]) = Some k"
proof (induction xs arbitrary: k)
  case (Cons x xs)
  then show ?case by (cases k) (auto split: if_splits)
qed simp

lemma find_index_append_new:
  "\<forall>x \<in> set xs. \<not> p x \<Longrightarrow> p y \<Longrightarrow> find_index p (xs @ [y]) = Some (length xs)"
  by (induction xs) auto

section \<open>Stable sorting\<close>

text \<open>
  \<open>Array.prototype.sort\<close> with a comparison function: a stable sort; \<open>le a b\<close> stands for a
  comparison that does not put \<open>a\<close> after \<open>b\<close>.
\<close>

fun insert_by :: "('a \<Rightarrow> 'a \<Rightarrow> bool) \<Rightarrow> 'a \<Rightarrow> 'a list \<Rightarrow> 'a list" where
  "insert_by le x [] = [x]"
| "insert_by le x (y # ys) = (if le x y then x # y # ys else y # insert_by le x ys)"

definition js_sort :: "('a \<Rightarrow> 'a \<Rightarrow> bool) \<Rightarrow> 'a list \<Rightarrow> 'a list" where
  "js_sort le xs = foldr (insert_by le) xs []"

lemma set_insert_by [simp]: "set (insert_by le x ys) = insert x (set ys)"
  by (induction ys) auto

lemma length_insert_by [simp]: "length (insert_by le x ys) = Suc (length ys)"
  by (induction ys) auto

lemma set_js_sort [simp]: "set (js_sort le xs) = set xs"
  by (induction xs) (auto simp: js_sort_def)

lemma length_js_sort [simp]: "length (js_sort le xs) = length xs"
  by (induction xs) (auto simp: js_sort_def)

lemma sorted_insert_by:
  assumes "\<And>a b. le a b \<or> le b a" "\<And>a b c. le a b \<Longrightarrow> le b c \<Longrightarrow> le a c"
  shows "sorted_wrt le ys \<Longrightarrow> sorted_wrt le (insert_by le x ys)"
proof (induction ys)
  case (Cons y ys)
  show ?case
  proof (cases "le x y")
    case True
    with Cons.prems show ?thesis by (auto intro: assms(2) [OF True])
  next
    case False
    then have "le y x" using assms(1) by blast
    with Cons False show ?thesis by simp
  qed
qed simp

lemma sorted_js_sort:
  assumes "\<And>a b. le a b \<or> le b a" "\<And>a b c. le a b \<Longrightarrow> le b c \<Longrightarrow> le a c"
  shows "sorted_wrt le (js_sort le xs)"
  by (induction xs) (auto simp: js_sort_def sorted_insert_by [OF assms])

end
