(* ===== verification/JsString.thy ===== *)
theory JsString
  imports Prelude
begin

text \<open>
  JavaScript strings and the part of \<open>String.prototype\<close> and \<open>RegExp\<close> that the modelled code
  uses.  A string is a list of 8-bit characters, each standing for one UTF-16 code unit, so
  \<open>length\<close> is JavaScript's \<open>length\<close>.  Code units above 255 are outside the model, but for
  the ellipsis U+2026 that the code appends to shortened names: it is written with its
  Windows-1252 code 0x85, which is neither white space nor cased, exactly as U+2026.

  Regular expressions are data (\<open>re\<close>) and \<open>re_steps\<close> is a backtracking matcher: it lists
  the ways a pattern can match at a position, in the order in which a JavaScript engine tries
  them, so that the first one is the engine's match.
\<close>

section \<open>White space, case, search\<close>

definition is_js_space :: "char \<Rightarrow> bool" where
  "is_js_space c = ((of_char c :: nat) \<in> {9, 10, 11, 12, 13, 32, 160})"

definition trim_start :: "string \<Rightarrow> string" where
  "trim_start s = dropWhile is_js_space s"

definition js_trim :: "string \<Rightarrow> string" where
  "js_trim s = rev (trim_start (rev (trim_start s)))"

definition lower_char :: "char \<Rightarrow> char" where
  "lower_char c = (let n = (of_char c :: nat) in
     if 65 \<le> n \<and> n \<le> 90 \<or> 192 \<le> n \<and> n \<le> 222 \<and> n \<noteq> 215 then char_of (n + 32) else c)"

definition to_lower :: "string \<Rightarrow> string" where
  "to_lower s = map lower_char s"

abbreviation starts_with :: "string \<Rightarrow> string \<Rightarrow> bool" where
  "starts_with s t \<equiv> prefix t s"

abbreviation ends_with :: "string \<Rightarrow> string \<Rightarrow> bool" where
  "ends_with s t \<equiv> suffix t s"

fun str_includes :: "string \<Rightarrow> string \<Rightarrow> bool" where
  "str_includes [] t = (t = [])"
| "str_includes (c # s) t = (prefix t (c # s) \<or> str_includes s t)"

fun js_join :: "string \<Rightarrow> string list \<Rightarrow> string" where
  "js_join sep [] = []"
| "js_join sep [s] = s"
| "js_join sep (s # t # ts) = s @ sep @ js_join sep (t # ts)"

definition ellipsis :: string where
  "ellipsis = [CHR 0x85]"

text \<open>The decimal representation of an integer, as a template literal renders it.\<close>

definition digit_char :: "nat \<Rightarrow> char" where
  "digit_char d = char_of (48 + d)"

fun show_nat :: "nat \<Rightarrow> string" where
  "show_nat n = (if n < 10 then [digit_char n] else show_nat (n div 10) @ [digit_char (n mod 10)])"

declare show_nat.simps [simp del]

definition show_int :: "int \<Rightarrow> string" where
  "show_int i = (if i < 0 then ''-'' @ show_nat (nat (- i)) else show_nat (nat i))"

lemma str_includes_iff: "str_includes s t \<longleftrightarrow> sublist t s"
  by (induction s) (auto simp: sublist_Cons_right)

lemma to_lower_simps [simp]:
  "to_lower [] = []" "to_lower (c # s) = lower_char c # to_lower s"
  "length (to_lower s) = length s" "to_lower (s @ t) = to_lower s @ to_lower t"
  by (simp_all add: to_lower_def)

lemma length_dropWhile_le': "length (dropWhile p s) \<le> length s"
  by (induction s) auto

lemma length_js_trim_le: "length (js_trim s) \<le> length s"
  using length_dropWhile_le' [of is_js_space s]
    length_dropWhile_le' [of is_js_space "rev (dropWhile is_js_space s)"]
  by (simp add: js_trim_def trim_start_def)

lemma js_trim_Nil [simp]: "js_trim [] = []"
  by (simp add: js_trim_def trim_start_def)

lemma dropWhile_hd_id: "s = [] \<or> \<not> p (hd s) \<Longrightarrow> dropWhile p s = s"
  by (cases s) auto

lemma dropWhile_rev_prefix: "\<exists>zs. xs = rev (dropWhile p (rev xs)) @ zs"
proof -
  have "rev xs = takeWhile p (rev xs) @ dropWhile p (rev xs)" by simp
  then have "xs = rev (dropWhile p (rev xs)) @ rev (takeWhile p (rev xs))"
    by (metis rev_append rev_rev_ident)
  then show ?thesis by blast
qed

lemma js_trim_idem [simp]: "js_trim (js_trim s) = js_trim s"
proof -
  let ?a = "dropWhile is_js_space s"
  let ?b = "rev (dropWhile is_js_space (rev ?a))"
  obtain zs where zs: "?a = ?b @ zs" using dropWhile_rev_prefix by blast
  have "?b = [] \<or> \<not> is_js_space (hd ?b)"
  proof (cases "?b = []")
    case False
    then have "hd ?a = hd ?b" and "?a \<noteq> []" using zs by (metis hd_append2, force)
    then show ?thesis by (metis hd_dropWhile)
  qed simp
  then have "dropWhile is_js_space ?b = ?b" by (rule dropWhile_hd_id)
  then show ?thesis by (simp add: js_trim_def trim_start_def)
qed

lemma show_nat_nonempty [simp]: "show_nat n \<noteq> []"
  by (subst show_nat.simps) simp

lemma digit_char_inj: "a < 10 \<Longrightarrow> b < 10 \<Longrightarrow> digit_char a = digit_char b \<Longrightarrow> a = b"
proof -
  assume *: "a < 10" "b < 10" "digit_char a = digit_char b"
  then have "of_char (digit_char a) = (of_char (digit_char b) :: nat)" by simp
  with * show ?thesis by (simp add: digit_char_def)
qed

lemma show_nat_inj: "show_nat m = show_nat n \<Longrightarrow> m = n"
proof (induction m arbitrary: n rule: show_nat.induct)
  case (1 m)
  have sm: "show_nat m = (if m < 10 then [digit_char m] else show_nat (m div 10) @ [digit_char (m mod 10)])"
    and sn: "show_nat n = (if n < 10 then [digit_char n] else show_nat (n div 10) @ [digit_char (n mod 10)])"
    by (rule show_nat.simps)+
  show ?case
  proof (cases "m < 10")
    case True
    with "1.prems" sm sn have "n < 10"
      by (metis append_self_conv2 append1_eq_conv show_nat_nonempty)
    with True "1.prems" sm sn show ?thesis by (auto dest: digit_char_inj)
  next
    case False
    with "1.prems" sm sn have "\<not> n < 10"
      by (metis append_self_conv2 append1_eq_conv show_nat_nonempty)
    with False "1.prems" sm sn
    have eq: "show_nat (m div 10) = show_nat (n div 10)"
      and "digit_char (m mod 10) = digit_char (n mod 10)" by auto
    from this(2) have "m mod 10 = n mod 10" by (intro digit_char_inj) auto
    moreover from "1.IH" [OF False eq] have "m div 10 = n div 10" .
    ultimately show ?thesis by (metis div_mult_mod_eq)
  qed
qed

section \<open>Regular expressions\<close>

datatype re =
    Chr "char \<Rightarrow> bool"
  | Eps
  | Sequ re re
  | Altn re re
  | Star re
  | Group nat re
  | BackRef nat
  | Bol
  | Eol
  | LookAhead re

text \<open>A matching position: the preceding code unit, the rest of the input, the captures.\<close>

type_synonym re_pos = "char option \<times> string \<times> (nat \<rightharpoonup> string)"

definition pos_rest :: "re_pos \<Rightarrow> string" where
  "pos_rest p = fst (snd p)"

definition pos_prev :: "re_pos \<Rightarrow> char option" where
  "pos_prev p = fst p"

definition pos_caps :: "re_pos \<Rightarrow> (nat \<rightharpoonup> string)" where
  "pos_caps p = snd (snd p)"

text \<open>Moving \<open>n\<close> code units on.\<close>

definition pos_advance :: "nat \<Rightarrow> re_pos \<Rightarrow> re_pos" where
  "pos_advance n p =
     (if n = 0 then p
      else (Some (pos_rest p ! (n - 1)), drop n (pos_rest p), pos_caps p))"

text \<open>
  Greedy repetition: each round must consume input (JavaScript's empty check), and the longer
  alternatives come first.  The fuel is the length of the rest plus one, so it never runs out.
\<close>

primrec star_iter :: "nat \<Rightarrow> (re_pos \<Rightarrow> re_pos list) \<Rightarrow> re_pos \<Rightarrow> re_pos list" where
  "star_iter 0 f p = [p]"
| "star_iter (Suc k) f p =
     concat (map (\<lambda>q. if length (pos_rest q) < length (pos_rest p) then star_iter k f q else [])
       (f p)) @ [p]"

primrec re_steps :: "re \<Rightarrow> re_pos \<Rightarrow> re_pos list" where
  "re_steps (Chr q) p =
     (case pos_rest p of [] \<Rightarrow> []
      | c # cs \<Rightarrow> if q c then [(Some c, cs, pos_caps p)] else [])"
| "re_steps Eps p = [p]"
| "re_steps (Sequ a b) p = concat (map (re_steps b) (re_steps a p))"
| "re_steps (Altn a b) p = re_steps a p @ re_steps b p"
| "re_steps (Star a) p = star_iter (Suc (length (pos_rest p))) (re_steps a) p"
| "re_steps (Group n a) p =
     map (\<lambda>q. (pos_prev q, pos_rest q,
            (pos_caps q)(n \<mapsto> take (length (pos_rest p) - length (pos_rest q)) (pos_rest p))))
       (re_steps a p)"
| "re_steps (BackRef n) p =
     (case pos_caps p n of None \<Rightarrow> [p]
      | Some s \<Rightarrow> if prefix s (pos_rest p) then [pos_advance (length s) p] else [])"
| "re_steps Bol p = (if pos_prev p = None then [p] else [])"
| "re_steps Eol p = (if pos_rest p = [] then [p] else [])"
| "re_steps (LookAhead a) p = (case re_steps a p of [] \<Rightarrow> [] | _ # _ \<Rightarrow> [p])"

text \<open>A match at the current position: what it consumed, and the position after it.\<close>

definition match_here :: "re \<Rightarrow> char option \<Rightarrow> string \<Rightarrow> (string \<times> re_pos) option" where
  "match_here r prev s =
     (case re_steps r (prev, s, Map.empty) of [] \<Rightarrow> None
      | q # _ \<Rightarrow> Some (take (length s - length (pos_rest q)) s, q))"

text \<open>\<open>RegExp.prototype.exec\<close> without the \<open>g\<close> flag: text before, match, position after.\<close>

fun search_from :: "re \<Rightarrow> char option \<Rightarrow> string \<Rightarrow> (string \<times> string \<times> re_pos) option" where
  "search_from r prev s =
     (case match_here r prev s of
        Some (m, q) \<Rightarrow> Some ([], m, q)
      | None \<Rightarrow>
          (case s of [] \<Rightarrow> None
           | c # cs \<Rightarrow> map_option (\<lambda>(b, m, q). (c # b, m, q)) (search_from r (Some c) cs)))"

declare search_from.simps [simp del]

definition re_exec :: "re \<Rightarrow> string \<Rightarrow> (string \<times> string \<times> re_pos) option" where
  "re_exec r s = search_from r None s"

definition re_test :: "re \<Rightarrow> string \<Rightarrow> bool" where
  "re_test r s = (re_exec r s \<noteq> None)"

text \<open>
  Iterating matches left to right (the \<open>g\<close> flag): the string as a list of pieces, \<open>Inl\<close> a
  code unit outside every match, \<open>Inr\<close> the captures of a match (group 0 is the whole match).
  None of the patterns below matches the empty string; an empty match would be skipped.
\<close>

function re_pieces :: "re \<Rightarrow> char option \<Rightarrow> string \<Rightarrow> (char + (nat \<rightharpoonup> string)) list" where
  "re_pieces r prev [] = []"
| "re_pieces r prev (c # s) =
     (case match_here r prev (c # s) of
        None \<Rightarrow> Inl c # re_pieces r (Some c) s
      | Some (m, q) \<Rightarrow>
          if length (pos_rest q) < length (c # s)
          then Inr ((pos_caps q)(0 \<mapsto> m)) # re_pieces r (pos_prev q) (pos_rest q)
          else Inl c # re_pieces r (Some c) s)"
  by pat_completeness auto
termination
  by (relation "measure (\<lambda>(r, prev, s). length s)") auto

text \<open>\<open>s.replace(r, f)\<close> with the \<open>g\<close> flag.\<close>

definition replace_all :: "re \<Rightarrow> ((nat \<rightharpoonup> string) \<Rightarrow> string) \<Rightarrow> string \<Rightarrow> string" where
  "replace_all r f s = concat (map (case_sum (\<lambda>c. [c]) f) (re_pieces r None s))"

text \<open>\<open>s.replace(r, t)\<close> without it: the first match only.\<close>

definition replace_first :: "re \<Rightarrow> string \<Rightarrow> string \<Rightarrow> string" where
  "replace_first r t s =
     (case re_exec r s of None \<Rightarrow> s | Some (b, m, q) \<Rightarrow> b @ t @ pos_rest q)"

text \<open>\<open>s.match(r)\<close> with the \<open>g\<close> flag, and \<open>exec\<close> in a loop: the captures of every match.\<close>

definition match_all :: "re \<Rightarrow> string \<Rightarrow> (nat \<rightharpoonup> string) list" where
  "match_all r s =
     concat (map (case_sum (\<lambda>c. []) (\<lambda>m. [m])) (re_pieces r None s))"

text \<open>\<open>s.split(r)\<close> for a pattern without capture groups.\<close>

fun split_pieces :: "string \<Rightarrow> (char + 'm) list \<Rightarrow> string list" where
  "split_pieces acc [] = [acc]"
| "split_pieces acc (Inl c # ps) = split_pieces (acc @ [c]) ps"
| "split_pieces acc (Inr m # ps) = acc # split_pieces [] ps"

definition re_split :: "re \<Rightarrow> string \<Rightarrow> string list" where
  "re_split r s = split_pieces [] (re_pieces r None s)"

subsection \<open>Building patterns\<close>

definition Opt :: "re \<Rightarrow> re" where
  "Opt r = Altn r Eps"

definition Plus :: "re \<Rightarrow> re" where
  "Plus r = Sequ r (Star r)"

primrec Seqs :: "re list \<Rightarrow> re" where
  "Seqs [] = Eps"
| "Seqs (r # rs) = Sequ r (Seqs rs)"

primrec Alts :: "re \<Rightarrow> re list \<Rightarrow> re" where
  "Alts r [] = r"
| "Alts r (s # rs) = Altn r (Alts s rs)"

primrec repeat_upto :: "nat \<Rightarrow> re \<Rightarrow> re" where
  "repeat_upto 0 r = Eps"
| "repeat_upto (Suc n) r = Altn (Sequ r (repeat_upto n r)) Eps"

primrec repeat_n :: "nat \<Rightarrow> re \<Rightarrow> re" where
  "repeat_n 0 r = Eps"
| "repeat_n (Suc n) r = Sequ r (repeat_n n r)"

text \<open>A literal, and a literal under the \<open>i\<close> flag (for ASCII pattern text).\<close>

definition Lit :: "string \<Rightarrow> re" where
  "Lit s = Seqs (map (\<lambda>x. Chr (\<lambda>c. c = x)) s)"

definition Lit_i :: "string \<Rightarrow> re" where
  "Lit_i s = Seqs (map (\<lambda>x. Chr (\<lambda>c. lower_char c = lower_char x)) s)"

text \<open>Character classes: \<open>\s\<close>, \<open>\S\<close>, \<open>.\<close>, \<open>[...]\<close>, \<open>[^...]\<close>, \<open>[a-z]\<close>.\<close>

definition Space :: re where "Space = Chr is_js_space"
definition NonSpace :: re where "NonSpace = Chr (\<lambda>c. \<not> is_js_space c)"
definition AnyChr :: re where "AnyChr = Chr (\<lambda>c. True)"

definition Dot :: re where
  "Dot = Chr (\<lambda>c. (of_char c :: nat) \<notin> {10, 13})"

definition OneOf :: "string \<Rightarrow> re" where "OneOf s = Chr (\<lambda>c. c \<in> set s)"
definition NoneOf :: "string \<Rightarrow> re" where "NoneOf s = Chr (\<lambda>c. c \<notin> set s)"

definition char_between :: "char \<Rightarrow> char \<Rightarrow> char \<Rightarrow> bool" where
  "char_between lo hi c = ((of_char lo :: nat) \<le> of_char c \<and> (of_char c :: nat) \<le> of_char hi)"

definition is_digit :: "char \<Rightarrow> bool" where
  "is_digit c = char_between (CHR ''0'') (CHR ''9'') c"

definition is_lower :: "char \<Rightarrow> bool" where
  "is_lower c = char_between (CHR ''a'') (CHR ''z'') c"

definition is_upper :: "char \<Rightarrow> bool" where
  "is_upper c = char_between (CHR ''A'') (CHR ''Z'') c"

lemmas re_build_defs =
  Opt_def Plus_def Lit_def Lit_i_def Space_def NonSpace_def AnyChr_def Dot_def OneOf_def
  NoneOf_def char_between_def is_digit_def is_lower_def is_upper_def

lemmas re_eval_defs =
  re_test_def re_exec_def match_here_def search_from.simps pos_rest_def pos_prev_def
  pos_caps_def pos_advance_def replace_all_def replace_first_def match_all_def re_split_def

end
