(* ===== verification/ConversationItem.thy ===== *)
theory ConversationItem
  imports Complex_Main JsString
begin

text \<open>
  The timeline entries of a thread: \<open>ConversationItem\<close>, \<open>ThreadSummary\<close> and the sort key of
  \<^verbatim>\<open>apps/code/src/types.ts\<close>, and the two utilities every consumer of them shares: the
  life-cycle status normaliser of \<^verbatim>\<open>apps/code/src/utils/lifecycleStatus.ts\<close> and the
  truncation of long texts of \<^verbatim>\<open>apps/code/src/utils/threadItems.ts\<close>.
  A field typed \<open>T | null | undefined\<close> is one option: no modelled operation tells the two
  absent values apart.
\<close>

section \<open>Data\<close>

datatype item_role = User | Assistant
datatype review_state = Started | Completed
datatype explore_status = Exploring | Explored
datatype explore_kind = ReadEntry | SearchEntry | ListEntry | RunEntry

record explore_entry =
  ent_kind :: explore_kind
  ent_label :: string
  ent_detail :: "string option"

record file_change =
  chg_path :: string
  chg_kind :: "string option"
  chg_diff :: "string option"

record tool_fields =
  toolType :: string
  tool_title :: string
  tool_detail :: string
  tool_status :: "string option"
  tool_output :: "string option"
  durationMs :: "rat option"
  checkpointId :: "string option"
  traceId :: "string option"
  errorClass :: "string option"
  recovered :: "bool option"
  batchId :: "string option"
  attempt :: "rat option"
  changes :: "file_change list option"

datatype conversation_item =
    Message (item_id: string) (item_role: item_role) (msg_text: string)
      (msg_images: "string list option")
  | Reasoning (item_id: string) (rs_summary: string) (rs_content: string)
  | DiffItem (item_id: string) (df_title: string) (df_diff: string) (df_status: "string option")
  | Review (item_id: string) (rv_state: review_state) (rv_text: string)
  | Explore (item_id: string) (ex_status: explore_status) (ex_entries: "explore_entry list")
  | Tool (item_id: string) (tool: tool_fields)

datatype item_kind = KMessage | KReasoning | KDiff | KReview | KExplore | KTool

fun kind_of :: "conversation_item \<Rightarrow> item_kind" where
  "kind_of (Message _ _ _ _) = KMessage"
| "kind_of (Reasoning _ _ _) = KReasoning"
| "kind_of (DiffItem _ _ _ _) = KDiff"
| "kind_of (Review _ _ _) = KReview"
| "kind_of (Explore _ _ _) = KExplore"
| "kind_of (Tool _ _) = KTool"

record thread_summary =
  thr_id :: string
  thr_name :: string
  thr_updatedAt :: int
  thr_status :: "string option"
  thr_archived :: "bool option"
  thr_lastActivityAt :: "int option"
  thr_agentRole :: "string option"

datatype sort_key = CreatedAt | UpdatedAt

abbreviation is_user_message :: "conversation_item \<Rightarrow> bool" where
  "is_user_message it \<equiv> (case it of Message _ User _ _ \<Rightarrow> True | _ \<Rightarrow> False)"

lemma is_user_message_eq:
  "is_user_message it \<longleftrightarrow> kind_of it = KMessage \<and> item_role it = User"
  by (cases it) (auto split: item_role.splits)

section \<open>Life-cycle status\<close>

datatype lifecycle_tone = ToneProcessing | ToneCompleted | ToneFailed | ToneUnknown

text \<open>The argument is \<open>unknown\<close> in the source; \<open>None\<close> stands for every non-string.\<close>

definition normalizeLifecycleStatus :: "string option \<Rightarrow> string" where
  "normalizeLifecycleStatus v =
     (let raw = (case v of Some s \<Rightarrow> js_trim s | None \<Rightarrow> [])
      in if raw = [] then []
         else let n = to_lower (filter (\<lambda>c. \<not> (c \<in> {CHR ''_'', CHR ''-''} \<or> is_js_space c)) raw)
         in if n \<in> {''inprogress'', ''running'', ''processing'', ''started'', ''pending'', ''queued''}
            then ''inProgress''
            else if n \<in> {''completed'', ''done'', ''success'', ''succeeded'', ''finished''}
            then ''completed''
            else if n \<in> {''failed'', ''fail'', ''error'', ''errored''} then ''failed''
            else raw)"

definition lifecycleStatusTone :: "string option \<Rightarrow> lifecycle_tone" where
  "lifecycleStatusTone s =
     (let n = normalizeLifecycleStatus s
      in if n = ''failed'' then ToneFailed
         else if n = ''inProgress'' then ToneProcessing
         else if n = ''completed'' then ToneCompleted
         else ToneUnknown)"

section \<open>Truncation\<close>

definition MAX_ITEMS_PER_THREAD :: nat where "MAX_ITEMS_PER_THREAD = 200"
definition MAX_ITEM_TEXT :: nat where "MAX_ITEM_TEXT = 20000"
definition TOOL_OUTPUT_RECENT_ITEMS :: nat where "TOOL_OUTPUT_RECENT_ITEMS = 40"

definition no_truncate_tool :: "string \<Rightarrow> bool" where
  "no_truncate_tool t \<longleftrightarrow> t \<in> {''fileChange'', ''commandExecution''}"

definition truncate_to :: "nat \<Rightarrow> string \<Rightarrow> string" where
  "truncate_to n s = (if length s \<le> n then s else take (n - 3) s @ ''...'')"

abbreviation truncateText :: "string \<Rightarrow> string" where
  "truncateText \<equiv> truncate_to MAX_ITEM_TEXT"

lemma length_truncate_to: "3 \<le> n \<Longrightarrow> length (truncate_to n s) \<le> n"
  by (auto simp: truncate_to_def)

lemma truncate_to_short: "length s \<le> n \<Longrightarrow> truncate_to n s = s"
  by (simp add: truncate_to_def)

lemma truncate_to_idem [simp]: "3 \<le> n \<Longrightarrow> truncate_to n (truncate_to n s) = truncate_to n s"
  by (intro truncate_to_short length_truncate_to)

lemma truncate_limits [simp]: "3 \<le> MAX_ITEM_TEXT"
  by (simp add: MAX_ITEM_TEXT_def)

lemma length_truncateText: "length (truncateText s) \<le> MAX_ITEM_TEXT"
  by (simp add: length_truncate_to)

text \<open>Truncation of an optional text: an absent or empty one is left alone.\<close>

definition truncate_opt :: "string option \<Rightarrow> string option" where
  "truncate_opt o' = (case o' of None \<Rightarrow> None | Some s \<Rightarrow> if s = [] then Some s else Some (truncateText s))"

lemma truncate_opt_eq: "truncate_opt o' = map_option truncateText o'"
  by (cases o') (auto simp: truncate_opt_def truncate_to_short)

lemma truncate_opt_idem [simp]: "truncate_opt (truncate_opt o') = truncate_opt o'"
  by (cases o') (simp_all add: truncate_opt_eq)

text \<open>The texts of an item all respect their limits, except where truncation is switched off.\<close>

definition fits_opt :: "nat \<Rightarrow> string option \<Rightarrow> bool" where
  "fits_opt n o' = (case o' of None \<Rightarrow> True | Some s \<Rightarrow> length s \<le> n)"

lemma fits_truncate_opt [simp]: "fits_opt MAX_ITEM_TEXT (truncate_opt o')"
  by (cases o') (simp_all add: fits_opt_def truncate_opt_eq length_truncateText)

lemma truncate_opt_fits: "fits_opt MAX_ITEM_TEXT o' \<Longrightarrow> truncate_opt o' = o'"
  by (cases o') (simp_all add: fits_opt_def truncate_opt_eq truncate_to_short)

end
