(* ===== verification/JsValue.thy ===== *)
theory JsValue
  imports Complex_Main JsString
begin

text \<open>
  Untyped values, as the tools of the web bridge get them from an agent, and the helpers of
  \<^verbatim>\<open>src/apps/code/src/services/webMcpBridge.ts\<close> that read them.  A number is a rational, or
  \<open>None\<close> when it is not finite.
\<close>

datatype js_value =
  Undefined | Null | Bool bool | Num "rat option" | Str string | Arr "js_value list"
| Obj "(string \<times> js_value) list"

type_synonym js_object = "(string \<times> js_value) list"

text \<open>\<open>record.field\<close>\<close>

definition field :: "js_object \<Rightarrow> string \<Rightarrow> js_value" where
  "field r k = nullish (map_of r k) Undefined"

text \<open>\<open>typeof v === "string" ? v : null\<close> and the same for booleans and finite numbers\<close>

fun as_string :: "js_value \<Rightarrow> string option" where
  "as_string (Str s) = Some s"
| "as_string _ = None"

fun as_bool :: "js_value \<Rightarrow> bool option" where
  "as_bool (Bool b) = Some b"
| "as_bool _ = None"

fun as_number :: "js_value \<Rightarrow> rat option" where
  "as_number (Num n) = n"
| "as_number _ = None"

fun toOptionalRecord :: "js_value \<Rightarrow> js_object option" where
  "toOptionalRecord (Obj r) = Some r"
| "toOptionalRecord _ = None"

fun isArray :: "js_value \<Rightarrow> bool" where
  "isArray (Arr _) = True"
| "isArray _ = False"

definition toNonEmptyString :: "js_value \<Rightarrow> string option" where
  "toNonEmptyString v =
     (case as_string v of None \<Rightarrow> None
      | Some s \<Rightarrow> let trimmed = js_trim s in if trimmed \<noteq> [] then Some trimmed else None)"

text \<open>\<open>s.split(c)\<close> for a single character\<close>

fun split_char :: "char \<Rightarrow> string \<Rightarrow> string list" where
  "split_char c [] = [[]]"
| "split_char c (x # xs) =
     (if x = c then [] # split_char c xs
      else case split_char c xs of [] \<Rightarrow> [[x]] | p # ps \<Rightarrow> (x # p) # ps)"

definition trimmed_entries :: "string list \<Rightarrow> string list" where
  "trimmed_entries xs = filter (\<lambda>s. s \<noteq> []) (map js_trim xs)"

fun toStringArray :: "js_value \<Rightarrow> string list" where
  "toStringArray (Arr vs) = trimmed_entries (List.map_filter as_string vs)"
| "toStringArray (Str s) = trimmed_entries (split_char (CHR '','') s)"
| "toStringArray _ = []"

definition toPositiveInteger :: "js_value \<Rightarrow> int option" where
  "toPositiveInteger v =
     (case as_number v of None \<Rightarrow> None | Some n \<Rightarrow> if \<lfloor>n\<rfloor> \<le> 0 then None else Some \<lfloor>n\<rfloor>)"

text \<open>\<open>Math.trunc\<close>\<close>

definition js_trunc :: "rat \<Rightarrow> int" where
  "js_trunc n = (if 0 \<le> n then \<lfloor>n\<rfloor> else \<lceil>n\<rceil>)"

definition normalizeRuntimeAccessMode :: "js_value \<Rightarrow> string" where
  "normalizeRuntimeAccessMode v =
     (if v = Str ''read-only'' then ''read-only'' else if v = Str ''full-access'' then ''full-access''
      else ''on-request'')"

definition normalizeRuntimeReasonEffort :: "js_value \<Rightarrow> string option" where
  "normalizeRuntimeReasonEffort v =
     (case as_string v of None \<Rightarrow> None
      | Some s \<Rightarrow> if s \<in> {''low'', ''medium'', ''high'', ''xhigh''} then Some s else None)"

text \<open>\<open>Map.prototype.set\<close>: a key that is already there keeps its place.\<close>

definition map_put :: "'k \<Rightarrow> 'v \<Rightarrow> ('k \<times> 'v) list \<Rightarrow> ('k \<times> 'v) list" where
  "map_put k v m =
     (if k \<in> fst ` set m then map (\<lambda>(k', v'). if k' = k then (k, v) else (k', v')) m else m @ [(k, v)])"

section \<open>Errors\<close>

text \<open>What a call throws: the message, or the text of the value when it is no \<open>Error\<close>, and its code.\<close>

record thrown =
  th_message :: string
  th_code :: "string option"

definition createRuntimeError :: "string option \<Rightarrow> string \<Rightarrow> thrown" where
  "createRuntimeError code message =
     (let trimmed = js_trim (nullish code [])
      in \<lparr>th_message = message,
          th_code = Some (if trimmed \<noteq> [] then trimmed else ''runtime.validation.error.unknown'')\<rparr>)"

definition readRuntimeCode :: "thrown \<Rightarrow> string option" where
  "readRuntimeCode e =
     (let trimmed = js_trim (nullish (th_code e) []) in if trimmed \<noteq> [] then Some trimmed else None)"

definition plain_error :: "string \<Rightarrow> thrown" where
  "plain_error message = \<lparr>th_message = message, th_code = None\<rparr>"

section \<open>Lemmas\<close>

lemma map_of_replace:
  "map_of (map (\<lambda>(k', v'). if k' = k then (k, v) else (k', v')) m) x =
     (if x = k then (if k \<in> fst ` set m then Some v else None) else map_of m x)"
proof (induction m)
  case (Cons p m)
  obtain k' v' where p: "p = (k', v')" by (cases p)
  from Cons show ?case unfolding p by (cases "k' = k"; cases "x = k"; cases "x = k'") simp_all
qed simp

lemma map_of_map_put [simp]: "map_of (map_put k v m) = (map_of m)(k \<mapsto> v)"
proof
  fix x
  show "map_of (map_put k v m) x = ((map_of m)(k \<mapsto> v)) x"
  proof (cases "k \<in> fst ` set m")
    case True
    then show ?thesis by (simp add: map_put_def map_of_replace)
  next
    case False
    then have "map_of m k = None" by (simp add: map_of_eq_None_iff)
    with False show ?thesis by (cases "x = k") (simp_all add: map_put_def map_add_def split: option.split)
  qed
qed

lemma keys_map_put: "map fst (map_put k v m) = (if k \<in> fst ` set m then map fst m else map fst m @ [k])"
  by (auto simp: map_put_def)

lemma distinct_map_put: "distinct (map fst m) \<Longrightarrow> distinct (map fst (map_put k v m))"
  by (auto simp: keys_map_put)

lemma trimmed_entries_facts: "s \<in> set (trimmed_entries xs) \<Longrightarrow> s \<noteq> [] \<and> js_trim s = s"
  by (auto simp: trimmed_entries_def)

end
