(* ===== verification/JsNumber.thy ===== *)
theory JsNumber
  imports Complex_Main "HOL-Library.Log_Nat"
begin

text \<open>
  JavaScript's numbers where they are not integers: a number is a rational, and an arithmetic
  operation is the exact operation followed by \<open>dbl\<close>, which rounds to the nearest number with a
  53-bit significand, ties to even.  Subnormal numbers, overflow and NaN are outside the model; the
  modelled code computes quotients and sums of small counts.  A literal such as \<open>0.45\<close> is
  \<open>dbl (45 / 100)\<close>.
\<close>

text \<open>The binary exponent of a positive number, \<open>2 ^ e \<le> x < 2 ^ (e + 1)\<close>.\<close>

definition binary_exponent :: "rat \<Rightarrow> int" where
  "binary_exponent x = (if 1 \<le> x then bitlen \<lfloor>x\<rfloor> - 1 else - bitlen (\<lceil>1 / x\<rceil> - 1))"

definition round_even :: "rat \<Rightarrow> int" where
  "round_even x =
     (let f = \<lfloor>x\<rfloor>; d = x - of_int f
      in if d < 1 / 2 then f else if d > 1 / 2 then f + 1 else if even f then f else f + 1)"

definition dbl :: "rat \<Rightarrow> rat" where
  "dbl x =
     (let y = \<bar>x\<bar>; unit = 2 powi (binary_exponent y - 52)
      in if x = 0 then 0 else sgn x * (of_int (round_even (y / unit)) * unit))"

text \<open>\<open>Math.round\<close>: the nearest integer, ties towards positive infinity.\<close>

definition math_round :: "rat \<Rightarrow> int" where
  "math_round x = \<lfloor>x + 1 / 2\<rfloor>"

section \<open>Rounding to an integer\<close>

lemma round_even_of_int [simp]: "round_even (of_int n) = n"
  by (simp add: round_even_def)

lemma round_even_bounds: "\<lfloor>x\<rfloor> \<le> round_even x" "round_even x \<le> \<lfloor>x\<rfloor> + 1"
  by (simp_all add: round_even_def Let_def)

lemma round_even_mono:
  assumes "x \<le> y"
  shows "round_even x \<le> round_even y"
proof (cases "\<lfloor>x\<rfloor> = \<lfloor>y\<rfloor>")
  case True
  with assms show ?thesis unfolding round_even_def Let_def True by auto
next
  case False
  then have "\<lfloor>x\<rfloor> + 1 \<le> \<lfloor>y\<rfloor>" using floor_mono [OF assms] by linarith
  then show ?thesis using round_even_bounds [of x] round_even_bounds [of y] by linarith
qed

section \<open>The exponent\<close>

lemma rat_power_of_nat: "(2::rat) ^ n = of_int (2 ^ n)"
  by simp

lemma binary_exponent_bounds:
  assumes "0 < x"
  shows "2 powi binary_exponent x \<le> x" "x < 2 powi (binary_exponent x + 1)"
proof -
  have "2 powi binary_exponent x \<le> x \<and> x < 2 powi (binary_exponent x + 1)"
  proof (cases "1 \<le> x")
    case True
    then have pos: "0 < \<lfloor>x\<rfloor>" by linarith
    define k where "k = nat (bitlen \<lfloor>x\<rfloor> - 1)"
    from pos have k: "bitlen \<lfloor>x\<rfloor> = int k + 1"
      using bitlen_bounds [OF pos] bitlen_nonneg [of "\<lfloor>x\<rfloor>"]
      by (cases "bitlen \<lfloor>x\<rfloor> = 0") (auto simp: k_def)
    have "2 ^ k \<le> \<lfloor>x\<rfloor>" "\<lfloor>x\<rfloor> < 2 ^ Suc k"
      using bitlen_bounds [OF pos] by (simp_all add: k nat_add_distrib)
    then have "(2::rat) ^ k \<le> x" "x < 2 ^ Suc k"
      unfolding rat_power_of_nat by (simp_all only: le_floor_iff floor_less_iff)
    moreover have "binary_exponent x = int k" using True k by (simp add: binary_exponent_def)
    ultimately show ?thesis by (simp add: power_int_add)
  next
    case False
    then have "1 < 1 / x" using assms by simp
    define n where "n = \<lceil>1 / x\<rceil> - 1"
    have pos: "0 < n" using \<open>1 < 1 / x\<close> unfolding n_def by linarith
    define k where "k = nat (bitlen n - 1)"
    from pos have k: "bitlen n = int k + 1"
      using bitlen_bounds [OF pos] bitlen_nonneg [of n]
      by (cases "bitlen n = 0") (auto simp: k_def)
    have "2 ^ k \<le> n" "n < 2 ^ Suc k"
      using bitlen_bounds [OF pos] by (simp_all add: k nat_add_distrib)
    then have "2 ^ k < \<lceil>1 / x\<rceil>" "\<lceil>1 / x\<rceil> \<le> 2 ^ Suc k" unfolding n_def by linarith+
    then have *: "(2::rat) ^ k < 1 / x" "1 / x \<le> 2 ^ Suc k"
      unfolding rat_power_of_nat by (simp_all only: less_ceiling_iff ceiling_le_iff)
    have "binary_exponent x = - int (Suc k)"
      using False k by (simp add: binary_exponent_def n_def)
    then have "2 powi binary_exponent x = inverse ((2::rat) ^ Suc k)"
      "2 powi (binary_exponent x + 1) = inverse ((2::rat) ^ k)"
      by (simp_all only: power_int_minus power_int_of_nat) (simp add: power_int_minus)
    moreover have "inverse ((2::rat) ^ Suc k) \<le> x" "x < inverse (2 ^ k)"
      using * assms by (simp_all add: field_simps)
    ultimately show ?thesis by simp
  qed
  then show "2 powi binary_exponent x \<le> x" "x < 2 powi (binary_exponent x + 1)" by simp_all
qed

lemma power_two_less_D: "(2::rat) powi a < 2 powi b \<Longrightarrow> a < b"
  by (metis linorder_not_less one_le_numeral power_int_increasing)

lemma binary_exponent_unique:
  assumes "0 < x" "2 powi e \<le> x" "x < 2 powi (e + 1)"
  shows "binary_exponent x = e"
proof -
  let ?f = "binary_exponent x"
  have "(2::rat) powi ?f < 2 powi (e + 1)" "(2::rat) powi e < 2 powi (?f + 1)"
    using binary_exponent_bounds [OF assms(1)] assms(2,3) by linarith+
  then have "?f < e + 1" "e < ?f + 1" by (blast dest: power_two_less_D)+
  then show ?thesis by linarith
qed

lemma binary_exponent_mono:
  assumes "0 < x" "x \<le> y"
  shows "binary_exponent x \<le> binary_exponent y"
proof -
  have "(2::rat) powi binary_exponent x < 2 powi (binary_exponent y + 1)"
    using binary_exponent_bounds [of x] binary_exponent_bounds [of y] assms by linarith
  then have "binary_exponent x < binary_exponent y + 1" by (rule power_two_less_D)
  then show ?thesis by linarith
qed

section \<open>Rounding to a double\<close>

lemma dbl_0 [simp]: "dbl 0 = 0"
  by (simp add: dbl_def)

text \<open>For a positive number: an integer significand of 53 bits times a power of two.\<close>

definition significand :: "rat \<Rightarrow> int" where
  "significand x = round_even (x / 2 powi (binary_exponent x - 52))"

lemma dbl_pos: "0 < x \<Longrightarrow> dbl x = of_int (significand x) * 2 powi (binary_exponent x - 52)"
  by (simp add: dbl_def significand_def Let_def)

lemma scaled_bounds:
  assumes "0 < x"
  shows "2 ^ 52 \<le> x / 2 powi (binary_exponent x - 52)" "x / 2 powi (binary_exponent x - 52) \<le> 2 ^ 53"
proof -
  let ?u = "2 powi (binary_exponent x - 52) :: rat"
  have "2 powi binary_exponent x = 2 ^ 52 * ?u" "2 powi (binary_exponent x + 1) = 2 ^ 53 * ?u"
    by (simp_all add: power_int_diff power_int_add)
  moreover have "0 < ?u" by simp
  ultimately show "2 ^ 52 \<le> x / ?u" "x / ?u \<le> 2 ^ 53"
    using binary_exponent_bounds [OF assms] by (simp_all add: pos_le_divide_eq pos_divide_le_eq)
qed

lemma significand_bounds:
  assumes "0 < x"
  shows "2 ^ 52 \<le> significand x" "significand x \<le> 2 ^ 53"
  using round_even_mono [OF scaled_bounds(1) [OF assms]] round_even_mono [OF scaled_bounds(2) [OF assms]]
  unfolding significand_def rat_power_of_nat round_even_of_int by simp_all

lemma dbl_bounds:
  assumes "0 < x"
  shows "2 powi binary_exponent x \<le> dbl x" "dbl x \<le> 2 powi (binary_exponent x + 1)"
proof -
  let ?u = "2 powi (binary_exponent x - 52) :: rat"
  have u: "2 powi binary_exponent x = of_int (2 ^ 52) * ?u" "2 powi (binary_exponent x + 1) = of_int (2 ^ 53) * ?u"
    by (simp_all add: power_int_diff power_int_add)
  show "2 powi binary_exponent x \<le> dbl x" "dbl x \<le> 2 powi (binary_exponent x + 1)"
    unfolding u dbl_pos [OF assms] using significand_bounds [OF assms]
    by (intro mult_right_mono; simp only: of_int_le_iff; simp)+
qed

lemma dbl_nonneg: "0 \<le> x \<Longrightarrow> 0 \<le> dbl x"
  using dbl_bounds(1) [of x] by (cases "x = 0") (auto intro: order_trans [rotated])

lemma dbl_mono:
  assumes "0 \<le> x" "x \<le> y"
  shows "dbl x \<le> dbl y"
proof (cases "x = 0")
  case True
  then show ?thesis using dbl_nonneg [of y] assms by simp
next
  case False
  with assms have pos: "0 < x" "0 < y" by simp_all
  consider "binary_exponent x = binary_exponent y" | "binary_exponent x + 1 \<le> binary_exponent y"
    using binary_exponent_mono [OF pos(1) assms(2)] by linarith
  then show ?thesis
  proof cases
    case 1
    have "significand x \<le> significand y"
      unfolding significand_def 1 using assms(2) by (intro round_even_mono divide_right_mono) simp_all
    then show ?thesis unfolding dbl_pos [OF pos(1)] dbl_pos [OF pos(2)] 1 by (simp add: mult_right_mono)
  next
    case 2
    have "dbl x \<le> 2 powi (binary_exponent x + 1)" by (rule dbl_bounds(2) [OF pos(1)])
    also have "\<dots> \<le> 2 powi binary_exponent y" using 2 by (intro power_int_increasing) simp_all
    also have "\<dots> \<le> dbl y" by (rule dbl_bounds(1) [OF pos(2)])
    finally show ?thesis .
  qed
qed

lemma dbl_of_scaled:
  assumes "2 powi e \<le> x" "x < 2 powi (e + 1)" "x = of_int m * 2 powi (e - 52)"
  shows "dbl x = x"
proof -
  have pos: "0 < x" using assms(1) by (rule order_less_le_trans [rotated]) simp
  have e: "binary_exponent x = e" by (rule binary_exponent_unique [OF pos assms(1,2)])
  have "x / 2 powi (e - 52) = of_int m" by (simp add: assms(3))
  then show ?thesis unfolding dbl_pos [OF pos] significand_def e by (simp add: assms(3))
qed

lemma dbl_idem [simp]:
  assumes "0 \<le> x"
  shows "dbl (dbl x) = dbl x"
proof (cases "x = 0")
  case False
  with assms have pos: "0 < x" by simp
  let ?e = "binary_exponent x"
  show ?thesis
  proof (cases "dbl x = 2 powi (?e + 1)")
    case True
    show ?thesis
      by (rule dbl_of_scaled [of "?e + 1" _ "2 ^ 52"]) (simp_all add: True power_int_diff power_int_add)
  next
    case False
    with dbl_bounds [OF pos] show ?thesis
      by (intro dbl_of_scaled [of ?e _ "significand x"]) (simp_all add: dbl_pos [OF pos, symmetric])
  qed
qed simp

lemma dbl_1 [simp]: "dbl 1 = 1"
  by (rule dbl_of_scaled [of 0 _ "2 ^ 52"]) (simp_all add: power_int_minus)

text \<open>A quotient of two numbers, the first not larger, is a number between zero and one.\<close>

lemma dbl_quotient:
  assumes "0 \<le> x" "x \<le> y" "0 < y"
  shows "0 \<le> dbl (x / y)" "dbl (x / y) \<le> 1"
  using assms dbl_nonneg [of "x / y"] dbl_mono [of "x / y" 1] by simp_all

end
