(* ===== verification/JsText.thy ===== *)
theory JsText
  imports JsValue JsNumber
begin

text \<open>
  Conversions between untyped values, numbers and texts, as the JavaScript library does them: truthiness
  and \<open>??\<close>, \<open>Number(v)\<close>, \<open>String(v)\<close> and \<open>JSON.stringify(v, null, 2)\<close>.  A numeric literal is read exactly and
  then rounded with \<open>dbl\<close>; a result that is not finite is \<open>None\<close>.  The text of a number is computed for
  integers below \<open>10^21\<close>; that of other numbers is the parameter \<open>num\<close>.  An object is one without a
  \<open>toString\<close> or \<open>toJSON\<close> of its own, and its fields are listed in the order in which the engine enumerates them.
\<close>

section \<open>Truthiness\<close>

fun js_falsy :: "js_value \<Rightarrow> bool" where
  "js_falsy Undefined = True"
| "js_falsy Null = True"
| "js_falsy (Bool b) = (\<not> b)"
| "js_falsy (Num n) = (n = None \<or> n = Some 0)"
| "js_falsy (Str s) = (s = [])"
| "js_falsy _ = False"

definition js_nullish :: "js_value \<Rightarrow> js_value \<Rightarrow> js_value" where
  "js_nullish a b = (if a = Undefined \<or> a = Null then b else a)"

text \<open>\<open>record.a ?? record.b\<close>\<close>

definition field2 :: "js_object \<Rightarrow> string \<Rightarrow> string \<Rightarrow> js_value" where
  "field2 r a b = js_nullish (field r a) (field r b)"

section \<open>Numbers from texts\<close>

definition digit_value :: "char \<Rightarrow> nat" where
  "digit_value c =
     (let n = (of_char c :: nat)
      in if n \<le> 57 then n - 48 else if n \<le> 90 then n - 55 else n - 87)"

definition radix_digit :: "nat \<Rightarrow> char \<Rightarrow> bool" where
  "radix_digit b c =
     (let n = (of_char c :: nat)
      in (48 \<le> n \<and> n \<le> 57 \<or> 65 \<le> n \<and> n \<le> 70 \<or> 97 \<le> n \<and> n \<le> 102) \<and> digit_value c < b)"

definition radix_value :: "nat \<Rightarrow> string \<Rightarrow> nat" where
  "radix_value b s = foldl (\<lambda>n c. b * n + digit_value c) 0 s"

text \<open>The exponent of a literal: nothing, or \<open>e\<close> with an integer.\<close>

definition signed_digits :: "string \<Rightarrow> int option" where
  "signed_digits s =
     (let d = (case s of c # r \<Rightarrow> if c \<in> {CHR ''+'', CHR ''-''} then r else s | [] \<Rightarrow> [])
      in if d = [] \<or> \<not> list_all is_digit d then None
         else Some ((if hd s = CHR ''-'' then - 1 else 1) * int (radix_value 10 d)))"

definition exponent_of :: "string \<Rightarrow> int option" where
  "exponent_of s =
     (case s of [] \<Rightarrow> Some 0 | c # r \<Rightarrow> if c \<in> {CHR ''e'', CHR ''E''} then signed_digits r else None)"

text \<open>A literal without its sign: digits with an optional point among them, and an exponent.\<close>

definition decimal_literal :: "string \<Rightarrow> rat option" where
  "decimal_literal s =
     (let whole = takeWhile is_digit s; rest = dropWhile is_digit s;
          fraction = (case rest of c # r \<Rightarrow> if c = CHR ''.'' then takeWhile is_digit r else [] | [] \<Rightarrow> []);
          tail = (case rest of c # r \<Rightarrow> if c = CHR ''.'' then dropWhile is_digit r else rest | [] \<Rightarrow> [])
      in if whole @ fraction = [] then None
         else map_option (\<lambda>e. of_nat (radix_value 10 (whole @ fraction)) * 10 powi (e - int (length fraction)))
           (exponent_of tail))"

definition radix_literal :: "string \<Rightarrow> nat option" where
  "radix_literal s =
     (case s of
        CHR ''0'' # c # d \<Rightarrow>
          (let b = (if c \<in> {CHR ''x'', CHR ''X''} then 16 else if c \<in> {CHR ''o'', CHR ''O''} then 8
                    else if c \<in> {CHR ''b'', CHR ''B''} then 2 else 0)
           in if d \<noteq> [] \<and> list_all (radix_digit b) d then Some (radix_value b d) else None)
      | _ \<Rightarrow> None)"

text \<open>Rounding to a finite number.\<close>

definition finite_number :: "rat \<Rightarrow> rat option" where
  "finite_number x = (let y = dbl x in if \<bar>y\<bar> < 2 ^ 1024 then Some y else None)"

definition js_number_of_text :: "string \<Rightarrow> rat option" where
  "js_number_of_text s =
     (let t = js_trim s
      in if t = [] then Some 0
         else case radix_literal t of
           Some n \<Rightarrow> finite_number (of_nat n)
         | None \<Rightarrow> (case t of
             CHR ''-'' # r \<Rightarrow> Option.bind (map_option uminus (decimal_literal r)) finite_number
           | CHR ''+'' # r \<Rightarrow> Option.bind (decimal_literal r) finite_number
           | _ \<Rightarrow> Option.bind (decimal_literal t) finite_number))"

section \<open>Texts of values\<close>

type_synonym number_text = "rat option \<Rightarrow> string"

definition js_number_text :: "number_text \<Rightarrow> rat option \<Rightarrow> string" where
  "js_number_text num n =
     (case n of Some x \<Rightarrow> if x = of_int \<lfloor>x\<rfloor> \<and> \<bar>x\<bar> < 10 ^ 21 then show_int \<lfloor>x\<rfloor> else num n
      | None \<Rightarrow> num n)"

text \<open>\<open>String(v)\<close>\<close>

fun js_text :: "number_text \<Rightarrow> js_value \<Rightarrow> string" where
  "js_text num Undefined = ''undefined''"
| "js_text num Null = ''null''"
| "js_text num (Bool b) = (if b then ''true'' else ''false'')"
| "js_text num (Num n) = js_number_text num n"
| "js_text num (Str s) = s"
| "js_text num (Arr vs) =
     js_join '','' (map (\<lambda>v. if v = Undefined \<or> v = Null then [] else js_text num v) vs)"
| "js_text num (Obj r) = ''[object Object]''"

text \<open>\<open>Number(v)\<close>\<close>

fun js_number_of :: "number_text \<Rightarrow> js_value \<Rightarrow> rat option" where
  "js_number_of num Undefined = None"
| "js_number_of num Null = Some 0"
| "js_number_of num (Bool b) = Some (if b then 1 else 0)"
| "js_number_of num (Num n) = n"
| "js_number_of num (Str s) = js_number_of_text s"
| "js_number_of num (Arr vs) = js_number_of_text (js_text num (Arr vs))"
| "js_number_of num (Obj r) = None"

text \<open>The characters of a JSON string.\<close>

definition json_hex :: "nat \<Rightarrow> char" where
  "json_hex d = (if d < 10 then char_of (48 + d) else char_of (87 + d))"

definition json_char :: "char \<Rightarrow> string" where
  "json_char c =
     (let n = (of_char c :: nat)
      in if c = CHR 0x22 then [CHR 0x5C, CHR 0x22]
         else if c = CHR 0x5C then [CHR 0x5C, CHR 0x5C]
         else if n = 8 then CHR 0x5C # ''b'' else if n = 9 then CHR 0x5C # ''t''
         else if n = 10 then CHR 0x5C # ''n'' else if n = 12 then CHR 0x5C # ''f''
         else if n = 13 then CHR 0x5C # ''r''
         else if n < 32 then CHR 0x5C # ''u00'' @ [json_hex (n div 16), json_hex (n mod 16)]
         else [c])"

definition json_string :: "string \<Rightarrow> string" where
  "json_string s = CHR 0x22 # concat (map json_char s) @ [CHR 0x22]"

text \<open>The parts of an array or object, one to a line, between its brackets.\<close>

definition json_block :: "string \<Rightarrow> char \<Rightarrow> char \<Rightarrow> string list \<Rightarrow> string" where
  "json_block pad left right parts =
     (if parts = [] then [left, right]
      else [left] @ [CHR 0x0A] @ js_join ('','' @ [CHR 0x0A]) (map (\<lambda>p. pad @ ''  '' @ p) parts)
        @ [CHR 0x0A] @ pad @ [right])"

text \<open>\<open>JSON.stringify(v, null, 2)\<close> of a value on a line that starts with \<open>pad\<close>.\<close>

fun json_text :: "number_text \<Rightarrow> string \<Rightarrow> js_value \<Rightarrow> string" where
  "json_text num pad Undefined = ''null''"
| "json_text num pad Null = ''null''"
| "json_text num pad (Bool b) = (if b then ''true'' else ''false'')"
| "json_text num pad (Num n) = (if n = None then ''null'' else js_number_text num n)"
| "json_text num pad (Str s) = json_string s"
| "json_text num pad (Arr vs) =
     json_block pad (CHR ''['') (CHR '']'') (map (json_text num (pad @ ''  '')) vs)"
| "json_text num pad (Obj r) =
     json_block pad (CHR ''{'') (CHR ''}'')
       (concat (map (\<lambda>e. if snd e = Undefined then []
          else [json_string (fst e) @ '': '' @ json_text num (pad @ ''  '') (snd e)]) r))"

section \<open>Word boundaries\<close>

definition word_char :: "char \<Rightarrow> bool" where
  "word_char c = (is_digit c \<or> is_lower c \<or> is_upper c \<or> c = CHR ''_'')"

text \<open>\<open>\b\<close> before and after a word, in a pattern whose match is only tested or is at the start.\<close>

definition Word_start :: re where "Word_start = Altn Bol (Chr (\<lambda>c. \<not> word_char c))"

definition Word_end :: re where "Word_end = Altn Eol (LookAhead (Chr (\<lambda>c. \<not> word_char c)))"

section \<open>Reading a value that may be anything\<close>

text \<open>\<open>v.field\<close> throws for \<open>undefined\<close> and \<open>null\<close>; \<open>v?.field\<close> does not.\<close>

datatype type_error = TypeError

fun object_of :: "js_value \<Rightarrow> type_error + js_object" where
  "object_of Undefined = Inl TypeError"
| "object_of Null = Inl TypeError"
| "object_of (Obj r) = Inr r"
| "object_of _ = Inr []"

definition field_if_any :: "js_value \<Rightarrow> string \<Rightarrow> js_value" where
  "field_if_any v k = (case v of Obj r \<Rightarrow> field r k | _ \<Rightarrow> Undefined)"

fun array_of :: "js_value \<Rightarrow> js_value list" where
  "array_of (Arr vs) = vs"
| "array_of _ = []"

text \<open>Mapping a function that may throw: the first error ends it.\<close>

fun map_throwing :: "('a \<Rightarrow> 'e + 'b) \<Rightarrow> 'a list \<Rightarrow> 'e + 'b list" where
  "map_throwing f [] = Inr []"
| "map_throwing f (x # xs) =
     (case f x of Inl e \<Rightarrow> Inl e
      | Inr y \<Rightarrow> (case map_throwing f xs of Inl e \<Rightarrow> Inl e | Inr ys \<Rightarrow> Inr (y # ys)))"

lemma map_throwing_Inr: "map_throwing f xs = Inr ys \<Longrightarrow> list_all2 (\<lambda>x y. f x = Inr y) xs ys"
  by (induction xs arbitrary: ys) (auto split: sum.splits)

lemma map_throwing_append:
  "map_throwing f (xs @ ys) = (case map_throwing f xs of Inl e \<Rightarrow> Inl e
     | Inr us \<Rightarrow> (case map_throwing f ys of Inl e \<Rightarrow> Inl e | Inr vs \<Rightarrow> Inr (us @ vs)))"
  by (induction xs) (auto split: sum.splits)

end
