(* ===== verification/TaskGraph.thy ===== *)
theory TaskGraph
  imports JsText
begin

text \<open>
  The graph of the tasks that a plan distributes:
  \<^verbatim>\<open>src/apps/code/src/features/plan/types/distributedGraph.ts\<close>, which reads it from an untyped value under
  several spellings, summarises and groups it, and the labels of
  \<^verbatim>\<open>features/plan/components/distributedTaskGraphStatus.ts\<close>.  \<open>localeCompare\<close> is the parameter \<open>cmp\<close>.
\<close>

section \<open>Data\<close>

datatype graph_mode = ModeRuntime | ModeLocalCli | ModeHybrid

datatype node_status =
  NodePending | NodeQueued | NodeRunning | NodeCompleted | NodeFailed | NodeBlocked | NodeCanceled | NodeUnknown

record graph_node =
  gn_id :: string
  gn_title :: string
  gn_status :: node_status
  gn_backendId :: "string option"
  gn_backendLabel :: "string option"
  gn_group :: "string option"
  gn_queueDepth :: "rat option"
  gn_attempt :: "rat option"
  gn_maxAttempts :: "rat option"
  gn_startedAt :: "rat option"
  gn_finishedAt :: "rat option"
  gn_parentId :: "string option"
  gn_metadata :: "js_object option"

record graph_edge =
  ge_fromId :: string
  ge_toId :: string
  ge_kind :: "string option"

record graph_summary =
  gs_totalNodes :: rat
  gs_runningNodes :: rat
  gs_completedNodes :: rat
  gs_failedNodes :: rat
  gs_queueDepth :: "rat option"
  gs_placementFailuresTotal :: "rat option"
  gs_accessMode :: "string option"
  gs_routedProvider :: "string option"
  gs_executionMode :: "graph_mode option"
  gs_reason :: "string option"

record task_graph =
  tg_graphId :: "string option"
  tg_updatedAt :: "rat option"
  tg_nodes :: "graph_node list"
  tg_edges :: "graph_edge list"
  tg_summary :: graph_summary

record node_group =
  ng_id :: string
  ng_label :: string
  ng_nodes :: "graph_node list"

section \<open>Reading\<close>

text \<open>The file's \<open>asRecord\<close> and \<open>asString\<close> are \<open>toOptionalRecord\<close> and \<open>toNonEmptyString\<close>.\<close>

fun finite_number_of :: "js_value \<Rightarrow> rat option" where
  "finite_number_of (Num n) = n"
| "finite_number_of (Str s) = (if js_trim s \<noteq> [] then js_number_of_text s else None)"
| "finite_number_of _ = None"

definition asStringList :: "js_value \<Rightarrow> string list" where
  "asStringList v = List.map_filter toNonEmptyString (array_of v)"

definition normalizeExecutionMode :: "js_value \<Rightarrow> graph_mode option" where
  "normalizeExecutionMode v =
     (case as_string v of None \<Rightarrow> None
      | Some s \<Rightarrow>
          let normalized = to_lower (js_trim s)
          in if normalized = ''runtime'' then Some ModeRuntime
             else if normalized \<in> {''local-cli'', ''local_cli''} then Some ModeLocalCli
             else if normalized = ''hybrid'' then Some ModeHybrid else None)"

definition normalizeNodeStatus :: "js_value \<Rightarrow> node_status" where
  "normalizeNodeStatus v =
     (let raw = (case as_string v of None \<Rightarrow> [] | Some s \<Rightarrow> to_lower (js_trim s))
      in if raw = [] then NodeUnknown
         else if raw \<in> {''in_progress'', ''in-progress'', ''inprogress''} then NodeRunning
         else if raw \<in> {''done'', ''success''} then NodeCompleted
         else if raw = ''cancelled'' then NodeCanceled
         else nullish (map_of [(''pending'', NodePending), (''queued'', NodeQueued), (''running'', NodeRunning),
             (''completed'', NodeCompleted), (''failed'', NodeFailed), (''blocked'', NodeBlocked),
             (''canceled'', NodeCanceled)] raw) NodeUnknown)"

text \<open>\<open>asString(a) ?? asString(b) ?? ...\<close>\<close>

definition first_text :: "js_object \<Rightarrow> string list \<Rightarrow> string option" where
  "first_text r ks = fold (\<lambda>k found. nullish2 found (toNonEmptyString (field r k))) ks None"

definition normalizeGraphNode :: "nat \<times> js_value \<Rightarrow> graph_node option" where
  "normalizeGraphNode entry =
     (case toOptionalRecord (snd entry) of None \<Rightarrow> None
      | Some r \<Rightarrow>
          let i = nullish (first_text r [''id'', ''nodeId'', ''node_id'', ''taskId'', ''task_id''])
                (''node-'' @ show_nat (fst entry + 1))
          in Some \<lparr>gn_id = i,
               gn_title = nullish (first_text r [''title'', ''label'', ''name'', ''role'', ''id'', ''taskId'']) i,
               gn_status = normalizeNodeStatus (field r ''status''),
               gn_backendId = toNonEmptyString (field2 r ''backendId'' ''backend_id''),
               gn_backendLabel = toNonEmptyString (field2 r ''backendLabel'' ''backend_label''),
               gn_group = toNonEmptyString (field r ''group''),
               gn_queueDepth = finite_number_of (field2 r ''queueDepth'' ''queue_depth''),
               gn_attempt = finite_number_of (field r ''attempt''),
               gn_maxAttempts = finite_number_of (field2 r ''maxAttempts'' ''max_attempts''),
               gn_startedAt = finite_number_of (field2 r ''startedAt'' ''started_at''),
               gn_finishedAt = finite_number_of (field2 r ''finishedAt'' ''finished_at''),
               gn_parentId = toNonEmptyString (js_nullish (field2 r ''parentId'' ''parent_id'')
                 (field2 r ''parentTaskId'' ''parent_task_id'')),
               gn_metadata = toOptionalRecord (field r ''metadata'')\<rparr>)"

definition normalizeGraphEdge :: "js_value \<Rightarrow> graph_edge option" where
  "normalizeGraphEdge entry =
     (case toOptionalRecord entry of None \<Rightarrow> None
      | Some r \<Rightarrow>
          let fromId = toNonEmptyString (js_nullish (field2 r ''fromId'' ''from_id'') (field2 r ''sourceId'' ''source_id''));
              toId = toNonEmptyString (js_nullish (field2 r ''toId'' ''to_id'') (field2 r ''targetId'' ''target_id''));
              fromTaskId = toNonEmptyString (field2 r ''fromTaskId'' ''from_task_id'');
              toTaskId = toNonEmptyString (field2 r ''toTaskId'' ''to_task_id'')
          in case (nullish2 fromId fromTaskId, nullish2 toId toTaskId) of
               (Some a, Some b) \<Rightarrow> Some \<lparr>ge_fromId = a, ge_toId = b, ge_kind = toNonEmptyString (field2 r ''kind'' ''type'')\<rparr>
             | _ \<Rightarrow> None)"

section \<open>The summary\<close>

definition count_status :: "node_status \<Rightarrow> graph_node list \<Rightarrow> rat" where
  "count_status st nodes = of_nat (length (filter (\<lambda>n. gn_status n = st) nodes))"

definition total_queue_depth :: "graph_node list \<Rightarrow> rat option" where
  "total_queue_depth nodes =
     fold (\<lambda>n total. case gn_queueDepth n of None \<Rightarrow> total | Some q \<Rightarrow> Some (dbl (nullish total 0 + q))) nodes None"

definition normalizeSummary :: "js_object \<Rightarrow> graph_node list \<Rightarrow> graph_summary" where
  "normalizeSummary r nodes =
     \<lparr>gs_totalNodes = nullish (finite_number_of (field2 r ''totalNodes'' ''total_nodes'')) (of_nat (length nodes)),
      gs_runningNodes = nullish (finite_number_of (field2 r ''runningNodes'' ''running_nodes'')) (count_status NodeRunning nodes),
      gs_completedNodes = nullish (finite_number_of (field2 r ''completedNodes'' ''completed_nodes''))
        (count_status NodeCompleted nodes),
      gs_failedNodes = nullish (finite_number_of (field2 r ''failedNodes'' ''failed_nodes'')) (count_status NodeFailed nodes),
      gs_queueDepth = nullish2 (finite_number_of (field2 r ''queueDepth'' ''queue_depth'')) (total_queue_depth nodes),
      gs_placementFailuresTotal = finite_number_of (field2 r ''placementFailuresTotal'' ''placement_failures_total''),
      gs_accessMode = toNonEmptyString (field2 r ''accessMode'' ''access_mode''),
      gs_routedProvider = toNonEmptyString (field2 r ''routedProvider'' ''routed_provider''),
      gs_executionMode = normalizeExecutionMode (field2 r ''executionMode'' ''graph_mode''),
      gs_reason = toNonEmptyString (field r ''reason'')\<rparr>"

section \<open>The snapshot\<close>

definition first_array :: "js_object \<Rightarrow> string list \<Rightarrow> js_value list" where
  "first_array r ks = (case find isArray (map (field r) ks) of None \<Rightarrow> [] | Some v \<Rightarrow> array_of v)"

definition readNodes :: "js_object \<Rightarrow> js_value list" where
  "readNodes r = first_array r [''nodes'', ''tasks'', ''vertices'', ''items'', ''graph'', ''subtasks'']"

definition readEdges :: "js_object \<Rightarrow> js_value list" where
  "readEdges r = first_array r [''edges'', ''links'', ''dependencies'', ''arcs'']"

definition graph_nodes :: "js_value list \<Rightarrow> graph_node list" where
  "graph_nodes vs = List.map_filter normalizeGraphNode (enumerate 0 vs)"

definition normalizeDistributedTaskGraphSnapshot :: "js_value \<Rightarrow> task_graph option" where
  "normalizeDistributedTaskGraphSnapshot v =
     (case v of
        Arr vs \<Rightarrow>
          let nodes = graph_nodes vs
          in if nodes = [] then None
             else Some \<lparr>tg_graphId = None, tg_updatedAt = None, tg_nodes = nodes, tg_edges = [],
               tg_summary = normalizeSummary [] nodes\<rparr>
      | Obj r \<Rightarrow>
          let nodes = graph_nodes (readNodes r); edges = List.map_filter normalizeGraphEdge (readEdges r)
          in if nodes = [] \<and> edges = [] then None
             else Some \<lparr>tg_graphId = toNonEmptyString (js_nullish (field2 r ''graphId'' ''graph_id'')
                 (js_nullish (field2 r ''taskId'' ''task_id'') (field2 r ''rootTaskId'' ''root_task_id''))),
               tg_updatedAt = finite_number_of (field2 r ''updatedAt'' ''updated_at''), tg_nodes = nodes, tg_edges = edges,
               tg_summary = normalizeSummary (nullish (nullish2 (toOptionalRecord (field r ''summary''))
                 (toOptionalRecord (field r ''stats''))) []) nodes\<rparr>
      | _ \<Rightarrow> None)"

section \<open>Groups, dependencies and labels\<close>

definition group_key :: "graph_node \<Rightarrow> string" where
  "group_key n = nullish (nullish2 (gn_group n) (gn_backendId n)) ''ungrouped''"

definition group_label :: "graph_node \<Rightarrow> string" where
  "group_label n = nullish (nullish2 (gn_backendLabel n) (nullish2 (gn_backendId n) (gn_group n))) ''Ungrouped''"

definition add_to_groups :: "graph_node \<Rightarrow> node_group list \<Rightarrow> node_group list" where
  "add_to_groups n groups =
     (if group_key n \<in> ng_id ` set groups
      then map (\<lambda>g. if ng_id g = group_key n then g\<lparr>ng_nodes := ng_nodes g @ [n]\<rparr> else g) groups
      else groups @ [\<lparr>ng_id = group_key n, ng_label = group_label n, ng_nodes = [n]\<rparr>])"

definition groupDistributedTaskGraphNodesByBackend ::
    "(string \<Rightarrow> string \<Rightarrow> int) \<Rightarrow> graph_node list \<Rightarrow> node_group list" where
  "groupDistributedTaskGraphNodesByBackend cmp nodes =
     js_sort (\<lambda>a b. cmp (ng_label a) (ng_label b) \<le> 0) (fold add_to_groups nodes [])"

definition collectDistributedTaskGraphNodeDependencies :: "graph_node \<Rightarrow> string list" where
  "collectDistributedTaskGraphNodeDependencies n =
     (let m = nullish (gn_metadata n) []
      in asStringList (js_nullish (field2 m ''dependencies'' ''dependsOn'') (field m ''depends_on'')))"

datatype status_tone = ToneDefault | ToneProgress | ToneSuccess | ToneWarning | ToneError

fun getDistributedTaskGraphStatusLabel :: "node_status \<Rightarrow> string" where
  "getDistributedTaskGraphStatusLabel NodeCompleted = ''Done''"
| "getDistributedTaskGraphStatusLabel NodeRunning = ''Running''"
| "getDistributedTaskGraphStatusLabel NodeFailed = ''Failed''"
| "getDistributedTaskGraphStatusLabel NodeQueued = ''Queued''"
| "getDistributedTaskGraphStatusLabel NodeBlocked = ''Blocked''"
| "getDistributedTaskGraphStatusLabel NodeCanceled = ''Canceled''"
| "getDistributedTaskGraphStatusLabel _ = ''Pending''"

fun getDistributedTaskGraphStatusTone :: "node_status \<Rightarrow> status_tone" where
  "getDistributedTaskGraphStatusTone NodeCompleted = ToneSuccess"
| "getDistributedTaskGraphStatusTone NodeRunning = ToneProgress"
| "getDistributedTaskGraphStatusTone NodeFailed = ToneError"
| "getDistributedTaskGraphStatusTone NodeBlocked = ToneWarning"
| "getDistributedTaskGraphStatusTone _ = ToneDefault"

end
