(* ===== verification/ThreadState.thy ===== *)
theory ThreadState
  imports ConversationItem TaskGraph "HOL-Library.Finite_Map"
begin

text \<open>
  The state of the thread store and its actions:
  \<^verbatim>\<open>apps/code/src/features/threads/hooks/useThreadsReducer.types.ts\<close>, the request and
  snapshot types of \<^verbatim>\<open>apps/code/src/types.ts\<close> that it stores, and
  \<^verbatim>\<open>utils/threadExecutionState.ts\<close>, which reads a thread's status for the user interface.
  Numbers (time stamps, counters) are integers.  The map from a thread to its parent is a finite
  map, since the reducer walks it upwards.
\<close>

section \<open>Requests and snapshots\<close>

datatype json =
    JNull
  | JBool bool
  | JNum int
  | JStr string
  | JArr "json list"
  | JObj "(string \<times> json) list"

datatype request_id = NumId int | StrId string

record approval_request =
  apr_workspace_id :: string
  apr_request_id :: request_id
  apr_method :: string
  apr_params :: "(string \<times> json) list"

record user_input_option =
  opt_label :: string
  opt_description :: string

record user_input_question =
  qst_id :: string
  qst_header :: string
  qst_question :: string
  qst_isOther :: "bool option"
  qst_isSecret :: "bool option"
  qst_options :: "user_input_option list option"

record user_input_request =
  uir_workspace_id :: string
  uir_request_id :: request_id
  uir_thread_id :: string
  uir_turn_id :: string
  uir_item_id :: string
  uir_questions :: "user_input_question list"

record tool_call_request =
  tcr_workspace_id :: string
  tcr_request_id :: request_id
  tcr_thread_id :: string
  tcr_turn_id :: string
  tcr_call_id :: string
  tcr_tool :: string
  tcr_arguments :: json

record token_breakdown =
  totalTokens :: rat
  inputTokens :: rat
  cachedInputTokens :: rat
  outputTokens :: rat
  reasoningOutputTokens :: rat

record thread_token_usage =
  tu_total :: token_breakdown
  tu_last :: token_breakdown
  modelContextWindow :: "rat option"

datatype plan_step_status =
  StepPending | StepInProgress | StepCompleted | StepBlocked | StepFailed | StepCancelled

record turn_plan_step =
  ps_step :: string
  ps_status :: plan_step_status

record turn_plan =
  tp_turnId :: string
  tp_explanation :: "string option"
  tp_steps :: "turn_plan_step list"
  tp_distributedGraph :: "task_graph option"

record rate_limit_window =
  usedPercent :: rat
  windowDurationMins :: "rat option"
  resetsAt :: "rat option"

record credits_snapshot =
  hasCredits :: bool
  unlimited :: bool
  cr_balance :: "string option"

text \<open>\<open>limitId\<close> and \<open>limitName\<close> may be absent: the outer \<open>None\<close>.\<close>

record rate_limit_snapshot =
  rl_primary :: "rate_limit_window option"
  rl_secondary :: "rate_limit_window option"
  rl_credits :: "credits_snapshot option"
  rl_planType :: "string option"
  rl_limitId :: "string option option"
  rl_limitName :: "string option option"

datatype account_type = ChatGpt | ApiKey | UnknownAccount

record account_snapshot =
  acc_type :: account_type
  acc_email :: "string option"
  acc_planType :: "string option"
  acc_requiresOpenaiAuth :: "bool option"
  acc_provider :: "string option"
  acc_accountId :: "string option"
  acc_externalAccountId :: "string option"
  acc_displayName :: "string option"
  acc_authMode :: "string option"
  acc_localCliManaged :: "bool option"

section \<open>Execution state\<close>

datatype thread_execution_state =
  Idle | Running | AwaitingApproval | ExecCompleted | ExecError | ExecUnknown

datatype timeline_state =
  TlAwaitingApproval | TlAwaitingInput | TlPlanReady | TlReviewReady | TlNeedsAttention | TlCompleted

record thread_status_summary =
  sum_isProcessing :: bool
  sum_hasUnread :: bool
  sum_isReviewing :: bool
  sum_executionState :: "thread_execution_state option"
  sum_timelineState :: "timeline_state option"

datatype thread_visual_state =
    VsReady | VsProcessing | VsAwaitingApproval | VsAwaitingInput | VsPlanReady
  | VsNeedsAttention | VsCompleted | VsReviewing | VsUnread

datatype thread_status_tone = ToneDefault | ToneSuccess | ToneWarning | ToneProgress

definition resolveThreadVisualState :: "thread_status_summary option \<Rightarrow> thread_visual_state" where
  "resolveThreadVisualState status =
     (let flag = (\<lambda>f. case status of None \<Rightarrow> False | Some s \<Rightarrow> f s);
          timeline = Option.bind status sum_timelineState;
          execution = Option.bind status sum_executionState
      in if flag sum_isReviewing then VsReviewing
         else if timeline = Some TlAwaitingApproval \<or> execution = Some AwaitingApproval
           then VsAwaitingApproval
         else if timeline = Some TlAwaitingInput then VsAwaitingInput
         else if timeline = Some TlNeedsAttention then VsNeedsAttention
         else if flag sum_isProcessing \<or> execution = Some Running then VsProcessing
         else if timeline = Some TlReviewReady then VsReviewing
         else if timeline = Some TlPlanReady then VsPlanReady
         else if flag sum_hasUnread then VsUnread
         else if timeline = Some TlCompleted then VsCompleted
         else VsReady)"

definition resolveThreadStatusPresentation ::
    "thread_visual_state \<Rightarrow> string option \<times> thread_status_tone" where
  "resolveThreadStatusPresentation s =
     (if s = VsProcessing then (Some ''Working'', ToneWarning)
      else if s = VsAwaitingApproval then (Some ''Approval'', ToneWarning)
      else if s = VsAwaitingInput then (Some ''Input'', ToneProgress)
      else if s = VsNeedsAttention then (Some ''Action'', ToneWarning)
      else if s = VsPlanReady then (Some ''Plan'', ToneProgress)
      else if s = VsReviewing then (Some ''Review'', ToneSuccess)
      else if s = VsCompleted then (Some ''Done'', ToneSuccess)
      else if s = VsUnread then (Some ''Unread'', ToneProgress)
      else (None, ToneSuccess))"

definition resolveThreadStatePillLabel :: "thread_visual_state \<Rightarrow> string option" where
  "resolveThreadStatePillLabel s = fst (resolveThreadStatusPresentation s)"

definition resolveThreadStatusTone :: "thread_visual_state \<Rightarrow> thread_status_tone" where
  "resolveThreadStatusTone s = snd (resolveThreadStatusPresentation s)"

lemma pill_label_inj:
  "resolveThreadStatePillLabel a = resolveThreadStatePillLabel b \<Longrightarrow> a = b"
  by (cases a; cases b)
    (simp_all add: resolveThreadStatePillLabel_def resolveThreadStatusPresentation_def)

section \<open>The state\<close>

record thread_activity_status =
  isProcessing :: bool
  hasUnread :: bool
  isReviewing :: bool
  executionState :: "thread_execution_state option"
  processingStartedAt :: "int option"
  lastDurationMs :: "int option"

record last_agent_message =
  lam_text :: string
  lam_timestamp :: int

text \<open>A workspace's hidden threads are a set (the source has \<open>Record<string, true>\<close>).\<close>

record thread_state =
  activeThreadIdByWorkspace :: "string option js_record"
  itemsByThread :: "conversation_item list js_record"
  threadsByWorkspace :: "thread_summary list js_record"
  hiddenThreadIdsByWorkspace :: "string set js_record"
  threadParentById :: "(string, string) fmap"
  threadStatusById :: "thread_activity_status js_record"
  threadResumeLoadingById :: "bool js_record"
  threadListLoadingByWorkspace :: "bool js_record"
  threadListPagingByWorkspace :: "bool js_record"
  threadListCursorByWorkspace :: "string option js_record"
  threadSortKeyByWorkspace :: "sort_key js_record"
  activeTurnIdByThread :: "string option js_record"
  turnDiffByThread :: "string js_record"
  approvals :: "approval_request list"
  userInputRequests :: "user_input_request list"
  toolCallRequests :: "tool_call_request list"
  tokenUsageByThread :: "thread_token_usage js_record"
  rateLimitsByWorkspace :: "rate_limit_snapshot option js_record"
  accountByWorkspace :: "account_snapshot option js_record"
  planByThread :: "turn_plan option js_record"
  lastAgentMessageByThread :: "last_agent_message js_record"

definition initialState :: thread_state where
  "initialState =
     \<lparr>activeThreadIdByWorkspace = Map.empty, itemsByThread = Map.empty,
      threadsByWorkspace = Map.empty, hiddenThreadIdsByWorkspace = Map.empty,
      threadParentById = fmempty, threadStatusById = Map.empty,
      threadResumeLoadingById = Map.empty, threadListLoadingByWorkspace = Map.empty,
      threadListPagingByWorkspace = Map.empty, threadListCursorByWorkspace = Map.empty,
      threadSortKeyByWorkspace = Map.empty, activeTurnIdByThread = Map.empty,
      turnDiffByThread = Map.empty, approvals = [], userInputRequests = [],
      toolCallRequests = [], tokenUsageByThread = Map.empty, rateLimitsByWorkspace = Map.empty,
      accountByWorkspace = Map.empty, planByThread = Map.empty,
      lastAgentMessageByThread = Map.empty\<rparr>"

section \<open>Actions\<close>

datatype thread_action =
    SetActiveThreadId string "string option"
  | EnsureThread string string
  | HideThread string string
  | RemoveThread string string
  | SetThreadParent string string
  | MarkProcessing string bool "thread_execution_state option" int
  | MarkImmediateCompletion string
  | HydrateThreadStatus string int
  | MarkReviewing string bool
  | MarkUnread string bool
  | AddAssistantMessage string string
  | SetThreadName string string string
  | SetThreadTimestamp string string int
  | AppendAgentDelta string string string string bool
  | CompleteAgentMessage string string string string bool
  | UpsertItem string string conversation_item "bool option"
  | SetThreadItems string "conversation_item list"
  | AppendReasoningSummary string string string
  | AppendReasoningSummaryBoundary string string
  | AppendReasoningContent string string string
  | AppendPlanDelta string string string
  | AppendToolOutput string string string
  | CompletePendingTurnItems string
  | SetThreads string "thread_summary list" sort_key
  | SetThreadListLoading string bool
  | SetThreadResumeLoading string bool
  | SetThreadListPaging string bool
  | SetThreadListCursor string "string option"
  | AddApproval approval_request
  | RemoveApproval request_id string
  | AddUserInputRequest user_input_request
  | RemoveUserInputRequest request_id string
  | AddToolCallRequest tool_call_request
  | RemoveToolCallRequest request_id string
  | SetThreadTokenUsage string thread_token_usage
  | SetRateLimits string "rate_limit_snapshot option"
  | SetAccountInfo string "account_snapshot option"
  | SetActiveTurnId string "string option"
  | SetThreadTurnDiff string string
  | SetThreadPlan string "turn_plan option"
  | ClearThreadPlan string
  | SetLastAgentMessage string string int

end
