(* ===== verification/CommandExplore.thy ===== *)
theory CommandExplore
  imports ConversationItem
begin

text \<open>
  Recognising read-only shell commands, from \<^verbatim>\<open>apps/code/src/utils/threadItems.ts\<close>
  (\<open>cleanCommandText\<close> to \<open>summarizeCommandExecution\<close>): a completed or running command whose
  every segment only reads, lists or searches is shown as an exploration entry.  The patterns
  of the source are values of type \<open>re\<close>, one definition per regular expression literal.
\<close>

section \<open>Patterns\<close>

definition shell_name_re :: re where
  "shell_name_re = Alts (Lit ''bash'') [Lit ''zsh'', Lit ''sh'', Lit ''fish'']"

text \<open>\<^verbatim>\<open>/^(?:\/\S+\/)?(?:bash|zsh|sh|fish)(?:\.exe)?\s+-lc\s+(?:(['"])([\s\S]+)\1|([\s\S]+))$/\<close>\<close>

definition shell_re :: re where
  "shell_re = Seqs [Bol, Opt (Seqs [Lit ''/'', Plus NonSpace, Lit ''/'']), shell_name_re,
     Opt (Lit ''.exe''), Plus Space, Lit ''-lc'', Plus Space,
     Altn (Seqs [Group 1 (OneOf [CHR 0x27, CHR 0x22]), Group 2 (Plus AnyChr), BackRef 1])
          (Group 3 (Plus AnyChr)), Eol]"

text \<open>\<^verbatim>\<open>/^\s*cd\s+[^&;]+(?:\s*&&\s*|\s*;\s*)([\s\S]+)$/i\<close>\<close>

definition cd_re :: re where
  "cd_re = Seqs [Bol, Star Space, Lit_i ''cd'', Plus Space, Plus (NoneOf ''&;''),
     Altn (Seqs [Star Space, Lit ''&&'', Star Space]) (Seqs [Star Space, Lit '';'', Star Space]),
     Group 1 (Plus AnyChr), Eol]"

definition quoted_re :: "nat \<Rightarrow> char \<Rightarrow> re" where
  "quoted_re n q = Seqs [Lit [q], Group n (Star (NoneOf [q])), Lit [q]]"

text \<open>\<^verbatim>\<open>/"([^"]*)"|'([^']*)'|`([^`]*)`|(\S+)/g\<close>\<close>

definition token_re :: re where
  "token_re = Alts (quoted_re 1 (CHR 0x22))
     [quoted_re 2 (CHR 0x27), quoted_re 3 (CHR 0x60), Group 4 (Plus NonSpace)]"

text \<open>\<^verbatim>\<open>/\s*(?:&&|;)\s*/g\<close>\<close>

definition segment_re :: re where
  "segment_re = Seqs [Star Space, Altn (Lit ''&&'') (Lit '';''), Star Space]"

text \<open>\<^verbatim>\<open>/[\\/]/\<close>, \<^verbatim>\<open>/(\.[a-z0-9]+$)|(^\.{1,2}$)/i\<close> and \<^verbatim>\<open>/[*?[\]{}]/\<close>\<close>

definition PATH_HINT_REGEX :: re where
  "PATH_HINT_REGEX = OneOf [CHR 0x5C, CHR ''/'']"

definition PATHLIKE_REGEX :: re where
  "PATHLIKE_REGEX =
     Altn (Seqs [Lit ''.'', Plus (Chr (\<lambda>c. is_lower (lower_char c) \<or> is_digit c)), Eol])
          (Seqs [Bol, Lit ''.'', Opt (Lit ''.''), Eol])"

definition GLOB_HINT_REGEX :: re where
  "GLOB_HINT_REGEX = OneOf ''*?[]{}''"

text \<open>\<^verbatim>\<open>/^Command:\s*/i\<close>\<close>

definition command_prefix_re :: re where
  "command_prefix_re = Seqs [Bol, Lit_i ''Command:'', Star Space]"

text \<open>\<^verbatim>\<open>/(pending|running|processing|started|in[_ -]?progress|inprogress)/\<close> and \<^verbatim>\<open>/(fail|error)/\<close>\<close>

definition pending_re :: re where
  "pending_re = Group 1 (Alts (Lit ''pending'') [Lit ''running'', Lit ''processing'', Lit ''started'',
     Seqs [Lit ''in'', Opt (OneOf ''_ -''), Lit ''progress''], Lit ''inprogress''])"

definition failed_re :: re where
  "failed_re = Group 1 (Altn (Lit ''fail'') (Lit ''error''))"

lemmas command_re_defs =
  shell_name_re_def shell_re_def cd_re_def quoted_re_def token_re_def segment_re_def
  PATH_HINT_REGEX_def PATHLIKE_REGEX_def GLOB_HINT_REGEX_def command_prefix_re_def
  pending_re_def failed_re_def

section \<open>Command tables\<close>

definition READ_COMMANDS :: "string list" where
  "READ_COMMANDS = [''cat'', ''sed'', ''head'', ''tail'', ''less'', ''more'', ''nl'']"

definition LIST_COMMANDS :: "string list" where
  "LIST_COMMANDS = [''ls'', ''tree'', ''find'', ''fd'']"

definition SEARCH_COMMANDS :: "string list" where
  "SEARCH_COMMANDS = [''rg'', ''grep'', ''ripgrep'', ''findstr'']"

definition RG_FLAGS_WITH_VALUES :: "string list" where
  "RG_FLAGS_WITH_VALUES = [''-g'', ''--glob'', ''--iglob'', ''-t'', ''--type'', ''--type-add'',
     ''--type-not'', ''-m'', ''--max-count'', ''-A'', ''-B'', ''-C'', ''--context'', ''--max-depth'']"

section \<open>Cleaning and tokenising\<close>

definition cleanCommandText :: "string \<Rightarrow> string" where
  "cleanCommandText commandText =
     (if commandText = [] then []
      else let trimmed = js_trim commandText;
               inner = (case re_exec shell_re trimmed of
                          None \<Rightarrow> trimmed
                        | Some (_, _, q) \<Rightarrow> nullish (nullish2 (pos_caps q 2) (pos_caps q 3)) []);
               stripped = (case re_exec cd_re inner of
                          None \<Rightarrow> inner
                        | Some (_, _, q) \<Rightarrow> nullish (pos_caps q 1) [])
           in js_trim stripped)"

definition tokenizeCommand :: "string \<Rightarrow> string list" where
  "tokenizeCommand command =
     filter (\<lambda>v. v \<noteq> [])
       (map (\<lambda>m. nullish (nullish2 (nullish2 (nullish2 (m 1) (m 2)) (m 3)) (m 4)) [])
         (match_all token_re command))"

text \<open>
  \<open>trimAtPipe\<close> scans for an unquoted \<open>|\<close> with white space (or the end) on both sides; the
  loop state is the text already seen, the rest and the two quoting flags.
\<close>

fun pipe_scan :: "string \<Rightarrow> string \<Rightarrow> bool \<Rightarrow> bool \<Rightarrow> string option" where
  "pipe_scan seen_part [] inSingle inDouble = None"
| "pipe_scan seen_part (c # cs) inSingle inDouble =
     (if c = CHR 0x27 \<and> \<not> inDouble then pipe_scan (seen_part @ [c]) cs (\<not> inSingle) inDouble
      else if c = CHR 0x22 \<and> \<not> inSingle then pipe_scan (seen_part @ [c]) cs inSingle (\<not> inDouble)
      else if c \<noteq> CHR ''|'' \<or> inSingle \<or> inDouble then pipe_scan (seen_part @ [c]) cs inSingle inDouble
      else if \<not> ((seen_part = [] \<or> is_js_space (last seen_part)) \<and> (cs = [] \<or> is_js_space (hd cs)))
      then pipe_scan (seen_part @ [c]) cs inSingle inDouble
      else Some seen_part)"

definition trimAtPipe :: "string \<Rightarrow> string" where
  "trimAtPipe command =
     (case pipe_scan [] command False False of
        Some seen_part \<Rightarrow> js_trim seen_part
      | None \<Rightarrow> js_trim command)"

definition splitCommandSegments :: "string \<Rightarrow> string list" where
  "splitCommandSegments command =
     filter (\<lambda>s. s \<noteq> []) (map js_trim (map trimAtPipe (re_split segment_re command)))"

definition isOptionToken :: "string \<Rightarrow> bool" where
  "isOptionToken token = starts_with token ''-''"

definition isPathLike :: "string \<Rightarrow> bool" where
  "isPathLike token =
     (if token = [] \<or> isOptionToken token then False
      else if re_test GLOB_HINT_REGEX token then False
      else re_test PATH_HINT_REGEX token \<or> re_test PATHLIKE_REGEX token)"

fun collect_operands :: "string \<Rightarrow> string list \<Rightarrow> string list" where
  "collect_operands commandName [] = []"
| "collect_operands commandName (token # rest) =
     (if isOptionToken token
      then if commandName = ''rg'' \<and> token \<in> set RG_FLAGS_WITH_VALUES
           then (case rest of [] \<Rightarrow> [] | _ # rest' \<Rightarrow> collect_operands commandName rest')
           else collect_operands commandName rest
      else token # collect_operands commandName rest)"

definition collectNonFlagOperands :: "string list \<Rightarrow> string \<Rightarrow> string list" where
  "collectNonFlagOperands tokens commandName = collect_operands commandName (tl tokens)"

definition command_name :: "string list \<Rightarrow> string" where
  "command_name tokens = (case tokens of [] \<Rightarrow> [] | t # _ \<Rightarrow> to_lower t)"

definition findPathTokens :: "string list \<Rightarrow> string list" where
  "findPathTokens tokens =
     (let positional = collectNonFlagOperands tokens (command_name tokens);
          pathLike = filter isPathLike positional
      in if pathLike \<noteq> [] then pathLike else positional)"

definition normalizeCommandStatus :: "string option \<Rightarrow> explore_status" where
  "normalizeCommandStatus status =
     (if re_test pending_re (to_lower (nullish status [])) then Exploring else Explored)"

definition isFailedStatus :: "string option \<Rightarrow> bool" where
  "isFailedStatus status = re_test failed_re (to_lower (nullish status []))"

section \<open>Parsing one segment\<close>

abbreviation entry :: "explore_kind \<Rightarrow> string \<Rightarrow> string option \<Rightarrow> explore_entry" where
  "entry k l d \<equiv> \<lparr>ent_kind = k, ent_label = l, ent_detail = d\<rparr>"

text \<open>\<open>a || b\<close> on strings: the empty string is falsy.\<close>

definition str_or :: "string \<Rightarrow> string \<Rightarrow> string" where
  "str_or a b = (if a = [] then b else a)"

definition last_or_empty :: "string list \<Rightarrow> string" where
  "last_or_empty xs = (if xs = [] then [] else last xs)"

definition parseSearch :: "string list \<Rightarrow> explore_entry option" where
  "parseSearch tokens =
     (let commandName = command_name tokens
      in if tokens \<noteq> [] \<and> hd tokens = ''rg'' \<and> ''--files'' \<in> set tokens
         then Some (entry ListEntry (str_or (last_or_empty (findPathTokens tokens)) ''rg --files'') None)
         else (case collectNonFlagOperands tokens commandName of
                 [] \<Rightarrow> None
               | query # others \<Rightarrow>
                   (let rawPath = (case others of [] \<Rightarrow> [] | p # _ \<Rightarrow> p);
                        path = (if commandName = ''rg'' then rawPath
                                else if rawPath \<noteq> [] \<and> isPathLike rawPath then rawPath else [])
                    in Some (entry SearchEntry
                         (if path \<noteq> [] then query @ '' in '' @ path else query) None))))"

text \<open>The label of a path: its last non-empty component (\<^verbatim>\<open>path.split(/[\\/]/g)\<close>).\<close>

definition base_name :: "string \<Rightarrow> string" where
  "base_name path =
     (let parts = filter (\<lambda>s. s \<noteq> []) (re_split PATH_HINT_REGEX path)
      in if parts = [] then path else last parts)"

definition read_entry :: "string \<Rightarrow> explore_entry" where
  "read_entry path =
     (let name = base_name path
      in if name \<noteq> [] \<and> name \<noteq> path then entry ReadEntry name (Some path)
         else entry ReadEntry path None)"

definition read_key :: "explore_entry \<Rightarrow> string" where
  "read_key e = (case ent_detail e of
       None \<Rightarrow> ent_label e
     | Some d \<Rightarrow> if d = [] then ent_label e else ent_label e @ ''|'' @ d)"

text \<open>The \<open>seen\<close>-set loops of the source: keep the first entry of every key.\<close>

fun dedupe_by :: "('a \<Rightarrow> 'k) \<Rightarrow> 'k list \<Rightarrow> 'a list \<Rightarrow> 'a list" where
  "dedupe_by f seen [] = []"
| "dedupe_by f seen (x # xs) =
     (if f x \<in> set seen then dedupe_by f seen xs else x # dedupe_by f (f x # seen) xs)"

definition parseRead :: "string list \<Rightarrow> explore_entry list option" where
  "parseRead tokens =
     (let paths = filter (\<lambda>s. s \<noteq> []) (findPathTokens tokens)
      in if paths = [] then None else Some (dedupe_by read_key [] (map read_entry paths)))"

definition parseList :: "string list \<Rightarrow> explore_entry" where
  "parseList tokens =
     entry ListEntry (str_or (last_or_empty (findPathTokens tokens))
       (case tokens of [] \<Rightarrow> [] | t # _ \<Rightarrow> t)) None"

definition parseCommandSegment :: "string \<Rightarrow> explore_entry list option" where
  "parseCommandSegment command =
     (let tokens = tokenizeCommand command
      in if tokens = [] then None
         else let commandName = to_lower (hd tokens)
         in if commandName \<in> set READ_COMMANDS then parseRead tokens
            else if commandName \<in> set LIST_COMMANDS then Some [parseList tokens]
            else if commandName \<in> set SEARCH_COMMANDS
            then map_option (\<lambda>e. [e]) (parseSearch tokens)
            else None)"

fun coalesce_reads :: "string list \<Rightarrow> explore_entry list \<Rightarrow> explore_entry list" where
  "coalesce_reads seen [] = []"
| "coalesce_reads seen (e # es) =
     (if ent_kind e \<noteq> ReadEntry then e # coalesce_reads seen es
      else if read_key e \<in> set seen then coalesce_reads seen es
      else e # coalesce_reads (read_key e # seen) es)"

definition coalesceReadEntries :: "explore_entry list \<Rightarrow> explore_entry list" where
  "coalesceReadEntries entries = coalesce_reads [] entries"

definition kind_name :: "explore_kind \<Rightarrow> string" where
  "kind_name k = (case k of ReadEntry \<Rightarrow> ''read'' | SearchEntry \<Rightarrow> ''search''
     | ListEntry \<Rightarrow> ''list'' | RunEntry \<Rightarrow> ''run'')"

definition entry_key :: "explore_entry \<Rightarrow> string" where
  "entry_key e = kind_name (ent_kind e) @ ''|'' @ ent_label e @ ''|'' @ nullish (ent_detail e) []"

definition mergeExploreEntries :: "explore_entry list \<Rightarrow> explore_entry list \<Rightarrow> explore_entry list" where
  "mergeExploreEntries base next = dedupe_by entry_key [] (base @ next)"

text \<open>All segments must parse; the entries are concatenated.\<close>

fun parse_segments :: "string list \<Rightarrow> explore_entry list option" where
  "parse_segments [] = Some []"
| "parse_segments (s # ss) =
     (case parseCommandSegment s of None \<Rightarrow> None
      | Some es \<Rightarrow> map_option ((@) es) (parse_segments ss))"

definition summarizeCommandExecution :: "string \<Rightarrow> tool_fields \<Rightarrow> conversation_item option" where
  "summarizeCommandExecution iid t =
     (if isFailedStatus (tool_status t) then None
      else let rawCommand = js_trim (replace_first command_prefix_re [] (tool_title t));
               cleaned = cleanCommandText rawCommand
      in if cleaned = [] then None
         else let segments = splitCommandSegments cleaned
         in if segments = [] then None
            else (case parse_segments segments of
                    None \<Rightarrow> None
                  | Some es \<Rightarrow> if es = [] then None
                      else Some (Explore iid (normalizeCommandStatus (tool_status t))
                                  (coalesceReadEntries es))))"

section \<open>Lemmas\<close>

lemma dedupe_by_subset: "set (dedupe_by f seen xs) \<subseteq> set xs"
  by (induction f seen xs rule: dedupe_by.induct) auto

lemma dedupe_by_fresh: "x \<in> set (dedupe_by f seen xs) \<Longrightarrow> f x \<notin> set seen"
  by (induction f seen xs rule: dedupe_by.induct) (auto split: if_splits)

lemma dedupe_by_keys:
  "f ` set (dedupe_by f seen xs) = f ` set xs - set seen"
  by (induction f seen xs rule: dedupe_by.induct) auto

lemma dedupe_by_distinct: "distinct (map f (dedupe_by f seen xs))"
  by (induction f seen xs rule: dedupe_by.induct) (auto dest: dedupe_by_fresh)

lemma dedupe_by_id:
  "distinct (map f xs) \<Longrightarrow> f ` set xs \<inter> set seen = {} \<Longrightarrow> dedupe_by f seen xs = xs"
  by (induction f seen xs rule: dedupe_by.induct) auto

lemma summarize_shape:
  "summarizeCommandExecution iid t = Some it \<Longrightarrow> \<exists>st es. it = Explore iid st es"
  by (auto simp: summarizeCommandExecution_def Let_def split: if_splits option.splits)

lemma summarize_title_status:
  "tool_title t = tool_title t' \<Longrightarrow> tool_status t = tool_status t' \<Longrightarrow>
   summarizeCommandExecution iid t = summarizeCommandExecution iid t'"
  by (simp only: summarizeCommandExecution_def)

text \<open>A command with an unknown program is never shown as an exploration.\<close>

lemma parse_segments_unknown:
  "s \<in> set ss \<Longrightarrow> parseCommandSegment s = None \<Longrightarrow> parse_segments ss = None"
  by (induction ss) (auto split: option.splits)

lemma parse_segments_all:
  "parse_segments ss = Some es \<Longrightarrow> \<forall>s \<in> set ss. parseCommandSegment s \<noteq> None"
  using parse_segments_unknown by fastforce

lemma parse_known_program:
  assumes "parseCommandSegment s = Some es"
  shows "to_lower (hd (tokenizeCommand s)) \<in> set (READ_COMMANDS @ LIST_COMMANDS @ SEARCH_COMMANDS)"
  using assms by (auto simp: parseCommandSegment_def Let_def split: if_splits)

end
