(* ===== verification/ThreadItems.thy ===== *)
theory ThreadItems
  imports CommandExplore
begin

text \<open>
  The list of timeline items of a thread, from \<^verbatim>\<open>apps/code/src/utils/threadItems.ts\<close>:
  normalising one item, folding runs of read-only commands into exploration entries, preparing
  a list for the store (bounded length, bounded texts), inserting or updating one item, and
  merging a remote snapshot with the local list.  The theorems: preparing respects its bounds
  and is stable, an update is idempotent, keeps identifiers unique and never loses text, and a
  merge has exactly the items of both sides.
\<close>

section \<open>Normalising one item\<close>

definition normalize_change :: "bool \<Rightarrow> file_change \<Rightarrow> file_change" where
  "normalize_change noTruncate c =
     (if noTruncate then c else c\<lparr>chg_diff := truncate_opt (chg_diff c)\<rparr>)"

fun normalizeItem :: "conversation_item \<Rightarrow> conversation_item" where
  "normalizeItem (Message i r t imgs) = Message i r (truncateText t) imgs"
| "normalizeItem (Explore i s es) = Explore i s es"
| "normalizeItem (Reasoning i s c) = Reasoning i (truncateText s) (truncateText c)"
| "normalizeItem (DiffItem i t d s) = DiffItem i t (truncateText d) s"
| "normalizeItem (Tool i t) =
     (let noTruncate = no_truncate_tool (toolType t)
      in Tool i (t\<lparr>tool_title := truncate_to 200 (tool_title t),
                   tool_detail := truncate_to 2000 (tool_detail t),
                   tool_output := (if noTruncate then tool_output t else truncate_opt (tool_output t)),
                   changes := map_option (map (normalize_change noTruncate)) (changes t)\<rparr>))"
| "normalizeItem (Review i s t) = Review i s t"

section \<open>Exploration summaries\<close>

text \<open>
  One round of the loop of \<open>summarizeExploration\<close>: an exploration entry joins the last entry
  of the result when both have the same status.
\<close>

definition push_explore :: "conversation_item list \<Rightarrow> string \<Rightarrow> explore_status \<Rightarrow>
    explore_entry list \<Rightarrow> conversation_item list" where
  "push_explore result iid st es =
     (case result of [] \<Rightarrow> [Explore iid st es]
      | _ \<Rightarrow> (case last result of
            Explore i st' es' \<Rightarrow>
              if st' = st then butlast result @ [Explore i st' (mergeExploreEntries es' es)]
              else result @ [Explore iid st es]
          | _ \<Rightarrow> result @ [Explore iid st es]))"

definition explore_step :: "conversation_item list \<Rightarrow> conversation_item \<Rightarrow> conversation_item list" where
  "explore_step result item =
     (case item of
        Explore i st es \<Rightarrow> push_explore result i st es
      | Tool i t \<Rightarrow>
          if toolType t = ''commandExecution''
          then (case summarizeCommandExecution i t of
                  Some (Explore i' st es) \<Rightarrow> push_explore result i' st es
                | _ \<Rightarrow> result @ [item])
          else result @ [item]
      | _ \<Rightarrow> result @ [item])"

definition summarizeExploration :: "conversation_item list \<Rightarrow> conversation_item list" where
  "summarizeExploration items = foldl explore_step [] items"

section \<open>Preparing a list\<close>

text \<open>An assistant message that repeats the completed review right before it is dropped.\<close>

definition repeats_review :: "conversation_item \<Rightarrow> conversation_item \<Rightarrow> bool" where
  "repeats_review prev item =
     (case (prev, item) of
        (Review _ Completed t, Message _ Assistant t' _) \<Rightarrow> js_trim t' = js_trim t
      | _ \<Rightarrow> False)"

definition review_filter_step :: "conversation_item list \<Rightarrow> conversation_item \<Rightarrow> conversation_item list" where
  "review_filter_step filtered item =
     (if filtered \<noteq> [] \<and> repeats_review (last filtered) item then filtered else filtered @ [item])"

definition drop_repeated_reviews :: "conversation_item list \<Rightarrow> conversation_item list" where
  "drop_repeated_reviews items = foldl review_filter_step [] items"

fun shorten_old_output :: "conversation_item \<Rightarrow> conversation_item" where
  "shorten_old_output (Tool i t) =
     Tool i (t\<lparr>tool_output := truncate_opt (tool_output t),
               changes := map_option (map (\<lambda>c. c\<lparr>chg_diff := truncate_opt (chg_diff c)\<rparr>)) (changes t)\<rparr>)"
| "shorten_old_output it = it"

text \<open>All but the forty most recent items have their tool output shortened.\<close>

definition shorten_old :: "conversation_item list \<Rightarrow> conversation_item list" where
  "shorten_old items =
     (let cutoff = length items - TOOL_OUTPUT_RECENT_ITEMS
      in map shorten_old_output (take cutoff items) @ drop cutoff items)"

definition prepareThreadItems :: "conversation_item list \<Rightarrow> conversation_item list" where
  "prepareThreadItems items =
     (let filtered = drop_repeated_reviews items;
          normalized = map normalizeItem filtered;
          limited = (if length normalized > MAX_ITEMS_PER_THREAD
                     then slice_last MAX_ITEMS_PER_THREAD normalized else normalized);
          summarized = summarizeExploration limited
      in shorten_old summarized)"

section \<open>Inserting or updating one item\<close>

definition longer :: "string \<Rightarrow> string \<Rightarrow> string" where
  "longer existing incoming = (if length incoming \<ge> length existing then incoming else existing)"

definition non_blank_or :: "string \<Rightarrow> string \<Rightarrow> string" where
  "non_blank_or incoming existing = (if js_trim incoming \<noteq> [] then incoming else existing)"

definition non_blank_opt_or :: "string option \<Rightarrow> string option \<Rightarrow> string option" where
  "non_blank_opt_or incoming existing =
     (case incoming of None \<Rightarrow> existing | Some s \<Rightarrow> if js_trim s \<noteq> [] then Some s else existing)"

definition non_empty_opt_or :: "'a list option \<Rightarrow> 'a list option \<Rightarrow> 'a list option" where
  "non_empty_opt_or incoming existing =
     (case incoming of None \<Rightarrow> existing | Some xs \<Rightarrow> if xs \<noteq> [] then Some xs else existing)"

definition merge_tool :: "tool_fields \<Rightarrow> tool_fields \<Rightarrow> tool_fields" where
  "merge_tool ex inc =
     \<lparr>toolType = toolType inc,
      tool_title = non_blank_or (tool_title inc) (tool_title ex),
      tool_detail = non_blank_or (tool_detail inc) (tool_detail ex),
      tool_status = non_blank_opt_or (tool_status inc) (tool_status ex),
      tool_output = Some (non_blank_or (nullish (tool_output inc) []) (nullish (tool_output ex) [])),
      durationMs = nullish2 (durationMs inc) (durationMs ex),
      checkpointId = nullish2 (checkpointId inc) (checkpointId ex),
      traceId = nullish2 (traceId inc) (traceId ex),
      errorClass = nullish2 (errorClass inc) (errorClass ex),
      recovered = nullish2 (recovered inc) (recovered ex),
      batchId = nullish2 (batchId inc) (batchId ex),
      attempt = nullish2 (attempt inc) (attempt ex),
      changes = non_empty_opt_or (changes inc) (changes ex)\<rparr>"

text \<open>The two items have the same identifier; a change of kind replaces the item.\<close>

fun merge_item :: "conversation_item \<Rightarrow> conversation_item \<Rightarrow> conversation_item" where
  "merge_item (Message i r t imgs) (Message i' r' t' imgs') =
     Message i' r' (longer t t') (non_empty_opt_or imgs' imgs)"
| "merge_item (Reasoning i s c) (Reasoning i' s' c') = Reasoning i' (longer s s') (longer c c')"
| "merge_item (Tool i t) (Tool i' t') = Tool i' (merge_tool t t')"
| "merge_item (DiffItem i t d s) (DiffItem i' t' d' s') =
     DiffItem i' (non_blank_or t' t) (longer d d') (non_blank_opt_or s' s)"
| "merge_item (Review i s t) (Review i' s' t') = Review i' s' (longer t t')"
| "merge_item ex inc = inc"

definition upsertItem :: "conversation_item list \<Rightarrow> conversation_item \<Rightarrow> conversation_item list" where
  "upsertItem items item =
     (case find_index (\<lambda>e. item_id e = item_id item) items of
        None \<Rightarrow> items @ [item]
      | Some index \<Rightarrow> items[index := merge_item (items ! index) item])"

section \<open>Merging a remote snapshot into the local list\<close>

fun chooseRicherItem :: "conversation_item \<Rightarrow> conversation_item \<Rightarrow> conversation_item" where
  "chooseRicherItem (Message i r t imgs) (Message i' r' t' imgs') =
     (if length t' > length t then Message i' r' t' imgs' else Message i r t imgs)"
| "chooseRicherItem (Reasoning i s c) (Reasoning i' s' c') =
     (if length s' + length c' > length s + length c then Reasoning i' s' c' else Reasoning i s c)"
| "chooseRicherItem (Tool i t) (Tool i' t') =
     Tool i (t\<lparr>tool_status := nullish2 (tool_status t) (tool_status t'),
               tool_output := Some (non_blank_or (nullish (tool_output t) []) (nullish (tool_output t') [])),
               changes := nullish2 (changes t) (changes t')\<rparr>)"
| "chooseRicherItem (DiffItem i t d s) (DiffItem i' t' d' s') =
     DiffItem i t (if length d' > length d then d' else d) (nullish2 s s')"
| "chooseRicherItem remote local = remote"

text \<open>\<open>new Map(items.map((item) => [item.id, item]))\<close>: a later item with the same id wins.\<close>

definition items_by_id :: "conversation_item list \<Rightarrow> string \<Rightarrow> conversation_item option" where
  "items_by_id items i = find (\<lambda>e. item_id e = i) (rev items)"

text \<open>The index in \<open>ids\<close> of the first of the given items that is there.\<close>

fun first_anchor :: "string list \<Rightarrow> conversation_item list \<Rightarrow> nat option" where
  "first_anchor ids [] = None"
| "first_anchor ids (r # rs) =
     (case find_index (\<lambda>i. i = item_id r) ids of Some k \<Rightarrow> Some k | None \<Rightarrow> first_anchor ids rs)"

text \<open>
  One round of the \<open>forEach\<close> over the remote items; \<open>orderedIds\<close> is kept in step with
  \<open>merged\<close> by the code, so it is \<open>map item_id merged\<close>.
\<close>

definition insert_remote :: "conversation_item list \<Rightarrow> conversation_item list \<Rightarrow> nat \<Rightarrow> conversation_item list" where
  "insert_remote remoteItems merged remoteIndex =
     (let item = remoteItems ! remoteIndex;
          orderedIds = map item_id merged
      in if item_id item \<in> set orderedIds then merged
         else let insertIndex =
                (case first_anchor orderedIds (rev (take remoteIndex remoteItems)) of
                   Some k \<Rightarrow> Suc k
                 | None \<Rightarrow>
                     (case first_anchor orderedIds (drop (Suc remoteIndex) remoteItems) of
                        Some k \<Rightarrow> k
                      | None \<Rightarrow> length merged))
              in take insertIndex merged @ [item] @ drop insertIndex merged)"

definition mergeThreadItems :: "conversation_item list \<Rightarrow> conversation_item list \<Rightarrow> conversation_item list" where
  "mergeThreadItems remoteItems localItems =
     (if localItems = [] then remoteItems
      else if remoteItems = [] then localItems
      else let sharedIds = filter (\<lambda>i. i \<in> set (map item_id localItems)) (map item_id remoteItems)
      in if sharedIds = [] then remoteItems @ localItems
         else let merged = map (\<lambda>item. case items_by_id remoteItems (item_id item) of
                              Some remote \<Rightarrow> chooseRicherItem remote item
                            | None \<Rightarrow> item) localItems
              in foldl (insert_remote remoteItems) merged [0 ..< length remoteItems])"

section \<open>Normal form of one item\<close>

lemma normalize_change_idem [simp]:
  "normalize_change b (normalize_change b c) = normalize_change b c"
  by (simp add: normalize_change_def)

lemma normalizeItem_idem [simp]: "normalizeItem (normalizeItem it) = normalizeItem it"
  by (cases it) (simp_all add: Let_def option.map_comp comp_def)

lemma item_id_normalize [simp]: "item_id (normalizeItem it) = item_id it"
  by (cases it) (simp_all add: Let_def)

lemma kind_of_normalize [simp]: "kind_of (normalizeItem it) = kind_of it"
  by (cases it) (simp_all add: Let_def)

text \<open>What a prepared item looks like: every text within its limit.\<close>

definition change_fits :: "file_change \<Rightarrow> bool" where
  "change_fits c = fits_opt MAX_ITEM_TEXT (chg_diff c)"

fun item_fits :: "conversation_item \<Rightarrow> bool" where
  "item_fits (Message i r t imgs) = (length t \<le> MAX_ITEM_TEXT)"
| "item_fits (Reasoning i s c) = (length s \<le> MAX_ITEM_TEXT \<and> length c \<le> MAX_ITEM_TEXT)"
| "item_fits (DiffItem i t d s) = (length d \<le> MAX_ITEM_TEXT)"
| "item_fits (Tool i t) =
     (length (tool_title t) \<le> 200 \<and> length (tool_detail t) \<le> 2000 \<and>
      (no_truncate_tool (toolType t) \<or>
         fits_opt MAX_ITEM_TEXT (tool_output t) \<and>
         pred_option (list_all change_fits) (changes t)))"
| "item_fits (Review i s t) = True"
| "item_fits (Explore i s es) = True"

lemma change_fits_normalize [simp]: "change_fits (normalize_change False c)"
  by (simp add: change_fits_def normalize_change_def)

lemma normalize_change_True [simp]: "normalize_change True c = c"
  by (simp add: normalize_change_def)

lemma normalize_change_fits: "change_fits c \<Longrightarrow> normalize_change b c = c"
  by (simp add: normalize_change_def change_fits_def truncate_opt_fits)

lemma item_fits_normalize [simp]: "item_fits (normalizeItem it)"
  by (cases it)
    (auto simp: Let_def length_truncateText length_truncate_to option.pred_map list_all_iff
      option.pred_set)

lemma normalizeItem_fits: "item_fits it \<Longrightarrow> normalizeItem it = it"
proof (cases it)
  case (Tool i t)
  assume "item_fits it"
  with Tool show ?thesis
    by (cases "no_truncate_tool (toolType t)"; cases "changes t")
      (auto simp: Let_def truncate_to_short truncate_opt_fits normalize_change_fits list_all_iff
        map_idI)
qed (simp_all add: truncate_to_short)

lemma normalizeItem_fixed_iff: "normalizeItem it = it \<longleftrightarrow> item_fits it"
  using item_fits_normalize normalizeItem_fits by metis

section \<open>Dropping repeated reviews\<close>

abbreviation no_repeat :: "conversation_item \<Rightarrow> conversation_item \<Rightarrow> bool" where
  "no_repeat a b \<equiv> \<not> repeats_review a b"

lemma drop_repeated_snoc:
  "drop_repeated_reviews (xs @ [x]) = review_filter_step (drop_repeated_reviews xs) x"
  by (simp add: drop_repeated_reviews_def)

lemma drop_repeated_Nil [simp]: "drop_repeated_reviews [] = []"
  by (simp add: drop_repeated_reviews_def)

lemma drop_repeated_successively: "successively no_repeat (drop_repeated_reviews xs)"
  by (induction xs rule: rev_induct)
    (auto simp: drop_repeated_snoc review_filter_step_def successively_snoc)

lemma drop_repeated_id: "successively no_repeat xs \<Longrightarrow> drop_repeated_reviews xs = xs"
  by (induction xs rule: rev_induct)
    (auto simp: drop_repeated_snoc review_filter_step_def successively_snoc)

lemma drop_repeated_subseq: "subseq (drop_repeated_reviews xs) xs"
proof (induction xs rule: rev_induct)
  case (snoc x xs)
  then show ?case
    by (auto simp: drop_repeated_snoc review_filter_step_def intro: list_emb_append_mono)
qed simp

lemma set_drop_repeated: "set (drop_repeated_reviews xs) \<subseteq> set xs"
  by (induction xs rule: rev_induct) (auto simp: drop_repeated_snoc review_filter_step_def)

section \<open>Exploration summaries\<close>

definition plain_for_explore :: "conversation_item \<Rightarrow> bool" where
  "plain_for_explore it =
     (case it of Tool i t \<Rightarrow>
        toolType t = ''commandExecution'' \<longrightarrow> summarizeCommandExecution i t = None
      | _ \<Rightarrow> True)"

definition same_explore :: "conversation_item \<Rightarrow> conversation_item \<Rightarrow> bool" where
  "same_explore a b =
     (case (a, b) of (Explore _ s _, Explore _ s' _) \<Rightarrow> s = s' | _ \<Rightarrow> False)"

text \<open>Every round either appends one item or replaces the last exploration entry.\<close>

lemma push_explore_cases:
  obtains (append) "push_explore r i st es = r @ [Explore i st es]"
      "r = [] \<or> \<not> same_explore (last r) (Explore i st es)"
  | (merge) i' es' where "r \<noteq> []" "last r = Explore i' st es'"
      "push_explore r i st es = butlast r @ [Explore i' st (mergeExploreEntries es' es)]"
proof (cases "r = []")
  case True
  then show ?thesis using append by (simp add: push_explore_def)
next
  case False
  then have eq: "push_explore r i st es = (case last r of
      Explore j st' es' \<Rightarrow> if st' = st then butlast r @ [Explore j st' (mergeExploreEntries es' es)]
        else r @ [Explore i st es]
    | _ \<Rightarrow> r @ [Explore i st es])"
    unfolding push_explore_def by (cases r) simp_all
  from False show ?thesis
    using append merge eq
    by (cases "last r") (auto simp: same_explore_def split: if_splits)
qed

lemma explore_step_cases:
  obtains (append) y where "explore_step r x = r @ [y]" "plain_for_explore y"
      "r = [] \<or> \<not> same_explore (last r) y" "y = x \<or> (\<exists>i st es. y = Explore i st es)"
  | (merge) i st es es' where "r \<noteq> []" "last r = Explore i st es"
      "explore_step r x = butlast r @ [Explore i st es']"
proof -
  have push: thesis if "explore_step r x = push_explore r i st es" for i st es
    by (rule push_explore_cases [of r i st es])
      (use that append [of "Explore i st es"] merge in \<open>auto simp: plain_for_explore_def\<close>)
  show ?thesis
  proof (cases x)
    case (Explore i st es)
    then show ?thesis using push by (simp add: explore_step_def)
  next
    case (Tool i t)
    show ?thesis
    proof (cases "toolType t = ''commandExecution'' \<and> summarizeCommandExecution i t \<noteq> None")
      case True
      then obtain i' st es where "summarizeCommandExecution i t = Some (Explore i' st es)"
        using summarize_shape by blast
      with True Tool show ?thesis using push by (simp add: explore_step_def)
    next
      case False
      then show ?thesis using Tool append [of x]
        by (auto simp: explore_step_def plain_for_explore_def same_explore_def split: conversation_item.splits)
    qed
  qed (use append [of x] in
      \<open>auto simp: explore_step_def plain_for_explore_def same_explore_def split: conversation_item.splits\<close>)
qed

lemma summarize_Nil [simp]: "summarizeExploration [] = []"
  by (simp add: summarizeExploration_def)

lemma summarize_snoc: "summarizeExploration (xs @ [x]) = explore_step (summarizeExploration xs) x"
  by (simp add: summarizeExploration_def)

section \<open>The prepared list is stable\<close>

lemma summarize_shape_list:
  "(\<forall>y \<in> set (summarizeExploration xs). plain_for_explore y)
   \<and> successively (\<lambda>a b. \<not> same_explore a b) (summarizeExploration xs)"
proof (induction xs rule: rev_induct)
  case (snoc x xs)
  let ?r = "summarizeExploration xs"
  show ?case
  proof (cases rule: explore_step_cases [of ?r x])
    case (append y)
    then show ?thesis using snoc by (auto simp: summarize_snoc successively_snoc)
  next
    case (merge i st es es')
    then obtain q where q: "?r = q @ [Explore i st es]" by (metis append_butlast_last_id)
    have "same_explore a (Explore i st es') = same_explore a (Explore i st es)" for a
      by (cases a) (simp_all add: same_explore_def)
    then show ?thesis using snoc merge q
      by (auto simp: summarize_snoc successively_snoc plain_for_explore_def)
  qed
qed simp

lemma explore_step_plain:
  "plain_for_explore x \<Longrightarrow> r = [] \<or> \<not> same_explore (last r) x \<Longrightarrow> explore_step r x = r @ [x]"
  by (cases x; cases r rule: rev_cases)
    (auto simp: explore_step_def plain_for_explore_def push_explore_def same_explore_def
      split: conversation_item.splits list.splits)

lemma summarize_id:
  "\<forall>y \<in> set xs. plain_for_explore y \<Longrightarrow> successively (\<lambda>a b. \<not> same_explore a b) xs \<Longrightarrow>
   summarizeExploration xs = xs"
  by (induction xs rule: rev_induct) (auto simp: summarize_snoc successively_snoc explore_step_plain)

lemma summarize_idem [simp]: "summarizeExploration (summarizeExploration xs) = summarizeExploration xs"
  using summarize_shape_list by (intro summarize_id) auto

lemma length_summarize_le: "length (summarizeExploration xs) \<le> length xs"
proof (induction xs rule: rev_induct)
  case (snoc x xs)
  show ?case
    by (cases rule: explore_step_cases [of "summarizeExploration xs" x])
      (use snoc in \<open>auto simp: summarize_snoc\<close>)
qed simp

lemma set_summarize:
  "y \<in> set (summarizeExploration xs) \<Longrightarrow> y \<in> set xs \<or> (\<exists>i st es. y = Explore i st es)"
proof (induction xs arbitrary: y rule: rev_induct)
  case (snoc x xs)
  show ?case
  proof (cases rule: explore_step_cases [of "summarizeExploration xs" x])
    case (append z)
    then show ?thesis using snoc by (auto simp: summarize_snoc)
  next
    case (merge i st es es')
    then have "y \<in> set (summarizeExploration xs) \<or> y = Explore i st es'"
      using snoc.prems by (auto simp: summarize_snoc dest: in_set_butlastD)
    then show ?thesis using snoc.IH by auto
  qed
qed simp

lemma shorten_idem [simp]: "shorten_old_output (shorten_old_output it) = shorten_old_output it"
  by (cases it) (auto simp: option.map_comp comp_def)

lemma item_id_shorten [simp]: "item_id (shorten_old_output it) = item_id it"
  by (cases it) auto

lemma kind_of_shorten [simp]: "kind_of (shorten_old_output it) = kind_of it"
  by (cases it) auto

lemma length_shorten_old [simp]: "length (shorten_old xs) = length xs"
  by (simp add: shorten_old_def Let_def)

lemma shorten_old_idem [simp]: "shorten_old (shorten_old xs) = shorten_old xs"
proof -
  define c where "c = length xs - TOOL_OUTPUT_RECENT_ITEMS"
  then have "c \<le> length xs" by simp
  then have "take c (map shorten_old_output (take c xs) @ drop c xs) = map shorten_old_output (take c xs)"
    and "drop c (map shorten_old_output (take c xs) @ drop c xs) = drop c xs"
    by simp_all
  then show ?thesis by (simp add: shorten_old_def Let_def flip: c_def) (simp add: c_def)
qed

lemma shorten_old_map:
  "(\<And>it. f (shorten_old_output it) = f it) \<Longrightarrow> map f (shorten_old xs) = map f xs"
  by (simp add: shorten_old_def Let_def comp_def) (metis append_take_drop_id map_append)

lemma set_shorten_old: "y \<in> set (shorten_old xs) \<Longrightarrow> \<exists>x \<in> set xs. y = x \<or> y = shorten_old_output x"
  by (auto simp: shorten_old_def Let_def dest: in_set_takeD in_set_dropD)

lemma item_fits_shorten: "item_fits it \<Longrightarrow> item_fits (shorten_old_output it)"
  by (cases it) (auto simp: list_all_iff option.pred_set change_fits_def)

lemma plain_shorten [simp]: "plain_for_explore (shorten_old_output it) = plain_for_explore it"
  by (cases it) (auto simp: plain_for_explore_def intro: summarize_title_status
      dest!: arg_cong [of _ _ "\<lambda>x. x = None"] cong: summarize_title_status)

lemma same_explore_shorten [simp]:
  "same_explore (shorten_old_output a) b = same_explore a b"
  "same_explore a (shorten_old_output b) = same_explore a b"
  by (cases a; cases b; simp add: same_explore_def)+

lemma repeats_review_shorten [simp]:
  "repeats_review (shorten_old_output a) b = repeats_review a b"
  "repeats_review a (shorten_old_output b) = repeats_review a b"
  by (cases a; cases b; simp add: repeats_review_def split: review_state.splits)+

lemma shorten_old_eq_map:
  "\<exists>fs. length fs = length xs \<and> set fs \<subseteq> {id, shorten_old_output} \<and>
        shorten_old xs = map2 (\<lambda>f x. f x) fs xs"
proof -
  define c where "c = length xs - TOOL_OUTPUT_RECENT_ITEMS"
  define fs where "fs = replicate c shorten_old_output @ replicate (length xs - c) id"
  have "c \<le> length xs" by (simp add: c_def)
  then have "shorten_old xs = map2 (\<lambda>f x. f x) fs xs"
    by (intro nth_equalityI) (auto simp: shorten_old_def Let_def nth_append fs_def simp flip: c_def)
  moreover have "length fs = length xs" using \<open>c \<le> length xs\<close> by (simp add: fs_def)
  moreover have "set fs \<subseteq> {id, shorten_old_output}" by (auto simp: fs_def)
  ultimately show ?thesis by blast
qed

lemma successively_shorten_old:
  assumes "\<And>a b. P (shorten_old_output a) b = P a b" "\<And>a b. P a (shorten_old_output b) = P a b"
  shows "successively P (shorten_old xs) = successively P xs"
proof -
  from shorten_old_eq_map obtain fs where fs: "length fs = length xs"
    "set fs \<subseteq> {id, shorten_old_output}" "shorten_old xs = map2 (\<lambda>f x. f x) fs xs" by metis
  have "P (f a) (g b) = P a b" if "f \<in> {id, shorten_old_output}" "g \<in> {id, shorten_old_output}" for f g a b
    using that assms by auto
  then show ?thesis using fs successively_map2 by metis
qed


text \<open>A message short enough not to be cut when it is stored.\<close>

fun message_fits :: "conversation_item \<Rightarrow> bool" where
  "message_fits (Message i r t imgs) = (length t \<le> MAX_ITEM_TEXT)"
| "message_fits it = True"

text \<open>What a list in the store looks like.\<close>

definition prepared :: "conversation_item list \<Rightarrow> bool" where
  "prepared xs \<longleftrightarrow> length xs \<le> MAX_ITEMS_PER_THREAD \<and> list_all item_fits xs
     \<and> list_all plain_for_explore xs \<and> successively no_repeat xs
     \<and> successively (\<lambda>a b. \<not> same_explore a b) xs \<and> shorten_old xs = xs"

lemma item_fits_message_fits: "item_fits it \<Longrightarrow> message_fits it"
  by (cases it) auto

lemma repeats_review_normalize:
  "message_fits a \<Longrightarrow> message_fits b \<Longrightarrow>
   repeats_review (normalizeItem a) (normalizeItem b) = repeats_review a b"
  by (cases a; cases b)
    (auto simp: repeats_review_def Let_def truncate_to_short split: review_state.splits)

lemma last_summarize:
  "xs \<noteq> [] \<Longrightarrow> summarizeExploration xs \<noteq> [] \<and>
    (last (summarizeExploration xs) = last xs \<or> kind_of (last (summarizeExploration xs)) = KExplore)"
proof (induction xs rule: rev_induct)
  case (snoc x xs)
  show ?case
    by (cases rule: explore_step_cases [of "summarizeExploration xs" x])
      (auto simp: summarize_snoc)
qed simp

lemma repeats_review_kinds:
  "repeats_review a b \<Longrightarrow> kind_of a = KReview \<and> kind_of b = KMessage"
  by (cases a; cases b) (auto simp: repeats_review_def split: review_state.splits)

lemma successively_summarize:
  "successively no_repeat xs \<Longrightarrow> successively no_repeat (summarizeExploration xs)"
proof (induction xs rule: rev_induct)
  case (snoc x xs)
  let ?r = "summarizeExploration xs"
  have IH: "successively no_repeat ?r" using snoc by (simp add: successively_snoc)
  show ?case
  proof (cases rule: explore_step_cases [of ?r x])
    case (append y)
    have "no_repeat (last ?r) y" if "?r \<noteq> []"
    proof (cases "y = x")
      case True
      from that have "xs \<noteq> []" by auto
      with snoc.prems True show ?thesis
        using last_summarize [of xs] repeats_review_kinds [of "last ?r" x]
        by (auto simp: successively_snoc)
    next
      case False
      then show ?thesis using append(4) repeats_review_kinds [of "last ?r" y] by auto
    qed
    then show ?thesis using append IH by (auto simp: summarize_snoc successively_snoc)
  next
    case (merge i st es es')
    then obtain q where q: "?r = q @ [Explore i st es]" by (metis append_butlast_last_id)
    have "no_repeat a (Explore i st es')" for a
      using repeats_review_kinds [of a "Explore i st es'"] by auto
    then show ?thesis using IH merge q by (auto simp: summarize_snoc successively_snoc)
  qed
qed simp

lemma prepareThreadItems_eq:
  "prepareThreadItems xs = shorten_old (summarizeExploration
     (slice_last MAX_ITEMS_PER_THREAD (map normalizeItem (drop_repeated_reviews xs))))"
  by (simp add: prepareThreadItems_def Let_def slice_last_def)

lemma prepared_fixed: "prepared xs \<Longrightarrow> prepareThreadItems xs = xs"
proof -
  assume p: "prepared xs"
  then have "map normalizeItem (drop_repeated_reviews xs) = xs"
    by (simp add: prepared_def drop_repeated_id list_all_iff normalizeItem_fits map_idI)
  with p show ?thesis
    by (simp add: prepareThreadItems_eq prepared_def slice_last_def summarize_id list_all_iff)
qed

lemma length_prepare_le: "length (prepareThreadItems xs) \<le> length (drop_repeated_reviews xs)"
  "length (prepareThreadItems xs) \<le> MAX_ITEMS_PER_THREAD"
  using length_summarize_le [of "slice_last MAX_ITEMS_PER_THREAD (map normalizeItem (drop_repeated_reviews xs))"]
  by (simp_all add: prepareThreadItems_eq)

lemma prepare_fits: "it \<in> set (prepareThreadItems xs) \<Longrightarrow> item_fits it"
  unfolding prepareThreadItems_eq
  by (auto dest!: set_shorten_old set_summarize set_slice_last_subset [THEN subsetD]
      simp: item_fits_shorten [OF item_fits_normalize])

lemma prepared_prepare:
  assumes "\<And>it. it \<in> set xs \<Longrightarrow> message_fits it"
  shows "prepared (prepareThreadItems xs)"
proof -
  let ?n = "map normalizeItem (drop_repeated_reviews xs)"
  let ?l = "slice_last MAX_ITEMS_PER_THREAD ?n"
  have "successively (\<lambda>a b. no_repeat (normalizeItem a) (normalizeItem b)) (drop_repeated_reviews xs)"
  proof (rule successively_mono [OF drop_repeated_successively])
    fix a b
    assume "a \<in> set (drop_repeated_reviews xs)" "b \<in> set (drop_repeated_reviews xs)" "no_repeat a b"
    then show "no_repeat (normalizeItem a) (normalizeItem b)"
      using assms set_drop_repeated [of xs] by (simp add: repeats_review_normalize subset_iff)
  qed
  then have "successively no_repeat ?l"
    by (simp add: slice_last_def successively_drop successively_map)
  then have "successively no_repeat (summarizeExploration ?l)" by (rule successively_summarize)
  moreover have "successively (\<lambda>a b. \<not> same_explore a b) (prepareThreadItems xs)"
    using summarize_shape_list by (simp add: prepareThreadItems_eq successively_shorten_old)
  moreover have "list_all plain_for_explore (prepareThreadItems xs)"
    using summarize_shape_list by (auto simp: prepareThreadItems_eq list_all_iff dest!: set_shorten_old)
  moreover have "list_all item_fits (prepareThreadItems xs)"
    using prepare_fits by (auto simp: list_all_iff)
  ultimately show ?thesis
    using length_prepare_le(2)
    by (simp add: prepared_def prepareThreadItems_eq successively_shorten_old)
qed

lemma prepare_idem:
  "(\<And>it. it \<in> set xs \<Longrightarrow> message_fits it) \<Longrightarrow>
   prepareThreadItems (prepareThreadItems xs) = prepareThreadItems xs"
  by (intro prepared_fixed prepared_prepare)

section \<open>Updates and merges\<close>

lemma item_id_merge [simp]: "item_id (merge_item ex inc) = item_id inc"
  by (cases ex; cases inc) auto

lemma kind_of_merge [simp]: "kind_of (merge_item ex inc) = kind_of inc"
  by (cases ex; cases inc) auto

lemma upsert_ids:
  "map item_id (upsertItem items item) =
     (if item_id item \<in> set (map item_id items) then map item_id items
      else map item_id items @ [item_id item])"
proof (cases "find_index (\<lambda>e. item_id e = item_id item) items")
  case None
  then have "item_id item \<notin> set (map item_id items)" by (auto simp: find_index_None_iff)
  then show ?thesis by (simp add: upsertItem_def None)
next
  case (Some k)
  then have k: "k < length items" "item_id (items ! k) = item_id item"
    by (auto dest: find_index_SomeD)
  then have "item_id item \<in> set (map item_id items)"
    by (metis length_map nth_map nth_mem)
  moreover have "map item_id (items[k := merge_item (items ! k) item]) = map item_id items"
    using k by (simp add: map_update list_update_same_conv)
  ultimately show ?thesis by (simp add: upsertItem_def Some)
qed

lemma distinct_upsert:
  "distinct (map item_id items) \<Longrightarrow> distinct (map item_id (upsertItem items item))"
  by (simp add: upsert_ids)


lemma non_blank_or_idem [simp]: "non_blank_or a (non_blank_or a b) = non_blank_or a b"
  by (simp add: non_blank_or_def)

lemma non_blank_opt_or_idem [simp]: "non_blank_opt_or a (non_blank_opt_or a b) = non_blank_opt_or a b"
  by (simp add: non_blank_opt_or_def split: option.splits)

lemma non_empty_opt_or_idem [simp]: "non_empty_opt_or a (non_empty_opt_or a b) = non_empty_opt_or a b"
  by (simp add: non_empty_opt_or_def split: option.splits)

lemma nullish2_idem [simp]: "nullish2 a (nullish2 a b) = nullish2 a b"
  by (cases a) simp_all

lemma longer_idem [simp]: "longer (longer a b) b = longer a b"
  by (simp add: longer_def)

lemma own_merge [simp]: "longer a a = a" "non_blank_or a a = a" "non_blank_opt_or o' o' = o'"
    "non_empty_opt_or l l = l" "nullish2 n n = n"
  by (simp_all add: longer_def non_blank_or_def non_blank_opt_or_def non_empty_opt_or_def
      nullish2_def split: option.splits)

text \<open>A tool item that carries no output at all is stored as it is only when it is new.\<close>

fun has_output :: "conversation_item \<Rightarrow> bool" where
  "has_output (Tool i t) = (tool_output t \<noteq> None)"
| "has_output it = True"

lemma merge_item_self: "has_output it \<Longrightarrow> merge_item it it = it"
  by (cases it) (auto simp: merge_tool_def)

lemma merge_item_idem:
  "has_output inc \<Longrightarrow> merge_item (merge_item ex inc) inc = merge_item ex inc"
  by (cases ex; cases inc) (auto simp: merge_tool_def)

lemma has_output_merge: "has_output ex \<Longrightarrow> kind_of ex = kind_of inc \<Longrightarrow> has_output (merge_item ex inc)"
  by (cases ex; cases inc) (auto simp: merge_tool_def)

lemma upsert_idem:
  assumes "has_output item"
  shows "upsertItem (upsertItem items item) item = upsertItem items item"
proof (cases "find_index (\<lambda>e. item_id e = item_id item) items")
  case None
  then have "find_index (\<lambda>e. item_id e = item_id item) (items @ [item]) = Some (length items)"
    by (intro find_index_append_new) (auto simp: find_index_None_iff)
  then show ?thesis using assms by (simp add: upsertItem_def None merge_item_self)
next
  case (Some k)
  then have k: "k < length items" by (auto dest: find_index_SomeD)
  from Some have "find_index (\<lambda>e. item_id e = item_id item)
      (items[k := merge_item (items ! k) item]) = Some k"
    by (intro find_index_first) auto
  with k assms show ?thesis by (simp add: upsertItem_def Some merge_item_idem)
qed

text \<open>How much text an item shows (a tool's output is replaced, not accumulated).\<close>

fun text_size :: "conversation_item \<Rightarrow> nat" where
  "text_size (Message i r t imgs) = length t"
| "text_size (Reasoning i s c) = length s + length c"
| "text_size (DiffItem i t d s) = length d"
| "text_size (Review i s t) = length t"
| "text_size it = 0"

lemma longer_length: "length a \<le> length (longer a b)" "length b \<le> length (longer a b)"
  by (simp_all add: longer_def)

lemma merge_item_grows:
  "kind_of ex = kind_of inc \<Longrightarrow> text_size ex \<le> text_size (merge_item ex inc)"
  by (cases ex; cases inc) (auto simp: longer_length intro!: add_mono)

lemma upsert_nth:
  assumes "k < length items"
  shows "upsertItem items item ! k =
    (if find_index (\<lambda>e. item_id e = item_id item) items = Some k
     then merge_item (items ! k) item else items ! k)"
  using assms by (auto simp: upsertItem_def nth_append nth_list_update split: option.splits)

lemma choose_ids [simp]: "item_id remote = item_id local \<Longrightarrow> item_id (chooseRicherItem remote local) = item_id local"
  by (cases remote; cases local) auto

lemma choose_size:
  assumes "kind_of remote = kind_of local" "kind_of remote \<noteq> KReview"
  shows "text_size (chooseRicherItem remote local) = max (text_size remote) (text_size local)"
  using assms by (cases remote; cases local) auto

lemma items_by_id_Some: "items_by_id xs i = Some it \<Longrightarrow> it \<in> set xs \<and> item_id it = i"
  by (auto simp: items_by_id_def find_Some_iff) (metis nth_mem length_rev set_rev)

lemma insert_remote_cases:
  obtains (present) "item_id (rs ! k) \<in> item_id ` set m" "insert_remote rs m k = m"
  | (insert) n where "item_id (rs ! k) \<notin> item_id ` set m"
      "insert_remote rs m k = take n m @ [rs ! k] @ drop n m"
  by (cases "item_id (rs ! k) \<in> item_id ` set m") (auto simp: insert_remote_def Let_def)

lemma insert_remote_set:
  "item_id ` set (insert_remote rs m k) = insert (item_id (rs ! k)) (item_id ` set m)"
proof (cases rule: insert_remote_cases [of rs k m])
  case (insert n)
  have "set m = set (take n m) \<union> set (drop n m)" by (metis append_take_drop_id set_append)
  with insert show ?thesis by (auto simp: image_Un)
qed auto

lemma insert_remote_count:
  "count_list (map item_id (insert_remote rs m k)) i =
     count_list (map item_id m) i + (if item_id (rs ! k) = i \<and> i \<notin> item_id ` set m then 1 else 0)"
proof (cases rule: insert_remote_cases [of rs k m])
  case (insert n)
  have "count_list (map item_id m) i =
      count_list (map item_id (take n m)) i + count_list (map item_id (drop n m)) i"
    by (metis append_take_drop_id count_list_append map_append)
  with insert show ?thesis by auto
qed auto

lemma insert_remote_subseq: "subseq m (insert_remote rs m k)"
proof (cases rule: insert_remote_cases [of rs k m])
  case (insert n)
  have "subseq (take n m @ drop n m) (take n m @ [rs ! k] @ drop n m)"
    by (intro list_emb_append_mono) auto
  with insert show ?thesis by simp
qed simp

lemma subseq_rounds: "subseq m (foldl (insert_remote rs) m ks)"
proof (induction ks arbitrary: m)
  case (Cons k ks)
  show ?case
    by (rule subseq_order.order_trans [OF insert_remote_subseq [of m rs k]]) (use Cons.IH in simp)
qed simp

lemma merge_rounds_set:
  "item_id ` set (foldl (insert_remote rs) m ks) = item_id ` set m \<union> (\<lambda>k. item_id (rs ! k)) ` set ks"
  by (induction ks arbitrary: m) (simp_all add: insert_remote_set)

lemma merge_rounds_count:
  "count_list (map item_id (foldl (insert_remote rs) m ks)) i \<le> max (count_list (map item_id m) i)
     (if i \<in> (\<lambda>k. item_id (rs ! k)) ` set ks then 1 else 0)"
proof (induction ks arbitrary: m)
  case (Cons k ks)
  show ?case
    using Cons.IH [of "insert_remote rs m k"] insert_remote_count [of rs m k i]
      count_notin [of i "map item_id m"]
    by (auto split: if_splits)
qed simp

definition local_choice :: "conversation_item list \<Rightarrow> conversation_item \<Rightarrow> conversation_item" where
  "local_choice remoteItems item =
     (case items_by_id remoteItems (item_id item) of
        Some remote \<Rightarrow> chooseRicherItem remote item | None \<Rightarrow> item)"

lemma item_id_local_choice [simp]: "item_id (local_choice rs it) = item_id it"
  by (auto simp: local_choice_def dest: items_by_id_Some split: option.splits)

lemma all_ids: "(\<lambda>k. item_id (rs ! k)) ` {0..<length rs} = item_id ` set rs"
  using map_nth [of rs] by (metis image_image set_map set_upt)

lemma merge_cases:
  obtains (no_local) "localItems = []" "mergeThreadItems remoteItems localItems = remoteItems"
  | (no_remote) "remoteItems = []" "mergeThreadItems remoteItems localItems = localItems"
  | (disjoint) "item_id ` set remoteItems \<inter> item_id ` set localItems = {}"
      "mergeThreadItems remoteItems localItems = remoteItems @ localItems"
  | (shared) "mergeThreadItems remoteItems localItems =
        foldl (insert_remote remoteItems) (map (local_choice remoteItems) localItems) [0..<length remoteItems]"
proof -
  show ?thesis
  proof (cases "localItems = [] \<or> remoteItems = []")
    case True
    then show ?thesis using no_local no_remote by (auto simp: mergeThreadItems_def)
  next
    case False
    show ?thesis
    proof (cases "filter (\<lambda>i. i \<in> set (map item_id localItems)) (map item_id remoteItems) = []")
      case True
      with False show ?thesis by (intro disjoint) (auto simp: mergeThreadItems_def filter_empty_conv)
    next
      case ne: False
      with False show ?thesis
        by (intro shared) (simp add: mergeThreadItems_def Let_def local_choice_def [abs_def])
    qed
  qed
qed

lemma merge_ids:
  "item_id ` set (mergeThreadItems remoteItems localItems)
     = item_id ` set remoteItems \<union> item_id ` set localItems"
  by (cases rule: merge_cases [of localItems remoteItems])
    (simp_all add: image_Un merge_rounds_set all_ids image_image Un_commute)

lemma merge_order: "subseq (map item_id localItems) (map item_id (mergeThreadItems remoteItems localItems))"
proof (cases rule: merge_cases [of localItems remoteItems])
  case shared
  let ?m = "map (local_choice remoteItems) localItems"
  have "subseq (map item_id ?m) (map item_id (mergeThreadItems remoteItems localItems))"
    using subseq_rounds shared by (intro subseq_map) simp
  then show ?thesis by (simp add: comp_def)
qed (simp_all add: list_emb_append2)

lemma merge_count:
  "count_list (map item_id (mergeThreadItems remoteItems localItems)) i
     \<le> max (count_list (map item_id remoteItems) i) (count_list (map item_id localItems) i)"
proof (cases rule: merge_cases [of localItems remoteItems])
  case disjoint
  then have "i \<notin> set (map item_id remoteItems) \<or> i \<notin> set (map item_id localItems)" by auto
  then show ?thesis using count_notin disjoint(2) by fastforce
next
  case shared
  let ?m = "map (local_choice remoteItems) localItems"
  have ids: "map item_id ?m = map item_id localItems" by simp
  have "i \<in> item_id ` set remoteItems \<Longrightarrow> 1 \<le> count_list (map item_id remoteItems) i"
    by (metis One_nat_def Suc_leI count_list_0_iff list.set_map neq0_conv)
  then show ?thesis
    using merge_rounds_count [of remoteItems ?m "[0..<length remoteItems]" i]
    unfolding ids shared set_upt all_ids by (auto split: if_splits)
qed simp_all

lemma merge_choice:
  assumes "items_by_id remoteItems (item_id l) = Some r" "l \<in> set localItems"
    "kind_of r = kind_of l" "kind_of r \<noteq> KReview"
  shows "\<exists>it \<in> set (mergeThreadItems remoteItems localItems).
    item_id it = item_id l \<and> text_size it = max (text_size r) (text_size l)"
proof (cases rule: merge_cases [of localItems remoteItems])
  case no_local
  then show ?thesis using assms(2) by simp
next
  case no_remote
  then show ?thesis using assms(1) by (simp add: items_by_id_def)
next
  case disjoint
  from items_by_id_Some [OF assms(1)] imageI [OF assms(2), of item_id]
  have "item_id l \<in> item_id ` set remoteItems \<inter> item_id ` set localItems"
    by (metis IntI imageI)
  with disjoint show ?thesis by simp
next
  case shared
  let ?m = "map (local_choice remoteItems) localItems"
  have "local_choice remoteItems l = chooseRicherItem r l"
    using assms(1) by (simp add: local_choice_def)
  then have "chooseRicherItem r l \<in> set ?m" using assms(2) by force
  moreover have "subseq ?m (mergeThreadItems remoteItems localItems)"
    using subseq_rounds shared by simp
  ultimately have "chooseRicherItem r l \<in> set (mergeThreadItems remoteItems localItems)"
    by (rule subseq_mem)
  moreover have "item_id (chooseRicherItem r l) = item_id l"
    using items_by_id_Some [OF assms(1)] by simp
  moreover have "text_size (chooseRicherItem r l) = max (text_size r) (text_size l)"
    using assms(3,4) by (rule choose_size)
  ultimately show ?thesis by blast
qed

section \<open>Properties\<close>

text \<open>Preparing a list for the store respects its bounds: at most two hundred items, none
  longer than the list given, and every text of every item within its limit (but for the output
  of file changes and commands, which is only shortened once it is old).\<close>

theorem prepareThreadItems_bounded:
  "length (prepareThreadItems items) \<le> min (length items) 200
   \<and> list_all item_fits (prepareThreadItems items)"
  using length_prepare_le [of items] list_emb_length [OF drop_repeated_subseq [of items]] prepare_fits [of _ items]
  by (simp add: MAX_ITEMS_PER_THREAD_def list_all_iff)

text \<open>C12: preparing is stable.  The reducer prepares the same list again on every event; from
  the second time on nothing changes, and the lists that are left alone are exactly those in
  the stored form \<open>prepared\<close>.\<close>

theorem prepareThreadItems_stable:
  "prepareThreadItems (prepareThreadItems (prepareThreadItems items))
     = prepareThreadItems (prepareThreadItems items)
   \<and> (prepareThreadItems items = items \<longleftrightarrow> prepared items)"
proof
  show "prepareThreadItems (prepareThreadItems (prepareThreadItems items))
     = prepareThreadItems (prepareThreadItems items)"
    by (intro prepare_idem) (auto dest: prepare_fits item_fits_message_fits)
  show "prepareThreadItems items = items \<longleftrightarrow> prepared items"
  proof
    assume eq: "prepareThreadItems items = items"
    then have "message_fits it" if "it \<in> set items" for it
      using that prepare_fits [of it items] item_fits_message_fits by simp
    then show "prepared items" using prepared_prepare [of items] eq by simp
  qed (rule prepared_fixed)
qed

text \<open>An update of a thread's items replaces the item of the same identifier in place or
  appends a new one: the identifiers keep their order and stay distinct, every other item is
  untouched, and the text of a message, reasoning, diff or review never gets shorter.\<close>

theorem upsertItem_functional:
  "map item_id (upsertItem items item) =
     (if item_id item \<in> set (map item_id items) then map item_id items
      else map item_id items @ [item_id item])
   \<and> (\<forall>k. k < length items \<longrightarrow>
        (upsertItem items item ! k = items ! k \<or>
           item_id (items ! k) = item_id item \<and>
           upsertItem items item ! k = merge_item (items ! k) item)
        \<and> (kind_of (items ! k) = kind_of item \<longrightarrow>
             text_size (items ! k) \<le> text_size (upsertItem items item ! k)))"
  using upsert_ids [of items item]
  by (auto simp: upsert_nth merge_item_grows dest: find_index_SomeD)

theorem upsertItem_functional_witness:
  "map item_id (upsertItem [Message ''a'' User ''hi'' None, Review ''b'' Started ''t'']
      (Message ''a'' User ''hello'' None)) = [''a'', ''b'']
   \<and> text_size (Message ''a'' User ''hi'' None) \<le>
      text_size (upsertItem [Message ''a'' User ''hi'' None, Review ''b'' Started ''t'']
        (Message ''a'' User ''hello'' None) ! 0)"
  using upsertItem_functional [of "[Message ''a'' User ''hi'' None, Review ''b'' Started ''t'']"
      "Message ''a'' User ''hello'' None", THEN conjunct1]
    upsertItem_functional [of "[Message ''a'' User ''hi'' None, Review ''b'' Started ''t'']"
      "Message ''a'' User ''hello'' None", THEN conjunct2, THEN spec [of _ 0]] by simp

text \<open>Applying the same update twice is applying it once, whatever the list holds, for
  every item but a tool without any output (which is stored with an empty one the second time).\<close>

theorem upsertItem_idempotent:
  "has_output item \<Longrightarrow> upsertItem (upsertItem items item) item = upsertItem items item"
  by (rule upsert_idem)

theorem upsertItem_idempotent_witness:
  "upsertItem (upsertItem [Message ''a'' User ''hi'' None] (Message ''a'' User ''h'' None))
      (Message ''a'' User ''h'' None) = [Message ''a'' User ''hi'' None]"
  using upsertItem_idempotent [of "Message ''a'' User ''h'' None" "[Message ''a'' User ''hi'' None]"]
  by (simp add: upsertItem_def longer_def non_empty_opt_or_def)

text \<open>C11: merging a remote snapshot into the local items loses no item and adds no repetition:
  the identifiers of the result are exactly those of both sides, none occurs more often than on
  the side that has it most often (so if neither side has an identifier twice, neither has the
  result; repetitions within a side are not removed), the local items keep their order, and
  where both sides have a message, both a reasoning or both a diff of an identifier (the last remote one
  counts, if there are several), the result has one with the longer of the two texts.\<close>

theorem mergeThreadItems_union:
  "item_id ` set (mergeThreadItems remoteItems localItems)
         = item_id ` set remoteItems \<union> item_id ` set localItems
     \<and> count_list (map item_id (mergeThreadItems remoteItems localItems)) i
         \<le> max (count_list (map item_id remoteItems) i) (count_list (map item_id localItems) i)
     \<and> subseq (map item_id localItems) (map item_id (mergeThreadItems remoteItems localItems))
     \<and> (\<forall>l \<in> set localItems. \<forall>r. items_by_id remoteItems (item_id l) = Some r \<longrightarrow>
          kind_of r = kind_of l \<longrightarrow> kind_of r \<noteq> KReview \<longrightarrow>
          (\<exists>it \<in> set (mergeThreadItems remoteItems localItems).
             item_id it = item_id l \<and> text_size it = max (text_size r) (text_size l)))"
  by (intro conjI ballI allI impI merge_ids merge_count merge_order merge_choice)

theorem mergeThreadItems_union_witness:
  "\<exists>it \<in> set (mergeThreadItems
      [Message ''a'' User ''x'' None, Message ''c'' Assistant ''long'' None, Message ''b'' User ''z'' None]
      [Message ''a'' User ''xy'' None, Message ''b'' User ''z'' None]). item_id it = ''a'' \<and> text_size it = 2"
proof -
  let ?remote = "[Message ''a'' User ''x'' None, Message ''c'' Assistant ''long'' None, Message ''b'' User ''z'' None]"
  let ?local = "[Message ''a'' User ''xy'' None, Message ''b'' User ''z'' None]"
  have "items_by_id ?remote ''a'' = Some (Message ''a'' User ''x'' None)" by (simp add: items_by_id_def)
  moreover have "Message ''a'' User ''xy'' None \<in> set ?local" by simp
  ultimately show ?thesis using mergeThreadItems_union [of ?remote ?local] by fastforce
qed

end
