(* ===== verification/ThreadHelpers.thy ===== *)
theory ThreadHelpers
  imports ThreadItems
begin

text \<open>
  The helpers of the thread reducer: \<^verbatim>\<open>apps/code/src/features/threads/hooks/useThreadsReducer.helpers.ts\<close>
  and \<^verbatim>\<open>utils/threadTitle.ts\<close>.  Naming a thread from its first message, replacing an
  optimistic message by the real one, merging a streamed delta into the text received so far, and
  keeping review items unique.
\<close>

section \<open>Thread names\<close>

definition hex_char :: re where
  "hex_char = Chr (\<lambda>c. is_digit c \<or> char_between (CHR ''a'') (CHR ''f'') (lower_char c))"

text \<open>\<^verbatim>\<open>/^[a-f0-9]{4,8}$/i\<close>\<close>

definition HEX_THREAD_NAME_PATTERN :: re where
  "HEX_THREAD_NAME_PATTERN = Seqs [Bol, repeat_n 4 hex_char, repeat_upto 4 hex_char, Eol]"

definition looksAutoGeneratedThreadName :: "string \<Rightarrow> bool" where
  "looksAutoGeneratedThreadName name =
     (let trimmed = js_trim name
      in if trimmed = [] then False
         else let normalized = to_lower trimmed
         in normalized = ''new agent'' \<or> normalized = ''new thread''
            \<or> starts_with trimmed ''Agent '' \<or> re_test HEX_THREAD_NAME_PATTERN trimmed)"

definition isMeaningfulThreadName :: "string \<Rightarrow> bool" where
  "isMeaningfulThreadName name =
     (let trimmed = js_trim name in trimmed \<noteq> [] \<and> \<not> looksAutoGeneratedThreadName trimmed)"

definition getMeaningfulThreadName :: "string \<Rightarrow> string option" where
  "getMeaningfulThreadName name =
     (let trimmed = js_trim name in if isMeaningfulThreadName trimmed then Some trimmed else None)"

definition truncateThreadName :: "string \<Rightarrow> nat \<Rightarrow> string" where
  "truncateThreadName name maxChars =
     (if length name > maxChars then take maxChars name @ ellipsis else name)"

definition MAX_THREAD_NAME_LENGTH :: nat where "MAX_THREAD_NAME_LENGTH = 38"

definition formatThreadName :: "string \<Rightarrow> string option" where
  "formatThreadName text =
     (let trimmed = js_trim text
      in if trimmed = [] then None
         else Some (if length trimmed > MAX_THREAD_NAME_LENGTH
                    then take MAX_THREAD_NAME_LENGTH trimmed @ ellipsis else trimmed))"

text \<open>\<^verbatim>\<open>/\[image(?: x\d+)?\]/gi\<close>, \<^verbatim>\<open>/(^|\s)\$[A-Za-z0-9_-]+(?=\s|$)/g\<close>, \<^verbatim>\<open>/\s+/g\<close>\<close>

definition image_re :: re where
  "image_re = Seqs [Lit ''['', Lit_i ''image'', Opt (Seqs [Lit '' '', Lit_i ''x'', Plus (Chr is_digit)]),
     Lit '']'']"

definition skill_re :: re where
  "skill_re = Seqs [Group 1 (Altn Bol Space), Lit ''$'',
     Plus (Chr (\<lambda>c. is_upper c \<or> is_lower c \<or> is_digit c \<or> c \<in> {CHR ''_'', CHR ''-''})),
     LookAhead (Altn Space Eol)]"

definition spaces_re :: re where
  "spaces_re = Plus Space"

definition extractRenameText :: "string \<Rightarrow> string" where
  "extractRenameText text =
     (if text = [] then []
      else let withoutImages = replace_all image_re (\<lambda>m. '' '') text;
               withoutSkills = replace_all skill_re (\<lambda>m. '' '') withoutImages
      in js_trim (replace_all spaces_re (\<lambda>m. '' '') withoutSkills))"

section \<open>Optimistic messages\<close>

definition isOptimisticUserMessage :: "conversation_item \<Rightarrow> bool" where
  "isOptimisticUserMessage item =
     (is_user_message item \<and> starts_with (item_id item) ''optimistic-user-'')"

definition normalizeUserMessageText :: "string \<Rightarrow> string" where
  "normalizeUserMessageText text = replace_all spaces_re (\<lambda>m. '' '') (js_trim text)"

definition areMatchingUserMessages :: "conversation_item \<Rightarrow> conversation_item \<Rightarrow> bool" where
  "areMatchingUserMessages left right =
     (case (left, right) of
        (Message _ User t imgs, Message _ User t' imgs') \<Rightarrow>
          if normalizeUserMessageText t \<noteq> normalizeUserMessageText t' then False
          else nullish imgs [] = nullish imgs' []
      | _ \<Rightarrow> False)"

text \<open>Removing the last element that satisfies \<open>p\<close> (a loop from the end and a \<open>splice\<close>).\<close>

fun remove_last :: "('a \<Rightarrow> bool) \<Rightarrow> 'a list \<Rightarrow> 'a list" where
  "remove_last p [] = []"
| "remove_last p (x # xs) =
     (if p x \<and> \<not> list_ex p xs then xs else x # remove_last p xs)"

definition reconcileOptimisticUserMessage ::
    "conversation_item list \<Rightarrow> conversation_item \<Rightarrow> conversation_item list" where
  "reconcileOptimisticUserMessage items incoming =
     (if \<not> is_user_message incoming \<or> starts_with (item_id incoming) ''optimistic-user-'' then items
      else remove_last (\<lambda>c. isOptimisticUserMessage c \<and> areMatchingUserMessages c incoming) items)"

section \<open>Renaming from the agent's answer\<close>

abbreviation is_assistant_message :: "conversation_item \<Rightarrow> bool" where
  "is_assistant_message it \<equiv> (case it of Message _ Assistant _ _ \<Rightarrow> True | _ \<Rightarrow> False)"

text \<open>An empty \<open>itemId\<close> is falsy: it does not select an item.\<close>

definition getAssistantTextForRename :: "conversation_item list \<Rightarrow> string option \<Rightarrow> string" where
  "getAssistantTextForRename items itemId =
     (let latest = (case find is_assistant_message (rev items) of
            Some (Message _ _ t _) \<Rightarrow> t | _ \<Rightarrow> [])
      in case itemId of
           None \<Rightarrow> latest
         | Some i \<Rightarrow>
             if i = [] then latest
             else (case find (\<lambda>it. is_assistant_message it \<and> item_id it = i) items of
                     Some (Message _ _ t _) \<Rightarrow> t
                   | _ \<Rightarrow> latest))"

definition maybeRenameThreadFromAgent :: "string \<Rightarrow> string \<Rightarrow> conversation_item list \<Rightarrow>
    string option \<Rightarrow> bool \<Rightarrow> thread_summary list js_record \<Rightarrow> thread_summary list js_record" where
  "maybeRenameThreadFromAgent workspaceId threadId items itemId hasCustomName threadsByWs =
     (let threads = nullish (threadsByWs workspaceId) []
      in if threads = [] then threadsByWs
         else if list_ex is_user_message items then threadsByWs
         else if hasCustomName then threadsByWs
         else case formatThreadName (getAssistantTextForRename items itemId) of
             None \<Rightarrow> threadsByWs
           | Some nextName \<Rightarrow>
               let renamed = (\<lambda>thread. thr_id thread = threadId \<and> thr_name thread \<noteq> nextName
                                 \<and> looksAutoGeneratedThreadName (thr_name thread))
               in if list_ex renamed threads
                  then threadsByWs(workspaceId \<mapsto>
                    map (\<lambda>thread. if renamed thread then thread\<lparr>thr_name := nextName\<rparr> else thread) threads)
                  else threadsByWs)"

section \<open>Streaming text\<close>

text \<open>The loop over the overlap lengths, from the longest to one.\<close>

fun overlap_loop :: "nat \<Rightarrow> string \<Rightarrow> string \<Rightarrow> string" where
  "overlap_loop 0 existing delta = existing @ delta"
| "overlap_loop (Suc n) existing delta =
     (if ends_with existing (take (Suc n) delta) then existing @ drop (Suc n) delta
      else overlap_loop n existing delta)"

definition mergeStreamingText :: "string \<Rightarrow> string \<Rightarrow> string" where
  "mergeStreamingText existing delta =
     (if delta = [] then existing
      else if existing = [] then delta
      else if delta = existing then existing
      else if starts_with delta existing then delta
      else if starts_with existing delta then existing
      else overlap_loop (min (length existing) (length delta)) existing delta)"

definition addSummaryBoundary :: "string \<Rightarrow> string" where
  "addSummaryBoundary existing =
     (if existing = [] then existing
      else if ends_with existing [CHR 10, CHR 10] then existing
      else if ends_with existing [CHR 10] then existing @ [CHR 10]
      else existing @ [CHR 10, CHR 10])"

section \<open>Reviews\<close>

definition is_local_review_start :: "conversation_item \<Rightarrow> bool" where
  "is_local_review_start it =
     (case it of Review i Started t \<Rightarrow> starts_with i ''review-start-'' | _ \<Rightarrow> False)"

definition dropLatestLocalReviewStart :: "conversation_item list \<Rightarrow> conversation_item list" where
  "dropLatestLocalReviewStart items = remove_last is_local_review_start items"

definition findMatchingReview :: "conversation_item list \<Rightarrow> review_state \<Rightarrow> string \<Rightarrow> conversation_item option" where
  "findMatchingReview items st text =
     find (\<lambda>it. case it of Review i s t \<Rightarrow> s = st \<and> js_trim t = js_trim text | _ \<Rightarrow> False) items"

definition review_candidate :: "string \<Rightarrow> nat \<Rightarrow> string" where
  "review_candidate i n = i @ ''-'' @ show_nat n"

text \<open>
  The \<open>while\<close> loop over the suffixes: it visits pairwise different identifiers, and there are
  finitely many taken ones, so it ends.
\<close>

lemma review_candidate_inj: "review_candidate i m = review_candidate i n \<Longrightarrow> m = n"
  by (auto simp: review_candidate_def dest: show_nat_inj)

lemma infinite_candidates: "finite ids \<Longrightarrow> \<exists>m \<ge> n. review_candidate i m \<notin> ids"
proof (rule ccontr)
  assume fin: "finite ids" and "\<not> (\<exists>m \<ge> n. review_candidate i m \<notin> ids)"
  then have "review_candidate i ` {n..} \<subseteq> ids" by auto
  with fin have "finite (review_candidate i ` {n..})" by (rule finite_subset [rotated])
  moreover have "inj_on (review_candidate i) {n..}"
    by (auto intro: inj_onI review_candidate_inj)
  ultimately have "finite {n..}" by (rule finite_imageD)
  then show False by (simp add: infinite_Ici)
qed

function free_suffix :: "string list \<Rightarrow> string \<Rightarrow> nat \<Rightarrow> nat" where
  "free_suffix ids i n =
     (if review_candidate i n \<in> set ids then free_suffix ids i (Suc n) else n)"
  by pat_completeness auto
termination
proof (relation "measure (\<lambda>(ids, i, n). (LEAST m. n \<le> m \<and> review_candidate i m \<notin> set ids) - n)")
  fix ids i n
  assume taken: "review_candidate i n \<in> set (ids :: string list)"
  let ?P = "\<lambda>n m. n \<le> m \<and> review_candidate i m \<notin> set ids"
  obtain m where m: "?P (Suc n) m" using infinite_candidates [of "set ids" "Suc n" i] by auto
  have "(LEAST m. ?P n m) = (LEAST m. ?P (Suc n) m)"
    by (rule arg_cong [where f = Least]) (use taken in \<open>auto simp: fun_eq_iff le_Suc_eq Suc_le_eq order.order_iff_strict\<close>)
  moreover have "?P (Suc n) (LEAST m. ?P (Suc n) m)" by (rule LeastI) (rule m)
  ultimately show "((ids, i, Suc n), (ids, i, n))
      \<in> measure (\<lambda>(ids, i, n). (LEAST m. n \<le> m \<and> review_candidate i m \<notin> set ids) - n)"
    by auto
qed simp

declare free_suffix.simps [simp del]

definition ensureUniqueReviewId :: "conversation_item list \<Rightarrow> conversation_item \<Rightarrow> conversation_item" where
  "ensureUniqueReviewId items item =
     (case item of
        Review i s t \<Rightarrow>
          if \<not> list_ex (\<lambda>e. item_id e = i) items then item
          else Review (review_candidate i (free_suffix (map item_id items) i 1)) s t
      | _ \<Rightarrow> item)"

definition isDuplicateReviewById :: "conversation_item list \<Rightarrow> string \<Rightarrow> review_state \<Rightarrow> string \<Rightarrow> bool" where
  "isDuplicateReviewById items i st text =
     list_ex (\<lambda>it. case it of Review i' s t \<Rightarrow> i' = i \<and> s = st \<and> js_trim t = js_trim text
                | _ \<Rightarrow> False) items"

definition prefersUpdatedSort :: "sort_key js_record \<Rightarrow> string \<Rightarrow> bool" where
  "prefersUpdatedSort sortKeys workspaceId = (nullish (sortKeys workspaceId) UpdatedAt = UpdatedAt)"


section \<open>Lemmas\<close>

lemma set_remove_last: "set (remove_last p xs) \<subseteq> set xs"
  by (induction xs) auto

lemma subseq_remove_last: "subseq (remove_last p xs) xs"
  by (induction xs) auto

lemma length_remove_last:
  "length (remove_last p xs) = (if list_ex p xs then length xs - 1 else length xs)"
  by (induction xs) (auto simp: Suc_diff_Suc list_ex_iff intro!: Suc_pred length_pos_if_in_set)

lemma remove_last_others: "x \<in> set xs \<Longrightarrow> \<not> p x \<Longrightarrow> x \<in> set (remove_last p xs)"
  by (induction xs) auto

lemma distinct_remove_last:
  "distinct (map f xs) \<Longrightarrow> distinct (map f (remove_last p xs))"
  by (induction xs) (use set_remove_last in \<open>fastforce+\<close>)

lemma free_suffix_free: "review_candidate i (free_suffix ids i n) \<notin> set ids"
  by (induction ids i n rule: free_suffix.induct) (subst free_suffix.simps, simp)

lemma free_suffix_least:
  "n \<le> free_suffix ids i n \<and>
   (\<forall>m. n \<le> m \<longrightarrow> m < free_suffix ids i n \<longrightarrow> review_candidate i m \<in> set ids)"
proof (induction ids i n rule: free_suffix.induct)
  case (1 ids i n)
  show ?case
  proof (cases "review_candidate i n \<in> set ids")
    case True
    then have "free_suffix ids i n = free_suffix ids i (Suc n)" by (subst free_suffix.simps) simp
    moreover have "n = m \<or> Suc n \<le> m" if "n \<le> m" for m using that by auto
    ultimately show ?thesis using "1.IH" [OF True] True by (metis Suc_leD)
  next
    case False
    then show ?thesis by (subst (1 2) free_suffix.simps) simp
  qed
qed

lemma ensureUnique_fresh:
  "kind_of item = KReview \<Longrightarrow> item_id (ensureUniqueReviewId items item) \<notin> item_id ` set items"
  using free_suffix_free [of _ "map item_id items"]
  by (cases item) (auto simp: ensureUniqueReviewId_def list_ex_iff)

lemma kind_of_ensureUnique [simp]: "kind_of (ensureUniqueReviewId items item) = kind_of item"
  by (cases item) (simp_all add: ensureUniqueReviewId_def)

subsection \<open>Streaming text\<close>

text \<open>The longest proper overlap: a suffix of the text that is a prefix of the delta.\<close>

definition overlap :: "string \<Rightarrow> string \<Rightarrow> nat" where
  "overlap existing delta =
     (if prefix delta existing then length delta
      else GREATEST n. n \<le> min (length existing) (length delta) \<and> suffix (take n delta) existing)"

lemma overlap_loop_spec:
  "overlap_loop m e d =
     e @ drop (GREATEST n. n \<le> m \<and> suffix (take n d) e) d"
proof (induction m)
  case 0
  have "(GREATEST n. n \<le> 0 \<and> suffix (take n d) e) = 0"
    by (rule Greatest_equality) auto
  then show ?case by simp
next
  case (Suc m)
  show ?case
  proof (cases "suffix (take (Suc m) d) e")
    case True
    then have "(GREATEST n. n \<le> Suc m \<and> suffix (take n d) e) = Suc m"
      by (intro Greatest_equality) auto
    with True show ?thesis by simp
  next
    case False
    then have "(\<lambda>n. n \<le> Suc m \<and> suffix (take n d) e) = (\<lambda>n. n \<le> m \<and> suffix (take n d) e)"
      by (auto simp: fun_eq_iff le_Suc_eq)
    with False Suc show ?thesis by simp
  qed
qed

lemma merge_streaming_overlap: "mergeStreamingText e d = e @ drop (overlap e d) d"
proof -
  consider "d = []" | "d \<noteq> []" "e = []" | "d \<noteq> []" "e \<noteq> []" "prefix d e"
    | "d \<noteq> []" "e \<noteq> []" "\<not> prefix d e" "prefix e d"
    | "d \<noteq> []" "e \<noteq> []" "\<not> prefix d e" "\<not> prefix e d" by blast
  then show ?thesis
  proof cases
    case 2
    then have "overlap e d = 0" by (auto simp: overlap_def intro!: Greatest_equality)
    with 2 show ?thesis by (simp add: mergeStreamingText_def)
  next
    case 4
    then obtain r where r: "d = e @ r" by (auto elim: prefixE)
    have "overlap e d = length e" using 4 r
      by (auto simp: overlap_def intro!: Greatest_equality)
    with 4 r show ?thesis by (auto simp: mergeStreamingText_def)
  next
    case 5
    then show ?thesis
      by (auto simp: mergeStreamingText_def overlap_def overlap_loop_spec)
  qed (auto simp: mergeStreamingText_def overlap_def)
qed

lemma overlap_bounds:
  assumes "\<not> prefix d e"
  shows "overlap e d \<le> length e" "overlap e d \<le> length d" "suffix (take (overlap e d) d) e"
proof -
  let ?P = "\<lambda>n. n \<le> min (length e) (length d) \<and> suffix (take n d) e"
  have "?P (GREATEST n. ?P n)"
    by (rule GreatestI_nat [where k = 0 and b = "min (length e) (length d)"]) auto
  with assms show "overlap e d \<le> length e" "overlap e d \<le> length d" "suffix (take (overlap e d) d) e"
    by (simp_all add: overlap_def)
qed

lemma merge_streaming_prefix: "prefix e (mergeStreamingText e d)"
  by (simp add: merge_streaming_overlap)

lemma merge_streaming_covers:
  "prefix d (mergeStreamingText e d) \<or> suffix d (mergeStreamingText e d)"
proof (cases "prefix d e")
  case False
  from overlap_bounds(3) [OF this] obtain z where "e = z @ take (overlap e d) d"
    by (auto simp: suffix_def)
  then have "mergeStreamingText e d = z @ (take (overlap e d) d @ drop (overlap e d) d)"
    unfolding merge_streaming_overlap by (metis append.assoc)
  then show ?thesis by (simp add: suffix_def)
qed (simp add: merge_streaming_overlap overlap_def)

lemma merge_streaming_idem: "mergeStreamingText (mergeStreamingText e d) d = mergeStreamingText e d"
proof -
  let ?m = "mergeStreamingText e d"
  show ?thesis
  proof (cases "prefix d ?m")
    case True
    then show ?thesis by (simp add: merge_streaming_overlap [of ?m] overlap_def)
  next
    case False
    then have "suffix d ?m" using merge_streaming_covers by blast
    then have "length d \<le> length ?m" by (rule suffix_length_le)
    moreover have "(GREATEST n. n \<le> min (length ?m) (length d) \<and> suffix (take n d) ?m) = length d"
      using \<open>suffix d ?m\<close> \<open>length d \<le> length ?m\<close> by (intro Greatest_equality) auto
    ultimately show ?thesis using False
      by (subst merge_streaming_overlap) (simp add: overlap_def)
  qed
qed

lemma length_merge_streaming:
  "length (mergeStreamingText e d) + overlap e d = length e + length d"
proof (cases "prefix d e")
  case True
  then show ?thesis by (simp add: merge_streaming_overlap overlap_def)
next
  case False
  from overlap_bounds(2) [OF this] show ?thesis by (simp add: merge_streaming_overlap)
qed

lemma addSummaryBoundary_ends:
  "s \<noteq> [] \<Longrightarrow> ends_with (addSummaryBoundary s) [CHR 10, CHR 10]"
  by (auto simp: addSummaryBoundary_def suffix_def)

lemma addSummaryBoundary_idem: "addSummaryBoundary (addSummaryBoundary s) = addSummaryBoundary s"
proof (cases "s = []")
  case False
  show ?thesis
    by (subst addSummaryBoundary_def) (simp add: addSummaryBoundary_ends [OF False])
qed (simp add: addSummaryBoundary_def)


section \<open>Properties\<close>

text \<open>C14: merging a streamed delta never loses text already received, repeats nothing, and is
  stable under a repeated delivery of the delta: the result is the text followed by the delta
  without its longest overlap with the end of the text (all of it when the text starts with the
  delta).\<close>

theorem mergeStreamingText_functional:
  "mergeStreamingText existing delta = existing @ drop (overlap existing delta) delta
   \<and> (prefix delta (mergeStreamingText existing delta) \<or> suffix delta (mergeStreamingText existing delta))
   \<and> mergeStreamingText (mergeStreamingText existing delta) delta = mergeStreamingText existing delta
   \<and> length (mergeStreamingText existing delta) + overlap existing delta = length existing + length delta"
  using merge_streaming_overlap merge_streaming_covers merge_streaming_idem length_merge_streaming
  by blast

text \<open>A delta that happens to repeat the beginning or the end of the text received so far is
  dropped or cut, so the text streamed in pieces can be shorter than the text sent: the pieces
  of ''1'', ''1'' give ''1'', and those of ''ab'', ''ba'' give ''aba''.\<close>

theorem mergeStreamingText_drops_repeats:
  "foldl mergeStreamingText [] [''1'', ''1''] = ''1''
   \<and> foldl mergeStreamingText [] [''ab'', ''ba''] = ''aba''
   \<and> mergeStreamingText existing existing = existing
   \<and> (overlap existing delta \<noteq> 0 \<longrightarrow>
        length (mergeStreamingText existing delta) < length existing + length delta)"
  using length_merge_streaming [of existing delta]
  by (auto simp: mergeStreamingText_def suffix_to_prefix)

theorem mergeStreamingText_drops_repeats_witness:
  "length (mergeStreamingText ''ha'' ''ha'') < 4"
  using mergeStreamingText_drops_repeats [of "''ha''" "''ha''"] by (simp add: overlap_def)

lemma remove_last_spec:
  "(\<not> list_ex p xs \<and> remove_last p xs = xs) \<or>
   (\<exists>pre c post. xs = pre @ c # post \<and> p c \<and> \<not> list_ex p post \<and> remove_last p xs = pre @ post)"
proof (induction xs)
  case (Cons x xs)
  show ?case
  proof (cases "list_ex p xs")
    case True
    with Cons obtain pre c post where "xs = pre @ c # post" "p c" "\<not> list_ex p post"
      "remove_last p xs = pre @ post" by auto
    with True show ?thesis by (intro disjI2 exI [of _ "x # pre"]) auto
  next
    case False
    with Cons have same: "remove_last p xs = xs" by auto
    show ?thesis
    proof (cases "p x")
      case True
      with False show ?thesis by (intro disjI2 exI [of _ "[]"]) auto
    qed (use False same in auto)
  qed
qed simp

text \<open>When the server confirms a user message, at most one local copy disappears: the latest
  optimistic message with the same text and images; every other item stays, in order, and
  without such a copy, or for any other item, the list is unchanged.\<close>

theorem reconcileOptimistic_removes_one_copy:
  "reconcileOptimisticUserMessage items incoming = items
     \<and> (is_user_message incoming \<longrightarrow> \<not> starts_with (item_id incoming) ''optimistic-user-'' \<longrightarrow>
         (\<forall>c \<in> set items. \<not> (isOptimisticUserMessage c \<and> areMatchingUserMessages c incoming)))
   \<or> (\<exists>pre c post. items = pre @ c # post \<and> isOptimisticUserMessage c
        \<and> areMatchingUserMessages c incoming
        \<and> (\<forall>d \<in> set post. \<not> (isOptimisticUserMessage d \<and> areMatchingUserMessages d incoming))
        \<and> reconcileOptimisticUserMessage items incoming = pre @ post)"
  using remove_last_spec [of "\<lambda>c. isOptimisticUserMessage c \<and> areMatchingUserMessages c incoming" items]
  unfolding reconcileOptimisticUserMessage_def list_ex_iff
  by (cases "\<not> is_user_message incoming \<or> starts_with (item_id incoming) ''optimistic-user-''")
    (simp_all, blast+)

theorem reconcileOptimistic_removes_one_copy_witness:
  "reconcileOptimisticUserMessage [Message ''optimistic-user-1'' User ''hi'' None, Message ''a'' Assistant ''x'' None]
     (Message ''m'' User '' hi '' None) = [Message ''a'' Assistant ''x'' None]"
proof -
  let ?items = "[Message ''optimistic-user-1'' User ''hi'' None, Message ''a'' Assistant ''x'' None]"
  have m: "areMatchingUserMessages (Message ''optimistic-user-1'' User ''hi'' None)
      (Message ''m'' User '' hi '' None)" by code_simp
  show ?thesis
    using reconcileOptimistic_removes_one_copy [of ?items "Message ''m'' User '' hi '' None"] m
    by (auto simp: isOptimisticUserMessage_def Cons_eq_append_conv)
qed

text \<open>The review stored for an event always gets an identifier that no item of the list has: its
  own when that is free, else the first free one of the numbered ones; nothing else of it
  changes, and other items keep theirs.\<close>

theorem ensureUniqueReviewId_fresh:
  "kind_of item = KReview \<Longrightarrow>
     item_id (ensureUniqueReviewId items item) \<notin> item_id ` set items
     \<and> rv_text (ensureUniqueReviewId items item) = rv_text item
     \<and> rv_state (ensureUniqueReviewId items item) = rv_state item
     \<and> (item_id item \<in> item_id ` set items \<longrightarrow>
          (\<exists>n \<ge> 1. item_id (ensureUniqueReviewId items item) = review_candidate (item_id item) n
             \<and> (\<forall>m. 1 \<le> m \<longrightarrow> m < n \<longrightarrow> review_candidate (item_id item) m \<in> item_id ` set items)))"
  using ensureUnique_fresh [of item items]
    free_suffix_least [of 1 "map item_id items" "item_id item"]
  by (cases item) (auto simp: ensureUniqueReviewId_def list_ex_iff image_iff)

theorem ensureUniqueReviewId_fresh_witness:
  "item_id (ensureUniqueReviewId [Review ''r'' Started ''t'', Review ''r-1'' Started ''u''] (Review ''r'' Started ''x''))
     \<notin> {''r'', ''r-1''}"
  using ensureUniqueReviewId_fresh [of "Review ''r'' Started ''x''"
      "[Review ''r'' Started ''t'', Review ''r-1'' Started ''u'']"] by simp

end
