(* ===== verification/RequestQueue.thy ===== *)
theory RequestQueue
  imports Prelude
begin

text \<open>
  The interface of the queues of pending requests (approvals, questions to the user, tool
  calls): a request is queued once under its key and leaves the queue by its key.  What the
  store promises of each queue is proved here from the three laws, once.
\<close>

locale request_queue =
  fixes key :: "'r \<Rightarrow> 'k"
    and add :: "'r \<Rightarrow> 'r list \<Rightarrow> 'r list"
    and remove :: "'k \<Rightarrow> 'r list \<Rightarrow> 'r list"
  assumes add_queued: "key r \<in> key ` set q \<Longrightarrow> add r q = q"
    and add_new: "key r \<notin> key ` set q \<Longrightarrow> add r q = q @ [r]"
    and remove_eq: "remove k q = filter (\<lambda>r. key r \<noteq> k) q"
begin

lemma add_keys: "key ` set (add r q) = insert (key r) (key ` set q)"
  by (cases "key r \<in> key ` set q") (auto simp: add_queued add_new)

lemma remove_keys: "key ` set (remove k q) = key ` set q - {k}"
  by (auto simp: remove_eq)

lemma distinct_add: "distinct (map key q) \<Longrightarrow> distinct (map key (add r q))"
  by (cases "key r \<in> key ` set q") (auto simp: add_queued add_new)

lemma distinct_remove: "distinct (map key q) \<Longrightarrow> distinct (map key (remove k q))"
  by (simp add: remove_eq distinct_map_filterI)

lemma add_idem: "add r (add r q) = add r q"
  by (rule add_queued) (simp add: add_keys)

lemma remove_add: "key r \<notin> key ` set q \<Longrightarrow> remove (key r) (add r q) = q"
  by (auto simp: add_new remove_eq filter_id_conv image_iff)

lemma add_order: "\<exists>zs. add r q = q @ zs"
  by (cases "key r \<in> key ` set q") (auto simp: add_queued add_new)

text \<open>A run of the queue, and the set of keys it abstracts to.\<close>

fun run :: "('r + 'k) list \<Rightarrow> 'r list \<Rightarrow> 'r list" where
  "run [] q = q"
| "run (Inl r # ops) q = run ops (add r q)"
| "run (Inr k # ops) q = run ops (remove k q)"

fun run_keys :: "('r + 'k) list \<Rightarrow> 'k set \<Rightarrow> 'k set" where
  "run_keys [] K = K"
| "run_keys (Inl r # ops) K = run_keys ops (insert (key r) K)"
| "run_keys (Inr k # ops) K = run_keys ops (K - {k})"

lemma run_append: "run (ops @ ops') q = run ops' (run ops q)"
  by (induction ops q rule: run.induct) simp_all

lemma run_refines: "key ` set (run ops q) = run_keys ops (key ` set q)"
  by (induction ops q rule: run.induct) (simp_all add: add_keys remove_keys)

lemma run_distinct: "distinct (map key q) \<Longrightarrow> distinct (map key (run ops q))"
  by (induction ops q rule: run.induct) (simp_all add: distinct_add distinct_remove)

end

end
