(* ===== verification/ThreadsReducer.thy ===== *)
theory ThreadsReducer
  imports ThreadState ThreadHelpers RequestQueue
begin

text \<open>
  The thread store of the desktop application:
  \<^verbatim>\<open>apps/code/src/features/threads/hooks/useThreadsReducer.ts\<close>.  One definition per case of
  the \<open>switch\<close>, composed by \<open>threadReducer\<close>; \<open>now\<close> stands for \<open>Date.now()\<close>.  Where the source
  returns the state object itself, the model returns the state.
\<close>

section \<open>Activity status\<close>

definition hasSameThreadActivityStatus :: "thread_activity_status option \<Rightarrow> thread_activity_status \<Rightarrow> bool" where
  "hasSameThreadActivityStatus previous nxt =
     (case previous of None \<Rightarrow> False
      | Some p \<Rightarrow> isProcessing p = isProcessing nxt \<and> hasUnread p = hasUnread nxt
          \<and> isReviewing p = isReviewing nxt \<and> executionState p = executionState nxt
          \<and> processingStartedAt p = processingStartedAt nxt
          \<and> lastDurationMs p = lastDurationMs nxt)"

text \<open>Storing a status unless it is the one already there.\<close>

definition put_status :: "thread_state \<Rightarrow> string \<Rightarrow> thread_activity_status \<Rightarrow> thread_state" where
  "put_status st tid nxt =
     (if hasSameThreadActivityStatus (threadStatusById st tid) nxt then st
      else st\<lparr>threadStatusById := (threadStatusById st)(tid \<mapsto> nxt)\<rparr>)"

text \<open>\<open>previous?.f ?? d\<close>\<close>

definition prev_flag :: "thread_activity_status option \<Rightarrow> (thread_activity_status \<Rightarrow> bool) \<Rightarrow> bool" where
  "prev_flag previous f = (case previous of None \<Rightarrow> False | Some p \<Rightarrow> f p)"

text \<open>JavaScript's truth of an optional number.\<close>

definition truthy_num :: "int option \<Rightarrow> bool" where
  "truthy_num n = (case n of None \<Rightarrow> False | Some k \<Rightarrow> k \<noteq> 0)"

definition execution_or_default :: "thread_activity_status option \<Rightarrow> thread_execution_state" where
  "execution_or_default previous =
     nullish (Option.bind previous executionState)
       (if prev_flag previous isProcessing then Running else Idle)"

definition reduceMarkProcessing ::
    "thread_state \<Rightarrow> string \<Rightarrow> bool \<Rightarrow> thread_execution_state option \<Rightarrow> int \<Rightarrow> thread_state" where
  "reduceMarkProcessing st tid processing execution timestamp =
     (let previous = threadStatusById st tid;
          wasProcessing = prev_flag previous isProcessing;
          startedAt = Option.bind previous processingStartedAt;
          lastDuration = Option.bind previous lastDurationMs;
          unread = prev_flag previous hasUnread;
          reviewing = prev_flag previous isReviewing;
          previousExecution = execution_or_default previous
      in if processing
         then put_status st tid
           \<lparr>isProcessing = True, hasUnread = unread, isReviewing = reviewing,
            executionState = Some (nullish execution
              (if previousExecution = AwaitingApproval then AwaitingApproval else Running)),
            processingStartedAt =
              (if wasProcessing \<and> truthy_num startedAt then startedAt else Some timestamp),
            lastDurationMs = lastDuration\<rparr>
         else put_status st tid
           \<lparr>isProcessing = False, hasUnread = unread, isReviewing = reviewing,
            executionState = Some Idle, processingStartedAt = None,
            lastDurationMs =
              (if wasProcessing \<and> truthy_num startedAt
               then Some (max 0 (timestamp - the startedAt)) else lastDuration)\<rparr>)"

definition reduceMarkImmediateCompletion :: "thread_state \<Rightarrow> string \<Rightarrow> thread_state" where
  "reduceMarkImmediateCompletion st tid =
     (let previous = threadStatusById st tid
      in put_status st tid
        \<lparr>isProcessing = False, hasUnread = prev_flag previous hasUnread,
         isReviewing = prev_flag previous isReviewing, executionState = Some Idle,
         processingStartedAt = None, lastDurationMs = Some 0\<rparr>)"

definition reduceHydrateThreadStatus :: "thread_state \<Rightarrow> string \<Rightarrow> int \<Rightarrow> thread_state" where
  "reduceHydrateThreadStatus st tid duration =
     (let previous = threadStatusById st tid
      in put_status st tid
        \<lparr>isProcessing = False, hasUnread = prev_flag previous hasUnread,
         isReviewing = prev_flag previous isReviewing, executionState = Some Idle,
         processingStartedAt = None, lastDurationMs = Some duration\<rparr>)"

definition reduceMarkReviewing :: "thread_state \<Rightarrow> string \<Rightarrow> bool \<Rightarrow> thread_state" where
  "reduceMarkReviewing st tid reviewing =
     (let previous = threadStatusById st tid
      in put_status st tid
        \<lparr>isProcessing = prev_flag previous isProcessing, hasUnread = prev_flag previous hasUnread,
         isReviewing = reviewing, executionState = Option.bind previous executionState,
         processingStartedAt = Option.bind previous processingStartedAt,
         lastDurationMs = Option.bind previous lastDurationMs\<rparr>)"

definition reduceMarkUnread :: "thread_state \<Rightarrow> string \<Rightarrow> bool \<Rightarrow> thread_state" where
  "reduceMarkUnread st tid unread =
     (let previous = threadStatusById st tid
      in put_status st tid
        \<lparr>isProcessing = prev_flag previous isProcessing, hasUnread = unread,
         isReviewing = prev_flag previous isReviewing,
         executionState = Option.bind previous executionState,
         processingStartedAt = Option.bind previous processingStartedAt,
         lastDurationMs = Option.bind previous lastDurationMs\<rparr>)"

text \<open>An empty thread id is falsy.\<close>

definition reduceSetActiveThreadId :: "thread_state \<Rightarrow> string \<Rightarrow> string option \<Rightarrow> thread_state" where
  "reduceSetActiveThreadId st ws tid =
     st\<lparr>activeThreadIdByWorkspace := (activeThreadIdByWorkspace st)(ws \<mapsto> tid),
        threadStatusById :=
          (case tid of None \<Rightarrow> threadStatusById st
           | Some t \<Rightarrow>
               if t = [] then threadStatusById st
               else let previous = threadStatusById st t
               in (threadStatusById st)(t \<mapsto>
                 \<lparr>isProcessing = prev_flag previous isProcessing, hasUnread = False,
                  isReviewing = prev_flag previous isReviewing,
                  executionState = Some (execution_or_default previous),
                  processingStartedAt = Option.bind previous processingStartedAt,
                  lastDurationMs = Option.bind previous lastDurationMs\<rparr>))\<rparr>"

section \<open>The list of threads of a workspace\<close>

definition threads_of :: "thread_state \<Rightarrow> string \<Rightarrow> thread_summary list" where
  "threads_of st ws = nullish (threadsByWorkspace st ws) []"

definition hidden_in :: "thread_state \<Rightarrow> string \<Rightarrow> string set" where
  "hidden_in st ws = nullish (hiddenThreadIdsByWorkspace st ws) {}"

definition active_of :: "thread_state \<Rightarrow> string \<Rightarrow> string option" where
  "active_of st ws = Option.bind (activeThreadIdByWorkspace st ws) id"

definition new_thread :: "string \<Rightarrow> thread_summary" where
  "new_thread tid =
     \<lparr>thr_id = tid, thr_name = ''New Agent'', thr_updatedAt = 0, thr_status = None,
      thr_archived = None, thr_lastActivityAt = None, thr_agentRole = None\<rparr>"

definition idle_status :: thread_activity_status where
  "idle_status = \<lparr>isProcessing = False, hasUnread = False, isReviewing = False,
     executionState = Some Idle, processingStartedAt = None, lastDurationMs = None\<rparr>"

definition reduceEnsureThread :: "thread_state \<Rightarrow> string \<Rightarrow> string \<Rightarrow> thread_state" where
  "reduceEnsureThread st ws tid =
     (if tid \<in> hidden_in st ws then st
      else if tid \<in> thr_id ` set (threads_of st ws) then st
      else st\<lparr>threadsByWorkspace := (threadsByWorkspace st)(ws \<mapsto> new_thread tid # threads_of st ws),
              threadStatusById := (threadStatusById st)(tid \<mapsto> idle_status),
              activeThreadIdByWorkspace := (activeThreadIdByWorkspace st)
                (ws \<mapsto> Some (nullish (active_of st ws) tid))\<rparr>)"

text \<open>The thread that becomes active when \<open>tid\<close> leaves the list.\<close>

definition next_active :: "thread_state \<Rightarrow> string \<Rightarrow> string \<Rightarrow> thread_summary list \<Rightarrow> string option" where
  "next_active st ws tid filtered =
     (if activeThreadIdByWorkspace st ws = Some (Some tid)
      then (case filtered of [] \<Rightarrow> None | t # _ \<Rightarrow> Some (thr_id t))
      else active_of st ws)"

definition reduceHideThread :: "thread_state \<Rightarrow> string \<Rightarrow> string \<Rightarrow> thread_state" where
  "reduceHideThread st ws tid =
     (if tid \<in> hidden_in st ws then st
      else let filtered = filter (\<lambda>t. thr_id t \<noteq> tid) (threads_of st ws)
      in st\<lparr>hiddenThreadIdsByWorkspace := (hiddenThreadIdsByWorkspace st)(ws \<mapsto> insert tid (hidden_in st ws)),
            threadsByWorkspace := (threadsByWorkspace st)(ws \<mapsto> filtered),
            activeThreadIdByWorkspace :=
              (activeThreadIdByWorkspace st)(ws \<mapsto> next_active st ws tid filtered)\<rparr>)"

definition reduceRemoveThread :: "thread_state \<Rightarrow> string \<Rightarrow> string \<Rightarrow> thread_state" where
  "reduceRemoveThread st ws tid =
     (let filtered = filter (\<lambda>t. thr_id t \<noteq> tid) (threads_of st ws)
      in st\<lparr>threadsByWorkspace := (threadsByWorkspace st)(ws \<mapsto> filtered),
            itemsByThread := (itemsByThread st)(tid := None),
            threadStatusById := (threadStatusById st)(tid := None),
            activeTurnIdByThread := (activeTurnIdByThread st)(tid := None),
            turnDiffByThread := (turnDiffByThread st)(tid := None),
            planByThread := (planByThread st)(tid := None),
            threadParentById := fmdrop tid (threadParentById st),
            activeThreadIdByWorkspace :=
              (activeThreadIdByWorkspace st)(ws \<mapsto> next_active st ws tid filtered)\<rparr>)"

definition reduceSetThreadParent :: "thread_state \<Rightarrow> string \<Rightarrow> string \<Rightarrow> thread_state" where
  "reduceSetThreadParent st tid parent =
     (if parent = [] \<or> parent = tid then st
      else if fmlookup (threadParentById st) tid = Some parent then st
      else st\<lparr>threadParentById := fmupd tid parent (threadParentById st)\<rparr>)"

definition reduceSetThreadName :: "thread_state \<Rightarrow> string \<Rightarrow> string \<Rightarrow> string \<Rightarrow> thread_state" where
  "reduceSetThreadName st ws tid nm =
     st\<lparr>threadsByWorkspace := (threadsByWorkspace st)(ws \<mapsto>
        map (\<lambda>t. if thr_id t = tid then t\<lparr>thr_name := nm\<rparr> else t) (threads_of st ws))\<rparr>"

text \<open>Moving the entry of a thread to the front (stable on both sides).\<close>

definition bump_thread :: "string \<Rightarrow> thread_summary list \<Rightarrow> thread_summary list" where
  "bump_thread tid ts = filter (\<lambda>t. thr_id t = tid) ts @ filter (\<lambda>t. thr_id t \<noteq> tid) ts"

definition reduceSetThreadTimestamp :: "thread_state \<Rightarrow> string \<Rightarrow> string \<Rightarrow> int \<Rightarrow> thread_state" where
  "reduceSetThreadTimestamp st ws tid timestamp =
     (let ts = threads_of st ws;
          newer = (\<lambda>t. thr_id t = tid \<and> thr_updatedAt t < timestamp)
      in if ts = [] then st
         else if \<not> list_ex newer ts then st
         else let nxt = map (\<lambda>t. if newer t then t\<lparr>thr_updatedAt := timestamp\<rparr> else t) ts
         in st\<lparr>threadsByWorkspace := (threadsByWorkspace st)(ws \<mapsto>
               if prefersUpdatedSort (threadSortKeyByWorkspace st) ws then bump_thread tid nxt else nxt)\<rparr>)"


section \<open>The items of a thread\<close>

definition items_of :: "thread_state \<Rightarrow> string \<Rightarrow> conversation_item list" where
  "items_of st tid = nullish (itemsByThread st tid) []"

abbreviation set_items :: "thread_state \<Rightarrow> string \<Rightarrow> conversation_item list \<Rightarrow> thread_state" where
  "set_items st tid items \<equiv> st\<lparr>itemsByThread := (itemsByThread st)(tid \<mapsto> items)\<rparr>"

definition index_of_item :: "string \<Rightarrow> conversation_item list \<Rightarrow> nat option" where
  "index_of_item i items = find_index (\<lambda>e. item_id e = i) items"

text \<open>Writing the updated item at its index, or appending it.\<close>

definition put_item :: "conversation_item list \<Rightarrow> nat option \<Rightarrow> conversation_item \<Rightarrow> conversation_item list" where
  "put_item items index item = (case index of Some k \<Rightarrow> items[k := item] | None \<Rightarrow> items @ [item])"

definition reduceAddAssistantMessage :: "int \<Rightarrow> thread_state \<Rightarrow> string \<Rightarrow> string \<Rightarrow> thread_state" where
  "reduceAddAssistantMessage now st tid text =
     set_items st tid (prepareThreadItems
       (items_of st tid @ [Message (show_int now @ ''-assistant'') Assistant text None]))"

definition rename_after :: "thread_state \<Rightarrow> string \<Rightarrow> string \<Rightarrow> string \<Rightarrow> bool \<Rightarrow> conversation_item list \<Rightarrow> thread_state" where
  "rename_after st ws tid itemId hasCustomName updatedItems =
     st\<lparr>itemsByThread := (itemsByThread st)(tid \<mapsto> updatedItems),
        threadsByWorkspace := maybeRenameThreadFromAgent ws tid updatedItems (Some itemId)
          hasCustomName (threadsByWorkspace st)\<rparr>"

definition reduceAppendAgentDelta ::
    "thread_state \<Rightarrow> string \<Rightarrow> string \<Rightarrow> string \<Rightarrow> string \<Rightarrow> bool \<Rightarrow> thread_state" where
  "reduceAppendAgentDelta st ws tid itemId delta hasCustomName =
     (let items = items_of st tid;
          index = index_of_item itemId items;
          updated = (case map_option (\<lambda>k. (k, items ! k)) index of
              Some (k, Message i r t imgs) \<Rightarrow> items[k := Message i r (mergeStreamingText t delta) imgs]
            | _ \<Rightarrow> items @ [Message itemId Assistant delta None])
      in rename_after st ws tid itemId hasCustomName (prepareThreadItems updated))"

text \<open>A completed message replaces the streamed text unless it is empty.\<close>

definition reduceCompleteAgentMessage ::
    "thread_state \<Rightarrow> string \<Rightarrow> string \<Rightarrow> string \<Rightarrow> string \<Rightarrow> bool \<Rightarrow> thread_state" where
  "reduceCompleteAgentMessage st ws tid itemId text hasCustomName =
     (let items = items_of st tid;
          index = index_of_item itemId items
      in case map_option (\<lambda>k. (k, items ! k)) index of
          Some (k, Message i r t imgs) \<Rightarrow>
            rename_after st ws tid itemId hasCustomName
              (prepareThreadItems (items[k := Message i r (if text = [] then t else text) imgs]))
        | _ \<Rightarrow>
            if js_trim text = [] then st
            else rename_after st ws tid itemId hasCustomName
              (prepareThreadItems (items @ [Message itemId Assistant text None])))"

text \<open>The name a thread gets from the first message of its user.\<close>

definition renamed_by_user :: "bool \<Rightarrow> string \<Rightarrow> bool option \<Rightarrow> string \<Rightarrow> string" where
  "renamed_by_user hadUserMessage textValue hasCustomName oldName =
     (let shouldRename = \<not> hadUserMessage \<and> textValue \<noteq> []
            \<and> looksAutoGeneratedThreadName oldName \<and> hasCustomName \<noteq> Some True
      in if shouldRename \<and> length textValue > 38 then take 38 textValue @ ellipsis
         else if shouldRename then textValue
         else oldName)"

definition threads_after_user_message ::
    "thread_state \<Rightarrow> string \<Rightarrow> string \<Rightarrow> bool \<Rightarrow> string \<Rightarrow> bool option \<Rightarrow> thread_summary list" where
  "threads_after_user_message st ws tid hadUserMessage textValue hasCustomName =
     (let updated = map (\<lambda>t. if thr_id t \<noteq> tid then t
            else t\<lparr>thr_name := renamed_by_user hadUserMessage textValue hasCustomName (thr_name t)\<rparr>)
            (threads_of st ws)
      in if prefersUpdatedSort (threadSortKeyByWorkspace st) ws \<and> updated \<noteq> []
         then bump_thread tid updated else updated)"

text \<open>
  The list the item goes into: without the optimistic copy of a user message, and without the
  local marker of a review that the server now reports as started.
\<close>

definition upsert_base :: "conversation_item list \<Rightarrow> conversation_item \<Rightarrow> conversation_item list" where
  "upsert_base items item =
     (let reconciled = reconcileOptimisticUserMessage items item
      in case item of
           Review i Started t \<Rightarrow>
             if \<not> starts_with i ''review-start-'' then dropLatestLocalReviewStart reconciled
             else reconciled
         | _ \<Rightarrow> reconciled)"

definition is_repeated_review :: "conversation_item list \<Rightarrow> conversation_item \<Rightarrow> bool" where
  "is_repeated_review items item =
     (case item of
        Review i s t \<Rightarrow>
          isDuplicateReviewById items i s t
          \<or> (case findMatchingReview items s t of None \<Rightarrow> False | Some e \<Rightarrow> item_id e \<noteq> i)
      | _ \<Rightarrow> False)"

definition reduceUpsertItem ::
    "thread_state \<Rightarrow> string \<Rightarrow> string \<Rightarrow> conversation_item \<Rightarrow> bool option \<Rightarrow> thread_state" where
  "reduceUpsertItem st ws tid raw hasCustomName =
     (let item = normalizeItem raw;
          reconciled = reconcileOptimisticUserMessage (items_of st tid) item;
          hadUserMessage = list_ex is_user_message reconciled;
          base = upsert_base (items_of st tid) item
      in if is_repeated_review base item then st
         else let updatedItems = prepareThreadItems (upsertItem base (ensureUniqueReviewId base item))
         in st\<lparr>itemsByThread := (itemsByThread st)(tid \<mapsto> updatedItems),
               threadsByWorkspace :=
                 (if is_user_message item
                  then (threadsByWorkspace st)(ws \<mapsto> threads_after_user_message st ws tid hadUserMessage
                         (extractRenameText (msg_text item)) hasCustomName)
                  else threadsByWorkspace st)\<rparr>)"

definition reduceSetThreadItems :: "thread_state \<Rightarrow> string \<Rightarrow> conversation_item list \<Rightarrow> thread_state" where
  "reduceSetThreadItems st tid items = set_items st tid (prepareThreadItems items)"

definition reduceSetLastAgentMessage :: "thread_state \<Rightarrow> string \<Rightarrow> string \<Rightarrow> int \<Rightarrow> thread_state" where
  "reduceSetLastAgentMessage st tid text timestamp =
     (if (case lastAgentMessageByThread st tid of None \<Rightarrow> False | Some m \<Rightarrow> lam_timestamp m \<ge> timestamp)
      then st
      else st\<lparr>lastAgentMessageByThread := (lastAgentMessageByThread st)
              (tid \<mapsto> \<lparr>lam_text = text, lam_timestamp = timestamp\<rparr>)\<rparr>)"

text \<open>An item of another kind under the same id is replaced by an empty reasoning item.\<close>

definition reasoning_base :: "string \<Rightarrow> conversation_item list \<Rightarrow> string \<times> string \<times> string" where
  "reasoning_base itemId items =
     (case map_option (\<lambda>k. items ! k) (index_of_item itemId items) of
        Some (Reasoning i s c) \<Rightarrow> (i, s, c)
      | _ \<Rightarrow> (itemId, [], []))"

definition update_reasoning :: "(string \<Rightarrow> string) \<Rightarrow> (string \<Rightarrow> string) \<Rightarrow> thread_state \<Rightarrow>
    string \<Rightarrow> string \<Rightarrow> thread_state" where
  "update_reasoning f g st tid itemId =
     (let items = items_of st tid;
          (i, s, c) = reasoning_base itemId items
      in set_items st tid (prepareThreadItems
           (put_item items (index_of_item itemId items) (Reasoning i (f s) (g c)))))"

definition reduceAppendReasoningSummary :: "thread_state \<Rightarrow> string \<Rightarrow> string \<Rightarrow> string \<Rightarrow> thread_state" where
  "reduceAppendReasoningSummary st tid itemId delta =
     update_reasoning (\<lambda>s. mergeStreamingText s delta) id st tid itemId"

definition reduceAppendReasoningSummaryBoundary :: "thread_state \<Rightarrow> string \<Rightarrow> string \<Rightarrow> thread_state" where
  "reduceAppendReasoningSummaryBoundary st tid itemId =
     update_reasoning addSummaryBoundary id st tid itemId"

definition reduceAppendReasoningContent :: "thread_state \<Rightarrow> string \<Rightarrow> string \<Rightarrow> string \<Rightarrow> thread_state" where
  "reduceAppendReasoningContent st tid itemId delta =
     update_reasoning id (\<lambda>c. mergeStreamingText c delta) st tid itemId"

definition empty_tool :: tool_fields where
  "empty_tool = \<lparr>toolType = ''plan'', tool_title = ''Plan'', tool_detail = [],
     tool_status = Some ''inProgress'', tool_output = Some [], durationMs = None,
     checkpointId = None, traceId = None, errorClass = None, recovered = None, batchId = None,
     attempt = None, changes = None\<rparr>"

definition reduceAppendPlanDelta :: "thread_state \<Rightarrow> string \<Rightarrow> string \<Rightarrow> string \<Rightarrow> thread_state" where
  "reduceAppendPlanDelta st tid itemId delta =
     (let items = items_of st tid;
          index = index_of_item itemId items;
          (i, base) = (case map_option (\<lambda>k. items ! k) index of
              Some (Tool i t) \<Rightarrow> (i, t) | _ \<Rightarrow> (itemId, empty_tool))
      in set_items st tid (prepareThreadItems (put_item items index
           (Tool i (base\<lparr>toolType := ''plan'', tool_title := ''Plan'',
              tool_detail := ''Generating plan...'', tool_status := Some ''inProgress'',
              tool_output := Some (mergeStreamingText (nullish (tool_output base) []) delta)\<rparr>)))))"

definition reduceAppendToolOutput :: "thread_state \<Rightarrow> string \<Rightarrow> string \<Rightarrow> string \<Rightarrow> thread_state" where
  "reduceAppendToolOutput st tid itemId delta =
     (let items = items_of st tid
      in case map_option (\<lambda>k. (k, items ! k)) (index_of_item itemId items) of
           Some (k, Tool i t) \<Rightarrow>
             set_items st tid (prepareThreadItems (items[k :=
               Tool i (t\<lparr>tool_output := Some (mergeStreamingText (nullish (tool_output t) []) delta)\<rparr>)]))
         | _ \<Rightarrow> st)"

text \<open>
  \<open>completePendingTurnItems\<close>: from the end back to the last user message, running tools become
  completed.  The loop runs over the reversed list; the flag is the source's \<open>changed\<close>.
\<close>

fun complete_back :: "conversation_item list \<Rightarrow> conversation_item list \<times> bool" where
  "complete_back [] = ([], False)"
| "complete_back (it # rest) =
     (if is_user_message it then (it # rest, False)
      else let (rest', changed) = complete_back rest
      in case it of
           Tool i t \<Rightarrow>
             if normalizeLifecycleStatus (tool_status t) \<noteq> ''inProgress'' then (it # rest', changed)
             else (Tool i (t\<lparr>tool_status := Some ''completed''\<rparr>) # rest', True)
         | _ \<Rightarrow> (it # rest', changed))"

definition completePendingTurnItems :: "conversation_item list \<Rightarrow> conversation_item list option" where
  "completePendingTurnItems items =
     (let (nxt, changed) = complete_back (rev items)
      in if changed then Some (prepareThreadItems (rev nxt)) else None)"

definition reduceCompletePendingTurnItems :: "thread_state \<Rightarrow> string \<Rightarrow> thread_state" where
  "reduceCompletePendingTurnItems st tid =
     (case completePendingTurnItems (items_of st tid) of
        None \<Rightarrow> st
      | Some items \<Rightarrow> set_items st tid items)"


section \<open>Reconciling the list with a snapshot\<close>

text \<open>A local summary is kept as fresh as what is known of its thread.\<close>

definition freshenAnchorSummary :: "thread_state \<Rightarrow> thread_summary \<Rightarrow> thread_summary" where
  "freshenAnchorSummary st summary =
     (let lastMessageTimestamp = (case lastAgentMessageByThread st (thr_id summary) of
            None \<Rightarrow> 0 | Some m \<Rightarrow> lam_timestamp m);
          startedAt = nullish (Option.bind (threadStatusById st (thr_id summary)) processingStartedAt) 0;
          nextUpdatedAt = max (thr_updatedAt summary) (max lastMessageTimestamp startedAt)
      in if nextUpdatedAt \<le> thr_updatedAt summary then summary
         else summary\<lparr>thr_updatedAt := nextUpdatedAt\<rparr>)"

text \<open>\<open>existingById\<close>: the last entry of an id.\<close>

definition existing_thread :: "thread_state \<Rightarrow> string \<Rightarrow> string \<Rightarrow> thread_summary option" where
  "existing_thread st ws tid = find (\<lambda>t. thr_id t = tid) (rev (threads_of st ws))"

text \<open>
  \<open>appendExistingAnchor\<close>; \<open>includedIds\<close> is the set of the ids of \<open>reconciled\<close>, which grows with
  it.
\<close>

definition appendExistingAnchor ::
    "thread_state \<Rightarrow> string \<Rightarrow> thread_summary list \<Rightarrow> string \<Rightarrow> thread_summary list" where
  "appendExistingAnchor st ws reconciled tid =
     (if tid = [] \<or> tid \<in> hidden_in st ws \<or> tid \<in> thr_id ` set reconciled then reconciled
      else case existing_thread st ws tid of
             None \<Rightarrow> reconciled
           | Some summary \<Rightarrow> reconciled @ [freshenAnchorSummary st summary])"

text \<open>The \<open>while\<close> loop up the parents: the ids it offers as anchors, in order.\<close>

function parent_walk :: "(string, string) fmap \<Rightarrow> string set \<Rightarrow> string \<Rightarrow> string list" where
  "parent_walk parents visited tid =
     (case fmlookup parents tid of
        None \<Rightarrow> []
      | Some parent \<Rightarrow>
          if parent = [] \<or> parent \<in> visited then []
          else parent # parent_walk parents (insert parent visited) parent)"
  by pat_completeness auto
termination
proof (relation "measure (\<lambda>(parents, visited, tid). card (fset (fmran parents) - visited))")
  fix parents :: "(string, string) fmap" and visited tid parent
  assume "fmlookup parents tid = Some parent" "\<not> (parent = [] \<or> parent \<in> visited)"
  then have "parent \<in> fset (fmran parents) - visited" by (auto intro: fmranI)
  then have "card (fset (fmran parents) - insert parent visited) < card (fset (fmran parents) - visited)"
    by (intro psubset_card_mono) auto
  then show "((parents, insert parent visited, parent), (parents, visited, tid))
      \<in> measure (\<lambda>(parents, visited, tid). card (fset (fmran parents) - visited))" by simp
qed simp

declare parent_walk.simps [simp del]

definition has_local_history :: "thread_state \<Rightarrow> string \<Rightarrow> bool" where
  "has_local_history st tid = (items_of st tid \<noteq> [])"

text \<open>The three rounds of anchors: the active thread, local or running threads, parents.\<close>

definition anchor_active :: "thread_state \<Rightarrow> string \<Rightarrow> thread_summary list \<Rightarrow> thread_summary list" where
  "anchor_active st ws reconciled =
     (case active_of st ws of
        None \<Rightarrow> reconciled
      | Some tid \<Rightarrow> if tid \<noteq> [] \<and> has_local_history st tid
                    then appendExistingAnchor st ws reconciled tid else reconciled)"

definition anchor_local :: "thread_state \<Rightarrow> string \<Rightarrow> thread_summary list \<Rightarrow> thread_summary list" where
  "anchor_local st ws reconciled =
     foldl (\<lambda>acc thread.
         if has_local_history st (thr_id thread)
            \<or> prev_flag (threadStatusById st (thr_id thread)) isProcessing
         then appendExistingAnchor st ws acc (thr_id thread) else acc)
       reconciled (threads_of st ws)"

definition anchor_parents :: "thread_state \<Rightarrow> string \<Rightarrow> thread_summary list \<Rightarrow> thread_summary list" where
  "anchor_parents st ws reconciled =
     foldl (\<lambda>acc tid. foldl (appendExistingAnchor st ws) acc (parent_walk (threadParentById st) {tid} tid))
       reconciled (uniq (map thr_id reconciled))"

definition reconcile_threads :: "thread_state \<Rightarrow> string \<Rightarrow> thread_summary list \<Rightarrow> thread_summary list" where
  "reconcile_threads st ws incoming =
     (let visibleThreads = filter (\<lambda>t. thr_id t \<notin> hidden_in st ws) incoming
      in anchor_parents st ws (anchor_local st ws (anchor_active st ws visibleThreads)))"

definition reduceSetThreads ::
    "thread_state \<Rightarrow> string \<Rightarrow> thread_summary list \<Rightarrow> sort_key \<Rightarrow> thread_state" where
  "reduceSetThreads st ws incoming sortKey =
     (let reconciled = reconcile_threads st ws incoming;
          replaced = (case active_of st ws of None \<Rightarrow> False
            | Some tid \<Rightarrow> tid \<noteq> [] \<and> tid \<notin> thr_id ` set reconciled)
      in st\<lparr>activeThreadIdByWorkspace :=
              (if replaced
               then (activeThreadIdByWorkspace st)(ws \<mapsto>
                      (case reconciled of [] \<Rightarrow> None | t # _ \<Rightarrow> Some (thr_id t)))
               else activeThreadIdByWorkspace st),
            threadsByWorkspace := (threadsByWorkspace st)(ws \<mapsto> reconciled),
            threadSortKeyByWorkspace := (threadSortKeyByWorkspace st)(ws \<mapsto> sortKey)\<rparr>)"

section \<open>Pending requests\<close>

text \<open>The three queues follow one scheme: a request is queued once, and removed by its key.\<close>

definition approval_key :: "approval_request \<Rightarrow> request_id \<times> string" where
  "approval_key r = (apr_request_id r, apr_workspace_id r)"

definition user_input_key :: "user_input_request \<Rightarrow> request_id \<times> string" where
  "user_input_key r = (uir_request_id r, uir_workspace_id r)"

definition tool_call_key :: "tool_call_request \<Rightarrow> request_id \<times> string" where
  "tool_call_key r = (tcr_request_id r, tcr_workspace_id r)"

definition add_approval :: "approval_request \<Rightarrow> approval_request list \<Rightarrow> approval_request list" where
  "add_approval r q =
     (if list_ex (\<lambda>item. apr_request_id item = apr_request_id r
                        \<and> apr_workspace_id item = apr_workspace_id r) q
      then q else q @ [r])"

definition remove_approval :: "request_id \<times> string \<Rightarrow> approval_request list \<Rightarrow> approval_request list" where
  "remove_approval k q =
     filter (\<lambda>item. apr_request_id item \<noteq> fst k \<or> apr_workspace_id item \<noteq> snd k) q"

definition add_user_input :: "user_input_request \<Rightarrow> user_input_request list \<Rightarrow> user_input_request list" where
  "add_user_input r q =
     (if list_ex (\<lambda>item. uir_request_id item = uir_request_id r
                        \<and> uir_workspace_id item = uir_workspace_id r) q
      then q else q @ [r])"

definition remove_user_input :: "request_id \<times> string \<Rightarrow> user_input_request list \<Rightarrow> user_input_request list" where
  "remove_user_input k q =
     filter (\<lambda>item. uir_request_id item \<noteq> fst k \<or> uir_workspace_id item \<noteq> snd k) q"

definition add_tool_call :: "tool_call_request \<Rightarrow> tool_call_request list \<Rightarrow> tool_call_request list" where
  "add_tool_call r q =
     (if list_ex (\<lambda>item. tcr_request_id item = tcr_request_id r
                        \<and> tcr_workspace_id item = tcr_workspace_id r) q
      then q else q @ [r])"

definition remove_tool_call :: "request_id \<times> string \<Rightarrow> tool_call_request list \<Rightarrow> tool_call_request list" where
  "remove_tool_call k q =
     filter (\<lambda>item. tcr_request_id item \<noteq> fst k \<or> tcr_workspace_id item \<noteq> snd k) q"

interpretation approval_queue: request_queue approval_key add_approval remove_approval
  by unfold_locales
    (auto simp: approval_key_def add_approval_def remove_approval_def list_ex_iff
      prod_eq_iff image_iff intro!: filter_cong)

interpretation user_input_queue: request_queue user_input_key add_user_input remove_user_input
  by unfold_locales
    (auto simp: user_input_key_def add_user_input_def remove_user_input_def list_ex_iff
      prod_eq_iff image_iff intro!: filter_cong)

interpretation tool_call_queue: request_queue tool_call_key add_tool_call remove_tool_call
  by unfold_locales
    (auto simp: tool_call_key_def add_tool_call_def remove_tool_call_def list_ex_iff
      prod_eq_iff image_iff intro!: filter_cong)

section \<open>The reducer\<close>

fun threadReducer :: "int \<Rightarrow> thread_state \<Rightarrow> thread_action \<Rightarrow> thread_state" where
  "threadReducer now st (SetActiveThreadId ws tid) = reduceSetActiveThreadId st ws tid"
| "threadReducer now st (EnsureThread ws tid) = reduceEnsureThread st ws tid"
| "threadReducer now st (HideThread ws tid) = reduceHideThread st ws tid"
| "threadReducer now st (RemoveThread ws tid) = reduceRemoveThread st ws tid"
| "threadReducer now st (SetThreadParent tid parent) = reduceSetThreadParent st tid parent"
| "threadReducer now st (MarkProcessing tid b e ts) = reduceMarkProcessing st tid b e ts"
| "threadReducer now st (MarkImmediateCompletion tid) = reduceMarkImmediateCompletion st tid"
| "threadReducer now st (HydrateThreadStatus tid d) = reduceHydrateThreadStatus st tid d"
| "threadReducer now st (MarkReviewing tid b) = reduceMarkReviewing st tid b"
| "threadReducer now st (MarkUnread tid b) = reduceMarkUnread st tid b"
| "threadReducer now st (AddAssistantMessage tid text) = reduceAddAssistantMessage now st tid text"
| "threadReducer now st (SetThreadName ws tid nm) = reduceSetThreadName st ws tid nm"
| "threadReducer now st (SetThreadTimestamp ws tid ts) = reduceSetThreadTimestamp st ws tid ts"
| "threadReducer now st (AppendAgentDelta ws tid i d c) = reduceAppendAgentDelta st ws tid i d c"
| "threadReducer now st (CompleteAgentMessage ws tid i t c) = reduceCompleteAgentMessage st ws tid i t c"
| "threadReducer now st (UpsertItem ws tid item c) = reduceUpsertItem st ws tid item c"
| "threadReducer now st (SetThreadItems tid items) = reduceSetThreadItems st tid items"
| "threadReducer now st (AppendReasoningSummary tid i d) = reduceAppendReasoningSummary st tid i d"
| "threadReducer now st (AppendReasoningSummaryBoundary tid i) =
     reduceAppendReasoningSummaryBoundary st tid i"
| "threadReducer now st (AppendReasoningContent tid i d) = reduceAppendReasoningContent st tid i d"
| "threadReducer now st (AppendPlanDelta tid i d) = reduceAppendPlanDelta st tid i d"
| "threadReducer now st (AppendToolOutput tid i d) = reduceAppendToolOutput st tid i d"
| "threadReducer now st (CompletePendingTurnItems tid) = reduceCompletePendingTurnItems st tid"
| "threadReducer now st (SetThreads ws ts k) = reduceSetThreads st ws ts k"
| "threadReducer now st (SetThreadListLoading ws b) =
     st\<lparr>threadListLoadingByWorkspace := (threadListLoadingByWorkspace st)(ws \<mapsto> b)\<rparr>"
| "threadReducer now st (SetThreadResumeLoading tid b) =
     st\<lparr>threadResumeLoadingById := (threadResumeLoadingById st)(tid \<mapsto> b)\<rparr>"
| "threadReducer now st (SetThreadListPaging ws b) =
     st\<lparr>threadListPagingByWorkspace := (threadListPagingByWorkspace st)(ws \<mapsto> b)\<rparr>"
| "threadReducer now st (SetThreadListCursor ws c) =
     st\<lparr>threadListCursorByWorkspace := (threadListCursorByWorkspace st)(ws \<mapsto> c)\<rparr>"
| "threadReducer now st (AddApproval r) = st\<lparr>approvals := add_approval r (approvals st)\<rparr>"
| "threadReducer now st (RemoveApproval i ws) = st\<lparr>approvals := remove_approval (i, ws) (approvals st)\<rparr>"
| "threadReducer now st (AddUserInputRequest r) =
     st\<lparr>userInputRequests := add_user_input r (userInputRequests st)\<rparr>"
| "threadReducer now st (RemoveUserInputRequest i ws) =
     st\<lparr>userInputRequests := remove_user_input (i, ws) (userInputRequests st)\<rparr>"
| "threadReducer now st (AddToolCallRequest r) =
     st\<lparr>toolCallRequests := add_tool_call r (toolCallRequests st)\<rparr>"
| "threadReducer now st (RemoveToolCallRequest i ws) =
     st\<lparr>toolCallRequests := remove_tool_call (i, ws) (toolCallRequests st)\<rparr>"
| "threadReducer now st (SetThreadTokenUsage tid u) =
     st\<lparr>tokenUsageByThread := (tokenUsageByThread st)(tid \<mapsto> u)\<rparr>"
| "threadReducer now st (SetRateLimits ws l) =
     st\<lparr>rateLimitsByWorkspace := (rateLimitsByWorkspace st)(ws \<mapsto> l)\<rparr>"
| "threadReducer now st (SetAccountInfo ws a) =
     st\<lparr>accountByWorkspace := (accountByWorkspace st)(ws \<mapsto> a)\<rparr>"
| "threadReducer now st (SetActiveTurnId tid t) =
     st\<lparr>activeTurnIdByThread := (activeTurnIdByThread st)(tid \<mapsto> t)\<rparr>"
| "threadReducer now st (SetThreadTurnDiff tid d) =
     st\<lparr>turnDiffByThread := (turnDiffByThread st)(tid \<mapsto> d)\<rparr>"
| "threadReducer now st (SetThreadPlan tid p) = st\<lparr>planByThread := (planByThread st)(tid \<mapsto> p)\<rparr>"
| "threadReducer now st (ClearThreadPlan tid) = st\<lparr>planByThread := (planByThread st)(tid \<mapsto> None)\<rparr>"
| "threadReducer now st (SetLastAgentMessage tid text ts) = reduceSetLastAgentMessage st tid text ts"

end
