(* ===== verification/ThreadStore.thy ===== *)
theory ThreadStore
  imports ThreadsReducer
begin

text \<open>
  What the thread store guarantees in every state it can reach: the runs of \<open>threadReducer\<close> as an
  inductive predicate, its invariants, and the contracts of the single actions.
\<close>

section \<open>Runs\<close>

text \<open>
  \<open>store_run as st\<close> says that the actions \<open>as\<close>, each reduced at a time of its own, lead from the initial
  state to \<open>st\<close>.  Every action is admitted, with every payload.
\<close>

inductive store_run :: "thread_action list \<Rightarrow> thread_state \<Rightarrow> bool" where
  start: "store_run [] initialState"
| action: "store_run as st \<Longrightarrow> store_run (as @ [a]) (threadReducer now st a)"

definition store_reachable :: "thread_state \<Rightarrow> bool" where
  "store_reachable st \<longleftrightarrow> (\<exists>as. store_run as st)"

lemma store_reachable_init: "store_reachable initialState"
  unfolding store_reachable_def using store_run.start by blast

lemma store_reachable_step: "store_reachable st \<Longrightarrow> store_reachable (threadReducer now st a)"
  unfolding store_reachable_def using store_run.action by blast

lemma store_invariant:
  assumes "store_reachable st" and "I initialState"
    and "\<And>st now a. I st \<Longrightarrow> I (threadReducer now st a)"
  shows "I st"
proof -
  from assms(1) obtain as where "store_run as st" unfolding store_reachable_def by blast
  then show ?thesis by induction (simp_all add: assms(2,3))
qed

text \<open>The snapshot of the threads of a workspace that was stored last, if there was one.\<close>

fun snapshot_after :: "string \<Rightarrow> thread_summary list \<Rightarrow> thread_action \<Rightarrow> thread_summary list" where
  "snapshot_after ws prev (SetThreads w ts k) = (if w = ws then ts else prev)"
| "snapshot_after ws prev _ = prev"

definition last_snapshot :: "string \<Rightarrow> thread_action list \<Rightarrow> thread_summary list" where
  "last_snapshot ws as = foldl (snapshot_after ws) [] as"

lemma last_snapshot_simps [simp]:
  "last_snapshot ws [] = []" "last_snapshot ws (as @ [a]) = snapshot_after ws (last_snapshot ws as) a"
  by (simp_all add: last_snapshot_def)

section \<open>The lists of threads\<close>

abbreviation listed :: "thread_state \<Rightarrow> string \<Rightarrow> string list" where
  "listed st ws \<equiv> map thr_id (threads_of st ws)"

lemma threads_of_upd [simp]:
  "threads_of (st\<lparr>threadsByWorkspace := m\<rparr>) w = nullish (m w) []"
  by (simp add: threads_of_def)

lemma thr_id_cond [simp]:
  "thr_id (if P then t\<lparr>thr_name := f\<rparr> else t) = thr_id t"
  "thr_id (if P then t\<lparr>thr_updatedAt := g\<rparr> else t) = thr_id t"
  "thr_id (if P then t else t\<lparr>thr_name := f\<rparr>) = thr_id t"
  by auto

lemma put_status_threads [simp]: "threadsByWorkspace (put_status st tid s) = threadsByWorkspace st"
  by (simp add: put_status_def)

lemma distinct_bump: "distinct (map thr_id ts) \<Longrightarrow> distinct (map thr_id (bump_thread tid ts))"
  unfolding bump_thread_def by (rule distinct_map_partition)

lemma set_bump [simp]: "set (bump_thread tid ts) = set ts"
  unfolding bump_thread_def by auto

lemma freshen_id [simp]: "thr_id (freshenAnchorSummary st s) = thr_id s"
  by (simp add: freshenAnchorSummary_def Let_def)

lemma existing_thread_Some: "existing_thread st ws tid = Some t \<Longrightarrow> t \<in> set (threads_of st ws) \<and> thr_id t = tid"
  by (auto simp: existing_thread_def find_Some_iff) (metis nth_mem length_rev set_rev)

lemma existing_thread_None: "existing_thread st ws tid = None \<longleftrightarrow> tid \<notin> set (listed st ws)"
  by (auto simp: existing_thread_def find_None_iff)

lemma append_anchor_cases:
  obtains (same) "appendExistingAnchor st ws acc tid = acc"
      "tid = [] \<or> tid \<in> hidden_in st ws \<or> tid \<in> thr_id ` set acc \<or> tid \<notin> set (listed st ws)"
  | (new) t where "appendExistingAnchor st ws acc tid = acc @ [t]" "thr_id t = tid" "tid \<noteq> []"
      "tid \<notin> hidden_in st ws" "tid \<notin> thr_id ` set acc" "tid \<in> set (listed st ws)"
  using existing_thread_Some [of st ws tid] existing_thread_None [of st ws tid]
  by (cases "existing_thread st ws tid")
    (auto simp: appendExistingAnchor_def split: if_splits)

text \<open>What every appended anchor preserves, the whole reconciliation preserves.\<close>

lemma reconcile_invariant:
  assumes base: "I (filter (\<lambda>t. thr_id t \<notin> hidden_in st ws) incoming)"
    and app: "\<And>acc tid. I acc \<Longrightarrow> I (appendExistingAnchor st ws acc tid)"
  shows "I (reconcile_threads st ws incoming)"
  using base
  by (auto simp: reconcile_threads_def Let_def anchor_active_def anchor_local_def anchor_parents_def
      intro!: foldl_invariant [where I = I] app split: option.splits)

lemma anchors_visible_reconcile: "thr_id ` set (reconcile_threads st ws incoming) \<inter> hidden_in st ws = {}"
proof (rule reconcile_invariant [where I = "\<lambda>acc. thr_id ` set acc \<inter> hidden_in st ws = {}"])
  fix acc :: "thread_summary list" and tid assume "thr_id ` set acc \<inter> hidden_in st ws = {}"
  then show "thr_id ` set (appendExistingAnchor st ws acc tid) \<inter> hidden_in st ws = {}"
    by (cases rule: append_anchor_cases [of st ws acc tid]) auto
qed auto

lemma anchors_distinct_reconcile:
  assumes "distinct (map thr_id incoming)"
  shows "distinct (map thr_id (reconcile_threads st ws incoming))"
proof (rule reconcile_invariant [where I = "\<lambda>acc. distinct (map thr_id acc)"])
  fix acc :: "thread_summary list" and tid assume "distinct (map thr_id acc)"
  then show "distinct (map thr_id (appendExistingAnchor st ws acc tid))"
    by (cases rule: append_anchor_cases [of st ws acc tid]) auto
qed (rule distinct_map_filterI [OF assms])

section \<open>No hidden thread is listed\<close>

definition threads_ok :: "thread_state \<Rightarrow> bool" where
  "threads_ok st \<longleftrightarrow> (\<forall>ws. set (listed st ws) \<inter> hidden_in st ws = {})"

text \<open>An action changes the list of at most one workspace; \<open>same_lists\<close> says it changes no ids.\<close>

definition same_lists :: "thread_state \<Rightarrow> thread_state \<Rightarrow> bool" where
  "same_lists st st' \<longleftrightarrow> hiddenThreadIdsByWorkspace st' = hiddenThreadIdsByWorkspace st
     \<and> (\<forall>ws. listed st' ws = listed st ws)"

lemma threads_ok_same: "same_lists st st' \<Longrightarrow> threads_ok st \<Longrightarrow> threads_ok st'"
  by (simp add: same_lists_def threads_ok_def hidden_in_def)


lemma maybeRename_ids:
  "map thr_id (nullish (maybeRenameThreadFromAgent ws tid items i c m w) []) =
   map thr_id (nullish (m w) [])"
  by (auto simp: maybeRenameThreadFromAgent_def Let_def comp_def split: option.splits)

lemma rename_after_lists: "same_lists st (rename_after st ws tid i c items)"
  by (simp add: same_lists_def rename_after_def maybeRename_ids) (simp add: threads_of_def)

lemma put_status_lists: "same_lists st (put_status st tid s)"
  by (simp add: same_lists_def put_status_def threads_of_def)

lemma same_lists_refl [simp]: "same_lists st st"
  by (simp add: same_lists_def)

lemma same_lists_trivial:
  "threadsByWorkspace st' = threadsByWorkspace st \<Longrightarrow>
   hiddenThreadIdsByWorkspace st' = hiddenThreadIdsByWorkspace st \<Longrightarrow> same_lists st st'"
  by (simp add: same_lists_def threads_of_def)

lemma threads_ok_trivial:
  "threads_ok st \<Longrightarrow> threadsByWorkspace st' = threadsByWorkspace st \<Longrightarrow>
   hiddenThreadIdsByWorkspace st' = hiddenThreadIdsByWorkspace st \<Longrightarrow> threads_ok st'"
  by (rule threads_ok_same [OF same_lists_trivial])

lemma set_name_lists: "same_lists st (reduceSetThreadName st ws tid nm)"
  by (simp add: same_lists_def reduceSetThreadName_def comp_def) (simp add: threads_of_def)

lemma status_actions_lists:
  "same_lists st (reduceMarkProcessing st tid b e ts)" "same_lists st (reduceMarkImmediateCompletion st tid)"
  "same_lists st (reduceHydrateThreadStatus st tid d)" "same_lists st (reduceMarkReviewing st tid b)"
  "same_lists st (reduceMarkUnread st tid b)"
  by (simp_all add: reduceMarkProcessing_def reduceMarkImmediateCompletion_def
      reduceHydrateThreadStatus_def reduceMarkReviewing_def reduceMarkUnread_def Let_def put_status_lists)

lemma item_actions_lists:
  "same_lists st (reduceAppendAgentDelta st ws tid i d c)"
  "same_lists st (reduceCompleteAgentMessage st ws tid i t c)"
  "same_lists st (update_reasoning f g st tid i)"
  "same_lists st (reduceAppendPlanDelta st tid i d)"
  "same_lists st (reduceAppendToolOutput st tid i d)"
  "same_lists st (reduceCompletePendingTurnItems st tid)"
  "same_lists st (reduceSetLastAgentMessage st tid t ts)"
  "same_lists st (reduceSetThreadParent st tid p)"
  "same_lists st (reduceSetActiveThreadId st ws t')"
  by (auto simp: reduceAppendAgentDelta_def reduceCompleteAgentMessage_def update_reasoning_def
      reduceAppendPlanDelta_def reduceAppendToolOutput_def reduceCompletePendingTurnItems_def
      reduceSetLastAgentMessage_def reduceSetThreadParent_def reduceSetActiveThreadId_def Let_def
      rename_after_lists same_lists_trivial
      split: option.splits conversation_item.splits prod.splits)

lemmas same_lists_actions = status_actions_lists item_actions_lists set_name_lists

lemma nullish_upd: "nullish ((m(w \<mapsto> x)) v) d = (if v = w then x else nullish (m v) d)"
  by simp

lemma threads_after_user_ids:
  "distinct (listed st ws) \<Longrightarrow> distinct (map thr_id (threads_after_user_message st ws tid b t c))"
  "thr_id ` set (threads_after_user_message st ws tid b t c) = set (listed st ws)"
  unfolding threads_after_user_message_def Let_def
  by (auto simp: distinct_bump comp_def image_image simp del: if_image_distrib)

lemma threads_ok_update:
  assumes "threads_ok st" "hiddenThreadIdsByWorkspace st' = hiddenThreadIdsByWorkspace st"
    "\<And>w. w \<noteq> ws \<Longrightarrow> listed st' w = listed st w"
    "set (listed st' ws) \<inter> hidden_in st ws = {}"
  shows "threads_ok st'"
  using assms by (metis (no_types, lifting) hidden_in_def threads_ok_def)

lemma threads_ok_ensure: "threads_ok st \<Longrightarrow> threads_ok (reduceEnsureThread st ws tid)"
proof -
  assume ok: "threads_ok st"
  show ?thesis
  proof (cases "tid \<in> hidden_in st ws \<or> tid \<in> thr_id ` set (threads_of st ws)")
    case True
    with ok show ?thesis by (auto simp: reduceEnsureThread_def)
  next
    case False
    show ?thesis
      by (rule threads_ok_update [OF ok, of _ ws])
        (use False ok in \<open>auto simp: reduceEnsureThread_def threads_of_def new_thread_def threads_ok_def\<close>)
  qed
qed

lemma threads_ok_remove: "threads_ok st \<Longrightarrow> threads_ok (reduceRemoveThread st ws tid)"
  by (rule threads_ok_update [where ws = ws and st = st])
    (auto simp: reduceRemoveThread_def Let_def threads_of_def threads_ok_def)

lemma threads_ok_timestamp: "threads_ok st \<Longrightarrow> threads_ok (reduceSetThreadTimestamp st ws tid ts)"
  by (rule threads_ok_update [where ws = ws and st = st])
    (auto simp: reduceSetThreadTimestamp_def Let_def threads_ok_def comp_def image_image
      threads_of_def simp del: if_image_distrib)

lemma threads_ok_set: "threads_ok st \<Longrightarrow> threads_ok (reduceSetThreads st ws ts k)"
  by (rule threads_ok_update [where ws = ws and st = st])
    (use anchors_visible_reconcile [of st ws ts] in
      \<open>auto simp: reduceSetThreads_def Let_def threads_of_def\<close>)

lemma threads_ok_upsert: "threads_ok st \<Longrightarrow> threads_ok (reduceUpsertItem st ws tid item c)"
  by (rule threads_ok_update [where ws = ws and st = st])
    (auto simp: reduceUpsertItem_def Let_def threads_ok_def threads_after_user_ids threads_of_def)

lemma threads_ok_hide: "threads_ok st \<Longrightarrow> threads_ok (reduceHideThread st ws tid)"
proof -
  assume ok: "threads_ok st"
  then have "set (listed st w) \<inter> hidden_in st w = {}" for w
    by (simp add: threads_ok_def)
  then show ?thesis
    by (auto simp: reduceHideThread_def Let_def threads_ok_def hidden_in_def threads_of_def)
qed

lemma threads_ok_step:
  "threads_ok st \<Longrightarrow> threads_ok (threadReducer now st a)"
  by (cases a)
    (auto intro: threads_ok_ensure threads_ok_remove threads_ok_timestamp threads_ok_set
      threads_ok_upsert threads_ok_hide threads_ok_same same_lists_actions elim: threads_ok_trivial
      simp: reduceAddAssistantMessage_def reduceSetThreadItems_def reduceAppendReasoningSummary_def
        reduceAppendReasoningSummaryBoundary_def reduceAppendReasoningContent_def)

lemma threads_ok_init: "threads_ok initialState"
  by (simp add: threads_ok_def threads_of_def initialState_def hidden_in_def)

section \<open>Which threads are listed once\<close>

text \<open>
  A snapshot decides: what it lists once is listed once afterwards, and every other action keeps a
  list without repetitions free of them.
\<close>

lemma listed_once_same: "same_lists st st' \<Longrightarrow> distinct (listed st ws) \<Longrightarrow> distinct (listed st' ws)"
  by (simp add: same_lists_def)

lemma listed_once_trivial:
  "distinct (listed st ws) \<Longrightarrow> threadsByWorkspace st' = threadsByWorkspace st \<Longrightarrow> distinct (listed st' ws)"
  by (simp add: threads_of_def)

lemma listed_once_actions:
  assumes "distinct (listed st ws)"
  shows "distinct (listed (reduceEnsureThread st w tid) ws)"
    "distinct (listed (reduceRemoveThread st w tid) ws)"
    "distinct (listed (reduceHideThread st w tid) ws)"
    "distinct (listed (reduceSetThreadTimestamp st w tid ts) ws)"
    "distinct (listed (reduceUpsertItem st w tid item c) ws)"
    "w \<noteq> ws \<Longrightarrow> distinct (listed (reduceSetThreads st w us k) ws)"
  using assms
  by (auto simp: reduceEnsureThread_def reduceRemoveThread_def reduceHideThread_def Let_def
      reduceSetThreadTimestamp_def reduceUpsertItem_def reduceSetThreads_def threads_of_def
      new_thread_def distinct_map_filterI distinct_bump comp_def threads_after_user_ids
      simp del: if_image_distrib)

lemma listed_once_step:
  "distinct (listed st ws) \<Longrightarrow> (\<And>ts k. a \<noteq> SetThreads ws ts k) \<Longrightarrow>
   distinct (listed (threadReducer now st a) ws)"
  by (cases a)
    (auto intro: listed_once_actions listed_once_same same_lists_actions elim: listed_once_trivial
      simp: reduceAddAssistantMessage_def reduceSetThreadItems_def reduceAppendReasoningSummary_def
        reduceAppendReasoningSummaryBoundary_def reduceAppendReasoningContent_def)

lemma listed_once_snapshot:
  "distinct (map thr_id ts) \<Longrightarrow> distinct (listed (threadReducer now st (SetThreads ws ts k)) ws)"
  by (simp add: reduceSetThreads_def Let_def anchors_distinct_reconcile threads_of_def)

lemma snapshot_after_cases:
  obtains (snapshot) ts k where "a = SetThreads ws ts k" "snapshot_after ws prev a = ts"
  | (other) "\<And>ts k. a \<noteq> SetThreads ws ts k" "snapshot_after ws prev a = prev"
proof (cases "\<exists>ts k. a = SetThreads ws ts k")
  case True
  then show ?thesis using snapshot by auto
next
  case False
  then have "snapshot_after ws prev a = prev" by (cases a) auto
  with False show ?thesis using other by blast
qed

lemma listed_once_run:
  "store_run as st \<Longrightarrow> distinct (map thr_id (last_snapshot ws as)) \<Longrightarrow> distinct (listed st ws)"
proof (induction rule: store_run.induct)
  case start
  then show ?case by (simp add: threads_of_def initialState_def)
next
  case (action as st a now)
  then show ?case
    by (cases rule: snapshot_after_cases [of a ws "last_snapshot ws as"])
      (auto intro: listed_once_snapshot listed_once_step simp del: threadReducer.simps)
qed


section \<open>Items, statuses, parents and queues\<close>

definition items_ok :: "thread_state \<Rightarrow> bool" where
  "items_ok st \<longleftrightarrow> (\<forall>tid items. itemsByThread st tid = Some items \<longrightarrow>
     length items \<le> MAX_ITEMS_PER_THREAD \<and> list_all item_fits items)"

text \<open>A thread has a start time exactly while it is processing, and is idle otherwise.\<close>

definition status_consistent :: "thread_activity_status \<Rightarrow> bool" where
  "status_consistent s \<longleftrightarrow> (isProcessing s \<longleftrightarrow> processingStartedAt s \<noteq> None)
     \<and> (\<not> isProcessing s \<longrightarrow> executionState s = None \<or> executionState s = Some Idle)"

definition status_ok :: "thread_state \<Rightarrow> bool" where
  "status_ok st \<longleftrightarrow> (\<forall>tid s. threadStatusById st tid = Some s \<longrightarrow> status_consistent s)"

definition parents_ok :: "thread_state \<Rightarrow> bool" where
  "parents_ok st \<longleftrightarrow> (\<forall>tid p. fmlookup (threadParentById st) tid = Some p \<longrightarrow> p \<noteq> [] \<and> p \<noteq> tid)"

definition queues_ok :: "thread_state \<Rightarrow> bool" where
  "queues_ok st \<longleftrightarrow> distinct (map approval_key (approvals st))
     \<and> distinct (map user_input_key (userInputRequests st))
     \<and> distinct (map tool_call_key (toolCallRequests st))"

lemma items_ok_trivial: "items_ok st \<Longrightarrow> itemsByThread st' = itemsByThread st \<Longrightarrow> items_ok st'"
  by (simp add: items_ok_def)

lemma items_ok_put:
  "items_ok st \<Longrightarrow> itemsByThread st' = (itemsByThread st)(tid \<mapsto> prepareThreadItems xs) \<Longrightarrow> items_ok st'"
  using length_prepare_le(2) [of xs] prepare_fits [of _ xs] by (auto simp: items_ok_def list_all_iff)

lemma items_ok_remove: "items_ok st \<Longrightarrow> itemsByThread st' = (itemsByThread st)(tid := None) \<Longrightarrow> items_ok st'"
  by (auto simp: items_ok_def)

lemma put_status_items [simp]: "itemsByThread (put_status st tid s) = itemsByThread st"
  by (simp add: put_status_def)

lemmas status_action_defs =
  reduceMarkProcessing_def reduceMarkImmediateCompletion_def reduceHydrateThreadStatus_def
  reduceMarkReviewing_def reduceMarkUnread_def reduceSetActiveThreadId_def

lemmas list_action_defs =
  reduceEnsureThread_def reduceHideThread_def reduceRemoveThread_def reduceSetThreadParent_def
  reduceSetThreadName_def reduceSetThreadTimestamp_def reduceSetThreads_def

lemmas item_action_defs =
  reduceAddAssistantMessage_def reduceAppendAgentDelta_def reduceCompleteAgentMessage_def
  reduceUpsertItem_def reduceSetThreadItems_def reduceSetLastAgentMessage_def
  reduceAppendReasoningSummary_def reduceAppendReasoningSummaryBoundary_def
  reduceAppendReasoningContent_def update_reasoning_def reduceAppendPlanDelta_def
  reduceAppendToolOutput_def reduceCompletePendingTurnItems_def completePendingTurnItems_def
  rename_after_def

lemma items_step:
  "itemsByThread (threadReducer now st a) = itemsByThread st
   \<or> (\<exists>tid xs. itemsByThread (threadReducer now st a) = (itemsByThread st)(tid \<mapsto> prepareThreadItems xs))
   \<or> (\<exists>tid. itemsByThread (threadReducer now st a) = (itemsByThread st)(tid := None))"
  by (cases a)
    (auto simp: status_action_defs list_action_defs item_action_defs Let_def
      split: option.splits conversation_item.splits prod.splits)

lemma items_ok_step: "items_ok st \<Longrightarrow> items_ok (threadReducer now st a)"
  using items_step [of now st a] items_ok_trivial items_ok_put items_ok_remove by metis

lemma status_ok_trivial: "status_ok st \<Longrightarrow> threadStatusById st' = threadStatusById st \<Longrightarrow> status_ok st'"
  by (simp add: status_ok_def)

lemma status_ok_put:
  "status_ok st \<Longrightarrow> status_consistent s \<Longrightarrow> status_ok (put_status st tid s)"
  by (simp add: status_ok_def put_status_def)

lemma status_of_ok:
  assumes "status_ok st"
  shows "prev_flag (threadStatusById st tid) isProcessing \<longleftrightarrow>
           Option.bind (threadStatusById st tid) processingStartedAt \<noteq> None"
    and "\<not> prev_flag (threadStatusById st tid) isProcessing \<Longrightarrow>
           Option.bind (threadStatusById st tid) executionState \<in> {None, Some Idle}"
  using assms by (cases "threadStatusById st tid"; force simp: status_ok_def status_consistent_def prev_flag_def)+

lemma status_ok_actions:
  assumes "status_ok st"
  shows "status_ok (reduceMarkProcessing st tid b e ts)"
    "status_ok (reduceMarkImmediateCompletion st tid)"
    "status_ok (reduceHydrateThreadStatus st tid d)"
    "status_ok (reduceMarkReviewing st tid r)"
    "status_ok (reduceMarkUnread st tid u)"
  using assms status_of_ok [OF assms, of tid]
  by (auto simp: reduceMarkProcessing_def reduceMarkImmediateCompletion_def
      reduceHydrateThreadStatus_def reduceMarkReviewing_def reduceMarkUnread_def Let_def
      status_consistent_def truthy_num_def split: option.splits intro!: status_ok_put)

lemma execution_default_idle:
  "status_ok st \<Longrightarrow> \<not> prev_flag (threadStatusById st tid) isProcessing \<Longrightarrow>
   execution_or_default (threadStatusById st tid) = Idle"
  using status_of_ok(2) [of st tid] by (auto simp: execution_or_default_def)

lemma status_ok_upd:
  "status_ok st \<Longrightarrow> threadStatusById st' = (threadStatusById st)(tid \<mapsto> s) \<Longrightarrow> status_consistent s \<Longrightarrow>
   status_ok st'"
  "status_ok st \<Longrightarrow> threadStatusById st' = (threadStatusById st)(tid := None) \<Longrightarrow> status_ok st'"
  by (auto simp: status_ok_def)

lemma status_ok_active: "status_ok st \<Longrightarrow> status_ok (reduceSetActiveThreadId st ws tid)"
proof (cases tid)
  case (Some t)
  assume ok: "status_ok st"
  show ?thesis
  proof (cases "t = []")
    case False
    let ?s = "\<lparr>isProcessing = prev_flag (threadStatusById st t) isProcessing, hasUnread = False,
      isReviewing = prev_flag (threadStatusById st t) isReviewing,
      executionState = Some (execution_or_default (threadStatusById st t)),
      processingStartedAt = Option.bind (threadStatusById st t) processingStartedAt,
      lastDurationMs = Option.bind (threadStatusById st t) lastDurationMs\<rparr>"
    have "status_consistent ?s"
      using status_of_ok(1) [OF ok, of t] execution_default_idle [OF ok, of t]
      by (simp add: status_consistent_def)
    then show ?thesis
      by (rule status_ok_upd(1) [OF ok, rotated])
        (use Some False in \<open>simp add: reduceSetActiveThreadId_def Let_def\<close>)
  qed (use ok Some in \<open>simp add: reduceSetActiveThreadId_def status_ok_def\<close>)
qed (simp add: reduceSetActiveThreadId_def status_ok_def)

lemma idle_consistent: "status_consistent idle_status"
  by (simp add: idle_status_def status_consistent_def)

lemma status_step:
  "threadStatusById (threadReducer now st a) = threadStatusById st
   \<or> (\<exists>tid. threadStatusById (threadReducer now st a) = (threadStatusById st)(tid \<mapsto> idle_status))
   \<or> (\<exists>tid. threadStatusById (threadReducer now st a) = (threadStatusById st)(tid := None))
   \<or> (\<exists>tid b e ts. a = MarkProcessing tid b e ts) \<or> (\<exists>tid. a = MarkImmediateCompletion tid)
   \<or> (\<exists>tid d. a = HydrateThreadStatus tid d) \<or> (\<exists>tid r. a = MarkReviewing tid r)
   \<or> (\<exists>tid u. a = MarkUnread tid u) \<or> (\<exists>ws tid. a = SetActiveThreadId ws tid)"
  by (cases a)
    (auto simp: list_action_defs item_action_defs Let_def
      split: option.splits conversation_item.splits prod.splits)

lemma status_ok_step:
  assumes ok: "status_ok st"
  shows "status_ok (threadReducer now st a)"
  using status_step [of now st a]
proof (elim disjE exE)
  assume "threadStatusById (threadReducer now st a) = threadStatusById st"
  with ok show ?thesis by (rule status_ok_trivial)
next
  fix tid assume "threadStatusById (threadReducer now st a) = (threadStatusById st)(tid \<mapsto> idle_status)"
  with ok show ?thesis using idle_consistent by (rule status_ok_upd(1))
next
  fix tid assume "threadStatusById (threadReducer now st a) = (threadStatusById st)(tid := None)"
  with ok show ?thesis by (rule status_ok_upd(2))
qed (simp_all add: status_ok_actions [OF ok] status_ok_active [OF ok])

lemma put_status_frame [simp]:
  "threadParentById (put_status st tid s) = threadParentById st"
  "approvals (put_status st tid s) = approvals st"
  "userInputRequests (put_status st tid s) = userInputRequests st"
  "toolCallRequests (put_status st tid s) = toolCallRequests st"
  by (simp_all add: put_status_def)

lemma parents_step:
  "threadParentById (threadReducer now st a) = threadParentById st
   \<or> (\<exists>ws tid. a = RemoveThread ws tid) \<or> (\<exists>tid p. a = SetThreadParent tid p)"
  by (cases a)
    (auto simp: status_action_defs list_action_defs item_action_defs Let_def
      split: option.splits conversation_item.splits prod.splits)

lemma parents_ok_step: "parents_ok st \<Longrightarrow> parents_ok (threadReducer now st a)"
  using parents_step [of now st a] unfolding parents_ok_def
  by (elim disjE exE) (fastforce simp: reduceRemoveThread_def reduceSetThreadParent_def Let_def split: if_splits)+

lemma queues_step:
  "(approvals (threadReducer now st a) = approvals st
     \<or> (\<exists>r. approvals (threadReducer now st a) = add_approval r (approvals st))
     \<or> (\<exists>k. approvals (threadReducer now st a) = remove_approval k (approvals st)))
   \<and> (userInputRequests (threadReducer now st a) = userInputRequests st
     \<or> (\<exists>r. userInputRequests (threadReducer now st a) = add_user_input r (userInputRequests st))
     \<or> (\<exists>k. userInputRequests (threadReducer now st a) = remove_user_input k (userInputRequests st)))
   \<and> (toolCallRequests (threadReducer now st a) = toolCallRequests st
     \<or> (\<exists>r. toolCallRequests (threadReducer now st a) = add_tool_call r (toolCallRequests st))
     \<or> (\<exists>k. toolCallRequests (threadReducer now st a) = remove_tool_call k (toolCallRequests st)))"
  by (cases a)
    (auto simp: status_action_defs list_action_defs item_action_defs Let_def
      split: option.splits conversation_item.splits prod.splits)

lemma queues_ok_step: "queues_ok st \<Longrightarrow> queues_ok (threadReducer now st a)"
  using queues_step [of now st a]
  by (auto simp: queues_ok_def approval_queue.distinct_add approval_queue.distinct_remove
      user_input_queue.distinct_add user_input_queue.distinct_remove
      tool_call_queue.distinct_add tool_call_queue.distinct_remove)

text \<open>Each queue is a run of its own operations among the events.\<close>

fun approval_ops :: "thread_action \<Rightarrow> (approval_request + request_id \<times> string) list" where
  "approval_ops (AddApproval r) = [Inl r]"
| "approval_ops (RemoveApproval i ws) = [Inr (i, ws)]"
| "approval_ops _ = []"

fun user_input_ops :: "thread_action \<Rightarrow> (user_input_request + request_id \<times> string) list" where
  "user_input_ops (AddUserInputRequest r) = [Inl r]"
| "user_input_ops (RemoveUserInputRequest i ws) = [Inr (i, ws)]"
| "user_input_ops _ = []"

fun tool_call_ops :: "thread_action \<Rightarrow> (tool_call_request + request_id \<times> string) list" where
  "tool_call_ops (AddToolCallRequest r) = [Inl r]"
| "tool_call_ops (RemoveToolCallRequest i ws) = [Inr (i, ws)]"
| "tool_call_ops _ = []"

lemma queue_step:
  "approvals (threadReducer now st a) = approval_queue.run (approval_ops a) (approvals st)"
  "userInputRequests (threadReducer now st a) = user_input_queue.run (user_input_ops a) (userInputRequests st)"
  "toolCallRequests (threadReducer now st a) = tool_call_queue.run (tool_call_ops a) (toolCallRequests st)"
  by (cases a; simp add: status_action_defs list_action_defs item_action_defs Let_def
      split: option.splits conversation_item.splits prod.splits)+

lemma queues_run:
  "approvals (foldl (threadReducer now) st as)
     = approval_queue.run (concat (map approval_ops as)) (approvals st)"
  "userInputRequests (foldl (threadReducer now) st as)
     = user_input_queue.run (concat (map user_input_ops as)) (userInputRequests st)"
  "toolCallRequests (foldl (threadReducer now) st as)
     = tool_call_queue.run (concat (map tool_call_ops as)) (toolCallRequests st)"
  by (induction as arbitrary: st)
    (simp_all add: queue_step approval_queue.run_append user_input_queue.run_append tool_call_queue.run_append)

lemmas request_queue_facts =
  approval_queue.run_refines approval_queue.run_distinct user_input_queue.run_refines
  user_input_queue.run_distinct tool_call_queue.run_refines tool_call_queue.run_distinct

section \<open>The invariant of the store\<close>

definition store_invariants :: "thread_state \<Rightarrow> bool" where
  "store_invariants st \<longleftrightarrow> threads_ok st \<and> items_ok st \<and> status_ok st \<and> parents_ok st \<and> queues_ok st"

lemma store_invariants_init: "store_invariants initialState"
  using threads_ok_init
  by (simp add: store_invariants_def items_ok_def status_ok_def parents_ok_def queues_ok_def
      initialState_def)

lemma store_invariants_step:
  "store_invariants st \<Longrightarrow> store_invariants (threadReducer now st a)"
  by (simp add: store_invariants_def threads_ok_step items_ok_step status_ok_step parents_ok_step
      queues_ok_step)


section \<open>What a snapshot of threads may change\<close>

text \<open>Folds of a function that only extends its accumulator.\<close>

lemma foldl_extends:
  "(\<And>acc x. prefix acc (f acc x)) \<Longrightarrow> prefix acc (foldl f acc xs)"
proof (induction xs arbitrary: acc)
  case (Cons x xs)
  then show ?case by (metis foldl_Cons prefix_order.trans)
qed simp

lemma foldl_reaches:
  assumes ext: "\<And>acc x. prefix acc (f acc x)" and "x \<in> set xs"
    and hit: "\<And>acc. y \<in> g ` set (f acc x)"
  shows "y \<in> g ` set (foldl f acc xs)"
  using assms(2)
proof (induction xs arbitrary: acc)
  case (Cons z zs)
  show ?case
  proof (cases "z = x")
    case True
    have "prefix (f acc x) (foldl f (f acc x) zs)" by (rule foldl_extends) (rule ext)
    then have "set (f acc x) \<subseteq> set (foldl f (f acc x) zs)" by (rule set_mono_prefix)
    with hit [of acc] True show ?thesis by auto
  next
    case False
    with Cons show ?thesis by simp
  qed
qed simp

lemma append_anchor_extends: "prefix acc (appendExistingAnchor st ws acc tid)"
  by (cases rule: append_anchor_cases [of st ws acc tid]) auto

lemma append_anchor_hit:
  "tid \<noteq> [] \<Longrightarrow> tid \<notin> hidden_in st ws \<Longrightarrow> tid \<in> set (listed st ws) \<Longrightarrow>
   tid \<in> thr_id ` set (appendExistingAnchor st ws acc tid)"
  by (cases rule: append_anchor_cases [of st ws acc tid]) auto

lemma append_anchor_ids:
  "thr_id ` set (appendExistingAnchor st ws acc tid) \<subseteq> insert tid (thr_id ` set acc)"
  "thr_id ` set (appendExistingAnchor st ws acc tid) \<subseteq> thr_id ` set acc \<union> set (listed st ws)"
  by (cases rule: append_anchor_cases [of st ws acc tid]; auto)+

lemma anchor_fold_ids:
  "thr_id ` set (foldl (appendExistingAnchor st ws) acc tids) \<subseteq> thr_id ` set acc \<union> set tids"
proof (induction tids arbitrary: acc)
  case (Cons tid tids)
  show ?case
    using order_trans [OF Cons.IH Un_mono [OF append_anchor_ids(1) order_refl], of st ws acc tid]
    by simp
qed simp

lemma anchor_fold_extends: "prefix acc (foldl (appendExistingAnchor st ws) acc tids)"
  by (rule foldl_extends) (rule append_anchor_extends)

lemma rounds_extend:
  "prefix acc (anchor_active st ws acc)" "prefix acc (anchor_local st ws acc)"
  "prefix acc (anchor_parents st ws acc)"
  by (auto simp: anchor_active_def anchor_local_def anchor_parents_def append_anchor_extends
      anchor_fold_extends intro!: foldl_extends split: option.splits)

lemma reconcile_anchors:
  "\<exists>anchors. reconcile_threads st ws incoming = filter (\<lambda>t. thr_id t \<notin> hidden_in st ws) incoming @ anchors
     \<and> thr_id ` set anchors \<subseteq> set (listed st ws)"
proof (rule reconcile_invariant)
  fix acc :: "thread_summary list" and tid
  assume "\<exists>anchors. acc = filter (\<lambda>t. thr_id t \<notin> hidden_in st ws) incoming @ anchors
     \<and> thr_id ` set anchors \<subseteq> set (listed st ws)"
  then obtain anchors where a: "acc = filter (\<lambda>t. thr_id t \<notin> hidden_in st ws) incoming @ anchors"
    "thr_id ` set anchors \<subseteq> set (listed st ws)" by blast
  show "\<exists>anchors. appendExistingAnchor st ws acc tid
      = filter (\<lambda>t. thr_id t \<notin> hidden_in st ws) incoming @ anchors
     \<and> thr_id ` set anchors \<subseteq> set (listed st ws)"
  proof (cases rule: append_anchor_cases [of st ws acc tid])
    case same
    with a show ?thesis by blast
  next
    case (new t)
    with a show ?thesis by (intro exI [of _ "anchors @ [t]"]) auto
  qed
qed auto

lemma reconcile_keeps_local:
  assumes "tid \<in> set (listed st ws)" "tid \<noteq> []" "tid \<notin> hidden_in st ws"
    and "has_local_history st tid \<or> prev_flag (threadStatusById st tid) isProcessing"
  shows "tid \<in> thr_id ` set (reconcile_threads st ws incoming)"
proof -
  from assms(1) obtain t where t: "t \<in> set (threads_of st ws)" "thr_id t = tid" by auto
  let ?f = "\<lambda>acc thread. if has_local_history st (thr_id thread)
            \<or> prev_flag (threadStatusById st (thr_id thread)) isProcessing
         then appendExistingAnchor st ws acc (thr_id thread) else acc"
  have "tid \<in> thr_id ` set (foldl ?f acc (threads_of st ws))" for acc
    by (rule foldl_reaches [OF _ t(1)])
      (use t assms append_anchor_extends append_anchor_hit in auto)
  then have local: "tid \<in> thr_id ` set (anchor_local st ws acc)" for acc
    by (simp add: anchor_local_def)
  show ?thesis
    unfolding reconcile_threads_def Let_def
    using local set_mono_prefix [OF rounds_extend(3)] by blast
qed

lemma parent_walk_closed:
  "tid \<in> set (parent_walk m V s) \<Longrightarrow> fmlookup m tid = Some p \<Longrightarrow> p \<noteq> [] \<Longrightarrow>
   p \<in> V \<or> p \<in> set (parent_walk m V s)"
proof (induction m V s rule: parent_walk.induct)
  case (1 m V s)
  have walk: "parent_walk m V s = (case fmlookup m s of None \<Rightarrow> []
      | Some q \<Rightarrow> if q = [] \<or> q \<in> V then [] else q # parent_walk m (insert q V) q)"
    by (rule parent_walk.simps)
  with "1.prems"(1) obtain q where q: "fmlookup m s = Some q" "q \<noteq> []" "q \<notin> V"
    by (cases "fmlookup m s") (auto split: if_splits)
  with walk have q': "parent_walk m V s = q # parent_walk m (insert q V) q" by simp
  note q = q q'
  show ?case
  proof (cases "tid = q")
    case True
    with "1.prems" have "p \<in> insert q V \<or> p \<in> set (parent_walk m (insert q V) q)"
      by (subst parent_walk.simps) auto
    with q show ?thesis by auto
  next
    case False
    with "1.prems" q have "tid \<in> set (parent_walk m (insert q V) q)" by simp
    from "1.IH" [OF q(1) _ this "1.prems"(2,3)] q show ?thesis by auto
  qed
qed

lemma parent_walk_first:
  "fmlookup m s = Some p \<Longrightarrow> p \<noteq> [] \<Longrightarrow> p \<notin> V \<Longrightarrow> p \<in> set (parent_walk m V s)"
  by (subst parent_walk.simps) simp

lemma anchor_parents_hit:
  assumes "s \<in> thr_id ` set acc" "p \<in> set (parent_walk (threadParentById st) {s} s)"
    and "p \<noteq> []" "p \<notin> hidden_in st ws" "p \<in> set (listed st ws)"
  shows "p \<in> thr_id ` set (anchor_parents st ws acc)"
proof -
  have inner: "p \<in> thr_id ` set (foldl (appendExistingAnchor st ws) acc'
      (parent_walk (threadParentById st) {s} s))" for acc'
    by (rule foldl_reaches [OF append_anchor_extends assms(2)]) (rule append_anchor_hit [OF assms(3-5)])
  show ?thesis
    unfolding anchor_parents_def
  proof (rule foldl_reaches [where x = s])
    show "s \<in> set (uniq (map thr_id acc))" using assms(1) by simp
  qed (rule anchor_fold_extends, rule inner)
qed

lemma anchor_parents_origin:
  assumes "tid \<in> thr_id ` set (anchor_parents st ws acc)"
  shows "tid \<in> thr_id ` set acc \<or>
    (\<exists>s \<in> thr_id ` set acc. tid \<in> set (parent_walk (threadParentById st) {s} s))"
proof -
  define W where "W = thr_id ` set acc \<union>
    (\<Union>s \<in> thr_id ` set acc. set (parent_walk (threadParentById st) {s} s))"
  have walks: "set (parent_walk (threadParentById st) {s} s) \<subseteq> W" if "s \<in> thr_id ` set acc" for s
    using that unfolding W_def by blast
  have "thr_id ` set (anchor_parents st ws acc) \<subseteq> W"
    unfolding anchor_parents_def
  proof (rule foldl_invariant)
    show "thr_id ` set acc \<subseteq> W" unfolding W_def by blast
  next
    fix a :: "thread_summary list" and s
    assume "s \<in> set (uniq (map thr_id acc))" and a: "thr_id ` set a \<subseteq> W"
    then have "set (parent_walk (threadParentById st) {s} s) \<subseteq> W" by (intro walks) simp
    with a have "thr_id ` set a \<union> set (parent_walk (threadParentById st) {s} s) \<subseteq> W" by simp
    with anchor_fold_ids
    show "thr_id ` set (foldl (appendExistingAnchor st ws) a (parent_walk (threadParentById st) {s} s)) \<subseteq> W"
      by (rule order_trans)
  qed
  with assms have "tid \<in> W" by blast
  then show ?thesis unfolding W_def by blast
qed

lemma reconcile_parent_closed:
  assumes "tid \<in> thr_id ` set (reconcile_threads st ws incoming)"
    and "fmlookup (threadParentById st) tid = Some p" "p \<noteq> []"
    and "p \<in> set (listed st ws)" "p \<notin> hidden_in st ws"
  shows "p \<in> thr_id ` set (reconcile_threads st ws incoming)"
proof -
  let ?m = "threadParentById st"
  define acc where "acc = anchor_local st ws (anchor_active st ws
    (filter (\<lambda>t. thr_id t \<notin> hidden_in st ws) incoming))"
  have rec: "reconcile_threads st ws incoming = anchor_parents st ws acc"
    by (simp add: reconcile_threads_def acc_def Let_def)
  have kept: "thr_id ` set acc \<subseteq> thr_id ` set (anchor_parents st ws acc)"
    using set_mono_prefix [OF rounds_extend(3)] by blast
  have "\<exists>s \<in> thr_id ` set acc. p = s \<or> p \<in> set (parent_walk ?m {s} s)"
    using anchor_parents_origin [OF assms(1) [unfolded rec]]
  proof (elim disjE bexE)
    assume "tid \<in> thr_id ` set acc"
    then show ?thesis using parent_walk_first [OF assms(2,3), of "{tid}"] by blast
  next
    fix s assume "s \<in> thr_id ` set acc" "tid \<in> set (parent_walk ?m {s} s)"
    then show ?thesis using parent_walk_closed [OF _ assms(2,3)] by blast
  qed
  then show ?thesis
    unfolding rec using kept anchor_parents_hit [OF _ _ assms(3,5,4), of _ acc] by blast
qed


section \<open>Processing times\<close>

text \<open>The actions after which a thread may no longer be processing.\<close>

fun ends_processing :: "string \<Rightarrow> thread_action \<Rightarrow> bool" where
  "ends_processing tid (MarkProcessing t b e ts) = (t = tid \<and> \<not> b)"
| "ends_processing tid (MarkImmediateCompletion t) = (t = tid)"
| "ends_processing tid (HydrateThreadStatus t d) = (t = tid)"
| "ends_processing tid (RemoveThread ws t) = (t = tid)"
| "ends_processing tid (EnsureThread ws t) = (t = tid)"
| "ends_processing tid _ = False"

definition processing_since :: "thread_state \<Rightarrow> string \<Rightarrow> int \<Rightarrow> bool" where
  "processing_since st tid ts =
     (case threadStatusById st tid of None \<Rightarrow> False
      | Some s \<Rightarrow> isProcessing s \<and> processingStartedAt s = Some ts)"

lemma put_status_at:
  "threadStatusById (put_status st tid s) t = (if t = tid then Some s else threadStatusById st t)"
  by (auto simp: put_status_def hasSameThreadActivityStatus_def split: option.splits if_splits)

lemma processing_status_actions:
  assumes "processing_since st tid ts" "ts \<noteq> 0"
  shows "b \<or> t \<noteq> tid \<Longrightarrow> processing_since (reduceMarkProcessing st t b e u) tid ts"
    "t \<noteq> tid \<Longrightarrow> processing_since (reduceMarkImmediateCompletion st t) tid ts"
    "t \<noteq> tid \<Longrightarrow> processing_since (reduceHydrateThreadStatus st t d) tid ts"
    "processing_since (reduceMarkReviewing st t r) tid ts"
    "processing_since (reduceMarkUnread st t r) tid ts"
    "processing_since (reduceSetActiveThreadId st ws t') tid ts"
  using assms
  by (auto simp: processing_since_def status_action_defs Let_def put_status_at prev_flag_def
      truthy_num_def split: option.splits if_splits)

lemma processing_kept:
  "processing_since st tid ts \<Longrightarrow> ts \<noteq> 0 \<Longrightarrow> \<not> ends_processing tid a \<Longrightarrow>
   processing_since (threadReducer now st a) tid ts"
  by (cases a)
    (auto simp: processing_status_actions,
     auto simp: processing_since_def list_action_defs item_action_defs Let_def
      split: option.splits conversation_item.splits prod.splits)

lemma processing_kept_run:
  "processing_since st tid ts \<Longrightarrow> ts \<noteq> 0 \<Longrightarrow> list_all (\<lambda>a. \<not> ends_processing tid a) as \<Longrightarrow>
   processing_since (foldl (threadReducer now) st as) tid ts"
  by (induction as arbitrary: st) (simp_all add: processing_kept)

lemma processing_starts:
  "\<not> prev_flag (threadStatusById st tid) isProcessing \<Longrightarrow>
   processing_since (threadReducer now st (MarkProcessing tid True e ts)) tid ts"
  by (simp add: processing_since_def reduceMarkProcessing_def Let_def put_status_at)

lemma processing_stops:
  "processing_since st tid ts \<Longrightarrow> ts \<noteq> 0 \<Longrightarrow>
   Option.bind (threadStatusById (threadReducer now st (MarkProcessing tid False e ts')) tid) lastDurationMs
     = Some (max 0 (ts' - ts))"
  by (auto simp: processing_since_def reduceMarkProcessing_def Let_def put_status_at prev_flag_def
      truthy_num_def split: option.splits)

section \<open>Hidden threads\<close>

lemma hidden_grows: "hidden_in st ws \<subseteq> hidden_in (threadReducer now st a) ws"
  by (cases a)
    (auto simp: status_action_defs list_action_defs item_action_defs Let_def hidden_in_def put_status_def
      split: option.splits conversation_item.splits prod.splits if_splits)

lemma hidden_stays:
  "store_invariants st \<Longrightarrow> tid \<in> hidden_in st ws \<Longrightarrow>
   tid \<notin> set (listed (foldl (threadReducer now) st as) ws)"
proof (induction as arbitrary: st)
  case Nil
  then show ?case by (auto simp: store_invariants_def threads_ok_def)
next
  case (Cons a as)
  from Cons.prems have "store_invariants (threadReducer now st a)"
    by (simp add: store_invariants_step)
  with Cons.IH [of "threadReducer now st a"] hidden_grows [of st ws now a] Cons.prems(2)
  show ?case by auto
qed

section \<open>Names of threads\<close>

text \<open>Each thread of the new list is one of the old list, renamed at most as allowed.\<close>

definition only_auto_renamed :: "string \<Rightarrow> thread_summary list \<Rightarrow> thread_summary list \<Rightarrow> bool" where
  "only_auto_renamed tid old new \<longleftrightarrow>
     (\<forall>t' \<in> set new. \<exists>t \<in> set old. thr_id t' = thr_id t \<and>
        (thr_name t' = thr_name t \<or>
           thr_id t = tid \<and> looksAutoGeneratedThreadName (thr_name t) \<and> length (thr_name t') \<le> 39))"

lemma only_auto_refl [simp]: "only_auto_renamed tid ts ts"
  by (auto simp: only_auto_renamed_def)

lemma formatThreadName_length: "formatThreadName s = Some n \<Longrightarrow> length n \<le> 39"
  by (auto simp: formatThreadName_def Let_def MAX_THREAD_NAME_LENGTH_def ellipsis_def split: if_splits)

lemma only_auto_mapI:
  assumes "\<And>t. t \<in> set ts \<Longrightarrow> thr_id (g t) = thr_id t \<and> (thr_name (g t) = thr_name t \<or>
     thr_id t = tid \<and> looksAutoGeneratedThreadName (thr_name t) \<and> length (thr_name (g t)) \<le> 39)"
    and "set us = g ` set ts"
  shows "only_auto_renamed tid ts us"
  unfolding only_auto_renamed_def
proof
  fix t' assume "t' \<in> set us"
  with assms(2) obtain t where "t \<in> set ts" "t' = g t" by auto
  with assms(1) [of t] show "\<exists>t \<in> set ts. thr_id t' = thr_id t \<and> (thr_name t' = thr_name t \<or>
     thr_id t = tid \<and> looksAutoGeneratedThreadName (thr_name t) \<and> length (thr_name t') \<le> 39)"
    by blast
qed

lemma only_auto_map_if:
  assumes "\<And>t. P t \<Longrightarrow> thr_id t = tid \<and> looksAutoGeneratedThreadName (thr_name t)" "length nm \<le> 39"
  shows "only_auto_renamed tid ts (map (\<lambda>t. if P t then t\<lparr>thr_name := nm\<rparr> else t) ts)"
  by (rule only_auto_mapI [where g = "\<lambda>t. if P t then t\<lparr>thr_name := nm\<rparr> else t"])
    (use assms in auto)

lemma only_auto_self [simp]:
  "only_auto_renamed tid (threads_of st w) (nullish (threadsByWorkspace st w) [])"
  using only_auto_refl [of tid "threads_of st w"] by (simp add: threads_of_def)

lemma maybeRename_auto:
  "only_auto_renamed tid (nullish (m w) []) (nullish (maybeRenameThreadFromAgent ws tid items i c m w) [])"
  by (auto simp: maybeRenameThreadFromAgent_def Let_def dest: formatThreadName_length
      split: option.splits intro!: only_auto_map_if)

lemma maybeRename_auto_threads:
  "only_auto_renamed tid (threads_of st w)
     (nullish (maybeRenameThreadFromAgent ws tid items i c (threadsByWorkspace st) w) [])"
  unfolding threads_of_def by (rule maybeRename_auto)

lemma renamed_by_user_cases:
  "renamed_by_user had tv c old = old \<or>
   looksAutoGeneratedThreadName old \<and> length (renamed_by_user had tv c old) \<le> 39"
  by (auto simp: renamed_by_user_def Let_def ellipsis_def)

lemma after_user_message_auto:
  "only_auto_renamed tid (threads_of st ws) (threads_after_user_message st ws tid had tv c)"
proof (rule only_auto_mapI)
  let ?g = "\<lambda>t. if thr_id t \<noteq> tid then t else t\<lparr>thr_name := renamed_by_user had tv c (thr_name t)\<rparr>"
  show "thr_id (?g t) = thr_id t \<and> (thr_name (?g t) = thr_name t \<or>
     thr_id t = tid \<and> looksAutoGeneratedThreadName (thr_name t) \<and> length (thr_name (?g t)) \<le> 39)" for t
    using renamed_by_user_cases [of had tv c "thr_name t"] by auto
  show "set (threads_after_user_message st ws tid had tv c) = ?g ` set (threads_of st ws)"
    by (auto simp: threads_after_user_message_def Let_def)
qed

lemma only_auto_upd:
  "only_auto_renamed tid (threads_of st ws) ts \<Longrightarrow>
   only_auto_renamed tid (threads_of st w) (nullish (((threadsByWorkspace st)(ws \<mapsto> ts)) w) [])"
  by (auto simp: threads_of_def)

lemma item_actions_rename:
  "only_auto_renamed tid (threads_of st w) (threads_of (reduceAppendAgentDelta st ws tid i d c) w)"
  "only_auto_renamed tid (threads_of st w) (threads_of (reduceCompleteAgentMessage st ws tid i t c) w)"
  "only_auto_renamed tid (threads_of st w) (threads_of (reduceUpsertItem st ws tid item c') w)"
  by (auto simp: reduceAppendAgentDelta_def reduceCompleteAgentMessage_def reduceUpsertItem_def
      rename_after_def Let_def maybeRename_auto_threads after_user_message_auto
      intro!: only_auto_upd
      split: option.splits conversation_item.splits prod.splits)


section \<open>Removing a thread\<close>

lemma next_active_other:
  "next_active st ws tid (filter (\<lambda>t. thr_id t \<noteq> tid) ts) \<noteq> Some tid"
  by (auto simp: next_active_def active_of_def filter_eq_Cons_iff
      split: list.splits option.splits bind_splits)

section \<open>Properties\<close>

lemma store_reachable_invariants: "store_reachable st \<Longrightarrow> store_invariants st"
  by (erule store_invariant) (simp_all add: store_invariants_init store_invariants_step)

text \<open>C1: whatever actions the store has reduced, in whatever order and with whatever payloads, the
  list of a workspace never shows a thread that is hidden there.  It repeats threads only if the
  last snapshot that \<open>setThreads\<close> gave for that workspace does: if that snapshot names every
  thread once, or there was none yet, the list names every thread once, however the earlier
  snapshots looked and whatever came after it.  (The reducer does not remove the repetitions of
  a snapshot itself.)\<close>

theorem thread_lists_consistent:
  assumes "store_run as st"
  shows "set (listed st ws) \<inter> hidden_in st ws = {}
    \<and> (distinct (map thr_id (last_snapshot ws as)) \<longrightarrow> distinct (listed st ws))"
proof -
  have "store_reachable st" using assms unfolding store_reachable_def by blast
  from store_reachable_invariants [OF this] listed_once_run [OF assms] show ?thesis
    by (simp add: store_invariants_def threads_ok_def)
qed

theorem thread_lists_consistent_witness:
  "let st = threadReducer 6 (threadReducer 5 (threadReducer 4 initialState
        (SetThreads ''w'' [new_thread ''u'', new_thread ''u''] UpdatedAt)) (HideThread ''w'' ''x''))
        (SetThreads ''w'' [new_thread ''u'', new_thread ''x'', new_thread ''v''] UpdatedAt)
    in distinct (listed st ''w'') \<and> set (listed st ''w'') \<inter> hidden_in st ''w'' = {}"
proof -
  note run = store_run.action [OF store_run.action [OF store_run.action [OF store_run.start]]]
  have "distinct (map thr_id (last_snapshot ''w'' ((([] @ [SetThreads ''w'' ts k]) @ [HideThread ''w'' ''x''])
      @ [SetThreads ''w'' [new_thread ''u'', new_thread ''x'', new_thread ''v''] UpdatedAt])))" for ts k
    by (simp only: last_snapshot_simps) (simp add: new_thread_def)
  with thread_lists_consistent [OF run] show ?thesis unfolding Let_def by blast
qed

text \<open>A hidden thread stays out of the list for good: no later sequence of events lists it
  again, not even a snapshot that still contains it.\<close>

theorem hidden_thread_stays_hidden:
  assumes "store_reachable st" "tid \<in> hidden_in st ws"
  shows "tid \<notin> set (listed (foldl (threadReducer now) st as) ws)"
  using hidden_stays store_reachable_invariants [OF assms(1)] assms(2) .

theorem hidden_thread_stays_hidden_witness:
  "''t'' \<notin> set (listed (foldl (threadReducer 5)
     (threadReducer 4 initialState (HideThread ''w'' ''t''))
     [SetThreads ''w'' [new_thread ''t''] UpdatedAt, EnsureThread ''w'' ''t'']) ''w'')"
proof (rule hidden_thread_stays_hidden)
  show "store_reachable (threadReducer 4 initialState (HideThread ''w'' ''t''))"
    by (rule store_reachable_step [OF store_reachable_init])
  show "''t'' \<in> hidden_in (threadReducer 4 initialState (HideThread ''w'' ''t'')) ''w''"
    by (simp add: reduceHideThread_def hidden_in_def initialState_def Let_def)
qed

text \<open>C2: in every reachable state the stored items of every thread respect the limits, a thread
  has a start time exactly while it is processing and is idle otherwise, no thread is its own
  parent, and no request is queued twice.\<close>

theorem store_contents_consistent:
  assumes "store_reachable st"
  shows "(\<forall>tid items. itemsByThread st tid = Some items \<longrightarrow> length items \<le> 200 \<and> list_all item_fits items)
    \<and> (\<forall>tid s. threadStatusById st tid = Some s \<longrightarrow>
          (isProcessing s \<longleftrightarrow> processingStartedAt s \<noteq> None) \<and>
          (\<not> isProcessing s \<longrightarrow> executionState s = None \<or> executionState s = Some Idle))
    \<and> (\<forall>tid p. fmlookup (threadParentById st) tid = Some p \<longrightarrow> p \<noteq> [] \<and> p \<noteq> tid)
    \<and> distinct (map approval_key (approvals st))
    \<and> distinct (map user_input_key (userInputRequests st))
    \<and> distinct (map tool_call_key (toolCallRequests st))"
  using store_reachable_invariants [OF assms]
  by (simp add: store_invariants_def items_ok_def status_ok_def status_consistent_def parents_ok_def
      queues_ok_def MAX_ITEMS_PER_THREAD_def)

theorem store_contents_consistent_witness:
  "processingStartedAt (the (threadStatusById (threadReducer 0 initialState
     (MarkProcessing ''t'' True None 7)) ''t'')) \<noteq> None"
proof -
  have "store_reachable (threadReducer 0 initialState (MarkProcessing ''t'' True None 7))"
    by (rule store_reachable_step [OF store_reachable_init])
  from store_contents_consistent [OF this] show ?thesis
    by (simp add: reduceMarkProcessing_def put_status_def initialState_def prev_flag_def Let_def
        hasSameThreadActivityStatus_def)
qed

text \<open>A snapshot of the threads of a workspace is reconciled, not copied.  The visible threads
  of the snapshot come first and in its order, nothing else appears but threads that were listed
  before; a listed thread with local history or still processing is kept, and so is the listed
  parent of every thread that is listed afterwards; the active thread is one of the list.\<close>

theorem setThreads_reconciles:
  "\<exists>anchors. threads_of (reduceSetThreads st ws incoming key) ws
       = filter (\<lambda>t. thr_id t \<notin> hidden_in st ws) incoming @ anchors
     \<and> thr_id ` set anchors \<subseteq> set (listed st ws)
     \<and> (\<forall>tid. tid \<in> set (listed st ws) \<longrightarrow> tid \<noteq> [] \<longrightarrow> tid \<notin> hidden_in st ws \<longrightarrow>
          has_local_history st tid \<or> prev_flag (threadStatusById st tid) isProcessing \<longrightarrow>
          tid \<in> set (listed (reduceSetThreads st ws incoming key) ws))
     \<and> (\<forall>tid p. tid \<in> set (listed (reduceSetThreads st ws incoming key) ws) \<longrightarrow>
          fmlookup (threadParentById st) tid = Some p \<longrightarrow> p \<noteq> [] \<longrightarrow>
          p \<in> set (listed st ws) \<longrightarrow> p \<notin> hidden_in st ws \<longrightarrow>
          p \<in> set (listed (reduceSetThreads st ws incoming key) ws))
     \<and> (\<forall>tid. active_of (reduceSetThreads st ws incoming key) ws = Some tid \<longrightarrow> tid \<noteq> [] \<longrightarrow>
          tid \<in> set (listed (reduceSetThreads st ws incoming key) ws))"
proof -
  let ?st = "reduceSetThreads st ws incoming key"
  have new: "threads_of ?st ws = reconcile_threads st ws incoming"
    by (simp add: reduceSetThreads_def Let_def threads_of_def)
  from reconcile_anchors obtain anchors where anchors:
    "reconcile_threads st ws incoming = filter (\<lambda>t. thr_id t \<notin> hidden_in st ws) incoming @ anchors"
    and known: "thr_id ` set anchors \<subseteq> set (listed st ws)" by blast
  have active: "tid \<in> set (listed ?st ws)" if "active_of ?st ws = Some tid" "tid \<noteq> []" for tid
    using that unfolding new
    by (auto simp: reduceSetThreads_def Let_def active_of_def split: if_splits option.splits list.splits
        bind_splits)
  have keeps: "tid \<in> set (listed ?st ws)" if "tid \<in> set (listed st ws)" "tid \<noteq> []" "tid \<notin> hidden_in st ws"
      "has_local_history st tid \<or> prev_flag (threadStatusById st tid) isProcessing" for tid
    using reconcile_keeps_local [OF that] by (simp add: new)
  have closed: "p \<in> set (listed ?st ws)" if "tid \<in> set (listed ?st ws)"
      "fmlookup (threadParentById st) tid = Some p" "p \<noteq> []" "p \<in> set (listed st ws)" "p \<notin> hidden_in st ws"
    for tid p
    using reconcile_parent_closed [of tid st ws incoming p] that by (simp add: new)
  have "threads_of ?st ws = filter (\<lambda>t. thr_id t \<notin> hidden_in st ws) incoming @ anchors"
    using new anchors by simp
  with known keeps closed active show ?thesis by blast
qed

theorem setThreads_reconciles_witness:
  "''t'' \<in> set (listed (reduceSetThreads
      (reduceMarkProcessing (reduceEnsureThread initialState ''w'' ''t'') ''t'' True None 7)
      ''w'' [new_thread ''u''] UpdatedAt) ''w'')"
proof -
  let ?st = "reduceMarkProcessing (reduceEnsureThread initialState ''w'' ''t'') ''t'' True None 7"
  have "''t'' \<in> set (listed ?st ''w'')" "''t'' \<notin> hidden_in ?st ''w''"
    "prev_flag (threadStatusById ?st ''t'') isProcessing"
    by (simp_all add: reduceMarkProcessing_def reduceEnsureThread_def initialState_def Let_def
        put_status_def hasSameThreadActivityStatus_def threads_of_def hidden_in_def prev_flag_def
        new_thread_def idle_status_def)
  with setThreads_reconciles [of ?st "''w''" "[new_thread ''u'']" UpdatedAt] show ?thesis by auto
qed

text \<open>The processing time of a turn is measured from its first start: when a thread that is
  not processing is marked as processing at time \<open>ts\<close>, any events follow that do not end it (other
  marks of the same turn included), and it is marked as done at \<open>ts'\<close>, the duration shown is
  \<open>max 0 (ts' - ts)\<close>.\<close>

theorem processing_duration:
  assumes "\<not> prev_flag (threadStatusById st tid) isProcessing" "ts \<noteq> 0"
    and "list_all (\<lambda>a. \<not> ends_processing tid a) as"
  shows "Option.bind (threadStatusById (threadReducer now
      (foldl (threadReducer now) (threadReducer now st (MarkProcessing tid True e ts)) as)
      (MarkProcessing tid False e' ts')) tid) lastDurationMs = Some (max 0 (ts' - ts))"
  using processing_stops [OF processing_kept_run [OF processing_starts [OF assms(1)] assms(2,3)] assms(2)] .

theorem processing_duration_witness:
  "Option.bind (threadStatusById (threadReducer 0
      (foldl (threadReducer 0) (threadReducer 0 initialState (MarkProcessing ''t'' True None 100))
        [MarkProcessing ''t'' True (Some AwaitingApproval) 130, MarkUnread ''t'' True])
      (MarkProcessing ''t'' False None 175)) ''t'') lastDurationMs = Some 75"
  using processing_duration [of initialState "''t''" 100 "[MarkProcessing ''t'' True (Some AwaitingApproval) 130,
      MarkUnread ''t'' True]" 0 None None 175] by (simp add: initialState_def prev_flag_def)

text \<open>Removing a thread takes it out of its workspace's list, makes another thread active, and
  forgets its items, status, turn, diff, plan and parent; the other threads keep their place.  Its
  token usage, last agent message and loading flag are not forgotten.\<close>

theorem removeThread_forgets:
  "tid \<notin> set (listed (reduceRemoveThread st ws tid) ws)
   \<and> active_of (reduceRemoveThread st ws tid) ws \<noteq> Some tid
   \<and> threads_of (reduceRemoveThread st ws tid) ws = filter (\<lambda>t. thr_id t \<noteq> tid) (threads_of st ws)
   \<and> itemsByThread (reduceRemoveThread st ws tid) tid = None
   \<and> threadStatusById (reduceRemoveThread st ws tid) tid = None
   \<and> activeTurnIdByThread (reduceRemoveThread st ws tid) tid = None
   \<and> turnDiffByThread (reduceRemoveThread st ws tid) tid = None
   \<and> planByThread (reduceRemoveThread st ws tid) tid = None
   \<and> fmlookup (threadParentById (reduceRemoveThread st ws tid)) tid = None
   \<and> tokenUsageByThread (reduceRemoveThread st ws tid) = tokenUsageByThread st
   \<and> lastAgentMessageByThread (reduceRemoveThread st ws tid) = lastAgentMessageByThread st
   \<and> threadResumeLoadingById (reduceRemoveThread st ws tid) = threadResumeLoadingById st"
  using next_active_other [of st ws tid "threads_of st ws"]
  by (auto simp: reduceRemoveThread_def Let_def threads_of_def active_of_def)

text \<open>The messages of a conversation never overwrite a name the user chose: after an agent
  delta, a completed agent message or an inserted item every thread of the list is one of the
  list before with the same name, or the thread concerned, whose name looked auto-generated and
  is now at most 38 characters and an ellipsis.\<close>

theorem messages_keep_custom_names:
  "only_auto_renamed tid (threads_of st w) (threads_of (threadReducer now st (AppendAgentDelta ws tid i d c)) w)
   \<and> only_auto_renamed tid (threads_of st w) (threads_of (threadReducer now st (CompleteAgentMessage ws tid i t c)) w)
   \<and> only_auto_renamed tid (threads_of st w) (threads_of (threadReducer now st (UpsertItem ws tid item c')) w)"
  by (simp add: item_actions_rename)

text \<open>C10: over any sequence of events each of the three queues of pending requests (approvals,
  questions, tool calls) holds exactly the requests that were added and not removed since: as a set
  of keys it is the fold of insertions and removals, and no key is in it twice.\<close>

theorem request_queues_refine_sets:
  "let st = foldl (threadReducer now) initialState as in
     approval_key ` set (approvals st) = approval_queue.run_keys (concat (map approval_ops as)) {}
     \<and> user_input_key ` set (userInputRequests st)
         = user_input_queue.run_keys (concat (map user_input_ops as)) {}
     \<and> tool_call_key ` set (toolCallRequests st)
         = tool_call_queue.run_keys (concat (map tool_call_ops as)) {}
     \<and> distinct (map approval_key (approvals st))
     \<and> distinct (map user_input_key (userInputRequests st))
     \<and> distinct (map tool_call_key (toolCallRequests st))"
  unfolding Let_def queues_run
  by (intro conjI) (simp_all add: request_queue_facts initialState_def)

end
