(* ===== verification/AutoDriveTypes.thy ===== *)
theory AutoDriveTypes
  imports JsString Complex_Main
begin

text \<open>
  The data of AutoDrive, the autonomous run controller:
  \<^verbatim>\<open>apps/code/src/application/runtime/types/autoDrive.ts\<close>.  Nested object types are records of
  their own; a literal-union type is a datatype; \<open>T | null\<close> and optional fields are options.  Left
  out are the \<open>schemaVersion\<close> fields (one possible value each) and the four \<open>runtime*\<close> fields of
  a run, which the modelled code copies and never reads.  Numbers are integers; percentages are
  the integers that the code rounds them to.  Of a task, which the runtime host defines, the
  fields that the controller reads are kept; the match score of a publish corridor is a fraction.
\<close>

section \<open>Destination, budget, policy\<close>

datatype level = Low | Medium | High

type_synonym confidence = level
type_synonym risk_level = level

definition rank :: "level \<Rightarrow> nat" where
  "rank l = (case l of Low \<Rightarrow> 0 | Medium \<Rightarrow> 1 | High \<Rightarrow> 2)"

instantiation level :: linorder
begin

definition less_eq_level :: "level \<Rightarrow> level \<Rightarrow> bool" where
  "less_eq_level a b = (rank a \<le> rank b)"

definition less_level :: "level \<Rightarrow> level \<Rightarrow> bool" where
  "less_level a b = (rank a < rank b)"

instance
proof
  fix x y z :: level
  show "(x < y) = (x \<le> y \<and> \<not> y \<le> x)" by (auto simp: less_level_def less_eq_level_def)
  show "x \<le> x" by (simp add: less_eq_level_def)
  show "x \<le> y \<Longrightarrow> y \<le> z \<Longrightarrow> x \<le> z" by (simp add: less_eq_level_def)
  show "x \<le> y \<Longrightarrow> y \<le> x \<Longrightarrow> x = y"
    by (cases x; cases y) (simp_all add: less_eq_level_def rank_def)
  show "x \<le> y \<or> y \<le> x" by (auto simp: less_eq_level_def)
qed

end

datatype run_stage =
    StCreated | StPreparingContext | StPlanningNextTask | StExecutingTask | StValidatingResult
  | StDecidingNextStep | StPaused | StCompleted | StStopped | StFailed

datatype run_status = RunCreated | RunRunning | RunPaused | RunCompleted | RunStopped | RunFailed

datatype route_preference =
  StabilityFirst | MinimalChange | ValidationFirst | DocsFirst | SpeedFirst

datatype stop_action = ActContinue | ActReroute | ActPause | ActStop

datatype waypoint_status = WpPending | WpActive | WpArrived | WpMissed | WpBlocked

record done_definition =
  dd_arrivalCriteria :: "string list"
  dd_requiredValidation :: "string list"
  dd_waypointIndicators :: "string list"

record destination_model =
  ds_title :: string
  ds_desiredEndState :: "string list"
  ds_doneDefinition :: done_definition
  ds_hardBoundaries :: "string list"
  ds_routePreference :: route_preference

record drive_budget =
  maxTokens :: int
  maxIterations :: int
  maxDurationMs :: "int option"
  maxFilesPerIteration :: "int option"
  maxNoProgressIterations :: int
  maxValidationFailures :: int
  maxReroutes :: int

record risk_policy =
  pauseOnDestructiveChange :: bool
  pauseOnDependencyChange :: bool
  pauseOnLowConfidence :: bool
  pauseOnHumanCheckpoint :: bool
  allowNetworkAnalysis :: bool
  allowValidationCommands :: bool
  minimumConfidence :: confidence

datatype access_mode = ReadOnly | OnRequest | FullAccess

record execution_config =
  xc_accessMode :: access_mode
  xc_modelId :: "string option"
  xc_reasoningEffort :: "string option"

record run_totals =
  consumedTokensEstimate :: int
  elapsedMs :: int
  validationFailureCount :: int
  noProgressCount :: int
  repeatedFailureCount :: int
  rerouteCount :: int

datatype stop_code =
    GoalReached | TokenBudgetExhausted | MaxIterationsReached | RepeatedValidationFailures
  | NoMeaningfulProgress | DestructiveChangeRequiresReview | DependencyChangeRequiresReview
  | ConfidenceTooLow | MissingHumanInput | HumanCheckpointRequired
  | MainlineConflictRequiresReview | ManualStop | ProposalRejected | ExecutionFailed
  | DurationBudgetExhausted | RerouteLimitReached | UnsafeRouteRequiresReview

record stop_reason =
  sr_code :: stop_code
  sr_detail :: string

section \<open>Tasks and validation\<close>

datatype task_status =
    TaskQueued | TaskRunning | TaskPaused | TaskAwaitingApproval | TaskCompleted | TaskFailed
  | TaskCancelled | TaskInterrupted | TaskMissing

record task_step =
  step_output :: "string option"

record agent_task =
  tk_taskId :: string
  tk_title :: "string option"
  tk_status :: task_status
  tk_errorMessage :: "string option"
  tk_steps :: "task_step list"

record task_reference =
  tr_taskId :: string
  tr_status :: task_status
  tr_outputExcerpt :: string

record validation_result =
  vr_ran :: bool
  vr_commands :: "string list"
  vr_success :: "bool option"
  vr_failures :: "string list"
  vr_summary :: string

section \<open>Context of an iteration\<close>

record rule_evidence =
  re_path :: string
  re_summary :: string

record commit_evidence =
  ce_sha :: string
  ce_summary :: string
  ce_author :: string
  ce_timestamp :: int
  ce_touchedPaths :: "string list"

record collaborator_intent =
  ci_recentDirection :: string
  ci_touchedAreas :: "string list"
  ci_boundarySignals :: "rule_evidence list"
  ci_probableIntent :: string
  ci_conflictRisk :: risk_level
  ci_confidence :: confidence

record research_entry =
  rx_query :: string
  rx_summary :: string
  rx_sources :: "string list"

record repo_evaluation =
  ev_representativeCommands :: "string list"
  ev_componentCommands :: "string list"
  ev_endToEndCommands :: "string list"
  ev_samplePaths :: "string list"
  ev_heldOutGuidance :: "string list"
  ev_sourceSignals :: "string list"
  ev_scenarioKeys :: "string list"

datatype intent_signal_kind =
    SigOperatorIntent | SigPreviousSummary | SigCollaboratorIntent | SigRepoRule
  | SigExternalResearch | SigRepoBacklog | SigThreadHistory | SigThreadMemory | SigBlocker

record intent_signal =
  is_kind :: intent_signal_kind
  is_summary :: string
  is_source :: "string option"
  is_confidence :: confidence

record direction_hypothesis =
  dh_summary :: string
  dh_rationale :: string
  dh_suggestedAreas :: "string list"
  dh_confidence :: confidence
  dh_dominantSignalKinds :: "intent_signal_kind list"

record intent_model =
  im_summary :: string
  im_signals :: "intent_signal list"
  im_directionHypotheses :: "direction_hypothesis list"

record score_reason =
  sc_reasonCode :: string
  sc_label :: string
  sc_delta :: int

record opportunity_candidate =
  oc_id :: string
  oc_title :: string
  oc_summary :: string
  oc_rationale :: string
  oc_repoAreas :: "string list"
  oc_score :: int
  oc_confidence :: confidence
  oc_risk :: risk_level
  oc_scoreBreakdown :: "score_reason list option"
  oc_selectionTags :: "string list option"

record opportunity_queue =
  oq_selectedCandidateId :: "string option"
  oq_selectionSummary :: "string option"
  oq_candidates :: "opportunity_candidate list"

datatype publish_mode = Hold | BranchOnly | PushCandidate

datatype publish_reason_code =
    DirtyWorkingTree | BehindRemote | MissingRemote | ActiveBlockers | ValidationIncomplete
  | RouteRiskHigh

record publish_readiness =
  pr_allowed :: bool
  pr_recommendedMode :: publish_mode
  pr_summary :: string
  pr_reasonCodes :: "publish_reason_code list"

datatype publish_status = PubCompleted | PubFailed | PubSkipped

record publish_outcome =
  po_mode :: publish_mode
  po_status :: publish_status
  po_summary :: string
  po_commitMessage :: "string option"
  po_branchName :: "string option"
  po_restoreBranch :: "string option"
  po_pushed :: bool
  po_operatorActions :: "string list option"
  po_createdAt :: int

record repo_backlog =
  bl_openIssues :: "int option"
  bl_openPullRequests :: "int option"
  bl_highlights :: "string list"

record thread_context =
  tc_threadId :: string
  tc_snapshotUpdatedAt :: "int option"
  tc_recentUserPrompts :: "string list"
  tc_recentAssistantReplies :: "string list"
  tc_longTermMemorySummary :: "string option"
  tc_longTermMemoryUpdatedAt :: "int option"
  tc_summary :: "string option"

datatype execution_provider = OpenAI | Anthropic | Google | LocalProvider | UnknownProvider

datatype research_strategy = ResearchDisabled | SearchOnly | SearchContent

record research_policy =
  rp_provider :: execution_provider
  rp_enabled :: bool
  rp_strategy :: research_strategy
  rp_fetchPageContent :: bool
  rp_query :: "string option"
  rp_recencyDays :: "int option"
  rp_reasonCodes :: "string list"

datatype validation_preference = ValFast | ValFull
datatype publish_priority = PrioNone | PrioPrepareBranch | PrioPushCandidate
datatype caution_level = CautionNormal | CautionElevated | CautionHigh

record execution_tuning =
  et_summary :: string
  et_reasons :: "string list"
  et_effectiveMaxFilesPerIteration :: int
  et_validationCommandPreference :: validation_preference
  et_publishPriority :: publish_priority
  et_cautionLevel :: caution_level

record publish_corridor =
  hc_runId :: string
  hc_destinationTitle :: string
  hc_summaryText :: string
  hc_changedFiles :: "string list"
  hc_validationCommands :: "string list"
  hc_validationSummary :: string
  hc_createdAt :: int
  hc_matchScore :: rat

record publish_history =
  ph_bestCorridor :: "publish_corridor option"
  ph_latestFailureSummary :: "string option"

record route_health =
  rh_offRoute :: bool
  rh_noProgressLoop :: bool
  rh_rerouteRecommended :: bool
  rh_rerouteReason :: "string option"
  rh_triggerSignals :: "string list"

record progress_model =
  pg_currentMilestone :: "string option"
  pg_currentWaypointTitle :: "string option"
  pg_completedWaypoints :: int
  pg_totalWaypoints :: int
  pg_waypointCompletion :: int
  pg_overallProgress :: int
  pg_remainingMilestones :: "string list"
  pg_remainingBlockers :: "string list"
  pg_remainingDistance :: string
  pg_arrivalConfidence :: confidence
  pg_stopRisk :: risk_level

record start_repo =
  sr_branch :: "string option"
  sr_dirtyWorkingTree :: bool
  sr_recentCommits :: "string list"
  sr_touchedAreas :: "string list"
  sr_changedPaths :: "string list"
  sr_unresolvedBlockers :: "string list"

record start_task =
  st_completedSubgoals :: "string list"
  st_pendingMilestones :: "string list"
  st_confidence :: confidence
  st_risk :: risk_level
  st_currentBlocker :: "string option"

record start_system =
  sy_consumedTokensEstimate :: int
  sy_remainingTokensEstimate :: "int option"
  sy_iterationsUsed :: int
  sy_remainingIterations :: int
  sy_elapsedMs :: int
  sy_remainingDurationMs :: "int option"
  sy_validationFailureCount :: int
  sy_noProgressCount :: int
  sy_repeatedFailureCount :: int
  sy_rerouteCount :: int
  sy_stopRisk :: risk_level

record start_state =
  ss_summary :: string
  ss_repo :: start_repo
  ss_task :: start_task
  ss_system :: start_system
  ss_routeHealth :: route_health

section \<open>Results of an iteration\<close>

datatype reroute_mode = RerouteSoft | RerouteHard

record reroute_record =
  rr_iteration :: int
  rr_mode :: reroute_mode
  rr_reason :: string
  rr_trigger :: string
  rr_previousRouteSummary :: "string option"
  rr_nextRouteSummary :: "string option"
  rr_createdAt :: int

record waypoint_result =
  wr_id :: string
  wr_title :: string
  wr_status :: waypoint_status
  wr_arrivalCriteriaMet :: "string list"
  wr_arrivalCriteriaMissed :: "string list"

datatype summary_status = SumSuccess | SumFailed | SumPaused

record iteration_summary =
  su_runId :: string
  su_iteration :: int
  su_status :: summary_status
  su_taskTitle :: string
  su_summaryText :: string
  su_changedFiles :: "string list"
  su_blockers :: "string list"
  su_completedSubgoals :: "string list"
  su_unresolvedItems :: "string list"
  su_suggestedNextAreas :: "string list"
  su_validation :: validation_result
  su_progress :: progress_model
  su_routeHealth :: route_health
  su_waypoint :: waypoint_result
  su_goalReached :: bool
  su_task :: task_reference
  su_reroute :: "reroute_record option"
  su_publish :: "publish_outcome option"
  su_createdAt :: int

section \<open>The context snapshot\<close>

text \<open>The scripts of a package are a dictionary: \<open>scripts ''validate''\<close> is \<open>scripts.validate\<close>.\<close>

record repo_context =
  rc_packageManager :: "string option"
  rc_workspaceMarkers :: "string list"
  rc_scripts :: "string js_record"
  rc_evaluation :: "repo_evaluation option"
  rc_ruleEvidence :: "rule_evidence list"
  rc_relevantDocs :: "rule_evidence list"
  rc_relevantFiles :: "string list"

record working_tree =
  wt_dirty :: bool
  wt_stagedCount :: int
  wt_unstagedCount :: int
  wt_changedPaths :: "string list"
  wt_totalAdditions :: int
  wt_totalDeletions :: int

record git_context =
  gc_branch :: "string option"
  gc_remote :: "string option"
  gc_upstream :: "string option"
  gc_ahead :: int
  gc_behind :: int
  gc_recentCommits :: "commit_evidence list"
  gc_workingTree :: working_tree

record context_snapshot =
  cx_runId :: string
  cx_iteration :: int
  cx_destination :: destination_model
  cx_startState :: start_state
  cx_repo :: repo_context
  cx_git :: git_context
  cx_collaboratorIntent :: collaborator_intent
  cx_intent :: intent_model
  cx_opportunities :: opportunity_queue
  cx_executionTuning :: execution_tuning
  cx_publishReadiness :: publish_readiness
  cx_publishHistory :: publish_history
  cx_repoBacklog :: repo_backlog
  cx_threadContext :: "thread_context option"
  cx_previousSummary :: "iteration_summary option"
  cx_blockers :: "string list"
  cx_completedSubgoals :: "string list"
  cx_externalResearch :: "research_entry list"
  cx_researchPolicy :: "research_policy option"
  cx_synthesizedAt :: int

section \<open>Proposals\<close>

datatype evidence_kind =
    EvDestination | EvIntentSignal | EvDirectionHypothesis | EvRepoRule | EvDoc | EvGit | EvSummary
  | EvCollaboratorIntent | EvExternal | EvEvaluation

record route_evidence =
  rv_kind :: evidence_kind
  rv_detail :: string
  rv_source :: "string option"

datatype milestone_status = MsCompleted | MsActive | MsRemaining | MsBlocked

record route_milestone =
  ml_id :: string
  ml_title :: string
  ml_description :: string
  ml_status :: milestone_status
  ml_arrivalCriteria :: "string list"
  ml_repoAreas :: "string list"

record estimated_cost =
  co_tokens :: int
  co_iterations :: int
  co_durationMs :: "int option"
  co_risk :: risk_level

record waypoint_proposal =
  wp_id :: string
  wp_title :: string
  wp_objective :: string
  wp_whyNow :: string
  wp_repoAreas :: "string list"
  wp_commandsToRun :: "string list"
  wp_validationPlan :: "string list"
  wp_samplePaths :: "string list"
  wp_heldOutGuidance :: "string list"
  wp_scenarioKeys :: "string list"
  wp_arrivalCriteria :: "string list"
  wp_stopIf :: "string list"
  wp_rerouteTriggers :: "string list"
  wp_expectedOutput :: "string list"
  wp_estimatedCost :: estimated_cost
  wp_confidence :: confidence

record route_proposal =
  pp_runId :: string
  pp_iteration :: int
  pp_routeSummary :: string
  pp_routeSelectionReason :: string
  pp_whyThisWaypointNow :: string
  pp_evidence :: "route_evidence list"
  pp_evidenceSummary :: string
  pp_collaboratorIntentSummary :: string
  pp_milestones :: "route_milestone list"
  pp_currentWaypoint :: waypoint_proposal
  pp_remainingMilestones :: "string list"
  pp_routeConfidence :: confidence
  pp_promptText :: string

datatype issue_code =
    ScopeTooLarge | MissingValidation | ProposalDrift | DesktopWebMixup | LowEvidenceInference
  | ProtectedBoundaryConflict | RouteBudgetPressure | RerouteRequired

record review_issue =
  ri_code :: issue_code
  ri_detail :: string

record proposal_review =
  rw_approved :: bool
  rw_issues :: "review_issue list"
  rw_confidence :: confidence
  rw_shouldReroute :: bool
  rw_rerouteReason :: "string option"

section \<open>The run\<close>

record navigation_state =
  nv_destinationSummary :: string
  nv_startStateSummary :: "string option"
  nv_routeSummary :: "string option"
  nv_currentWaypointTitle :: "string option"
  nv_currentWaypointObjective :: "string option"
  nv_currentWaypointArrivalCriteria :: "string list"
  nv_waypointStatus :: "waypoint_status option"
  nv_remainingMilestones :: "string list"
  nv_currentMilestone :: "string option"
  nv_overallProgress :: int
  nv_waypointCompletion :: int
  nv_offRoute :: bool
  nv_rerouting :: bool
  nv_rerouteReason :: "string option"
  nv_remainingBlockers :: "string list"
  nv_arrivalConfidence :: confidence
  nv_stopRisk :: risk_level
  nv_remainingTokens :: "int option"
  nv_remainingIterations :: int
  nv_remainingDurationMs :: "int option"
  nv_lastDecision :: "string option"

record run_record =
  rn_runId :: string
  rn_workspaceId :: string
  rn_workspacePath :: string
  rn_threadId :: "string option"
  rn_status :: run_status
  rn_stage :: run_stage
  rn_destination :: destination_model
  rn_budget :: drive_budget
  rn_riskPolicy :: risk_policy
  rn_execution :: "execution_config option"
  rn_iteration :: int
  rn_totals :: run_totals
  rn_blockers :: "string list"
  rn_completedSubgoals :: "string list"
  rn_summaries :: "iteration_summary list"
  rn_navigation :: navigation_state
  rn_createdAt :: int
  rn_updatedAt :: int
  rn_startedAt :: "int option"
  rn_completedAt :: "int option"
  rn_lastStopReason :: "stop_reason option"
  rn_sessionId :: "string option"
  rn_lastValidationSummary :: "string option"
  rn_currentBlocker :: "string option"
  rn_latestReroute :: "reroute_record option"
  rn_latestPublishOutcome :: "publish_outcome option"

record next_decision =
  nd_action :: stop_action
  nd_reason :: "stop_reason option"
  nd_reroute :: "reroute_record option"

section \<open>Lemmas on levels\<close>

lemma level_le_simps [simp]:
  "Low \<le> l" "l \<le> High" "Medium \<le> Low \<longleftrightarrow> False" "High \<le> Low \<longleftrightarrow> False" "High \<le> Medium \<longleftrightarrow> False"
  "Medium \<le> Medium"
  by (cases l; simp add: less_eq_level_def rank_def)+

lemma max_level [simp]: "max Low l = l" "max l Low = l" "max High l = High" "max l High = High"
  by (cases l; simp add: max_def less_eq_level_def rank_def)+

end
