(* ===== verification/ControllerMonad.thy ===== *)
theory ControllerMonad
  imports AutoDriveTypes
begin

text \<open>
  The state and the outside world of the AutoDrive controller, the class
  \<open>AutoDriveRunController\<close> of \<^verbatim>\<open>apps/code/src/application/runtime/facades/runtimeAutoDriveController.ts\<close>.

  A method is a function from the controller to a result and the controller after it (\<open>'a ctl\<close>); a
  result is \<open>Inl message\<close> when the method throws.  The injected dependencies (the runtime host, git,
  the ledger, the context synthesiser, the clock) are a parameter, \<open>env\<close>: for every call, numbered
  by the controller's \<open>ct_clock\<close>, it says whether the call throws and what it returns.  Calls are
  recorded in \<open>ct_trace\<close>, oldest first, with their success.

  The methods \<open>pause\<close> and \<open>stop\<close> may run while the loop awaits a call: \<open>en_operator\<close> says which
  request arrives during which call.  Listeners are not modelled: their exceptions are caught and
  they cannot change the controller.
\<close>

section \<open>State and environment\<close>

datatype ctl_event =
    WriteRun run_record
  | WriteContext context_snapshot
  | WriteProposal route_proposal
  | WriteSummary iteration_summary
  | WriteReroute string int reroute_record
  | WriteFinalReport run_record "iteration_summary option"
  | SynthesizeContext int
  | SpawnSession execution_config
  | InterruptSession string string
  | CloseSession string string
  | SendInstruction string string string
  | WaitSession string
  | RunSkill string
  | GenerateCommitMessage
  | StageAll
  | CommitGit string
  | CreateBranch string
  | CheckoutBranch string
  | PushGit

datatype operator_request = RequestPause | RequestStop

record controller =
  ct_run :: run_record
  ct_running :: bool
  ct_pauseRequested :: bool
  ct_stopReason :: "stop_reason option"
  ct_sessionExecution :: "execution_config option"
  ct_clock :: nat
  ct_trace :: "(ctl_event \<times> bool) list"

text \<open>
  \<open>en_fails n ev\<close> is the message of the exception of call \<open>n\<close>, if it throws; the other functions
  give what the call returns.  The three flags say whether the optional dependencies are there.
\<close>

record env =
  en_now :: "nat \<Rightarrow> int"
  en_operator :: "nat \<Rightarrow> operator_request option"
  en_fails :: "nat \<Rightarrow> ctl_event \<Rightarrow> string option"
  en_context :: "nat \<Rightarrow> run_record \<Rightarrow> context_snapshot"
  en_session :: "nat \<Rightarrow> string"
  en_wait :: "nat \<Rightarrow> agent_task option \<times> bool"
  en_exitCode :: "nat \<Rightarrow> int option"
  en_message :: "nat \<Rightarrow> string"
  en_canCommit :: bool
  en_canGenerate :: bool
  en_canPush :: bool
  en_isoStamp :: "int \<Rightarrow> string"

section \<open>Methods\<close>

type_synonym 'a ctl = "controller \<Rightarrow> (string + 'a) \<times> controller"

definition ret :: "'a \<Rightarrow> 'a ctl" where
  "ret x c = (Inr x, c)"

definition throw :: "string \<Rightarrow> 'a ctl" where
  "throw message c = (Inl message, c)"

definition andThen :: "'a ctl \<Rightarrow> ('a \<Rightarrow> 'b ctl) \<Rightarrow> 'b ctl" where
  "andThen m f c = (case m c of (Inl message, c') \<Rightarrow> (Inl message, c') | (Inr x, c') \<Rightarrow> f x c')"

text \<open>\<open>try { m } catch\<close>, with the exception as a value; it never throws.\<close>

definition attempt :: "'a ctl \<Rightarrow> (string + 'a) ctl" where
  "attempt m c = (case m c of (r, c') \<Rightarrow> (Inr r, c'))"

definition getRun :: "run_record ctl" where
  "getRun c = (Inr (ct_run c), c)"

definition modifyRun :: "(run_record \<Rightarrow> run_record) \<Rightarrow> unit ctl" where
  "modifyRun f c = (Inr (), c\<lparr>ct_run := f (ct_run c)\<rparr>)"

definition getExecution :: "execution_config option ctl" where
  "getExecution c = (Inr (ct_sessionExecution c), c)"

definition setExecution :: "execution_config option \<Rightarrow> unit ctl" where
  "setExecution x c = (Inr (), c\<lparr>ct_sessionExecution := x\<rparr>)"

text \<open>A session id counts as absent when it is null or empty.\<close>

definition session_of :: "run_record \<Rightarrow> string option" where
  "session_of run = (case rn_sessionId run of None \<Rightarrow> None | Some s \<Rightarrow> if s = [] then None else Some s)"

text \<open>The clock is read without awaiting.\<close>

definition defaultNow :: "env \<Rightarrow> int ctl" where
  "defaultNow env c = (Inr (en_now env (ct_clock c)), c\<lparr>ct_clock := Suc (ct_clock c)\<rparr>)"

text \<open>
  What \<open>stop\<close> and \<open>pause\<close> do while the loop is running.  Before it runs, while \<open>start\<close> or \<open>resume\<close> is
  still writing its first version, the code would run the whole of \<open>pause\<close> or \<open>stop\<close> between the steps
  of that method; these interleavings are not modelled, and \<open>deliver\<close> ignores a request that arrives then.
\<close>

definition manual_stop :: stop_reason where
  "manual_stop = \<lparr>sr_code = ManualStop, sr_detail = ''The user stopped the AutoDrive run.''\<rparr>"

definition operator_pause :: stop_reason where
  "operator_pause = \<lparr>sr_code = MissingHumanInput, sr_detail = ''AutoDrive was paused by the operator.''\<rparr>"

definition interrupted :: "string \<Rightarrow> controller \<Rightarrow> controller" where
  "interrupted reason c =
     (case session_of (ct_run c) of None \<Rightarrow> c
      | Some s \<Rightarrow> c\<lparr>ct_trace := ct_trace c @ [(InterruptSession s reason, True)]\<rparr>)"

fun deliver :: "operator_request option \<Rightarrow> controller \<Rightarrow> controller" where
  "deliver None c = c"
| "deliver (Some RequestPause) c =
     (if ct_running c then interrupted ''pause_requested'' (c\<lparr>ct_pauseRequested := True\<rparr>) else c)"
| "deliver (Some RequestStop) c =
     (if ct_running c then interrupted ''manual_stop'' (c\<lparr>ct_stopReason := Some manual_stop\<rparr>) else c)"

text \<open>Awaiting a call.\<close>

definition call :: "env \<Rightarrow> ctl_event \<Rightarrow> unit ctl" where
  "call env ev c =
     (let failure = en_fails env (ct_clock c) ev;
          c' = deliver (en_operator env (ct_clock c))
            (c\<lparr>ct_clock := Suc (ct_clock c), ct_trace := ct_trace c @ [(ev, failure = None)]\<rparr>)
      in (case failure of None \<Rightarrow> Inr () | Some message \<Rightarrow> Inl message, c'))"

definition ask :: "env \<Rightarrow> ctl_event \<Rightarrow> (nat \<Rightarrow> 'a) \<Rightarrow> 'a ctl" where
  "ask env ev answer c = andThen (call env ev) (\<lambda>_. ret (answer (ct_clock c))) c"

section \<open>Reasoning about methods\<close>

text \<open>
  \<open>holds P m Q E\<close>: started in a controller with \<open>P\<close>, the method returns a value with \<open>Q\<close>, or throws
  leaving a controller with \<open>E\<close>.
\<close>

definition holds :: "(controller \<Rightarrow> bool) \<Rightarrow> 'a ctl \<Rightarrow> ('a \<Rightarrow> controller \<Rightarrow> bool) \<Rightarrow>
    (controller \<Rightarrow> bool) \<Rightarrow> bool" where
  "holds P m Q E \<longleftrightarrow>
     (\<forall>c. P c \<longrightarrow> (case m c of (Inl message, c') \<Rightarrow> E c' | (Inr x, c') \<Rightarrow> Q x c'))"

lemma holdsD:
  "holds P m Q E \<Longrightarrow> P c \<Longrightarrow> m c = (Inr x, c') \<Longrightarrow> Q x c'"
  "holds P m Q E \<Longrightarrow> P c \<Longrightarrow> m c = (Inl message, c') \<Longrightarrow> E c'"
  by (force simp: holds_def)+

lemma holds_weaken:
  "holds P m Q E \<Longrightarrow> (\<And>c. P' c \<Longrightarrow> P c) \<Longrightarrow> (\<And>x c. Q x c \<Longrightarrow> Q' x c) \<Longrightarrow> (\<And>c. E c \<Longrightarrow> E' c)
    \<Longrightarrow> holds P' m Q' E'"
  unfolding holds_def by (fastforce split: sum.splits prod.splits)

lemma holds_ret: "(\<And>c. P c \<Longrightarrow> Q x c) \<Longrightarrow> holds P (ret x) Q E"
  by (simp add: holds_def ret_def)

lemma holds_throw: "(\<And>c. P c \<Longrightarrow> E c) \<Longrightarrow> holds P (throw message) Q E"
  by (simp add: holds_def throw_def)

lemma holds_andThen:
  assumes "holds P m R E" "\<And>x. holds (R x) (f x) Q E"
  shows "holds P (andThen m f) Q E"
  unfolding holds_def
proof (intro allI impI)
  fix c assume c: "P c"
  obtain r c' where m: "m c = (r, c')" by (cases "m c")
  show "case andThen m f c of (Inl message, c') \<Rightarrow> E c' | (Inr x, c') \<Rightarrow> Q x c'"
  proof (cases r)
    case (Inl message)
    with m holdsD(2) [OF assms(1) c] show ?thesis by (simp add: andThen_def)
  next
    case (Inr x)
    with m holdsD(1) [OF assms(1) c] have "R x c'" by simp
    with assms(2) [of x] m Inr show ?thesis by (simp add: holds_def andThen_def)
  qed
qed

lemma holds_attempt:
  "holds P m (\<lambda>x. Q (Inr x)) (\<lambda>c. \<forall>message. Q (Inl message) c) \<Longrightarrow> holds P (attempt m) Q E"
  unfolding holds_def attempt_def
proof (intro allI impI)
  fix c
  assume "\<forall>c. P c \<longrightarrow> (case m c of (Inl message, c') \<Rightarrow> \<forall>message. Q (Inl message) c' | (Inr x, c') \<Rightarrow> Q (Inr x) c')"
    and "P c"
  then show "case case m c of (r, c') \<Rightarrow> (Inr r, c') of (Inl message, c') \<Rightarrow> E c' | (Inr x, c') \<Rightarrow> Q x c'"
    by (cases "m c"; cases "fst (m c)") fastforce+
qed

lemma holds_getRun: "(\<And>c. P c \<Longrightarrow> Q (ct_run c) c) \<Longrightarrow> holds P getRun Q E"
  by (simp add: holds_def getRun_def)

lemma holds_modifyRun: "(\<And>c. P c \<Longrightarrow> Q () (c\<lparr>ct_run := f (ct_run c)\<rparr>)) \<Longrightarrow> holds P (modifyRun f) Q E"
  by (simp add: holds_def modifyRun_def)

lemma holds_getExecution: "(\<And>c. P c \<Longrightarrow> Q (ct_sessionExecution c) c) \<Longrightarrow> holds P getExecution Q E"
  by (simp add: holds_def getExecution_def)

lemma holds_setExecution: "(\<And>c. P c \<Longrightarrow> Q () (c\<lparr>ct_sessionExecution := x\<rparr>)) \<Longrightarrow> holds P (setExecution x) Q E"
  by (simp add: holds_def setExecution_def)

lemma holds_if:
  "(b \<Longrightarrow> holds P m Q E) \<Longrightarrow> (\<not> b \<Longrightarrow> holds P n Q E) \<Longrightarrow> holds P (if b then m else n) Q E"
  by simp

lemma holds_case_option:
  "(o' = None \<Longrightarrow> holds P m Q E) \<Longrightarrow> (\<And>x. o' = Some x \<Longrightarrow> holds P (n x) Q E)
    \<Longrightarrow> holds P (case o' of None \<Rightarrow> m | Some x \<Rightarrow> n x) Q E"
  by (cases o') simp_all

lemma holds_case_sum:
  "(\<And>x. r = Inl x \<Longrightarrow> holds P (m x) Q E) \<Longrightarrow> (\<And>x. r = Inr x \<Longrightarrow> holds P (n x) Q E)
    \<Longrightarrow> holds P (case r of Inl x \<Rightarrow> m x | Inr x \<Rightarrow> n x) Q E"
  by (cases r) simp_all

lemma deliver_run [simp]:
  "ct_run (deliver r c) = ct_run c" "ct_running (deliver r c) = ct_running c"
  "ct_sessionExecution (deliver r c) = ct_sessionExecution c" "ct_clock (deliver r c) = ct_clock c"
  by (cases "(r, c)" rule: deliver.cases; auto simp: interrupted_def split: option.splits)+

text \<open>A call changes the clock, the trace and the operator's two requests only.\<close>

definition ignores_calls :: "(controller \<Rightarrow> bool) \<Rightarrow> bool" where
  "ignores_calls P \<longleftrightarrow>
     (\<forall>c c'. ct_run c' = ct_run c \<longrightarrow> ct_running c' = ct_running c
        \<longrightarrow> ct_sessionExecution c' = ct_sessionExecution c \<longrightarrow> P c \<longrightarrow> P c')"

lemma holds_call_ignored: "ignores_calls P \<Longrightarrow> holds P (call env ev) (\<lambda>_. P) P"
  unfolding holds_def ignores_calls_def call_def Let_def
  by (auto split: option.splits)

lemma holds_ask_ignored: "ignores_calls P \<Longrightarrow> holds P (ask env ev answer) (\<lambda>_. P) P"
  using holds_call_ignored [of P env ev] unfolding holds_def ask_def andThen_def ret_def
  by (auto split: prod.splits sum.splits)

lemma holds_now_ignored: "ignores_calls P \<Longrightarrow> holds P (defaultNow env) (\<lambda>_. P) P"
  unfolding holds_def ignores_calls_def defaultNow_def by simp

end
