(* ===== verification/AutoDriveExamples.thy ===== *)
theory AutoDriveExamples
  imports AutoDriveTypes
begin

text \<open>
  A small run, a summary of one of its iterations, a context and a proposal: the concrete
  inputs at which the properties of the AutoDrive components are instantiated.
\<close>

definition example_destination :: destination_model where
  "example_destination =
     \<lparr>ds_title = ''Ship the panel'', ds_desiredEndState = [''Panel is live''],
      ds_doneDefinition = \<lparr>dd_arrivalCriteria = [''Panel renders''], dd_requiredValidation = [],
        dd_waypointIndicators = []\<rparr>,
      ds_hardBoundaries = [], ds_routePreference = StabilityFirst\<rparr>"

definition example_navigation :: navigation_state where
  "example_navigation =
     \<lparr>nv_destinationSummary = ''Ship the panel'', nv_startStateSummary = None, nv_routeSummary = None,
      nv_currentWaypointTitle = None, nv_currentWaypointObjective = None,
      nv_currentWaypointArrivalCriteria = [], nv_waypointStatus = None, nv_remainingMilestones = [],
      nv_currentMilestone = None, nv_overallProgress = 0, nv_waypointCompletion = 0,
      nv_offRoute = False, nv_rerouting = False, nv_rerouteReason = None, nv_remainingBlockers = [],
      nv_arrivalConfidence = Medium, nv_stopRisk = Low, nv_remainingTokens = None,
      nv_remainingIterations = 3, nv_remainingDurationMs = None, nv_lastDecision = None\<rparr>"

definition example_totals :: run_totals where
  "example_totals =
     \<lparr>consumedTokensEstimate = 0, elapsedMs = 0, validationFailureCount = 0, noProgressCount = 0,
      repeatedFailureCount = 0, rerouteCount = 0\<rparr>"

definition example_run :: run_record where
  "example_run =
     \<lparr>rn_runId = ''run-1'', rn_workspaceId = ''ws'', rn_workspacePath = ''/ws'', rn_threadId = None,
      rn_status = RunRunning, rn_stage = StPreparingContext, rn_destination = example_destination,
      rn_budget = \<lparr>maxTokens = 4000, maxIterations = 3, maxDurationMs = None,
        maxFilesPerIteration = Some 4, maxNoProgressIterations = 2, maxValidationFailures = 2,
        maxReroutes = 2\<rparr>,
      rn_riskPolicy = \<lparr>pauseOnDestructiveChange = True, pauseOnDependencyChange = True,
        pauseOnLowConfidence = True, pauseOnHumanCheckpoint = True, allowNetworkAnalysis = False,
        allowValidationCommands = True, minimumConfidence = Medium\<rparr>,
      rn_execution = None, rn_iteration = 1, rn_totals = example_totals, rn_blockers = [],
      rn_completedSubgoals = [], rn_summaries = [], rn_navigation = example_navigation,
      rn_createdAt = 0, rn_updatedAt = 0, rn_startedAt = None, rn_completedAt = None,
      rn_lastStopReason = None, rn_sessionId = None, rn_lastValidationSummary = None,
      rn_currentBlocker = None, rn_latestReroute = None, rn_latestPublishOutcome = None\<rparr>"

definition example_health :: route_health where
  "example_health =
     \<lparr>rh_offRoute = False, rh_noProgressLoop = False, rh_rerouteRecommended = False,
      rh_rerouteReason = None, rh_triggerSignals = []\<rparr>"

definition example_summary :: iteration_summary where
  "example_summary =
     \<lparr>su_runId = ''run-1'', su_iteration = 1, su_status = SumSuccess, su_taskTitle = ''Baseline'',
      su_summaryText = ''Outcome: done'', su_changedFiles = [], su_blockers = [],
      su_completedSubgoals = [], su_unresolvedItems = [], su_suggestedNextAreas = [],
      su_validation = \<lparr>vr_ran = False, vr_commands = [], vr_success = None, vr_failures = [],
        vr_summary = ''Validation was not run.''\<rparr>,
      su_progress = \<lparr>pg_currentMilestone = None, pg_currentWaypointTitle = None,
        pg_completedWaypoints = 1, pg_totalWaypoints = 3, pg_waypointCompletion = 100,
        pg_overallProgress = 33, pg_remainingMilestones = [], pg_remainingBlockers = [],
        pg_remainingDistance = [], pg_arrivalConfidence = Medium, pg_stopRisk = Low\<rparr>,
      su_routeHealth = example_health,
      su_waypoint = \<lparr>wr_id = ''waypoint-1'', wr_title = ''Baseline'', wr_status = WpArrived,
        wr_arrivalCriteriaMet = [], wr_arrivalCriteriaMissed = []\<rparr>,
      su_goalReached = False,
      su_task = \<lparr>tr_taskId = ''t1'', tr_status = TaskCompleted, tr_outputExcerpt = []\<rparr>,
      su_reroute = None, su_publish = None, su_createdAt = 5\<rparr>"

definition example_context :: context_snapshot where
  "example_context =
     \<lparr>cx_runId = ''run-1'', cx_iteration = 2, cx_destination = example_destination,
      cx_startState = \<lparr>ss_summary = ''Clean tree'',
        ss_repo = \<lparr>sr_branch = Some ''main'', sr_dirtyWorkingTree = False, sr_recentCommits = [],
          sr_touchedAreas = [], sr_changedPaths = [], sr_unresolvedBlockers = []\<rparr>,
        ss_task = \<lparr>st_completedSubgoals = [], st_pendingMilestones = [], st_confidence = Medium,
          st_risk = Low, st_currentBlocker = None\<rparr>,
        ss_system = \<lparr>sy_consumedTokensEstimate = 0, sy_remainingTokensEstimate = None,
          sy_iterationsUsed = 1, sy_remainingIterations = 2, sy_elapsedMs = 0,
          sy_remainingDurationMs = None, sy_validationFailureCount = 0, sy_noProgressCount = 0,
          sy_repeatedFailureCount = 0, sy_rerouteCount = 0, sy_stopRisk = Low\<rparr>,
        ss_routeHealth = example_health\<rparr>,
      cx_repo = \<lparr>rc_packageManager = Some ''pnpm'', rc_workspaceMarkers = [],
        rc_scripts = [''validate'' \<mapsto> ''pnpm validate''], rc_evaluation = None, rc_ruleEvidence = [],
        rc_relevantDocs = [], rc_relevantFiles = [''src/panel.ts'', '' src/panel.ts'', ''src/app.ts'']\<rparr>,
      cx_git = \<lparr>gc_branch = Some ''main'', gc_remote = Some ''origin'', gc_upstream = None,
        gc_ahead = 0, gc_behind = 0, gc_recentCommits = [],
        gc_workingTree = \<lparr>wt_dirty = False, wt_stagedCount = 0, wt_unstagedCount = 0,
          wt_changedPaths = [], wt_totalAdditions = 0, wt_totalDeletions = 0\<rparr>\<rparr>,
      cx_collaboratorIntent = \<lparr>ci_recentDirection = [], ci_touchedAreas = [],
        ci_boundarySignals = [], ci_probableIntent = ''unknown'', ci_conflictRisk = Low,
        ci_confidence = Medium\<rparr>,
      cx_intent = \<lparr>im_summary = ''Advance'', im_signals = [], im_directionHypotheses = []\<rparr>,
      cx_opportunities = \<lparr>oq_selectedCandidateId = None, oq_selectionSummary = None, oq_candidates = []\<rparr>,
      cx_executionTuning = \<lparr>et_summary = ''Normal.'', et_reasons = [],
        et_effectiveMaxFilesPerIteration = 3, et_validationCommandPreference = ValFull,
        et_publishPriority = PrioNone, et_cautionLevel = CautionNormal\<rparr>,
      cx_publishReadiness = \<lparr>pr_allowed = True, pr_recommendedMode = BranchOnly,
        pr_summary = ''Ready.'', pr_reasonCodes = []\<rparr>,
      cx_publishHistory = \<lparr>ph_bestCorridor = None, ph_latestFailureSummary = None\<rparr>,
      cx_repoBacklog = \<lparr>bl_openIssues = None, bl_openPullRequests = None, bl_highlights = []\<rparr>,
      cx_threadContext = None, cx_previousSummary = Some example_summary, cx_blockers = [],
      cx_completedSubgoals = [], cx_externalResearch = [], cx_researchPolicy = None, cx_synthesizedAt = 3\<rparr>"

definition example_proposal :: route_proposal where
  "example_proposal =
     \<lparr>pp_runId = ''run-1'', pp_iteration = 2, pp_routeSummary = ''Route'', pp_routeSelectionReason = [],
      pp_whyThisWaypointNow = [], pp_evidence = [], pp_evidenceSummary = [],
      pp_collaboratorIntentSummary = [], pp_milestones = [],
      pp_currentWaypoint = \<lparr>wp_id = ''waypoint-2'', wp_title = ''Advance'', wp_objective = [], wp_whyNow = [],
        wp_repoAreas = [''src/panel.ts''], wp_commandsToRun = [], wp_validationPlan = [''pnpm validate''],
        wp_samplePaths = [], wp_heldOutGuidance = [], wp_scenarioKeys = [], wp_arrivalCriteria = [],
        wp_stopIf = [], wp_rerouteTriggers = [], wp_expectedOutput = [],
        wp_estimatedCost = \<lparr>co_tokens = 400, co_iterations = 1, co_durationMs = None, co_risk = Low\<rparr>,
        wp_confidence = Medium\<rparr>,
      pp_remainingMilestones = [''Validate''], pp_routeConfidence = Medium, pp_promptText = ''Destination: x''\<rparr>"

lemmas example_defs =
  example_destination_def example_navigation_def example_totals_def example_run_def
  example_health_def example_summary_def example_context_def example_proposal_def

end
