(* ===== verification/RegexLanguage.thy ===== *)
theory RegexLanguage
  imports JsString
begin

text \<open>
  What the backtracking matcher of JsString promises.  \<open>matches r m\<close> says that the text \<open>m\<close> belongs
  to the pattern \<open>r\<close>; anchors, look-ahead and back references are left open (they consume nothing,
  or any text).  The matcher is sound for it, and complete for patterns without those four.
\<close>

section \<open>The language of a pattern\<close>

inductive matches :: "re \<Rightarrow> string \<Rightarrow> bool" where
  m_chr: "q c \<Longrightarrow> matches (Chr q) [c]"
| m_eps: "matches Eps []"
| m_seq: "matches a m \<Longrightarrow> matches b n \<Longrightarrow> matches (Sequ a b) (m @ n)"
| m_left: "matches a m \<Longrightarrow> matches (Altn a b) m"
| m_right: "matches b m \<Longrightarrow> matches (Altn a b) m"
| m_star0: "matches (Star a) []"
| m_star: "matches a m \<Longrightarrow> m \<noteq> [] \<Longrightarrow> matches (Star a) n \<Longrightarrow> matches (Star a) (m @ n)"
| m_group: "matches a m \<Longrightarrow> matches (Group n a) m"
| m_back: "matches (BackRef n) m"
| m_bol: "matches Bol []"
| m_eol: "matches Eol []"
| m_look: "matches (LookAhead a) []"

inductive_simps matches_simps [simp]:
  "matches (Chr q) m" "matches Eps m" "matches (Altn a b) m" "matches (Group n a) m"
  "matches Bol m" "matches Eol m" "matches (LookAhead a) m" "matches (BackRef n) m"

inductive_simps matches_Sequ: "matches (Sequ a b) m"
inductive_cases matches_StarE: "matches (Star a) m"

fun plain :: "re \<Rightarrow> bool" where
  "plain (Chr q) = True"
| "plain Eps = True"
| "plain (Sequ a b) = (plain a \<and> plain b)"
| "plain (Altn a b) = (plain a \<and> plain b)"
| "plain (Star a) = plain a"
| "plain (Group n a) = plain a"
| "plain (BackRef n) = False"
| "plain Bol = False"
| "plain Eol = False"
| "plain (LookAhead a) = False"

lemma pos_simps [simp]:
  "pos_rest (a, s, c) = s" "pos_prev (a, s, c) = a" "pos_caps (a, s, c) = c"
  by (simp_all add: pos_rest_def pos_prev_def pos_caps_def)

section \<open>Soundness\<close>

lemma star_iter_sound:
  assumes step: "\<And>p q. q \<in> set (f p) \<Longrightarrow> \<exists>m. pos_rest p = m @ pos_rest q \<and> matches a m"
  shows "q \<in> set (star_iter k f p) \<Longrightarrow> \<exists>m. pos_rest p = m @ pos_rest q \<and> matches (Star a) m"
proof (induction k arbitrary: p)
  case 0
  then show ?case by (auto intro: m_star0)
next
  case (Suc k)
  then consider "q = p"
    | p' where "p' \<in> set (f p)" "length (pos_rest p') < length (pos_rest p)" "q \<in> set (star_iter k f p')"
    by (auto split: if_splits)
  then show ?case
  proof cases
    case 1
    then show ?thesis by (auto intro: m_star0)
  next
    case 2
    from step [OF 2(1)] obtain m where m: "pos_rest p = m @ pos_rest p'" "matches a m" by blast
    from Suc.IH [OF 2(3)] obtain n where n: "pos_rest p' = n @ pos_rest q" "matches (Star a) n" by blast
    have "m \<noteq> []" using m(1) 2(2) by auto
    then have "matches (Star a) (m @ n)" using m n by (intro m_star)
    with m n show ?thesis by auto
  qed
qed

lemma pos_rest_advance: "pos_rest (pos_advance n p) = drop n (pos_rest p)"
  by (simp add: pos_advance_def)

lemma re_steps_sound:
  "q \<in> set (re_steps r p) \<Longrightarrow> \<exists>m. pos_rest p = m @ pos_rest q \<and> matches r m"
proof (induction r arbitrary: p q)
  case (Chr x)
  then show ?case by (cases "pos_rest p") (auto split: if_splits)
next
  case (Sequ a b)
  then obtain p' where p': "p' \<in> set (re_steps a p)" "q \<in> set (re_steps b p')" by auto
  from Sequ.IH(1) [OF p'(1)] Sequ.IH(2) [OF p'(2)] obtain m n
    where "pos_rest p = m @ pos_rest p'" "matches a m" "pos_rest p' = n @ pos_rest q" "matches b n"
    by blast
  then show ?case by (intro exI [of _ "m @ n"]) (auto intro: m_seq)
next
  case (Altn a b)
  then consider "q \<in> set (re_steps a p)" | "q \<in> set (re_steps b p)" by auto
  then show ?case
  proof cases
    case 1 then show ?thesis using Altn.IH(1) by (meson m_left)
  next
    case 2 then show ?thesis using Altn.IH(2) by (meson m_right)
  qed
next
  case (Star a)
  show ?case
    by (rule star_iter_sound [of "re_steps a" a q "Suc (length (pos_rest p))" p])
      (use Star in \<open>auto simp del: star_iter.simps\<close>)
next
  case (Group n a)
  then obtain p' where p': "p' \<in> set (re_steps a p)" "pos_rest q = pos_rest p'" by auto
  from Group.IH [OF p'(1)] p'(2) show ?case by auto
next
  case (BackRef n)
  then show ?case
    by (auto simp: pos_rest_advance prefix_def split: option.splits if_splits)
qed (auto split: list.splits if_splits)

lemma match_here_sound:
  "match_here r prev s = Some (m, q) \<Longrightarrow> matches r m \<and> s = m @ pos_rest q"
proof -
  assume "match_here r prev s = Some (m, q)"
  then obtain qs where q: "re_steps r (prev, s, Map.empty) = q # qs"
    and m: "m = take (length s - length (pos_rest q)) s"
    by (auto simp: match_here_def split: list.splits)
  from q have "q \<in> set (re_steps r (prev, s, Map.empty))" by simp
  from re_steps_sound [OF this] m show ?thesis by auto
qed

section \<open>Completeness for plain patterns\<close>

lemma star_iter_fuel:
  "length (pos_rest p) < k \<Longrightarrow> length (pos_rest p) < k' \<Longrightarrow> star_iter k f p = star_iter k' f p"
proof (induction k arbitrary: k' p)
  case (Suc k)
  then obtain j where k': "k' = Suc j" by (cases k') auto
  have "map (\<lambda>q. if length (pos_rest q) < length (pos_rest p) then star_iter k f q else []) (f p)
      = map (\<lambda>q. if length (pos_rest q) < length (pos_rest p) then star_iter j f q else []) (f p)"
    using Suc.prems k' by (intro map_cong refl if_cong Suc.IH) auto
  then show ?case by (simp only: k' star_iter.simps)
qed simp

lemma re_steps_complete:
  "matches r m \<Longrightarrow> plain r \<Longrightarrow> pos_rest p = m @ t \<Longrightarrow> \<exists>q \<in> set (re_steps r p). pos_rest q = t"
proof (induction r m arbitrary: p t rule: matches.induct)
  case (m_seq a m b n)
  from m_seq.IH(1) [of p "n @ t"] m_seq.prems
  obtain p' where p': "p' \<in> set (re_steps a p)" "pos_rest p' = n @ t" by auto
  from m_seq.IH(2) [OF _ p'(2)] m_seq.prems
  obtain q where "q \<in> set (re_steps b p')" "pos_rest q = t" by auto
  with p' show ?case by auto
next
  case (m_star a m n)
  from m_star.IH(1) [of p "n @ t"] m_star.prems
  obtain p' where p': "p' \<in> set (re_steps a p)" "pos_rest p' = n @ t" by auto
  from m_star.IH(2) [OF _ p'(2)] m_star.prems
  obtain q where q: "q \<in> set (star_iter (Suc (length (pos_rest p'))) (re_steps a) p')" "pos_rest q = t"
    by (auto simp del: star_iter.simps)
  have less: "length (pos_rest p') < length (pos_rest p)" using p' m_star by auto
  have "star_iter (length (pos_rest p)) (re_steps a) p' = star_iter (Suc (length (pos_rest p'))) (re_steps a) p'"
    by (rule star_iter_fuel) (use less in auto)
  with q have "q \<in> set (star_iter (length (pos_rest p)) (re_steps a) p')" by (simp only:)
  with p'(1) less have "q \<in> set (star_iter (Suc (length (pos_rest p))) (re_steps a) p)"
    by (subst star_iter.simps) auto
  then have "q \<in> set (re_steps (Star a) p)" by (simp only: re_steps.simps)
  with q show ?case by blast
next
  case (m_group a m n)
  then show ?case by fastforce
next
  case (m_left a m b)
  then show ?case by (simp add: bex_Un)
next
  case (m_right b m a)
  then show ?case by (simp add: bex_Un)
qed auto

lemma match_here_complete:
  "plain r \<Longrightarrow> matches r m \<Longrightarrow> prefix m s \<Longrightarrow> match_here r prev s \<noteq> None"
proof -
  assume r: "plain r" "matches r m" "prefix m s"
  then obtain t where "pos_rest (prev, s, Map.empty) = m @ t" by (auto simp: prefix_def)
  from re_steps_complete [OF r(2,1) this] show ?thesis
    by (auto simp: match_here_def split: list.splits)
qed

text \<open>A search finds a match exactly when a part of the text belongs to the pattern.\<close>

lemma search_from_iff:
  "plain r \<Longrightarrow> search_from r prev s \<noteq> None \<longleftrightarrow> (\<exists>m. sublist m s \<and> matches r m)"
proof (induction s arbitrary: prev)
  case Nil
  then show ?case
    using match_here_sound [of r prev "[]"] match_here_complete [of r _ "[]" prev]
    by (force simp: search_from.simps [of r prev "[]"] split: option.splits)
next
  case (Cons c s)
  show ?case
  proof (cases "match_here r prev (c # s)")
    case None
    then have no: "\<not> (\<exists>m. prefix m (c # s) \<and> matches r m)"
      using match_here_complete [OF Cons.prems] by blast
    have "search_from r prev (c # s) \<noteq> None \<longleftrightarrow> search_from r (Some c) s \<noteq> None"
      using None by (simp add: search_from.simps [of r prev "c # s"])
    also have "\<dots> \<longleftrightarrow> (\<exists>m. sublist m s \<and> matches r m)" by (rule Cons.IH) fact
    finally show ?thesis using no by (auto simp: sublist_Cons_right)
  next
    case (Some mq)
    then obtain m q where "match_here r prev (c # s) = Some (m, q)" by (cases mq) auto
    moreover from this have "search_from r prev (c # s) = Some ([], m, q)"
      by (simp add: search_from.simps [of r prev "c # s"])
    moreover have "prefix m (c # s)" using match_here_sound [OF calculation(1)] by (auto simp: prefix_def)
    ultimately show ?thesis using match_here_sound prefix_imp_sublist by blast
  qed
qed

theorem re_test_iff: "plain r \<Longrightarrow> re_test r s \<longleftrightarrow> (\<exists>m. sublist m s \<and> matches r m)"
  unfolding re_test_def re_exec_def by (rule search_from_iff)

section \<open>Languages of the pattern builders\<close>

lemma matches_Seqs_Chr:
  "matches (Seqs (map (\<lambda>x. Chr (P x)) s)) m \<longleftrightarrow> list_all2 P s m"
proof (induction s arbitrary: m)
  case (Cons x s)
  have "matches (Seqs (map (\<lambda>x. Chr (P x)) (x # s))) m \<longleftrightarrow> (\<exists>a n. m = [a] @ n \<and> P x a \<and> list_all2 P s n)"
    unfolding list.map Seqs.simps matches_Sequ matches_simps(1) Cons.IH by blast
  then show ?case by (simp add: list_all2_Cons1)
qed simp

lemma plain_Seqs [simp]: "plain (Seqs rs) \<longleftrightarrow> list_all plain rs"
  by (induction rs) auto

lemma plain_Alts [simp]: "plain (Alts r rs) \<longleftrightarrow> plain r \<and> list_all plain rs"
  by (induction rs arbitrary: r) auto

lemma plain_literals [simp]: "plain (Lit s)" "plain (Lit_i s)"
  unfolding Lit_def Lit_i_def plain_Seqs by (auto simp: list_all_iff)

lemma plain_classes [simp]:
  "plain Space" "plain NonSpace" "plain Dot" "plain (OneOf s)" "plain (NoneOf s)"
  unfolding Space_def NonSpace_def Dot_def OneOf_def NoneOf_def by (rule plain.simps(1) [THEN iffD2, OF TrueI])+

lemma plain_repeats [simp]: "plain (Plus r) = plain r" "plain (Opt r) = plain r"
  unfolding Plus_def Opt_def by auto

lemma matches_Lit [simp]: "matches (Lit s) m \<longleftrightarrow> m = s"
proof -
  have "list_all2 (\<lambda>x c. c = x) s m \<longleftrightarrow> m = s"
    by (auto simp: list_all2_conv_all_nth intro: nth_equalityI)
  then show ?thesis unfolding Lit_def matches_Seqs_Chr .
qed

lemma matches_Lit_i [simp]: "matches (Lit_i s) m \<longleftrightarrow> to_lower m = to_lower s"
proof -
  have "list_all2 (\<lambda>x c. lower_char c = lower_char x) s m \<longleftrightarrow> to_lower m = to_lower s"
    by (auto simp: list_all2_conv_all_nth to_lower_def list_eq_iff_nth_eq)
  then show ?thesis unfolding Lit_i_def matches_Seqs_Chr .
qed

lemma matches_Alts: "matches (Alts r rs) m \<longleftrightarrow> (\<exists>x \<in> set (r # rs). matches x m)"
  by (induction rs arbitrary: r) auto

lemma matches_Star_Chr: "matches (Star (Chr q)) m \<longleftrightarrow> list_all q m"
proof
  show "matches (Star (Chr q)) m \<Longrightarrow> list_all q m"
    by (induction "Star (Chr q)" m rule: matches.induct) auto
  show "list_all q m \<Longrightarrow> matches (Star (Chr q)) m"
  proof (induction m)
    case (Cons c m)
    then have "matches (Star (Chr q)) ([c] @ m)" by (intro m_star) auto
    then show ?case by simp
  qed (rule m_star0)
qed

lemma matches_Plus_Chr: "matches (Plus (Chr q)) m \<longleftrightarrow> m \<noteq> [] \<and> list_all q m"
proof (cases m)
  case (Cons c n)
  have "matches (Plus (Chr q)) (c # n) \<longleftrightarrow> (\<exists>d k. c # n = [d] @ k \<and> q d \<and> list_all q k)"
    unfolding Plus_def matches_Sequ matches_Star_Chr matches_simps by blast
  with Cons show ?thesis by simp
qed (simp add: Plus_def matches_Sequ)

lemma sublist_to_lower: "(\<exists>m. sublist m s \<and> to_lower m = t) \<longleftrightarrow> sublist t (to_lower s)"
proof
  assume "sublist t (to_lower s)"
  then obtain a b where "to_lower s = a @ t @ b" by (auto simp: sublist_def)
  then have "t = to_lower (take (length t) (drop (length a) s))"
    by (metis append_eq_conv_conj drop_map take_map to_lower_def)
  then show "\<exists>m. sublist m s \<and> to_lower m = t"
    by (metis sublist_drop sublist_order.order_trans sublist_take)
next
  assume "\<exists>m. sublist m s \<and> to_lower m = t"
  then obtain a m b where "s = a @ m @ b" "to_lower m = t" by (auto simp: sublist_def)
  then have "to_lower s = to_lower a @ t @ to_lower b" by simp
  then show "sublist t (to_lower s)" by (metis sublist_appendI)
qed

text \<open>A case-insensitive literal is found exactly when the lower-case texts contain one another.\<close>

lemma re_test_Lit_i: "re_test (Lit_i t) s \<longleftrightarrow> sublist (to_lower t) (to_lower s)"
  using sublist_to_lower [of s "to_lower t"] by (simp add: re_test_iff)

lemma re_test_Alts_Lit_i:
  "re_test (Alts (Lit_i t) (map Lit_i ts)) s \<longleftrightarrow> (\<exists>x \<in> set (t # ts). sublist (to_lower x) (to_lower s))"
proof -
  have "plain (Alts (Lit_i t) (map Lit_i ts))" by (simp add: list_all_iff)
  then have "re_test (Alts (Lit_i t) (map Lit_i ts)) s
      \<longleftrightarrow> (\<exists>m. sublist m s \<and> (\<exists>x \<in> set (t # ts). to_lower m = to_lower x))"
    by (simp add: re_test_iff matches_Alts)
  also have "\<dots> \<longleftrightarrow> (\<exists>x \<in> set (t # ts). \<exists>m. sublist m s \<and> to_lower m = to_lower x)" by blast
  finally show ?thesis unfolding sublist_to_lower .
qed

section \<open>The pieces of a text\<close>

lemma re_pieces_match:
  "Inr caps \<in> set (re_pieces r prev s) \<Longrightarrow> \<exists>m. caps 0 = Some m \<and> matches r m \<and> sublist m s"
proof (induction r prev s rule: re_pieces.induct)
  case (2 r prev c s)
  show ?case
  proof (cases "match_here r prev (c # s)")
    case None
    then show ?thesis using 2 by (auto simp: sublist_Cons_right)
  next
    case (Some mq)
    then obtain m q where mq: "match_here r prev (c # s) = Some (m, q)" by (cases mq) auto
    note sound = match_here_sound [OF mq]
    show ?thesis
    proof (cases "length (pos_rest q) < length (c # s)")
      case True
      then have "caps = (pos_caps q)(0 \<mapsto> m) \<or> Inr caps \<in> set (re_pieces r (pos_prev q) (pos_rest q))"
        using "2.prems" mq by auto
      then show ?thesis
      proof
        assume "Inr caps \<in> set (re_pieces r (pos_prev q) (pos_rest q))"
        from "2.IH"(2) [OF mq refl True this] obtain m' where
          m': "caps 0 = Some m'" "matches r m'" "sublist m' (pos_rest q)" by blast
        have "sublist (pos_rest q) (c # s)" using sound by simp
        with m' show ?thesis using sublist_order.order_trans by blast
      next
        assume "caps = (pos_caps q)(0 \<mapsto> m)"
        then show ?thesis using sound by (auto intro!: prefix_imp_sublist)
      qed
    next
      case False
      then show ?thesis using "2.prems" mq "2.IH"(3) [OF mq refl False] by (auto simp: sublist_Cons_right)
    qed
  qed
qed simp

lemma match_all_sound:
  "caps \<in> set (match_all r s) \<Longrightarrow> \<exists>m. caps 0 = Some m \<and> matches r m \<and> sublist m s"
  by (auto simp: match_all_def split: sum.splits dest: re_pieces_match)

text \<open>Outside the matches of a run of characters \<open>q\<close> no such character is left.\<close>

lemma re_pieces_outside:
  "Inl c \<in> set (re_pieces (Plus (Chr q)) prev s) \<Longrightarrow> \<not> q c \<and> c \<in> set s"
proof (induction "Plus (Chr q)" prev s rule: re_pieces.induct)
  case (2 prev d s)
  show ?case
  proof (cases "match_here (Plus (Chr q)) prev (d # s)")
    case None
    have "\<not> q d"
      using match_here_complete [of "Plus (Chr q)" "[d]" "d # s" prev] None
      by (auto simp: matches_Plus_Chr)
    then show ?thesis using 2 None by auto
  next
    case (Some mq)
    then obtain m p where mp: "match_here (Plus (Chr q)) prev (d # s) = Some (m, p)" by (cases mq) auto
    note sound = match_here_sound [OF mp]
    then have "length (pos_rest p) < length (d # s)"
      by (cases m) (auto simp: matches_Plus_Chr)
    with mp have "Inl c \<in> set (re_pieces (Plus (Chr q)) (pos_prev p) (pos_rest p))"
      using "2.prems" by auto
    from "2.hyps"(2) [OF mp refl \<open>length (pos_rest p) < length (d # s)\<close> this] sound
    show ?thesis by (metis UnI2 set_append)
  qed
qed simp

lemma replace_all_chars:
  assumes "c \<in> set (replace_all (Plus (Chr q)) (\<lambda>m. t) s)"
  shows "c \<in> set t \<or> \<not> q c \<and> c \<in> set s"
proof -
  from assms obtain x where x: "x \<in> set (re_pieces (Plus (Chr q)) None s)" "c \<in> set (case_sum (\<lambda>c. [c]) (\<lambda>m. t) x)"
    by (auto simp: replace_all_def)
  show ?thesis
  proof (cases x)
    case (Inl d)
    with x re_pieces_outside [of d q None s] show ?thesis by simp
  next
    case (Inr m)
    with x(2) show ?thesis by simp
  qed
qed

text \<open>Splitting at single characters.\<close>

lemma match_here_Chr:
  "match_here (Chr q) prev (c # s) = (if q c then Some ([c], Some c, s, Map.empty) else None)"
  by (simp add: match_here_def)

lemma re_pieces_Chr:
  "map (case_sum Inl (\<lambda>m. Inr ())) (re_pieces (Chr q) prev s) = map (\<lambda>c. if q c then Inr () else Inl c) s"
proof (induction s arbitrary: prev)
  case (Cons c s)
  then show ?case by (simp add: match_here_Chr)
qed simp

lemma split_pieces_chars:
  "x \<in> set (split_pieces acc ps) \<Longrightarrow> c \<in> set x \<Longrightarrow> c \<in> set acc \<or> Inl c \<in> set ps"
  by (induction acc ps arbitrary: x rule: split_pieces.induct) fastforce+

lemma re_pieces_Chr_Inl: "Inl c \<in> set (re_pieces (Chr q) prev s) \<Longrightarrow> \<not> q c"
proof -
  assume "Inl c \<in> set (re_pieces (Chr q) prev s)"
  then have "Inl c \<in> set (map (case_sum Inl (\<lambda>m. Inr ())) (re_pieces (Chr q) prev s))" by force
  then show ?thesis unfolding re_pieces_Chr by (auto split: if_splits)
qed

lemma re_split_OneOf: "x \<in> set (re_split (OneOf seps) s) \<Longrightarrow> c \<in> set x \<Longrightarrow> c \<notin> set seps"
  unfolding re_split_def OneOf_def
  by (drule (1) split_pieces_chars) (auto dest: re_pieces_Chr_Inl)

end
