(* ===== verification/AutoDriveParsing.thy ===== *)
theory AutoDriveParsing
  imports AutoDriveTypes AutoDriveExamples RegexLanguage
begin

text \<open>
  Reading the report of a sub-agent: \<^verbatim>\<open>apps/code/src/application/runtime/facades/runtimeAutoDriveReviewParsing.ts\<close>,
  and the publishing texts of \<^verbatim>\<open>runtimeAutoDrivePublish.ts\<close> and
  \<^verbatim>\<open>runtimeAutoDrivePublishRecovery.ts\<close>.
\<close>

section \<open>The report\<close>

text \<open>\<^verbatim>\<open>/[A-Za-z0-9_./-]+\.(?:ts|tsx|js|jsx|json|md|css|rs|yml|yaml)/g\<close>\<close>

definition path_char :: "char \<Rightarrow> bool" where
  "path_char c = (is_upper c \<or> is_lower c \<or> is_digit c \<or> c \<in> {CHR ''_'', CHR ''.'', CHR ''/'', CHR ''-''})"

definition FILE_PATH_PATTERN :: re where
  "FILE_PATH_PATTERN = Seqs [Plus (Chr path_char), Lit ''.'',
     Alts (Lit ''ts'') [Lit ''tsx'', Lit ''js'', Lit ''jsx'', Lit ''json'', Lit ''md'', Lit ''css'',
       Lit ''rs'', Lit ''yml'', Lit ''yaml'']]"

definition extractLatestTaskOutput :: "agent_task \<Rightarrow> string" where
  "extractLatestTaskOutput task =
     (case find (\<lambda>s. case step_output s of None \<Rightarrow> False | Some t \<Rightarrow> js_trim t \<noteq> []) (rev (tk_steps task)) of
        Some s \<Rightarrow> js_trim (nullish (step_output s) [])
      | None \<Rightarrow>
          let failure = js_trim (nullish (tk_errorMessage task) []);
              title = js_trim (nullish (tk_title task) [])
          in if failure \<noteq> [] then failure
             else if title \<noteq> [] then title
             else ''No task output recorded.'')"

definition extractFilePaths :: "string \<Rightarrow> string list" where
  "extractFilePaths text = uniq (map (\<lambda>m. nullish (m 0) []) (match_all FILE_PATH_PATTERN text))"

text \<open>\<^verbatim>\<open>/goal reached:\s*yes/i\<close>\<close>

definition goal_reached_re :: re where
  "goal_reached_re = Seqs [Lit_i ''goal reached:'', Star Space, Lit_i ''yes'']"

definition parseGoalReached :: "string \<Rightarrow> bool" where
  "parseGoalReached text = re_test goal_reached_re text"

text \<open>\<open>new RegExp(`${heading}:\\s*(yes|no)`, "i")\<close> for a heading of letters and spaces.\<close>

definition boolean_section_re :: "string \<Rightarrow> re" where
  "boolean_section_re heading =
     Seqs [Lit_i heading, Lit '':'', Star Space, Group 1 (Altn (Lit_i ''yes'') (Lit_i ''no''))]"

definition parseBooleanSection :: "string \<Rightarrow> string \<Rightarrow> bool" where
  "parseBooleanSection text heading =
     (case re_exec (boolean_section_re heading) text of
        None \<Rightarrow> False
      | Some (b, m, q) \<Rightarrow> map_option to_lower (pos_caps q 1) = Some ''yes'')"

text \<open>\<open>new RegExp(`${heading}:\\s*(.+)`, "i")\<close>\<close>

definition line_section_re :: "string \<Rightarrow> re" where
  "line_section_re heading = Seqs [Lit_i heading, Lit '':'', Star Space, Group 1 (Plus Dot)]"

text \<open>\<^verbatim>\<open>/^(none|n\/a)$/i\<close>\<close>

definition none_re :: re where
  "none_re = Seqs [Bol, Altn (Lit_i ''none'') (Lit_i ''n/a''), Eol]"

definition extractSingleLineSection :: "string \<Rightarrow> string \<Rightarrow> string option" where
  "extractSingleLineSection text heading =
     (case re_exec (line_section_re heading) text of
        None \<Rightarrow> None
      | Some (b, m, q) \<Rightarrow>
          let v = js_trim (nullish (pos_caps q 1) [])
          in if v = [] \<or> re_test none_re v then None else Some v)"

definition extractListSection :: "string \<Rightarrow> string \<Rightarrow> string list" where
  "extractListSection text heading =
     (case extractSingleLineSection text heading of
        None \<Rightarrow> []
      | Some line \<Rightarrow>
          if line = [] then []
          else filter (\<lambda>entry. entry \<noteq> [] \<and> to_lower entry \<noteq> ''none'')
                 (map js_trim (re_split (OneOf ''|,'') line)))"

text \<open>
  \<open>clampPercent ((completed / outOf) * 100)\<close> for whole numbers and a positive total:
  \<open>Math.round\<close> rounds half up.
\<close>

definition clampPercent :: "int \<Rightarrow> int \<Rightarrow> int" where
  "clampPercent completed outOf = max 0 (min 100 ((200 * completed + outOf) div (2 * outOf)))"

section \<open>Publishing\<close>

definition sanitizeCommitMessage :: "string option \<Rightarrow> string option" where
  "sanitizeCommitMessage message =
     (case message of None \<Rightarrow> None
      | Some m \<Rightarrow> let trimmed = js_trim m in if trimmed \<noteq> [] then Some trimmed else None)"

text \<open>\<^verbatim>\<open>/[^a-z0-9]+/g\<close>\<close>

definition non_slug_re :: re where
  "non_slug_re = Plus (Chr (\<lambda>c. \<not> (is_lower c \<or> is_digit c)))"

definition buildFallbackCommitMessage :: "run_record \<Rightarrow> iteration_summary \<Rightarrow> string" where
  "buildFallbackCommitMessage run summary =
     (let source = nullish2 (sanitizeCommitMessage (Some (su_taskTitle summary)))
            (sanitizeCommitMessage (Some (ds_title (rn_destination run))));
          normalized = (case source of
              None \<Rightarrow> ''advance route''
            | Some s \<Rightarrow> take 60 (js_trim (replace_all non_slug_re (\<lambda>m. '' '') (to_lower s))))
      in ''feat(autodrive): '' @ normalized)"

text \<open>\<^verbatim>\<open>/^-+|-+$/g\<close> removes the dashes at both ends.\<close>

definition trim_dashes :: "string \<Rightarrow> string" where
  "trim_dashes s = rev (dropWhile (\<lambda>c. c = CHR ''-'') (rev (dropWhile (\<lambda>c. c = CHR ''-'') s)))"

definition sanitizeBranchSegment :: "string \<Rightarrow> string" where
  "sanitizeBranchSegment v = take 32 (trim_dashes (replace_all non_slug_re (\<lambda>m. ''-'') (to_lower v)))"

text \<open>
  \<open>stamp\<close> is the first fourteen digits of the ISO time of \<open>createdAt\<close>, a function of the standard
  library: the parameter \<open>iso_stamp\<close>.
\<close>

definition buildPublishBranchName :: "(int \<Rightarrow> string) \<Rightarrow> run_record \<Rightarrow> int \<Rightarrow> string" where
  "buildPublishBranchName iso_stamp run createdAt =
     (let segment = sanitizeBranchSegment (ds_title (rn_destination run));
          slug = (if segment \<noteq> [] then segment else ''publish-candidate'');
          tail10 = slice_last 10 (sanitizeBranchSegment (rn_runId run));
          runTail = (if tail10 \<noteq> [] then tail10 else ''run'')
      in ''autodrive/'' @ slug @ ''-'' @ iso_stamp createdAt @ ''-'' @ runTail)"

definition failed_summary :: "publish_outcome option \<Rightarrow> string" where
  "failed_summary outcome =
     (case outcome of None \<Rightarrow> []
      | Some o' \<Rightarrow> if po_status o' \<noteq> PubFailed then [] else to_lower (js_trim (po_summary o')))"

definition requiresManualPublishReview :: "publish_outcome option \<Rightarrow> bool" where
  "requiresManualPublishReview outcome =
     (let summary = failed_summary outcome
      in if summary = [] then False
         else list_ex (\<lambda>signal. str_includes summary signal)
           [''branch protection'', ''protected branch'', ''remote rejected'', ''permission denied'',
            ''access denied'', ''credentials'', ''credential'', ''authentication'', ''review required'',
            ''403''])"

definition requiresHumanPublishInput :: "publish_outcome option \<Rightarrow> bool" where
  "requiresHumanPublishInput outcome =
     (let summary = failed_summary outcome
      in if summary = [] then False
         else list_ex (\<lambda>signal. str_includes summary signal)
           [''credentials'', ''credential'', ''authentication'', ''auth failed'', ''token expired'',
            ''missing token'', ''missing credentials'', ''login required''])"

definition buildPublishFailureOperatorActions :: "publish_outcome \<Rightarrow> string option \<Rightarrow> string list" where
  "buildPublishFailureOperatorActions outcome originalBranch =
     (if po_status outcome \<noteq> PubFailed \<or> po_mode outcome \<noteq> PushCandidate then []
      else case po_branchName outcome of
        None \<Rightarrow> []
      | Some branchName \<Rightarrow>
          if branchName = [] then []
          else if requiresHumanPublishInput (Some outcome) then
            [''Run `gh auth login` or refresh the repository credentials before retrying the publish candidate.'',
             ''Checkout `'' @ branchName @ ''` and retry `git push origin '' @ branchName
               @ ''` after credentials are fixed.'',
             (case originalBranch of
                None \<Rightarrow> ''Resume AutoDrive after the isolated branch is pushed successfully.''
              | Some b \<Rightarrow> if b = [] then ''Resume AutoDrive after the isolated branch is pushed successfully.''
                  else ''Return to `'' @ b @ ''` and resume AutoDrive after the isolated branch is pushed.'')]
          else if requiresManualPublishReview (Some outcome) then
            [''Confirm the remote branch policy, required review gate, or repository permission that rejected this push.'',
             ''Checkout `'' @ branchName @ ''` and retry `git push origin '' @ branchName
               @ ''` after access or review requirements are satisfied.'',
             ''Resume AutoDrive once the isolated branch is available for operator-reviewed handoff.'']
          else [])"

definition resolvePublishAwareStopReason ::
    "stop_reason option \<Rightarrow> publish_outcome option \<Rightarrow> stop_reason option" where
  "resolvePublishAwareStopReason decisionReason outcome =
     (let goal = (map_option sr_code decisionReason = Some GoalReached);
          shown = (case outcome of None \<Rightarrow> ''unknown publish failure'' | Some o' \<Rightarrow> po_summary o')
      in if goal \<and> requiresHumanPublishInput outcome then
           Some \<lparr>sr_code = MissingHumanInput,
             sr_detail = ''AutoDrive reached the destination, but publish handoff needs operator credentials or authentication: ''
               @ shown\<rparr>
         else if goal \<and> requiresManualPublishReview outcome then
           Some \<lparr>sr_code = UnsafeRouteRequiresReview,
             sr_detail = ''AutoDrive reached the destination, but publish handoff requires operator review: ''
               @ shown\<rparr>
         else decisionReason)"

definition shouldAvoidAutomaticPushFromHistory :: "context_snapshot \<Rightarrow> bool" where
  "shouldAvoidAutomaticPushFromHistory context =
     (case ph_latestFailureSummary (cx_publishHistory context) of
        None \<Rightarrow> False
      | Some s \<Rightarrow>
          let failureSummary = to_lower (js_trim s)
          in if failureSummary = [] then False
             else list_ex (\<lambda>signal. str_includes failureSummary signal)
               [''branch protection'', ''protected branch'', ''remote rejected'', ''permission denied'',
                ''credentials'', ''credential'', ''non-fast-forward'', ''review required''])"

section \<open>Lemmas\<close>

definition path_extensions :: "string list" where
  "path_extensions = [''ts'', ''tsx'', ''js'', ''jsx'', ''json'', ''md'', ''css'', ''rs'', ''yml'', ''yaml'']"

definition is_file_path :: "string \<Rightarrow> bool" where
  "is_file_path p \<longleftrightarrow> (\<exists>stem. stem \<noteq> [] \<and> list_all path_char stem
     \<and> (\<exists>ext \<in> set path_extensions. p = stem @ ''.'' @ ext))"

lemma FILE_PATH_PATTERN_alt:
  "FILE_PATH_PATTERN = Sequ (Plus (Chr path_char)) (Sequ (Lit ''.'')
     (Sequ (Alts (Lit ''ts'') (map Lit (tl path_extensions))) Eps))"
  by (simp add: FILE_PATH_PATTERN_def path_extensions_def)

lemma matches_extensions:
  "matches (Alts (Lit ''ts'') (map Lit (tl path_extensions))) e \<longleftrightarrow> e \<in> set path_extensions"
  by (auto simp: matches_Alts path_extensions_def)

lemma matches_FILE_PATH: "matches FILE_PATH_PATTERN m \<longleftrightarrow> is_file_path m"
  unfolding FILE_PATH_PATTERN_alt matches_Sequ matches_Plus_Chr matches_extensions is_file_path_def by auto

lemma set_js_trim: "set (js_trim s) \<subseteq> set s"
  unfolding js_trim_def trim_start_def using set_dropWhileD by (metis set_rev subsetI)

subsection \<open>The first alternative wins\<close>

lemma first_of_sequence:
  "re_steps (Sequ a b) p = q # qs \<Longrightarrow> \<exists>p' \<in> set (re_steps a p). \<exists>qs'. re_steps b p' = q # qs'"
proof -
  have "concat (map f xs) = q # qs \<Longrightarrow> \<exists>x \<in> set xs. \<exists>qs'. f x = q # qs'" for f and xs :: "re_pos list"
  proof (induction xs)
    case (Cons x xs)
    then show ?case by (cases "f x") auto
  qed simp
  then show "re_steps (Sequ a b) p = q # qs \<Longrightarrow> ?thesis" by simp
qed

lemma concat_steps_Eps: "concat (map (re_steps Eps) ps) = ps"
  by (induction ps) auto

lemma re_steps_Lit_prefix: "prefix s (pos_rest p) \<Longrightarrow> re_steps (Lit s) p \<noteq> []"
  using re_steps_complete [of "Lit s" s p] by (auto simp: prefix_def)

lemma re_steps_Lit_rest: "q \<in> set (re_steps (Lit s) p) \<Longrightarrow> pos_rest p = s @ pos_rest q"
  using re_steps_sound [of q "Lit s" p] by auto

lemma first_alternative:
  assumes "re_steps (Alts (Lit e) (map Lit es)) p = q # qs" "pos_rest p = m @ pos_rest q"
    and "m \<in> set (e # es)" "prefix d m" "e # es = ds @ d # fs" "m \<notin> set ds"
  shows "m = d"
proof -
  have alts: "re_steps (Alts (Lit e) (map Lit es)) p = concat (map (\<lambda>s. re_steps (Lit s) p) (e # es))" for e es
    by (induction es arbitrary: e) auto
  have "\<exists>s \<in> set (ds @ [d]). q \<in> set (re_steps (Lit s) p)"
  proof -
    have "re_steps (Lit d) p \<noteq> []"
      using assms(2,4) by (intro re_steps_Lit_prefix) (auto simp: prefix_def)
    then have "concat (map (\<lambda>s. re_steps (Lit s) p) (ds @ [d])) \<noteq> []" by simp
    moreover have "q # qs = concat (map (\<lambda>s. re_steps (Lit s) p) (ds @ [d]))
        @ concat (map (\<lambda>s. re_steps (Lit s) p) fs)"
      using assms(1,5) unfolding alts by simp
    ultimately have "q \<in> set (concat (map (\<lambda>s. re_steps (Lit s) p) (ds @ [d])))"
      by (cases "concat (map (\<lambda>s. re_steps (Lit s) p) (ds @ [d]))") (simp, simp only: append_Cons list.inject list.set_intros(1))
    then show ?thesis unfolding set_concat set_map by blast
  qed
  then obtain s where s: "s \<in> set (ds @ [d])" "pos_rest p = s @ pos_rest q"
    using re_steps_Lit_rest by blast
  with assms(2) have "s = m" by simp
  with s assms(6) show ?thesis by auto
qed

lemma file_path_match:
  assumes "match_here FILE_PATH_PATTERN prev s = Some (m, q)"
  shows "\<exists>stem ext. m = stem @ ''.'' @ ext \<and> ext \<in> set path_extensions - {''tsx'', ''jsx'', ''json''}"
proof -
  let ?E = "Alts (Lit ''ts'') (map Lit (tl path_extensions))"
  from assms obtain qs where steps: "re_steps FILE_PATH_PATTERN (prev, s, Map.empty) = q # qs"
    by (auto simp: match_here_def split: list.splits)
  from first_of_sequence [OF steps [unfolded FILE_PATH_PATTERN_alt]] obtain p1 qs1 where
    p1: "p1 \<in> set (re_steps (Plus (Chr path_char)) (prev, s, Map.empty))"
      "re_steps (Sequ (Lit ''.'') (Sequ ?E Eps)) p1 = q # qs1" by blast
  from first_of_sequence [OF p1(2)] obtain p2 qs2 where
    p2: "p2 \<in> set (re_steps (Lit ''.'') p1)" "re_steps (Sequ ?E Eps) p2 = q # qs2" by blast
  then have E: "re_steps ?E p2 = q # qs2" by (simp add: concat_steps_Eps)
  from re_steps_sound [OF p1(1)] obtain stem where stem: "s = stem @ pos_rest p1" by auto
  have "q \<in> set (re_steps ?E p2)" unfolding E by simp
  then obtain ext where ext: "pos_rest p2 = ext @ pos_rest q" "ext \<in> set path_extensions"
    using re_steps_sound matches_extensions by blast
  have m: "m = stem @ ''.'' @ ext"
    using match_here_sound [OF assms] stem re_steps_Lit_rest [OF p2(1)] ext(1) by simp
  have list: "''ts'' # tl path_extensions = path_extensions" by (simp add: path_extensions_def)
  have "ext \<noteq> ''tsx''"
    using first_alternative [OF E ext(1), of "''ts''" "[]" "tl path_extensions"] ext(2) list by auto
  moreover have "ext \<noteq> ''jsx''"
    using first_alternative [OF E ext(1), of "''js''" "take 2 path_extensions" "drop 3 path_extensions"] ext(2) list
    by (auto simp: path_extensions_def)
  moreover have "ext \<noteq> ''json''"
    using first_alternative [OF E ext(1), of "''js''" "take 2 path_extensions" "drop 3 path_extensions"] ext(2) list
    by (auto simp: path_extensions_def)
  ultimately show ?thesis using m ext(2) by blast
qed

lemma match_pieces:
  "Inr caps \<in> set (re_pieces r prev s) \<Longrightarrow>
   \<exists>prev' s' m q. match_here r prev' s' = Some (m, q) \<and> caps 0 = Some m"
proof (induction r prev s rule: re_pieces.induct)
  case (2 r prev c s)
  show ?case
  proof (cases "match_here r prev (c # s)")
    case None
    then show ?thesis using 2 by auto
  next
    case (Some mq)
    then obtain m q where mq: "match_here r prev (c # s) = Some (m, q)" by (cases mq) auto
    show ?thesis
    proof (cases "length (pos_rest q) < length (c # s)")
      case True
      then have "caps = (pos_caps q)(0 \<mapsto> m) \<or> Inr caps \<in> set (re_pieces r (pos_prev q) (pos_rest q))"
        using "2.prems" mq by auto
      then show ?thesis
      proof
        assume "caps = (pos_caps q)(0 \<mapsto> m)"
        then have "caps 0 = Some m" by simp
        with mq show ?thesis by blast
      next
        assume "Inr caps \<in> set (re_pieces r (pos_prev q) (pos_rest q))"
        then show ?thesis by (rule "2.IH"(2) [OF mq refl True])
      qed
    next
      case False
      then show ?thesis using "2.prems" mq "2.IH"(3) [OF mq refl False] by auto
    qed
  qed
qed simp

lemma extracted_path:
  assumes "p \<in> set (extractFilePaths text)"
  shows "is_file_path p" "sublist p text"
    "\<exists>stem ext. p = stem @ ''.'' @ ext \<and> ext \<in> set path_extensions - {''tsx'', ''jsx'', ''json''}"
proof -
  from assms obtain caps where caps: "caps \<in> set (match_all FILE_PATH_PATTERN text)" "p = nullish (caps 0) []"
    by (auto simp: extractFilePaths_def)
  from match_all_sound [OF caps(1)] caps(2) show "is_file_path p" "sublist p text"
    by (auto simp: matches_FILE_PATH)
  from caps(1) have "Inr caps \<in> set (re_pieces FILE_PATH_PATTERN None text)"
    by (auto simp: match_all_def split: sum.splits)
  from match_pieces [OF this] caps(2) file_path_match
  show "\<exists>stem ext. p = stem @ ''.'' @ ext \<and> ext \<in> set path_extensions - {''tsx'', ''jsx'', ''json''}"
    by force
qed

lemma uncut_extension:
  assumes "ext \<in> set path_extensions - {''tsx'', ''jsx'', ''json''}"
  shows "\<not> (ends_with (stem @ ''.'' @ ext) ''.tsx'' \<or> ends_with (stem @ ''.'' @ ext) ''.jsx''
    \<or> ends_with (stem @ ''.'' @ ext) ''.json'')"
proof -
  from assms have "ext \<in> {''ts'', ''js'', ''md'', ''css'', ''rs'', ''yml'', ''yaml''}"
    by (auto simp: path_extensions_def)
  then show ?thesis by (elim insertE emptyE) (simp_all add: suffix_to_prefix)
qed

subsection \<open>Branch names\<close>

definition slug_char :: "char \<Rightarrow> bool" where
  "slug_char c \<longleftrightarrow> is_lower c \<or> is_digit c \<or> c = CHR ''-''"

lemma set_trim_dashes: "set (trim_dashes s) \<subseteq> set s"
  unfolding trim_dashes_def using set_dropWhileD by (metis set_rev subsetI)

lemma trim_dashes_hd: "trim_dashes s \<noteq> [] \<Longrightarrow> hd (trim_dashes s) \<noteq> CHR ''-''"
proof -
  let ?d = "\<lambda>c. c = CHR ''-''"
  assume ne: "trim_dashes s \<noteq> []"
  obtain zs where zs: "dropWhile ?d s = trim_dashes s @ zs"
    using dropWhile_rev_prefix [of "dropWhile ?d s" ?d] by (auto simp: trim_dashes_def)
  with ne have "dropWhile ?d s \<noteq> []" "hd (dropWhile ?d s) = hd (trim_dashes s)" by auto
  then show ?thesis using hd_dropWhile [of ?d s] by simp
qed

lemma sanitizeBranchSegment_chars:
  "c \<in> set (sanitizeBranchSegment v) \<Longrightarrow> slug_char c"
proof -
  assume "c \<in> set (sanitizeBranchSegment v)"
  then have "c \<in> set (replace_all non_slug_re (\<lambda>m. ''-'') (to_lower v))"
    unfolding sanitizeBranchSegment_def using set_trim_dashes in_set_takeD by fastforce
  then have "c \<in> set ''-'' \<or> \<not> \<not> (is_lower c \<or> is_digit c) \<and> c \<in> set (to_lower v)"
    unfolding non_slug_re_def by (rule replace_all_chars)
  then show ?thesis by (auto simp: slug_char_def)
qed

lemma sanitizeBranchSegment_hd:
  "sanitizeBranchSegment v \<noteq> [] \<Longrightarrow> hd (sanitizeBranchSegment v) \<noteq> CHR ''-''"
  using trim_dashes_hd [of "replace_all non_slug_re (\<lambda>m. ''-'') (to_lower v)"]
  unfolding sanitizeBranchSegment_def by auto

lemma sanitizeBranchSegment_length: "length (sanitizeBranchSegment v) \<le> 32"
  by (simp add: sanitizeBranchSegment_def)

section \<open>Properties\<close>

text \<open>The file paths taken from a report are parts of it, they are distinct, and each is a
  non-empty run of path characters, a dot and one of the ten known extensions.\<close>

theorem extractFilePaths_sound:
  "distinct (extractFilePaths text) \<and>
   set (extractFilePaths text) \<subseteq> {p. is_file_path p \<and> sublist p text}"
  using extracted_path(1,2) by (auto simp: extractFilePaths_def)

text \<open>Three of the ten extensions are never found: as \<open>ts\<close> and \<open>js\<close> come first among the
  alternatives and nothing has to follow the match, a path that ends in tsx, jsx or json is cut to
  ts or js.  So the manifest package.json is never among the extracted paths.\<close>

theorem extractFilePaths_truncates:
  "set (extractFilePaths text)
     \<inter> {p. ends_with p ''.tsx'' \<or> ends_with p ''.jsx'' \<or> ends_with p ''.json''} = {}
   \<and> extractFilePaths ''Edited src/App.tsx, package.json'' = [''src/App.ts'', ''package.js'']"
proof
  have "\<not> (ends_with p ''.tsx'' \<or> ends_with p ''.jsx'' \<or> ends_with p ''.json'')"
    if "p \<in> set (extractFilePaths text)" for p
    using extracted_path(3) [OF that] uncut_extension by blast
  then show "set (extractFilePaths text)
     \<inter> {p. ends_with p ''.tsx'' \<or> ends_with p ''.jsx'' \<or> ends_with p ''.json''} = {}" by blast
  show "extractFilePaths ''Edited src/App.tsx, package.json'' = [''src/App.ts'', ''package.js'']"
    by code_simp
qed

text \<open>The entries of a list section are clean: not empty, without surrounding space, without
  the two separators, and none of them is the word none.\<close>

theorem extractListSection_clean:
  "set (extractListSection text heading)
     \<subseteq> {e. e \<noteq> [] \<and> js_trim e = e \<and> set e \<inter> set ''|,'' = {} \<and> to_lower e \<noteq> ''none''}"
proof
  fix e
  assume "e \<in> set (extractListSection text heading)"
  then obtain line part where e: "part \<in> set (re_split (OneOf ''|,'') line)" "e = js_trim part" "e \<noteq> []"
      "to_lower e \<noteq> ''none''"
    by (auto simp: extractListSection_def split: option.splits if_splits)
  then have "set part \<inter> set ''|,'' = {}" using re_split_OneOf [OF e(1)] by blast
  with e set_js_trim [of part]
  show "e \<in> {e. e \<noteq> [] \<and> js_trim e = e \<and> set e \<inter> set ''|,'' = {} \<and> to_lower e \<noteq> ''none''}"
    by auto
qed

definition empty_blockers_report :: string where
  "empty_blockers_report = js_join [CHR 10] [''Blockers:'', ''Waypoint Status: arrived'']"

text \<open>An empty section takes the next line for its value: the white space after the heading
  may be a line break.  A report with an empty Blockers section that goes on with the waypoint
  status has the status line as its blocker.\<close>

theorem empty_section_reads_next_line:
  "extractListSection empty_blockers_report ''Blockers'' = [''Waypoint Status: arrived'']
   \<and> extractSingleLineSection empty_blockers_report ''Waypoint Status'' = Some ''arrived''"
  by code_simp

text \<open>The name of a publish branch is a valid, bounded branch name whatever the destination
  title and the run id are: after autodrive/ it has only lower-case letters, digits and dashes,
  it does not start with a dash, and it has at most 68 characters.\<close>

theorem publish_branch_name_wellformed:
  assumes "list_all is_digit (iso_stamp createdAt)" "length (iso_stamp createdAt) = 14"
  shows "\<exists>tail. buildPublishBranchName iso_stamp run createdAt = ''autodrive/'' @ tail
     \<and> list_all slug_char tail \<and> tail \<noteq> [] \<and> hd tail \<noteq> CHR ''-''
     \<and> length tail \<le> 58"
proof -
  let ?seg = "sanitizeBranchSegment (ds_title (rn_destination run))"
  let ?tail10 = "slice_last 10 (sanitizeBranchSegment (rn_runId run))"
  define slug where "slug = (if ?seg \<noteq> [] then ?seg else ''publish-candidate'')"
  define run_tail where "run_tail = (if ?tail10 \<noteq> [] then ?tail10 else ''run'')"
  have name: "buildPublishBranchName iso_stamp run createdAt
      = ''autodrive/'' @ (slug @ ''-'' @ iso_stamp createdAt @ ''-'' @ run_tail)"
    by (simp add: buildPublishBranchName_def slug_def run_tail_def Let_def)
  have slug: "list_all slug_char slug" "slug \<noteq> []" "hd slug \<noteq> CHR ''-''" "length slug \<le> 32"
    using sanitizeBranchSegment_chars [of _ "ds_title (rn_destination run)"]
      sanitizeBranchSegment_hd [of "ds_title (rn_destination run)"]
      sanitizeBranchSegment_length [of "ds_title (rn_destination run)"]
    by (auto simp: slug_def list_all_iff slug_char_def is_lower_def is_digit_def char_between_def)
  have "set ?tail10 \<subseteq> set (sanitizeBranchSegment (rn_runId run))" by (rule set_slice_last_subset)
  then have run_tail: "list_all slug_char run_tail" "length run_tail \<le> 10"
    using sanitizeBranchSegment_chars [of _ "rn_runId run"]
    by (auto simp: run_tail_def list_all_iff slug_char_def is_lower_def is_digit_def char_between_def)
  have "list_all slug_char (iso_stamp createdAt)"
    using assms(1) by (auto simp: list_all_iff slug_char_def)
  with name slug run_tail assms(2) show ?thesis
    by (intro exI [of _ "slug @ ''-'' @ iso_stamp createdAt @ ''-'' @ run_tail"])
      (simp add: slug_char_def)
qed

theorem publish_branch_name_wellformed_witness:
  "length (buildPublishBranchName (\<lambda>t. ''20240102030405'') example_run 0) \<le> 68
   \<and> buildPublishBranchName (\<lambda>t. ''20240102030405'') example_run 0
     = ''autodrive/ship-the-panel-20240102030405-run-1''"
proof
  have "\<exists>tail. buildPublishBranchName (\<lambda>t. ''20240102030405'') example_run 0 = ''autodrive/'' @ tail
     \<and> list_all slug_char tail \<and> tail \<noteq> [] \<and> hd tail \<noteq> CHR ''-'' \<and> length tail \<le> 58"
    by (rule publish_branch_name_wellformed) (simp_all add: is_digit_def char_between_def)
  then show "length (buildPublishBranchName (\<lambda>t. ''20240102030405'') example_run 0) \<le> 68" by auto
  show "buildPublishBranchName (\<lambda>t. ''20240102030405'') example_run 0
     = ''autodrive/ship-the-panel-20240102030405-run-1''" by code_simp
qed

end
