(* ===== verification/AutoDrivePlanner.thy ===== *)
theory AutoDrivePlanner
  imports AutoDriveTypes AutoDriveExamples RegexLanguage
begin

text \<open>
  Planning one iteration: \<^verbatim>\<open>apps/code/src/application/runtime/facades/runtimeAutoDrivePlanner.ts\<close>
  (\<open>buildNextTaskProposal\<close> and \<open>reviewNextTaskProposal\<close>).  Template literals are concatenations, with
  the names of literal unions given by the \<open>show_*\<close> functions.
\<close>

section \<open>Texts\<close>

definition or_text :: "string \<Rightarrow> string \<Rightarrow> string" where
  "or_text s d = (if s = [] then d else s)"

definition bars :: "string list \<Rightarrow> string" where
  "bars xs = js_join '' | '' xs"

fun show_preference :: "route_preference \<Rightarrow> string" where
  "show_preference StabilityFirst = ''stability_first''"
| "show_preference MinimalChange = ''minimal_change''"
| "show_preference ValidationFirst = ''validation_first''"
| "show_preference DocsFirst = ''docs_first''"
| "show_preference SpeedFirst = ''speed_first''"

fun show_validation_preference :: "validation_preference \<Rightarrow> string" where
  "show_validation_preference ValFast = ''fast''"
| "show_validation_preference ValFull = ''full''"

fun show_caution :: "caution_level \<Rightarrow> string" where
  "show_caution CautionNormal = ''normal''"
| "show_caution CautionElevated = ''elevated''"
| "show_caution CautionHigh = ''high''"

fun show_priority :: "publish_priority \<Rightarrow> string" where
  "show_priority PrioNone = ''none''"
| "show_priority PrioPrepareBranch = ''prepare_branch''"
| "show_priority PrioPushCandidate = ''push_candidate''"

fun show_publish_reason :: "publish_reason_code \<Rightarrow> string" where
  "show_publish_reason DirtyWorkingTree = ''dirty_working_tree''"
| "show_publish_reason BehindRemote = ''behind_remote''"
| "show_publish_reason MissingRemote = ''missing_remote''"
| "show_publish_reason ActiveBlockers = ''active_blockers''"
| "show_publish_reason ValidationIncomplete = ''validation_incomplete''"
| "show_publish_reason RouteRiskHigh = ''route_risk_high''"

fun show_milestone_status :: "milestone_status \<Rightarrow> string" where
  "show_milestone_status MsCompleted = ''completed''"
| "show_milestone_status MsActive = ''active''"
| "show_milestone_status MsRemaining = ''remaining''"
| "show_milestone_status MsBlocked = ''blocked''"

definition underscores_to_spaces :: "string \<Rightarrow> string" where
  "underscores_to_spaces s = map (\<lambda>c. if c = CHR ''_'' then CHR '' '' else c) s"

text \<open>\<open>dedupe(values, limit)\<close>; \<open>None\<close> is the default limit, the number of values.\<close>

definition dedupe_areas :: "string list \<Rightarrow> int option \<Rightarrow> string list" where
  "dedupe_areas vs limit =
     slice_to (nullish limit (int (length vs))) (uniq (filter (\<lambda>v. v \<noteq> []) (map js_trim vs)))"

section \<open>Evidence\<close>

definition evidence :: "evidence_kind \<Rightarrow> string \<Rightarrow> string option \<Rightarrow> route_evidence" where
  "evidence k d s = \<lparr>rv_kind = k, rv_detail = d, rv_source = s\<rparr>"

definition evaluation_list :: "context_snapshot \<Rightarrow> (repo_evaluation \<Rightarrow> string list) \<Rightarrow> string list" where
  "evaluation_list context f = (case rc_evaluation (cx_repo context) of None \<Rightarrow> [] | Some e \<Rightarrow> f e)"

definition buildEvidence :: "context_snapshot \<Rightarrow> route_evidence list" where
  "buildEvidence context =
     (let commands = evaluation_list context ev_representativeCommands;
          samples = evaluation_list context ev_samplePaths
      in [evidence EvDestination (ds_title (cx_destination context)) None]
       @ map (\<lambda>s. evidence EvIntentSignal (is_summary s) (is_source s)) (take 2 (im_signals (cx_intent context)))
       @ map (\<lambda>h. evidence EvDirectionHypothesis (dh_summary h) None)
           (take 1 (im_directionHypotheses (cx_intent context)))
       @ map (\<lambda>r. evidence EvRepoRule (re_summary r) (Some (re_path r))) (take 2 (rc_ruleEvidence (cx_repo context)))
       @ map (\<lambda>d. evidence EvDoc (re_summary d) (Some (re_path d))) (take 2 (rc_relevantDocs (cx_repo context)))
       @ map (\<lambda>c. evidence EvGit (ce_summary c @ '' by '' @ ce_author c) (Some (ce_sha c)))
           (take 2 (gc_recentCommits (cx_git context)))
       @ (case cx_previousSummary context of None \<Rightarrow> [] | Some p \<Rightarrow> [evidence EvSummary (su_summaryText p) None])
       @ [evidence EvCollaboratorIntent (ci_probableIntent (cx_collaboratorIntent context)) None]
       @ map (\<lambda>r. evidence EvExternal (rx_summary r) (case rx_sources r of [] \<Rightarrow> None | s # _ \<Rightarrow> Some s))
           (take 1 (cx_externalResearch context))
       @ (if commands \<noteq> [] \<or> samples \<noteq> []
          then [evidence EvEvaluation (js_join ''; ''
                 ((if commands \<noteq> [] then [''Representative lane '' @ bars commands] else [])
                  @ (if samples \<noteq> [] then [''Samples '' @ bars samples] else []))) None]
          else []))"

definition buildResponseFormat :: string where
  "buildResponseFormat = js_join [CHR 10]
     [''Respond with concise sections using these exact headings:'',
      ''Outcome:'', ''Changed Files:'', ''Validation:'', ''Blockers:'',
      ''Waypoint Status: arrived|missed|blocked'', ''Arrival Criteria Met:'',
      ''Arrival Criteria Missed:'', ''Progress:'', ''Off Route: yes|no'', ''Reroute Reason:'',
      ''Human Checkpoint: yes|no'', ''Goal reached: yes|no'']"

section \<open>Validation plans\<close>

text \<open>A script counts when it is there and not empty.\<close>

definition script :: "context_snapshot \<Rightarrow> string \<Rightarrow> string option" where
  "script context nm =
     (case rc_scripts (cx_repo context) nm of None \<Rightarrow> None | Some s \<Rightarrow> if s = [] then None else Some s)"

definition pickValidationPlan :: "context_snapshot \<Rightarrow> string list" where
  "pickValidationPlan context =
     (let commands = evaluation_list context ev_representativeCommands
      in if commands \<noteq> [] then commands
         else if et_validationCommandPreference (cx_executionTuning context) = ValFull
                 \<and> script context ''validate'' \<noteq> None then [''pnpm validate'']
         else if script context ''validateFast'' \<noteq> None then [''pnpm validate:fast'']
         else if script context ''validate'' \<noteq> None then [''pnpm validate'']
         else [])"

definition prefer_script :: "context_snapshot \<Rightarrow> string \<Rightarrow> string" where
  "prefer_script context command =
     (let preference = et_validationCommandPreference (cx_executionTuning context);
          scripts = rc_scripts (cx_repo context)
      in if preference = ValFull \<and> script context ''validate'' \<noteq> None \<and> Some command = scripts ''validateFast''
         then the (script context ''validate'')
         else if preference = ValFast \<and> script context ''validateFast'' \<noteq> None \<and> Some command = scripts ''validate''
         then the (script context ''validateFast'')
         else command)"

definition resolveHistoricalValidationPlan :: "context_snapshot \<Rightarrow> string list" where
  "resolveHistoricalValidationPlan context =
     (let commands = (case ph_bestCorridor (cx_publishHistory context) of None \<Rightarrow> []
                      | Some c \<Rightarrow> hc_validationCommands c)
      in if commands = [] then [] else dedupe_areas (map (prefer_script context) commands) None)"

section \<open>Milestones and the route\<close>

definition buildMilestones :: "context_snapshot \<Rightarrow> string list \<Rightarrow> string list \<Rightarrow> route_milestone list" where
  "buildMilestones context repoAreas validationPlan =
     (let completedWaypoints = (case cx_previousSummary context of None \<Rightarrow> 0
            | Some p \<Rightarrow> pg_completedWaypoints (su_progress p));
          offRoute = rh_offRoute (ss_routeHealth (cx_startState context))
      in [\<lparr>ml_id = ''baseline'', ml_title = ''Map the current start state and hard boundaries'',
            ml_description = ''Lock the route to the current repo, budget, and policy context.'',
            ml_status = (if completedWaypoints \<ge> 1 then MsCompleted else MsActive),
            ml_arrivalCriteria = [''Summarize the current branch, blockers, and budget pressure.'',
              ''Confirm the route stays within the approved runtime boundary.''],
            ml_repoAreas = take 2 repoAreas\<rparr>,
          \<lparr>ml_id = ''implement'', ml_title = ''Advance the current waypoint in the target surface'',
            ml_description = ''Make the smallest safe code change toward the destination.'',
            ml_status = (if completedWaypoints \<ge> 2 then MsCompleted
              else if completedWaypoints \<ge> 1 then MsActive else MsRemaining),
            ml_arrivalCriteria = [''Update only the waypoint repo areas or adjacent boundary plumbing.'',
              ''Keep manual composer mode intact while advancing the destination.''],
            ml_repoAreas = repoAreas\<rparr>,
          \<lparr>ml_id = ''validate'', ml_title = ''Validate the route and decide whether to arrive or reroute'',
            ml_description = ''Run the narrowest checks and decide whether the destination is reached.'',
            ml_status = (if offRoute then MsBlocked else MsRemaining),
            ml_arrivalCriteria = (if validationPlan \<noteq> [] then validationPlan
              else [''Explain why no validation command is available in this workspace.'']),
            ml_repoAreas = repoAreas\<rparr>])"

definition resolveRouteSummary :: "context_snapshot \<Rightarrow> route_milestone list \<Rightarrow> string" where
  "resolveRouteSummary context milestones = js_join '' ''
     [''Start from '' @ ss_summary (cx_startState context),
      ''Navigate toward '' @ ds_title (cx_destination context) @ ''.'',
      ''Route: '' @ js_join '' -> '' (map ml_title milestones) @ ''.'']"

section \<open>The waypoint\<close>

text \<open>The fields that \<open>buildWaypoint\<close> assigns step by step.\<close>

record waypoint_draft =
  wd_title :: string
  wd_objective :: string
  wd_whyNow :: string
  wd_arrivalCriteria :: "string list"
  wd_rerouteTriggers :: "string list"
  wd_commandsToRun :: "string list"
  wd_risk :: risk_level

definition baseline_draft :: waypoint_draft where
  "baseline_draft =
     \<lparr>wd_title = ''Establish the route baseline'',
      wd_objective = ''Inspect the current repo state, destination, and boundaries before making changes.'',
      wd_whyNow = ''The controller needs a trustworthy start-state model before driving further.'',
      wd_arrivalCriteria =
        [''Summarize the current state, destination, and approved route in the target surfaces.'',
         ''Name the next implementation milestone without broadening scope.''],
      wd_rerouteTriggers = [''The target surfaces exceed the per-iteration file budget.'',
        ''The repo rules conflict with the current route.''],
      wd_commandsToRun = [], wd_risk = Low\<rparr>"

definition advance_draft :: "bool \<Rightarrow> string list \<Rightarrow> waypoint_draft \<Rightarrow> waypoint_draft" where
  "advance_draft lowBudget validationPlan d =
     \<lparr>wd_title = (if lowBudget then ''Validate and close the shortest safe route''
        else ''Advance the current waypoint''),
      wd_objective = (if lowBudget
        then ''Use the shortest route to validate progress and decide whether to arrive or stop safely.''
        else ''Make the smallest safe code change toward the destination while staying on route.''),
      wd_whyNow = (if lowBudget
        then ''Budget pressure is high, so the route should favor validation and safe stopping.''
        else ''The baseline is known, so the route should move into the highest-leverage waypoint.''),
      wd_arrivalCriteria = [''Advance the current milestone without touching forbidden route areas.'',
        ''Leave behind a clear progress signal or a concrete blocker for the next decision.'']
        @ validationPlan,
      wd_rerouteTriggers = [''Validation fails for the current waypoint.'',
        ''The waypoint cannot be completed without widening scope.'',
        ''A new blocker or boundary rule invalidates the route.''],
      wd_commandsToRun = validationPlan,
      wd_risk = (if lowBudget then Medium else Low)\<rparr>"

definition repair_draft :: "string list \<Rightarrow> waypoint_draft \<Rightarrow> waypoint_draft" where
  "repair_draft validationPlan d =
     \<lparr>wd_title = ''Repair the route after validation drift'',
      wd_objective = ''Recover from the failed validation without widening the route.'',
      wd_whyNow = ''Validation failure means the current route is no longer trustworthy.'',
      wd_arrivalCriteria = [''Resolve the reported validation failure in the touched waypoint areas.'']
        @ validationPlan,
      wd_rerouteTriggers = [''Fixing validation requires a broader refactor.'',
        ''The remaining budget is too small for a safe repair.''],
      wd_commandsToRun = validationPlan,
      wd_risk = High\<rparr>"

definition reroute_draft :: "string option \<Rightarrow> waypoint_draft \<Rightarrow> waypoint_draft" where
  "reroute_draft rerouteReason d =
     d\<lparr>wd_title := ''Reroute back to the destination corridor'',
       wd_objective := ''Stabilize the route and pick the smallest waypoint that restores destination alignment.'',
       wd_whyNow := nullish rerouteReason ''The previous result drifted away from the current route.'',
       wd_arrivalCriteria := [''Explain the route change and re-anchor the next waypoint.'',
         ''Keep the new route inside hard boundaries and budget.''],
       wd_rerouteTriggers := [''The new route still fails to satisfy the current waypoint arrival criteria.'',
         ''A human checkpoint is required before continuing.''],
       wd_risk := High\<rparr>"

definition low_budget :: "context_snapshot \<Rightarrow> bool" where
  "low_budget context =
     (let system = ss_system (cx_startState context)
      in sy_remainingIterations system \<le> 1 \<or>
         (case sy_remainingTokensEstimate system of None \<Rightarrow> False | Some t \<Rightarrow> t \<le> 1200))"

definition waypoint_draft_for :: "context_snapshot \<Rightarrow> string list \<Rightarrow> waypoint_draft" where
  "waypoint_draft_for context validationPlan =
     (let health = ss_routeHealth (cx_startState context);
          failed = (case cx_previousSummary context of None \<Rightarrow> False
                    | Some p \<Rightarrow> vr_success (su_validation p) = Some False);
          priorOffRoute = rh_offRoute health;
          d1 = (if cx_previousSummary context \<noteq> None \<and> \<not> failed \<and> \<not> priorOffRoute
                then advance_draft (low_budget context) validationPlan baseline_draft else baseline_draft);
          d2 = (if failed then repair_draft validationPlan d1 else d1)
      in if priorOffRoute then reroute_draft (rh_rerouteReason health) d2 else d2)"

definition buildWaypoint :: "context_snapshot \<Rightarrow> string list \<Rightarrow> string list \<Rightarrow> waypoint_proposal" where
  "buildWaypoint context repoAreas validationPlan =
     (let d = waypoint_draft_for context validationPlan
      in \<lparr>wp_id = ''waypoint-'' @ show_int (cx_iteration context),
          wp_title = wd_title d, wp_objective = wd_objective d, wp_whyNow = wd_whyNow d,
          wp_repoAreas = repoAreas, wp_commandsToRun = wd_commandsToRun d,
          wp_validationPlan = validationPlan,
          wp_samplePaths = evaluation_list context ev_samplePaths,
          wp_heldOutGuidance = evaluation_list context ev_heldOutGuidance,
          wp_scenarioKeys = evaluation_list context ev_scenarioKeys,
          wp_arrivalCriteria = wd_arrivalCriteria d,
          wp_stopIf = ''The change requires destructive edits or dependency churn.''
            # ds_hardBoundaries (cx_destination context),
          wp_rerouteTriggers = wd_rerouteTriggers d,
          wp_expectedOutput = [''A concise route-aware execution summary.'',
            ''A waypoint arrival decision with progress and off-route signals.''],
          wp_estimatedCost = \<lparr>co_tokens = max 400 (int (length (js_join [CHR 10] repoAreas)) * 8),
            co_iterations = 1, co_durationMs = Some (5 * 60 * 1000), co_risk = wd_risk d\<rparr>,
          wp_confidence = (if sy_stopRisk (ss_system (cx_startState context)) = High \<or> wd_risk d = High
            then Low else Medium)\<rparr>)"

section \<open>The prompt\<close>

definition selected_candidate :: "context_snapshot \<Rightarrow> opportunity_candidate option" where
  "selected_candidate context =
     find (\<lambda>c. Some (oc_id c) = oq_selectedCandidateId (cx_opportunities context))
       (oq_candidates (cx_opportunities context))"

definition show_delta :: "score_reason \<Rightarrow> string" where
  "show_delta e = sc_reasonCode e @ '':'' @ (if sc_delta e \<ge> 0 then ''+'' else []) @ show_int (sc_delta e)"

definition first_hypothesis_summary :: "context_snapshot \<Rightarrow> string option" where
  "first_hypothesis_summary context =
     (case im_directionHypotheses (cx_intent context) of [] \<Rightarrow> None | h # _ \<Rightarrow> Some (dh_summary h))"

definition buildPromptText :: "run_record \<Rightarrow> context_snapshot \<Rightarrow> string \<Rightarrow> waypoint_proposal \<Rightarrow>
    route_milestone list \<Rightarrow> string" where
  "buildPromptText run context routeSummary waypoint milestones =
     (let selected = selected_candidate context;
          breakdown = (case Option.bind selected oc_scoreBreakdown of
             None \<Rightarrow> ''none'' | Some es \<Rightarrow> bars (map show_delta es));
          destination = cx_destination context;
          tuning = cx_executionTuning context;
          system = ss_system (cx_startState context)
      in js_join [CHR 10, CHR 10]
        [''Destination: '' @ ds_title destination,
         ''Desired end state: '' @ bars (ds_desiredEndState destination),
         ''Done definition: '' @ bars (dd_arrivalCriteria (ds_doneDefinition destination)),
         ''Required validation for arrival: ''
           @ or_text (bars (dd_requiredValidation (ds_doneDefinition destination))) ''none'',
         ''Hard boundaries: '' @ or_text (bars (ds_hardBoundaries destination)) ''none'',
         ''Route preference: '' @ show_preference (ds_routePreference destination),
         ''Start state: '' @ ss_summary (cx_startState context),
         ''Intent summary: '' @ im_summary (cx_intent context),
         ''Direction hypothesis: ''
           @ nullish (first_hypothesis_summary context) ''No direction hypothesis available.'',
         ''Selected opportunity: ''
           @ nullish (map_option oc_summary selected) ''No ranked opportunity selected.'',
         ''Opportunity decision: ''
           @ nullish (oq_selectionSummary (cx_opportunities context)) ''No decision summary available.'',
         ''Opportunity score breakdown: '' @ breakdown,
         ''Execution tuning: '' @ et_summary tuning @ '' Preference ''
           @ show_validation_preference (et_validationCommandPreference tuning) @ '', caution ''
           @ show_caution (et_cautionLevel tuning) @ '', publish ''
           @ show_priority (et_publishPriority tuning) @ ''.'',
         ''Publish readiness: '' @ pr_summary (cx_publishReadiness context) @ '' Reasons: ''
           @ or_text (bars (map show_publish_reason (pr_reasonCodes (cx_publishReadiness context)))) ''none'',
         ''Historical publish corridor: ''
           @ nullish (map_option hc_summaryText (ph_bestCorridor (cx_publishHistory context))) ''none'',
         ''Historical publish caution: ''
           @ nullish (ph_latestFailureSummary (cx_publishHistory context)) ''none'',
         ''System pressure: remaining iterations '' @ show_int (sy_remainingIterations system)
           @ '', remaining tokens ''
           @ nullish (map_option show_int (sy_remainingTokensEstimate system)) ''n/a'' @ '', reroutes ''
           @ show_int (sy_rerouteCount system) @ ''/'' @ show_int (maxReroutes (rn_budget run)),
         ''Route summary: '' @ routeSummary,
         ''Current waypoint: '' @ wp_title waypoint,
         ''Waypoint objective: '' @ wp_objective waypoint,
         ''Why now: '' @ wp_whyNow waypoint,
         ''Evaluation strategy: '' @ or_text (bars (wp_validationPlan waypoint))
           ''No representative evaluation lane available.'',
         ''Representative samples: '' @ or_text (bars (wp_samplePaths waypoint)) ''none'',
         ''Held-out guidance: '' @ or_text (bars (wp_heldOutGuidance waypoint)) ''none'',
         ''Arrival criteria: '' @ bars (wp_arrivalCriteria waypoint),
         ''Reroute triggers: '' @ bars (wp_rerouteTriggers waypoint),
         ''Milestones: '' @ bars (map (\<lambda>m. show_milestone_status (ml_status m) @ '':'' @ ml_title m) milestones),
         ''Collaborator intent: '' @ ci_probableIntent (cx_collaboratorIntent context),
         buildResponseFormat])"

section \<open>The proposal\<close>

definition proposal_candidate :: "context_snapshot \<Rightarrow> opportunity_candidate option" where
  "proposal_candidate context =
     nullish2 (selected_candidate context)
       (case oq_candidates (cx_opportunities context) of [] \<Rightarrow> None | c # _ \<Rightarrow> Some c)"

definition is_push_candidate :: "opportunity_candidate option \<Rightarrow> bool" where
  "is_push_candidate c = (map_option oc_id c = Some ''push_publish_candidate'')"

definition candidate_areas :: "context_snapshot \<Rightarrow> string list" where
  "candidate_areas context =
     (let selected = proposal_candidate context;
          historical = (if is_push_candidate selected
            then (case ph_bestCorridor (cx_publishHistory context) of None \<Rightarrow> [] | Some c \<Rightarrow> hc_changedFiles c)
            else []);
          ofSelected = (case selected of None \<Rightarrow> [] | Some c \<Rightarrow> oc_repoAreas c);
          ofHypothesis = (case im_directionHypotheses (cx_intent context) of [] \<Rightarrow> []
            | h # _ \<Rightarrow> dh_suggestedAreas h);
          ofPrevious = (case cx_previousSummary context of None \<Rightarrow> [] | Some p \<Rightarrow> su_suggestedNextAreas p)
      in if ofSelected \<noteq> [] then ofSelected @ historical
         else if ofHypothesis \<noteq> [] then ofHypothesis
         else if ofPrevious \<noteq> [] then ofPrevious
         else rc_relevantFiles (cx_repo context))"

definition area_limit :: "run_record \<Rightarrow> context_snapshot \<Rightarrow> int" where
  "area_limit run context =
     min (nullish (maxFilesPerIteration (rn_budget run)) 6)
         (et_effectiveMaxFilesPerIteration (cx_executionTuning context))"

definition proposal_validation_plan :: "context_snapshot \<Rightarrow> string list" where
  "proposal_validation_plan context =
     (if is_push_candidate (proposal_candidate context) then resolveHistoricalValidationPlan context
      else pickValidationPlan context)"

definition selection_reason :: "run_record \<Rightarrow> context_snapshot \<Rightarrow> string" where
  "selection_reason run context =
     (let selected = proposal_candidate context;
          health = ss_routeHealth (cx_startState context)
      in js_join '' ''
        [''Route preference '' @ underscores_to_spaces (show_preference (ds_routePreference (rn_destination run)))
           @ '' is active.'',
         ''Direction hypothesis: '' @ nullish (first_hypothesis_summary context) ''none'' @ ''.'',
         ''Selected opportunity: '' @ nullish (map_option oc_id selected) ''none'' @ '' (''
           @ nullish (map_option oc_title selected) ''none'' @ '').'',
         ''Execution tuning: '' @ et_summary (cx_executionTuning context),
         (case ph_bestCorridor (cx_publishHistory context) of
            Some c \<Rightarrow> ''Historical publish corridor: '' @ hc_summaryText c
          | None \<Rightarrow> ''No historical publish corridor is active.''),
         (let caution = nullish (ph_latestFailureSummary (cx_publishHistory context)) []
          in if caution \<noteq> [] then ''Historical publish caution: '' @ caution
             else ''No historical publish caution is active.''),
         (if rh_rerouteRecommended health
          then ''Reroute signal detected: '' @ nullish (rh_rerouteReason health) ''unknown trigger'' @ ''.''
          else ''No reroute signal is active.'')])"

definition buildNextTaskProposal :: "run_record \<Rightarrow> context_snapshot \<Rightarrow> route_proposal" where
  "buildNextTaskProposal run context =
     (let validationPlan = proposal_validation_plan context;
          repoAreas = dedupe_areas (candidate_areas context) (Some (area_limit run context));
          milestones = buildMilestones context repoAreas validationPlan;
          routeSummary = resolveRouteSummary context milestones;
          waypoint = buildWaypoint context repoAreas validationPlan;
          health = ss_routeHealth (cx_startState context)
      in \<lparr>pp_runId = rn_runId run, pp_iteration = cx_iteration context,
          pp_routeSummary = routeSummary, pp_routeSelectionReason = selection_reason run context,
          pp_whyThisWaypointNow = wp_whyNow waypoint, pp_evidence = buildEvidence context,
          pp_evidenceSummary = js_join '' ''
            ([im_summary (cx_intent context)] @ map re_summary (take 2 (rc_ruleEvidence (cx_repo context)))
             @ take 2 (dd_arrivalCriteria (ds_doneDefinition (cx_destination context)))),
          pp_collaboratorIntentSummary = ci_probableIntent (cx_collaboratorIntent context),
          pp_milestones = milestones, pp_currentWaypoint = waypoint,
          pp_remainingMilestones =
            map ml_title (filter (\<lambda>m. ml_status m = MsRemaining \<or> ml_status m = MsBlocked) milestones),
          pp_routeConfidence =
            (if sy_stopRisk (ss_system (cx_startState context)) = High \<or> rh_rerouteRecommended health
             then Low else wp_confidence waypoint),
          pp_promptText = buildPromptText run context routeSummary waypoint milestones\<rparr>)"

section \<open>The review\<close>

text \<open>\<^verbatim>\<open>/tauri|rust|runtime host/i\<close>, \<^verbatim>\<open>/mainline|team intends|clearly|definitely/i\<close>, \<^verbatim>\<open>/reroute/i\<close>\<close>

definition desktop_re :: re where
  "desktop_re = Alts (Lit_i ''tauri'') [Lit_i ''rust'', Lit_i ''runtime host'']"

definition overstated_re :: re where
  "overstated_re = Alts (Lit_i ''mainline'') [Lit_i ''team intends'', Lit_i ''clearly'', Lit_i ''definitely'']"

definition reroute_re :: re where "reroute_re = Lit_i ''reroute''"

definition issue_when :: "bool \<Rightarrow> issue_code \<Rightarrow> string \<Rightarrow> review_issue list" where
  "issue_when b code detail = (if b then [\<lparr>ri_code = code, ri_detail = detail\<rparr>] else [])"

definition review_issues :: "route_proposal \<Rightarrow> context_snapshot \<Rightarrow> run_record \<Rightarrow> review_issue list" where
  "review_issues proposal context run =
     (let waypoint = pp_currentWaypoint proposal;
          areas = wp_repoAreas waypoint;
          collaborator = cx_collaboratorIntent context;
          start = cx_startState context
      in issue_when (nullish (maxFilesPerIteration (rn_budget run)) 8 < int (length areas)) ScopeTooLarge
           (''Waypoint touches '' @ show_nat (length areas)
             @ '' areas, exceeding the configured per-iteration budget.'')
       @ issue_when (list_ex (\<lambda>area. starts_with area ''apps/code-tauri/''
                        \<or> starts_with area ''packages/code-runtime-service-rs/'') areas
                     \<and> \<not> re_test desktop_re (ds_title (rn_destination run))) DesktopWebMixup
           ''The route mixes desktop or Rust runtime surfaces into a destination that currently reads like a web-app slice.''
       @ issue_when (wp_validationPlan waypoint = [] \<and> areas \<noteq> []) MissingValidation
           ''Mutating waypoints should include at least one explicit validation step.''
       @ issue_when (ci_conflictRisk collaborator = High \<and> ci_confidence collaborator \<noteq> Low)
           ProtectedBoundaryConflict
           ''Recent collaborator signals suggest a high conflict risk against current boundary changes.''
       @ issue_when (ci_confidence collaborator = Low
                     \<and> re_test overstated_re (pp_collaboratorIntentSummary proposal)) LowEvidenceInference
           ''The route overstates collaborator intent despite limited evidence.''
       @ issue_when (\<not> str_includes (pp_promptText proposal) ''Destination:'') ProposalDrift
           ''The rendered route prompt does not restate the destination.''
       @ issue_when (sy_stopRisk (ss_system start) = High \<or> sy_remainingIterations (ss_system start) \<le> 0)
           RouteBudgetPressure
           ''The current start state is already at a high stop risk or has no remaining iteration budget.''
       @ issue_when (rh_rerouteRecommended (ss_routeHealth start)
                     \<and> \<not> re_test reroute_re (wp_title waypoint)) RerouteRequired
           ''The route health recommends rerouting, but the current waypoint does not acknowledge it.'')"

definition reviewNextTaskProposal :: "route_proposal \<Rightarrow> context_snapshot \<Rightarrow> run_record \<Rightarrow> proposal_review" where
  "reviewNextTaskProposal proposal context run =
     (let issues = review_issues proposal context run;
          codes = map ri_code issues
      in \<lparr>rw_approved = (issues = [] \<or>
            list_all (\<lambda>c. c = RerouteRequired \<or> c = RouteBudgetPressure) codes),
          rw_issues = issues,
          rw_confidence = (if list_ex (\<lambda>c. c = ScopeTooLarge \<or> c = ProtectedBoundaryConflict
              \<or> c = RouteBudgetPressure) codes then Low else pp_routeConfidence proposal),
          rw_shouldReroute = list_ex (\<lambda>c. c = RerouteRequired) codes,
          rw_rerouteReason =
            nullish2 (map_option ri_detail (find (\<lambda>i. ri_code i = RerouteRequired) issues))
              (case rh_rerouteReason (ss_routeHealth (cx_startState context)) of
                 None \<Rightarrow> None | Some r \<Rightarrow> if r = [] then None else Some r)\<rparr>)"

section \<open>Lemmas\<close>

lemma js_join_first: "\<exists>rest. js_join sep (s # ts) = s @ rest"
  by (cases ts) auto

lemma dedupe_areas_facts:
  "set (dedupe_areas vs limit) \<subseteq> js_trim ` set vs - {[]}" "distinct (dedupe_areas vs limit)"
  using set_slice_to_subset [of _ "uniq (filter (\<lambda>v. v \<noteq> []) (map js_trim vs))"]
  by (auto simp: dedupe_areas_def slice_to_def dest: in_set_takeD)

lemma dedupe_areas_length: "0 \<le> limit \<Longrightarrow> int (length (dedupe_areas vs (Some limit))) \<le> limit"
  by (simp add: dedupe_areas_def length_slice_to_le)

text \<open>The parts of a proposal that the controller builds itself.\<close>

lemma proposal_simps [simp]:
  "pp_milestones (buildNextTaskProposal run context) =
     buildMilestones context (wp_repoAreas (pp_currentWaypoint (buildNextTaskProposal run context)))
       (proposal_validation_plan context)"
  "wp_repoAreas (pp_currentWaypoint (buildNextTaskProposal run context)) =
     dedupe_areas (candidate_areas context) (Some (area_limit run context))"
  "wp_title (pp_currentWaypoint (buildNextTaskProposal run context)) =
     wd_title (waypoint_draft_for context (proposal_validation_plan context))"
  "wp_validationPlan (pp_currentWaypoint (buildNextTaskProposal run context)) = proposal_validation_plan context"
  "pp_collaboratorIntentSummary (buildNextTaskProposal run context) = ci_probableIntent (cx_collaboratorIntent context)"
  "pp_remainingMilestones (buildNextTaskProposal run context) =
     map ml_title (filter (\<lambda>m. ml_status m = MsRemaining \<or> ml_status m = MsBlocked)
       (pp_milestones (buildNextTaskProposal run context)))"
  by (simp_all add: buildNextTaskProposal_def buildWaypoint_def Let_def)

lemma prompt_restates_destination:
  "str_includes (pp_promptText (buildNextTaskProposal run context)) ''Destination:''"
proof -
  obtain rest where "pp_promptText (buildNextTaskProposal run context)
      = (''Destination: '' @ ds_title (cx_destination context)) @ rest"
    unfolding buildNextTaskProposal_def buildPromptText_def Let_def route_proposal.simps
    using js_join_first by blast
  then show ?thesis by (simp add: str_includes_iff sublist_code)
qed

lemma title_acknowledges_reroute:
  "re_test reroute_re (wd_title (waypoint_draft_for context plan))
     \<longleftrightarrow> rh_offRoute (ss_routeHealth (cx_startState context))"
proof -
  have yes: "re_test reroute_re ''Reroute back to the destination corridor''" by code_simp
  have no: "\<not> re_test reroute_re ''Establish the route baseline''"
    "\<not> re_test reroute_re ''Validate and close the shortest safe route''"
    "\<not> re_test reroute_re ''Advance the current waypoint''"
    "\<not> re_test reroute_re ''Repair the route after validation drift''" by code_simp+
  show ?thesis
    using yes no
    by (simp add: waypoint_draft_for_def reroute_draft_def repair_draft_def advance_draft_def
        baseline_draft_def Let_def)
qed

lemma issue_when_simps [simp]:
  "set (map ri_code (issue_when b c d)) = (if b then {c} else {})" "issue_when False c d = []"
  "issue_when b c d = [] \<longleftrightarrow> \<not> b"
  by (simp_all add: issue_when_def)

text \<open>Which issues a review raises.\<close>

definition raised :: "route_proposal \<Rightarrow> context_snapshot \<Rightarrow> run_record \<Rightarrow> issue_code set" where
  "raised proposal context run = set (map ri_code (review_issues proposal context run))"

lemma review_codes:
  "rw_approved (reviewNextTaskProposal proposal context run)
     \<longleftrightarrow> raised proposal context run \<subseteq> {RerouteRequired, RouteBudgetPressure}"
  "rw_shouldReroute (reviewNextTaskProposal proposal context run)
     \<longleftrightarrow> RerouteRequired \<in> raised proposal context run"
  by (auto simp: reviewNextTaskProposal_def raised_def Let_def list_all_iff list_ex_iff)

text \<open>The conflicts with the surroundings of which a proposal of the controller's own can be guilty.\<close>

definition mixes_desktop :: "route_proposal \<Rightarrow> run_record \<Rightarrow> bool" where
  "mixes_desktop proposal run \<longleftrightarrow>
     list_ex (\<lambda>area. starts_with area ''apps/code-tauri/''
       \<or> starts_with area ''packages/code-runtime-service-rs/'') (wp_repoAreas (pp_currentWaypoint proposal))
     \<and> \<not> re_test desktop_re (ds_title (rn_destination run))"

definition collaborator_conflict :: "context_snapshot \<Rightarrow> bool" where
  "collaborator_conflict context \<longleftrightarrow>
     ci_conflictRisk (cx_collaboratorIntent context) = High
     \<and> ci_confidence (cx_collaboratorIntent context) \<noteq> Low"

definition overstates_intent :: "context_snapshot \<Rightarrow> bool" where
  "overstates_intent context \<longleftrightarrow>
     ci_confidence (cx_collaboratorIntent context) = Low
     \<and> re_test overstated_re (ci_probableIntent (cx_collaboratorIntent context))"

definition budget_pressure :: "context_snapshot \<Rightarrow> bool" where
  "budget_pressure context \<longleftrightarrow>
     sy_stopRisk (ss_system (cx_startState context)) = High
     \<or> sy_remainingIterations (ss_system (cx_startState context)) \<le> 0"

definition reroute_unacknowledged :: "context_snapshot \<Rightarrow> bool" where
  "reroute_unacknowledged context \<longleftrightarrow>
     rh_rerouteRecommended (ss_routeHealth (cx_startState context))
     \<and> \<not> rh_offRoute (ss_routeHealth (cx_startState context))"

lemma own_proposal_issues:
  fixes run cx
  defines "proposal \<equiv> buildNextTaskProposal run cx"
  defines "areas \<equiv> wp_repoAreas (pp_currentWaypoint proposal)"
  assumes "0 \<le> nullish (maxFilesPerIteration (rn_budget run)) 6"
    and "0 \<le> et_effectiveMaxFilesPerIteration (cx_executionTuning cx)"
  shows "raised proposal cx run =
    (if mixes_desktop proposal run then {DesktopWebMixup} else {})
    \<union> (if proposal_validation_plan cx = [] \<and> areas \<noteq> [] then {MissingValidation} else {})
    \<union> (if collaborator_conflict cx then {ProtectedBoundaryConflict} else {})
    \<union> (if overstates_intent cx then {LowEvidenceInference} else {})
    \<union> (if budget_pressure cx then {RouteBudgetPressure} else {})
    \<union> (if reroute_unacknowledged cx then {RerouteRequired} else {})"
proof -
  have limit: "0 \<le> area_limit run cx" using assms(3,4) by (simp add: area_limit_def)
  have "int (length areas) \<le> area_limit run cx"
    using dedupe_areas_length [OF limit] by (simp add: areas_def proposal_def)
  also have "\<dots> \<le> nullish (maxFilesPerIteration (rn_budget run)) 8"
    by (cases "maxFilesPerIteration (rn_budget run)") (simp_all add: area_limit_def)
  finally have scope: "(nullish (maxFilesPerIteration (rn_budget run)) 8 < int (length areas)) = False"
    by simp
  have plan: "wp_validationPlan (pp_currentWaypoint proposal) = proposal_validation_plan cx"
    and intent: "pp_collaboratorIntentSummary proposal = ci_probableIntent (cx_collaboratorIntent cx)"
    and title: "re_test reroute_re (wp_title (pp_currentWaypoint proposal))
        \<longleftrightarrow> rh_offRoute (ss_routeHealth (cx_startState cx))"
    by (simp_all add: proposal_def title_acknowledges_reroute)
  have prompt: "(\<not> str_includes (pp_promptText proposal) ''Destination:'') = False"
    by (simp only: proposal_def prompt_restates_destination not_True_eq_False)
  show ?thesis
    unfolding raised_def review_issues_def Let_def areas_def [symmetric] scope prompt plan intent title
      mixes_desktop_def collaborator_conflict_def overstates_intent_def budget_pressure_def
      reroute_unacknowledged_def map_append set_append issue_when_simps
    by simp
qed

section \<open>Properties\<close>

text \<open>The review of a proposal that the controller built itself.  As long as the file limits are
  not negative, such a proposal is never too large and never drifts from the destination.  It is
  approved exactly when it does not mix in desktop surfaces, has a validation step for the areas
  it touches, and neither conflicts with nor overstates the collaborators' intent; it asks for a
  reroute exactly when the route health recommends one while the run is still on its route.\<close>

theorem own_proposal_review:
  assumes "0 \<le> nullish (maxFilesPerIteration (rn_budget run)) 6"
    and "0 \<le> et_effectiveMaxFilesPerIteration (cx_executionTuning context)"
  shows "let proposal = buildNextTaskProposal run context;
             review = reviewNextTaskProposal proposal context run
    in {ScopeTooLarge, ProposalDrift} \<inter> set (map ri_code (rw_issues review)) = {}
     \<and> (rw_approved review \<longleftrightarrow>
         \<not> mixes_desktop proposal run
         \<and> (proposal_validation_plan context \<noteq> [] \<or> wp_repoAreas (pp_currentWaypoint proposal) = [])
         \<and> \<not> collaborator_conflict context \<and> \<not> overstates_intent context)
     \<and> (rw_shouldReroute review \<longleftrightarrow> reroute_unacknowledged context)"
proof -
  have issues: "set (map ri_code (rw_issues (reviewNextTaskProposal p context run))) = raised p context run" for p
    by (simp add: reviewNextTaskProposal_def raised_def Let_def)
  show ?thesis
    unfolding Let_def issues review_codes(1,2) own_proposal_issues [OF assms]
    by (auto split: if_splits)
qed

theorem own_proposal_review_witness:
  "rw_approved (reviewNextTaskProposal (buildNextTaskProposal example_run example_context) example_context example_run)
   \<and> \<not> rw_shouldReroute (reviewNextTaskProposal (buildNextTaskProposal example_run example_context)
         example_context example_run)"
proof -
  have areas: "wp_repoAreas (pp_currentWaypoint (buildNextTaskProposal example_run example_context))
      = [''src/panel.ts'', ''src/app.ts'']"
    "proposal_validation_plan example_context = [''pnpm validate'']" by code_simp+
  have limits: "0 \<le> nullish (maxFilesPerIteration (rn_budget example_run)) 6"
    "0 \<le> et_effectiveMaxFilesPerIteration (cx_executionTuning example_context)"
    by (simp_all add: example_defs)
  have "\<not> mixes_desktop (buildNextTaskProposal example_run example_context) example_run"
    unfolding mixes_desktop_def areas by simp
  with own_proposal_review [OF limits] show ?thesis
    unfolding Let_def areas
    by (simp add: collaborator_conflict_def overstates_intent_def reroute_unacknowledged_def example_defs)
qed

text \<open>The areas of a proposed waypoint are distinct, trimmed, non-empty and at most as many as
  the per-iteration limits allow, whatever list they come from.\<close>

theorem proposal_areas_bounded:
  assumes "0 \<le> area_limit run context"
  shows "let areas = wp_repoAreas (pp_currentWaypoint (buildNextTaskProposal run context)) in
     distinct areas \<and> int (length areas) \<le> area_limit run context
     \<and> set areas \<subseteq> js_trim ` set (candidate_areas context) - {[]}"
  using dedupe_areas_facts [of "candidate_areas context" "Some (area_limit run context)"]
    dedupe_areas_length [OF assms, of "candidate_areas context"]
  by (simp add: Let_def)

theorem proposal_areas_bounded_witness:
  "length (wp_repoAreas (pp_currentWaypoint (buildNextTaskProposal example_run example_context))) = 2
   \<and> int (length (wp_repoAreas (pp_currentWaypoint (buildNextTaskProposal example_run example_context)))) \<le> 3"
proof
  show "length (wp_repoAreas (pp_currentWaypoint (buildNextTaskProposal example_run example_context))) = 2"
    by code_simp
  have "area_limit example_run example_context = 3" by (simp add: area_limit_def example_defs)
  then show "int (length (wp_repoAreas (pp_currentWaypoint (buildNextTaskProposal example_run example_context)))) \<le> 3"
    using proposal_areas_bounded [of example_run example_context] by (simp add: Let_def)
qed

text \<open>The last milestone of a proposal is never counted as done: its status is remaining, or
  blocked when the run is off its route.  So the remaining milestones of a proposal are never
  empty, and a rule that waits for an empty list never applies to the controller's own proposals.\<close>

theorem remaining_milestones_never_empty:
  "\<exists>ts. pp_remainingMilestones (buildNextTaskProposal run context)
     = ts @ [''Validate the route and decide whether to arrive or reroute'']"
  by (simp add: buildMilestones_def Let_def)

end
