(* ===== verification/SeverityJoin.thy ===== *)
theory SeverityJoin
  imports Prelude
begin

text \<open>
  Combining severities: several components keep the worst of two ordered levels.  Whoever does so
  by comparing ranks gets the laws of a join from this interface.
\<close>

locale severity_join =
  fixes severity :: "'a \<Rightarrow> nat"
    and join :: "'a \<Rightarrow> 'a \<Rightarrow> 'a"
  assumes severity_inj: "severity a = severity b \<Longrightarrow> a = b"
    and severity_of_join: "severity (join a b) = max (severity a) (severity b)"
begin

lemma commute: "join a b = join b a"
  by (rule severity_inj) (simp add: severity_of_join max.commute)

lemma assoc: "join (join a b) c = join a (join b c)"
  by (rule severity_inj) (simp add: severity_of_join max.assoc)

lemma idem: "join a a = a"
  by (rule severity_inj) (simp add: severity_of_join)

lemma worst_of: "join a b = a \<or> join a b = b"
  using severity_of_join [of a b] by (auto simp: max_def intro: severity_inj split: if_splits)

lemma fold_severity: "severity (foldl join a bs) = foldl max (severity a) (map severity bs)"
  by (induction bs arbitrary: a) (simp_all add: severity_of_join)

lemma never_lowers: "severity a \<le> severity (join a b)" "severity b \<le> severity (join a b)"
  by (simp_all add: severity_of_join)

end

end
