(* ===== verification/AutoDrivePolicy.thy ===== *)
theory AutoDrivePolicy
  imports AutoDriveTypes AutoDriveExamples SeverityJoin
begin

text \<open>
  What AutoDrive does after an iteration: \<open>decideAutoDriveNextStep\<close> of
  \<^verbatim>\<open>facades/runtimeAutoDrivePolicy.ts\<close>, and the checks before an iteration and at its end of
  \<^verbatim>\<open>facades/runtimeAutoDriveCompat/controllerSupport.ts\<close>.
\<close>

section \<open>The decision\<close>

definition nextRiskLevel :: "risk_level \<Rightarrow> risk_level \<Rightarrow> risk_level" where
  "nextRiskLevel left right = (if rank left \<ge> rank right then left else right)"

definition first_or :: "string list \<Rightarrow> string \<Rightarrow> string" where
  "first_or xs d = (case xs of [] \<Rightarrow> d | x # _ \<Rightarrow> x)"

definition buildRerouteRecord :: "run_record \<Rightarrow> iteration_summary \<Rightarrow> reroute_record" where
  "buildRerouteRecord run latest =
     \<lparr>rr_iteration = su_iteration latest,
      rr_mode = (if rh_offRoute (su_routeHealth latest) then RerouteHard else RerouteSoft),
      rr_reason = nullish (rh_rerouteReason (su_routeHealth latest))
        (first_or (su_blockers latest) ''The route needs to be replanned.''),
      rr_trigger = first_or (rh_triggerSignals (su_routeHealth latest)) ''No explicit trigger recorded.'',
      rr_previousRouteSummary = nv_routeSummary (rn_navigation run),
      rr_nextRouteSummary = None,
      rr_createdAt = su_createdAt latest\<rparr>"

text \<open>\<^verbatim>\<open>/yes/i\<close>, \<^verbatim>\<open>/human checkpoint/i\<close>, \<^verbatim>\<open>/permission|credential|missing info|clarify|human/i\<close>\<close>

definition yes_re :: re where "yes_re = Lit_i ''yes''"
definition checkpoint_re :: re where "checkpoint_re = Lit_i ''human checkpoint''"

definition human_input_re :: re where
  "human_input_re = Alts (Lit_i ''permission'')
     [Lit_i ''credential'', Lit_i ''missing info'', Lit_i ''clarify'', Lit_i ''human'']"

definition stop_with :: "stop_action \<Rightarrow> stop_code \<Rightarrow> string \<Rightarrow> next_decision" where
  "stop_with action code detail =
     \<lparr>nd_action = action, nd_reason = Some \<lparr>sr_code = code, sr_detail = detail\<rparr>, nd_reroute = None\<rparr>"

definition has_publish_failure :: "execution_tuning option \<Rightarrow> bool" where
  "has_publish_failure tuning =
     (case tuning of None \<Rightarrow> False | Some t \<Rightarrow> ''historical_publish_failure'' \<in> set (et_reasons t))"

definition has_publish_corridor :: "execution_tuning option \<Rightarrow> bool" where
  "has_publish_corridor tuning =
     (case tuning of None \<Rightarrow> False
      | Some t \<Rightarrow> et_publishPriority t = PrioPushCandidate \<and>
          (''historical_publish_corridor'' \<in> set (et_reasons t) \<or>
           ''publish_corridor_stable'' \<in> set (et_reasons t)))"

text \<open>The conditions of the decision, in the order in which the code tests them.\<close>

definition confidence_relaxed :: "iteration_summary \<Rightarrow> execution_tuning option \<Rightarrow> bool" where
  "confidence_relaxed latest tuning =
     (has_publish_corridor tuning \<and> vr_success (su_validation latest) = Some True
      \<and> pg_stopRisk (su_progress latest) \<noteq> High \<and> su_blockers latest = [])"

definition low_confidence :: "run_record \<Rightarrow> iteration_summary \<Rightarrow> confidence \<Rightarrow> execution_tuning option \<Rightarrow> bool" where
  "low_confidence run latest critic tuning =
     (pauseOnLowConfidence (rn_riskPolicy run) \<and>
      (rank critic < rank (minimumConfidence (rn_riskPolicy run)) \<or>
       (\<not> confidence_relaxed latest tuning \<and>
        rank (pg_arrivalConfidence (su_progress latest)) < rank (minimumConfidence (rn_riskPolicy run)))))"

definition asks_checkpoint :: "run_record \<Rightarrow> iteration_summary \<Rightarrow> bool" where
  "asks_checkpoint run latest =
     (pauseOnHumanCheckpoint (rn_riskPolicy run) \<and> re_test yes_re (su_summaryText latest)
      \<and> re_test checkpoint_re (su_summaryText latest))"

definition drifted :: "iteration_summary \<Rightarrow> bool" where
  "drifted latest =
     (rh_rerouteRecommended (su_routeHealth latest)
      \<or> wr_status (su_waypoint latest) = WpMissed \<or> wr_status (su_waypoint latest) = WpBlocked)"

definition duration_exhausted :: "run_record \<Rightarrow> bool" where
  "duration_exhausted run =
     (case maxDurationMs (rn_budget run) of None \<Rightarrow> False | Some m \<Rightarrow> elapsedMs (rn_totals run) \<ge> m)"

definition decideAutoDriveNextStep :: "run_record \<Rightarrow> iteration_summary \<Rightarrow> confidence \<Rightarrow> bool \<Rightarrow> bool \<Rightarrow>
    execution_tuning option \<Rightarrow> next_decision" where
  "decideAutoDriveNextStep run latest critic destructive dependency tuning =
     (let effectiveRisk = nextRiskLevel (nv_stopRisk (rn_navigation run)) (pg_stopRisk (su_progress latest))
      in if su_goalReached latest then
           stop_with ActStop GoalReached ''The latest waypoint satisfied the destination arrival criteria.''
         else if consumedTokensEstimate (rn_totals run) \<ge> maxTokens (rn_budget run) then
           stop_with ActStop TokenBudgetExhausted ''The configured token budget has been exhausted.''
         else if duration_exhausted run then
           stop_with ActStop DurationBudgetExhausted ''The configured duration budget has been exhausted.''
         else if rn_iteration run \<ge> maxIterations (rn_budget run) then
           stop_with ActStop MaxIterationsReached ''The run reached the configured iteration limit.''
         else if pg_overallProgress (su_progress latest) = 0
                 \<and> noProgressCount (rn_totals run) \<ge> maxNoProgressIterations (rn_budget run) then
           stop_with ActStop NoMeaningfulProgress
             ''The route has made no meaningful progress for too many consecutive iterations.''
         else if vr_success (su_validation latest) = Some False
                 \<and> validationFailureCount (rn_totals run) \<ge> maxValidationFailures (rn_budget run) then
           stop_with ActStop RepeatedValidationFailures
             ''Validation failed repeatedly and the route should stop for review.''
         else if rerouteCount (rn_totals run) \<ge> maxReroutes (rn_budget run) then
           stop_with ActStop RerouteLimitReached
             ''The route has rerouted too many times and should stop safely.''
         else if destructive \<and> pauseOnDestructiveChange (rn_riskPolicy run) then
           stop_with ActPause DestructiveChangeRequiresReview
             ''A destructive change was detected and the risk policy requires review.''
         else if dependency \<and> pauseOnDependencyChange (rn_riskPolicy run) then
           stop_with ActPause DependencyChangeRequiresReview
             ''A dependency or manifest change was detected and the risk policy requires review.''
         else if low_confidence run latest critic tuning then
           stop_with ActPause ConfidenceTooLow
             ''Proposal or route confidence fell below the configured threshold.''
         else if asks_checkpoint run latest then
           stop_with ActPause HumanCheckpointRequired
             ''The latest waypoint explicitly requested a human checkpoint.''
         else if list_ex (re_test human_input_re) (su_blockers latest) then
           stop_with ActPause MissingHumanInput
             ''The latest summary indicates missing information or permissions that require human input.''
         else if drifted latest then
           (if has_publish_failure tuning then
              stop_with ActPause UnsafeRouteRequiresReview
                ''This route matches a historically failed publish corridor and drifted again, so it should pause for review before rerouting.''
            else \<lparr>nd_action = ActReroute,
                  nd_reason = (if effectiveRisk = High
                    then Some \<lparr>sr_code = UnsafeRouteRequiresReview,
                           sr_detail = ''The route drifted under high stop risk and requires replanning.''\<rparr>
                    else None),
                  nd_reroute = Some (buildRerouteRecord run latest)\<rparr>)
         else \<lparr>nd_action = ActContinue, nd_reason = None, nd_reroute = None\<rparr>)"

section \<open>Before an iteration, and at the end of the run\<close>

definition getPreIterationStopReason :: "run_record \<Rightarrow> stop_reason option" where
  "getPreIterationStopReason run =
     (if consumedTokensEstimate (rn_totals run) \<ge> maxTokens (rn_budget run) then
        Some \<lparr>sr_code = TokenBudgetExhausted, sr_detail = ''The configured token budget has been exhausted.''\<rparr>
      else if duration_exhausted run then
        Some \<lparr>sr_code = DurationBudgetExhausted, sr_detail = ''The configured duration budget has been exhausted.''\<rparr>
      else if rn_iteration run \<ge> maxIterations (rn_budget run) then
        Some \<lparr>sr_code = MaxIterationsReached, sr_detail = ''The run reached the configured iteration limit.''\<rparr>
      else if rerouteCount (rn_totals run) \<ge> maxReroutes (rn_budget run) then
        Some \<lparr>sr_code = RerouteLimitReached,
              sr_detail = ''The route has rerouted too many times and should stop safely.''\<rparr>
      else if validationFailureCount (rn_totals run) \<ge> maxValidationFailures (rn_budget run) then
        Some \<lparr>sr_code = RepeatedValidationFailures,
              sr_detail = ''Validation failed repeatedly and the route should stop for review.''\<rparr>
      else if noProgressCount (rn_totals run) \<ge> maxNoProgressIterations (rn_budget run) then
        Some \<lparr>sr_code = NoMeaningfulProgress,
              sr_detail = ''The route has made no meaningful progress for too many consecutive iterations.''\<rparr>
      else None)"

definition resolveTerminalState :: "stop_reason \<Rightarrow> run_status \<times> run_stage" where
  "resolveTerminalState reason =
     (if sr_code reason = GoalReached then (RunCompleted, StCompleted)
      else if sr_code reason = MissingHumanInput then (RunPaused, StPaused)
      else (RunStopped, StStopped))"

text \<open>\<open>/package\.json|pnpm-lock|Cargo\.toml|Cargo\.lock/i\<close>\<close>

definition manifest_re :: re where
  "manifest_re = Alts (Lit_i ''package.json'') [Lit_i ''pnpm-lock'', Lit_i ''Cargo.toml'', Lit_i ''Cargo.lock'']"

definition hasDestructiveSignals :: "iteration_summary \<Rightarrow> bool" where
  "hasDestructiveSignals summary = list_ex (re_test manifest_re) (su_changedFiles summary)"


section \<open>Lemmas\<close>

interpretation risk: severity_join rank nextRiskLevel
  by unfold_locales (auto simp: nextRiskLevel_def rank_def max_def split: level.splits)

lemma nextRiskLevel_max: "nextRiskLevel a b = max a b"
  by (cases a; cases b) (simp_all add: nextRiskLevel_def rank_def max_def less_eq_level_def)

definition budgets_left :: "run_record \<Rightarrow> bool" where
  "budgets_left run \<longleftrightarrow>
     consumedTokensEstimate (rn_totals run) < maxTokens (rn_budget run)
     \<and> (\<forall>m. maxDurationMs (rn_budget run) = Some m \<longrightarrow> elapsedMs (rn_totals run) < m)
     \<and> rn_iteration run < maxIterations (rn_budget run)
     \<and> rerouteCount (rn_totals run) < maxReroutes (rn_budget run)"

lemma not_duration_exhausted:
  "\<not> duration_exhausted run \<longleftrightarrow>
   (\<forall>m. maxDurationMs (rn_budget run) = Some m \<longrightarrow> elapsedMs (rn_totals run) < m)"
  by (auto simp: duration_exhausted_def not_le split: option.splits)

lemma stop_with_simps [simp]:
  "nd_action (stop_with a c d) = a" "nd_reason (stop_with a c d) = Some \<lparr>sr_code = c, sr_detail = d\<rparr>"
  "nd_reroute (stop_with a c d) = None"
  by (simp_all add: stop_with_def)

text \<open>The reasons to stop, and the reasons to pause, of a decision.\<close>

definition must_stop :: "run_record \<Rightarrow> iteration_summary \<Rightarrow> bool" where
  "must_stop run latest \<longleftrightarrow> su_goalReached latest \<or> \<not> budgets_left run
     \<or> pg_overallProgress (su_progress latest) = 0
         \<and> noProgressCount (rn_totals run) \<ge> maxNoProgressIterations (rn_budget run)
     \<or> vr_success (su_validation latest) = Some False
         \<and> validationFailureCount (rn_totals run) \<ge> maxValidationFailures (rn_budget run)"

definition must_pause :: "run_record \<Rightarrow> iteration_summary \<Rightarrow> confidence \<Rightarrow> bool \<Rightarrow> bool \<Rightarrow>
    execution_tuning option \<Rightarrow> bool" where
  "must_pause run latest critic destructive dependency tuning \<longleftrightarrow>
     destructive \<and> pauseOnDestructiveChange (rn_riskPolicy run)
     \<or> dependency \<and> pauseOnDependencyChange (rn_riskPolicy run)
     \<or> low_confidence run latest critic tuning \<or> asks_checkpoint run latest
     \<or> list_ex (re_test human_input_re) (su_blockers latest)
     \<or> drifted latest \<and> has_publish_failure tuning"

lemma must_stop_split:
  "must_stop run latest \<longleftrightarrow> su_goalReached latest
     \<or> consumedTokensEstimate (rn_totals run) \<ge> maxTokens (rn_budget run)
     \<or> duration_exhausted run \<or> rn_iteration run \<ge> maxIterations (rn_budget run)
     \<or> pg_overallProgress (su_progress latest) = 0
         \<and> noProgressCount (rn_totals run) \<ge> maxNoProgressIterations (rn_budget run)
     \<or> vr_success (su_validation latest) = Some False
         \<and> validationFailureCount (rn_totals run) \<ge> maxValidationFailures (rn_budget run)
     \<or> rerouteCount (rn_totals run) \<ge> maxReroutes (rn_budget run)"
  using not_duration_exhausted [of run] unfolding must_stop_def budgets_left_def by auto

lemma decide_stop:
  "nd_action (decideAutoDriveNextStep run latest critic destructive dependency tuning) = ActStop
     \<longleftrightarrow> must_stop run latest"
  unfolding decideAutoDriveNextStep_def Let_def must_stop_split by simp

lemma decide_pause:
  "\<not> must_stop run latest \<Longrightarrow>
   nd_action (decideAutoDriveNextStep run latest critic destructive dependency tuning) = ActPause
     \<longleftrightarrow> must_pause run latest critic destructive dependency tuning"
  unfolding decideAutoDriveNextStep_def Let_def must_stop_split must_pause_def by simp

lemma decide_reroute:
  "\<not> must_stop run latest \<Longrightarrow> \<not> must_pause run latest critic destructive dependency tuning \<Longrightarrow>
   decideAutoDriveNextStep run latest critic destructive dependency tuning =
     (if drifted latest then
        \<lparr>nd_action = ActReroute,
         nd_reason = (if nextRiskLevel (nv_stopRisk (rn_navigation run)) (pg_stopRisk (su_progress latest)) = High
           then Some \<lparr>sr_code = UnsafeRouteRequiresReview,
                  sr_detail = ''The route drifted under high stop risk and requires replanning.''\<rparr>
           else None),
         nd_reroute = Some (buildRerouteRecord run latest)\<rparr>
      else \<lparr>nd_action = ActContinue, nd_reason = None, nd_reroute = None\<rparr>)"
proof -
  assume ns: "\<not> must_stop run latest"
    and np: "\<not> must_pause run latest critic destructive dependency tuning"
  have s: "(su_goalReached latest) = False"
      "(consumedTokensEstimate (rn_totals run) \<ge> maxTokens (rn_budget run)) = False"
      "(duration_exhausted run) = False" "(rn_iteration run \<ge> maxIterations (rn_budget run)) = False"
      "(pg_overallProgress (su_progress latest) = 0
         \<and> noProgressCount (rn_totals run) \<ge> maxNoProgressIterations (rn_budget run)) = False"
      "(vr_success (su_validation latest) = Some False
         \<and> validationFailureCount (rn_totals run) \<ge> maxValidationFailures (rn_budget run)) = False"
      "(rerouteCount (rn_totals run) \<ge> maxReroutes (rn_budget run)) = False"
    using ns unfolding must_stop_split by blast+
  have p: "(destructive \<and> pauseOnDestructiveChange (rn_riskPolicy run)) = False"
      "(dependency \<and> pauseOnDependencyChange (rn_riskPolicy run)) = False"
      "(low_confidence run latest critic tuning) = False" "(asks_checkpoint run latest) = False"
      "(list_ex (re_test human_input_re) (su_blockers latest)) = False"
    and q: "drifted latest \<Longrightarrow> has_publish_failure tuning = False"
    using np unfolding must_pause_def by blast+
  show ?thesis
    unfolding decideAutoDriveNextStep_def Let_def s p if_False by (rule if_cong) (simp_all only: q if_False)
qed

lemma decide_reason:
  "nd_action (decideAutoDriveNextStep run latest critic destructive dependency tuning) \<in> {ActStop, ActPause} \<Longrightarrow>
   nd_reason (decideAutoDriveNextStep run latest critic destructive dependency tuning) \<noteq> None"
  unfolding decideAutoDriveNextStep_def Let_def by (simp split: if_splits)

lemma pre_iteration_None:
  "getPreIterationStopReason run = None \<longleftrightarrow> budgets_left run
     \<and> validationFailureCount (rn_totals run) < maxValidationFailures (rn_budget run)
     \<and> noProgressCount (rn_totals run) < maxNoProgressIterations (rn_budget run)"
  using not_duration_exhausted [of run]
  unfolding getPreIterationStopReason_def budgets_left_def by auto

section \<open>Properties\<close>

text \<open>C5: the decision after an iteration is safe and complete.  It stops exactly when the goal is
  reached, a budget is used up, or progress or validation failed too often; else it pauses
  exactly when the risk policy, the confidence, a checkpoint or a blocker asks for a human, or a
  drifted route has a record of failed publishing; else it reroutes exactly when the route has
  drifted; so it continues only with every budget left.  Stops and pauses carry their reason,
  and a reroute carries its record.\<close>

theorem decide_characterised:
  "let d = decideAutoDriveNextStep run latest critic destructive dependency tuning in
     nd_action d =
       (if must_stop run latest then ActStop
        else if must_pause run latest critic destructive dependency tuning then ActPause
        else if drifted latest then ActReroute else ActContinue)
     \<and> (nd_action d = ActStop \<or> budgets_left run)
     \<and> (nd_action d \<in> {ActContinue, ActReroute} \<or> (\<exists>reason. nd_reason d = Some reason))
     \<and> nd_reroute d = (if nd_action d = ActReroute then Some (buildRerouteRecord run latest) else None)"
proof -
  let ?d = "decideAutoDriveNextStep run latest critic destructive dependency tuning"
  have 1: "nd_action ?d =
       (if must_stop run latest then ActStop
        else if must_pause run latest critic destructive dependency tuning then ActPause
        else if drifted latest then ActReroute else ActContinue)"
    using decide_stop decide_pause decide_reroute by simp
  moreover have "nd_reroute ?d = (if nd_action ?d = ActReroute then Some (buildRerouteRecord run latest) else None)"
    unfolding decideAutoDriveNextStep_def Let_def by simp
  moreover have "nd_action ?d = ActStop \<or> budgets_left run"
    using 1 by (simp add: must_stop_def)
  moreover have "nd_action ?d \<in> {ActContinue, ActReroute} \<or> (\<exists>reason. nd_reason ?d = Some reason)"
    using decide_reason [of run latest critic destructive dependency tuning]
    by (cases "nd_action ?d") auto
  ultimately show ?thesis by (simp add: Let_def)
qed

text \<open>C13: the decision after an iteration and the check before the next one agree on the budgets.
  A run whose last iteration was decided to go on (continue or reroute) is stopped by the check
  that precedes its next iteration, as long as its counters stand, only for the failure streaks
  that the decision excuses: validation failures when the last validation did not fail, and
  missing progress when some progress has been made.\<close>

theorem pre_iteration_after_decision:
  assumes "nd_action (decideAutoDriveNextStep run latest critic destructive dependency tuning)
      \<in> {ActContinue, ActReroute}"
    and "getPreIterationStopReason run = Some reason"
  shows "sr_code reason = RepeatedValidationFailures \<and> vr_success (su_validation latest) \<noteq> Some False
       \<or> sr_code reason = NoMeaningfulProgress \<and> pg_overallProgress (su_progress latest) \<noteq> 0"
proof -
  have "nd_action (decideAutoDriveNextStep run latest critic destructive dependency tuning) \<noteq> ActStop"
    using assms(1) by auto
  then have go: "\<not> must_stop run latest" unfolding decide_stop .
  then have "budgets_left run" by (simp add: must_stop_def)
  then have left: "(maxTokens (rn_budget run) \<le> consumedTokensEstimate (rn_totals run)) = False"
      "duration_exhausted run = False" "(maxIterations (rn_budget run) \<le> rn_iteration run) = False"
      "(maxReroutes (rn_budget run) \<le> rerouteCount (rn_totals run)) = False"
    using not_duration_exhausted [of run] by (auto simp: budgets_left_def)
  have "validationFailureCount (rn_totals run) \<ge> maxValidationFailures (rn_budget run)
          \<and> sr_code reason = RepeatedValidationFailures
        \<or> noProgressCount (rn_totals run) \<ge> maxNoProgressIterations (rn_budget run)
          \<and> sr_code reason = NoMeaningfulProgress"
    using assms(2) unfolding getPreIterationStopReason_def left if_False by (auto split: if_splits)
  with go show ?thesis unfolding must_stop_def by blast
qed

definition stalled_run :: run_record where
  "stalled_run = example_run\<lparr>rn_totals := example_totals\<lparr>noProgressCount := 2\<rparr>\<rparr>"

theorem pre_iteration_after_decision_witness:
  "nd_action (decideAutoDriveNextStep stalled_run example_summary High False False None) = ActContinue
   \<and> map_option sr_code (getPreIterationStopReason stalled_run) = Some NoMeaningfulProgress"
proof -
  have 1: "nd_action (decideAutoDriveNextStep stalled_run example_summary High False False None) = ActContinue"
    by code_simp
  have 2: "map_option sr_code (getPreIterationStopReason stalled_run) = Some NoMeaningfulProgress"
    by code_simp
  then obtain reason where "getPreIterationStopReason stalled_run = Some reason" by auto
  moreover from pre_iteration_after_decision [OF _ this] 1
  have "sr_code reason = NoMeaningfulProgress \<or> vr_success (su_validation example_summary) = None"
    by (auto simp: example_defs)
  ultimately show ?thesis using 1 2 by auto
qed

definition declined_report :: string where
  "declined_report = js_join [CHR 10]
     [''Outcome: drifted'', ''Off Route: yes'', ''Human Checkpoint: no'']"

text \<open>A report that declines a human checkpoint still counts as asking for one when another of
  its lines says yes: the test looks for the two phrases anywhere in the report.  The report below
  answers ''Off Route: yes'' and ''Human Checkpoint: no''; a run whose policy pauses on human
  checkpoints pauses on it instead of rerouting.\<close>

theorem declined_checkpoint_pauses:
  assumes "pauseOnHumanCheckpoint (rn_riskPolicy run)" "su_summaryText latest = declined_report"
  shows "asks_checkpoint run latest"
proof -
  have "re_test yes_re declined_report" "re_test checkpoint_re declined_report" by code_simp+
  with assms show ?thesis by (simp add: asks_checkpoint_def)
qed

theorem declined_checkpoint_pauses_witness:
  "decideAutoDriveNextStep example_run
     (example_summary\<lparr>su_summaryText := declined_report,
        su_routeHealth := example_health\<lparr>rh_rerouteRecommended := True\<rparr>\<rparr>) High False False None
   = stop_with ActPause HumanCheckpointRequired ''The latest waypoint explicitly requested a human checkpoint.''"
  (is "decideAutoDriveNextStep _ ?latest _ _ _ _ = _")
proof -
  have "asks_checkpoint example_run ?latest"
    by (rule declined_checkpoint_pauses) (simp_all add: example_defs)
  then show ?thesis
    by (simp add: decideAutoDriveNextStep_def example_defs duration_exhausted_def low_confidence_def
        rank_def Let_def)
qed

end
