(* ===== verification/AutoDriveSupport.thy ===== *)
theory AutoDriveSupport
  imports AutoDriveParsing AutoDrivePlanner AutoDrivePolicy
begin

text \<open>
  What the controller derives from a run, a proposal and the report of an iteration:
  \<^verbatim>\<open>apps/code/src/application/runtime/facades/runtimeAutoDriveCompat/controllerSupport.ts\<close>.  (Its
  checks before an iteration and at the end of a run are in AutoDrivePolicy.)
\<close>

section \<open>Tokens and navigation\<close>

text \<open>\<open>Math.ceil(text.length / 4)\<close> of the non-empty parts, joined by line breaks.\<close>

definition estimateTokens :: "string list \<Rightarrow> int" where
  "estimateTokens parts =
     (int (length (js_join [CHR 10] (filter (\<lambda>p. p \<noteq> []) parts))) + 3) div 4"

definition remaining_tokens :: "run_record \<Rightarrow> int option" where
  "remaining_tokens run =
     (if maxTokens (rn_budget run) > 0
      then Some (max 0 (maxTokens (rn_budget run) - consumedTokensEstimate (rn_totals run))) else None)"

definition remaining_iterations :: "run_record \<Rightarrow> int" where
  "remaining_iterations run = max 0 (maxIterations (rn_budget run) - rn_iteration run)"

definition remaining_duration :: "run_record \<Rightarrow> int option" where
  "remaining_duration run =
     map_option (\<lambda>m. max 0 (m - elapsedMs (rn_totals run))) (maxDurationMs (rn_budget run))"

definition buildEmptyNavigation :: "run_record \<Rightarrow> navigation_state" where
  "buildEmptyNavigation run =
     \<lparr>nv_destinationSummary = ds_title (rn_destination run), nv_startStateSummary = None,
      nv_routeSummary = None, nv_currentWaypointTitle = None, nv_currentWaypointObjective = None,
      nv_currentWaypointArrivalCriteria = [], nv_waypointStatus = None, nv_remainingMilestones = [],
      nv_currentMilestone = None, nv_overallProgress = 0, nv_waypointCompletion = 0,
      nv_offRoute = False, nv_rerouting = False, nv_rerouteReason = None, nv_remainingBlockers = [],
      nv_arrivalConfidence = Medium, nv_stopRisk = Low, nv_remainingTokens = remaining_tokens run,
      nv_remainingIterations = remaining_iterations run,
      nv_remainingDurationMs = remaining_duration run, nv_lastDecision = None\<rparr>"

definition buildNavigationFromContext :: "run_record \<Rightarrow> context_snapshot \<Rightarrow> navigation_state" where
  "buildNavigationFromContext run context =
     (let start = cx_startState context
      in (rn_navigation run)
        \<lparr>nv_destinationSummary := ds_title (cx_destination context),
         nv_startStateSummary := Some (ss_summary start),
         nv_offRoute := rh_offRoute (ss_routeHealth start),
         nv_rerouting := rh_rerouteRecommended (ss_routeHealth start),
         nv_rerouteReason := rh_rerouteReason (ss_routeHealth start),
         nv_remainingBlockers := sr_unresolvedBlockers (ss_repo start),
         nv_stopRisk := sy_stopRisk (ss_system start),
         nv_remainingTokens := sy_remainingTokensEstimate (ss_system start),
         nv_remainingIterations := sy_remainingIterations (ss_system start),
         nv_remainingDurationMs := sy_remainingDurationMs (ss_system start)\<rparr>)"

definition buildNavigationFromProposal :: "run_record \<Rightarrow> route_proposal \<Rightarrow> navigation_state" where
  "buildNavigationFromProposal run proposal =
     (let waypoint = pp_currentWaypoint proposal
      in (rn_navigation run)
        \<lparr>nv_routeSummary := Some (pp_routeSummary proposal),
         nv_currentWaypointTitle := Some (wp_title waypoint),
         nv_currentWaypointObjective := Some (wp_objective waypoint),
         nv_currentWaypointArrivalCriteria := wp_arrivalCriteria waypoint,
         nv_waypointStatus := Some WpActive,
         nv_remainingMilestones := pp_remainingMilestones proposal,
         nv_currentMilestone := Some (wp_title waypoint),
         nv_arrivalConfidence := pp_routeConfidence proposal\<rparr>)"

section \<open>The summary of an iteration\<close>

definition parseStopRisk :: "validation_result \<Rightarrow> bool \<Rightarrow> confidence \<Rightarrow> risk_level" where
  "parseStopRisk validation offRoute conf =
     (if vr_success validation = Some False \<or> offRoute \<or> conf = Low then High
      else if vr_ran validation \<or> conf = Medium then Medium
      else Low)"

definition buildDefaultRouteHealth :: "string \<Rightarrow> validation_result \<Rightarrow> waypoint_status \<Rightarrow>
    iteration_summary option \<Rightarrow> route_health" where
  "buildDefaultRouteHealth output validation status previous =
     (let offRoute = (parseBooleanSection output ''Off Route'' \<or> status \<noteq> WpArrived);
          rerouteReason = extractSingleLineSection output ''Reroute Reason''
      in \<lparr>rh_offRoute = offRoute,
          rh_noProgressLoop = ((case previous of None \<Rightarrow> False | Some p \<Rightarrow> rh_noProgressLoop (su_routeHealth p))
            \<or> vr_success validation \<noteq> Some True \<and> vr_ran validation),
          rh_rerouteRecommended = (offRoute \<or> nullish rerouteReason [] \<noteq> []
            \<or> status = WpBlocked \<or> status = WpMissed),
          rh_rerouteReason = rerouteReason,
          rh_triggerSignals = filter (\<lambda>v. v \<noteq> [])
            ((if offRoute then [''Waypoint result diverged from the planned route.''] else [])
             @ (if vr_success validation = Some False then [vr_summary validation] else [])
             @ (case rerouteReason of None \<Rightarrow> [] | Some r \<Rightarrow> [r]))\<rparr>)"

text \<open>\<^verbatim>\<open>/^blockers?:/i\<close> and \<^verbatim>\<open>/\r?\n/\<close>\<close>

definition blockers_re :: re where
  "blockers_re = Seqs [Bol, Lit_i ''blocker'', Opt (Lit_i ''s''), Lit '':'']"

definition line_break_re :: re where
  "line_break_re = Sequ (Opt (Lit [CHR 13])) (Lit [CHR 10])"

definition report_changed_files :: "string \<Rightarrow> string list" where
  "report_changed_files output = uniq (extractFilePaths output @ extractListSection output ''Changed Files'')"

definition report_blockers :: "string \<Rightarrow> string list" where
  "report_blockers output =
     extractListSection output ''Blockers''
     @ filter (\<lambda>line. line \<noteq> [])
         (map (\<lambda>line. js_trim (replace_first blockers_re [] line))
           (filter (re_test blockers_re) (re_split line_break_re output)))"

definition report_waypoint_status :: "string \<Rightarrow> waypoint_status" where
  "report_waypoint_status output =
     (let raw = map_option to_lower (extractSingleLineSection output ''Waypoint Status'')
      in if raw = Some ''missed'' then WpMissed
         else if raw = Some ''blocked'' then WpBlocked
         else if raw = Some ''arrived'' then WpArrived
         else if report_changed_files output \<noteq> [] then WpArrived
         else if report_blockers output \<noteq> [] then WpBlocked
         else WpMissed)"

definition last_summary :: "run_record \<Rightarrow> iteration_summary option" where
  "last_summary run = (if rn_summaries run = [] then None else Some (last (rn_summaries run)))"

definition waypoint_confidence :: "validation_result \<Rightarrow> waypoint_status \<Rightarrow> confidence" where
  "waypoint_confidence validation status =
     (if vr_success validation = Some False then Low else if status = WpArrived then High else Medium)"

definition buildDefaultSummary :: "int \<Rightarrow> run_record \<Rightarrow> route_proposal \<Rightarrow> validation_result \<Rightarrow>
    agent_task \<Rightarrow> iteration_summary" where
  "buildDefaultSummary iteration run proposal validation task =
     (let output = extractLatestTaskOutput task;
          waypoint = pp_currentWaypoint proposal;
          changedFiles = report_changed_files output;
          blockers = report_blockers output;
          status = report_waypoint_status output;
          met = extractListSection output ''Arrival Criteria Met'';
          missed = extractListSection output ''Arrival Criteria Missed'';
          goalReached = (parseGoalReached output \<or>
            vr_success validation = Some True \<and> status = WpArrived
            \<and> pp_remainingMilestones proposal = [] \<and> missed = []);
          previous = last_summary run;
          completed = (case previous of None \<Rightarrow> 0 | Some p \<Rightarrow> pg_completedWaypoints (su_progress p))
            + (if status = WpArrived \<and> (case previous of None \<Rightarrow> True | Some p \<Rightarrow> \<not> su_goalReached p)
               then 1 else 0);
          outOf = max 1 (int (length (pp_milestones proposal)));
          health = buildDefaultRouteHealth output validation status previous;
          remaining = (if status = WpArrived then pp_remainingMilestones proposal
            else wp_title waypoint # pp_remainingMilestones proposal)
      in \<lparr>su_runId = rn_runId run, su_iteration = iteration,
          su_status = (if tk_status task = TaskFailed then SumFailed else SumSuccess),
          su_taskTitle = wp_title waypoint, su_summaryText = output,
          su_changedFiles = changedFiles, su_blockers = blockers,
          su_completedSubgoals =
            (if status = WpArrived then [''waypoint_'' @ show_int iteration @ ''_arrived'']
             else if changedFiles \<noteq> [] then [''waypoint_'' @ show_int iteration @ ''_advanced'']
             else []),
          su_unresolvedItems = blockers,
          su_suggestedNextAreas = (if extractFilePaths output \<noteq> [] then extractFilePaths output
            else wp_repoAreas waypoint),
          su_validation = validation,
          su_progress =
            \<lparr>pg_currentMilestone = Some (wp_title waypoint),
             pg_currentWaypointTitle = Some (wp_title waypoint),
             pg_completedWaypoints = completed, pg_totalWaypoints = outOf,
             pg_waypointCompletion = (if status = WpArrived then 100
               else if status = WpBlocked then 35
               else if changedFiles \<noteq> [] then 70 else 0),
             pg_overallProgress = (if goalReached then 100 else clampPercent completed outOf),
             pg_remainingMilestones = remaining, pg_remainingBlockers = blockers,
             pg_remainingDistance = (if goalReached then ''Destination reached.''
               else show_nat (length remaining) @ '' milestone(s) remain before arrival.''),
             pg_arrivalConfidence = (if vr_success validation = Some False then Low
               else if rh_offRoute health then Low
               else if status = WpArrived then High else Medium),
             pg_stopRisk = parseStopRisk validation (rh_offRoute health)
               (waypoint_confidence validation status)\<rparr>,
          su_routeHealth = health,
          su_waypoint =
            \<lparr>wr_id = wp_id waypoint, wr_title = wp_title waypoint, wr_status = status,
             wr_arrivalCriteriaMet = met,
             wr_arrivalCriteriaMissed = (if missed \<noteq> [] then missed
               else if status = WpArrived then [] else wp_arrivalCriteria waypoint)\<rparr>,
          su_goalReached = goalReached,
          su_task = \<lparr>tr_taskId = tk_taskId task, tr_status = tk_status task, tr_outputExcerpt = take 400 output\<rparr>,
          su_reroute = None, su_publish = None, su_createdAt = rn_updatedAt run\<rparr>)"

section \<open>From a review to a stop or a reroute\<close>

definition mapProposalReviewToStopReason :: "proposal_review \<Rightarrow> stop_reason" where
  "mapProposalReviewToStopReason review =
     (let detail = js_join '' '' (map ri_detail (rw_issues review))
      in if list_ex (\<lambda>i. ri_code i = ProtectedBoundaryConflict) (rw_issues review)
         then \<lparr>sr_code = MainlineConflictRequiresReview, sr_detail = detail\<rparr>
         else if rw_confidence review = Low then \<lparr>sr_code = ConfidenceTooLow, sr_detail = detail\<rparr>
         else \<lparr>sr_code = ProposalRejected, sr_detail = detail\<rparr>)"

definition buildRerouteFromReview :: "run_record \<Rightarrow> int \<Rightarrow> proposal_review \<Rightarrow> route_proposal \<Rightarrow>
    int \<Rightarrow> reroute_record" where
  "buildRerouteFromReview run iteration review proposal now =
     \<lparr>rr_iteration = iteration, rr_mode = RerouteSoft,
      rr_reason = nullish (rw_rerouteReason review) ''The planner review requested a route correction.'',
      rr_trigger = nullish (map_option ri_detail
          (find (\<lambda>i. ri_code i = RerouteRequired) (rw_issues review))) ''Review requested a reroute.'',
      rr_previousRouteSummary = nv_routeSummary (rn_navigation run),
      rr_nextRouteSummary = Some (pp_routeSummary proposal), rr_createdAt = now\<rparr>"

section \<open>Lemmas\<close>

lemma clampPercent_bounds: "0 \<le> clampPercent a b" "clampPercent a b \<le> 100"
  by (simp_all add: clampPercent_def)

lemma default_summary_simps [simp]:
  "wr_status (su_waypoint (buildDefaultSummary i run p v task)) = report_waypoint_status (extractLatestTaskOutput task)"
  "su_summaryText (buildDefaultSummary i run p v task) = extractLatestTaskOutput task"
  "su_changedFiles (buildDefaultSummary i run p v task) = report_changed_files (extractLatestTaskOutput task)"
  "su_blockers (buildDefaultSummary i run p v task) = report_blockers (extractLatestTaskOutput task)"
  "su_validation (buildDefaultSummary i run p v task) = v"
  "su_routeHealth (buildDefaultSummary i run p v task) =
     buildDefaultRouteHealth (extractLatestTaskOutput task) v
       (report_waypoint_status (extractLatestTaskOutput task)) (last_summary run)"
  "pg_waypointCompletion (su_progress (buildDefaultSummary i run p v task)) =
     (if report_waypoint_status (extractLatestTaskOutput task) = WpArrived then 100
      else if report_waypoint_status (extractLatestTaskOutput task) = WpBlocked then 35
      else if report_changed_files (extractLatestTaskOutput task) \<noteq> [] then 70 else 0)"
  "su_goalReached (buildDefaultSummary i run p v task) \<longleftrightarrow>
     parseGoalReached (extractLatestTaskOutput task) \<or>
     vr_success v = Some True \<and> report_waypoint_status (extractLatestTaskOutput task) = WpArrived
       \<and> pp_remainingMilestones p = []
       \<and> extractListSection (extractLatestTaskOutput task) ''Arrival Criteria Missed'' = []"
  by (simp_all add: buildDefaultSummary_def Let_def)

lemma default_progress_bounds:
  "0 \<le> pg_overallProgress (su_progress (buildDefaultSummary i run p v task))"
  "pg_overallProgress (su_progress (buildDefaultSummary i run p v task)) \<le> 100"
  using clampPercent_bounds by (simp_all add: buildDefaultSummary_def Let_def)

lemma default_offRoute:
  "report_waypoint_status (extractLatestTaskOutput task) \<noteq> WpArrived \<Longrightarrow>
   rh_offRoute (su_routeHealth (buildDefaultSummary i run p v task))"
  by (simp add: buildDefaultRouteHealth_def Let_def)

lemma default_levels:
  "pg_arrivalConfidence (su_progress (buildDefaultSummary i run p v task)) =
     (if vr_success v = Some False \<or> rh_offRoute (su_routeHealth (buildDefaultSummary i run p v task))
      then Low else High)"
  "pg_stopRisk (su_progress (buildDefaultSummary i run p v task)) =
     (if vr_success v = Some False \<or> rh_offRoute (su_routeHealth (buildDefaultSummary i run p v task))
      then High else if vr_ran v then Medium else Low)"
  using default_offRoute [of task i run p v]
  by (auto simp: buildDefaultSummary_def parseStopRisk_def waypoint_confidence_def Let_def)

lemma default_drifted:
  "drifted (buildDefaultSummary i run p v task)
     \<longleftrightarrow> rh_rerouteRecommended (su_routeHealth (buildDefaultSummary i run p v task))"
  by (auto simp: drifted_def buildDefaultRouteHealth_def Let_def)

lemma default_offRoute_drifted:
  "rh_offRoute (su_routeHealth (buildDefaultSummary i run p v task)) \<Longrightarrow>
   drifted (buildDefaultSummary i run p v task)"
  unfolding default_drifted by (simp add: buildDefaultRouteHealth_def Let_def)

section \<open>Properties\<close>

text \<open>The summary derived from a report is consistent.  Progress is a percentage; the waypoint
  counts as complete exactly when it has been arrived at; a waypoint that has not is off route,
  and whatever is off route is recommended for a reroute.  The arrival confidence is low exactly
  when the stop risk is high, which is when validation failed or the run is off route, and it is
  high otherwise: medium never occurs.\<close>

theorem default_summary_consistent:
  "let summary = buildDefaultSummary i run proposal validation task;
       progress = su_progress summary; health = su_routeHealth summary;
       arrived = (wr_status (su_waypoint summary) = WpArrived);
       bad = (vr_success validation = Some False \<or> rh_offRoute health)
   in pg_overallProgress progress \<in> {0..100}
    \<and> pg_waypointCompletion progress \<in> {0, 35, 70, 100}
    \<and> (pg_waypointCompletion progress = 100 \<longleftrightarrow> arrived)
    \<and> (arrived \<or> rh_offRoute health)
    \<and> rh_offRoute health \<le> drifted summary
    \<and> pg_arrivalConfidence progress = (if bad then Low else High)
    \<and> pg_stopRisk progress = (if bad then High else if vr_ran validation then Medium else Low)"
  using default_progress_bounds [of i run proposal validation task]
    default_offRoute [of task i run proposal validation]
    default_levels [of i run proposal validation task]
    default_offRoute_drifted [of i run proposal validation task]
  unfolding Let_def by auto

text \<open>For the controller's own proposals the run ends as completed only on the report's word.
  The other rule for reaching the goal (validated, arrived, no milestone left, no criterion missed)
  needs an empty list of remaining milestones, which the planner never produces.\<close>

theorem goal_needs_the_report:
  "su_goalReached (buildDefaultSummary i run' (buildNextTaskProposal run context) validation task)
     \<longleftrightarrow> parseGoalReached (extractLatestTaskOutput task)"
proof -
  have "pp_remainingMilestones (buildNextTaskProposal run context) \<noteq> []"
    by (simp add: buildMilestones_def Let_def)
  then show ?thesis by simp
qed

text \<open>A run goes on with its route only from a waypoint it has arrived at, with no reroute
  recommended and no blocker that asks for a human.\<close>

theorem continue_needs_arrival:
  assumes "nd_action (decideAutoDriveNextStep run (buildDefaultSummary i run' proposal validation task)
      critic destructive dependency tuning) = ActContinue"
  shows "report_waypoint_status (extractLatestTaskOutput task) = WpArrived
    \<and> \<not> rh_rerouteRecommended (su_routeHealth (buildDefaultSummary i run' proposal validation task))
    \<and> \<not> list_ex (re_test human_input_re) (report_blockers (extractLatestTaskOutput task))"
proof -
  let ?s = "buildDefaultSummary i run' proposal validation task"
  have stop: "\<not> must_stop run ?s" using assms decide_stop [of run ?s critic destructive dependency tuning] by auto
  have pause: "\<not> must_pause run ?s critic destructive dependency tuning"
    using assms decide_pause [OF stop, of critic destructive dependency tuning] by auto
  have "\<not> drifted ?s"
    using assms decide_reroute [OF stop pause] by auto
  moreover have "\<not> list_ex (re_test human_input_re) (su_blockers ?s)"
    using pause unfolding must_pause_def by blast
  ultimately show ?thesis
    using default_drifted default_offRoute default_offRoute_drifted by (metis default_summary_simps(4))
qed

definition arrived_task :: agent_task where
  "arrived_task =
     \<lparr>tk_taskId = ''t1'', tk_title = None, tk_status = TaskCompleted, tk_errorMessage = None,
      tk_steps = [\<lparr>step_output = Some ''Waypoint Status: arrived''\<rparr>]\<rparr>"

definition unvalidated :: validation_result where
  "unvalidated = \<lparr>vr_ran = False, vr_commands = [], vr_success = None, vr_failures = [],
     vr_summary = ''Validation commands are disabled or unavailable.''\<rparr>"

lemma arrived_report:
  "extractLatestTaskOutput arrived_task = ''Waypoint Status: arrived''"
  "report_waypoint_status ''Waypoint Status: arrived'' = WpArrived"
  "report_blockers ''Waypoint Status: arrived'' = []"
  "parseGoalReached ''Waypoint Status: arrived'' = False"
  "parseBooleanSection ''Waypoint Status: arrived'' ''Off Route'' = False"
  "extractSingleLineSection ''Waypoint Status: arrived'' ''Reroute Reason'' = None"
  "re_test yes_re ''Waypoint Status: arrived'' = False"
  by code_simp+

theorem continue_needs_arrival_witness:
  "nd_action (decideAutoDriveNextStep example_run
     (buildDefaultSummary 1 example_run example_proposal unvalidated arrived_task) High False False None) = ActContinue
   \<and> report_waypoint_status (extractLatestTaskOutput arrived_task) = WpArrived"
proof -
  let ?s = "buildDefaultSummary 1 example_run example_proposal unvalidated arrived_task"
  have health: "rh_offRoute (su_routeHealth ?s) = False" "rh_rerouteRecommended (su_routeHealth ?s) = False"
    by (simp_all add: buildDefaultRouteHealth_def arrived_report Let_def)
  have progress: "pg_overallProgress (su_progress ?s) = 100"
    by (simp add: buildDefaultSummary_def arrived_report last_summary_def example_run_def
        example_proposal_def clampPercent_def Let_def)
  have stop: "\<not> must_stop example_run ?s"
    by (simp add: must_stop_def budgets_left_def progress arrived_report unvalidated_def example_defs)
  have arrival: "pg_arrivalConfidence (su_progress ?s) = High"
    unfolding default_levels health by (simp add: unvalidated_def)
  have minimum: "minimumConfidence (rn_riskPolicy example_run) = Medium" by (simp add: example_run_def)
  have pause: "\<not> must_pause example_run ?s High False False None"
    by (simp add: must_pause_def low_confidence_def asks_checkpoint_def has_publish_failure_def
        arrival minimum arrived_report rank_def)
  have "\<not> drifted ?s" by (simp only: default_drifted health not_False_eq_True)
  then have 1: "nd_action (decideAutoDriveNextStep example_run ?s High False False None) = ActContinue"
    by (simp only: decide_reroute [OF stop pause] if_False next_decision.simps)
  from continue_needs_arrival [OF 1] 1 show ?thesis by blast
qed

text \<open>Under a policy that pauses on low confidence and wants at least medium confidence, a run
  that has left its route is paused or stopped, never rerouted by the decision: being off route
  makes the arrival confidence low, and the exemption for a proven publish corridor does not
  apply, as the stop risk is then high.\<close>

theorem off_route_never_reroutes_under_confidence_policy:
  assumes "pauseOnLowConfidence (rn_riskPolicy run)" "minimumConfidence (rn_riskPolicy run) \<noteq> Low"
    and "rh_offRoute (su_routeHealth (buildDefaultSummary i run' proposal validation task))"
  shows "nd_action (decideAutoDriveNextStep run (buildDefaultSummary i run' proposal validation task)
      critic destructive dependency tuning) \<in> {ActStop, ActPause}"
proof -
  let ?s = "buildDefaultSummary i run' proposal validation task"
  have "low_confidence run ?s critic tuning"
    using assms default_levels [of i run' proposal validation task]
    by (cases "minimumConfidence (rn_riskPolicy run)")
      (auto simp: low_confidence_def confidence_relaxed_def rank_def)
  then have "must_pause run ?s critic destructive dependency tuning" by (simp add: must_pause_def)
  then show ?thesis
    using decide_stop [of run ?s critic destructive dependency tuning]
      decide_pause [of run ?s critic destructive dependency tuning] by blast
qed

definition missed_task :: agent_task where
  "missed_task = arrived_task\<lparr>tk_steps := [\<lparr>step_output = Some ''Waypoint Status: missed''\<rparr>]\<rparr>"

theorem off_route_never_reroutes_under_confidence_policy_witness:
  "nd_action (decideAutoDriveNextStep example_run
     (buildDefaultSummary 1 example_run example_proposal unvalidated missed_task)
     High False False None) \<in> {ActStop, ActPause}"
proof (rule off_route_never_reroutes_under_confidence_policy)
  have "report_waypoint_status (extractLatestTaskOutput missed_task) \<noteq> WpArrived" by code_simp
  then show "rh_offRoute (su_routeHealth (buildDefaultSummary 1 example_run
      example_proposal unvalidated missed_task))"
    by (rule default_offRoute)
qed (simp_all add: example_defs)

definition none_report :: string where
  "none_report = js_join [CHR 10] [''Outcome: done'', ''Blockers: none'', ''Waypoint Status: arrived'']"

text \<open>A report that says there are no blockers still has one.  The list section drops the word
  none, but the second reading, line by line, keeps it, so the summary has the blocker none.\<close>

theorem no_blockers_is_a_blocker:
  assumes "extractLatestTaskOutput task = none_report"
  shows "su_blockers (buildDefaultSummary i run proposal validation task) = [''none'']"
proof -
  have "report_blockers none_report = [''none'']" by code_simp
  with assms show ?thesis by simp
qed

theorem no_blockers_is_a_blocker_witness:
  "su_blockers (buildDefaultSummary 1 example_run example_proposal unvalidated
     (arrived_task\<lparr>tk_steps := [\<lparr>step_output = Some none_report\<rparr>]\<rparr>)) = [''none'']"
proof (rule no_blockers_is_a_blocker)
  have "js_trim none_report = none_report" "none_report \<noteq> []" by code_simp+
  then show "extractLatestTaskOutput (arrived_task\<lparr>tk_steps := [\<lparr>step_output = Some none_report\<rparr>]\<rparr>) = none_report"
    by (simp add: extractLatestTaskOutput_def)
qed

end
