(* ===== verification/AutoDriveExecution.thy ===== *)
theory AutoDriveExecution
  imports AutoDriveTypes AutoDriveExamples SeverityJoin
begin

text \<open>
  How an iteration is executed: \<^verbatim>\<open>apps/code/src/application/runtime/facades/runtimeAutoDriveExecution.ts\<close>
  (the execution profile of the sub-agent session, the validation commands, and when a local
  commit is promoted to a push).
\<close>

section \<open>The execution profile\<close>

text \<open>The reasoning effort is a string of the run record; three values are recognised.\<close>

fun show_level :: "level \<Rightarrow> string" where
  "show_level Low = ''low''"
| "show_level Medium = ''medium''"
| "show_level High = ''high''"

definition coerceReasonEffort :: "string option \<Rightarrow> level option" where
  "coerceReasonEffort v =
     (if v = Some ''low'' then Some Low else if v = Some ''medium'' then Some Medium
      else if v = Some ''high'' then Some High else None)"

definition resolveBaseExecutionConfig :: "run_record \<Rightarrow> execution_config" where
  "resolveBaseExecutionConfig run =
     \<lparr>xc_accessMode = nullish (map_option xc_accessMode (rn_execution run)) OnRequest,
      xc_modelId = Option.bind (rn_execution run) xc_modelId,
      xc_reasoningEffort =
        map_option show_level (coerceReasonEffort (Option.bind (rn_execution run) xc_reasoningEffort))\<rparr>"

definition deriveAdaptiveExecutionConfig :: "run_record \<Rightarrow> context_snapshot \<Rightarrow> execution_config" where
  "deriveAdaptiveExecutionConfig run context =
     (let base = resolveBaseExecutionConfig run; tuning = cx_executionTuning context
      in if et_cautionLevel tuning = CautionHigh \<or> et_validationCommandPreference tuning = ValFull
         then base\<lparr>xc_reasoningEffort := Some ''high''\<rparr>
         else if et_cautionLevel tuning = CautionElevated \<or> et_publishPriority tuning \<noteq> PrioNone
         then base\<lparr>xc_reasoningEffort :=
                if xc_reasoningEffort base = Some ''high'' then Some ''high''
                else Some (nullish (xc_reasoningEffort base) ''medium'')\<rparr>
         else if xc_reasoningEffort base = None
                 \<and> ds_routePreference (rn_destination run) = SpeedFirst
         then base\<lparr>xc_reasoningEffort := Some ''low''\<rparr>
         else base)"

definition sameExecutionConfig :: "execution_config option \<Rightarrow> execution_config \<Rightarrow> bool" where
  "sameExecutionConfig left right =
     (case left of None \<Rightarrow> False
      | Some l \<Rightarrow> xc_accessMode l = xc_accessMode right \<and> xc_modelId l = xc_modelId right
          \<and> xc_reasoningEffort l = xc_reasoningEffort right)"

section \<open>Validation commands\<close>

definition normalizeCommand :: "string option \<Rightarrow> string option" where
  "normalizeCommand command =
     (case command of None \<Rightarrow> None
      | Some c \<Rightarrow> let normalized = js_trim c in if normalized \<noteq> [] then Some normalized else None)"

definition preferred_command :: "context_snapshot \<Rightarrow> string \<Rightarrow> string" where
  "preferred_command context command =
     (let validateFast = normalizeCommand (rc_scripts (cx_repo context) ''validateFast'');
          validateFull = normalizeCommand (rc_scripts (cx_repo context) ''validate'');
          preference = et_validationCommandPreference (cx_executionTuning context)
      in if preference = ValFull \<and> validateFull \<noteq> None \<and> Some command = validateFast then the validateFull
         else if preference = ValFast \<and> validateFast \<noteq> None \<and> Some command = validateFull then the validateFast
         else command)"

definition resolveValidationCommands :: "context_snapshot \<Rightarrow> route_proposal \<Rightarrow> string list" where
  "resolveValidationCommands context proposal =
     (let commands = List.map_filter (\<lambda>c. normalizeCommand (Some c))
            (wp_validationPlan (pp_currentWaypoint proposal))
      in if commands = [] then [] else uniq (map (preferred_command context) commands))"

definition shouldPromoteBranchOnlyToPush :: "context_snapshot \<Rightarrow> publish_outcome option \<Rightarrow> bool" where
  "shouldPromoteBranchOnlyToPush context branchOnlyOutcome =
     (et_publishPriority (cx_executionTuning context) = PrioPushCandidate
      \<and> map_option po_status branchOnlyOutcome = Some PubCompleted
      \<and> pr_recommendedMode (cx_publishReadiness context) = BranchOnly
      \<and> pr_reasonCodes (cx_publishReadiness context) = [DirtyWorkingTree]
      \<and> nullish (gc_remote (cx_git context)) [] \<noteq> []
      \<and> gc_behind (cx_git context) = 0)"

section \<open>Lemmas\<close>

definition effort_rank :: "execution_config \<Rightarrow> nat" where
  "effort_rank c =
     (case coerceReasonEffort (xc_reasoningEffort c) of None \<Rightarrow> 0 | Some l \<Rightarrow> Suc (rank l))"

lemma coerce_show [simp]: "coerceReasonEffort (Some (show_level l)) = Some l"
  by (cases l) (simp_all add: coerceReasonEffort_def)

lemma coerce_literals [simp]:
  "coerceReasonEffort None = None" "coerceReasonEffort (Some ''low'') = Some Low"
  "coerceReasonEffort (Some ''medium'') = Some Medium" "coerceReasonEffort (Some ''high'') = Some High"
  by (simp_all add: coerceReasonEffort_def)

lemma base_effort_cases:
  obtains "xc_reasoningEffort (resolveBaseExecutionConfig run) = None"
  | l where "xc_reasoningEffort (resolveBaseExecutionConfig run) = Some (show_level l)"
  by (cases "coerceReasonEffort (Option.bind (rn_execution run) xc_reasoningEffort)")
    (auto simp: resolveBaseExecutionConfig_def)

lemma show_level_eq [simp]:
  "show_level l = ''high'' \<longleftrightarrow> l = High" "show_level l = ''medium'' \<longleftrightarrow> l = Medium"
  "show_level l = ''low'' \<longleftrightarrow> l = Low"
  by (cases l; simp)+

lemma normalizeCommand_Some: "normalizeCommand c = Some d \<Longrightarrow> d \<noteq> [] \<and> js_trim d = d"
  by (auto simp: normalizeCommand_def Let_def split: option.splits if_splits)

lemma preferred_command_clean:
  "c \<noteq> [] \<and> js_trim c = c \<Longrightarrow> preferred_command context c \<noteq> [] \<and> js_trim (preferred_command context c) = preferred_command context c"
  using normalizeCommand_Some [of "rc_scripts (cx_repo context) ''validate''"]
    normalizeCommand_Some [of "rc_scripts (cx_repo context) ''validateFast''"]
  by (auto simp: preferred_command_def Let_def)

lemma resolved_command_cases:
  "c \<in> set (resolveValidationCommands context proposal) \<Longrightarrow>
   \<exists>d. d \<noteq> [] \<and> js_trim d = d \<and> d \<in> js_trim ` set (wp_validationPlan (pp_currentWaypoint proposal))
     \<and> c = preferred_command context d"
  by (force simp: resolveValidationCommands_def map_filter_def normalizeCommand_def Let_def split: if_splits)

lemma full_replaces_fast:
  assumes "et_validationCommandPreference (cx_executionTuning context) = ValFull"
    and "normalizeCommand (rc_scripts (cx_repo context) ''validate'')
      \<notin> {None, normalizeCommand (rc_scripts (cx_repo context) ''validateFast'')}"
  shows "normalizeCommand (rc_scripts (cx_repo context) ''validateFast'')
      \<notin> Some ` set (resolveValidationCommands context proposal)"
proof
  assume "normalizeCommand (rc_scripts (cx_repo context) ''validateFast'')
      \<in> Some ` set (resolveValidationCommands context proposal)"
  then obtain c where c: "normalizeCommand (rc_scripts (cx_repo context) ''validateFast'') = Some c"
      "c \<in> set (resolveValidationCommands context proposal)" by auto
  from resolved_command_cases [OF c(2)] obtain d where d: "c = preferred_command context d" by blast
  from assms(2) obtain f where f: "normalizeCommand (rc_scripts (cx_repo context) ''validate'') = Some f"
    and "f \<noteq> c" using c(1) by (cases "normalizeCommand (rc_scripts (cx_repo context) ''validate'')") auto
  have "preferred_command context d = (if d = c then f else d)"
    unfolding preferred_command_def Let_def c(1) f assms(1) by simp
  with d \<open>f \<noteq> c\<close> show False by (auto split: if_splits)
qed

section \<open>Properties\<close>

text \<open>The adaptive profile only ever raises the reasoning effort of the run's own profile, and
  never touches its access mode or its model; under high caution or full validation the effort is
  high, and under elevated caution or a publish priority it is at least medium unless the run
  itself asks for low; otherwise it stays as it is, but for a run without one that prefers speed,
  which gets low.\<close>

theorem adaptive_profile:
  "let base = resolveBaseExecutionConfig run; adapted = deriveAdaptiveExecutionConfig run context;
       tuning = cx_executionTuning context in
     xc_accessMode adapted = xc_accessMode base \<and> xc_modelId adapted = xc_modelId base
     \<and> effort_rank base \<le> effort_rank adapted
     \<and> effort_rank adapted =
        (if et_cautionLevel tuning = CautionHigh \<or> et_validationCommandPreference tuning = ValFull then 3
         else if et_cautionLevel tuning = CautionElevated
           \<or> et_publishPriority tuning \<in> {PrioPrepareBranch, PrioPushCandidate}
         then (if effort_rank base = 0 then 2 else effort_rank base)
         else if effort_rank base = 0 \<and> ds_routePreference (rn_destination run) = SpeedFirst then 1
         else effort_rank base)"
  by (rule base_effort_cases [of run]; cases "et_cautionLevel (cx_executionTuning context)";
      cases "et_publishPriority (cx_executionTuning context)")
    (auto simp: deriveAdaptiveExecutionConfig_def Let_def effort_rank_def rank_def split: level.splits)

text \<open>The validation commands of an iteration are distinct, trimmed and non-empty, and each is a
  step of the waypoint's plan or the repository script that the preference puts in its place:
  under a full preference the fast script never runs when there is a full one.\<close>

theorem validation_commands:
  "distinct (resolveValidationCommands context proposal)
   \<and> set (resolveValidationCommands context proposal)
      \<subseteq> {c. c \<noteq> [] \<and> js_trim c = c
          \<and> (c \<in> js_trim ` set (wp_validationPlan (pp_currentWaypoint proposal))
             \<or> Some c \<in> {normalizeCommand (rc_scripts (cx_repo context) ''validate''),
                         normalizeCommand (rc_scripts (cx_repo context) ''validateFast'')})}
   \<and> \<not> (et_validationCommandPreference (cx_executionTuning context) = ValFull
        \<and> normalizeCommand (rc_scripts (cx_repo context) ''validate'')
            \<notin> {None, normalizeCommand (rc_scripts (cx_repo context) ''validateFast'')}
        \<and> normalizeCommand (rc_scripts (cx_repo context) ''validateFast'')
            \<in> Some ` set (resolveValidationCommands context proposal))"
proof (intro conjI)
  show "distinct (resolveValidationCommands context proposal)"
    by (simp add: resolveValidationCommands_def Let_def)
  show "set (resolveValidationCommands context proposal)
      \<subseteq> {c. c \<noteq> [] \<and> js_trim c = c
          \<and> (c \<in> js_trim ` set (wp_validationPlan (pp_currentWaypoint proposal))
             \<or> Some c \<in> {normalizeCommand (rc_scripts (cx_repo context) ''validate''),
                         normalizeCommand (rc_scripts (cx_repo context) ''validateFast'')})}"
  proof (rule subsetI, rule CollectI)
    fix c assume "c \<in> set (resolveValidationCommands context proposal)"
    from resolved_command_cases [OF this] obtain d where d: "d \<noteq> []" "js_trim d = d"
        "d \<in> js_trim ` set (wp_validationPlan (pp_currentWaypoint proposal))" "c = preferred_command context d"
      by blast
    with preferred_command_clean [of d "context"] show "c \<noteq> [] \<and> js_trim c = c
          \<and> (c \<in> js_trim ` set (wp_validationPlan (pp_currentWaypoint proposal))
             \<or> Some c \<in> {normalizeCommand (rc_scripts (cx_repo context) ''validate''),
                         normalizeCommand (rc_scripts (cx_repo context) ''validateFast'')})"
      by (auto simp: preferred_command_def Let_def)
  qed
  show "\<not> (et_validationCommandPreference (cx_executionTuning context) = ValFull
        \<and> normalizeCommand (rc_scripts (cx_repo context) ''validate'')
            \<notin> {None, normalizeCommand (rc_scripts (cx_repo context) ''validateFast'')}
        \<and> normalizeCommand (rc_scripts (cx_repo context) ''validateFast'')
            \<in> Some ` set (resolveValidationCommands context proposal))"
    using full_replaces_fast by blast
qed

end
