(* ===== verification/AutoDriveController.thy ===== *)
theory AutoDriveController
  imports ControllerMonad AutoDriveSupport AutoDriveExecution
begin

text \<open>
  The methods of \<open>AutoDriveRunController\<close> with its default services:
  \<^verbatim>\<open>apps/code/src/application/runtime/facades/runtimeAutoDriveController.ts\<close>.  The body of the
  \<open>while (true)\<close> of \<open>runLoop\<close> is \<open>loop_round\<close>, which returns the finished run, or \<open>None\<close> for
  \<open>continue\<close>; it is cut into its phases.
\<close>

section \<open>Names of codes\<close>

fun show_stop_code :: "stop_code \<Rightarrow> string" where
  "show_stop_code GoalReached = ''goal_reached''"
| "show_stop_code TokenBudgetExhausted = ''token_budget_exhausted''"
| "show_stop_code MaxIterationsReached = ''max_iterations_reached''"
| "show_stop_code RepeatedValidationFailures = ''repeated_validation_failures''"
| "show_stop_code NoMeaningfulProgress = ''no_meaningful_progress''"
| "show_stop_code DestructiveChangeRequiresReview = ''destructive_change_requires_review''"
| "show_stop_code DependencyChangeRequiresReview = ''dependency_change_requires_review''"
| "show_stop_code ConfidenceTooLow = ''confidence_too_low''"
| "show_stop_code MissingHumanInput = ''missing_human_input''"
| "show_stop_code HumanCheckpointRequired = ''human_checkpoint_required''"
| "show_stop_code MainlineConflictRequiresReview = ''mainline_conflict_requires_review''"
| "show_stop_code ManualStop = ''manual_stop''"
| "show_stop_code ProposalRejected = ''proposal_rejected''"
| "show_stop_code ExecutionFailed = ''execution_failed''"
| "show_stop_code DurationBudgetExhausted = ''duration_budget_exhausted''"
| "show_stop_code RerouteLimitReached = ''reroute_limit_reached''"
| "show_stop_code UnsafeRouteRequiresReview = ''unsafe_route_requires_review''"

fun show_run_status :: "run_status \<Rightarrow> string" where
  "show_run_status RunCreated = ''created''"
| "show_run_status RunRunning = ''running''"
| "show_run_status RunPaused = ''paused''"
| "show_run_status RunCompleted = ''completed''"
| "show_run_status RunStopped = ''stopped''"
| "show_run_status RunFailed = ''failed''"

fun show_action :: "stop_action \<Rightarrow> string" where
  "show_action ActContinue = ''continue''"
| "show_action ActReroute = ''reroute''"
| "show_action ActPause = ''pause''"
| "show_action ActStop = ''stop''"

definition reason_or_status :: "stop_reason option \<Rightarrow> run_status \<Rightarrow> string" where
  "reason_or_status reason status =
     (case reason of None \<Rightarrow> show_run_status status | Some r \<Rightarrow> show_stop_code (sr_code r))"

section \<open>Persisting, and the session\<close>

definition persisted_run :: "int \<Rightarrow> int \<Rightarrow> run_record \<Rightarrow> run_record" where
  "persisted_run updated elapsed run =
     run\<lparr>rn_updatedAt := updated,
         rn_totals := (rn_totals run)\<lparr>elapsedMs := elapsed\<rparr>,
         rn_navigation := (rn_navigation run)
           \<lparr>nv_remainingTokens := remaining_tokens run,
            nv_remainingIterations := remaining_iterations run,
            nv_remainingDurationMs := remaining_duration run\<rparr>\<rparr>"

definition elapsed_now :: "env \<Rightarrow> run_record \<Rightarrow> int ctl" where
  "elapsed_now env run =
     (case rn_startedAt run of None \<Rightarrow> ret (elapsedMs (rn_totals run))
      | Some started \<Rightarrow> andThen (defaultNow env) (\<lambda>t. ret (t - started)))"

definition persistRun :: "env \<Rightarrow> unit ctl" where
  "persistRun env =
     andThen (defaultNow env) (\<lambda>updated.
     andThen getRun (\<lambda>run.
     andThen (elapsed_now env run) (\<lambda>elapsed.
     andThen (modifyRun (persisted_run updated elapsed)) (\<lambda>_.
     andThen getRun (\<lambda>run. call env (WriteRun run))))))"

definition spawnSession :: "env \<Rightarrow> unit ctl" where
  "spawnSession env =
     andThen getRun (\<lambda>run.
     if session_of run \<noteq> None then ret ()
     else andThen getExecution (\<lambda>current.
       let execution = nullish current (resolveBaseExecutionConfig run)
       in andThen (ask env (SpawnSession execution) (en_session env)) (\<lambda>session.
          andThen (setExecution (Some execution)) (\<lambda>_.
          andThen (modifyRun (\<lambda>run. run\<lparr>rn_sessionId := Some session\<rparr>)) (\<lambda>_.
          persistRun env)))))"

definition refreshSessionForExecution :: "env \<Rightarrow> execution_config \<Rightarrow> unit ctl" where
  "refreshSessionForExecution env nextExecution =
     andThen getRun (\<lambda>run.
     andThen getExecution (\<lambda>current.
     andThen (case session_of run of
         None \<Rightarrow> ret ()
       | Some s \<Rightarrow>
           if sameExecutionConfig current nextExecution then ret ()
           else andThen (call env (CloseSession s ''execution_profile_refresh'')) (\<lambda>_.
                andThen (modifyRun (\<lambda>run. run\<lparr>rn_sessionId := None\<rparr>)) (\<lambda>_.
                setExecution None))) (\<lambda>_.
     andThen getRun (\<lambda>run.
     if rn_sessionId run = None
     then andThen (setExecution (Some nextExecution)) (\<lambda>_. spawnSession env)
     else ret ()))))"

text \<open>The task summary, if any, and whether waiting for it timed out.\<close>

definition executeProposal :: "env \<Rightarrow> route_proposal \<Rightarrow> context_snapshot \<Rightarrow> (agent_task option \<times> bool) ctl" where
  "executeProposal env proposal context =
     andThen getRun (\<lambda>run.
     andThen (refreshSessionForExecution env (deriveAdaptiveExecutionConfig run context)) (\<lambda>_.
     andThen getRun (\<lambda>run.
     case session_of run of
       None \<Rightarrow> throw ''AutoDrive session failed to initialize.''
     | Some s \<Rightarrow>
         andThen (call env (SendInstruction s (pp_promptText proposal)
             (rn_runId run @ '':'' @ show_int (pp_iteration proposal)))) (\<lambda>_.
         ask env (WaitSession s) (en_wait env)))))"

section \<open>Validation\<close>

text \<open>The commands that fail: a missing exit code counts as 0, and an exception as a failure.\<close>

fun failing_commands :: "env \<Rightarrow> string list \<Rightarrow> string list ctl" where
  "failing_commands env [] = ret []"
| "failing_commands env (command # commands) =
     andThen (attempt (ask env (RunSkill command) (en_exitCode env))) (\<lambda>result.
     andThen (failing_commands env commands) (\<lambda>failures.
     ret (case result of
            Inl message \<Rightarrow> command # failures
          | Inr exitCode \<Rightarrow> if nullish exitCode 0 \<noteq> 0 then command # failures else failures)))"

definition defaultValidateIteration :: "env \<Rightarrow> run_record \<Rightarrow> context_snapshot \<Rightarrow> route_proposal \<Rightarrow>
    validation_result ctl" where
  "defaultValidateIteration env run context proposal =
     (if \<not> allowValidationCommands (rn_riskPolicy run)
         \<or> wp_validationPlan (pp_currentWaypoint proposal) = []
      then ret \<lparr>vr_ran = False, vr_commands = [], vr_success = None, vr_failures = [],
                vr_summary = ''Validation commands are disabled or unavailable.''\<rparr>
      else let commands = resolveValidationCommands context proposal
        in andThen (failing_commands env commands) (\<lambda>failures.
           ret \<lparr>vr_ran = True, vr_commands = commands, vr_success = Some (failures = []),
                vr_failures = failures,
                vr_summary = (if failures = [] then ''All validation commands completed successfully.''
                  else ''Validation failed for: '' @ js_join '', '' failures)\<rparr>))"

section \<open>The end of a run\<close>

definition finished_run :: "run_status \<Rightarrow> run_stage \<Rightarrow> stop_reason option \<Rightarrow> int option \<Rightarrow> run_record \<Rightarrow> run_record" where
  "finished_run status stage reason completedAt run =
     run\<lparr>rn_status := status, rn_stage := stage, rn_completedAt := completedAt,
         rn_lastStopReason := reason,
         rn_navigation := (rn_navigation run)\<lparr>nv_lastDecision := Some (reason_or_status reason status)\<rparr>\<rparr>"

definition finalize :: "env \<Rightarrow> run_status \<Rightarrow> run_stage \<Rightarrow> stop_reason option \<Rightarrow> run_record ctl" where
  "finalize env status stage reason =
     andThen getRun (\<lambda>run.
     andThen (case session_of run of
         None \<Rightarrow> ret ()
       | Some s \<Rightarrow> call env (CloseSession s (reason_or_status reason status))) (\<lambda>_.
     andThen (if status = RunPaused then ret None
              else andThen (defaultNow env) (\<lambda>t. ret (Some t))) (\<lambda>completedAt.
     andThen (modifyRun (finished_run status stage reason completedAt)) (\<lambda>_.
     andThen (persistRun env) (\<lambda>_.
     andThen getRun (\<lambda>run.
     andThen (call env (WriteFinalReport run (last_summary run))) (\<lambda>_.
     getRun)))))))"

text \<open>\<open>None\<close> when no operator request is pending.\<close>

definition finalizePendingOperatorIntervention :: "env \<Rightarrow> run_record option ctl" where
  "finalizePendingOperatorIntervention env c =
     (case ct_stopReason c of
        Some reason \<Rightarrow> andThen (finalize env RunStopped StStopped (Some reason)) (\<lambda>run. ret (Some run)) c
      | None \<Rightarrow>
          if ct_pauseRequested c
          then andThen (finalize env RunPaused StPaused (Some operator_pause)) (\<lambda>run. ret (Some run)) c
          else ret None c)"

section \<open>Publishing\<close>

definition error_detail :: "string \<Rightarrow> string \<Rightarrow> string" where
  "error_detail message fallback = (if js_trim message \<noteq> [] then js_trim message else fallback)"

definition branch_only :: "publish_status \<Rightarrow> string \<Rightarrow> string option \<Rightarrow> int \<Rightarrow> publish_outcome" where
  "branch_only status summary commitMessage createdAt =
     \<lparr>po_mode = BranchOnly, po_status = status, po_summary = summary, po_commitMessage = commitMessage,
      po_branchName = None, po_restoreBranch = None, po_pushed = False, po_operatorActions = None,
      po_createdAt = createdAt\<rparr>"

definition createBranchOnlyCandidate :: "env \<Rightarrow> iteration_summary \<Rightarrow> publish_outcome option ctl" where
  "createBranchOnlyCandidate env summary =
     (if vr_success (su_validation summary) \<noteq> Some True then ret None
      else if \<not> en_canCommit env then
        andThen (defaultNow env) (\<lambda>t. ret (Some (branch_only PubFailed
          ''Branch-only publish candidate could not run because git commit controls are unavailable.'' None t)))
      else
        andThen (attempt (if en_canGenerate env
             then andThen (ask env GenerateCommitMessage (en_message env)) (\<lambda>m. ret (Some m))
             else ret None)) (\<lambda>generated.
        andThen getRun (\<lambda>run.
        let finalCommitMessage = nullish
              (case generated of Inl message \<Rightarrow> None | Inr m \<Rightarrow> sanitizeCommitMessage m)
              (buildFallbackCommitMessage run summary)
        in andThen (attempt (andThen (call env StageAll) (\<lambda>_. call env (CommitGit finalCommitMessage)))) (\<lambda>result.
           andThen (defaultNow env) (\<lambda>t.
           ret (Some (case result of
               Inr u \<Rightarrow> branch_only PubCompleted
                 (''Created a branch-only commit candidate with message: '' @ finalCommitMessage)
                 (Some finalCommitMessage) t
             | Inl message \<Rightarrow> branch_only PubFailed
                 (''Branch-only publish candidate failed: '' @ error_detail message ''unknown git publish error'')
                 (Some finalCommitMessage) t)))))))"

definition maybePublishBranchOnlyCandidate ::
    "env \<Rightarrow> context_snapshot \<Rightarrow> iteration_summary \<Rightarrow> publish_outcome option ctl" where
  "maybePublishBranchOnlyCandidate env context summary =
     (if pr_recommendedMode (cx_publishReadiness context) \<noteq> BranchOnly then ret None
      else createBranchOnlyCandidate env summary)"

definition push_outcome :: "publish_status \<Rightarrow> string \<Rightarrow> string option \<Rightarrow> string option \<Rightarrow>
    string option \<Rightarrow> bool \<Rightarrow> int \<Rightarrow> publish_outcome" where
  "push_outcome status summary commitMessage branchName restoreBranch pushed createdAt =
     \<lparr>po_mode = PushCandidate, po_status = status, po_summary = summary,
      po_commitMessage = commitMessage, po_branchName = branchName, po_restoreBranch = restoreBranch,
      po_pushed = pushed, po_operatorActions = None, po_createdAt = createdAt\<rparr>"

definition with_operator_actions :: "string \<Rightarrow> publish_outcome \<Rightarrow> publish_outcome" where
  "with_operator_actions originalBranch outcome =
     outcome\<lparr>po_operatorActions := Some (buildPublishFailureOperatorActions outcome (Some originalBranch))\<rparr>"

text \<open>
  The \<open>catch\<close> of \<open>pushPublishCandidate\<close>: \<open>switched\<close> and \<open>pushed\<close> are the two local flags at the
  time of the exception.
\<close>

definition push_failed :: "env \<Rightarrow> string \<Rightarrow> string \<Rightarrow> string option \<Rightarrow> int \<Rightarrow> bool \<Rightarrow> bool \<Rightarrow> string \<Rightarrow>
    publish_outcome ctl" where
  "push_failed env originalBranch branchName commitMessage createdAt switched pushed message =
     (let detail = error_detail message ''unknown push error'';
          failed = with_operator_actions originalBranch (push_outcome PubFailed
            (''Push candidate failed: '' @ detail) commitMessage (Some branchName)
            (Some originalBranch) pushed createdAt)
      in if switched then
           andThen (attempt (call env (CheckoutBranch originalBranch))) (\<lambda>result.
           ret (case result of
               Inl _ \<Rightarrow> with_operator_actions originalBranch (push_outcome PubFailed
                 (''Push candidate branch '' @ branchName
                   @ '' changed local checkout and restore failed after: '' @ detail)
                 commitMessage (Some branchName) (Some originalBranch) pushed createdAt)
             | Inr _ \<Rightarrow> failed))
         else ret failed)"

definition push_steps :: "env \<Rightarrow> string \<Rightarrow> string \<Rightarrow> string option \<Rightarrow> int \<Rightarrow> publish_outcome ctl" where
  "push_steps env originalBranch branchName commitMessage createdAt =
     (let failed = push_failed env originalBranch branchName commitMessage createdAt
      in andThen (attempt (call env (CreateBranch branchName))) (\<lambda>r1. case r1 of
           Inl message \<Rightarrow> failed False False message
         | Inr _ \<Rightarrow>
         andThen (attempt (call env (CheckoutBranch branchName))) (\<lambda>r2. case r2 of
           Inl message \<Rightarrow> failed False False message
         | Inr _ \<Rightarrow>
         andThen (attempt (call env PushGit)) (\<lambda>r3. case r3 of
           Inl message \<Rightarrow> failed True False message
         | Inr _ \<Rightarrow>
         andThen (attempt (call env (CheckoutBranch originalBranch))) (\<lambda>r4. case r4 of
           Inl message \<Rightarrow> failed True True message
         | Inr _ \<Rightarrow> ret (push_outcome PubCompleted
             (''Pushed isolated publish candidate branch '' @ branchName @ ''.'')
             commitMessage (Some branchName) None True createdAt))))))"

definition pushPublishCandidate :: "env \<Rightarrow> context_snapshot \<Rightarrow> string option \<Rightarrow> publish_outcome ctl" where
  "pushPublishCandidate env context commitMessage =
     andThen (defaultNow env) (\<lambda>createdAt.
     let originalBranch = nullish (gc_branch (cx_git context)) []
     in if \<not> en_canPush env \<or> originalBranch = []
        then ret (push_outcome PubFailed
          ''Push candidate could not run because branch push controls are unavailable.''
          commitMessage None None False createdAt)
        else andThen getRun (\<lambda>run.
          push_steps env originalBranch (buildPublishBranchName (en_isoStamp env) run createdAt)
            commitMessage createdAt))"

definition maybePublishGoalReachedOutcome ::
    "env \<Rightarrow> context_snapshot \<Rightarrow> iteration_summary \<Rightarrow> publish_outcome option ctl" where
  "maybePublishGoalReachedOutcome env context summary =
     andThen (maybePublishBranchOnlyCandidate env context summary) (\<lambda>branchOnlyOutcome.
     let push = andThen (pushPublishCandidate env context (Option.bind branchOnlyOutcome po_commitMessage))
           (\<lambda>outcome. ret (Some outcome))
     in if pr_recommendedMode (cx_publishReadiness context) = PushCandidate then
          (if shouldAvoidAutomaticPushFromHistory context then createBranchOnlyCandidate env summary
           else push)
        else if shouldPromoteBranchOnlyToPush context branchOnlyOutcome then push
        else ret branchOnlyOutcome)"

end
