(* ===== verification/AutoDriveLoop.thy ===== *)
theory AutoDriveLoop
  imports AutoDriveController
begin

text \<open>
  The loop of \<open>AutoDriveRunController\<close> and its public methods:
  \<^verbatim>\<open>apps/code/src/application/runtime/facades/runtimeAutoDriveController.ts\<close>.  The body of the
  \<open>while (true)\<close> of \<open>runLoop\<close> is \<open>loop_round\<close>, which gives the finished run, or \<open>None\<close> for
  \<open>continue\<close>; it is cut into its phases, in the order of the code.
\<close>

section \<open>Context and plan\<close>

definition prepare_context :: "env \<Rightarrow> int \<Rightarrow> context_snapshot ctl" where
  "prepare_context env iteration =
     andThen (modifyRun (\<lambda>run. run\<lparr>rn_iteration := iteration, rn_stage := StPreparingContext\<rparr>)) (\<lambda>_.
     andThen (persistRun env) (\<lambda>_.
     andThen getRun (\<lambda>run.
     andThen (ask env (SynthesizeContext iteration) (\<lambda>n. en_context env n run)) (\<lambda>context.
     andThen (call env (WriteContext context)) (\<lambda>_.
     andThen (modifyRun (\<lambda>run. run\<lparr>rn_navigation := buildNavigationFromContext run context\<rparr>)) (\<lambda>_.
     andThen (persistRun env) (\<lambda>_.
     ret context)))))))"

definition plan_waypoint :: "env \<Rightarrow> context_snapshot \<Rightarrow> (route_proposal \<times> proposal_review) ctl" where
  "plan_waypoint env context =
     andThen (modifyRun (\<lambda>run. run\<lparr>rn_stage := StPlanningNextTask\<rparr>)) (\<lambda>_.
     andThen (persistRun env) (\<lambda>_.
     andThen getRun (\<lambda>run.
       let proposal = buildNextTaskProposal run context;
           review = reviewNextTaskProposal proposal context run
       in andThen (call env (WriteProposal proposal)) (\<lambda>_.
          andThen (modifyRun (\<lambda>run. run\<lparr>rn_navigation := buildNavigationFromProposal run proposal\<rparr>)) (\<lambda>_.
          andThen (persistRun env) (\<lambda>_.
          ret (proposal, review)))))))"

definition add_reroute :: "run_record \<Rightarrow> run_record" where
  "add_reroute run = run\<lparr>rn_totals := (rn_totals run)\<lparr>rerouteCount := rerouteCount (rn_totals run) + 1\<rparr>\<rparr>"

definition rerouted_run :: "reroute_record \<Rightarrow> run_record \<Rightarrow> run_record" where
  "rerouted_run reroute run =
     add_reroute (run\<lparr>rn_latestReroute := Some reroute,
       rn_navigation := (rn_navigation run)
         \<lparr>nv_rerouting := True, nv_rerouteReason := Some (rr_reason reroute),
          nv_lastDecision := Some ''reroute''\<rparr>\<rparr>)"

definition reroute_by_review :: "env \<Rightarrow> int \<Rightarrow> proposal_review \<Rightarrow> route_proposal \<Rightarrow> unit ctl" where
  "reroute_by_review env iteration review proposal =
     andThen getRun (\<lambda>run.
     andThen (defaultNow env) (\<lambda>now.
       let reroute = buildRerouteFromReview run iteration review proposal now
       in andThen (call env (WriteReroute (rn_runId run) iteration reroute)) (\<lambda>_.
          andThen (modifyRun (rerouted_run reroute)) (\<lambda>_.
          persistRun env))))"

section \<open>Execution and validation\<close>

definition add_tokens :: "int \<Rightarrow> run_record \<Rightarrow> run_record" where
  "add_tokens n run =
     run\<lparr>rn_totals := (rn_totals run)
       \<lparr>consumedTokensEstimate := consumedTokensEstimate (rn_totals run) + n\<rparr>\<rparr>"

definition execute_waypoint :: "env \<Rightarrow> route_proposal \<Rightarrow> context_snapshot \<Rightarrow> (agent_task option \<times> bool) ctl" where
  "execute_waypoint env proposal context =
     andThen (modifyRun (\<lambda>run. (add_tokens (estimateTokens [pp_promptText proposal]) run)
         \<lparr>rn_stage := StExecutingTask\<rparr>)) (\<lambda>_.
     andThen (persistRun env) (\<lambda>_.
     executeProposal env proposal context))"

definition add_failure :: "run_record \<Rightarrow> run_record" where
  "add_failure run =
     run\<lparr>rn_totals := (rn_totals run)\<lparr>repeatedFailureCount := repeatedFailureCount (rn_totals run) + 1\<rparr>\<rparr>"

definition fail_execution :: "env \<Rightarrow> bool \<Rightarrow> run_record ctl" where
  "fail_execution env timedOut =
     andThen (modifyRun add_failure) (\<lambda>_.
     finalize env RunFailed StFailed (Some \<lparr>sr_code = ExecutionFailed,
       sr_detail = (if timedOut then ''The sub-agent execution timed out.''
                    else ''The sub-agent returned no task summary.'')\<rparr>))"

definition validate_waypoint :: "env \<Rightarrow> context_snapshot \<Rightarrow> route_proposal \<Rightarrow> agent_task \<Rightarrow>
    validation_result ctl" where
  "validate_waypoint env context proposal task =
     andThen (modifyRun (\<lambda>run. (add_tokens (estimateTokens [extractLatestTaskOutput task]) run)
         \<lparr>rn_stage := StValidatingResult\<rparr>)) (\<lambda>_.
     andThen (persistRun env) (\<lambda>_.
     andThen getRun (\<lambda>run.
     defaultValidateIteration env run context proposal)))"

section \<open>Conclusion of an iteration\<close>

definition progressed_totals :: "iteration_summary option \<Rightarrow> iteration_summary \<Rightarrow> run_totals \<Rightarrow> run_totals" where
  "progressed_totals previous summary totals =
     totals\<lparr>validationFailureCount := validationFailureCount totals
              + (if vr_success (su_validation summary) = Some False then 1 else 0),
            noProgressCount :=
              (if pg_overallProgress (su_progress summary)
                    \<le> (case previous of None \<Rightarrow> 0 | Some p \<Rightarrow> pg_overallProgress (su_progress p))
               then noProgressCount totals + 1 else 0),
            repeatedFailureCount :=
              (if su_status summary = SumFailed then repeatedFailureCount totals + 1 else 0)\<rparr>"

definition progressed_navigation :: "iteration_summary \<Rightarrow> navigation_state \<Rightarrow> navigation_state" where
  "progressed_navigation summary nav =
     (let progress = su_progress summary; health = su_routeHealth summary
      in nav\<lparr>nv_currentMilestone := pg_currentMilestone progress,
             nv_overallProgress := pg_overallProgress progress,
             nv_waypointCompletion := pg_waypointCompletion progress,
             nv_waypointStatus := Some (wr_status (su_waypoint summary)),
             nv_remainingMilestones := pg_remainingMilestones progress,
             nv_offRoute := rh_offRoute health,
             nv_rerouting := rh_rerouteRecommended health,
             nv_rerouteReason := rh_rerouteReason health,
             nv_remainingBlockers := pg_remainingBlockers progress,
             nv_arrivalConfidence := pg_arrivalConfidence progress,
             nv_stopRisk := pg_stopRisk progress\<rparr>)"

definition progressed_run :: "iteration_summary option \<Rightarrow> iteration_summary \<Rightarrow> run_record \<Rightarrow> run_record" where
  "progressed_run previous summary run =
     run\<lparr>rn_stage := StDecidingNextStep, rn_blockers := su_blockers summary,
         rn_currentBlocker := (case su_blockers summary of [] \<Rightarrow> None | b # _ \<Rightarrow> Some b),
         rn_completedSubgoals := uniq (rn_completedSubgoals run @ su_completedSubgoals summary),
         rn_lastValidationSummary := Some (vr_summary (su_validation summary)),
         rn_totals := progressed_totals previous summary (rn_totals run),
         rn_navigation := progressed_navigation summary (rn_navigation run)\<rparr>"

definition with_reroute :: "next_decision \<Rightarrow> iteration_summary \<Rightarrow> iteration_summary" where
  "with_reroute decision summary =
     (case nd_reroute decision of
        Some reroute \<Rightarrow>
          if nd_action decision = ActReroute
          then summary\<lparr>su_reroute := Some reroute,
                 su_routeHealth := (su_routeHealth summary)
                   \<lparr>rh_rerouteRecommended := True, rh_rerouteReason := Some (rr_reason reroute)\<rparr>\<rparr>
          else summary
      | None \<Rightarrow> summary)"

definition with_publish :: "publish_outcome option \<Rightarrow> iteration_summary \<Rightarrow> iteration_summary" where
  "with_publish outcome summary =
     (case outcome of None \<Rightarrow> summary | Some p \<Rightarrow> summary\<lparr>su_publish := Some p\<rparr>)"

definition concluded_run :: "next_decision \<Rightarrow> stop_reason option \<Rightarrow> publish_outcome option \<Rightarrow>
    iteration_summary \<Rightarrow> run_record \<Rightarrow> run_record" where
  "concluded_run decision terminalReason publishOutcome summary run =
     run\<lparr>rn_summaries := rn_summaries run @ [summary], rn_latestReroute := su_reroute summary,
         rn_latestPublishOutcome := publishOutcome,
         rn_navigation := (rn_navigation run)
           \<lparr>nv_rerouting := nd_action decision = ActReroute,
            nv_rerouteReason := nullish2 (map_option rr_reason (nd_reroute decision))
              (nv_rerouteReason (rn_navigation run)),
            nv_lastDecision := Some (case terminalReason of Some r \<Rightarrow> show_stop_code (sr_code r)
              | None \<Rightarrow> show_action (nd_action decision))\<rparr>\<rparr>"

definition write_reroute :: "env \<Rightarrow> int \<Rightarrow> iteration_summary \<Rightarrow> unit ctl" where
  "write_reroute env iteration summary =
     (case su_reroute summary of
        None \<Rightarrow> ret ()
      | Some reroute \<Rightarrow>
          andThen getRun (\<lambda>run.
          andThen (call env (WriteReroute (rn_runId run) iteration reroute)) (\<lambda>_.
          modifyRun add_reroute)))"

text \<open>From the summary of the iteration to the decision and the reason for ending, if any.\<close>

definition decide_iteration :: "env \<Rightarrow> int \<Rightarrow> context_snapshot \<Rightarrow> proposal_review \<Rightarrow> iteration_summary \<Rightarrow>
    (next_decision \<times> stop_reason option) ctl" where
  "decide_iteration env iteration context review summary =
     andThen getRun (\<lambda>run.
       let decision = decideAutoDriveNextStep run summary (rw_confidence review)
             (hasDestructiveSignals summary) (list_ex (re_test manifest_re) (su_changedFiles summary))
             (Some (cx_executionTuning context));
           summary' = with_reroute decision summary
       in andThen (if map_option sr_code (nd_reason decision) = Some GoalReached
              then maybePublishGoalReachedOutcome env context summary' else ret None) (\<lambda>publishOutcome.
          let summary'' = with_publish publishOutcome summary';
              terminalReason = resolvePublishAwareStopReason (nd_reason decision) publishOutcome
          in andThen (modifyRun (concluded_run decision terminalReason publishOutcome summary'')) (\<lambda>_.
             andThen (call env (WriteSummary summary'')) (\<lambda>_.
             andThen (write_reroute env iteration summary'') (\<lambda>_.
             andThen (persistRun env) (\<lambda>_.
             ret (decision, terminalReason)))))))"

definition settle :: "env \<Rightarrow> next_decision \<Rightarrow> stop_reason option \<Rightarrow> run_record option ctl" where
  "settle env decision terminalReason =
     (let finish = (\<lambda>status stage reason.
            andThen (finalize env status stage reason) (\<lambda>run. ret (Some run)))
      in if nd_action decision = ActContinue then ret None
         else if nd_action decision = ActReroute then ret None
         else if nd_action decision = ActPause then finish RunPaused StPaused terminalReason
         else (case terminalReason of
             None \<Rightarrow> finish RunFailed StFailed (Some \<lparr>sr_code = ExecutionFailed,
               sr_detail = ''AutoDrive tried to stop without recording a terminal reason.''\<rparr>)
           | Some reason \<Rightarrow> finish (fst (resolveTerminalState reason)) (snd (resolveTerminalState reason))
               terminalReason))"

definition conclude_iteration :: "env \<Rightarrow> int \<Rightarrow> context_snapshot \<Rightarrow> route_proposal \<Rightarrow> proposal_review \<Rightarrow>
    validation_result \<Rightarrow> agent_task \<Rightarrow> run_record option ctl" where
  "conclude_iteration env iteration context proposal review validation task =
     andThen getRun (\<lambda>run.
       let summary = buildDefaultSummary iteration run proposal validation task
       in andThen (modifyRun (progressed_run (last_summary run) summary)) (\<lambda>_.
          andThen (decide_iteration env iteration context review summary) (\<lambda>(decision, terminalReason).
          settle env decision terminalReason)))"

section \<open>The loop\<close>

text \<open>What follows, unless an operator request is pending.\<close>

definition unlessIntervened :: "env \<Rightarrow> run_record option ctl \<Rightarrow> run_record option ctl" where
  "unlessIntervened env m =
     andThen (finalizePendingOperatorIntervention env) (\<lambda>pending.
       case pending of Some run \<Rightarrow> ret (Some run) | None \<Rightarrow> m)"

definition run_waypoint :: "env \<Rightarrow> int \<Rightarrow> context_snapshot \<Rightarrow> route_proposal \<Rightarrow> proposal_review \<Rightarrow>
    run_record option ctl" where
  "run_waypoint env iteration context proposal review =
     andThen (execute_waypoint env proposal context) (\<lambda>(task, timedOut).
     unlessIntervened env
       (case task of
          None \<Rightarrow> andThen (fail_execution env timedOut) (\<lambda>run. ret (Some run))
        | Some t \<Rightarrow>
            if timedOut then andThen (fail_execution env timedOut) (\<lambda>run. ret (Some run))
            else andThen (validate_waypoint env context proposal t) (\<lambda>validation.
              unlessIntervened env
                (conclude_iteration env iteration context proposal review validation t))))"

definition run_iteration :: "env \<Rightarrow> int \<Rightarrow> run_record option ctl" where
  "run_iteration env iteration =
     andThen (prepare_context env iteration) (\<lambda>context.
     andThen (plan_waypoint env context) (\<lambda>(proposal, review).
       if rw_shouldReroute review
       then andThen (reroute_by_review env iteration review proposal) (\<lambda>_. ret None)
       else if \<not> rw_approved review
       then andThen (finalize env RunPaused StPaused (Some (mapProposalReviewToStopReason review)))
              (\<lambda>run. ret (Some run))
       else run_waypoint env iteration context proposal review))"

definition loop_round :: "env \<Rightarrow> run_record option ctl" where
  "loop_round env =
     unlessIntervened env
       (andThen getRun (\<lambda>run.
          case getPreIterationStopReason run of
            Some reason \<Rightarrow>
              andThen (finalize env (fst (resolveTerminalState reason))
                (snd (resolveTerminalState reason)) (Some reason)) (\<lambda>run. ret (Some run))
          | None \<Rightarrow> run_iteration env (rn_iteration run + 1)))"

end
