(* ===== verification/AutoDriveInvariants.thy ===== *)
theory AutoDriveInvariants
  imports AutoDriveLoop
begin

text \<open>
  What a round of the loop does to the run and to the log of its calls, as a contract: an invariant
  \<open>I\<close> that the elementary updates keep is kept by every method of the controller and by a round.
  The phase tells how far an iteration has come, so that an invariant can say that an instruction is
  sent, a summary is recorded and a reroute is counted at most once in it.
\<close>

section \<open>The log\<close>

text \<open>The log is the trace without the operator's interrupts.\<close>

type_synonym log = "(ctl_event \<times> bool) list"

fun is_interrupt :: "ctl_event \<Rightarrow> bool" where
  "is_interrupt (InterruptSession s r) = True"
| "is_interrupt _ = False"

definition log_of :: "controller \<Rightarrow> log" where
  "log_of c = filter (\<lambda>e. \<not> is_interrupt (fst e)) (ct_trace c)"

lemma log_of_upd [simp]:
  "log_of (c\<lparr>ct_run := r\<rparr>) = log_of c" "log_of (c\<lparr>ct_clock := n\<rparr>) = log_of c"
  "log_of (c\<lparr>ct_sessionExecution := x\<rparr>) = log_of c" "log_of (c\<lparr>ct_running := b\<rparr>) = log_of c"
  "log_of (c\<lparr>ct_pauseRequested := b\<rparr>) = log_of c" "log_of (c\<lparr>ct_stopReason := s\<rparr>) = log_of c"
  by (simp_all add: log_of_def)

lemma log_of_deliver [simp]: "log_of (deliver r c) = log_of c"
  by (cases "(r, c)" rule: deliver.cases) (auto simp: interrupted_def log_of_def split: option.splits)

lemma log_of_trace: "log_of (c\<lparr>ct_trace := t\<rparr>) = filter (\<lambda>e. \<not> is_interrupt (fst e)) t"
  by (simp add: log_of_def)

text \<open>A call adds one entry to the log.\<close>

lemma holds_call_log:
  assumes "\<not> is_interrupt ev"
    and "\<And>c c'. P c \<Longrightarrow> ct_run c' = ct_run c \<Longrightarrow> log_of c' = log_of c @ [(ev, True)] \<Longrightarrow> Q () c'"
    and "\<And>c c'. P c \<Longrightarrow> ct_run c' = ct_run c \<Longrightarrow> log_of c' = log_of c @ [(ev, False)] \<Longrightarrow> E c'"
  shows "holds P (call env ev) Q E"
  unfolding holds_def call_def Let_def
proof (intro allI impI)
  fix c assume c: "P c"
  let ?c = "\<lambda>b. deliver (en_operator env (ct_clock c))
      (c\<lparr>ct_clock := Suc (ct_clock c), ct_trace := ct_trace c @ [(ev, b)]\<rparr>)"
  have log: "log_of (?c b) = log_of c @ [(ev, b)]" for b
    unfolding log_of_deliver using assms(1) by (simp add: log_of_def)
  from assms(2) [OF c _ log] assms(3) [OF c _ log]
  show "case (case en_fails env (ct_clock c) ev of None \<Rightarrow> Inr () | Some message \<Rightarrow> Inl message,
        ?c (en_fails env (ct_clock c) ev = None)) of
      (Inl message, c') \<Rightarrow> E c' | (Inr x, c') \<Rightarrow> Q x c'"
    by (cases "en_fails env (ct_clock c) ev") simp_all
qed

lemma call_cases:
  assumes "\<not> is_interrupt ev"
  obtains (returns) c' where "call env ev c = (Inr (), c')" "log_of c' = log_of c @ [(ev, True)]"
      "ct_run c' = ct_run c"
  | (throws) message c' where "call env ev c = (Inl message, c')" "log_of c' = log_of c @ [(ev, False)]"
      "ct_run c' = ct_run c"
proof -
  have "holds (\<lambda>d. d = c) (call env ev)
     (\<lambda>_ d. log_of d = log_of c @ [(ev, True)] \<and> ct_run d = ct_run c)
     (\<lambda>d. log_of d = log_of c @ [(ev, False)] \<and> ct_run d = ct_run c)"
    using assms by (intro holds_call_log) auto
  then show thesis
    using returns throws by (cases "call env ev c"; cases "fst (call env ev c)") (auto simp: holds_def)
qed

lemma holds_ask_log:
  assumes "holds P (call env ev) (\<lambda>_. Q) E"
  shows "holds P (ask env ev answer) (\<lambda>_. Q) E"
  using assms unfolding holds_def ask_def andThen_def ret_def
  by (auto split: prod.splits sum.splits)

section \<open>The contract\<close>

datatype phase = Fresh | Sent | Summarized | Settled

text \<open>The fields of a run that only the elementary updates of the contract change.\<close>

definition same_core :: "run_record \<Rightarrow> run_record \<Rightarrow> bool" where
  "same_core r r' \<longleftrightarrow>
     rn_runId r' = rn_runId r \<and> rn_workspaceId r' = rn_workspaceId r \<and> rn_threadId r' = rn_threadId r
     \<and> rn_destination r' = rn_destination r \<and> rn_budget r' = rn_budget r
     \<and> rn_riskPolicy r' = rn_riskPolicy r \<and> rn_execution r' = rn_execution r
     \<and> rn_iteration r' = rn_iteration r \<and> rn_summaries r' = rn_summaries r
     \<and> rerouteCount (rn_totals r') = rerouteCount (rn_totals r)"

text \<open>A run as it is written: its remaining tokens and iterations are those of its totals.\<close>

definition accounted :: "run_record \<Rightarrow> bool" where
  "accounted r \<longleftrightarrow> nv_remainingTokens (rn_navigation r) = remaining_tokens r
     \<and> nv_remainingIterations (rn_navigation r) = remaining_iterations r"

fun ordinary :: "ctl_event \<Rightarrow> bool" where
  "ordinary (WriteRun r) = False"
| "ordinary (WriteSummary s) = False"
| "ordinary (WriteReroute i n r) = False"
| "ordinary (SendInstruction s t i) = False"
| "ordinary (InterruptSession s r) = False"
| "ordinary _ = True"

locale iteration_invariant =
  fixes I :: "phase \<Rightarrow> run_record \<Rightarrow> log \<Rightarrow> bool"
  assumes core: "I p r l \<Longrightarrow> same_core r r' \<Longrightarrow> I p r' l"
    and ordinary: "I p r l \<Longrightarrow> ordinary ev \<Longrightarrow> I p r (l @ [(ev, b)])"
    and written: "I p r l \<Longrightarrow> accounted r \<Longrightarrow> I p r (l @ [(WriteRun r, b)])"
    and instructed: "\<And>session. I Fresh r l \<Longrightarrow> I Sent r (l @ [(SendInstruction session t i, b)])"
    and summarized: "\<And>s. I Sent r l \<Longrightarrow> su_iteration s = rn_iteration r \<Longrightarrow>
        I Summarized (r\<lparr>rn_summaries := rn_summaries r @ [s]\<rparr>) (l @ [(WriteSummary s, b)])"
    and rerouted: "I p r l \<Longrightarrow> p \<noteq> Settled \<Longrightarrow>
        I Settled (add_reroute r) (l @ [(WriteReroute (rn_runId r) (rn_iteration r) rr, True)])"
    and not_rerouted: "I p r l \<Longrightarrow> I p r (l @ [(WriteReroute i n rr, False)])"
    and settled: "I p r l \<Longrightarrow> I Settled r l"

locale run_invariant = iteration_invariant +
  assumes begun: "I Settled r l \<Longrightarrow> getPreIterationStopReason r = None \<Longrightarrow>
      I Fresh (r\<lparr>rn_iteration := rn_iteration r + 1\<rparr>) l"

definition kept :: "(phase \<Rightarrow> run_record \<Rightarrow> log \<Rightarrow> bool) \<Rightarrow> phase \<Rightarrow> int \<Rightarrow> controller \<Rightarrow> bool" where
  "kept I p i c \<longleftrightarrow> I p (ct_run c) (log_of c) \<and> rn_iteration (ct_run c) = i"

text \<open>A quiet method keeps the invariant, the iteration and the phase, also when it throws.\<close>

definition quiet :: "(phase \<Rightarrow> run_record \<Rightarrow> log \<Rightarrow> bool) \<Rightarrow> 'a ctl \<Rightarrow> bool" where
  "quiet I m \<longleftrightarrow> (\<forall>p i. holds (kept I p i) m (\<lambda>_. kept I p i) (kept I p i))"

lemma quietD: "quiet I m \<Longrightarrow> holds (kept I p i) m (\<lambda>_. kept I p i) (kept I p i)"
  by (simp add: quiet_def)

lemma quiet_basic:
  "quiet I (ret x)" "quiet I (throw message)" "quiet I getRun" "quiet I getExecution"
  "quiet I (setExecution y)" "quiet I (defaultNow env)"
  by (simp_all add: quiet_def holds_def kept_def ret_def throw_def getRun_def getExecution_def
      setExecution_def defaultNow_def)

lemma quiet_andThen: "quiet I m \<Longrightarrow> (\<And>x. quiet I (f x)) \<Longrightarrow> quiet I (andThen m f)"
  unfolding quiet_def by (blast intro: holds_andThen)

lemma quiet_attempt: "quiet I m \<Longrightarrow> quiet I (attempt m)"
  unfolding quiet_def by (blast intro: holds_attempt holds_weaken)

lemma quiet_ask: "quiet I (call env ev) \<Longrightarrow> quiet I (ask env ev answer)"
  unfolding quiet_def by (blast intro: holds_ask_log)

lemma quiet_cases:
  "(b \<Longrightarrow> quiet I m) \<Longrightarrow> (\<not> b \<Longrightarrow> quiet I n) \<Longrightarrow> quiet I (if b then m else n)"
  "quiet I k \<Longrightarrow> (\<And>y. quiet I (h y)) \<Longrightarrow> quiet I (case x of None \<Rightarrow> k | Some y \<Rightarrow> h y)"
  "(\<And>a. quiet I (f a)) \<Longrightarrow> (\<And>b. quiet I (g b)) \<Longrightarrow> quiet I (case s of Inl a \<Rightarrow> f a | Inr b \<Rightarrow> g b)"
  by (auto split: option.splits sum.splits)

lemma same_core_persisted: "same_core r (persisted_run u e r)"
  by (simp add: same_core_def persisted_run_def)

lemma accounted_persisted: "accounted (persisted_run u e r)"
  by (simp add: accounted_def persisted_run_def remaining_tokens_def remaining_iterations_def)

lemma quiet_elapsed: "quiet I (elapsed_now env run)"
  unfolding elapsed_now_def by (intro quiet_cases quiet_basic quiet_andThen)

section \<open>The methods keep the contract\<close>

context iteration_invariant
begin

lemma kept_core: "kept I p i c \<Longrightarrow> same_core (ct_run c) r \<Longrightarrow> kept I p i (c\<lparr>ct_run := r\<rparr>)"
  using core by (auto simp: kept_def same_core_def)

lemma quiet_modify: "(\<And>r. same_core r (f r)) \<Longrightarrow> quiet I (modifyRun f)"
  unfolding quiet_def by (auto intro!: holds_modifyRun kept_core)

lemma not_interrupt: "ordinary ev \<Longrightarrow> \<not> is_interrupt ev"
  by (cases ev) simp_all

lemma quiet_call: "ordinary ev \<Longrightarrow> quiet I (call env ev)"
  unfolding quiet_def
  by (auto intro!: holds_call_log simp: not_interrupt kept_def intro: local.ordinary)

lemma holds_write_run:
  "holds (\<lambda>c. kept I p i c \<and> ct_run c = run \<and> accounted run) (call env (WriteRun run))
     (\<lambda>_. kept I p i) (kept I p i)"
  by (rule holds_call_log) (auto simp: kept_def intro: written)

lemma quiet_write_run:
  "quiet I (andThen (modifyRun (persisted_run updated elapsed))
      (\<lambda>_. andThen getRun (\<lambda>run. call env (WriteRun run))))"
  unfolding quiet_def
proof (intro allI, rule holds_andThen)
  fix p i
  show "holds (kept I p i) (modifyRun (persisted_run updated elapsed))
      (\<lambda>_ c. kept I p i c \<and> accounted (ct_run c)) (kept I p i)"
    by (rule holds_modifyRun) (simp add: kept_core same_core_persisted accounted_persisted)
  show "holds (\<lambda>c. kept I p i c \<and> accounted (ct_run c))
      (andThen getRun (\<lambda>run. call env (WriteRun run))) (\<lambda>_. kept I p i) (kept I p i)"
    by (rule holds_andThen [OF holds_getRun holds_write_run]) simp
qed

lemma quiet_persist: "quiet I (persistRun env)"
  unfolding persistRun_def
  by (rule quiet_write_run | rule quiet_basic quiet_elapsed | rule quiet_andThen)+

lemmas quiet_rules = quiet_andThen quiet_basic quiet_attempt quiet_ask quiet_cases quiet_call
  quiet_persist quiet_modify

lemma quiet_spawn: "quiet I (spawnSession env)"
  unfolding spawnSession_def Let_def by (intro quiet_rules) (simp_all add: same_core_def)

lemma quiet_refresh: "quiet I (refreshSessionForExecution env x)"
  unfolding refreshSessionForExecution_def Let_def
  by (intro quiet_rules quiet_spawn) (simp_all add: same_core_def)

lemma quiet_failing_commands: "quiet I (failing_commands env commands)"
  by (induction commands) (auto intro!: quiet_rules)

lemma quiet_validate: "quiet I (defaultValidateIteration env run context proposal)"
  unfolding defaultValidateIteration_def Let_def by (intro quiet_rules quiet_failing_commands)

lemma quiet_finalize: "quiet I (finalize env status stage reason)"
  unfolding finalize_def
  by (intro quiet_rules) (simp_all add: same_core_def finished_run_def)

lemma quiet_intervention: "quiet I (finalizePendingOperatorIntervention env)"
proof -
  have "quiet I (andThen (finalize env status stage reason) (\<lambda>run. ret (Some run)))" for status stage reason
    by (intro quiet_rules quiet_finalize)
  then show ?thesis
    unfolding quiet_def holds_def finalizePendingOperatorIntervention_def
    by (auto split: option.splits simp: ret_def)
qed

lemma quiet_branch: "quiet I (createBranchOnlyCandidate env summary)"
  unfolding createBranchOnlyCandidate_def Let_def by (intro quiet_rules) simp_all

lemma quiet_push_failed: "quiet I (push_failed env b n m t sw pu message)"
  unfolding push_failed_def Let_def by (intro quiet_rules) simp_all

lemma quiet_push: "quiet I (pushPublishCandidate env context m)"
  unfolding pushPublishCandidate_def push_steps_def Let_def
  by (intro quiet_rules quiet_push_failed) simp_all

lemma quiet_publish: "quiet I (maybePublishGoalReachedOutcome env context summary)"
  unfolding maybePublishGoalReachedOutcome_def maybePublishBranchOnlyCandidate_def Let_def
  by (intro quiet_rules quiet_branch quiet_push)

section \<open>A round keeps the contract\<close>

text \<open>The phases, in order.\<close>

lemma kept_settled: "kept I p i c \<Longrightarrow> kept I Settled i c"
  using settled by (auto simp: kept_def)

lemma holds_quiet: "quiet I m \<Longrightarrow> holds (kept I p i) m (\<lambda>_. kept I p i) (kept I Settled i)"
  by (rule holds_weaken [OF quietD [where p = p and i = i]]) (assumption | erule kept_settled)+

lemma holds_seq_quiet:
  "quiet I m \<Longrightarrow> (\<And>x. holds (kept I p i) (f x) Q (kept I Settled i))
    \<Longrightarrow> holds (kept I p i) (andThen m f) Q (kept I Settled i)"
  by (rule holds_andThen [OF holds_quiet])

lemma holds_end:
  "quiet I m \<Longrightarrow> holds (kept I p i) m (\<lambda>_. kept I Settled i) (kept I Settled i)"
  by (rule holds_weaken [OF holds_quiet [where p = p and i = i]]) (assumption | erule kept_settled)+

lemma quiet_prepare_rest:
  "quiet I (andThen (persistRun env) (\<lambda>_.
     andThen getRun (\<lambda>run.
     andThen (ask env (SynthesizeContext n) (\<lambda>n. en_context env n run)) (\<lambda>context.
     andThen (call env (WriteContext context)) (\<lambda>_.
     andThen (modifyRun (\<lambda>run. run\<lparr>rn_navigation := buildNavigationFromContext run context\<rparr>)) (\<lambda>_.
     andThen (persistRun env) (\<lambda>_.
     ret context)))))))"
  by (intro quiet_rules) (simp_all add: same_core_def)

lemma quiet_plan: "quiet I (plan_waypoint env context)"
  unfolding plan_waypoint_def Let_def by (intro quiet_rules) (simp_all add: same_core_def)

text \<open>A reroute that has been written, and is about to be counted.\<close>

definition reroute_ready :: "int \<Rightarrow> run_record \<Rightarrow> controller \<Rightarrow> bool" where
  "reroute_ready i run c \<longleftrightarrow> ct_run c = run \<and> rn_iteration run = i
     \<and> (\<forall>r. same_core run r \<longrightarrow> I Settled (add_reroute r) (log_of c))"

lemma holds_reroute_call:
  assumes "p \<noteq> Settled"
  shows "holds (\<lambda>c. kept I p i c \<and> ct_run c = run) (call env (WriteReroute (rn_runId run) i rr))
     (\<lambda>_. reroute_ready i run) (kept I Settled i)"
proof (rule holds_call_log)
  fix c c' assume c: "kept I p i c \<and> ct_run c = run" "ct_run c' = ct_run c"
    "log_of c' = log_of c @ [(WriteReroute (rn_runId run) i rr, True)]"
  have "I Settled (add_reroute r) (log_of c')" if r: "same_core run r" for r
  proof -
    from c(1) r have "I p r (log_of c)" by (auto simp: kept_def intro: core)
    moreover from r c(1) have "rn_runId r = rn_runId run" "rn_iteration r = i"
      by (auto simp: same_core_def kept_def)
    ultimately show ?thesis using rerouted [OF _ assms, of r "log_of c" rr] c(3) by simp
  qed
  with c show "reroute_ready i run c'" by (auto simp: reroute_ready_def kept_def)
qed (auto simp: kept_def intro: settled [OF not_rerouted])

lemma holds_count_reroute:
  assumes "\<And>r. f r = add_reroute (g r)" "\<And>r. same_core r (g r)"
  shows "holds (reroute_ready i run) (modifyRun f) (\<lambda>_. kept I Settled i) (kept I Settled i)"
  using assms by (intro holds_modifyRun) (auto simp: reroute_ready_def kept_def add_reroute_def same_core_def)

lemma holds_reroute_by_review:
  "holds (kept I Fresh i) (reroute_by_review env i review proposal) (\<lambda>_. kept I Settled i) (kept I Settled i)"
  unfolding reroute_by_review_def Let_def
proof (rule holds_andThen [where R = "\<lambda>run c. kept I Fresh i c \<and> ct_run c = run"])
  show "holds (kept I Fresh i) getRun (\<lambda>run c. kept I Fresh i c \<and> ct_run c = run) (kept I Settled i)"
    by (rule holds_getRun) simp
  fix run
  let ?P = "\<lambda>c. kept I Fresh i c \<and> ct_run c = run"
  let ?rr = "buildRerouteFromReview run i review proposal"
  have now: "holds ?P (defaultNow env) (\<lambda>_. ?P) (kept I Settled i)"
    by (auto simp: holds_def defaultNow_def kept_def)
  have count: "holds (reroute_ready i run) (modifyRun (rerouted_run rr)) (\<lambda>_. kept I Settled i) (kept I Settled i)" for rr
    by (rule holds_count_reroute, rule rerouted_run_def) (simp add: same_core_def)
  show "holds ?P (andThen (defaultNow env) (\<lambda>now. andThen (call env (WriteReroute (rn_runId run) i (?rr now)))
      (\<lambda>_. andThen (modifyRun (rerouted_run (?rr now))) (\<lambda>_. persistRun env))))
      (\<lambda>_. kept I Settled i) (kept I Settled i)"
    by (rule holds_andThen [OF now], rule holds_andThen [OF holds_reroute_call], simp,
        rule holds_andThen [OF count], rule holds_quiet [OF quiet_persist])
qed

lemma holds_execute:
  "holds (kept I Fresh i) (execute_waypoint env proposal context) (\<lambda>_. kept I Sent i) (kept I Settled i)"
proof -
  have wait: "quiet I (ask env (WaitSession s) (en_wait env))" for s
    by (intro quiet_rules) simp
  have send: "holds (kept I Fresh i) (andThen (call env (SendInstruction s t n))
      (\<lambda>_. ask env (WaitSession s) (en_wait env))) (\<lambda>_. kept I Sent i) (kept I Settled i)" for s t n
    by (rule holds_andThen [OF holds_call_log holds_quiet [OF wait]])
      (auto simp: kept_def intro: instructed settled)
  have body: "holds (kept I Fresh i) (executeProposal env proposal context) (\<lambda>_. kept I Sent i) (kept I Settled i)"
    unfolding executeProposal_def
    by (intro holds_seq_quiet quiet_basic quiet_refresh holds_case_option holds_throw send)
      (auto intro: kept_settled)
  have "quiet I (modifyRun (\<lambda>run. (add_tokens n run)\<lparr>rn_stage := StExecutingTask\<rparr>))" for n
    by (rule quiet_modify) (simp add: same_core_def add_tokens_def)
  then show ?thesis
    unfolding execute_waypoint_def by (intro holds_seq_quiet quiet_persist body)
qed

lemma quiet_validate_waypoint: "quiet I (validate_waypoint env context proposal task)"
  unfolding validate_waypoint_def
  by (intro quiet_andThen quiet_basic quiet_persist quiet_validate quiet_modify)
    (simp add: same_core_def add_tokens_def)

lemma quiet_finish: "quiet I (andThen (finalize env status stage reason) (\<lambda>run. ret (Some run)))"
  by (intro quiet_rules quiet_finalize)

lemma quiet_fail: "quiet I (andThen (fail_execution env timedOut) (\<lambda>run. ret (Some run)))"
  unfolding fail_execution_def
  by (intro quiet_andThen quiet_basic quiet_finalize quiet_modify) (simp add: same_core_def add_failure_def)

lemma quiet_settle: "quiet I (settle env decision reason)"
  unfolding settle_def Let_def by (intro quiet_cases quiet_basic quiet_finish)

lemma holds_unless:
  assumes "holds (kept I p i) m Q E"
    and "\<And>x c. kept I Settled i c \<Longrightarrow> Q (Some x) c" "\<And>c. kept I Settled i c \<Longrightarrow> E c"
  shows "holds (kept I p i) (unlessIntervened env m) Q E"
  unfolding unlessIntervened_def
proof (rule holds_andThen)
  show "holds (kept I p i) (finalizePendingOperatorIntervention env) (\<lambda>_. kept I p i) E"
    by (rule holds_weaken [OF holds_quiet [OF quiet_intervention], of "kept I p i" p i])
      (auto intro: assms(3))
  show "holds (kept I p i) (case pending of None \<Rightarrow> m | Some run \<Rightarrow> ret (Some run)) Q E" for pending
    using assms by (intro holds_case_option holds_ret) (auto intro: kept_settled)
qed

lemma holds_unlessIntervened:
  "holds (kept I p i) m (\<lambda>_. kept I Settled i) (kept I Settled i)
    \<Longrightarrow> holds (kept I p i) (unlessIntervened env m) (\<lambda>_. kept I Settled i) (kept I Settled i)"
  by (rule holds_unless)

text \<open>A summary that has been appended to the run, and is about to be written.\<close>

definition summary_ready :: "int \<Rightarrow> iteration_summary \<Rightarrow> controller \<Rightarrow> bool" where
  "summary_ready i s c \<longleftrightarrow> (\<exists>r. I Sent r (log_of c) \<and> rn_iteration r = i \<and>
     same_core (r\<lparr>rn_summaries := rn_summaries r @ [s]\<rparr>) (ct_run c))"

lemma holds_append_summary:
  "holds (kept I Sent i) (modifyRun (concluded_run d t o' s)) (\<lambda>_. summary_ready i s) (kept I Settled i)"
proof (rule holds_modifyRun)
  fix c assume c: "kept I Sent i c"
  have "same_core ((ct_run c)\<lparr>rn_summaries := rn_summaries (ct_run c) @ [s]\<rparr>)
      (concluded_run d t o' s (ct_run c))"
    by (simp add: same_core_def concluded_run_def)
  with c show "summary_ready i s (c\<lparr>ct_run := concluded_run d t o' s (ct_run c)\<rparr>)"
    by (auto simp: summary_ready_def kept_def)
qed

lemma holds_write_summary:
  assumes "su_iteration s = i"
  shows "holds (summary_ready i s) (call env (WriteSummary s)) (\<lambda>_. kept I Summarized i) (kept I Settled i)"
proof -
  have "kept I Summarized i c'" if c: "summary_ready i s c" "ct_run c' = ct_run c"
    "log_of c' = log_of c @ [(WriteSummary s, b)]" for c c' b
  proof -
    from c(1) obtain r where r: "I Sent r (log_of c)" "rn_iteration r = i"
      "same_core (r\<lparr>rn_summaries := rn_summaries r @ [s]\<rparr>) (ct_run c)"
      by (auto simp: summary_ready_def)
    from summarized [OF r(1), of s b] r(2,3) assms c(2,3) show ?thesis
      by (auto simp: kept_def same_core_def intro: core)
  qed
  then show ?thesis by (intro holds_call_log) (auto intro: kept_settled)
qed

lemma holds_write_reroute:
  "holds (kept I Summarized i) (write_reroute env i s) (\<lambda>_. kept I Settled i) (kept I Settled i)"
  unfolding write_reroute_def
proof (rule holds_case_option)
  show "holds (kept I Summarized i) (ret ()) (\<lambda>_. kept I Settled i) (kept I Settled i)"
    by (rule holds_end [OF quiet_basic(1)])
  fix rr
  have count: "holds (reroute_ready i run) (modifyRun add_reroute) (\<lambda>_. kept I Settled i) (kept I Settled i)" for run
    by (rule holds_count_reroute [where g = "\<lambda>r. r"]) (simp_all add: same_core_def)
  show "holds (kept I Summarized i) (andThen getRun (\<lambda>run. andThen (call env (WriteReroute (rn_runId run) i rr))
      (\<lambda>_. modifyRun add_reroute))) (\<lambda>_. kept I Settled i) (kept I Settled i)"
    by (rule holds_andThen [OF holds_getRun [where Q = "\<lambda>run c. kept I Summarized i c \<and> ct_run c = run"]], simp,
        rule holds_andThen [OF holds_reroute_call count]) simp
qed

lemma holds_decide:
  assumes "su_iteration summary = i"
  shows "holds (kept I Sent i) (decide_iteration env i context review summary)
    (\<lambda>_. kept I Settled i) (kept I Settled i)"
proof -
  have same: "su_iteration (with_publish o' (with_reroute d summary)) = i" for o' d
    using assms by (simp add: with_publish_def with_reroute_def split: option.splits)
  have rest: "holds (kept I Sent i) (andThen (modifyRun (concluded_run d t o' s)) (\<lambda>_.
      andThen (call env (WriteSummary s)) (\<lambda>_. andThen (write_reroute env i s) (\<lambda>_.
      andThen (persistRun env) (\<lambda>_. ret (d, t)))))) (\<lambda>_. kept I Settled i) (kept I Settled i)"
    if "su_iteration s = i" for d t o' s
    by (rule holds_andThen [OF holds_append_summary], rule holds_andThen [OF holds_write_summary [OF that]],
        rule holds_andThen [OF holds_write_reroute], rule holds_quiet, intro quiet_andThen quiet_persist quiet_basic)
  show ?thesis
    unfolding decide_iteration_def Let_def
    by (rule holds_seq_quiet [OF quiet_basic(3)], rule holds_seq_quiet)
      (intro quiet_cases quiet_basic quiet_publish, rule rest [OF same])
qed

lemma holds_conclude:
  "holds (kept I Sent i) (conclude_iteration env i context proposal review validation task)
     (\<lambda>_. kept I Settled i) (kept I Settled i)"
proof -
  have progress: "quiet I (modifyRun (progressed_run previous summary))" for previous summary
    by (rule quiet_modify) (simp add: same_core_def progressed_run_def progressed_totals_def)
  have settles: "holds (kept I Settled i) (case x of (d, t) \<Rightarrow> settle env d t)
      (\<lambda>_. kept I Settled i) (kept I Settled i)" for x
    by (cases x) (simp add: holds_quiet quiet_settle)
  show ?thesis
    unfolding conclude_iteration_def Let_def
    by (rule holds_seq_quiet [OF quiet_basic(3)], rule holds_seq_quiet [OF progress],
        rule holds_andThen [OF holds_decide settles]) (simp add: buildDefaultSummary_def Let_def)
qed

lemma holds_waypoint:
  "holds (kept I Fresh i) (run_waypoint env i context proposal review)
     (\<lambda>_. kept I Settled i) (kept I Settled i)"
proof -
  have rest: "holds (kept I Sent i) (case x of (task, timedOut) \<Rightarrow>
     unlessIntervened env
       (case task of
          None \<Rightarrow> andThen (fail_execution env timedOut) (\<lambda>run. ret (Some run))
        | Some t \<Rightarrow>
            if timedOut then andThen (fail_execution env timedOut) (\<lambda>run. ret (Some run))
            else andThen (validate_waypoint env context proposal t) (\<lambda>validation.
              unlessIntervened env
                (conclude_iteration env i context proposal review validation t))))
     (\<lambda>_. kept I Settled i) (kept I Settled i)" for x
    unfolding case_prod_beta
    by (intro holds_unlessIntervened holds_case_option holds_if holds_end [OF quiet_fail]
        holds_seq_quiet [OF quiet_validate_waypoint] holds_conclude)
  show ?thesis unfolding run_waypoint_def by (rule holds_andThen [OF holds_execute rest])
qed

text \<open>The invariant holds at the start of an iteration, once its number is set.\<close>

definition begins :: "int \<Rightarrow> controller \<Rightarrow> bool" where
  "begins i c \<longleftrightarrow> I Settled (ct_run c) (log_of c) \<and> I Fresh ((ct_run c)\<lparr>rn_iteration := i\<rparr>) (log_of c)"

theorem iteration_kept:
  "holds (begins i) (run_iteration env i) (\<lambda>_. kept I Settled i) (kept I Settled i)"
proof -
  have start: "holds (begins i) (modifyRun (\<lambda>run. run\<lparr>rn_iteration := i, rn_stage := StPreparingContext\<rparr>))
      (\<lambda>_. kept I Fresh i) (kept I Settled i)"
  proof (rule holds_modifyRun)
    fix c assume "begins i c"
    then have "I Fresh ((ct_run c)\<lparr>rn_iteration := i\<rparr>) (log_of c)" by (simp add: begins_def)
    then have "I Fresh ((ct_run c)\<lparr>rn_iteration := i, rn_stage := StPreparingContext\<rparr>) (log_of c)"
      by (rule core) (simp add: same_core_def)
    then show "kept I Fresh i (c\<lparr>ct_run := (ct_run c)\<lparr>rn_iteration := i, rn_stage := StPreparingContext\<rparr>\<rparr>)"
      by (simp add: kept_def)
  qed
  have prepared: "holds (begins i) (prepare_context env i) (\<lambda>_. kept I Fresh i) (kept I Settled i)"
    unfolding prepare_context_def
    by (rule holds_andThen [OF start], rule holds_quiet, rule quiet_prepare_rest)
  have none: "quiet I (ret None)" by (rule quiet_basic)
  have rest: "holds (kept I Fresh i) (case x of (proposal, review) \<Rightarrow>
       if rw_shouldReroute review
       then andThen (reroute_by_review env i review proposal) (\<lambda>_. ret None)
       else if \<not> rw_approved review
       then andThen (finalize env RunPaused StPaused (Some (mapProposalReviewToStopReason review)))
              (\<lambda>run. ret (Some run))
       else run_waypoint env i context proposal review) (\<lambda>_. kept I Settled i) (kept I Settled i)" for x and "context"
    unfolding case_prod_beta
    by (intro holds_if holds_andThen [OF holds_reroute_by_review holds_quiet [OF none]]
        holds_end [OF quiet_finish] holds_waypoint)
  show ?thesis
    unfolding run_iteration_def
    by (rule holds_andThen [OF prepared], rule holds_seq_quiet [OF quiet_plan], rule rest)
qed

end

context run_invariant
begin

theorem round_kept:
  "holds (\<lambda>c. I Settled (ct_run c) (log_of c)) (loop_round env)
     (\<lambda>_ c. I Settled (ct_run c) (log_of c)) (\<lambda>c. I Settled (ct_run c) (log_of c))"
proof -
  let ?J = "\<lambda>c. I Settled (ct_run c) (log_of c)"
  have J: "kept I Settled i c \<Longrightarrow> ?J c" for i c by (simp add: kept_def)
  have round: "holds (kept I Settled i) (loop_round env) (\<lambda>_. ?J) ?J" for i
    unfolding loop_round_def
  proof (rule holds_unless, rule holds_andThen)
    show "holds (kept I Settled i) getRun (\<lambda>run c. ct_run c = run \<and> kept I Settled i c) ?J"
      by (rule holds_getRun) simp
    fix run
    show "holds (\<lambda>c. ct_run c = run \<and> kept I Settled i c)
        (case getPreIterationStopReason run of
           None \<Rightarrow> run_iteration env (rn_iteration run + 1)
         | Some reason \<Rightarrow> andThen (finalize env (fst (resolveTerminalState reason))
             (snd (resolveTerminalState reason)) (Some reason)) (\<lambda>run. ret (Some run))) (\<lambda>_. ?J) ?J"
    proof (rule holds_case_option)
      assume "getPreIterationStopReason run = None"
      then have "ct_run c = run \<and> kept I Settled i c \<Longrightarrow> begins (rn_iteration run + 1) c" for c
        using begun by (auto simp: begins_def kept_def)
      then show "holds (\<lambda>c. ct_run c = run \<and> kept I Settled i c)
          (run_iteration env (rn_iteration run + 1)) (\<lambda>_. ?J) ?J"
        by (rule holds_weaken [OF iteration_kept]) (auto intro: J)
    next
      fix reason
      let ?terminal = "resolveTerminalState reason"
      show "holds (\<lambda>c. ct_run c = run \<and> kept I Settled i c)
          (andThen (finalize env (fst ?terminal) (snd ?terminal) (Some reason)) (\<lambda>run. ret (Some run))) (\<lambda>_. ?J) ?J"
        by (rule holds_weaken [OF holds_quiet [OF quiet_finish], of _ Settled i]) (auto intro: J)
    qed
  qed (auto intro: J)
  then show ?thesis by (auto simp: holds_def kept_def)
qed

end

section \<open>A round that continues\<close>

lemma holds_pure: "(A \<Longrightarrow> holds P m Q E) \<Longrightarrow> holds (\<lambda>c. A \<and> P c) m Q E"
  by (auto simp: holds_def)

interpretation fixed_budget: iteration_invariant "\<lambda>p r l. rn_budget r = b" for b
  by unfold_locales (simp_all add: same_core_def add_reroute_def)

text \<open>A round that continues has used up one iteration of the budget.\<close>

lemma round_advances:
  assumes "loop_round env c = (Inr None, c')"
  shows "rn_iteration (ct_run c) < maxIterations (rn_budget (ct_run c))"
    and "rn_iteration (ct_run c') = rn_iteration (ct_run c) + 1"
    and "rn_budget (ct_run c') = rn_budget (ct_run c)"
proof -
  define i b where "i = rn_iteration (ct_run c)" and "b = rn_budget (ct_run c)"
  let ?I = "\<lambda>(p :: phase) r (l :: log). rn_budget r = b"
  let ?Q = "\<lambda>x c. x = None \<longrightarrow> i < maxIterations b \<and> kept ?I Settled (i + 1) c"
  have "holds (kept ?I Settled i) (loop_round env) ?Q (\<lambda>_. True)"
    unfolding loop_round_def
  proof (rule fixed_budget.holds_unless, rule holds_andThen)
    show "holds (kept ?I Settled i) getRun (\<lambda>run c. rn_iteration run = i \<and> rn_budget run = b \<and>
        kept ?I Settled i c) (\<lambda>_. True)"
      by (rule holds_getRun) (simp add: kept_def)
    fix run
    show "holds (\<lambda>c. rn_iteration run = i \<and> rn_budget run = b \<and> kept ?I Settled i c)
        (case getPreIterationStopReason run of
           None \<Rightarrow> run_iteration env (rn_iteration run + 1)
         | Some reason \<Rightarrow> andThen (finalize env (fst (resolveTerminalState reason))
             (snd (resolveTerminalState reason)) (Some reason)) (\<lambda>run. ret (Some run))) ?Q (\<lambda>_. True)"
    proof (rule holds_case_option)
      assume go: "getPreIterationStopReason run = None"
      have "holds (\<lambda>c. (rn_iteration run = i \<and> rn_budget run = b) \<and> kept ?I Settled i c)
          (run_iteration env (rn_iteration run + 1)) ?Q (\<lambda>_. True)"
      proof (rule holds_pure)
        assume run: "rn_iteration run = i \<and> rn_budget run = b"
        with go have left: "i < maxIterations b" by (auto simp: pre_iteration_None budgets_left_def)
        from run have same: "rn_iteration run = i" by simp
        show "holds (kept ?I Settled i) (run_iteration env (rn_iteration run + 1)) ?Q (\<lambda>_. True)"
          unfolding same
          by (rule holds_weaken [OF fixed_budget.iteration_kept [of b "i + 1" env]])
            (simp_all add: kept_def fixed_budget.begins_def left)
      qed
      then show "holds (\<lambda>c. rn_iteration run = i \<and> rn_budget run = b \<and> kept ?I Settled i c)
          (run_iteration env (rn_iteration run + 1)) ?Q (\<lambda>_. True)" by (simp only: conj_assoc)
    next
      fix reason
      show "holds (\<lambda>c. rn_iteration run = i \<and> rn_budget run = b \<and> kept ?I Settled i c)
          (andThen (finalize env (fst (resolveTerminalState reason)) (snd (resolveTerminalState reason))
            (Some reason)) (\<lambda>run. ret (Some run))) ?Q (\<lambda>_. True)"
        by (auto simp: holds_def andThen_def ret_def split: sum.splits prod.splits)
    qed
  qed auto
  from holdsD(1) [OF this _ assms] have "?Q None c'" by (simp add: kept_def i_def b_def)
  then show "rn_iteration (ct_run c) < maxIterations (rn_budget (ct_run c))"
    "rn_iteration (ct_run c') = rn_iteration (ct_run c) + 1"
    "rn_budget (ct_run c') = rn_budget (ct_run c)"
    by (simp_all add: kept_def i_def b_def)
qed

end
