(* ===== verification/AutoDriveRun.thy ===== *)
theory AutoDriveRun
  imports AutoDriveInvariants AutoDriveExamples
begin

text \<open>
  The loop and the public methods of \<open>AutoDriveRunController\<close>
  (\<^verbatim>\<open>apps/code/src/application/runtime/facades/runtimeAutoDriveController.ts\<close>), and what holds of
  whole runs.  A request of the operator is either one that arrives while the loop awaits a call
  (the environment's \<open>en_operator\<close>) or a call of \<open>pause\<close> or \<open>stop\<close> on a controller at rest.
\<close>

section \<open>The loop\<close>

lemma round_measure:
  "(Inr None, c') = loop_round env c \<Longrightarrow>
     rn_iteration (ct_run c) < maxIterations (rn_budget (ct_run c))
     \<and> rn_iteration (ct_run c') = rn_iteration (ct_run c) + 1 \<and> rn_budget (ct_run c') = rn_budget (ct_run c)"
  using round_advances [of env c c'] by simp

text \<open>It ends: a round that continues uses up an iteration of the budget.\<close>

function runLoop :: "env \<Rightarrow> run_record ctl" where
  "runLoop env c =
     (case loop_round env c of
        (Inl message, c') \<Rightarrow> (Inl message, c')
      | (Inr (Some run), c') \<Rightarrow> (Inr run, c')
      | (Inr None, c') \<Rightarrow> runLoop env c')"
  by pat_completeness auto
termination
  by (relation "measure (\<lambda>(env, c). nat (maxIterations (rn_budget (ct_run c)) - rn_iteration (ct_run c)))")
    (auto dest!: round_measure)

declare runLoop.simps [simp del]

section \<open>Public methods\<close>

text \<open>\<open>start\<close> on a controller whose loop runs gives the promise of that loop: \<open>None\<close>.\<close>

definition started_run :: "int \<Rightarrow> int \<Rightarrow> run_record \<Rightarrow> run_record" where
  "started_run startedAt updatedAt run =
     run\<lparr>rn_status := RunRunning, rn_stage := StPreparingContext, rn_startedAt := Some startedAt,
         rn_updatedAt := updatedAt\<rparr>"

definition clear_requests :: "unit ctl" where
  "clear_requests c = (Inr (), c\<lparr>ct_pauseRequested := False, ct_stopReason := None\<rparr>)"

text \<open>\<open>try { m } finally\<close>, with the promise set for the time of \<open>m\<close>.\<close>

definition while_running :: "'a ctl \<Rightarrow> 'a ctl" where
  "while_running m c =
     (case m (c\<lparr>ct_running := True\<rparr>) of (r, c') \<Rightarrow> (r, c'\<lparr>ct_running := False\<rparr>))"

definition start :: "env \<Rightarrow> run_record option ctl" where
  "start env c =
     (if ct_running c then ret None c
      else andThen clear_requests (\<lambda>_.
        andThen getRun (\<lambda>run.
        andThen (case rn_startedAt run of Some t \<Rightarrow> ret t | None \<Rightarrow> defaultNow env) (\<lambda>startedAt.
        andThen (defaultNow env) (\<lambda>updatedAt.
        andThen (modifyRun (started_run startedAt updatedAt)) (\<lambda>_.
        andThen (persistRun env) (\<lambda>_.
        andThen (while_running (runLoop env)) (\<lambda>run. ret (Some run)))))))) c)"

definition resumed_run :: "int \<Rightarrow> run_record \<Rightarrow> run_record" where
  "resumed_run updatedAt run =
     run\<lparr>rn_status := RunRunning, rn_stage := StPreparingContext, rn_updatedAt := updatedAt,
         rn_lastStopReason := None,
         rn_navigation := (rn_navigation run)\<lparr>nv_rerouting := False, nv_lastDecision := Some ''resume''\<rparr>\<rparr>"

definition clear_pause :: "unit ctl" where
  "clear_pause c = (Inr (), c\<lparr>ct_pauseRequested := False\<rparr>)"

definition resume :: "env \<Rightarrow> run_record option ctl" where
  "resume env =
     andThen clear_pause (\<lambda>_.
     andThen getRun (\<lambda>run.
       if rn_status run \<noteq> RunPaused then start env
       else andThen (defaultNow env) (\<lambda>updatedAt.
            andThen (modifyRun (resumed_run updatedAt)) (\<lambda>_.
            andThen (persistRun env) (\<lambda>_.
            start env)))))"

definition interrupt_session :: "env \<Rightarrow> string \<Rightarrow> unit ctl" where
  "interrupt_session env reason =
     andThen getRun (\<lambda>run.
       case session_of run of None \<Rightarrow> ret () | Some s \<Rightarrow> call env (InterruptSession s reason))"

definition paused_run :: "int \<Rightarrow> run_record \<Rightarrow> run_record" where
  "paused_run updatedAt run =
     run\<lparr>rn_status := RunPaused, rn_stage := StPaused, rn_updatedAt := updatedAt,
         rn_lastStopReason := Some operator_pause,
         rn_navigation := (rn_navigation run)
           \<lparr>nv_lastDecision := Some (show_stop_code MissingHumanInput)\<rparr>\<rparr>"

definition request_pause :: "unit ctl" where
  "request_pause c = (Inr (), c\<lparr>ct_pauseRequested := True\<rparr>)"

definition request_stop :: "unit ctl" where
  "request_stop c = (Inr (), c\<lparr>ct_stopReason := Some manual_stop\<rparr>)"

text \<open>\<open>if (!this.runningPromise)\<close>\<close>

definition when_idle :: "unit ctl \<Rightarrow> unit ctl" where
  "when_idle m c = (if ct_running c then ret () c else m c)"

definition pause :: "env \<Rightarrow> unit ctl" where
  "pause env =
     andThen request_pause (\<lambda>_.
     andThen (interrupt_session env ''pause_requested'') (\<lambda>_.
     when_idle (andThen (defaultNow env) (\<lambda>updatedAt.
       andThen (modifyRun (paused_run updatedAt)) (\<lambda>_.
       persistRun env)))))"

definition stop :: "env \<Rightarrow> unit ctl" where
  "stop env =
     andThen request_stop (\<lambda>_.
     andThen (interrupt_session env ''manual_stop'') (\<lambda>_.
     when_idle (andThen (finalize env RunStopped StStopped (Some manual_stop)) (\<lambda>_. ret ()))))"

text \<open>The constructor.\<close>

definition new_controller :: "run_record \<Rightarrow> controller" where
  "new_controller run =
     \<lparr>ct_run = run, ct_running = False, ct_pauseRequested = False, ct_stopReason = None,
      ct_sessionExecution =
        (if session_of run \<noteq> None then Some (resolveBaseExecutionConfig run) else None),
      ct_clock = 0, ct_trace = []\<rparr>"

section \<open>An environment\<close>

text \<open>Every call succeeds; the agent reports a waypoint it has arrived at.\<close>

definition example_task :: agent_task where
  "example_task =
     \<lparr>tk_taskId = ''t1'', tk_title = None, tk_status = TaskCompleted, tk_errorMessage = None,
      tk_steps = [\<lparr>step_output = Some (js_join [CHR 10]
        [''Outcome: done'', ''Waypoint Status: arrived'', ''Goal Reached: yes''])\<rparr>]\<rparr>"

definition example_env :: env where
  "example_env =
     \<lparr>en_now = int, en_operator = (\<lambda>_. None), en_fails = (\<lambda>_ _. None),
      en_context = (\<lambda>_ _. example_context), en_session = (\<lambda>_. ''session-1''),
      en_wait = (\<lambda>_. (Some example_task, False)), en_exitCode = (\<lambda>_. Some 0),
      en_message = (\<lambda>_. ''Update the panel''), en_canCommit = True, en_canGenerate = True,
      en_canPush = True, en_isoStamp = (\<lambda>_. ''2026-01-01T00:00:00.000Z'')\<rparr>"

end
