(* ===== verification/AutoDriveRuns.thy ===== *)
theory AutoDriveRuns
  imports AutoDriveRun
begin

text \<open>
  What holds of whole runs of \<open>AutoDriveRunController\<close>: its budgets, the agreement of the run with
  what has been written of it, how it ends, what an operator's request does, and what publishing does
  to the checkout.
\<close>

section \<open>Invariants of the loop\<close>

context run_invariant
begin

lemma loop_kept:
  "runLoop env c = (r, c') \<Longrightarrow> I Settled (ct_run c) (log_of c) \<Longrightarrow> I Settled (ct_run c') (log_of c')"
proof (induction env c arbitrary: r c' rule: runLoop.induct)
  case (1 env c)
  obtain x d where round: "loop_round env c = (x, d)" by (cases "loop_round env c")
  have kept: "I Settled (ct_run d) (log_of d)"
    using round_kept [of env] 1(3) round by (cases x) (auto simp: holds_def split: sum.splits)
  show ?case
  proof (cases "x = Inr None")
    case True
    with 1(2) round have "runLoop env d = (r, c')" by (subst (asm) runLoop.simps) simp
    from 1(1) [OF round [symmetric] True refl this kept] show ?thesis .
  next
    case False
    with 1(2) round kept show ?thesis
      by (subst (asm) runLoop.simps) (auto split: sum.splits option.splits)
  qed
qed

end

section \<open>Budgets\<close>

fun is_instruction :: "ctl_event \<Rightarrow> bool" where
  "is_instruction (SendInstruction s t i) = True"
| "is_instruction _ = False"

definition instructions :: "log \<Rightarrow> nat" where
  "instructions l = length (filter (\<lambda>e. is_instruction (fst e)) l)"

lemma instructions_simps [simp]:
  "instructions (l @ l') = instructions l + instructions l'" "instructions [] = 0"
  "instructions (e # l) = (if is_instruction (fst e) then 1 else 0) + instructions l"
  by (simp_all add: instructions_def)

lemma ordinary_not_instruction: "ordinary ev \<Longrightarrow> \<not> is_instruction ev"
  by (cases ev) simp_all

definition within_budget :: "run_record \<Rightarrow> nat \<Rightarrow> phase \<Rightarrow> run_record \<Rightarrow> log \<Rightarrow> bool" where
  "within_budget r0 n0 p r l \<longleftrightarrow>
     rn_budget r = rn_budget r0 \<and> rn_iteration r0 \<le> rn_iteration r
     \<and> rn_iteration r \<le> max (rn_iteration r0) (maxIterations (rn_budget r0))
     \<and> int (instructions l) + (if p = Fresh then 1 else 0) \<le> int n0 + (rn_iteration r - rn_iteration r0)
     \<and> rerouteCount (rn_totals r) \<le> max (rerouteCount (rn_totals r0)) (maxReroutes (rn_budget r0))
     \<and> (p \<noteq> Settled \<longrightarrow> rerouteCount (rn_totals r) < maxReroutes (rn_budget r0))"

interpretation within_budget: run_invariant "within_budget r0 n0" for r0 n0
proof unfold_locales
  fix r l assume "within_budget r0 n0 Settled r l" "getPreIterationStopReason r = None"
  then show "within_budget r0 n0 Fresh (r\<lparr>rn_iteration := rn_iteration r + 1\<rparr>) l"
    by (auto simp: within_budget_def pre_iteration_None budgets_left_def)
qed (auto simp: within_budget_def same_core_def add_reroute_def ordinary_not_instruction split: if_splits)

section \<open>What is written\<close>

fun summary_of :: "ctl_event \<Rightarrow> iteration_summary list" where
  "summary_of (WriteSummary s) = [s]"
| "summary_of _ = []"

definition summaries_written :: "log \<Rightarrow> iteration_summary list" where
  "summaries_written l = concat (map (\<lambda>e. summary_of (fst e)) l)"

fun is_reroute :: "ctl_event \<times> bool \<Rightarrow> bool" where
  "is_reroute (WriteReroute i n r, b) = b"
| "is_reroute _ = False"

definition reroutes_written :: "log \<Rightarrow> nat" where
  "reroutes_written l = length (filter is_reroute l)"

lemma written_simps [simp]:
  "summaries_written (l @ l') = summaries_written l @ summaries_written l'" "summaries_written [] = []"
  "summaries_written (e # l) = summary_of (fst e) @ summaries_written l"
  "reroutes_written (l @ l') = reroutes_written l + reroutes_written l'" "reroutes_written [] = 0"
  "reroutes_written (e # l) = (if is_reroute e then 1 else 0) + reroutes_written l"
  by (simp_all add: summaries_written_def reroutes_written_def)

lemma ordinary_not_written: "ordinary ev \<Longrightarrow> summary_of ev = []" "ordinary ev \<Longrightarrow> \<not> is_reroute (ev, b)"
  by (cases ev; simp)+

definition recorded :: "run_record \<Rightarrow> log \<Rightarrow> phase \<Rightarrow> run_record \<Rightarrow> log \<Rightarrow> bool" where
  "recorded r0 l0 p r l \<longleftrightarrow>
     (\<exists>l1. l = l0 @ l1 \<and> rn_iteration r0 \<le> rn_iteration r
       \<and> rn_summaries r = rn_summaries r0 @ summaries_written l1
       \<and> rerouteCount (rn_totals r) = rerouteCount (rn_totals r0) + int (reroutes_written l1)
       \<and> sorted_wrt (<) (rn_iteration r0 # map su_iteration (summaries_written l1))
       \<and> (\<forall>s \<in> set (summaries_written l1). su_iteration s
             < rn_iteration r + (if p \<in> {Fresh, Sent} then 0 else 1))
       \<and> (p \<in> {Fresh, Sent} \<longrightarrow> rn_iteration r0 < rn_iteration r))"

lemma recorded_append:
  assumes "recorded r0 l0 p r l" "same_core r r'" "summary_of (fst e) = []" "\<not> is_reroute e"
  shows "recorded r0 l0 p r' (l @ [e])"
proof -
  from assms(1) obtain l1 where "l = l0 @ l1" by (auto simp: recorded_def)
  with assms show ?thesis
    unfolding recorded_def by (intro exI [of _ "l1 @ [e]"]) (auto simp: same_core_def)
qed

lemma recorded_settled: "recorded r0 l0 p r l \<Longrightarrow> recorded r0 l0 Settled r l"
  by (cases p) (fastforce simp: recorded_def)+

interpretation recorded: run_invariant "recorded r0 l0" for r0 l0
proof unfold_locales
  fix p r l r' assume "recorded r0 l0 p r l" "same_core r r'"
  then show "recorded r0 l0 p r' l" by (auto simp: recorded_def same_core_def)
next
  fix p r l ev b assume "recorded r0 l0 p r l" "ordinary ev"
  then show "recorded r0 l0 p r (l @ [(ev, b)])"
    by (intro recorded_append) (auto simp: same_core_def ordinary_not_written)
next
  fix p r l b assume "recorded r0 l0 p r l" "accounted r"
  then show "recorded r0 l0 p r (l @ [(WriteRun r, b)])"
    by (intro recorded_append) (auto simp: same_core_def)
next
  fix r l s t i b assume "recorded r0 l0 Fresh r l"
  then have "recorded r0 l0 Sent r l" by (auto simp: recorded_def)
  then show "recorded r0 l0 Sent r (l @ [(SendInstruction s t i, b)])"
    by (intro recorded_append) (auto simp: same_core_def)
next
  fix r l b and s :: iteration_summary assume r: "recorded r0 l0 Sent r l" "su_iteration s = rn_iteration r"
  then obtain l1 where "l = l0 @ l1" by (auto simp: recorded_def)
  with r show "recorded r0 l0 Summarized (r\<lparr>rn_summaries := rn_summaries r @ [s]\<rparr>) (l @ [(WriteSummary s, b)])"
    unfolding recorded_def
    by (intro exI [of _ "l1 @ [(WriteSummary s, b)]"]) (auto simp: sorted_wrt_append)
next
  fix p r l rr assume "recorded r0 l0 p r l"
  then have r: "recorded r0 l0 Settled r l" by (rule recorded_settled)
  then obtain l1 where "l = l0 @ l1" by (auto simp: recorded_def)
  with r show "recorded r0 l0 Settled (add_reroute r)
      (l @ [(WriteReroute (rn_runId r) (rn_iteration r) rr, True)])"
    unfolding recorded_def
    by (intro exI [of _ "l1 @ [(WriteReroute (rn_runId r) (rn_iteration r) rr, True)]"])
      (auto simp: add_reroute_def)
next
  fix p r l i n rr assume "recorded r0 l0 p r l"
  then show "recorded r0 l0 p r (l @ [(WriteReroute i n rr, False)])"
    by (intro recorded_append) (auto simp: same_core_def)
next
  fix p r l assume "recorded r0 l0 p r l"
  then show "recorded r0 l0 Settled r l" by (rule recorded_settled)
next
  fix r l assume "recorded r0 l0 Settled r l" "getPreIterationStopReason r = None"
  then show "recorded r0 l0 Fresh (r\<lparr>rn_iteration := rn_iteration r + 1\<rparr>) l"
    by (auto simp: recorded_def)
qed

fun run_of :: "ctl_event \<Rightarrow> run_record list" where
  "run_of (WriteRun r) = [r]"
| "run_of _ = []"

definition runs_written :: "log \<Rightarrow> run_record list" where
  "runs_written l = concat (map (\<lambda>e. run_of (fst e)) l)"

lemma runs_written_simps [simp]:
  "runs_written (l @ l') = runs_written l @ runs_written l'" "runs_written [] = []"
  "runs_written (e # l) = run_of (fst e) @ runs_written l"
  by (simp_all add: runs_written_def)

lemma ordinary_not_run: "ordinary ev \<Longrightarrow> run_of ev = []"
  by (cases ev) simp_all

text \<open>The fields of a run that no method changes.\<close>

definition same_run :: "run_record \<Rightarrow> run_record \<Rightarrow> bool" where
  "same_run r r' \<longleftrightarrow>
     rn_runId r' = rn_runId r \<and> rn_workspaceId r' = rn_workspaceId r \<and> rn_threadId r' = rn_threadId r
     \<and> rn_destination r' = rn_destination r \<and> rn_budget r' = rn_budget r
     \<and> rn_riskPolicy r' = rn_riskPolicy r \<and> rn_execution r' = rn_execution r"

definition well_written :: "run_record \<Rightarrow> log \<Rightarrow> phase \<Rightarrow> run_record \<Rightarrow> log \<Rightarrow> bool" where
  "well_written r0 l0 p r l \<longleftrightarrow>
     (\<exists>l1. l = l0 @ l1 \<and> same_run r0 r \<and> rn_iteration r0 \<le> rn_iteration r
       \<and> (\<forall>r' \<in> set (runs_written l1). accounted r' \<and> same_run r0 r' \<and> rn_iteration r' \<le> rn_iteration r)
       \<and> sorted (map rn_iteration (runs_written l1)))"

lemma well_written_append:
  assumes "well_written r0 l0 p r l" "same_core r r'" "run_of (fst e) = []"
  shows "well_written r0 l0 q r' (l @ [e])"
proof -
  from assms(1) obtain l1 where "l = l0 @ l1" by (auto simp: well_written_def)
  with assms show ?thesis
    unfolding well_written_def by (intro exI [of _ "l1 @ [e]"]) (auto simp: same_core_def same_run_def)
qed

lemma well_written_neutral:
  "well_written r0 l0 p r l \<Longrightarrow> same_run r r' \<Longrightarrow> rn_iteration r \<le> rn_iteration r' \<Longrightarrow> well_written r0 l0 q r' l"
  by (fastforce simp: well_written_def same_run_def)

interpretation well_written: run_invariant "well_written r0 l0" for r0 l0
proof unfold_locales
  fix p r l b assume r: "well_written r0 l0 p r l" "accounted r"
  then obtain l1 where "l = l0 @ l1" by (auto simp: well_written_def)
  with r show "well_written r0 l0 p r (l @ [(WriteRun r, b)])"
    unfolding well_written_def
    by (intro exI [of _ "l1 @ [(WriteRun r, b)]"]) (auto simp: sorted_append)
next
  fix p r l rr assume "well_written r0 l0 p r l"
  then have "well_written r0 l0 p r (l @ [(WriteReroute (rn_runId r) (rn_iteration r) rr, True)])"
    by (rule well_written_append) (simp_all add: same_core_def)
  then show "well_written r0 l0 Settled (add_reroute r)
      (l @ [(WriteReroute (rn_runId r) (rn_iteration r) rr, True)])"
    by (rule well_written_neutral) (simp_all add: same_run_def add_reroute_def)
next
  fix r l b and s :: iteration_summary assume "well_written r0 l0 Sent r l"
  then have "well_written r0 l0 Sent (r\<lparr>rn_summaries := rn_summaries r @ [s]\<rparr>) l"
    by (rule well_written_neutral) (simp_all add: same_run_def)
  then show "well_written r0 l0 Summarized (r\<lparr>rn_summaries := rn_summaries r @ [s]\<rparr>) (l @ [(WriteSummary s, b)])"
    by (rule well_written_append) (simp_all add: same_core_def)
qed (auto intro: well_written_append well_written_neutral
    simp: ordinary_not_run same_core_def same_run_def)

section \<open>How a run ends\<close>

text \<open>Whether the latest publish attempt calls for the operator.\<close>

definition publish_settled :: "run_record \<Rightarrow> bool" where
  "publish_settled run \<longleftrightarrow> \<not> requiresHumanPublishInput (rn_latestPublishOutcome run)
     \<and> \<not> requiresManualPublishReview (rn_latestPublishOutcome run)"

definition finished :: "run_record \<Rightarrow> controller \<Rightarrow> bool" where
  "finished run c \<longleftrightarrow> run = ct_run c
     \<and> (\<exists>l. log_of c = l @ [(WriteFinalReport run (last_summary run), True)])
     \<and> (\<exists>reason. rn_lastStopReason run = Some reason
          \<and> nv_lastDecision (rn_navigation run) = Some (show_stop_code (sr_code reason))
          \<and> (rn_status run = RunCompleted \<longrightarrow> sr_code reason = GoalReached \<and> publish_settled run)
          \<and> (rn_status run, rn_stage run) \<in> {(RunPaused, StPaused), (RunStopped, StStopped),
               (RunFailed, StFailed), (RunCompleted, StCompleted)})
     \<and> (rn_completedAt run = None \<longleftrightarrow> rn_status run = RunPaused)"

lemma holds_triv: "holds P m (\<lambda>_ _. True) (\<lambda>_. True)"
  by (auto simp: holds_def split: sum.splits)

lemma holds_skip: "(\<And>x. holds (\<lambda>_. True) (f x) Q E) \<Longrightarrow> (\<And>c. E c) \<Longrightarrow> holds P (andThen m f) Q E"
  by (rule holds_andThen [where R = "\<lambda>_ _. True"]) (auto intro: holds_weaken [OF holds_triv])

text \<open>What \<open>finalize\<close> has set when it persists the run.\<close>

definition closed_with :: "run_status \<Rightarrow> run_stage \<Rightarrow> stop_reason \<Rightarrow> run_record \<Rightarrow> bool" where
  "closed_with status stage reason run \<longleftrightarrow> rn_status run = status \<and> rn_stage run = stage
     \<and> rn_lastStopReason run = Some reason
     \<and> nv_lastDecision (rn_navigation run) = Some (show_stop_code (sr_code reason))
     \<and> (rn_completedAt run = None \<longleftrightarrow> status = RunPaused)
     \<and> (status = RunCompleted \<longrightarrow> publish_settled run)"

lemma closed_persisted: "closed_with st sg r run \<Longrightarrow> closed_with st sg r (persisted_run u e run)"
  by (simp add: closed_with_def persisted_run_def publish_settled_def)

lemma holds_run_call: "holds (\<lambda>c. P (ct_run c)) (call env ev) (\<lambda>_ c. P (ct_run c)) (\<lambda>_. True)"
  by (rule holds_weaken [OF holds_call_ignored]) (auto simp: ignores_calls_def)

lemma holds_run_get: "holds (\<lambda>c. P (ct_run c)) getRun (\<lambda>_ c. P (ct_run c)) (\<lambda>_. True)"
  by (rule holds_getRun)

lemma holds_persist_run:
  assumes "\<And>u e r. P r \<Longrightarrow> P (persisted_run u e r)"
  shows "holds (\<lambda>c. P (ct_run c)) (persistRun env) (\<lambda>_ c. P (ct_run c)) (\<lambda>_. True)"
proof -
  have now: "holds (\<lambda>c. P (ct_run c)) (defaultNow env) (\<lambda>_ c. P (ct_run c)) (\<lambda>_. True)"
    by (simp add: holds_def defaultNow_def)
  have elapsed: "holds (\<lambda>c. P (ct_run c)) (elapsed_now env run) (\<lambda>_ c. P (ct_run c)) (\<lambda>_. True)" for run
    unfolding elapsed_now_def
    by (intro holds_case_option holds_ret holds_andThen [OF now]) auto
  have get: "holds (\<lambda>c. P (ct_run c)) getRun (\<lambda>_ c. P (ct_run c)) (\<lambda>_. True)"
    by (rule holds_getRun)
  show ?thesis
    unfolding persistRun_def
    by (rule holds_andThen [OF now], rule holds_andThen [OF get], rule holds_andThen [OF elapsed],
        rule holds_andThen [where R = "\<lambda>_ c. P (ct_run c)"], rule holds_modifyRun, simp add: assms,
        rule holds_andThen [OF get], rule holds_run_call)
qed

lemma finalize_finishes:
  assumes "status = RunCompleted \<Longrightarrow> sr_code reason = GoalReached"
    and "(status, stage) \<in> {(RunPaused, StPaused), (RunStopped, StStopped), (RunFailed, StFailed),
      (RunCompleted, StCompleted)}"
  shows "holds (\<lambda>c. status = RunCompleted \<longrightarrow> publish_settled (ct_run c))
    (finalize env status stage (Some reason)) finished (\<lambda>_. True)"
proof -
  let ?S = "\<lambda>run. status = RunCompleted \<longrightarrow> publish_settled run"
  let ?C = "\<lambda>c. closed_with status stage reason (ct_run c)"
  have get: "holds (\<lambda>c. ?S (ct_run c)) getRun (\<lambda>_ c. ?S (ct_run c)) (\<lambda>_. True)"
    by (rule holds_getRun) simp
  have close_session: "holds (\<lambda>c. ?S (ct_run c)) (case x of None \<Rightarrow> ret ()
      | Some s \<Rightarrow> call env (CloseSession s code)) (\<lambda>_ c. ?S (ct_run c)) (\<lambda>_. True)" for x code
    by (intro holds_case_option holds_ret holds_run_call)
  have stamp: "holds (\<lambda>c. ?S (ct_run c)) (if status = RunPaused then ret None
       else andThen (defaultNow env) (\<lambda>t. ret (Some t)))
      (\<lambda>x c. ?S (ct_run c) \<and> (x = None \<longleftrightarrow> status = RunPaused)) (\<lambda>_. True)"
    by (simp add: holds_def ret_def andThen_def defaultNow_def)
  have close: "holds (\<lambda>c. ?S (ct_run c) \<and> (x = None \<longleftrightarrow> status = RunPaused))
      (modifyRun (finished_run status stage (Some reason) x)) (\<lambda>_. ?C) (\<lambda>_. True)" for x
    by (rule holds_modifyRun)
      (auto simp: closed_with_def finished_run_def reason_or_status_def publish_settled_def)
  have report: "holds (\<lambda>c. closed_with status stage reason run \<and> ct_run c = run)
      (call env (WriteFinalReport run (last_summary run))) (\<lambda>_ c. finished (ct_run c) c) (\<lambda>_. True)" for run
    by (rule holds_call_log) (use assms in \<open>auto simp: finished_def closed_with_def\<close>)
  have written: "holds ?C (andThen getRun (\<lambda>run.
      andThen (call env (WriteFinalReport run (last_summary run))) (\<lambda>_. getRun))) finished (\<lambda>_. True)"
  proof (rule holds_andThen)
    show "holds ?C getRun (\<lambda>run c. closed_with status stage reason run \<and> ct_run c = run) (\<lambda>_. True)"
      by (rule holds_getRun) simp
    show "holds (\<lambda>c. closed_with status stage reason run \<and> ct_run c = run)
        (andThen (call env (WriteFinalReport run (last_summary run))) (\<lambda>_. getRun)) finished (\<lambda>_. True)" for run
      by (rule holds_andThen [OF report], rule holds_getRun)
  qed
  have persisted: "holds ?C (persistRun env) (\<lambda>_. ?C) (\<lambda>_. True)"
    by (rule holds_persist_run, erule closed_persisted)
  show ?thesis
    unfolding finalize_def
    by (rule holds_andThen [OF get], rule holds_andThen [OF close_session], rule holds_andThen [OF stamp],
        rule holds_andThen [OF close], rule holds_andThen [OF persisted], rule written)
qed

definition ends :: "run_record option \<Rightarrow> controller \<Rightarrow> bool" where
  "ends x c \<longleftrightarrow> (case x of None \<Rightarrow> True | Some run \<Rightarrow> finished run c)"

definition always_ends :: "run_record option ctl \<Rightarrow> bool" where
  "always_ends m \<longleftrightarrow> holds (\<lambda>_. True) m ends (\<lambda>_. True)"

lemma ends_skip: "(\<And>x. always_ends (f x)) \<Longrightarrow> always_ends (andThen m f)"
  unfolding always_ends_def by (rule holds_skip) simp_all

lemma ends_cases:
  "always_ends (ret None)"
  "(b \<Longrightarrow> always_ends m) \<Longrightarrow> (\<not> b \<Longrightarrow> always_ends n) \<Longrightarrow> always_ends (if b then m else n)"
  "(x = None \<Longrightarrow> always_ends k) \<Longrightarrow> (\<And>y. x = Some y \<Longrightarrow> always_ends (h y))
    \<Longrightarrow> always_ends (case x of None \<Rightarrow> k | Some y \<Rightarrow> h y)"
  by (auto simp: always_ends_def holds_def ret_def ends_def split: option.splits)

lemma holds_finish:
  assumes "status = RunCompleted \<Longrightarrow> sr_code reason = GoalReached"
    and "(status, stage) \<in> {(RunPaused, StPaused), (RunStopped, StStopped), (RunFailed, StFailed),
      (RunCompleted, StCompleted)}"
  shows "holds (\<lambda>c. status = RunCompleted \<longrightarrow> publish_settled (ct_run c))
    (andThen (finalize env status stage (Some reason)) (\<lambda>run. ret (Some run))) ends (\<lambda>_. True)"
  by (rule holds_andThen [OF finalize_finishes [OF assms]], simp, rule holds_ret) (simp add: ends_def)

lemma ends_finish:
  assumes "status \<noteq> RunCompleted"
    and "(status, stage) \<in> {(RunPaused, StPaused), (RunStopped, StStopped), (RunFailed, StFailed)}"
  shows "always_ends (andThen (finalize env status stage (Some reason)) (\<lambda>run. ret (Some run)))"
  unfolding always_ends_def using holds_finish [where status = status and reason = reason and stage = stage] assms by auto

lemma holds_terminal:
  "holds (\<lambda>c. sr_code reason = GoalReached \<longrightarrow> publish_settled (ct_run c))
     (andThen (finalize env (fst (resolveTerminalState reason)) (snd (resolveTerminalState reason))
       (Some reason)) (\<lambda>run. ret (Some run))) ends (\<lambda>_. True)"
  by (rule holds_weaken [OF holds_finish]) (auto simp: resolveTerminalState_def split: if_splits)

lemma ends_fail: "always_ends (andThen (fail_execution env timedOut) (\<lambda>run. ret (Some run)))"
proof -
  have "holds (\<lambda>_. True) (finalize env RunFailed StFailed (Some reason)) finished (\<lambda>_. True)" for reason
    using finalize_finishes [where status = RunFailed and reason = reason and stage = StFailed] by simp
  then have "holds (\<lambda>_. True) (fail_execution env timedOut) finished (\<lambda>_. True)"
    unfolding fail_execution_def by (rule holds_skip) simp
  then show ?thesis
    unfolding always_ends_def by (rule holds_andThen) (rule holds_ret, simp add: ends_def)
qed

lemma ends_intervention: "always_ends (finalizePendingOperatorIntervention env)"
proof -
  have "holds (\<lambda>_. True) (andThen (finalize env RunStopped StStopped (Some reason)) (\<lambda>run. ret (Some run)))
      ends (\<lambda>_. True)" for reason
    using ends_finish [where status = RunStopped and reason = reason and stage = StStopped] by (simp add: always_ends_def)
  moreover have "holds (\<lambda>_. True)
      (andThen (finalize env RunPaused StPaused (Some operator_pause)) (\<lambda>run. ret (Some run))) ends (\<lambda>_. True)"
    using ends_finish [where status = RunPaused and reason = operator_pause and stage = StPaused] by (simp add: always_ends_def)
  ultimately show ?thesis
    unfolding always_ends_def holds_def finalizePendingOperatorIntervention_def
    by (auto simp: ret_def ends_def split: option.splits)
qed

lemma ends_unless: "always_ends m \<Longrightarrow> always_ends (unlessIntervened env m)"
  unfolding unlessIntervened_def always_ends_def
  by (rule holds_andThen [OF ends_intervention [unfolded always_ends_def]])
    (auto simp: holds_def ret_def ends_def split: option.splits)

text \<open>
  A decision to pause has its own reason, which publishing does not replace; and the goal stays the
  reason only when publishing calls for no operator.
\<close>

definition concluded :: "next_decision \<times> stop_reason option \<Rightarrow> run_record \<Rightarrow> bool" where
  "concluded x run \<longleftrightarrow> (nd_action (fst x) = ActPause \<longrightarrow> snd x \<noteq> None)
     \<and> (map_option sr_code (snd x) = Some GoalReached \<longrightarrow> publish_settled run)"

lemma decision_concluded:
  assumes "d = decideAutoDriveNextStep run latest critic destructive dependency tuning"
  shows "concluded (d, resolvePublishAwareStopReason (nd_reason d) outcome)
     (concluded_run d t outcome s run')"
  using decide_reason [of run latest critic destructive dependency tuning] assms
  by (auto simp: concluded_def resolvePublishAwareStopReason_def Let_def publish_settled_def
      concluded_run_def split: if_splits)

lemma concluded_persisted: "concluded x run \<Longrightarrow> concluded x (persisted_run u e run)"
  by (simp add: concluded_def publish_settled_def persisted_run_def)

lemma holds_write_reroute_concluded:
  "holds (\<lambda>c. concluded x (ct_run c)) (write_reroute env i s) (\<lambda>_ c. concluded x (ct_run c)) (\<lambda>_. True)"
  unfolding write_reroute_def
  by (intro holds_case_option holds_ret holds_andThen [OF holds_run_get]
      holds_andThen [OF holds_run_call] holds_modifyRun)
    (simp_all add: concluded_def publish_settled_def add_reroute_def)

lemma decide_iteration_concluded:
  "holds (\<lambda>_. True) (decide_iteration env i context review summary)
     (\<lambda>x c. concluded x (ct_run c)) (\<lambda>_. True)"
proof -
  have rest: "holds (\<lambda>_. True) (andThen (modifyRun (concluded_run d t o' s)) (\<lambda>_.
      andThen (call env (WriteSummary s)) (\<lambda>_. andThen (write_reroute env i s) (\<lambda>_.
      andThen (persistRun env) (\<lambda>_. ret (d, t)))))) (\<lambda>x c. concluded x (ct_run c)) (\<lambda>_. True)"
    if "\<And>run. concluded (d, t) (concluded_run d t o' s run)" for d t o' s
    by (rule holds_andThen [where R = "\<lambda>_ c. concluded (d, t) (ct_run c)"],
        rule holds_modifyRun, simp add: that, rule holds_andThen [OF holds_run_call],
        rule holds_andThen [OF holds_write_reroute_concluded],
        rule holds_andThen [OF holds_persist_run], erule concluded_persisted, rule holds_ret)
  show ?thesis
    unfolding decide_iteration_def Let_def
    by (rule holds_skip, rule holds_skip, rule rest, rule decision_concluded [OF refl]) simp_all
qed

lemma holds_settle:
  "holds (\<lambda>c. concluded x (ct_run c)) (settle env (fst x) (snd x)) ends (\<lambda>_. True)"
proof (cases "nd_action (fst x) = ActStop")
  case True
  show ?thesis
  proof (cases "snd x")
    case None
    have "always_ends (settle env (fst x) (snd x))"
      unfolding settle_def Let_def using True None by (auto intro: ends_finish)
    then show ?thesis unfolding always_ends_def by (rule holds_weaken) simp_all
  next
    case (Some reason)
    then have "settle env (fst x) (snd x) = andThen (finalize env (fst (resolveTerminalState reason))
        (snd (resolveTerminalState reason)) (Some reason)) (\<lambda>run. ret (Some run))"
      using True by (simp add: settle_def)
    then show ?thesis using Some
      by simp (rule holds_weaken [OF holds_terminal], simp_all add: concluded_def)
  qed
next
  case False
  have "concluded x run \<Longrightarrow> always_ends (settle env (fst x) (snd x))" for run
    unfolding settle_def Let_def concluded_def using False
    by (cases "nd_action (fst x)") (auto intro!: ends_cases ends_finish)
  then show ?thesis by (auto simp: holds_def always_ends_def)
qed

lemma ends_conclude: "always_ends (conclude_iteration env i context proposal review validation task)"
proof -
  have rest: "always_ends (andThen (decide_iteration env i context review summary)
      (\<lambda>(decision, terminalReason). settle env decision terminalReason))" for summary
    unfolding always_ends_def case_prod_beta
    by (rule holds_andThen [OF decide_iteration_concluded holds_settle])
  show ?thesis
    unfolding conclude_iteration_def Let_def by (rule ends_skip, rule ends_skip, rule rest)
qed

lemma ends_pre_iteration:
  assumes "getPreIterationStopReason run = Some reason"
  shows "always_ends (andThen (finalize env (fst (resolveTerminalState reason))
     (snd (resolveTerminalState reason)) (Some reason)) (\<lambda>run. ret (Some run)))"
proof -
  have "sr_code reason \<noteq> GoalReached"
    using assms unfolding getPreIterationStopReason_def by (auto split: if_splits)
  then show ?thesis unfolding always_ends_def by (intro holds_weaken [OF holds_terminal]) simp_all
qed

lemma ends_round: "always_ends (loop_round env)"
proof -
  have "always_ends (run_waypoint env i context proposal review)" for i "context" proposal review
    unfolding run_waypoint_def case_prod_beta
    by (intro ends_skip ends_unless ends_cases ends_fail ends_conclude)
  then have "always_ends (run_iteration env i)" for i
    unfolding run_iteration_def case_prod_beta
    by (intro ends_skip ends_cases ends_finish) auto
  then show ?thesis
    unfolding loop_round_def by (intro ends_unless ends_skip ends_cases ends_pre_iteration)
qed

lemma loop_finishes: "runLoop env c = (Inr run, c') \<Longrightarrow> finished run c'"
proof (induction env c arbitrary: run c' rule: runLoop.induct)
  case (1 env c)
  obtain x d where round: "loop_round env c = (x, d)" by (cases "loop_round env c")
  show ?case
  proof (cases "x = Inr None")
    case True
    with 1(2) round have "runLoop env d = (Inr run, c')" by (subst (asm) runLoop.simps) simp
    from 1(1) [OF round [symmetric] True refl this] show ?thesis .
  next
    case False
    with 1(2) round have "loop_round env c = (Inr (Some run), c')"
      by (subst (asm) runLoop.simps) (auto split: sum.splits option.splits)
    from holdsD(1) [OF ends_round [unfolded always_ends_def] TrueI this] show ?thesis
      by (simp add: ends_def)
  qed
qed

section \<open>Requests between the checks\<close>

text \<open>A method is blind when pending requests make no difference to what it returns or calls.\<close>

definition but_requests :: "controller \<Rightarrow> controller \<Rightarrow> bool" where
  "but_requests c d \<longleftrightarrow> ct_run d = ct_run c \<and> ct_running d = ct_running c
     \<and> ct_sessionExecution d = ct_sessionExecution c \<and> ct_clock d = ct_clock c \<and> ct_trace d = ct_trace c"

definition blind :: "'a ctl \<Rightarrow> bool" where
  "blind m \<longleftrightarrow> (\<forall>c d. but_requests c d \<longrightarrow>
     fst (m d) = fst (m c) \<and> but_requests (snd (m c)) (snd (m d)))"

lemma blind_basic:
  "blind (ret x)" "blind (throw message)" "blind getRun" "blind (modifyRun f)" "blind getExecution"
  "blind (setExecution y)" "blind (defaultNow env)"
  by (simp_all add: blind_def ret_def throw_def getRun_def modifyRun_def getExecution_def
      setExecution_def defaultNow_def but_requests_def)

lemma blind_andThen:
  assumes m: "blind m" and f: "\<And>x. blind (f x)"
  shows "blind (andThen m f)"
  unfolding blind_def
proof (intro allI impI)
  fix c d assume "but_requests c d"
  with m have same: "fst (m d) = fst (m c)" "but_requests (snd (m c)) (snd (m d))"
    by (auto simp: blind_def)
  show "fst (andThen m f d) = fst (andThen m f c) \<and> but_requests (snd (andThen m f c)) (snd (andThen m f d))"
  proof (cases "fst (m c)")
    case (Inl message)
    with same show ?thesis by (cases "m c"; cases "m d") (simp add: andThen_def)
  next
    case (Inr x)
    with same f [of x] show ?thesis by (cases "m c"; cases "m d") (simp add: andThen_def blind_def)
  qed
qed

lemma but_requests_deliver: "but_requests c d \<Longrightarrow> but_requests (deliver r c) (deliver r d)"
  by (cases "(r, c)" rule: deliver.cases) (auto simp: but_requests_def interrupted_def split: option.splits)

lemma blind_call: "blind (call env ev)"
  unfolding blind_def
proof (intro allI impI)
  fix c d assume cd: "but_requests c d"
  let ?u = "\<lambda>c. c\<lparr>ct_clock := Suc (ct_clock c),
      ct_trace := ct_trace c @ [(ev, en_fails env (ct_clock c) ev = None)]\<rparr>"
  from cd have clock: "ct_clock d = ct_clock c" by (simp add: but_requests_def)
  from cd have "but_requests (?u c) (?u d)" by (simp add: but_requests_def)
  from but_requests_deliver [OF this] show "fst (call env ev d) = fst (call env ev c)
      \<and> but_requests (snd (call env ev c)) (snd (call env ev d))"
    by (simp add: call_def Let_def clock)
qed

lemma blind_cases:
  "(b \<Longrightarrow> blind m) \<Longrightarrow> (\<not> b \<Longrightarrow> blind n) \<Longrightarrow> blind (if b then m else n)"
  "blind k \<Longrightarrow> (\<And>y. blind (h y)) \<Longrightarrow> blind (case x of None \<Rightarrow> k | Some y \<Rightarrow> h y)"
  by (auto split: option.splits)

lemma blind_ask: "blind (ask env ev answer)"
  unfolding blind_def
proof (intro allI impI)
  fix c d assume cd: "but_requests c d"
  have "blind (andThen (call env ev) (\<lambda>_. ret (answer (ct_clock c))))"
    by (intro blind_andThen blind_call blind_basic)
  moreover from cd have "ct_clock d = ct_clock c" by (simp add: but_requests_def)
  ultimately show "fst (ask env ev answer d) = fst (ask env ev answer c)
      \<and> but_requests (snd (ask env ev answer c)) (snd (ask env ev answer d))"
    using cd by (simp add: blind_def ask_def)
qed

lemmas blind_rules = blind_basic blind_andThen blind_call blind_cases blind_ask

lemma blind_persist: "blind (persistRun env)"
  unfolding persistRun_def elapsed_now_def by (intro blind_rules)

lemma blind_prepare: "blind (prepare_context env i)"
  unfolding prepare_context_def by (intro blind_rules blind_persist)

lemma blind_plan: "blind (plan_waypoint env context)"
  unfolding plan_waypoint_def Let_def by (intro blind_rules blind_persist)

lemma blind_execute: "blind (execute_waypoint env proposal context)"
  unfolding execute_waypoint_def executeProposal_def refreshSessionForExecution_def spawnSession_def Let_def
  by (intro blind_rules blind_persist)

section \<open>Sessions\<close>

lemma holds_persist_ignoring:
  assumes calls: "ignores_calls P" and run: "\<And>c u e. P c \<Longrightarrow> P (c\<lparr>ct_run := persisted_run u e (ct_run c)\<rparr>)"
  shows "holds P (persistRun env) (\<lambda>_. P) P"
proof -
  have get: "holds P getRun (\<lambda>_. P) P" by (rule holds_getRun)
  note now = holds_now_ignored [OF calls, of env]
  have elapsed: "holds P (elapsed_now env r) (\<lambda>_. P) P" for r
    unfolding elapsed_now_def by (intro holds_case_option holds_ret holds_andThen [OF now])
  have set: "holds P (modifyRun (persisted_run u e)) (\<lambda>_. P) P" for u e
    by (rule holds_modifyRun) (rule run)
  show ?thesis
    unfolding persistRun_def
    by (rule holds_andThen [OF now], rule holds_andThen [OF get], rule holds_andThen [OF elapsed],
        rule holds_andThen [OF set], rule holds_andThen [OF get], rule holds_call_ignored [OF calls])
qed

lemma quiet_plain:
  assumes "quiet I m"
  shows "holds (\<lambda>c. I p (ct_run c) (log_of c)) m (\<lambda>_ c. I p (ct_run c) (log_of c)) (\<lambda>c. I p (ct_run c) (log_of c))"
  unfolding holds_def
proof (intro allI impI)
  fix c assume "I p (ct_run c) (log_of c)"
  then have "kept I p (rn_iteration (ct_run c)) c" by (simp add: kept_def)
  with quietD [OF assms, of p "rn_iteration (ct_run c)"]
  have "case m c of (Inl message, c') \<Rightarrow> kept I p (rn_iteration (ct_run c)) c'
      | (Inr x, c') \<Rightarrow> kept I p (rn_iteration (ct_run c)) c'"
    by (simp only: holds_def)
  then show "case m c of (Inl message, c') \<Rightarrow> I p (ct_run c') (log_of c')
      | (Inr x, c') \<Rightarrow> I p (ct_run c') (log_of c')"
    by (cases "m c"; cases "fst (m c)") (simp_all add: kept_def)
qed

interpretation log_grows: iteration_invariant "\<lambda>p r l. e \<in> set l" for e
  by unfold_locales simp_all

lemma finalize_closes:
  "holds (\<lambda>d. session_of (ct_run d) = Some s) (finalize env status stage reason)
     (\<lambda>_ d. (CloseSession s (reason_or_status reason status), True) \<in> set (log_of d)) (\<lambda>_. True)"
proof -
  let ?e = "(CloseSession s (reason_or_status reason status), True)"
  have close: "holds (\<lambda>_. session_of run = Some s) (case session_of run of None \<Rightarrow> ret ()
       | Some s \<Rightarrow> call env (CloseSession s (reason_or_status reason status)))
      (\<lambda>_ d. ?e \<in> set (log_of d)) (\<lambda>_. True)" for run
  proof (rule holds_weaken [where P = "\<lambda>_. session_of run = Some s \<and> True"])
    show "holds (\<lambda>_. session_of run = Some s \<and> True) (case session_of run of None \<Rightarrow> ret ()
         | Some s \<Rightarrow> call env (CloseSession s (reason_or_status reason status)))
        (\<lambda>_ d. ?e \<in> set (log_of d)) (\<lambda>_. True)"
      by (rule holds_pure) (simp, rule holds_call_log, simp_all)
  qed simp_all
  have rest: "quiet (\<lambda>p r l. ?e \<in> set l) (andThen (if status = RunPaused then ret None
       else andThen (defaultNow env) (\<lambda>t. ret (Some t))) (\<lambda>completedAt.
     andThen (modifyRun (finished_run status stage reason completedAt)) (\<lambda>_.
     andThen (persistRun env) (\<lambda>_.
     andThen getRun (\<lambda>run.
     andThen (call env (WriteFinalReport run (last_summary run))) (\<lambda>_.
     getRun))))))"
    by (intro log_grows.quiet_rules) (simp_all add: same_core_def finished_run_def)
  have get: "holds (\<lambda>d. session_of (ct_run d) = Some s) getRun (\<lambda>run _. session_of run = Some s) (\<lambda>_. True)"
    by (rule holds_getRun)
  show ?thesis
    unfolding finalize_def
    by (rule holds_andThen [OF get], rule holds_andThen [OF close],
        rule holds_weaken [OF quiet_plain [OF rest]]) simp_all
qed

lemma finalize_keeps:
  "holds (\<lambda>d. rn_sessionId (ct_run d) = y \<and> ct_sessionExecution d = x) (finalize env status stage reason)
     (\<lambda>run d. rn_sessionId (ct_run d) = y \<and> ct_sessionExecution d = x \<and> run = ct_run d) (\<lambda>_. True)"
proof -
  let ?P = "\<lambda>d. rn_sessionId (ct_run d) = y \<and> ct_sessionExecution d = x"
  have calls: "ignores_calls ?P" by (simp add: ignores_calls_def)
  have get: "holds ?P getRun (\<lambda>_. ?P) (\<lambda>_. True)" by (rule holds_getRun)
  have call: "holds ?P (call env ev) (\<lambda>_. ?P) (\<lambda>_. True)" for ev
    by (rule holds_weaken [OF holds_call_ignored [OF calls]]) simp_all
  have now: "holds ?P (defaultNow env) (\<lambda>_. ?P) (\<lambda>_. True)"
    by (rule holds_weaken [OF holds_now_ignored [OF calls]]) simp_all
  have persist: "holds ?P (persistRun env) (\<lambda>_. ?P) (\<lambda>_. True)"
    by (rule holds_weaken [OF holds_persist_ignoring [OF calls]]) (simp_all add: persisted_run_def)
  have set: "holds ?P (modifyRun (finished_run status stage reason t)) (\<lambda>_. ?P) (\<lambda>_. True)" for t
    by (rule holds_modifyRun) (simp add: finished_run_def)
  have close: "holds ?P (case z of None \<Rightarrow> ret () | Some s \<Rightarrow> call env (CloseSession s code)) (\<lambda>_. ?P) (\<lambda>_. True)"
    for z code by (intro holds_case_option holds_ret call)
  have stamp: "holds ?P (if status = RunPaused then ret None
      else andThen (defaultNow env) (\<lambda>t. ret (Some t))) (\<lambda>_. ?P) (\<lambda>_. True)"
    by (intro holds_if holds_ret holds_andThen [OF now])
  have last: "holds ?P getRun (\<lambda>run d. rn_sessionId (ct_run d) = y \<and> ct_sessionExecution d = x \<and> run = ct_run d)
      (\<lambda>_. True)" by (rule holds_getRun) simp
  show ?thesis
    unfolding finalize_def
    by (rule holds_andThen [OF get], rule holds_andThen [OF close], rule holds_andThen [OF stamp],
        rule holds_andThen [OF set], rule holds_andThen [OF persist], rule holds_andThen [OF get],
        rule holds_andThen [OF call], rule last)
qed

lemma session_kept_by_refresh:
  assumes "session_of (ct_run d) = Some s" "sameExecutionConfig (ct_sessionExecution d) x"
  shows "refreshSessionForExecution env x d = (Inr (), d)"
  using assms
  by (auto simp: refreshSessionForExecution_def andThen_def getRun_def getExecution_def ret_def session_of_def
      split: option.splits if_splits)

section \<open>Concrete controllers\<close>

definition pausing_controller :: controller where
  "pausing_controller = (new_controller example_run)\<lparr>ct_pauseRequested := True\<rparr>"

definition session_controller :: controller where
  "session_controller = (new_controller (example_run\<lparr>rn_sessionId := Some ''session-1''\<rparr>))
     \<lparr>ct_sessionExecution := Some (deriveAdaptiveExecutionConfig example_run example_context)\<rparr>"

lemmas controller_defs =
  finalizePendingOperatorIntervention_def finalize_def persistRun_def elapsed_now_def andThen_def ret_def
  getRun_def modifyRun_def defaultNow_def call_def Let_def session_of_def

lemma pausing_ends:
  "\<exists>run c'. runLoop example_env pausing_controller = (Inr run, c') \<and> rn_status run = RunPaused"
  by (subst runLoop.simps)
    (simp add: loop_round_def unlessIntervened_def controller_defs pausing_controller_def new_controller_def
      example_run_def example_env_def persisted_run_def finished_run_def)

lemma session_pauses:
  "\<exists>run c'. finalize example_env RunPaused StPaused (Some operator_pause) session_controller = (Inr run, c')
     \<and> rn_sessionId (ct_run c') = Some ''session-1''
     \<and> rn_execution (ct_run c') = None \<and> ct_sessionExecution c' = ct_sessionExecution session_controller"
  by (simp add: controller_defs session_controller_def new_controller_def example_run_def example_env_def
      persisted_run_def finished_run_def)

section \<open>Properties\<close>

text \<open>C3: a run stays within its budgets, whatever its services do.  It ends (the loop is total), the
  number of its last iteration is within the iteration budget, it sends at most one instruction to the
  agent per iteration, and it counts no more reroutes than the reroute budget allows.\<close>

theorem run_within_budget:
  "let run = ct_run c; c' = snd (runLoop env c); run' = ct_run c' in
     rn_iteration run' \<le> max (rn_iteration run) (maxIterations (rn_budget run))
     \<and> int (instructions (log_of c')) - int (instructions (log_of c)) \<le> rn_iteration run' - rn_iteration run
     \<and> rerouteCount (rn_totals run') \<le> max (rerouteCount (rn_totals run)) (maxReroutes (rn_budget run))"
proof -
  obtain r c' where run: "runLoop env c = (r, c')" by fastforce
  have "within_budget (ct_run c) (instructions (log_of c)) Settled (ct_run c) (log_of c)"
    by (simp add: within_budget_def)
  from within_budget.loop_kept [OF run this] run show ?thesis
    by (simp add: within_budget_def Let_def)
qed

text \<open>C6: the run record and the ledger agree, also when a run is broken off by an exception.  The
  summaries that a run gains are exactly those given to the ledger, in order, at most one per
  iteration and in increasing order of the iterations; and the reroutes it counts are exactly those
  that the ledger has written.\<close>

theorem run_recorded:
  "let run = ct_run c; c' = snd (runLoop env c); run' = ct_run c' in
     \<exists>l. log_of c' = log_of c @ l
       \<and> rn_summaries run' = rn_summaries run @ summaries_written l
       \<and> rerouteCount (rn_totals run') = rerouteCount (rn_totals run) + int (reroutes_written l)
       \<and> sorted_wrt (<) (map su_iteration (summaries_written l))
       \<and> su_iteration ` set (summaries_written l) \<subseteq> {rn_iteration run <.. rn_iteration run'}"
proof -
  obtain r c' where run: "runLoop env c = (r, c')" by fastforce
  have "recorded (ct_run c) (log_of c) Settled (ct_run c) (log_of c)"
    by (simp add: recorded_def)
  from recorded.loop_kept [OF run this] run show ?thesis
    by (fastforce simp: recorded_def Let_def)
qed

text \<open>Every version of the run that is written is accounted for: its remaining tokens and
  iterations are those that its budget leaves, it belongs to the same run with the same destination,
  budget and policy, and the versions are written in the order of the iterations.\<close>

theorem run_versions_accounted:
  "let run = ct_run c; c' = snd (runLoop env c) in
     \<exists>l. log_of c' = log_of c @ l
       \<and> set (runs_written l) \<subseteq> {r. accounted r \<and> same_run run r \<and> rn_iteration r \<le> rn_iteration (ct_run c')}
       \<and> sorted (map rn_iteration (runs_written l))"
proof -
  obtain r c' where run: "runLoop env c = (r, c')" by fastforce
  have "well_written (ct_run c) (log_of c) Settled (ct_run c) (log_of c)"
    by (simp add: well_written_def same_run_def)
  from well_written.loop_kept [OF run this] run show ?thesis
    by (auto simp: well_written_def Let_def)
qed

text \<open>C4: a run that the loop returns has ended for a reason.  It is paused, stopped, failed or
  completed, at the stage of that name; it has a stop reason, which is its last decision; it has a
  completion time exactly when it is not paused; it is completed only for the reason that the goal is
  reached, and only when publishing calls for no operator; and its last act was to write its final
  report.\<close>

theorem run_ends_with_reason:
  assumes "runLoop env c = (Inr run, c')"
  shows "run = ct_run c'
    \<and> (\<exists>l. log_of c' = l @ [(WriteFinalReport run (last_summary run), True)])
    \<and> (\<exists>reason. rn_lastStopReason run = Some reason
         \<and> nv_lastDecision (rn_navigation run) = Some (show_stop_code (sr_code reason))
         \<and> (rn_status run = RunCompleted \<longrightarrow> sr_code reason = GoalReached))
    \<and> (rn_status run, rn_stage run) \<in> {(RunPaused, StPaused), (RunStopped, StStopped),
         (RunFailed, StFailed), (RunCompleted, StCompleted)}
    \<and> (rn_completedAt run = None \<longleftrightarrow> rn_status run = RunPaused)
    \<and> (rn_status run = RunCompleted \<longrightarrow> \<not> requiresHumanPublishInput (rn_latestPublishOutcome run)
         \<and> \<not> requiresManualPublishReview (rn_latestPublishOutcome run))"
  using loop_finishes [OF assms] by (auto simp: finished_def publish_settled_def)

theorem run_ends_with_reason_witness:
  "\<exists>run c'. runLoop example_env pausing_controller = (Inr run, c')
     \<and> rn_completedAt run = None \<and> rn_stage run = StPaused"
proof -
  obtain run c' where run: "runLoop example_env pausing_controller = (Inr run, c')" "rn_status run = RunPaused"
    using pausing_ends by blast
  from run_ends_with_reason [OF run(1)] run show ?thesis by auto
qed

text \<open>A request of the operator that is pending when a round begins wins over everything else.  A
  stop ends the run as stopped with its own reason, a pause (without a stop) as paused; no budget is
  looked at, no context is synthesised and no instruction is sent.\<close>

theorem pending_request_wins:
  assumes "ct_stopReason c \<noteq> None \<or> ct_pauseRequested c"
  shows "runLoop env c =
    (case ct_stopReason c of
       Some reason \<Rightarrow> finalize env RunStopped StStopped (Some reason) c
     | None \<Rightarrow> finalize env RunPaused StPaused (Some operator_pause) c)"
  using assms
  by (subst runLoop.simps)
    (auto simp: loop_round_def unlessIntervened_def finalizePendingOperatorIntervention_def andThen_def
      ret_def split: option.splits sum.splits prod.splits)

theorem pending_request_wins_witness:
  "runLoop example_env pausing_controller
     = finalize example_env RunPaused StPaused (Some operator_pause) pausing_controller"
  using pending_request_wins [of pausing_controller example_env]
  by (simp add: pausing_controller_def new_controller_def)

text \<open>Between the check at the start of a round and the check after the execution the operator's
  requests are not looked at.  Whether a stop or a pause is pending makes no difference to the context,
  the plan and the execution of the iteration: the same calls are made, the instruction to the agent
  included.\<close>

theorem requests_wait_for_execution:
  "let steps = andThen (prepare_context env i) (\<lambda>context.
         andThen (plan_waypoint env context) (\<lambda>(proposal, review). execute_waypoint env proposal context))
   in fst (steps (c\<lparr>ct_stopReason := s, ct_pauseRequested := p\<rparr>)) = fst (steps c)
      \<and> log_of (snd (steps (c\<lparr>ct_stopReason := s, ct_pauseRequested := p\<rparr>))) = log_of (snd (steps c))"
proof -
  have "blind (andThen (prepare_context env i) (\<lambda>context.
      andThen (plan_waypoint env context) (\<lambda>(proposal, review). execute_waypoint env proposal context)))"
    unfolding case_prod_beta by (intro blind_andThen blind_prepare blind_plan blind_execute)
  note this [unfolded blind_def, THEN spec, THEN spec, of c "c\<lparr>ct_stopReason := s, ct_pauseRequested := p\<rparr>"]
  then show ?thesis by (simp add: but_requests_def log_of_def Let_def)
qed

text \<open>A paused run goes on with the session that the pause has closed.  Pausing closes the
  session but leaves its identifier in the run; when the run is taken up again with that identifier
  and execution profile (which \<open>resume\<close> leaves alone) and the next waypoint asks for the same profile,
  the next call is an instruction to the closed session, and no new one is opened before it.\<close>

theorem resumed_run_instructs_closed_session:
  assumes "session_of (ct_run c) = Some s" "finalize env RunPaused StPaused reason c = (Inr run, c')"
    and "rn_sessionId (ct_run d) = rn_sessionId (ct_run c')" "ct_sessionExecution d = ct_sessionExecution c'"
    and "sameExecutionConfig (ct_sessionExecution c) (deriveAdaptiveExecutionConfig (ct_run d) context)"
  shows "(CloseSession s (reason_or_status reason RunPaused), True) \<in> set (log_of c')
    \<and> (\<exists>ok l. log_of (snd (executeProposal env' proposal context d)) =
          log_of d @ (SendInstruction s (pp_promptText proposal)
            (rn_runId (ct_run d) @ '':'' @ show_int (pp_iteration proposal)), ok) # l)"
proof
  show "(CloseSession s (reason_or_status reason RunPaused), True) \<in> set (log_of c')"
    using holdsD(1) [OF finalize_closes assms(1,2)] .
  have "rn_sessionId (ct_run c) = Some s" using assms(1) by (auto simp: session_of_def split: option.splits if_splits)
  then have "rn_sessionId (ct_run c') = Some s" "ct_sessionExecution c' = ct_sessionExecution c"
    using holdsD(1) [OF finalize_keeps [of "Some s" "ct_sessionExecution c"] _ assms(2)] by simp_all
  with assms have session: "session_of (ct_run d) = Some s"
    and same: "sameExecutionConfig (ct_sessionExecution d) (deriveAdaptiveExecutionConfig (ct_run d) context)"
    by (auto simp: session_of_def split: option.splits if_splits)
  note refresh = session_kept_by_refresh [OF session same, of env']
  let ?e = "SendInstruction s (pp_promptText proposal) (rn_runId (ct_run d) @ '':'' @ show_int (pp_iteration proposal))"
  have "\<not> is_interrupt ?e" "\<not> is_interrupt (WaitSession s)" by simp_all
  note send = call_cases [OF this(1), of env' d] and wait = call_cases [OF this(2), of env']
  show "\<exists>ok l. log_of (snd (executeProposal env' proposal context d)) = log_of d @ (?e, ok) # l"
  proof (rule send)
    fix c1 assume sent: "call env' ?e d = (Inr (), c1)" "log_of c1 = log_of d @ [(?e, True)]"
    show ?thesis
      by (rule wait [of c1]) (use refresh session sent in \<open>auto simp: executeProposal_def andThen_def
        getRun_def ask_def ret_def\<close>)
  next
    fix message c1 assume "call env' ?e d = (Inl message, c1)" "log_of c1 = log_of d @ [(?e, False)]"
    then show ?thesis using refresh session by (auto simp: executeProposal_def andThen_def getRun_def)
  qed
qed

theorem resumed_run_instructs_closed_session_witness:
  "\<exists>c' ok l t i. (CloseSession ''session-1'' ''missing_human_input'', True) \<in> set (log_of c')
     \<and> log_of (snd (executeProposal example_env example_proposal example_context c'))
        = log_of c' @ (SendInstruction ''session-1'' t i, ok) # l"
proof -
  obtain run c' where paused: "finalize example_env RunPaused StPaused (Some operator_pause) session_controller
      = (Inr run, c')" "rn_execution (ct_run c') = None"
    using session_pauses by blast
  have session: "session_of (ct_run session_controller) = Some ''session-1''"
    by (simp add: session_controller_def new_controller_def session_of_def)
  have same: "sameExecutionConfig (ct_sessionExecution session_controller)
      (deriveAdaptiveExecutionConfig (ct_run c') example_context)"
    using paused(2) by (simp add: session_controller_def new_controller_def deriveAdaptiveExecutionConfig_def
        resolveBaseExecutionConfig_def sameExecutionConfig_def example_context_def example_run_def Let_def)
  from resumed_run_instructs_closed_session [OF session paused(1) refl refl same, of example_env example_proposal]
  show ?thesis by (auto simp: reason_or_status_def operator_pause_def)
qed

end
