(* ===== verification/AutoDrivePublishing.thy ===== *)
theory AutoDrivePublishing
  imports AutoDriveRun
begin

text \<open>
  What publishing does to the checkout: the push of a publish candidate creates a branch, switches to
  it, pushes it and switches back, and any of the four may fail
  (\<open>pushPublishCandidate\<close> of \<^verbatim>\<open>apps/code/src/application/runtime/facades/runtimeAutoDriveController.ts\<close>).
\<close>

section \<open>The checkout\<close>

text \<open>The branch that is checked out after the calls of a log, and those checked out at its pushes.\<close>

fun head_after :: "string \<Rightarrow> log \<Rightarrow> string" where
  "head_after b [] = b"
| "head_after b ((CheckoutBranch b', ok) # l) = head_after (if ok then b' else b) l"
| "head_after b (e # l) = head_after b l"

fun pushed_heads :: "string \<Rightarrow> log \<Rightarrow> string list" where
  "pushed_heads b [] = []"
| "pushed_heads b ((CheckoutBranch b', ok) # l) = pushed_heads (if ok then b' else b) l"
| "pushed_heads b ((PushGit, ok) # l) = b # pushed_heads b l"
| "pushed_heads b (e # l) = pushed_heads b l"

lemma git_not_interrupt:
  "\<not> is_interrupt (CreateBranch b)" "\<not> is_interrupt (CheckoutBranch b)" "\<not> is_interrupt PushGit"
  by simp_all

lemmas create_cases = call_cases [OF git_not_interrupt(1), case_names returns throws]
lemmas checkout_cases = call_cases [OF git_not_interrupt(2), case_names returns throws]
lemmas push_cases = call_cases [OF git_not_interrupt(3), case_names returns throws]

definition push_kept :: "string \<Rightarrow> string \<Rightarrow> log \<Rightarrow> publish_outcome \<Rightarrow> bool" where
  "push_kept originalBranch branchName l outcome \<longleftrightarrow>
     po_pushed outcome = ((PushGit, True) \<in> set l)
     \<and> set (pushed_heads originalBranch l) \<subseteq> {branchName}
     \<and> (po_status outcome = PubCompleted \<longrightarrow> po_pushed outcome)
     \<and> (if po_status outcome = PubCompleted then head_after originalBranch l = originalBranch
        else po_status outcome = PubFailed \<and> po_restoreBranch outcome = Some originalBranch
          \<and> (head_after originalBranch l = originalBranch
             \<or> last l = (CheckoutBranch originalBranch, False)))"

lemma push_failed_log:
  "\<exists>outcome c' l. push_failed env b n m t switched pushed message c = (Inr outcome, c')
     \<and> log_of c' = log_of c @ l \<and> po_pushed outcome = pushed \<and> po_status outcome = PubFailed
     \<and> po_restoreBranch outcome = Some b
     \<and> (if switched then l \<in> {[(CheckoutBranch b, True)], [(CheckoutBranch b, False)]} else l = [])"
proof (cases switched)
  case False
  then show ?thesis
    by (auto simp: push_failed_def Let_def ret_def with_operator_actions_def push_outcome_def)
next
  case True
  show ?thesis
  proof (cases rule: checkout_cases [where b = b and env = env and c = c])
    case (returns c')
    with True show ?thesis
      by (auto simp: push_failed_def Let_def andThen_def attempt_def ret_def with_operator_actions_def
          push_outcome_def)
  next
    case (throws msg c')
    with True show ?thesis
      by (auto simp: push_failed_def Let_def andThen_def attempt_def ret_def with_operator_actions_def
          push_outcome_def)
  qed
qed

lemma push_steps_kept:
  "\<exists>outcome c' l. push_steps env b n m t c = (Inr outcome, c') \<and> log_of c' = log_of c @ l
     \<and> push_kept b n l outcome"
proof -
  have failed: "\<exists>outcome c' l. push_failed env b n m t switched pushed message d = (Inr outcome, c')
      \<and> log_of c' = log_of c @ l \<and> push_kept b n l outcome"
    if "log_of d = log_of c @ l0" "pushed = ((PushGit, True) \<in> set l0)"
      "set (pushed_heads b l0) \<subseteq> {n}" "\<And>l. pushed_heads b (l0 @ l) = pushed_heads b l0 @ pushed_heads (head_after b l0) l"
      "\<And>l. head_after b (l0 @ l) = head_after (head_after b l0) l" "\<not> switched \<Longrightarrow> head_after b l0 = b"
    for d l0 switched pushed message
    using push_failed_log [of env b n m t switched pushed message d] that
    by (auto simp: push_kept_def split: if_splits)
  show ?thesis
  proof (cases rule: create_cases [where b = n and env = env and c = c])
    case (throws message c1)
    then show ?thesis using failed [of c1 "[(CreateBranch n, False)]" False False message]
      by (simp add: push_steps_def Let_def andThen_def attempt_def)
  next
    case (returns c1)
    note create = this
    show ?thesis
    proof (cases rule: checkout_cases [where b = n and env = env and c = c1])
      case (throws message c2)
      then show ?thesis
        using create failed [of c2 "[(CreateBranch n, True), (CheckoutBranch n, False)]" False False message]
        by (simp add: push_steps_def Let_def andThen_def attempt_def)
    next
      case (returns c2)
      note switch = this
      show ?thesis
      proof (cases rule: push_cases [where env = env and c = c2])
        case (throws message c3)
        then show ?thesis
          using create switch failed [of c3
              "[(CreateBranch n, True), (CheckoutBranch n, True), (PushGit, False)]" False True message]
          by (simp add: push_steps_def Let_def andThen_def attempt_def)
      next
        case (returns c3)
        note push = this
        show ?thesis
        proof (cases rule: checkout_cases [where b = b and env = env and c = c3])
          case (throws message c4)
          then show ?thesis
            using create switch push failed [of c4 "[(CreateBranch n, True), (CheckoutBranch n, True),
                (PushGit, True), (CheckoutBranch b, False)]" True True message]
            by (simp add: push_steps_def Let_def andThen_def attempt_def)
        next
          case (returns c4)
          with create switch push show ?thesis
            by (intro exI [of _ "push_outcome PubCompleted
                (''Pushed isolated publish candidate branch '' @ n @ ''.'') m (Some n) None True t"]
                exI [of _ c4] exI [of _ "[(CreateBranch n, True), (CheckoutBranch n, True),
                (PushGit, True), (CheckoutBranch b, True)]"])
              (simp add: push_steps_def Let_def andThen_def attempt_def ret_def push_kept_def push_outcome_def)
        qed
      qed
    qed
  qed
qed

section \<open>When a push is attempted\<close>

definition unpushed :: "log \<Rightarrow> controller \<Rightarrow> bool" where
  "unpushed l0 c \<longleftrightarrow> (\<exists>l. log_of c = l0 @ l \<and> PushGit \<notin> fst ` set l)"

lemma unpushed_call:
  "\<not> is_interrupt ev \<Longrightarrow> ev \<noteq> PushGit \<Longrightarrow> holds (unpushed l0) (call env ev) (\<lambda>_. unpushed l0) (unpushed l0)"
  by (rule holds_call_log) (auto simp: unpushed_def image_iff)

lemma holds_attempt_same: "holds P m (\<lambda>_. P') P' \<Longrightarrow> holds P (attempt m) (\<lambda>_. P') E"
  by (rule holds_attempt, erule holds_weaken) simp_all

lemma branch_only_unpushed:
  "holds (unpushed l0) (createBranchOnlyCandidate env summary) (\<lambda>_. unpushed l0) (\<lambda>_. False)"
proof -
  have now: "holds (unpushed l0) (defaultNow env) (\<lambda>_. unpushed l0) (\<lambda>_. False)"
    by (simp add: holds_def defaultNow_def unpushed_def)
  have get: "holds (unpushed l0) getRun (\<lambda>_. unpushed l0) (\<lambda>_. False)"
    by (rule holds_getRun)
  have message: "holds (unpushed l0) (attempt (if en_canGenerate env
       then andThen (ask env GenerateCommitMessage (en_message env)) (\<lambda>m. ret (Some m)) else ret None))
      (\<lambda>_. unpushed l0) (\<lambda>_. False)"
    by (intro holds_attempt_same holds_if holds_andThen [OF holds_ask_log [OF unpushed_call]] holds_ret)
      simp_all
  have commit: "holds (unpushed l0) (attempt (andThen (call env StageAll) (\<lambda>_. call env (CommitGit m))))
      (\<lambda>_. unpushed l0) (\<lambda>_. False)" for m
    by (intro holds_attempt_same holds_andThen [OF unpushed_call] unpushed_call) simp_all
  show ?thesis
    unfolding createBranchOnlyCandidate_def Let_def
    by (intro holds_if holds_ret holds_andThen [OF now] holds_andThen [OF message] holds_andThen [OF get]
        holds_andThen [OF commit])
qed

definition push_allowed :: "context_snapshot \<Rightarrow> iteration_summary \<Rightarrow> bool" where
  "push_allowed context summary \<longleftrightarrow>
     pr_recommendedMode (cx_publishReadiness context) = PushCandidate
       \<and> \<not> shouldAvoidAutomaticPushFromHistory context
     \<or> pr_recommendedMode (cx_publishReadiness context) = BranchOnly
       \<and> et_publishPriority (cx_executionTuning context) = PrioPushCandidate
       \<and> vr_success (su_validation summary) = Some True
       \<and> gc_behind (cx_git context) = 0 \<and> nullish (gc_remote (cx_git context)) [] \<noteq> []"

lemma not_allowed_unpushed:
  assumes "\<not> push_allowed context summary"
  shows "holds (unpushed l0) (maybePublishGoalReachedOutcome env context summary) (\<lambda>_. unpushed l0) (\<lambda>_. False)"
proof -
  have branch: "holds (unpushed l0) (maybePublishBranchOnlyCandidate env context summary)
      (\<lambda>x c. unpushed l0 c \<and> (x \<noteq> None \<longrightarrow> vr_success (su_validation summary) = Some True)) (\<lambda>_. False)"
  proof (cases "vr_success (su_validation summary) = Some True")
    case True
    then show ?thesis
      unfolding maybePublishBranchOnlyCandidate_def
      by (intro holds_if holds_ret) (auto intro: holds_weaken [OF branch_only_unpushed])
  qed (simp add: maybePublishBranchOnlyCandidate_def createBranchOnlyCandidate_def holds_def ret_def)
  have rest: "holds (\<lambda>c. unpushed l0 c \<and> (x \<noteq> None \<longrightarrow> vr_success (su_validation summary) = Some True))
     (if pr_recommendedMode (cx_publishReadiness context) = PushCandidate then
          (if shouldAvoidAutomaticPushFromHistory context then createBranchOnlyCandidate env summary
           else push)
        else if shouldPromoteBranchOnlyToPush context x then push
        else ret x) (\<lambda>_. unpushed l0) (\<lambda>_. False)" for x push
  proof -
    have "x = None \<or> vr_success (su_validation summary) \<noteq> Some True" if "shouldPromoteBranchOnlyToPush context x"
      using that assms by (auto simp: shouldPromoteBranchOnlyToPush_def push_allowed_def)
    then have "holds (\<lambda>c. unpushed l0 c \<and> (x \<noteq> None \<longrightarrow> vr_success (su_validation summary) = Some True))
        push (\<lambda>_. unpushed l0) (\<lambda>_. False)" if "shouldPromoteBranchOnlyToPush context x"
      using that by (auto simp: holds_def shouldPromoteBranchOnlyToPush_def)
    moreover have "shouldAvoidAutomaticPushFromHistory context"
      if "pr_recommendedMode (cx_publishReadiness context) = PushCandidate"
      using that assms by (auto simp: push_allowed_def)
    ultimately show ?thesis
      by (intro holds_if holds_ret) (auto intro: holds_weaken [OF branch_only_unpushed])
  qed
  show ?thesis
    unfolding maybePublishGoalReachedOutcome_def Let_def by (rule holds_andThen [OF branch rest])
qed

section \<open>Properties\<close>

text \<open>C7: pushing a publish candidate never throws and accounts for what it did, whichever of its git
  calls fail.  Only the candidate branch is ever pushed; the outcome says pushed exactly when a push
  succeeded; a completed outcome has pushed and has restored the checkout; after a failed one the
  checkout is the original branch unless the last call, the attempt to restore it, failed, and the
  outcome names the branch to restore.\<close>

theorem push_candidate_restores:
  "\<exists>outcome c' l. pushPublishCandidate env context m c = (Inr outcome, c') \<and> log_of c' = log_of c @ l
     \<and> (if en_canPush env \<and> nullish (gc_branch (cx_git context)) [] \<noteq> []
        then push_kept (nullish (gc_branch (cx_git context)) [])
          (buildPublishBranchName (en_isoStamp env) (ct_run c) (en_now env (ct_clock c))) l outcome
        else l = [] \<and> po_status outcome = PubFailed \<and> \<not> po_pushed outcome)"
proof -
  let ?c = "c\<lparr>ct_clock := Suc (ct_clock c)\<rparr>"
  from push_steps_kept [of env "nullish (gc_branch (cx_git context)) []"
      "buildPublishBranchName (en_isoStamp env) (ct_run c) (en_now env (ct_clock c))" m
      "en_now env (ct_clock c)" ?c]
  show ?thesis
    by (auto simp: pushPublishCandidate_def Let_def andThen_def defaultNow_def getRun_def ret_def
        push_outcome_def)
qed

text \<open>C9: a push is attempted only when it is allowed: publishing pushes on its own either when the
  context recommends a push and the history of the run shows no rejected one, or when the context
  recommends a branch, pushing has priority, the validation succeeded, and the branch has a remote and
  is not behind it.\<close>

theorem push_only_when_allowed:
  assumes "maybePublishGoalReachedOutcome env context summary c = (r, c')"
    and "log_of c' = log_of c @ l" "PushGit \<in> fst ` set l"
  shows "push_allowed context summary"
proof (rule ccontr)
  assume "\<not> push_allowed context summary"
  from not_allowed_unpushed [OF this] have
    "holds (unpushed (log_of c)) (maybePublishGoalReachedOutcome env context summary)
      (\<lambda>_. unpushed (log_of c)) (\<lambda>_. False)" .
  moreover have "unpushed (log_of c) c" by (simp add: unpushed_def)
  ultimately have "unpushed (log_of c) c'"
    using assms(1) by (cases r) (auto dest: holdsD)
  with assms(2,3) show False by (simp add: unpushed_def)
qed

text \<open>A context that recommends a push, and a summary whose validation succeeded.\<close>

definition push_context :: context_snapshot where
  "push_context = example_context\<lparr>cx_publishReadiness :=
     (cx_publishReadiness example_context)\<lparr>pr_recommendedMode := PushCandidate\<rparr>\<rparr>"

theorem push_only_when_allowed_witness:
  "push_allowed push_context example_summary"
proof -
  let ?c = "new_controller example_run"
  obtain r c' where run: "maybePublishGoalReachedOutcome example_env push_context example_summary ?c = (r, c')"
    by fastforce
  have "log_of ?c = []" by (simp add: log_of_def new_controller_def)
  moreover have "PushGit \<in> fst ` set (log_of c')"
    using run
    by (simp add: maybePublishGoalReachedOutcome_def maybePublishBranchOnlyCandidate_def
        shouldAvoidAutomaticPushFromHistory_def pushPublishCandidate_def push_steps_def push_context_def
        example_context_def example_env_def andThen_def attempt_def ret_def defaultNow_def getRun_def
        call_def Let_def new_controller_def log_of_def)
      (auto simp: image_iff)
  ultimately show ?thesis by (intro push_only_when_allowed [OF run, of "log_of c'"]) simp_all
qed

end
