(* ===== verification/AutoDriveLiveness.thy ===== *)
theory AutoDriveLiveness
  imports AutoDriveRun
begin

text \<open>
  A run of the AutoDrive controller returns whenever its services answer: no method throws on its
  own account.  The one exception that the code raises itself, for a session that failed to
  initialise, needs an empty session identifier.
\<close>

section \<open>Methods that do not throw\<close>

definition named_session :: "controller \<Rightarrow> bool" where
  "named_session c \<longleftrightarrow> rn_sessionId (ct_run c) \<noteq> Some []"

definition safe :: "'a ctl \<Rightarrow> bool" where
  "safe m \<longleftrightarrow> holds named_session m (\<lambda>_. named_session) (\<lambda>_. False)"

lemma safe_basic:
  "safe (ret x)" "safe getRun" "safe getExecution" "safe (setExecution y)" "safe (defaultNow env)"
  by (simp_all add: safe_def holds_def named_session_def ret_def getRun_def getExecution_def
      setExecution_def defaultNow_def)

lemma safe_modify:
  "(\<And>r. rn_sessionId r \<noteq> Some [] \<Longrightarrow> rn_sessionId (f r) \<noteq> Some []) \<Longrightarrow> safe (modifyRun f)"
  by (simp add: safe_def holds_def named_session_def modifyRun_def)

lemma safe_andThen: "safe m \<Longrightarrow> (\<And>x. safe (f x)) \<Longrightarrow> safe (andThen m f)"
  unfolding safe_def by (rule holds_andThen)

lemma safe_attempt: "safe m \<Longrightarrow> safe (attempt m)"
  unfolding safe_def by (rule holds_attempt, erule holds_weaken) simp_all

lemma safe_cases:
  "(b \<Longrightarrow> safe m) \<Longrightarrow> (\<not> b \<Longrightarrow> safe n) \<Longrightarrow> safe (if b then m else n)"
  "safe k \<Longrightarrow> (\<And>y. safe (h y)) \<Longrightarrow> safe (case x of None \<Rightarrow> k | Some y \<Rightarrow> h y)"
  "(\<And>a. safe (f a)) \<Longrightarrow> (\<And>b. safe (g b)) \<Longrightarrow> safe (case s of Inl a \<Rightarrow> f a | Inr b \<Rightarrow> g b)"
  by (auto split: option.splits sum.splits)

locale answering_env =
  fixes env :: env
  assumes answers: "en_fails env n ev = None" and sessions: "en_session env n \<noteq> []"
begin

lemma safe_call: "safe (call env ev)"
  by (simp add: safe_def holds_def call_def Let_def answers named_session_def)

lemma safe_ask: "safe (ask env ev answer)"
  using safe_call [of ev] by (auto simp: safe_def holds_def ask_def andThen_def ret_def split: prod.splits sum.splits)

lemmas safe_rules = safe_basic safe_andThen safe_attempt safe_cases safe_call safe_ask

lemma safe_persist: "safe (persistRun env)"
  unfolding persistRun_def elapsed_now_def
  by (intro safe_rules safe_modify) (simp_all add: persisted_run_def)

text \<open>After \<open>spawnSession\<close> there is a session, and after \<open>refreshSessionForExecution\<close>, too.\<close>

definition in_session :: "controller \<Rightarrow> bool" where
  "in_session c \<longleftrightarrow> session_of (ct_run c) \<noteq> None"

lemma in_session_named: "in_session c \<Longrightarrow> named_session c"
  by (auto simp: in_session_def named_session_def session_of_def)

lemma persist_in_session: "holds in_session (persistRun env) (\<lambda>_. in_session) (\<lambda>_. False)"
proof -
  have step: "holds in_session m (\<lambda>_. in_session) (\<lambda>_. False)"
    if "m \<in> {call env ev}" for m :: "unit ctl" and ev
    using that by (simp add: holds_def call_def Let_def answers in_session_def)
  have get: "holds in_session getRun (\<lambda>_. in_session) (\<lambda>_. False)" by (rule holds_getRun)
  have now: "holds in_session (defaultNow env) (\<lambda>_. in_session) (\<lambda>_. False)"
    by (simp add: holds_def defaultNow_def in_session_def)
  have elapsed: "holds in_session (elapsed_now env r) (\<lambda>_. in_session) (\<lambda>_. False)" for r
    unfolding elapsed_now_def by (intro holds_case_option holds_ret holds_andThen [OF now])
  have set: "holds in_session (modifyRun (persisted_run u e)) (\<lambda>_. in_session) (\<lambda>_. False)" for u e
    by (rule holds_modifyRun) (simp add: in_session_def session_of_def persisted_run_def)
  show ?thesis
    unfolding persistRun_def
    by (rule holds_andThen [OF now], rule holds_andThen [OF get], rule holds_andThen [OF elapsed],
        rule holds_andThen [OF set], rule holds_andThen [OF get], rule step) simp
qed

lemma spawn_in_session: "holds named_session (spawnSession env) (\<lambda>_. in_session) (\<lambda>_. False)"
proof -
  have get: "holds named_session getRun (\<lambda>run c. named_session c \<and> ct_run c = run) (\<lambda>_. False)"
    by (rule holds_getRun) simp
  have opened: "holds named_session (ask env (SpawnSession x) (en_session env))
      (\<lambda>session _. session \<noteq> []) (\<lambda>_. False)" for x
    by (auto simp: holds_def ask_def andThen_def call_def Let_def ret_def answers sessions)
  have exec: "holds named_session getExecution (\<lambda>_. named_session) (\<lambda>_. False)"
    by (rule holds_getExecution)
  have keep: "holds (\<lambda>_. session \<noteq> []) (setExecution x) (\<lambda>_ _. session \<noteq> []) (\<lambda>_. False)"
    for x and session :: string by (rule holds_setExecution)
  have set: "holds (\<lambda>_. session \<noteq> []) (modifyRun (\<lambda>run. run\<lparr>rn_sessionId := Some session\<rparr>))
      (\<lambda>_. in_session) (\<lambda>_. False)" for session
    by (rule holds_modifyRun) (simp add: in_session_def session_of_def)
  have rest: "holds named_session (andThen getExecution (\<lambda>current.
       let execution = nullish current (resolveBaseExecutionConfig run)
       in andThen (ask env (SpawnSession execution) (en_session env)) (\<lambda>session.
          andThen (setExecution (Some execution)) (\<lambda>_.
          andThen (modifyRun (\<lambda>run. run\<lparr>rn_sessionId := Some session\<rparr>)) (\<lambda>_.
          persistRun env))))) (\<lambda>_. in_session) (\<lambda>_. False)" for run
    unfolding Let_def
    by (rule holds_andThen [OF exec], rule holds_andThen [OF opened], rule holds_andThen [OF keep],
        rule holds_andThen [OF set], rule persist_in_session)
  show ?thesis
    unfolding spawnSession_def
    by (rule holds_andThen [OF get])
      (intro holds_if, simp add: holds_def ret_def in_session_def, rule holds_weaken [OF rest], simp_all)
qed

lemma refresh_in_session: "holds named_session (refreshSessionForExecution env x) (\<lambda>_. in_session) (\<lambda>_. False)"
proof -
  have close: "holds named_session (case y of None \<Rightarrow> ret ()
       | Some s \<Rightarrow> if same then ret ()
           else andThen (call env (CloseSession s t)) (\<lambda>_.
                andThen (modifyRun (\<lambda>run. run\<lparr>rn_sessionId := None\<rparr>)) (\<lambda>_.
                setExecution None))) (\<lambda>_. named_session) (\<lambda>_. False)" for y same t
  proof -
    have "safe (case y of None \<Rightarrow> ret ()
       | Some s \<Rightarrow> if same then ret ()
           else andThen (call env (CloseSession s t)) (\<lambda>_.
                andThen (modifyRun (\<lambda>run. run\<lparr>rn_sessionId := None\<rparr>)) (\<lambda>_.
                setExecution None)))"
      by (intro safe_rules safe_modify) simp
    then show ?thesis by (simp add: safe_def)
  qed
  have get: "holds named_session getRun (\<lambda>_. named_session) (\<lambda>_. False)"
    "holds named_session getRun (\<lambda>run c. named_session c \<and> ct_run c = run) (\<lambda>_. False)"
    "holds named_session getExecution (\<lambda>_. named_session) (\<lambda>_. False)"
    by (simp_all add: holds_getRun holds_getExecution)
  have keep: "holds named_session (setExecution y) (\<lambda>_. named_session) (\<lambda>_. False)" for y
    by (rule holds_setExecution) (simp add: named_session_def)
  have last: "holds (\<lambda>c. named_session c \<and> ct_run c = run) (if rn_sessionId run = None
      then andThen (setExecution (Some x)) (\<lambda>_. spawnSession env) else ret ())
      (\<lambda>_. in_session) (\<lambda>_. False)" for run
  proof (rule holds_if)
    show "holds (\<lambda>c. named_session c \<and> ct_run c = run) (andThen (setExecution (Some x)) (\<lambda>_. spawnSession env))
        (\<lambda>_. in_session) (\<lambda>_. False)"
      by (rule holds_weaken [OF holds_andThen [OF keep spawn_in_session]]) simp_all
    show "rn_sessionId run \<noteq> None \<Longrightarrow> holds (\<lambda>c. named_session c \<and> ct_run c = run) (ret ())
        (\<lambda>_. in_session) (\<lambda>_. False)"
      by (rule holds_ret) (auto simp: named_session_def in_session_def session_of_def)
  qed
  show ?thesis
    unfolding refreshSessionForExecution_def
    by (rule holds_andThen [OF get(1)], rule holds_andThen [OF get(3)], rule holds_andThen [OF close],
        rule holds_andThen [OF get(2) last])
qed

lemma safe_execute: "safe (execute_waypoint env proposal context)"
proof -
  have get: "holds named_session getRun (\<lambda>_. named_session) (\<lambda>_. False)" by (rule holds_getRun)
  have session: "holds in_session getRun (\<lambda>run c. in_session c \<and> ct_run c = run) (\<lambda>_. False)"
    by (rule holds_getRun) simp
  have talk: "safe (andThen (call env (SendInstruction s t i)) (\<lambda>_. ask env (WaitSession s) (en_wait env)))" for s t i
    by (intro safe_rules)
  have send: "holds (\<lambda>c. in_session c \<and> ct_run c = run) (case session_of run of
       None \<Rightarrow> throw ''AutoDrive session failed to initialize.''
     | Some s \<Rightarrow> andThen (call env (SendInstruction s (t run) (i run))) (\<lambda>_. ask env (WaitSession s) (en_wait env)))
     (\<lambda>_. named_session) (\<lambda>_. False)" for run and t i :: "run_record \<Rightarrow> string"
  proof (rule holds_case_option)
    show "session_of run = None \<Longrightarrow> holds (\<lambda>c. in_session c \<and> ct_run c = run)
        (throw ''AutoDrive session failed to initialize.'') (\<lambda>_. named_session) (\<lambda>_. False)"
      by (rule holds_throw) (auto simp: in_session_def)
    show "holds (\<lambda>c. in_session c \<and> ct_run c = run) (andThen (call env (SendInstruction s (t run) (i run)))
        (\<lambda>_. ask env (WaitSession s) (en_wait env))) (\<lambda>_. named_session) (\<lambda>_. False)" for s
      by (rule holds_weaken [OF talk [unfolded safe_def]]) (auto intro: in_session_named)
  qed
  have "safe (executeProposal env proposal context)"
    unfolding safe_def executeProposal_def
    by (rule holds_andThen [OF get], rule holds_andThen [OF refresh_in_session],
        rule holds_andThen [OF session send])
  then show ?thesis
    unfolding execute_waypoint_def
    by (intro safe_rules safe_modify safe_persist) (simp_all add: add_tokens_def)
qed

lemma safe_failing_commands: "safe (failing_commands env commands)"
  by (induction commands) (auto intro!: safe_rules)

lemma safe_validate: "safe (validate_waypoint env context proposal task)"
  unfolding validate_waypoint_def defaultValidateIteration_def Let_def
  by (intro safe_rules safe_modify safe_persist safe_failing_commands) (simp add: add_tokens_def)

lemma safe_finalize: "safe (finalize env status stage reason)"
  unfolding finalize_def
  by (intro safe_rules safe_modify safe_persist) (simp_all add: finished_run_def)

lemma safe_finish: "safe (andThen (finalize env status stage reason) (\<lambda>run. ret (Some run)))"
  by (intro safe_rules safe_finalize)

lemma safe_intervention: "safe (finalizePendingOperatorIntervention env)"
  using safe_finish unfolding safe_def holds_def finalizePendingOperatorIntervention_def
  by (auto split: option.splits simp: ret_def)

lemma safe_unless: "safe m \<Longrightarrow> safe (unlessIntervened env m)"
  unfolding unlessIntervened_def by (intro safe_rules safe_intervention)

lemma safe_publish: "safe (maybePublishGoalReachedOutcome env context summary)"
  unfolding maybePublishGoalReachedOutcome_def maybePublishBranchOnlyCandidate_def
    createBranchOnlyCandidate_def pushPublishCandidate_def push_steps_def push_failed_def Let_def
  by (intro safe_rules)

lemma safe_decide: "safe (decide_iteration env i context review summary)"
  unfolding decide_iteration_def write_reroute_def Let_def
  by (intro safe_rules safe_modify safe_persist safe_publish)
    (simp_all add: concluded_run_def add_reroute_def)

lemma safe_conclude: "safe (conclude_iteration env i context proposal review validation task)"
proof -
  have "safe (settle env d t)" for d t
    unfolding settle_def Let_def by (intro safe_rules safe_finalize)
  then have "safe (case x of (d, t) \<Rightarrow> settle env d t)" for x by (cases x) simp
  then show ?thesis
    unfolding conclude_iteration_def Let_def
    by (intro safe_basic safe_andThen safe_modify safe_decide) (simp add: progressed_run_def)
qed

lemma safe_iteration: "safe (run_iteration env i)"
proof -
  have fail: "safe (andThen (fail_execution env timedOut) (\<lambda>run. ret (Some run)))" for timedOut
    unfolding fail_execution_def by (intro safe_rules safe_modify safe_finalize) (simp add: add_failure_def)
  have waypoint: "safe (run_waypoint env i context proposal review)" for "context" proposal review
    unfolding run_waypoint_def case_prod_beta
    by (intro safe_andThen safe_execute safe_unless safe_cases fail safe_validate safe_conclude)
  have prepare: "safe (prepare_context env i)"
    unfolding prepare_context_def by (intro safe_rules safe_modify safe_persist) simp_all
  have plan: "safe (plan_waypoint env context)" for "context"
    unfolding plan_waypoint_def Let_def by (intro safe_rules safe_modify safe_persist) simp_all
  have reroute: "safe (reroute_by_review env i review proposal)" for review proposal
    unfolding reroute_by_review_def Let_def
    by (intro safe_rules safe_modify safe_persist) (simp add: rerouted_run_def add_reroute_def)
  show ?thesis
    unfolding run_iteration_def case_prod_beta
    by (intro safe_andThen prepare plan safe_cases reroute safe_basic safe_finalize waypoint)
qed

lemma safe_round: "safe (loop_round env)"
  unfolding loop_round_def by (intro safe_unless safe_andThen safe_basic safe_cases safe_finalize safe_iteration)

lemma loop_returns: "named_session c \<Longrightarrow> \<exists>run c'. runLoop env c = (Inr run, c')"
proof (induction "nat (maxIterations (rn_budget (ct_run c)) - rn_iteration (ct_run c))"
    arbitrary: c rule: less_induct)
  case less
  obtain x d where round: "loop_round env c = (Inr x, d)" "named_session d"
    using safe_round less.prems
    by (cases "loop_round env c"; cases "fst (loop_round env c)") (auto simp: safe_def holds_def)
  show ?case
  proof (cases x)
    case None
    with round less.hyps [of d] round_advances [of env c d] obtain run c' where "runLoop env d = (Inr run, c')"
      by auto
    with round None show ?thesis by (subst runLoop.simps) simp
  next
    case (Some run)
    with round show ?thesis by (subst runLoop.simps) simp
  qed
qed

end

interpretation example_answers: answering_env example_env
  by unfold_locales (simp_all add: example_env_def)

section \<open>Properties\<close>

text \<open>C8: a run returns whenever its services answer.  If no injected service throws and every
  session that is opened has an identifier, the loop throws nothing itself and returns the finished
  run, whatever the services answer and whenever the operator interferes.\<close>

theorem run_returns:
  assumes "\<And>n ev. en_fails env n ev = None" "\<And>n. en_session env n \<noteq> []"
    and "rn_sessionId (ct_run c) \<noteq> Some []"
  shows "\<exists>run c'. runLoop env c = (Inr run, c')"
proof -
  have "answering_env env" by (rule answering_env.intro) (rule assms)+
  from answering_env.loop_returns [OF this] assms(3) show ?thesis by (simp add: named_session_def)
qed

theorem run_returns_witness:
  "\<exists>run c'. runLoop example_env (new_controller example_run) = (Inr run, c')"
  by (rule run_returns) (simp_all add: example_env_def new_controller_def example_run_def)

end
