(* ===== verification/AutoDriveScoring.thy ===== *)
theory AutoDriveScoring
  imports AutoDriveTypes
begin

text \<open>
  Ranking what to do next: \<^verbatim>\<open>facades/runtimeAutoDriveOpportunityScoring.ts\<close>.  Every candidate gets a
  list of reasons with signed weights; its score is their sum; the five best are kept.  Ties are
  broken by \<open>localeCompare\<close> on the titles, a function of the standard library that depends on the
  locale: the parameter \<open>title_le\<close>.
\<close>

record candidate_draft =
  cd_id :: string
  cd_title :: string
  cd_summary :: string
  cd_rationale :: string
  cd_repoAreas :: "string list"
  cd_confidence :: confidence
  cd_risk :: risk_level
  cd_baseScore :: int

record commit_momentum =
  mo_topAreas :: "string list"
  mo_alignedSummaries :: "string list"
  mo_alignmentScore :: rat
  mo_hasHighDivergence :: bool

record route_stagnation =
  sg_repeatedAreas :: "string list"
  sg_repeatedBlockers :: "string list"
  sg_isStagnating :: bool
  sg_summary :: "string option"

record scoring_input =
  si_candidates :: "candidate_draft list"
  si_directionHypotheses :: "direction_hypothesis list"
  si_conflictRisk :: risk_level
  si_collaboratorConfidence :: confidence
  si_momentum :: commit_momentum
  si_routeStagnation :: route_stagnation
  si_executionTuning :: execution_tuning
  si_externalResearch :: "research_entry list"
  si_repoBacklog :: repo_backlog
  si_repoEvaluation :: "repo_evaluation option"
  si_threadContext :: "thread_context option"
  si_blockers :: "string list"
  si_changedPaths :: "string list"
  si_previousValidation :: "validation_result option"
  si_publishCorridor :: "publish_corridor option"
  si_gitBehind :: int

text \<open>\<open>pushReason\<close>: a weight of zero is no reason.\<close>

definition reason :: "string \<Rightarrow> string \<Rightarrow> int \<Rightarrow> score_reason list" where
  "reason code label delta =
     (if delta = 0 then [] else [\<lparr>sc_reasonCode = code, sc_label = label, sc_delta = delta\<rparr>])"

definition only_if :: "bool \<Rightarrow> 'a list \<Rightarrow> 'a list" where
  "only_if b xs = (if b then xs else [])"

definition primary_confidence :: "scoring_input \<Rightarrow> confidence option" where
  "primary_confidence input =
     (case si_directionHypotheses input of [] \<Rightarrow> None | h # _ \<Rightarrow> Some (dh_confidence h))"

definition validation_outcome :: "scoring_input \<Rightarrow> bool option" where
  "validation_outcome input = Option.bind (si_previousValidation input) vr_success"

definition tuning_priority :: "scoring_input \<Rightarrow> publish_priority" where
  "tuning_priority input = et_publishPriority (si_executionTuning input)"

definition evaluation_size :: "scoring_input \<Rightarrow> (repo_evaluation \<Rightarrow> string list) \<Rightarrow> nat" where
  "evaluation_size input f = (case si_repoEvaluation input of None \<Rightarrow> 0 | Some e \<Rightarrow> length (f e))"

text \<open>\<^verbatim>\<open>/autodrive|publish|ledger/i\<close>\<close>

definition publish_path_re :: re where
  "publish_path_re = Alts (Lit_i ''autodrive'') [Lit_i ''publish'', Lit_i ''ledger'']"

definition publish_paths_changed :: "scoring_input \<Rightarrow> bool" where
  "publish_paths_changed input = list_ex (re_test publish_path_re) (si_changedPaths input)"

text \<open>The cases of the \<open>switch\<close>: the reasons after the base score, and the tags.\<close>

definition advance_reasons :: "scoring_input \<Rightarrow> score_reason list \<times> string list" where
  "advance_reasons input =
     (reason ''primary_hypothesis'' ''strong route hypothesis''
        (if primary_confidence input = Some High then 12
         else if primary_confidence input = Some Medium then 8 else 2)
      @ only_if (case si_directionHypotheses input of [] \<Rightarrow> False
              | h # _ \<Rightarrow> length (dh_dominantSignalKinds h) \<ge> 2)
          (reason ''multi_signal_alignment'' ''multi-signal alignment'' 5)
      @ only_if (si_conflictRisk input = High)
          (reason ''collaborator_conflict_penalty'' ''high collaborator conflict'' (-14))
      @ only_if (sg_isStagnating (si_routeStagnation input))
          (reason ''stagnation_penalty'' ''route stagnation detected'' (-12))
      @ only_if (validation_outcome input = Some False)
          (reason ''validation_penalty'' ''recent validation failure'' (-10))
      @ only_if (tuning_priority input \<noteq> PrioNone)
          (reason ''publish_pressure_penalty'' ''publish corridor takes precedence'' (-8)),
      [''primary_route''])"

definition research_reasons :: "scoring_input \<Rightarrow> score_reason list \<times> string list" where
  "research_reasons input =
     (only_if (si_externalResearch input \<noteq> []) (reason ''fresh_research'' ''fresh research is available'' 18)
      @ only_if (primary_confidence input = Some Low)
          (reason ''sparse_route_evidence'' ''route evidence is sparse'' 16)
      @ only_if (validation_outcome input = Some False)
          (reason ''validation_penalty'' ''recent validation failure'' (-8))
      @ only_if (tuning_priority input \<noteq> PrioNone)
          (reason ''publish_pressure_penalty'' ''publish corridor takes precedence'' (-12)),
      only_if (si_externalResearch input \<noteq> []) [''research_first''])"

definition backlog_reasons :: "scoring_input \<Rightarrow> score_reason list \<times> string list" where
  "backlog_reasons input =
     (let backlog = si_repoBacklog input;
          pressure = (nullish (bl_openIssues backlog) 0 > 0 \<or> nullish (bl_openPullRequests backlog) 0 > 0)
      in (only_if pressure (reason ''external_backlog'' ''external backlog pressure is active'' 14)
          @ only_if (length (bl_highlights backlog) \<ge> 2)
              (reason ''backlog_density'' ''multiple backlog highlights exist'' 6)
          @ only_if (validation_outcome input = Some False)
              (reason ''validation_penalty'' ''recent validation failure'' (-6)),
          only_if pressure [''backlog_pressure'']))"

definition thread_reasons :: "scoring_input \<Rightarrow> score_reason list \<times> string list" where
  "thread_reasons input =
     (let prompts = (case si_threadContext input of None \<Rightarrow> [] | Some t \<Rightarrow> tc_recentUserPrompts t);
          memory = nullish (Option.bind (si_threadContext input) tc_longTermMemorySummary) []
      in (only_if (prompts \<noteq> []) (reason ''thread_prompt_alignment'' ''recent operator prompts are available'' 12)
          @ only_if (memory \<noteq> []) (reason ''thread_memory'' ''long-term thread memory is available'' 8)
          @ only_if (si_conflictRisk input = High)
              (reason ''thread_anchor'' ''thread anchor reduces drift under conflict'' 6)
          @ only_if (tuning_priority input = PrioPushCandidate)
              (reason ''publish_pressure_penalty'' ''publish corridor takes precedence'' (-10)),
          only_if (prompts \<noteq> []) [''thread_alignment'']))"

definition momentum_reasons :: "scoring_input \<Rightarrow> score_reason list \<times> string list" where
  "momentum_reasons input =
     (let aligned = (mo_alignedSummaries (si_momentum input) \<noteq> [])
      in (only_if aligned (reason ''aligned_momentum'' ''recent commits align with the destination'' 10)
          @ only_if (mo_alignmentScore (si_momentum input) \<ge> 55 / 100)
              (reason ''high_alignment_score'' ''commit alignment is strong'' 8)
          @ only_if (si_collaboratorConfidence input = Low)
              (reason ''low_momentum_confidence'' ''momentum evidence is still sparse'' (-14))
          @ only_if (mo_hasHighDivergence (si_momentum input))
              (reason ''momentum_divergence_penalty'' ''momentum is diverging from the route'' (-16))
          @ only_if (si_conflictRisk input = High)
              (reason ''collaborator_conflict_penalty'' ''high collaborator conflict'' (-12))
          @ only_if (sg_isStagnating (si_routeStagnation input))
              (reason ''stagnation_penalty'' ''route stagnation detected'' (-10))
          @ only_if (validation_outcome input = Some False)
              (reason ''validation_penalty'' ''recent validation failure'' (-8)),
          only_if aligned [''commit_momentum'']))"

definition stagnation_reasons :: "scoring_input \<Rightarrow> score_reason list \<times> string list" where
  "stagnation_reasons input =
     (let stagnating = sg_isStagnating (si_routeStagnation input)
      in ((if stagnating then reason ''route_stagnation'' ''route stagnation is active'' 24
           else reason ''stagnation_inactive_penalty'' ''no stagnation signal is active'' (-18))
          @ only_if (sg_repeatedAreas (si_routeStagnation input) \<noteq> [])
              (reason ''repeated_surface'' ''the same surfaces are repeating'' 6)
          @ only_if (tuning_priority input = PrioPushCandidate)
              (reason ''publish_pressure_penalty'' ''publish corridor takes precedence'' (-18)),
          only_if stagnating [''reroute'']))"

definition prepare_reasons :: "scoring_input \<Rightarrow> score_reason list \<times> string list" where
  "prepare_reasons input =
     (let active = (tuning_priority input = PrioPrepareBranch);
          reasons = et_reasons (si_executionTuning input)
      in ((if active then reason ''prepare_publish_corridor'' ''publish corridor needs preparation'' 22
           else reason ''publish_inactive_penalty'' ''publish preparation is not active'' (-20))
          @ only_if (''historical_publish_failure'' \<in> set reasons \<or> ''publish_failed'' \<in> set reasons)
              (reason ''historical_publish_failure'' ''recent publish attempts failed'' 10)
          @ only_if (publish_paths_changed input)
              (reason ''publish_surface_ready'' ''publish-related paths already changed'' 6),
          only_if active [''publish_corridor'']))"

definition push_reasons :: "scoring_input \<Rightarrow> score_reason list \<times> string list" where
  "push_reasons input =
     (let active = (tuning_priority input = PrioPushCandidate)
      in ((if active then reason ''push_publish_candidate'' ''publish corridor is ready to push'' 22
           else reason ''publish_inactive_penalty'' ''publish push is not active'' (-24))
          @ only_if (si_publishCorridor input \<noteq> None)
              (reason ''historical_publish_corridor'' ''matching historical publish corridor exists'' 10)
          @ only_if (validation_outcome input = Some True)
              (reason ''validated_publish_path'' ''validation already passed on the route'' 8)
          @ only_if (si_gitBehind input > 0)
              (reason ''behind_remote_penalty'' ''remote is ahead of the workspace branch'' (-14))
          @ only_if (si_blockers input \<noteq> [])
              (reason ''blocker_penalty'' ''active blockers remain'' (-10)),
          only_if active [''publish_corridor'']))"

definition blocker_reasons :: "scoring_input \<Rightarrow> score_reason list \<times> string list" where
  "blocker_reasons input =
     (let active = (si_blockers input \<noteq> [])
      in ((if active then reason ''active_blocker'' ''active blockers need resolution'' 20
           else reason ''no_blocker_penalty'' ''no blocker is active'' (-18))
          @ only_if (validation_outcome input = Some False)
              (reason ''validation_failed'' ''validation failed and needs resolution'' 6),
          only_if active [''blocker_resolution'']))"

definition validation_reasons :: "scoring_input \<Rightarrow> score_reason list \<times> string list" where
  "validation_reasons input =
     (let failed = (validation_outcome input = Some False);
          samples = evaluation_size input ev_samplePaths
      in (only_if failed (reason ''validation_failed'' ''recent validation failed'' 22)
          @ only_if (evaluation_size input ev_representativeCommands > 0)
              (reason ''representative_eval_lane'' ''representative eval lane is available'' 8)
          @ only_if (samples > 0) (reason ''held_out_samples'' ''held-out samples can catch route drift'' 6)
          @ only_if (evaluation_size input ev_scenarioKeys > 0)
              (reason ''scenario_map'' ''scenario map is available'' 4)
          @ only_if (et_validationCommandPreference (si_executionTuning input) = ValFull)
              (reason ''full_validation_preferred'' ''full validation is preferred'' 8)
          @ only_if (si_conflictRisk input = High)
              (reason ''conflict_safe_route'' ''validation is safer under high conflict'' 6)
          @ only_if (tuning_priority input = PrioPushCandidate)
              (reason ''publish_pressure_penalty'' ''publish push takes precedence'' (-16)),
          only_if failed [''validation_recovery''] @ only_if (samples > 0) [''eval_corpus'']))"

definition working_tree_reasons :: "scoring_input \<Rightarrow> score_reason list \<times> string list" where
  "working_tree_reasons input =
     (let dirty = (si_changedPaths input \<noteq> [])
      in ((if dirty then reason ''dirty_working_tree'' ''the working tree already contains changes'' 14
           else reason ''clean_tree_penalty'' ''the working tree is already clean'' (-18))
          @ only_if (tuning_priority input = PrioPrepareBranch \<and> publish_paths_changed input)
              (reason ''publish_stabilization'' ''current changes are already in the publish corridor'' 8),
          only_if dirty [''working_tree'']))"

definition case_reasons :: "string \<Rightarrow> scoring_input \<Rightarrow> score_reason list \<times> string list" where
  "case_reasons i input =
     (if i = ''advance_primary_surface'' then advance_reasons input
      else if i = ''use_fresh_research'' then research_reasons input
      else if i = ''triage_external_backlog'' then backlog_reasons input
      else if i = ''align_with_thread_history'' then thread_reasons input
      else if i = ''follow_recent_commit_momentum'' then momentum_reasons input
      else if i = ''break_route_stagnation'' then stagnation_reasons input
      else if i = ''prepare_publish_corridor'' then prepare_reasons input
      else if i = ''push_publish_candidate'' then push_reasons input
      else if i = ''resolve_active_blocker'' then blocker_reasons input
      else if i = ''tighten_validation_loop'' then validation_reasons input
      else if i = ''stabilize_working_tree'' then working_tree_reasons input
      else ([], []))"

definition scoreCandidate :: "candidate_draft \<Rightarrow> scoring_input \<Rightarrow> opportunity_candidate" where
  "scoreCandidate draft input =
     (let (rs, tags) = case_reasons (cd_id draft) input;
          reasons = reason ''base_score'' ''baseline priority'' (cd_baseScore draft) @ rs
      in \<lparr>oc_id = cd_id draft, oc_title = cd_title draft, oc_summary = cd_summary draft,
          oc_rationale = cd_rationale draft, oc_repoAreas = cd_repoAreas draft,
          oc_score = sum_list (map sc_delta reasons), oc_confidence = cd_confidence draft,
          oc_risk = cd_risk draft, oc_scoreBreakdown = Some reasons,
          oc_selectionTags = Some (uniq (filter (\<lambda>t. js_trim t \<noteq> []) tags))\<rparr>)"

definition summarizeSelection :: "opportunity_candidate option \<Rightarrow> string option" where
  "summarizeSelection candidate =
     (case candidate of None \<Rightarrow> None
      | Some c \<Rightarrow>
          let positive = map (\<lambda>e. to_lower (sc_label e)) (take 2 (js_sort (\<lambda>a b. sc_delta a \<ge> sc_delta b)
                (filter (\<lambda>e. sc_delta e > 0) (nullish (oc_scoreBreakdown c) []))))
          in Some (if positive = [] then oc_title c @ '' leads the queue.''
                   else oc_title c @ '' leads because '' @ js_join '' and '' positive @ ''.''))"

definition ranks_before :: "(string \<Rightarrow> string \<Rightarrow> bool) \<Rightarrow> opportunity_candidate \<Rightarrow> opportunity_candidate \<Rightarrow> bool" where
  "ranks_before title_le a b =
     (oc_score a > oc_score b \<or> oc_score a = oc_score b \<and> title_le (oc_title a) (oc_title b))"

definition scoreAutoDriveOpportunityQueue ::
    "(string \<Rightarrow> string \<Rightarrow> bool) \<Rightarrow> scoring_input \<Rightarrow> opportunity_queue" where
  "scoreAutoDriveOpportunityQueue title_le input =
     (let ranked = take 5 (js_sort (ranks_before title_le)
            (map (\<lambda>c. scoreCandidate c input) (si_candidates input)));
          selected = (case ranked of [] \<Rightarrow> None | c # _ \<Rightarrow> Some c)
      in \<lparr>oq_selectedCandidateId = map_option oc_id selected,
          oq_selectionSummary = summarizeSelection selected,
          oq_candidates = ranked\<rparr>)"

section \<open>Lemmas\<close>

definition weights :: "score_reason list \<Rightarrow> bool" where
  "weights rs = list_all (\<lambda>e. sc_delta e \<noteq> 0) rs"

lemma weights_simps [simp]:
  "weights (xs @ ys) \<longleftrightarrow> weights xs \<and> weights ys" "weights (reason c l d)" "weights []"
  "weights (only_if b (reason c l d))" "weights (if b then xs else ys) \<longleftrightarrow> (if b then weights xs else weights ys)"
  by (simp_all add: weights_def reason_def only_if_def)

lemma weights_fst_if: "weights (fst x) \<Longrightarrow> weights (fst y) \<Longrightarrow> weights (fst (if b then x else y))"
  by simp

lemma case_weights:
  "weights (fst (advance_reasons input))" "weights (fst (research_reasons input))"
  "weights (fst (backlog_reasons input))" "weights (fst (thread_reasons input))"
  "weights (fst (momentum_reasons input))" "weights (fst (stagnation_reasons input))"
  "weights (fst (prepare_reasons input))" "weights (fst (push_reasons input))"
  "weights (fst (blocker_reasons input))" "weights (fst (validation_reasons input))"
  "weights (fst (working_tree_reasons input))" "weights (fst ([], []))"
  by (simp_all only: advance_reasons_def research_reasons_def backlog_reasons_def
      thread_reasons_def momentum_reasons_def stagnation_reasons_def prepare_reasons_def
      push_reasons_def blocker_reasons_def validation_reasons_def working_tree_reasons_def Let_def
      fst_conv weights_simps if_cancel simp_thms)

lemma case_reasons_nonzero: "weights (fst (case_reasons i input))"
  unfolding case_reasons_def by (intro weights_fst_if case_weights)

lemma scoreCandidate_breakdown:
  "oc_scoreBreakdown (scoreCandidate d input) =
     Some (reason ''base_score'' ''baseline priority'' (cd_baseScore d) @ fst (case_reasons (cd_id d) input))"
  "oc_score (scoreCandidate d input) =
     cd_baseScore d + sum_list (map sc_delta (fst (case_reasons (cd_id d) input)))"
  "oc_id (scoreCandidate d input) = cd_id d" "oc_title (scoreCandidate d input) = cd_title d"
  by (simp_all add: scoreCandidate_def Let_def split_beta reason_def)

lemma ranks_before_order:
  assumes "\<And>a b. title_le a b \<or> title_le b a" "\<And>a b c. title_le a b \<Longrightarrow> title_le b c \<Longrightarrow> title_le a c"
  shows "ranks_before title_le a b \<or> ranks_before title_le b a"
    and "ranks_before title_le a b \<Longrightarrow> ranks_before title_le b c \<Longrightarrow> ranks_before title_le a c"
  using assms(1) [of "oc_title a" "oc_title b"] assms(2) [of "oc_title a" "oc_title b" "oc_title c"]
  unfolding ranks_before_def by linarith+

lemma ranks_before_score: "ranks_before title_le a b \<Longrightarrow> oc_score b \<le> oc_score a"
  by (auto simp: ranks_before_def)

lemma sorted_wrt_hd: "sorted_wrt P xs \<Longrightarrow> x \<in> set xs \<Longrightarrow> x = hd xs \<or> P (hd xs) x"
  by (cases xs) auto

section \<open>Properties\<close>

text \<open>The queue of opportunities is ranked by score.  It keeps at most five candidates, the best
  ones: every candidate that was proposed scores at most what the selected one does, and what
  the last kept one does when it was left out; each score is the sum of its own breakdown,
  which lists no zero weight; there is a selection exactly when there is a candidate.\<close>

theorem scoreQueue_ranked:
  assumes total: "\<And>a b. title_le a b \<or> title_le b a"
    and trans: "\<And>a b c. title_le a b \<Longrightarrow> title_le b c \<Longrightarrow> title_le a c"
  shows "let queue = scoreAutoDriveOpportunityQueue title_le input in
     length (oq_candidates queue) = min 5 (length (si_candidates input))
     \<and> sorted_wrt (\<lambda>a b. oc_score b \<le> oc_score a) (oq_candidates queue)
     \<and> (\<forall>d \<in> set (si_candidates input). \<forall>c \<in> set (oq_candidates queue).
          scoreCandidate d input \<in> set (oq_candidates queue)
          \<or> oc_score (scoreCandidate d input) \<le> oc_score c)
     \<and> (\<forall>c \<in> set (oq_candidates queue). \<exists>breakdown. oc_scoreBreakdown c = Some breakdown
          \<and> oc_score c = sum_list (map sc_delta breakdown) \<and> (\<forall>e \<in> set breakdown. sc_delta e \<noteq> 0))
     \<and> oq_selectedCandidateId queue =
          (if si_candidates input = [] then None else Some (oc_id (hd (oq_candidates queue))))"
proof -
  define queue where "queue = scoreAutoDriveOpportunityQueue title_le input"
  define scored where "scored = map (\<lambda>c. scoreCandidate c input) (si_candidates input)"
  define ranked where "ranked = js_sort (ranks_before title_le) scored"
  have sorted: "sorted_wrt (ranks_before title_le) ranked"
    unfolding ranked_def by (rule sorted_js_sort) (use ranks_before_order total trans in blast)+
  have kept: "oq_candidates queue = take 5 ranked"
    by (simp add: queue_def scoreAutoDriveOpportunityQueue_def ranked_def scored_def Let_def)
  have len: "length ranked = length (si_candidates input)"
    by (simp add: ranked_def scored_def)
  have "sorted_wrt (ranks_before title_le) (take 5 ranked)"
    using sorted by (simp add: sorted_wrt_take)
  then have 2: "sorted_wrt (\<lambda>a b. oc_score b \<le> oc_score a) (take 5 ranked)"
    by (rule sorted_wrt_mono_rel [rotated]) (rule ranks_before_score)
  have 3: "scoreCandidate d input \<in> set (take 5 ranked) \<or> oc_score (scoreCandidate d input) \<le> oc_score c"
    if "d \<in> set (si_candidates input)" "c \<in> set (take 5 ranked)" for d c
  proof -
    have "scoreCandidate d input \<in> set (take 5 ranked @ drop 5 ranked)"
      using that(1) by (simp add: ranked_def scored_def)
    moreover have "sorted_wrt (ranks_before title_le) (take 5 ranked @ drop 5 ranked)"
      using sorted by simp
    ultimately have "scoreCandidate d input \<in> set (take 5 ranked) \<or> ranks_before title_le c (scoreCandidate d input)"
      using that(2) by (auto simp: sorted_wrt_append simp del: append_take_drop_id)
    then show ?thesis using ranks_before_score by blast
  qed
  have 4: "\<exists>breakdown. oc_scoreBreakdown c = Some breakdown \<and> oc_score c = sum_list (map sc_delta breakdown)
      \<and> (\<forall>e \<in> set breakdown. sc_delta e \<noteq> 0)" if "c \<in> set (take 5 ranked)" for c
  proof -
    from that obtain d where "c = scoreCandidate d input"
      by (auto simp: ranked_def scored_def dest!: in_set_takeD)
    then show ?thesis
      using case_reasons_nonzero [of "cd_id d" input]
      by (auto simp: scoreCandidate_breakdown reason_def weights_def list_all_iff)
  qed
  have 5: "oq_selectedCandidateId queue =
      (if si_candidates input = [] then None else Some (oc_id (hd (take 5 ranked))))"
  proof -
    have "oq_selectedCandidateId queue = map_option oc_id (case take 5 ranked of [] \<Rightarrow> None | c # _ \<Rightarrow> Some c)"
      by (simp add: queue_def scoreAutoDriveOpportunityQueue_def ranked_def scored_def Let_def)
    with len show ?thesis by (cases ranked) auto
  qed
  show ?thesis unfolding Let_def queue_def [symmetric] kept using 2 3 4 5 len by simp
qed

definition sample_input :: scoring_input where
  "sample_input =
     \<lparr>si_candidates = [\<lparr>cd_id = ''use_fresh_research'', cd_title = ''Research'', cd_summary = [],
         cd_rationale = [], cd_repoAreas = [], cd_confidence = Low, cd_risk = Low, cd_baseScore = 10\<rparr>,
       \<lparr>cd_id = ''resolve_active_blocker'', cd_title = ''Unblock'', cd_summary = [],
         cd_rationale = [], cd_repoAreas = [], cd_confidence = Low, cd_risk = Low, cd_baseScore = 5\<rparr>],
      si_directionHypotheses = [], si_conflictRisk = Low, si_collaboratorConfidence = Medium,
      si_momentum = \<lparr>mo_topAreas = [], mo_alignedSummaries = [], mo_alignmentScore = 0, mo_hasHighDivergence = False\<rparr>,
      si_routeStagnation = \<lparr>sg_repeatedAreas = [], sg_repeatedBlockers = [], sg_isStagnating = False, sg_summary = None\<rparr>,
      si_executionTuning = \<lparr>et_summary = [], et_reasons = [], et_effectiveMaxFilesPerIteration = 3,
        et_validationCommandPreference = ValFast, et_publishPriority = PrioNone, et_cautionLevel = CautionNormal\<rparr>,
      si_externalResearch = [], si_repoBacklog = \<lparr>bl_openIssues = None, bl_openPullRequests = None, bl_highlights = []\<rparr>,
      si_repoEvaluation = None, si_threadContext = None, si_blockers = [''b''], si_changedPaths = [],
      si_previousValidation = None, si_publishCorridor = None, si_gitBehind = 0\<rparr>"

theorem scoreQueue_ranked_witness:
  "oq_selectedCandidateId (scoreAutoDriveOpportunityQueue (\<lambda>a b. length a \<le> length b) sample_input)
     = Some ''resolve_active_blocker''"
  using scoreQueue_ranked [of "\<lambda>a b. length a \<le> length b" sample_input]
  by (auto simp: sample_input_def scoreAutoDriveOpportunityQueue_def js_sort_def scoreCandidate_def
      case_reasons_def research_reasons_def blocker_reasons_def reason_def only_if_def ranks_before_def
      primary_confidence_def validation_outcome_def tuning_priority_def Let_def)

end
