(* ===== verification/SortFacts.thy ===== *)
theory SortFacts
  imports Prelude "HOL-Library.Multiset"
begin

text \<open>The stable sort of \<open>Prelude\<close> permutes its input.\<close>

lemma mset_insert_by [simp]: "mset (insert_by le x ys) = add_mset x (mset ys)"
  by (induction ys) auto

lemma mset_js_sort [simp]: "mset (js_sort le xs) = mset xs"
  by (induction xs) (simp_all add: js_sort_def)

end
