(* ===== verification/AutoDriveSignals.thy ===== *)
theory AutoDriveSignals
  imports AutoDriveScoring AutoDriveExamples JsNumber SortFacts
begin

text \<open>
  The signals that a context draws from the history of a run:
  \<^verbatim>\<open>facades/runtimeAutoDriveRouteSignals.ts\<close>.  Recent commits say where work is concentrating, the
  last four summaries whether the route is going round in circles and whether a publish candidate
  has stayed green, and together they tune the next iteration.  Weights are JavaScript numbers
  (\<open>dbl\<close>); \<open>localeCompare\<close> is the parameter \<open>lc\<close> (\<open>lc a b\<close>: it does not put \<open>a\<close> after \<open>b\<close>).
\<close>

section \<open>Maps that remember the order of insertion\<close>

text \<open>\<open>m.set(k, f(m.get(k)))\<close>\<close>

fun update_entry :: "'k \<Rightarrow> ('v option \<Rightarrow> 'v) \<Rightarrow> ('k \<times> 'v) list \<Rightarrow> ('k \<times> 'v) list" where
  "update_entry k f [] = [(k, f None)]"
| "update_entry k f ((j, v) # es) =
     (if j = k then (j, f (Some v)) # es else (j, v) # update_entry k f es)"

definition count_one :: "('k \<times> nat) list \<Rightarrow> 'k \<Rightarrow> ('k \<times> nat) list" where
  "count_one counts k = update_entry k (\<lambda>n. nullish n 0 + 1) counts"

text \<open>The order of \<open>sort((l, r) => r[1] - l[1] || l[0].localeCompare(r[0]))\<close>.\<close>

definition heavier :: "(string \<Rightarrow> string \<Rightarrow> bool) \<Rightarrow> string \<times> 'n::linorder \<Rightarrow> string \<times> 'n \<Rightarrow> bool" where
  "heavier lc l r = (snd l > snd r \<or> snd l = snd r \<and> lc (fst l) (fst r))"

section \<open>Areas and tokens\<close>

text \<open>\<open>s.split(d)\<close> for a separator of one character.\<close>

fun split_on :: "char \<Rightarrow> string \<Rightarrow> string list" where
  "split_on d [] = [[]]"
| "split_on d (c # s) =
     (if c = d then [] # split_on d s
      else case split_on d s of [] \<Rightarrow> [[c]] | w # ws \<Rightarrow> (c # w) # ws)"

definition summarizeArea :: "string \<Rightarrow> string" where
  "summarizeArea path =
     (if CHR ''/'' \<notin> set path then path
      else let segments = filter (\<lambda>s. s \<noteq> []) (split_on (CHR ''/'') path);
               n = length segments;
               leading = (\<lambda>k. js_join ''/'' (take k segments))
        in if n \<ge> 5 \<and> segments ! 0 = ''apps'' then
             (if segments ! 3 \<in> {''features'', ''application''} then leading 5 else leading 4)
           else if n \<ge> 2 \<and> segments ! 0 \<in> {''packages'', ''docs''} then leading 2
           else leading (min 3 n))"

definition rankPaths :: "(string \<Rightarrow> string \<Rightarrow> bool) \<Rightarrow> string list \<Rightarrow> nat \<Rightarrow> string list" where
  "rankPaths lc paths limit =
     map fst (take limit (js_sort (heavier lc) (foldl count_one [] (map summarizeArea paths))))"

definition intent_stopwords :: "string list" where
  "intent_stopwords =
     [''this'', ''that'', ''with'', ''from'', ''into'', ''through'', ''before'', ''after'', ''while'',
      ''when'', ''where'', ''which'', ''what'', ''should'', ''could'', ''would'', ''have'', ''been'',
      ''will'', ''project'', ''route'', ''summary'', ''state'', ''area'', ''areas'', ''work'', ''update'',
      ''refine'', ''fixes'', ''files'', ''file'', ''apps'', ''code'', ''src'']"

text \<open>\<^verbatim>\<open>/[^a-z0-9/_-]+/g\<close> and \<^verbatim>\<open>/[\s/_-]+/\<close>\<close>

definition no_token_char :: re where
  "no_token_char = Plus (Chr (\<lambda>c. \<not> (is_lower c \<or> is_digit c \<or> c \<in> set ''/_-'')))"

definition token_separator :: re where
  "token_separator = Plus (Chr (\<lambda>c. is_js_space c \<or> c \<in> set ''/_-''))"

definition tokenizeIntentText :: "string option \<Rightarrow> string list" where
  "tokenizeIntentText value =
     (case value of None \<Rightarrow> []
      | Some text \<Rightarrow>
          filter (\<lambda>token. length token \<ge> 4 \<and> token \<notin> set intent_stopwords
                 \<and> \<not> list_all is_digit token \<and> \<not> starts_with token ''http'')
            (map js_trim (re_split token_separator
               (replace_all no_token_char (\<lambda>_. '' '') (to_lower text)))))"

section \<open>Commit momentum\<close>

definition intent_tokens ::
    "run_record \<Rightarrow> iteration_summary option \<Rightarrow> thread_context option \<Rightarrow> string list" where
  "intent_tokens run previous threadContext =
     (let destination = rn_destination run
      in concat (map tokenizeIntentText
           ([Some (ds_title destination)] @ map Some (ds_desiredEndState destination)
            @ map Some (dd_arrivalCriteria (ds_doneDefinition destination))
            @ map Some (ds_hardBoundaries destination)
            @ [map_option su_summaryText previous]
            @ map Some (case previous of None \<Rightarrow> [] | Some s \<Rightarrow> su_suggestedNextAreas s)
            @ [Option.bind threadContext tc_summary, Option.bind threadContext tc_longTermMemorySummary]
            @ map Some (case threadContext of None \<Rightarrow> [] | Some t \<Rightarrow> tc_recentUserPrompts t))))"

definition commit_areas :: "commit_evidence \<Rightarrow> string list" where
  "commit_areas commit = uniq (map summarizeArea (ce_touchedPaths commit))"

text \<open>How many tokens of the summary, and how many areas, share a token with the intent.\<close>

definition summary_overlap :: "string list \<Rightarrow> commit_evidence \<Rightarrow> nat" where
  "summary_overlap tokens commit =
     length (filter (\<lambda>t. t \<in> set tokens) (tokenizeIntentText (Some (ce_summary commit))))"

definition area_overlap :: "string list \<Rightarrow> commit_evidence \<Rightarrow> nat" where
  "area_overlap tokens commit =
     length (filter (\<lambda>area. list_ex (\<lambda>t. t \<in> set tokens) (tokenizeIntentText (Some area)))
       (commit_areas commit))"

definition is_aligned :: "string list \<Rightarrow> commit_evidence \<Rightarrow> bool" where
  "is_aligned tokens commit = (summary_overlap tokens commit > 0 \<or> area_overlap tokens commit > 0)"

record momentum_acc =
  ma_weights :: "(string \<times> rat) list"
  ma_total :: rat
  ma_aligned :: rat
  ma_summaries :: "string list"

text \<open>The recency of commit \<open>index\<close> out of \<open>n\<close>, newest first.\<close>

definition recency :: "nat \<Rightarrow> nat \<Rightarrow> rat" where
  "recency n index = dbl (of_nat (n - index) / of_nat (max 1 n))"

definition momentum_step ::
    "string list \<Rightarrow> nat \<Rightarrow> momentum_acc \<Rightarrow> nat \<times> commit_evidence \<Rightarrow> momentum_acc" where
  "momentum_step tokens n acc =
     (\<lambda>(index, commit).
       let weight = recency n index;
           aligned = is_aligned tokens commit;
           overlap = summary_overlap tokens commit + area_overlap tokens commit;
           signal = dbl (weight * (1 + of_nat (min 3 overlap)));
           delta = (if aligned then dbl (signal * dbl (12 / 10)) else signal)
       in \<lparr>ma_weights = foldl (\<lambda>ws area. update_entry area (\<lambda>w. dbl (nullish w 0 + delta)) ws)
             (ma_weights acc) (commit_areas commit),
           ma_total = dbl (ma_total acc + weight),
           ma_aligned = (if aligned then dbl (ma_aligned acc + weight) else ma_aligned acc),
           ma_summaries = ma_summaries acc @ (if aligned then [ce_summary commit] else [])\<rparr>)"

definition momentum_fold :: "string list \<Rightarrow> commit_evidence list \<Rightarrow> momentum_acc" where
  "momentum_fold tokens commits =
     foldl (momentum_step tokens (length commits))
       \<lparr>ma_weights = [], ma_total = 0, ma_aligned = 0, ma_summaries = []\<rparr>
       (enumerate 0 commits)"

definition buildCommitMomentum ::
    "(string \<Rightarrow> string \<Rightarrow> bool) \<Rightarrow> run_record \<Rightarrow> commit_evidence list \<Rightarrow> iteration_summary option
     \<Rightarrow> thread_context option \<Rightarrow> commit_momentum" where
  "buildCommitMomentum lc run commits previous threadContext =
     (if commits = [] then
        \<lparr>mo_topAreas = [], mo_alignedSummaries = [], mo_alignmentScore = 0, mo_hasHighDivergence = False\<rparr>
      else
        let acc = momentum_fold (intent_tokens run previous threadContext) commits;
            score = (if ma_total acc > 0 then dbl (ma_aligned acc / ma_total acc) else 0);
            summaries = take 3 (filter (\<lambda>s. s \<noteq> []) (uniq (map js_trim (ma_summaries acc))))
        in \<lparr>mo_topAreas = map fst (take 4 (js_sort (heavier lc) (ma_weights acc))),
            mo_alignedSummaries = summaries,
            mo_alignmentScore = score,
            mo_hasHighDivergence =
              (length commits \<ge> 6 \<and> score < dbl (35 / 100) \<and> length summaries \<le> 2)\<rparr>)"

section \<open>Stagnation and the publish corridor\<close>

text \<open>The last four summaries, the previous one added when the run does not hold it yet.\<close>

definition recent_summaries :: "run_record \<Rightarrow> iteration_summary option \<Rightarrow> iteration_summary list" where
  "recent_summaries run previous =
     (let history = (case previous of None \<Rightarrow> rn_summaries run
            | Some p \<Rightarrow> if list_ex (\<lambda>s. su_iteration s = su_iteration p) (rn_summaries run)
                then rn_summaries run else rn_summaries run @ [p])
      in slice_last 4 (js_sort (\<lambda>l r. su_iteration l \<le> su_iteration r) history))"

definition suggests :: "string \<Rightarrow> iteration_summary \<Rightarrow> bool" where
  "suggests area summary = (area \<in> set (map summarizeArea (su_suggestedNextAreas summary)))"

definition repeated_areas :: "(string \<Rightarrow> string \<Rightarrow> bool) \<Rightarrow> iteration_summary list \<Rightarrow> string list" where
  "repeated_areas lc recent =
     take 3 (filter (\<lambda>area. length (filter (suggests area) recent) \<ge> 2)
       (uniq (rankPaths lc (concat (map su_suggestedNextAreas recent)) 3)))"

definition blocker_counts :: "iteration_summary list \<Rightarrow> (string \<times> nat) list" where
  "blocker_counts recent =
     foldl count_one [] (filter (\<lambda>b. b \<noteq> []) (map js_trim (concat (map su_blockers recent))))"

definition repeated_blockers :: "(string \<Rightarrow> string \<Rightarrow> bool) \<Rightarrow> iteration_summary list \<Rightarrow> string list" where
  "repeated_blockers lc recent =
     take 3 (map fst (js_sort (heavier lc) (filter (\<lambda>(b, n). n \<ge> 2) (blocker_counts recent))))"

fun non_increasing :: "int list \<Rightarrow> bool" where
  "non_increasing (p # q # ps) = (q \<le> p + 2 \<and> non_increasing (q # ps))"
| "non_increasing ps = True"

definition buildRouteStagnationSignal ::
    "(string \<Rightarrow> string \<Rightarrow> bool) \<Rightarrow> run_record \<Rightarrow> iteration_summary option \<Rightarrow> route_stagnation" where
  "buildRouteStagnationSignal lc run previous =
     (let recent = recent_summaries run previous;
          areas = repeated_areas lc recent;
          blockers = repeated_blockers lc recent;
          repeats = (case areas of [] \<Rightarrow> 0 | a # _ \<Rightarrow> length (filter (suggests a) recent));
          stagnating = (length recent \<ge> 3 \<and> \<not> list_ex su_goalReached recent \<and> repeats \<ge> 3
            \<and> non_increasing (map (pg_overallProgress \<circ> su_progress) recent))
      in \<lparr>sg_repeatedAreas = areas, sg_repeatedBlockers = blockers, sg_isStagnating = stagnating,
          sg_summary =
            (if stagnating then
               Some (''Route stagnation detected around ''
                 @ (case areas of [] \<Rightarrow> ''repeated surfaces'' | a # _ \<Rightarrow> a)
                 @ '' over the last '' @ show_nat (length recent) @ '' iterations.'')
             else if blockers \<noteq> [] then Some (''Repeated blockers: '' @ js_join '' | '' blockers)
             else None)\<rparr>)"

record publish_corridor_signal =
  pc_stableValidationStreak :: nat
  pc_corridorReadyForPush :: bool
  pc_summary :: "string option"

definition is_stable_validation :: "iteration_summary \<Rightarrow> bool" where
  "is_stable_validation summary =
     (vr_success (su_validation summary) = Some True \<and> su_blockers summary = []
      \<and> \<not> rh_offRoute (su_routeHealth summary) \<and> \<not> rh_rerouteRecommended (su_routeHealth summary))"

definition awaits_push :: "publish_outcome option \<Rightarrow> bool" where
  "awaits_push outcome =
     (case outcome of None \<Rightarrow> False
      | Some p \<Rightarrow> po_status p = PubCompleted \<and> po_mode p = BranchOnly \<and> \<not> po_pushed p)"

definition buildPublishCorridorSignal :: "run_record \<Rightarrow> iteration_summary option \<Rightarrow> publish_corridor_signal" where
  "buildPublishCorridorSignal run previous =
     (let streak = length (takeWhile is_stable_validation (rev (recent_summaries run previous)));
          ready = (awaits_push (rn_latestPublishOutcome run) \<and> streak \<ge> 2)
      in \<lparr>pc_stableValidationStreak = streak, pc_corridorReadyForPush = ready,
          pc_summary =
            (if ready then
               Some (''Validation stayed green for '' @ show_nat streak
                 @ '' consecutive iterations after preparing a branch-only publish candidate.'')
             else None)\<rparr>)"

section \<open>Tuning the next iteration\<close>

text \<open>\<open>previousSummary?.reroute !== null\<close> also holds when there is no previous summary, since
  \<open>undefined\<close> is not \<open>null\<close>.\<close>

definition recently_rerouted :: "run_record \<Rightarrow> iteration_summary option \<Rightarrow> bool" where
  "recently_rerouted run previous =
     ((case previous of None \<Rightarrow> True
       | Some s \<Rightarrow> su_reroute s \<noteq> None \<or> rh_rerouteRecommended (su_routeHealth s))
      \<or> rn_latestReroute run \<noteq> None)"

definition failed_validation :: "iteration_summary option \<Rightarrow> bool" where
  "failed_validation previous =
     (case previous of None \<Rightarrow> False | Some s \<Rightarrow> vr_success (su_validation s) = Some False)"

definition publish_failed :: "publish_outcome option \<Rightarrow> bool" where
  "publish_failed outcome = (case outcome of None \<Rightarrow> False | Some p \<Rightarrow> po_status p = PubFailed)"

definition candidate_pushed :: "publish_outcome option \<Rightarrow> bool" where
  "candidate_pushed outcome =
     (case outcome of None \<Rightarrow> False
      | Some p \<Rightarrow> po_status p = PubCompleted \<and> po_mode p = PushCandidate \<and> po_pushed p)"

definition because :: "string \<Rightarrow> execution_tuning \<Rightarrow> execution_tuning" where
  "because code t = t\<lparr>et_reasons := et_reasons t @ [code]\<rparr>"

definition at_most :: "int \<Rightarrow> execution_tuning \<Rightarrow> execution_tuning" where
  "at_most n t = t\<lparr>et_effectiveMaxFilesPerIteration := min (et_effectiveMaxFilesPerIteration t) n\<rparr>"

definition caution :: "caution_level \<Rightarrow> execution_tuning \<Rightarrow> execution_tuning" where
  "caution level t = t\<lparr>et_cautionLevel := level\<rparr>"

definition at_least_elevated :: "execution_tuning \<Rightarrow> execution_tuning" where
  "at_least_elevated t = (if et_cautionLevel t = CautionNormal then caution CautionElevated t else t)"

definition tune_validation :: "iteration_summary option \<Rightarrow> execution_tuning \<Rightarrow> execution_tuning" where
  "tune_validation previous t =
     (if failed_validation previous then
        caution CautionHigh
          ((at_most 2 (because ''validation_failed'' t))\<lparr>et_validationCommandPreference := ValFull\<rparr>)
      else t)"

definition tune_reroute ::
    "run_record \<Rightarrow> iteration_summary option \<Rightarrow> execution_tuning \<Rightarrow> execution_tuning" where
  "tune_reroute run previous t =
     (if recently_rerouted run previous
      then caution CautionHigh (at_most 2 (because ''recent_reroute'' t)) else t)"

definition tune_stagnation :: "route_stagnation \<Rightarrow> execution_tuning \<Rightarrow> execution_tuning" where
  "tune_stagnation stagnation t =
     (if sg_isStagnating stagnation
      then at_least_elevated (at_most 2 (because ''route_stagnation'' t)) else t)"

definition tune_publish ::
    "publish_outcome option \<Rightarrow> bool \<Rightarrow> bool \<Rightarrow> string option \<Rightarrow> execution_tuning \<Rightarrow> execution_tuning" where
  "tune_publish outcome ready hasHistory failure t =
     (if publish_failed outcome then
        at_least_elevated (at_most 3
          ((because ''publish_failed'' t)\<lparr>et_publishPriority := PrioPrepareBranch\<rparr>))
      else if awaits_push outcome then
        let t1 = because ''branch_only_publish_ready'' t;
            t2 = (if ready \<or> hasHistory then
                (because (if ready then ''publish_corridor_stable'' else ''historical_publish_corridor'') t1)
                  \<lparr>et_publishPriority := PrioPushCandidate\<rparr>
              else t1\<lparr>et_publishPriority := PrioPrepareBranch\<rparr>);
            t3 = (if nullish failure [] \<noteq> []
              then caution CautionHigh (because ''historical_publish_failure'' t2) else t2)
        in at_least_elevated (at_most 3 t3)
      else if candidate_pushed outcome then
        (because ''publish_candidate_pushed'' t)\<lparr>et_publishPriority := PrioPushCandidate\<rparr>
      else t)"

definition reason_text :: "publish_corridor_signal \<Rightarrow> string option \<Rightarrow> (string \<times> string) list" where
  "reason_text corridor failure =
     [(''validation_failed'',
       ''Recent validation failed; narrow scope and use the stronger validation gate.''),
      (''recent_reroute'',
       ''A recent reroute was recorded; keep the next waypoint narrowly scoped.''),
      (''route_stagnation'',
       ''Iteration history is stagnating; prefer a corrective route over repeated expansion.''),
      (''publish_failed'',
       ''The last publish attempt failed; restore a stable publish corridor before broadening scope.''),
      (''branch_only_publish_ready'',
       ''A branch-only publish candidate exists; favor corridor preparation over new scope.''),
      (''publish_corridor_stable'',
       nullish (pc_summary corridor) (''Recent iterations kept validation stable, ''
         @ ''so the publish corridor is ready for an isolated push.'')),
      (''historical_publish_corridor'',
       ''Prior AutoDrive runs already pushed a matching corridor, ''
         @ ''so this branch-only candidate can reuse that publish path.''),
      (''historical_publish_failure'', ''Prior matching publish attempts failed: '' @ nullish failure []),
      (''publish_candidate_pushed'',
       ''A push candidate already landed; keep follow-up work scoped to the published corridor.'')]"

definition tuning_summary :: "publish_corridor_signal \<Rightarrow> string option \<Rightarrow> string list \<Rightarrow> string" where
  "tuning_summary corridor failure reasons =
     (if reasons = [] then ''No adaptive feedback adjustments are active.''
      else js_join '' '' (filter (\<lambda>t. t \<noteq> [])
        (map snd (filter (\<lambda>(code, _). code \<in> set reasons) (reason_text corridor failure)))))"

definition untuned :: "run_record \<Rightarrow> execution_tuning" where
  "untuned run =
     \<lparr>et_summary = [], et_reasons = [],
      et_effectiveMaxFilesPerIteration = nullish (maxFilesPerIteration (rn_budget run)) 6,
      et_validationCommandPreference = ValFast, et_publishPriority = PrioNone,
      et_cautionLevel = CautionNormal\<rparr>"

definition buildExecutionFeedbackSignal ::
    "run_record \<Rightarrow> iteration_summary option \<Rightarrow> route_stagnation \<Rightarrow> bool \<Rightarrow> string option
     \<Rightarrow> execution_tuning" where
  "buildExecutionFeedbackSignal run previous stagnation hasHistory failure =
     (let corridor = buildPublishCorridorSignal run previous;
          t = tune_publish (rn_latestPublishOutcome run) (pc_corridorReadyForPush corridor) hasHistory failure
            (tune_stagnation stagnation (tune_reroute run previous (tune_validation previous (untuned run))))
      in t\<lparr>et_summary := tuning_summary corridor failure (et_reasons t)\<rparr>)"

lemmas tuning_defs =
  because_def at_most_def caution_def at_least_elevated_def tune_validation_def tune_reroute_def
  tune_stagnation_def tune_publish_def untuned_def buildExecutionFeedbackSignal_def

section \<open>Lemmas\<close>

lemma dom_update_entry: "fst ` set (update_entry k f es) = insert k (fst ` set es)"
  by (induction es rule: update_entry.induct) (simp_all add: insert_commute)

lemma distinct_update_entry:
  "distinct (map fst es) \<Longrightarrow> distinct (map fst (update_entry k f es))"
  by (induction es) (auto simp: dom_update_entry)

lemma dom_fold_update:
  "fst ` set (foldl (\<lambda>es k. update_entry k f es) es ks) = fst ` set es \<union> set ks"
  by (induction ks arbitrary: es) (auto simp: dom_update_entry)

lemma distinct_fold_update:
  "distinct (map fst es) \<Longrightarrow> distinct (map fst (foldl (\<lambda>es k. update_entry k f es) es ks))"
  by (induction ks arbitrary: es) (simp_all add: distinct_update_entry)

text \<open>\<open>sort\<close> permutes.\<close>

lemma distinct_map_js_sort: "distinct (map f xs) \<Longrightarrow> distinct (map f (js_sort le xs))"
  by (metis mset_js_sort mset_map mset_eq_imp_distinct_iff)

lemma distinct_map_take: "distinct (map f xs) \<Longrightarrow> distinct (map f (take n xs))"
  by (metis distinct_take take_map)

lemma length_uniq_distinct [simp]: "distinct xs \<Longrightarrow> uniq xs = xs"
  by (rule uniq_distinct)

lemma length_take_le: "length (take n xs) \<le> n"
  by simp

lemma dbl_pos_iff: "0 \<le> x \<Longrightarrow> 0 < dbl x \<longleftrightarrow> 0 < x"
proof -
  assume "0 \<le> x"
  moreover have "0 < dbl x" if "0 < x"
    using dbl_bounds(1) [OF that] by (rule order_less_le_trans [rotated]) simp
  ultimately show ?thesis by (cases "x = 0") auto
qed

lemma recency_pos: "i < n \<Longrightarrow> 0 < recency n i"
  unfolding recency_def by (subst dbl_pos_iff) simp_all

text \<open>The invariant of the loop over the commits: the aligned weight is part of the total.\<close>

definition momentum_inv :: "string list \<Rightarrow> commit_evidence list \<Rightarrow> momentum_acc \<Rightarrow> bool" where
  "momentum_inv tokens seen acc =
     (0 \<le> ma_aligned acc \<and> ma_aligned acc \<le> ma_total acc \<and> dbl (ma_total acc) = ma_total acc
      \<and> (0 < ma_total acc \<longleftrightarrow> seen \<noteq> [])
      \<and> (0 < ma_aligned acc \<longleftrightarrow> list_ex (is_aligned tokens) seen)
      \<and> (list_all (is_aligned tokens) seen \<longrightarrow> ma_aligned acc = ma_total acc)
      \<and> distinct (map fst (ma_weights acc))
      \<and> fst ` set (ma_weights acc) = (\<Union>c \<in> set seen. set (commit_areas c))
      \<and> ma_summaries acc = map ce_summary (filter (is_aligned tokens) seen))"

lemma momentum_inv_step:
  assumes "momentum_inv tokens seen acc" "i < n"
  shows "momentum_inv tokens (seen @ [c]) (momentum_step tokens n acc (i, c))"
proof -
  let ?w = "recency n i" and ?t = "ma_total acc" and ?a = "ma_aligned acc"
  note w = recency_pos [OF assms(2)]
  have inv: "0 \<le> ?a" "?a \<le> ?t" "dbl ?t = ?t" using assms(1) by (simp_all add: momentum_inv_def)
  have 1: "0 < dbl (?t + ?w)" "0 < dbl (?a + ?w)" "0 \<le> dbl (?a + ?w)"
    using w inv dbl_pos_iff [of "?t + ?w"] dbl_pos_iff [of "?a + ?w"] by simp_all
  have 2: "dbl (?a + ?w) \<le> dbl (?t + ?w)" using w inv by (intro dbl_mono) simp_all
  have 3: "?a \<le> dbl (?t + ?w)" using dbl_mono [of ?t "?t + ?w"] w inv by linarith
  have 4: "dbl (dbl (?t + ?w)) = dbl (?t + ?w)" using w inv by simp
  show ?thesis
    using assms(1) 1 2 3 4
    by (auto simp: momentum_inv_def momentum_step_def Let_def dom_fold_update distinct_fold_update)
qed

lemma momentum_inv_fold: "momentum_inv tokens commits (momentum_fold tokens commits)"
proof -
  let ?step = "momentum_step tokens (length commits)"
  let ?init = "\<lparr>ma_weights = [], ma_total = 0, ma_aligned = 0, ma_summaries = []\<rparr>"
  have "momentum_inv tokens (take k commits) (foldl ?step ?init (take k (enumerate 0 commits)))"
    if "k \<le> length commits" for k
    using that
  proof (induction k)
    case 0
    show ?case by (simp add: momentum_inv_def)
  next
    case (Suc k)
    then have k: "k < length commits" "k \<le> length commits" by simp_all
    have "take (Suc k) (enumerate 0 commits) = take k (enumerate 0 commits) @ [(k, commits ! k)]"
      "take (Suc k) commits = take k commits @ [commits ! k]"
      using k(1) by (simp_all add: take_Suc_conv_app_nth nth_enumerate_eq)
    then show ?case using momentum_inv_step [OF Suc.IH [OF k(2)] k(1)] by simp
  qed
  from this [of "length commits"] show ?thesis by (simp add: momentum_fold_def)
qed

lemma momentum_of_nonempty:
  assumes "commits \<noteq> []"
  defines "acc run previous threadContext \<equiv> momentum_fold (intent_tokens run previous threadContext) commits"
  shows "mo_alignmentScore (buildCommitMomentum lc run commits previous threadContext)
      = dbl (ma_aligned (acc run previous threadContext) / ma_total (acc run previous threadContext))"
    "mo_topAreas (buildCommitMomentum lc run commits previous threadContext)
      = map fst (take 4 (js_sort (heavier lc) (ma_weights (acc run previous threadContext))))"
    "mo_alignedSummaries (buildCommitMomentum lc run commits previous threadContext)
      = take 3 (filter (\<lambda>s. s \<noteq> []) (uniq (map js_trim (ma_summaries (acc run previous threadContext)))))"
  using assms(1) momentum_inv_fold [of "intent_tokens run previous threadContext" commits]
  by (simp_all add: buildCommitMomentum_def acc_def Let_def momentum_inv_def)

section \<open>Properties\<close>

text \<open>Commit momentum.  The alignment score is a fraction between zero and one, computed with
  rounded sums: it is zero exactly when no commit shares a token with the intent and one when every
  commit does.  The top areas are at most four different areas that commits touched, and the
  aligned summaries at most three different trimmed summaries of aligned commits.\<close>

theorem commit_momentum_sound:
  "let m = buildCommitMomentum lc run commits previous threadContext;
       aligned = is_aligned (intent_tokens run previous threadContext)
   in mo_alignmentScore m \<in> (if filter aligned commits = [] then {0}
          else if filter aligned commits = commits then {1} else {0 <.. 1})
      \<and> length (mo_topAreas m) \<le> 4 \<and> distinct (mo_topAreas m)
      \<and> set (mo_topAreas m) \<subseteq> (\<Union>c \<in> set commits. summarizeArea ` set (ce_touchedPaths c))
      \<and> length (mo_alignedSummaries m) \<le> 3 \<and> distinct (mo_alignedSummaries m)
      \<and> set (mo_alignedSummaries m) \<subseteq> (js_trim \<circ> ce_summary) ` set (filter aligned commits) - {[]}"
proof (cases "commits = []")
  case True
  then show ?thesis by (simp add: buildCommitMomentum_def)
next
  case False
  define aligned where "aligned = is_aligned (intent_tokens run previous threadContext)"
  define acc where "acc = momentum_fold (intent_tokens run previous threadContext) commits"
  define m where "m = buildCommitMomentum lc run commits previous threadContext"
  note m_simps = momentum_of_nonempty [OF False, of lc run previous threadContext, folded acc_def m_def]
  have inv: "momentum_inv (intent_tokens run previous threadContext) commits acc"
    unfolding acc_def by (rule momentum_inv_fold)
  have total: "0 < ma_total acc" "0 \<le> ma_aligned acc" "ma_aligned acc \<le> ma_total acc"
    and some: "0 < ma_aligned acc \<longleftrightarrow> filter aligned commits \<noteq> []"
    using inv False by (auto simp: momentum_inv_def aligned_def filter_empty_conv list_ex_iff)
  have all: "filter aligned commits = commits \<Longrightarrow> ma_aligned acc = ma_total acc"
    using inv by (simp add: momentum_inv_def aligned_def filter_id_conv list_all_iff)
  note quotient = dbl_quotient [OF total(2,3,1)]
  have "0 < mo_alignmentScore m \<longleftrightarrow> 0 < ma_aligned acc"
    unfolding m_simps using total by (subst dbl_pos_iff) (simp_all add: zero_less_divide_iff)
  then have score: "mo_alignmentScore m \<in> (if filter aligned commits = [] then {0}
      else if filter aligned commits = commits then {1} else {0 <.. 1})"
    using quotient some all total(1) by (auto simp: m_simps)
  have areas: "distinct (mo_topAreas m)"
    "set (mo_topAreas m) \<subseteq> (\<Union>c \<in> set commits. summarizeArea ` set (ce_touchedPaths c))"
  proof -
    have "distinct (map fst (ma_weights acc))" using inv by (simp add: momentum_inv_def)
    then show "distinct (mo_topAreas m)"
      unfolding m_simps by (intro distinct_map_take distinct_map_js_sort)
    have "set (mo_topAreas m) \<subseteq> fst ` set (ma_weights acc)"
      unfolding m_simps by (auto dest!: in_set_takeD)
    also have "\<dots> = (\<Union>c \<in> set commits. set (commit_areas c))" using inv by (simp add: momentum_inv_def)
    finally show "set (mo_topAreas m) \<subseteq> (\<Union>c \<in> set commits. summarizeArea ` set (ce_touchedPaths c))"
      by (simp add: commit_areas_def)
  qed
  have summaries: "distinct (mo_alignedSummaries m)"
    "set (mo_alignedSummaries m) \<subseteq> (js_trim \<circ> ce_summary) ` set (filter aligned commits) - {[]}"
    using inv unfolding m_simps aligned_def momentum_inv_def
    by (auto intro!: distinct_take distinct_filter dest!: in_set_takeD simp: image_image)
  show ?thesis
    unfolding Let_def m_def [symmetric] aligned_def [symmetric]
    using score areas summaries by (simp add: m_simps)
qed

lemma sorted_by_iteration:
  "sorted_wrt (\<lambda>l r. su_iteration l \<le> su_iteration r)
     (js_sort (\<lambda>l r. su_iteration l \<le> su_iteration r) xs)"
  by (rule sorted_js_sort) auto

lemma recent_summaries_sorted: "sorted (map su_iteration (recent_summaries run previous))"
proof -
  have "sorted_wrt (\<lambda>l r. su_iteration l \<le> su_iteration r) (drop k (js_sort (\<lambda>l r. su_iteration l \<le> su_iteration r) xs))"
    for k xs by (rule sorted_wrt_drop) (rule sorted_by_iteration)
  then show ?thesis
    unfolding recent_summaries_def Let_def slice_last_def sorted_map .
qed

lemma length_recent_le: "length (recent_summaries run previous) \<le> 4"
  by (simp add: recent_summaries_def Let_def)

lemma set_recent_subset:
  "set (recent_summaries run previous) \<subseteq> set (rn_summaries run) \<union> set_option previous"
  unfolding recent_summaries_def Let_def
  by (rule order_trans [OF set_slice_last_subset]) (auto split: option.splits if_splits)

lemma non_increasing_gain:
  "non_increasing ps \<Longrightarrow> i < length ps \<Longrightarrow> ps ! i \<le> hd ps + 2 * int i"
proof (induction ps arbitrary: i rule: non_increasing.induct)
  case (1 p q ps)
  then show ?case by (cases i) fastforce+
qed auto

lemma top_repeated_area:
  assumes "repeated_areas lc recent = a # as"
  shows "\<exists>s \<in> set recent. suggests a s"
proof -
  have "a \<in> set (repeated_areas lc recent)" using assms by simp
  then have "2 \<le> length (filter (suggests a) recent)"
    by (auto simp: repeated_areas_def dest!: in_set_takeD)
  then have "filter (suggests a) recent \<noteq> []" by (cases "filter (suggests a) recent") simp_all
  then show ?thesis by (simp add: filter_empty_conv)
qed

text \<open>A route that is called stagnating really goes round in circles.  Of the last three or four
  summaries, in the order of their iterations, at least three suggest the same area, the first
  of the repeated areas; none reached the goal; and the progress of none exceeds that of the
  first by more than two points per iteration, so by six at most.\<close>

theorem stagnation_sound:
  assumes "sg_isStagnating (buildRouteStagnationSignal lc run previous)"
  shows "let recent = recent_summaries run previous;
             area = hd (sg_repeatedAreas (buildRouteStagnationSignal lc run previous));
             progress = pg_overallProgress \<circ> su_progress
    in length recent \<in> {3, 4} \<and> sorted (map su_iteration recent)
     \<and> 3 \<le> length (filter (suggests area) recent)
     \<and> (\<forall>s \<in> set recent. \<not> su_goalReached s \<and> s \<in> set (rn_summaries run) \<union> set_option previous
          \<and> progress s \<le> progress (hd recent) + 6)"
proof -
  let ?recent = "recent_summaries run previous"
  let ?progress = "pg_overallProgress \<circ> su_progress"
  from assms have len: "3 \<le> length ?recent" and goal: "\<not> list_ex su_goalReached ?recent"
    and flat: "non_increasing (map ?progress ?recent)"
    by (simp_all add: buildRouteStagnationSignal_def Let_def)
  from assms obtain a as where areas: "repeated_areas lc ?recent = a # as"
    and often: "3 \<le> length (filter (suggests a) ?recent)"
    by (cases "repeated_areas lc ?recent") (simp_all add: buildRouteStagnationSignal_def Let_def)
  have gain: "?progress s \<le> ?progress (hd ?recent) + 6" if "s \<in> set ?recent" for s
  proof -
    from that obtain i where i: "i < length ?recent" "s = ?recent ! i" by (auto simp: in_set_conv_nth)
    then have "?progress s \<le> hd (map ?progress ?recent) + 2 * int i"
      using non_increasing_gain [OF flat, of i] by simp
    moreover have "i \<le> 3" using i(1) length_recent_le [of run previous] by simp
    ultimately show ?thesis using i(1) by (cases ?recent) auto
  qed
  show ?thesis
    using len length_recent_le [of run previous] goal often gain set_recent_subset [of run previous]
    by (auto simp: Let_def buildRouteStagnationSignal_def areas list_ex_iff recent_summaries_sorted)
qed

definition circling_run :: run_record where
  "circling_run = example_run\<lparr>rn_summaries :=
     map (\<lambda>i. example_summary\<lparr>su_iteration := i, su_suggestedNextAreas := [''src/panel.ts'']\<rparr>) [3, 1, 2]\<rparr>"

lemma circling_run_stagnates: "sg_isStagnating (buildRouteStagnationSignal (\<lambda>a b. length a \<le> length b) circling_run None)"
  by code_simp

theorem stagnation_sound_witness:
  "3 \<le> length (filter (suggests (hd (sg_repeatedAreas (buildRouteStagnationSignal
       (\<lambda>a b. length a \<le> length b) circling_run None)))) (recent_summaries circling_run None))"
  using stagnation_sound [OF circling_run_stagnates] by (simp add: Let_def)

lemma publish_kinds:
  "awaits_push p \<Longrightarrow> \<not> publish_failed p" "candidate_pushed p \<Longrightarrow> \<not> publish_failed p"
  "candidate_pushed p \<Longrightarrow> \<not> awaits_push p"
  by (auto simp: publish_failed_def awaits_push_def candidate_pushed_def split: option.splits)

lemma tune_simps [simp]:
  "et_effectiveMaxFilesPerIteration (because c t) = et_effectiveMaxFilesPerIteration t"
  "et_effectiveMaxFilesPerIteration (at_most n t) = min (et_effectiveMaxFilesPerIteration t) n"
  "et_effectiveMaxFilesPerIteration (caution l t) = et_effectiveMaxFilesPerIteration t"
  "et_effectiveMaxFilesPerIteration (at_least_elevated t) = et_effectiveMaxFilesPerIteration t"
  "et_validationCommandPreference (because c t) = et_validationCommandPreference t"
  "et_validationCommandPreference (at_most n t) = et_validationCommandPreference t"
  "et_validationCommandPreference (caution l t) = et_validationCommandPreference t"
  "et_validationCommandPreference (at_least_elevated t) = et_validationCommandPreference t"
  "et_publishPriority (because c t) = et_publishPriority t"
  "et_publishPriority (at_most n t) = et_publishPriority t"
  "et_publishPriority (caution l t) = et_publishPriority t"
  "et_publishPriority (at_least_elevated t) = et_publishPriority t"
  "et_reasons (because c t) = et_reasons t @ [c]"
  "et_reasons (at_most n t) = et_reasons t"
  "et_reasons (caution l t) = et_reasons t"
  "et_reasons (at_least_elevated t) = et_reasons t"
  "et_cautionLevel (because c t) = et_cautionLevel t"
  "et_cautionLevel (at_most n t) = et_cautionLevel t"
  "et_cautionLevel (caution l t) = l"
  "et_cautionLevel (at_least_elevated t) =
     (if et_cautionLevel t = CautionNormal then CautionElevated else et_cautionLevel t)"
  by (simp_all add: because_def at_most_def caution_def at_least_elevated_def)

lemma tune_fields:
  "et_effectiveMaxFilesPerIteration (tune_validation previous t) =
     (if failed_validation previous then min (et_effectiveMaxFilesPerIteration t) 2
      else et_effectiveMaxFilesPerIteration t)"
  "et_effectiveMaxFilesPerIteration (tune_reroute run previous t) =
     (if recently_rerouted run previous then min (et_effectiveMaxFilesPerIteration t) 2
      else et_effectiveMaxFilesPerIteration t)"
  "et_effectiveMaxFilesPerIteration (tune_stagnation stagnation t) =
     (if sg_isStagnating stagnation then min (et_effectiveMaxFilesPerIteration t) 2
      else et_effectiveMaxFilesPerIteration t)"
  "et_effectiveMaxFilesPerIteration (tune_publish p ready h f t) =
     (if publish_failed p \<or> awaits_push p then min (et_effectiveMaxFilesPerIteration t) 3
      else et_effectiveMaxFilesPerIteration t)"
  "et_validationCommandPreference (tune_validation previous t) =
     (if failed_validation previous then ValFull else et_validationCommandPreference t)"
  "et_validationCommandPreference (tune_reroute run previous t) = et_validationCommandPreference t"
  "et_validationCommandPreference (tune_stagnation stagnation t) = et_validationCommandPreference t"
  "et_validationCommandPreference (tune_publish p ready h f t) = et_validationCommandPreference t"
  "et_publishPriority (tune_validation previous t) = et_publishPriority t"
  "et_publishPriority (tune_reroute run previous t) = et_publishPriority t"
  "et_publishPriority (tune_stagnation stagnation t) = et_publishPriority t"
  "et_publishPriority (tune_publish p ready h f t) =
     (if candidate_pushed p \<or> awaits_push p \<and> (ready \<or> h) then PrioPushCandidate
      else if publish_failed p \<or> awaits_push p then PrioPrepareBranch else et_publishPriority t)"
  using publish_kinds [of p]
  by (auto simp: tune_validation_def tune_reroute_def tune_stagnation_def tune_publish_def Let_def)

lemma tune_caution:
  "et_cautionLevel (tune_validation previous t) =
     (if failed_validation previous then CautionHigh else et_cautionLevel t)"
  "et_cautionLevel (tune_reroute run previous t) =
     (if recently_rerouted run previous then CautionHigh else et_cautionLevel t)"
  "et_cautionLevel (tune_stagnation stagnation t) =
     (if sg_isStagnating stagnation \<and> et_cautionLevel t = CautionNormal then CautionElevated
      else et_cautionLevel t)"
  "et_cautionLevel (tune_publish p ready h f t) =
     (if awaits_push p \<and> nullish f [] \<noteq> [] then CautionHigh
      else if (publish_failed p \<or> awaits_push p) \<and> et_cautionLevel t = CautionNormal then CautionElevated
      else et_cautionLevel t)"
  using publish_kinds [of p]
  by (auto simp: tune_validation_def tune_reroute_def tune_stagnation_def tune_publish_def Let_def)

text \<open>Adjustments add a reason, and only they change the tuning.\<close>

lemma tune_reasons:
  "et_reasons (tune_validation previous t) = et_reasons t @ (if failed_validation previous then [''validation_failed''] else [])"
  "et_reasons (tune_reroute run previous t) = et_reasons t @ (if recently_rerouted run previous then [''recent_reroute''] else [])"
  "et_reasons (tune_stagnation stagnation t) = et_reasons t @ (if sg_isStagnating stagnation then [''route_stagnation''] else [])"
  "et_reasons (tune_publish p ready h f t) = et_reasons t \<longleftrightarrow> \<not> publish_failed p \<and> \<not> awaits_push p \<and> \<not> candidate_pushed p"
  "\<exists>codes. et_reasons (tune_publish p ready h f t) = et_reasons t @ codes"
  using publish_kinds [of p]
  by (auto simp: tune_validation_def tune_reroute_def tune_stagnation_def tune_publish_def Let_def)

lemma caution_of_feedback:
  "et_cautionLevel (buildExecutionFeedbackSignal run previous stagnation hasHistory failure) =
     (if failed_validation previous \<or> recently_rerouted run previous
          \<or> awaits_push (rn_latestPublishOutcome run) \<and> nullish failure [] \<noteq> [] then CautionHigh
      else if sg_isStagnating stagnation \<or> publish_failed (rn_latestPublishOutcome run)
          \<or> awaits_push (rn_latestPublishOutcome run) then CautionElevated
      else CautionNormal)"
  by (simp add: buildExecutionFeedbackSignal_def Let_def tune_caution untuned_def)

lemma reasons_of_feedback:
  "et_reasons (buildExecutionFeedbackSignal run previous stagnation hasHistory failure) = [] \<longleftrightarrow>
     \<not> failed_validation previous \<and> \<not> recently_rerouted run previous \<and> \<not> sg_isStagnating stagnation
     \<and> \<not> publish_failed (rn_latestPublishOutcome run) \<and> \<not> awaits_push (rn_latestPublishOutcome run)
     \<and> \<not> candidate_pushed (rn_latestPublishOutcome run)"
proof -
  let ?t = "tune_stagnation stagnation (tune_reroute run previous (tune_validation previous (untuned run)))"
  have "et_reasons (tune_publish p ready hasHistory failure ?t) = [] \<longleftrightarrow> et_reasons ?t = []
      \<and> et_reasons (tune_publish p ready hasHistory failure ?t) = et_reasons ?t" for p ready
    using tune_reasons(5) [of p ready hasHistory failure ?t] by auto
  note * = this [unfolded tune_reasons(4)]
  have "et_reasons ?t = [] \<longleftrightarrow> \<not> failed_validation previous \<and> \<not> recently_rerouted run previous
      \<and> \<not> sg_isStagnating stagnation"
    by (simp add: tune_reasons(1-3) untuned_def)
  moreover have "et_reasons (t\<lparr>et_summary := x\<rparr>) = et_reasons t" for t x by simp
  ultimately show ?thesis
    unfolding buildExecutionFeedbackSignal_def Let_def using * by metis
qed

text \<open>The tuning of the next iteration, whatever the history.  The file limit is that of the
  budget, six if there is none, cut to two after a failed validation, a reroute or stagnation and
  to three while a publish attempt failed or awaits its push; the full validation is preferred
  exactly after a failed one; the branch is to be pushed exactly when a branch-only candidate has
  stayed green or an earlier run pushed a matching one, or when the candidate is pushed already.\<close>

theorem execution_feedback_exact:
  "let t = buildExecutionFeedbackSignal run previous stagnation hasHistory failure;
       outcome = rn_latestPublishOutcome run;
       cap = nullish (maxFilesPerIteration (rn_budget run)) 6;
       ready = pc_corridorReadyForPush (buildPublishCorridorSignal run previous);
       failed = failed_validation previous;
       rerouted = recently_rerouted run previous;
       stagnating = sg_isStagnating stagnation;
       publishing = (publish_failed outcome \<or> awaits_push outcome)
   in et_effectiveMaxFilesPerIteration t =
        (if failed \<or> rerouted \<or> stagnating then min cap 2 else if publishing then min cap 3 else cap)
      \<and> et_validationCommandPreference t = (if failed then ValFull else ValFast)
      \<and> et_cautionLevel t =
        (if failed \<or> rerouted \<or> awaits_push outcome \<and> nullish failure [] \<noteq> [] then CautionHigh
         else if stagnating \<or> publishing then CautionElevated else CautionNormal)
      \<and> et_publishPriority t =
        (if candidate_pushed outcome \<or> awaits_push outcome \<and> (ready \<or> hasHistory) then PrioPushCandidate
         else if publishing then PrioPrepareBranch else PrioNone)
      \<and> (et_reasons t = [] \<longleftrightarrow> \<not> (failed \<or> rerouted \<or> stagnating \<or> publishing \<or> candidate_pushed outcome))"
  using caution_of_feedback [of run previous stagnation hasHistory failure]
    reasons_of_feedback [of run previous stagnation hasHistory failure]
  by (simp add: Let_def buildExecutionFeedbackSignal_def tune_fields untuned_def)

end
