(* ===== verification/AutoDriveIntent.thy ===== *)
theory AutoDriveIntent
  imports AutoDriveSignals AutoDrivePlanner
begin

text \<open>
  What a context makes of its evidence, the first half of \<^verbatim>\<open>facades/runtimeAutoDriveContext.ts\<close>: the
  intent of the collaborators, the intent model with its direction hypothesis, and the queue of
  opportunities that is given to the scoring.  The file has copies of \<open>summarizeArea\<close> and
  \<open>rankPaths\<close> that are the same as those of the route signals.
\<close>

definition dedupeNonEmpty :: "string option list \<Rightarrow> int option \<Rightarrow> string list" where
  "dedupeNonEmpty values limit =
     (let kept = uniq (filter (\<lambda>v. v \<noteq> []) (map (\<lambda>v. js_trim (nullish v [])) values))
      in case limit of None \<Rightarrow> kept | Some n \<Rightarrow> slice_to n kept)"

definition non_empty :: "string option list \<Rightarrow> string list" where
  "non_empty values = filter (\<lambda>v. v \<noteq> []) (List.map_filter id values)"

section \<open>Rules and markers of the repository\<close>

text \<open>\<^verbatim>\<open>/^[-*]\s*/\<close>, \<^verbatim>\<open>/\r?\n/\<close> and the words that make a line a rule\<close>

definition bullet_re :: re where
  "bullet_re = Sequ Bol (Sequ (OneOf ''-*'') (Star Space))"

definition line_end_re :: re where
  "line_end_re = Sequ (Opt (Chr (\<lambda>c. c = CHR 0x0D))) (Chr (\<lambda>c. c = CHR 0x0A))"

definition rule_re :: re where
  "rule_re = Alts (Lit_i ''validate'') (map Lit_i [''preflight'', ''runtime'', ''boundary'', ''workflow'',
     ''composer'', ''manual'', ''budget'', ''risk'', ''stop'', ''route''])"

definition normalizeLine :: "string \<Rightarrow> string option" where
  "normalizeLine line =
     (let trimmed = js_trim line in if trimmed = [] then None else Some (replace_first bullet_re [] trimmed))"

definition extractRuleEvidence :: "string \<Rightarrow> string \<Rightarrow> rule_evidence option" where
  "extractRuleEvidence path content =
     (let ls = take 3 (filter (re_test rule_re) (non_empty (map normalizeLine (re_split line_end_re content))))
      in if ls = [] then None else Some \<lparr>re_path = path, re_summary = js_join '' '' ls\<rparr>)"

definition extractWorkspaceMarkers :: "string list \<Rightarrow> string list" where
  "extractWorkspaceMarkers files =
     filter (\<lambda>marker. list_ex (\<lambda>file. file = marker \<or> starts_with file (marker @ ''/'')) files)
       [''pnpm-workspace.yaml'', ''turbo.json'', ''package.json'', ''apps/code'', ''packages'']"

section \<open>Collaborators\<close>

definition is_boundary_path :: "string \<Rightarrow> bool" where
  "is_boundary_path path =
     (path = ''AGENTS.md'' \<or> path = ''CODING_STANDARDS.md'' \<or> starts_with path ''.agent/''
      \<or> starts_with path ''docs/'')"

definition buildBoundarySignals :: "commit_evidence list \<Rightarrow> rule_evidence list" where
  "buildBoundarySignals commits =
     take 6 (concat (map (\<lambda>commit.
       map (\<lambda>path. \<lparr>re_path = path, re_summary = ce_summary commit @ '' ('' @ ce_author commit @ '')''\<rparr>)
         (filter is_boundary_path (ce_touchedPaths commit))) commits))"

text \<open>\<^verbatim>\<open>/refactor|rewrite|migrate/i\<close>\<close>

definition migration_re :: re where
  "migration_re = Alts (Lit_i ''refactor'') [Lit_i ''rewrite'', Lit_i ''migrate'']"

definition bar :: "string list \<Rightarrow> string" where
  "bar xs = js_join '' | '' xs"

definition probable_intent ::
    "commit_evidence list \<Rightarrow> rule_evidence list \<Rightarrow> rule_evidence list \<Rightarrow> commit_momentum \<Rightarrow> string" where
  "probable_intent commits boundary rules momentum =
     (let aligned = mo_alignedSummaries momentum;
          themes = js_join ''; '' (map ce_summary (take 3 commits))
      in if boundary \<noteq> [] \<or> rules \<noteq> [] then
           (if aligned \<noteq> []
            then ''Recent activity suggests the team is tightening runtime and workflow boundaries. ''
              @ ''Aligned commit momentum: '' @ bar aligned
            else ''Recent activity suggests the team is tightening runtime and workflow boundaries ''
              @ ''while continuing feature work in hot surfaces.'')
         else if aligned \<noteq> [] then ''Recent commit momentum aligns with destination intent: '' @ bar aligned
         else ''Recent commit themes: '' @ (if themes = [] then ''limited signal available'' else themes))"

definition buildCollaboratorIntent ::
    "(string \<Rightarrow> string \<Rightarrow> bool) \<Rightarrow> run_record \<Rightarrow> commit_evidence list \<Rightarrow> rule_evidence list
     \<Rightarrow> commit_momentum \<Rightarrow> collaborator_intent" where
  "buildCollaboratorIntent lc run commits rules momentum =
     (let touched = (if mo_topAreas momentum \<noteq> [] then mo_topAreas momentum
            else rankPaths lc (concat (map ce_touchedPaths commits)) 4);
          boundary = buildBoundarySignals commits;
          score = mo_alignmentScore momentum
      in \<lparr>ci_recentDirection =
            (if touched \<noteq> []
             then ''Recent work is concentrating on '' @ js_join '', '' touched @ '' with ''
               @ show_int (math_round (dbl (score * 100))) @ ''% destination alignment.''
             else ''Recent work direction is weakly signaled.''),
          ci_touchedAreas = touched,
          ci_boundarySignals = boundary,
          ci_probableIntent = probable_intent commits boundary rules momentum,
          ci_conflictRisk =
            (if length boundary \<ge> 2 \<and> re_test migration_re (ds_title (rn_destination run)) then High
             else if mo_hasHighDivergence momentum then High
             else if touched \<noteq> [] then Medium else Low),
          ci_confidence =
            (if length commits \<ge> 6 \<and> length touched \<ge> 2 \<and> score \<ge> dbl (45 / 100) then High
             else if length commits \<ge> 4 \<and> length touched \<ge> 2 \<and> score \<ge> dbl (25 / 100) then Medium
             else Low)\<rparr>)"

section \<open>The intent model\<close>

record evidence_base =
  eb_run :: run_record
  eb_previous :: "iteration_summary option"
  eb_collaborators :: collaborator_intent
  eb_momentum :: commit_momentum
  eb_stagnation :: route_stagnation
  eb_rules :: "rule_evidence list"
  eb_research :: "research_entry list"
  eb_backlog :: repo_backlog
  eb_thread :: "thread_context option"
  eb_blockers :: "string list"

definition signal :: "intent_signal_kind \<Rightarrow> string \<Rightarrow> string option \<Rightarrow> confidence \<Rightarrow> intent_signal" where
  "signal kind summary source confidence =
     \<lparr>is_kind = kind, is_summary = summary, is_source = source, is_confidence = confidence\<rparr>"

definition backlog_pressure :: "repo_backlog \<Rightarrow> bool" where
  "backlog_pressure b = (nullish (bl_openIssues b) 0 > 0 \<or> nullish (bl_openPullRequests b) 0 > 0)"

definition truthy :: "string option \<Rightarrow> bool" where
  "truthy s = (nullish s [] \<noteq> [])"

definition first_source :: "string list \<Rightarrow> string option" where
  "first_source xs = (case xs of [] \<Rightarrow> None | x # _ \<Rightarrow> Some x)"

definition previous_text :: "evidence_base \<Rightarrow> string" where
  "previous_text e = nullish (map_option su_summaryText (eb_previous e)) []"

definition intent_signals :: "evidence_base \<Rightarrow> intent_signal list" where
  "intent_signals e =
     (let momentum = eb_momentum e; stagnation = eb_stagnation e;
          threadId = map_option tc_threadId (eb_thread e);
          threadSummary = Option.bind (eb_thread e) tc_summary;
          memory = Option.bind (eb_thread e) tc_longTermMemorySummary
      in [signal SigOperatorIntent (''Operator destination: '' @ ds_title (rn_destination (eb_run e)))
            (Some ''destination'') High]
       @ (case eb_previous e of None \<Rightarrow> []
          | Some s \<Rightarrow> only_if (su_summaryText s \<noteq> [])
              [signal SigPreviousSummary (su_summaryText s) (Some (tr_taskId (su_task s)))
                (pg_arrivalConfidence (su_progress s))])
       @ [signal SigCollaboratorIntent (ci_probableIntent (eb_collaborators e)) None
            (ci_confidence (eb_collaborators e))]
       @ only_if (mo_alignedSummaries momentum \<noteq> [])
           [signal SigCollaboratorIntent (''Git momentum: '' @ bar (mo_alignedSummaries momentum))
             (Some ''git_log'') (if mo_alignmentScore momentum \<ge> dbl (35 / 100) then High else Medium)]
       @ map (\<lambda>r. signal SigRepoRule (re_summary r) (Some (re_path r)) High) (take 2 (eb_rules e))
       @ map (\<lambda>r. signal SigExternalResearch (rx_summary r) (first_source (rx_sources r)) Medium)
           (take 2 (eb_research e))
       @ only_if (backlog_pressure (eb_backlog e))
           [signal SigRepoBacklog
             (if bar (bl_highlights (eb_backlog e)) \<noteq> [] then bar (bl_highlights (eb_backlog e))
              else ''GitHub issues or pull requests indicate active external backlog pressure.'') None Medium]
       @ only_if (truthy threadSummary)
           [signal SigThreadHistory (nullish threadSummary []) threadId Medium]
       @ only_if (truthy memory) [signal SigThreadMemory (nullish memory []) threadId Medium]
       @ only_if (truthy (sg_summary stagnation))
           [signal SigBlocker (nullish (sg_summary stagnation) []) (Some ''iteration_history'')
             (if sg_isStagnating stagnation then High else Medium)]
       @ map (\<lambda>b. signal SigBlocker b None Medium) (dedupeNonEmpty (map Some (eb_blockers e)) (Some 3)))"

definition max_files :: "run_record \<Rightarrow> int" where
  "max_files run = nullish (maxFilesPerIteration (rn_budget run)) 6"

text \<open>The dominant kinds are different from each other, so that \<open>dedupeNonEmpty(kinds, 4)\<close> keeps the
  first four.\<close>

definition dominant_kinds :: "evidence_base \<Rightarrow> intent_signal_kind list" where
  "dominant_kinds e =
     take 4 ([SigOperatorIntent]
       @ only_if (ci_probableIntent (eb_collaborators e) \<noteq> []) [SigCollaboratorIntent]
       @ only_if (previous_text e \<noteq> []) [SigPreviousSummary]
       @ only_if (eb_research e \<noteq> []) [SigExternalResearch]
       @ only_if (backlog_pressure (eb_backlog e)) [SigRepoBacklog]
       @ only_if (truthy (Option.bind (eb_thread e) tc_summary)) [SigThreadHistory]
       @ only_if (truthy (Option.bind (eb_thread e) tc_longTermMemorySummary)) [SigThreadMemory])"

definition primary_hypothesis :: "evidence_base \<Rightarrow> string list \<Rightarrow> direction_hypothesis" where
  "primary_hypothesis e relevantFiles =
     (let title = ds_title (rn_destination (eb_run e))
      in \<lparr>dh_summary = ''Advance '' @ title @ '' through the highest-signal repo surfaces first.'',
          dh_rationale = js_join '' '' (non_empty
            [Some (''Destination scope centers on '' @ title @ ''.''),
             Some (ci_probableIntent (eb_collaborators e)),
             map_option su_summaryText (eb_previous e),
             (case eb_research e of [] \<Rightarrow> None | r # _ \<Rightarrow> Some (rx_summary r)),
             Option.bind (eb_thread e) tc_summary]),
          dh_suggestedAreas = dedupeNonEmpty
            (map Some ((case eb_previous e of None \<Rightarrow> [] | Some s \<Rightarrow> su_suggestedNextAreas s)
              @ relevantFiles @ ci_touchedAreas (eb_collaborators e)))
            (Some (max_files (eb_run e))),
          dh_confidence =
            (if ci_confidence (eb_collaborators e) = Low \<and> eb_previous e = None \<and> eb_research e = []
             then Low else Medium),
          dh_dominantSignalKinds = dominant_kinds e\<rparr>)"

definition buildIntentModel :: "evidence_base \<Rightarrow> string list \<Rightarrow> intent_model" where
  "buildIntentModel e relevantFiles =
     (let blockers = dedupeNonEmpty (map Some (eb_blockers e)) (Some 3)
      in \<lparr>im_summary = js_join '' '' (non_empty
            [Some (''Prioritize '' @ ds_title (rn_destination (eb_run e)) @ ''.''),
             Some (ci_probableIntent (eb_collaborators e)),
             (if blockers \<noteq> [] then Some (''Current blockers: '' @ bar blockers @ ''.'') else None)]),
          im_signals = intent_signals e,
          im_directionHypotheses = [primary_hypothesis e relevantFiles]\<rparr>)"

end
