(* ===== verification/AutoDriveHistory.thy ===== *)
theory AutoDriveHistory
  imports AutoDriveSignals RegexLanguage
begin

text \<open>
  What earlier runs left behind: \<^verbatim>\<open>facades/runtimeAutoDriveHistory.ts\<close>.  The artifacts of a run are
  files under \<^verbatim>\<open>.hugecode/runs\<close>; a context looks for the best publish corridor, for the last failed
  publish and for a pushed candidate among those whose destination has a similar title.

  Reading is a parameter: \<open>ws_read\<close> gives the content of a file, if the call succeeds, and
  \<open>ws_run\<close> and \<open>ws_handoff\<close> what \<open>JSON.parse\<close> makes of a content, if it succeeds and finds the
  expected \<open>schemaVersion\<close>.
\<close>

section \<open>Publish handoffs\<close>

record handoff_publish =
  hp_branchName :: string
  hp_commitMessage :: "string option"
  hp_summary :: string

record handoff_destination =
  hd_title :: string
  hd_desiredEndState :: "string list"

record handoff_validation =
  hv_commands :: "string list"
  hv_success :: "bool option"
  hv_summary :: string

record handoff_evidence =
  he_summaryText :: string
  he_changedFiles :: "string list"
  he_blockers :: "string list"

record handoff_review =
  hr_title :: string
  hr_body :: string
  hr_checklist :: "string list"

record publish_handoff =
  hf_runId :: string
  hf_workspaceId :: string
  hf_threadId :: "string option"
  hf_createdAt :: int
  hf_publish :: handoff_publish
  hf_destination :: handoff_destination
  hf_validation :: handoff_validation
  hf_evidence :: handoff_evidence
  hf_reviewDraft :: handoff_review
  hf_operatorCommands :: "string list"

record workspace =
  ws_files :: "string list"
  ws_read :: "string \<Rightarrow> string option"
  ws_run :: "string \<Rightarrow> run_record option"
  ws_handoff :: "string \<Rightarrow> publish_handoff option"

section \<open>Similar titles\<close>

definition title_stopwords :: "string list" where
  "title_stopwords =
     [''implement'', ''build'', ''improve'', ''refine'', ''add'', ''update'', ''autodrive'', ''route'',
      ''corridor'', ''publish'', ''composer'', ''meta'', ''area'', ''flow'']"

text \<open>\<^verbatim>\<open>/[^a-z0-9]+/g\<close>\<close>

definition no_title_char :: re where
  "no_title_char = Plus (Chr (\<lambda>c. \<not> (is_lower c \<or> is_digit c)))"

definition tokenizeTitle :: "string \<Rightarrow> string list" where
  "tokenizeTitle title =
     filter (\<lambda>token. length token \<ge> 4 \<and> token \<notin> set title_stopwords)
       (map js_trim (re_split (Plus Space) (replace_all no_title_char (\<lambda>_. '' '') (to_lower title))))"

definition scoreTitleMatch :: "string \<Rightarrow> string \<Rightarrow> rat" where
  "scoreTitleMatch left right =
     (let l = to_lower (js_trim left); r = to_lower (js_trim right)
      in if l \<noteq> [] \<and> l = r then 1
         else let ls = uniq (tokenizeTitle left); rs = uniq (tokenizeTitle right)
           in if ls = [] \<or> rs = [] then 0
              else dbl (of_nat (length (filter (\<lambda>t. t \<in> set rs) ls)) / of_nat (max (length ls) (length rs))))"

definition titles_match :: "string \<Rightarrow> string \<Rightarrow> bool" where
  "titles_match left right = (scoreTitleMatch left right \<ge> dbl (45 / 100))"

section \<open>Loading artifacts\<close>

text \<open>\<^verbatim>\<open>/^\.hugecode\/runs\/([^/]+)\/run\.json$/\<close> and the same with \<^verbatim>\<open>publish\/handoff\.json\<close>\<close>

definition artifact_pattern :: "string \<Rightarrow> re" where
  "artifact_pattern file =
     Sequ Bol (Sequ (Lit ''.hugecode/runs/'') (Sequ (Group 1 (Plus (NoneOf ''/'')))
       (Sequ (Lit (''/'' @ file)) Eol)))"

definition artifact_run_id :: "string \<Rightarrow> string \<Rightarrow> string option" where
  "artifact_run_id file path =
     (case re_exec (artifact_pattern file) path of None \<Rightarrow> None | Some (_, _, q) \<Rightarrow> pos_caps q 1)"

definition load_artifacts ::
    "workspace \<Rightarrow> string \<Rightarrow> (string \<Rightarrow> 'a option) \<Rightarrow> ('a \<Rightarrow> int) \<Rightarrow> string \<Rightarrow> 'a list" where
  "load_artifacts ws file parse stamp currentRunId =
     (let paths = filter (re_test (artifact_pattern file)) (ws_files ws);
          load = (\<lambda>path. if artifact_run_id file path \<in> {None, Some currentRunId} then None
                   else Option.bind (ws_read ws path) parse)
      in take 6 (js_sort (\<lambda>l r. stamp r \<le> stamp l) (List.map_filter load paths)))"

definition loadHistoricalAutoDriveRuns :: "workspace \<Rightarrow> string \<Rightarrow> run_record list" where
  "loadHistoricalAutoDriveRuns ws currentRunId =
     load_artifacts ws ''run.json'' (ws_run ws) rn_updatedAt currentRunId"

definition loadHistoricalAutoDrivePublishHandoffs :: "workspace \<Rightarrow> string \<Rightarrow> publish_handoff list" where
  "loadHistoricalAutoDrivePublishHandoffs ws currentRunId =
     load_artifacts ws ''publish/handoff.json'' (ws_handoff ws) hf_createdAt currentRunId"

section \<open>Searching them\<close>

text \<open>Best match first, the newer first among equals.\<close>

definition better_match :: "('a \<Rightarrow> int) \<Rightarrow> 'a \<times> rat \<Rightarrow> 'a \<times> rat \<Rightarrow> bool" where
  "better_match stamp l r = (snd l > snd r \<or> snd l = snd r \<and> stamp (fst l) \<ge> stamp (fst r))"

definition handoff_title :: "publish_handoff \<Rightarrow> string" where
  "handoff_title h = hd_title (hf_destination h)"

definition findBestHistoricalPublishCorridor ::
    "string \<Rightarrow> publish_handoff list \<Rightarrow> publish_corridor option" where
  "findBestHistoricalPublishCorridor title handoffs =
     (let scored = map (\<lambda>h. (h, scoreTitleMatch title (handoff_title h))) handoffs;
          ranked = js_sort (better_match hf_createdAt) (filter (\<lambda>(h, s). s \<ge> dbl (45 / 100)) scored)
      in case ranked of [] \<Rightarrow> None
         | (h, s) # _ \<Rightarrow>
             Some \<lparr>hc_runId = hf_runId h, hc_destinationTitle = handoff_title h,
               hc_summaryText = he_summaryText (hf_evidence h),
               hc_changedFiles = he_changedFiles (hf_evidence h),
               hc_validationCommands = hv_commands (hf_validation h),
               hc_validationSummary = hv_summary (hf_validation h),
               hc_createdAt = hf_createdAt h, hc_matchScore = s\<rparr>)"

definition failed_publish_summary :: "run_record \<Rightarrow> string option" where
  "failed_publish_summary run =
     (case rn_latestPublishOutcome run of None \<Rightarrow> None
      | Some p \<Rightarrow> if po_status p = PubFailed \<and> js_trim (po_summary p) \<noteq> [] then Some (po_summary p) else None)"

definition findHistoricalPublishFailureSummary :: "string \<Rightarrow> run_record list \<Rightarrow> string option" where
  "findHistoricalPublishFailureSummary title runs =
     (let scored = map (\<lambda>r. (r, scoreTitleMatch title (ds_title (rn_destination r)))) runs;
          ranked = js_sort (better_match rn_updatedAt)
            (filter (\<lambda>(r, s). s \<ge> dbl (45 / 100) \<and> failed_publish_summary r \<noteq> None) scored)
      in case ranked of [] \<Rightarrow> None | (r, _) # _ \<Rightarrow> map_option po_summary (rn_latestPublishOutcome r))"

definition hasHistoricalPublishedCorridor :: "string \<Rightarrow> run_record list \<Rightarrow> bool" where
  "hasHistoricalPublishedCorridor title runs =
     list_ex (\<lambda>r. titles_match title (ds_title (rn_destination r))
       \<and> candidate_pushed (rn_latestPublishOutcome r)) runs"

section \<open>Lemmas\<close>

lemma scoreTitleMatch_bounds: "0 \<le> scoreTitleMatch a b" "scoreTitleMatch a b \<le> 1"
proof -
  let ?ls = "uniq (tokenizeTitle a)" and ?rs = "uniq (tokenizeTitle b)"
  let ?o = "length (filter (\<lambda>t. t \<in> set ?rs) ?ls)" and ?m = "max (length ?ls) (length ?rs)"
  have "?o \<le> ?m" by (rule order_trans [OF length_filter_le]) simp
  then have "of_nat ?o \<le> (of_nat ?m :: rat)" by simp
  moreover have "0 < (of_nat ?m :: rat)" if "?ls \<noteq> []"
    using that by (cases ?ls) simp_all
  ultimately have "0 \<le> dbl (of_nat ?o / of_nat ?m)" "dbl (of_nat ?o / of_nat ?m) \<le> 1" if "?ls \<noteq> []"
    using dbl_quotient [of "of_nat ?o" "of_nat ?m"] that by simp_all
  then show "0 \<le> scoreTitleMatch a b" "scoreTitleMatch a b \<le> 1"
    unfolding scoreTitleMatch_def Let_def by auto
qed

lemma js_sort_hd_best:
  assumes "\<And>a b. le a b \<or> le b a" "\<And>a b c. le a b \<Longrightarrow> le b c \<Longrightarrow> le a c"
    and "js_sort le xs = y # ys" "x \<in> set xs"
  shows "le y x"
proof -
  have "x \<in> set (js_sort le xs)" using assms(4) by simp
  moreover have "sorted_wrt le (js_sort le xs)" by (rule sorted_js_sort) (use assms(1,2) in blast)+
  ultimately have "x \<in> set (y # ys)" "sorted_wrt le (y # ys)" unfolding assms(3) .
  then show ?thesis using assms(1) [of y y] by auto
qed

lemma better_match_order:
  "better_match f a b \<or> better_match f b a" "better_match f a b \<Longrightarrow> better_match f b c \<Longrightarrow> better_match f a c"
  by (auto simp: better_match_def)

lemma same_title_scores_one: "to_lower (js_trim a) = to_lower (js_trim b) \<Longrightarrow> js_trim a \<noteq> [] \<Longrightarrow> scoreTitleMatch a b = 1"
  using to_lower_simps(3) [of "js_trim a"] by (simp add: scoreTitleMatch_def del: to_lower_simps(3)) fastforce

text \<open>How the pattern of an artifact matches: the greedy \<open>[^/]+\<close> takes the whole identifier.\<close>

lemma star_iter_chars:
  assumes f: "\<And>prev s caps. f (prev, s, caps)
      = (case s of [] \<Rightarrow> [] | c # cs \<Rightarrow> if q c then [(Some c, cs, caps)] else [])"
    and "list_all q m" "t = [] \<or> \<not> q (hd t)" "length m < k"
  shows "\<exists>others. star_iter k f (prev, m @ t, caps)
    = (if m = [] then prev else Some (last m), t, caps) # others"
  using assms(2-)
proof (induction m arbitrary: k prev)
  case Nil
  then obtain k' where "k = Suc k'" by (cases k) auto
  with Nil show ?case by (cases t) (auto simp: f)
next
  case (Cons c m)
  then obtain k' where k: "k = Suc k'" "length m < k'" by (cases k) auto
  from Cons.prems have "list_all q m" "q c" by simp_all
  with Cons.IH [OF _ Cons.prems(2) k(2)] obtain others where
    "star_iter k' f (Some c, m @ t, caps)
      = (if m = [] then Some c else Some (last m), t, caps) # others" by blast
  with \<open>q c\<close> show ?case by (simp add: k(1) f)
qed

text \<open>The first way a pattern matches at a position.\<close>

definition leads :: "re \<Rightarrow> re_pos \<Rightarrow> re_pos \<Rightarrow> bool" where
  "leads r p q = (\<exists>others. re_steps r p = q # others)"

lemma leads_Sequ: "leads a p q \<Longrightarrow> leads b q r \<Longrightarrow> leads (Sequ a b) p r"
  by (auto simp: leads_def)

lemma leads_Chr: "q c \<Longrightarrow> leads (Chr q) (prev, c # s, caps) (Some c, s, caps)"
  by (simp add: leads_def)

lemma leads_Star:
  assumes "list_all q m" "t = [] \<or> \<not> q (hd t)"
  shows "leads (Star (Chr q)) (prev, m @ t, caps) (if m = [] then prev else Some (last m), t, caps)"
proof -
  have "re_steps (Chr q) (prev, s, caps)
      = (case s of [] \<Rightarrow> [] | c # cs \<Rightarrow> if q c then [(Some c, cs, caps)] else [])" for prev s caps
    by (cases s) simp_all
  from star_iter_chars [OF this assms, of "Suc (length (m @ t))"] show ?thesis
    unfolding leads_def re_steps.simps(5) pos_simps by (simp del: star_iter.simps re_steps.simps)
qed

lemma leads_Group:
  "leads r p q \<Longrightarrow> leads (Group n r) p
     (pos_prev q, pos_rest q, (pos_caps q)(n \<mapsto> take (length (pos_rest p) - length (pos_rest q)) (pos_rest p)))"
  by (auto simp: leads_def)

lemma leads_Lit: "\<exists>prev'. leads (Lit s) (prev, s @ t, caps) (prev', t, caps)"
proof -
  have "\<exists>prev'. re_steps (Lit s) (prev, s @ t, caps) = [(prev', t, caps)]"
    unfolding Lit_def by (induction s arbitrary: prev) auto
  then show ?thesis by (auto simp: leads_def)
qed

lemma leads_identifier:
  assumes "i \<noteq> []" "CHR ''/'' \<notin> set i"
  shows "\<exists>prev'. leads (Group 1 (Plus (NoneOf ''/''))) (prev, i @ ''/'' @ t, caps) (prev', ''/'' @ t, caps(1 \<mapsto> i))"
proof -
  obtain c m where i: "i = c # m" using assms(1) by (cases i) auto
  let ?q = "\<lambda>c. c \<notin> set ''/''"
  have "list_all ?q m" "?q c" using assms(2) by (auto simp: i list_all_iff)
  then have "leads (Plus (NoneOf ''/'')) (prev, c # m @ ''/'' @ t, caps)
      (if m = [] then Some c else Some (last m), ''/'' @ t, caps)"
    unfolding Plus_def NoneOf_def by (intro leads_Sequ [OF leads_Chr leads_Star]) simp_all
  from leads_Group [OF this, of 1] show ?thesis by (auto simp: i)
qed

definition artifact_path :: "string \<Rightarrow> string \<Rightarrow> string" where
  "artifact_path i file = ''.hugecode/runs/'' @ i @ ''/'' @ file"

lemma artifact_found:
  assumes "i \<noteq> []" "CHR ''/'' \<notin> set i"
  shows "re_test (artifact_pattern file) (artifact_path i file)"
    and "artifact_run_id file (artifact_path i file) = Some i"
proof -
  let ?path = "artifact_path i file"
  obtain p1 where 1: "leads (Lit ''.hugecode/runs/'') (None, ?path, Map.empty) (p1, i @ ''/'' @ file, Map.empty)"
    using leads_Lit [where s = "''.hugecode/runs/''" and t = "i @ ''/'' @ file"] unfolding artifact_path_def by blast
  obtain p2 where 2: "leads (Group 1 (Plus (NoneOf ''/''))) (p1, i @ ''/'' @ file, Map.empty)
      (p2, ''/'' @ file, Map.empty(1 \<mapsto> i))"
    using leads_identifier [OF assms] by blast
  obtain p3 where 3: "leads (Lit (''/'' @ file)) (p2, ''/'' @ file, Map.empty(1 \<mapsto> i)) (p3, [], Map.empty(1 \<mapsto> i))"
    using leads_Lit [where s = "''/'' @ file" and t = "[]"] unfolding append_Nil2 by blast
  have "leads Bol (None, ?path, Map.empty) (None, ?path, Map.empty)"
    "leads Eol (p3, [], Map.empty(1 \<mapsto> i)) (p3, [], Map.empty(1 \<mapsto> i))" by (simp_all add: leads_def)
  with 1 2 3 have "leads (artifact_pattern file) (None, ?path, Map.empty) (p3, [], Map.empty(1 \<mapsto> i))"
    unfolding artifact_pattern_def by (meson leads_Sequ)
  then obtain others where "re_steps (artifact_pattern file) (None, ?path, Map.empty)
      = (p3, [], Map.empty(1 \<mapsto> i)) # others" unfolding leads_def ..
  then have "re_exec (artifact_pattern file) ?path = Some ([], ?path, (p3, [], Map.empty(1 \<mapsto> i)))"
    by (simp add: re_exec_def search_from.simps match_here_def)
  then show "re_test (artifact_pattern file) ?path" "artifact_run_id file ?path = Some i"
    by (simp_all add: re_test_def artifact_run_id_def)
qed

section \<open>Properties\<close>

text \<open>The publish corridor taken from history.  It is the handoff whose destination title matches
  best, the newest one among equals; there is none exactly when no title reaches the threshold, and
  a handoff for the same title, up to case and surrounding blanks, always does.\<close>

theorem best_corridor:
  assumes "js_trim title \<noteq> []"
  shows "case findBestHistoricalPublishCorridor title handoffs of
       None \<Rightarrow> \<forall>h \<in> set handoffs. \<not> titles_match title (handoff_title h)
         \<and> to_lower (js_trim (handoff_title h)) \<noteq> to_lower (js_trim title)
     | Some c \<Rightarrow> \<exists>h \<in> set handoffs. titles_match title (handoff_title h)
         \<and> hc_runId c = hf_runId h \<and> hc_createdAt c = hf_createdAt h
         \<and> hc_matchScore c = scoreTitleMatch title (handoff_title h)
         \<and> (\<forall>g \<in> set handoffs. scoreTitleMatch title (handoff_title g) \<le> hc_matchScore c
              \<and> (scoreTitleMatch title (handoff_title g) = hc_matchScore c \<longrightarrow> hf_createdAt g \<le> hc_createdAt c))"
proof -
  let ?score = "\<lambda>h. scoreTitleMatch title (handoff_title h)"
  let ?matching = "filter (\<lambda>(h, s). s \<ge> dbl (45 / 100)) (map (\<lambda>h. (h, ?score h)) handoffs)"
  have low: "dbl (45 / 100) \<le> 1" using dbl_mono [of "45 / 100" 1] by simp
  show ?thesis
  proof (cases "js_sort (better_match hf_createdAt) ?matching")
    case Nil
    then have "?matching = []" by (metis length_0_conv length_js_sort)
    then have none: "\<forall>h \<in> set handoffs. \<not> titles_match title (handoff_title h)"
      by (auto simp: filter_empty_conv titles_match_def)
    moreover have "to_lower (js_trim (handoff_title h)) \<noteq> to_lower (js_trim title)" if "h \<in> set handoffs" for h
      using none that low same_title_scores_one [OF _ assms, of "handoff_title h"]
      by (auto simp: titles_match_def)
    ultimately show ?thesis using Nil by (simp add: findBestHistoricalPublishCorridor_def)
  next
    case (Cons best others)
    obtain h s where best: "best = (h, s)" by (cases best)
    have "best \<in> set ?matching"
      using set_js_sort [of "better_match hf_createdAt" ?matching] unfolding Cons by (metis list.set_intros(1))
    then have h: "h \<in> set handoffs" "s = ?score h" "dbl (45 / 100) \<le> ?score h" by (auto simp: best)
    have top: "?score g \<le> s \<and> (?score g = s \<longrightarrow> hf_createdAt g \<le> hf_createdAt h)" if "g \<in> set handoffs" for g
    proof (cases "dbl (45 / 100) \<le> ?score g")
      case True
      with that have "(g, ?score g) \<in> set ?matching" by simp
      with Cons have "better_match hf_createdAt best (g, ?score g)"
        by (rule js_sort_hd_best [rotated 2]) (use better_match_order in blast)+
      then show ?thesis by (auto simp: better_match_def best)
    next
      case False
      with h show ?thesis by simp
    qed
    show ?thesis
      using h top Cons by (auto simp: findBestHistoricalPublishCorridor_def best titles_match_def)
  qed
qed

definition example_handoff :: publish_handoff where
  "example_handoff =
     \<lparr>hf_runId = ''run-0'', hf_workspaceId = ''ws'', hf_threadId = None, hf_createdAt = 1,
      hf_publish = \<lparr>hp_branchName = ''autodrive/ship'', hp_commitMessage = None, hp_summary = ''Pushed.''\<rparr>,
      hf_destination = \<lparr>hd_title = '' ship the panel'', hd_desiredEndState = []\<rparr>,
      hf_validation = \<lparr>hv_commands = [], hv_success = Some True, hv_summary = ''Green.''\<rparr>,
      hf_evidence = \<lparr>he_summaryText = ''Done.'', he_changedFiles = [], he_blockers = []\<rparr>,
      hf_reviewDraft = \<lparr>hr_title = ''feat'', hr_body = [], hr_checklist = []\<rparr>, hf_operatorCommands = []\<rparr>"

theorem best_corridor_witness:
  "findBestHistoricalPublishCorridor ''Ship the panel'' [example_handoff] \<noteq> None"
proof -
  have title: "js_trim ''Ship the panel'' = ''Ship the panel''" "js_trim ('' ship the panel'') = ''ship the panel''"
    "to_lower ''Ship the panel'' = ''ship the panel''" "to_lower ''ship the panel'' = ''ship the panel''"
    by code_simp+
  then have "js_trim ''Ship the panel'' \<noteq> []" by simp
  from best_corridor [OF this, of "[example_handoff]"] title show ?thesis
    by (auto simp: example_handoff_def handoff_title_def split: option.splits)
qed

end
