(* ===== verification/AutoDriveReadiness.thy ===== *)
theory AutoDriveReadiness
  imports AutoDriveIntent AutoDriveHistory
begin

text \<open>
  The second half of the pure part of \<^verbatim>\<open>facades/runtimeAutoDriveContext.ts\<close>: the candidates of the
  opportunity queue, whether the work may be published, the risk of stopping and the start state.
\<close>

section \<open>Opportunities\<close>

definition draft ::
    "string \<Rightarrow> string \<Rightarrow> string \<Rightarrow> string \<Rightarrow> string list \<Rightarrow> int \<Rightarrow> confidence \<Rightarrow> risk_level \<Rightarrow> candidate_draft" where
  "draft i title summary rationale areas base confidence risk =
     \<lparr>cd_id = i, cd_title = title, cd_summary = summary, cd_rationale = rationale, cd_repoAreas = areas,
      cd_confidence = confidence, cd_risk = risk, cd_baseScore = base\<rparr>"

record opportunity_input =
  oi_evidence :: evidence_base
  oi_intent :: intent_model
  oi_tuning :: execution_tuning
  oi_changedPaths :: "string list"
  oi_evaluation :: repo_evaluation
  oi_corridor :: "publish_corridor option"
  oi_gitBehind :: int

definition hypothesis_of :: "opportunity_input \<Rightarrow> direction_hypothesis option" where
  "hypothesis_of oi = (case im_directionHypotheses (oi_intent oi) of [] \<Rightarrow> None | h # _ \<Rightarrow> Some h)"

definition hypothesis_areas :: "opportunity_input \<Rightarrow> string list" where
  "hypothesis_areas oi = nullish (map_option dh_suggestedAreas (hypothesis_of oi)) []"

definition publish_root :: "opportunity_input \<Rightarrow> string" where
  "publish_root oi = ''.hugecode/runs/'' @ rn_runId (eb_run (oi_evidence oi)) @ ''/publish''"

definition changed_publish_paths :: "opportunity_input \<Rightarrow> string list" where
  "changed_publish_paths oi = take 2 (filter (re_test publish_path_re) (oi_changedPaths oi))"

definition route_drafts :: "opportunity_input \<Rightarrow> candidate_draft list" where
  "route_drafts oi =
     (let e = oi_evidence oi
      in (case hypothesis_of oi of None \<Rightarrow> []
          | Some h \<Rightarrow> only_if (dh_suggestedAreas h \<noteq> [])
              [draft ''advance_primary_surface'' ''Advance the primary AutoDrive surface''
                ''Use the strongest direction hypothesis to move the destination forward.''
                (dh_rationale h) (dh_suggestedAreas h) 72 (dh_confidence h) Low])
         @ (case eb_research e of [] \<Rightarrow> []
            | r # _ \<Rightarrow> [draft ''use_fresh_research'' ''Apply fresh external guidance''
                ''Use newly gathered external guidance before widening implementation scope.''
                (rx_summary r) (hypothesis_areas oi) 60 Medium Low])
         @ only_if (backlog_pressure (eb_backlog e))
             [draft ''triage_external_backlog'' ''Triage external backlog pressure''
               ''Use GitHub backlog signals to keep the next route aligned with open work.''
               (if bar (bl_highlights (eb_backlog e)) \<noteq> [] then bar (bl_highlights (eb_backlog e))
                else ''External backlog is active.'') (hypothesis_areas oi) 55 Medium Low]
         @ (case eb_thread e of None \<Rightarrow> []
            | Some t \<Rightarrow> only_if (tc_recentUserPrompts t \<noteq> [])
                [draft ''align_with_thread_history'' ''Align with recent thread prompts''
                  ''Use recent operator prompts to keep the next route anchored to the active thread.''
                  (nullish (tc_summary t) ''Recent thread prompts are available.'')
                  (hypothesis_areas oi) 58 Medium Low])
         @ only_if (mo_alignedSummaries (eb_momentum e) \<noteq> [] \<and> mo_topAreas (eb_momentum e) \<noteq> [])
             [draft ''follow_recent_commit_momentum'' ''Follow recent commit momentum''
               ''Use high-alignment commit momentum to choose the next AutoDrive execution corridor.''
               (bar (mo_alignedSummaries (eb_momentum e))) (mo_topAreas (eb_momentum e)) 62
               (if mo_alignmentScore (eb_momentum e) \<ge> dbl (35 / 100) then High else Medium) Low]
         @ only_if (sg_isStagnating (eb_stagnation e))
             [draft ''break_route_stagnation'' ''Break route stagnation''
               (''Recent iterations are cycling through the same surfaces. ''
                 @ ''Force a corrective route update.'')
               (nullish (sg_summary (eb_stagnation e)) ''Stagnation detected from iteration history.'')
               (sg_repeatedAreas (eb_stagnation e)) 68 High Medium])"

definition publish_drafts :: "opportunity_input \<Rightarrow> candidate_draft list" where
  "publish_drafts oi =
     only_if (et_publishPriority (oi_tuning oi) = PrioPrepareBranch)
       [draft ''prepare_publish_corridor'' ''Prepare the publish corridor''
         ''Stabilize the working tree and handoff artifacts before widening scope again.''
         (et_summary (oi_tuning oi)) (publish_root oi # changed_publish_paths oi) 66 Medium Low]
     @ only_if (et_publishPriority (oi_tuning oi) = PrioPushCandidate)
       [draft ''push_publish_candidate'' ''Push the publish candidate''
         ''The publish corridor looks stable enough to advance the isolated candidate branch.''
         (js_join '' '' (non_empty [Some (et_summary (oi_tuning oi)), map_option hc_summaryText (oi_corridor oi),
            map_option hc_validationSummary (oi_corridor oi)]))
         (publish_root oi #
           (let reused = nullish (map_option hc_changedFiles (oi_corridor oi)) []
            in if reused \<noteq> [] then take 2 reused else changed_publish_paths oi)) 70 High Low]"

definition repair_drafts :: "opportunity_input \<Rightarrow> candidate_draft list" where
  "repair_drafts oi =
     (let e = oi_evidence oi; blockers = eb_blockers e; changed = oi_changedPaths oi;
          ev = oi_evaluation oi
      in only_if (blockers \<noteq> [])
           [draft ''resolve_active_blocker'' ''Resolve the active blocker''
             ''Address the highest-signal blocker before continuing route expansion.''
             (bar blockers) (hypothesis_areas oi) 64 Medium Medium]
         @ only_if (failed_validation (eb_previous e)
               \<or> ds_routePreference (rn_destination (eb_run e)) = ValidationFirst)
           [draft ''tighten_validation_loop'' ''Tighten the validation loop''
             ''Favor validation before any broader implementation expansion.''
             (js_join '' '' (non_empty
               [Some (nullish (map_option (vr_summary \<circ> su_validation) (eb_previous e))
                  ''The active route preference favors validation-first execution.''),
                (if ev_representativeCommands ev \<noteq> []
                 then Some (''Representative evaluation lane: '' @ bar (ev_representativeCommands ev) @ ''.'')
                 else None),
                first_source (ev_heldOutGuidance ev)]))
             (dedupeNonEmpty (map Some (ev_samplePaths ev @ hypothesis_areas oi)) (Some 4)) 65 Medium Low]
         @ only_if (changed \<noteq> [])
           [draft ''stabilize_working_tree'' ''Stabilize the existing working tree''
             ''Use the current changed paths as the immediate execution corridor.''
             (''Working tree already contains '' @ show_nat (length changed) @ '' changed path(s).'')
             changed 52 Medium Medium])"

definition scoring_input_of :: "opportunity_input \<Rightarrow> scoring_input" where
  "scoring_input_of oi =
     (let e = oi_evidence oi
      in \<lparr>si_candidates = route_drafts oi @ publish_drafts oi @ repair_drafts oi,
          si_directionHypotheses = im_directionHypotheses (oi_intent oi),
          si_conflictRisk = ci_conflictRisk (eb_collaborators e),
          si_collaboratorConfidence = ci_confidence (eb_collaborators e),
          si_momentum = eb_momentum e, si_routeStagnation = eb_stagnation e,
          si_executionTuning = oi_tuning oi, si_externalResearch = eb_research e,
          si_repoBacklog = eb_backlog e, si_repoEvaluation = Some (oi_evaluation oi),
          si_threadContext = eb_thread e, si_blockers = eb_blockers e,
          si_changedPaths = oi_changedPaths oi,
          si_previousValidation = map_option su_validation (eb_previous e),
          si_publishCorridor = oi_corridor oi, si_gitBehind = oi_gitBehind oi\<rparr>)"

definition buildOpportunityQueue ::
    "(string \<Rightarrow> string \<Rightarrow> bool) \<Rightarrow> opportunity_input \<Rightarrow> opportunity_queue" where
  "buildOpportunityQueue lc oi = scoreAutoDriveOpportunityQueue lc (scoring_input_of oi)"

section \<open>Publish readiness\<close>

definition validated :: "iteration_summary option \<Rightarrow> bool" where
  "validated previous =
     (case previous of None \<Rightarrow> False | Some s \<Rightarrow> vr_success (su_validation s) = Some True)"

definition publish_reason_codes ::
    "iteration_summary option \<Rightarrow> string list \<Rightarrow> string list \<Rightarrow> string option \<Rightarrow> int \<Rightarrow> risk_level
     \<Rightarrow> publish_reason_code list" where
  "publish_reason_codes previous blockers changedPaths remote behind stopRisk =
     only_if (changedPaths \<noteq> []) [DirtyWorkingTree]
     @ only_if (\<not> truthy remote) [MissingRemote]
     @ only_if (behind > 0) [BehindRemote]
     @ only_if (blockers \<noteq> []) [ActiveBlockers]
     @ only_if (\<not> validated previous) [ValidationIncomplete]
     @ only_if (stopRisk = High) [RouteRiskHigh]"

definition buildPublishReadiness ::
    "iteration_summary option \<Rightarrow> string list \<Rightarrow> string list \<Rightarrow> string option \<Rightarrow> int \<Rightarrow> risk_level
     \<Rightarrow> publish_readiness" where
  "buildPublishReadiness previous blockers changedPaths remote behind stopRisk =
     (let codes = publish_reason_codes previous blockers changedPaths remote behind stopRisk;
          allowed = (codes = []);
          branchOnlyEligible = (\<not> allowed \<and> validated previous \<and> blockers = [] \<and> stopRisk \<noteq> High
            \<and> behind = 0 \<and> list_all (\<lambda>code. code = DirtyWorkingTree) codes);
          mode = (if allowed then PushCandidate else if branchOnlyEligible then BranchOnly else Hold)
      in \<lparr>pr_allowed = allowed, pr_recommendedMode = mode,
          pr_summary =
            (if allowed then ''Publish corridor is open for an automated branch push.''
             else if mode = BranchOnly then
               ''Publish corridor is ready for a local stage/commit milestone, but not yet for a remote push.''
             else if truthy remote then
               ''Publish corridor is blocked until the route is cleaner and fully validated.''
             else ''Publish corridor is blocked until the workspace has a pushable git remote ''
               @ ''and the route is fully validated.''),
          pr_reasonCodes = codes\<rparr>)"

section \<open>The start state\<close>

definition near_no_progress :: "run_record \<Rightarrow> bool" where
  "near_no_progress run =
     (noProgressCount (rn_totals run) \<ge> maxNoProgressIterations (rn_budget run) - 1)"

definition toStopRisk :: "run_record \<Rightarrow> iteration_summary option \<Rightarrow> string list \<Rightarrow> risk_level" where
  "toStopRisk run previous gitChangedPaths =
     (if validationFailureCount (rn_totals run) \<ge> maxValidationFailures (rn_budget run)
         \<or> rerouteCount (rn_totals run) \<ge> maxReroutes (rn_budget run) then High
      else if (case previous of None \<Rightarrow> False | Some s \<Rightarrow> rh_offRoute (su_routeHealth s))
         \<or> near_no_progress run
         \<or> int (length gitChangedPaths) > max_files run then Medium
      else Low)"

definition remaining_tokens_of :: "run_record \<Rightarrow> int option" where
  "remaining_tokens_of run =
     (if maxTokens (rn_budget run) > 0
      then Some (max 0 (maxTokens (rn_budget run) - consumedTokensEstimate (rn_totals run))) else None)"

definition remaining_iterations_of :: "run_record \<Rightarrow> int" where
  "remaining_iterations_of run = max 0 (maxIterations (rn_budget run) - rn_iteration run)"

definition start_signals :: "run_record \<Rightarrow> string list \<Rightarrow> string list" where
  "start_signals run changed =
     only_if (remaining_iterations_of run \<le> 1) [''Iteration budget nearly exhausted.'']
     @ only_if (case remaining_tokens_of run of None \<Rightarrow> False
         | Some n \<Rightarrow> n \<le> \<lceil>dbl (of_int (maxTokens (rn_budget run)) * dbl (2 / 10))\<rceil>)
         [''Token budget is under 20%.'']
     @ only_if (changed \<noteq> [])
         [''Working tree already has '' @ show_nat (length changed) @ '' changed paths.'']"

definition start_route_health :: "run_record \<Rightarrow> iteration_summary option \<Rightarrow> string list \<Rightarrow> route_health" where
  "start_route_health run previous changed =
     (let health = map_option su_routeHealth previous; near = near_no_progress run
      in \<lparr>rh_offRoute = nullish (map_option rh_offRoute health) False,
          rh_noProgressLoop = (nullish (map_option rh_noProgressLoop health) False \<or> near),
          rh_rerouteRecommended = nullish (map_option rh_rerouteRecommended health) near,
          rh_rerouteReason = nullish2 (Option.bind health rh_rerouteReason)
            (if near then Some ''No-progress threshold is approaching.'' else None),
          rh_triggerSignals =
            (let signals = nullish (map_option rh_triggerSignals health) []
             in if signals \<noteq> [] then signals else start_signals run changed)\<rparr>)"

definition all_subgoals :: "run_record \<Rightarrow> iteration_summary option \<Rightarrow> string list" where
  "all_subgoals run previous =
     uniq (rn_completedSubgoals run @ (case previous of None \<Rightarrow> [] | Some s \<Rightarrow> su_completedSubgoals s))"

definition current_blocker_of :: "run_record \<Rightarrow> iteration_summary option \<Rightarrow> string option" where
  "current_blocker_of run previous =
     nullish2 (case previous of None \<Rightarrow> None | Some s \<Rightarrow> first_source (su_blockers s))
       (nullish2 (rn_currentBlocker run) (first_source (rn_blockers run)))"

definition buildStartState ::
    "run_record \<Rightarrow> iteration_summary option \<Rightarrow> string option \<Rightarrow> string list \<Rightarrow> commit_evidence list
     \<Rightarrow> collaborator_intent \<Rightarrow> start_state" where
  "buildStartState run previous gitBranch changed commits collaborators =
     (let destination = rn_destination run; budget = rn_budget run; totals = rn_totals run;
          stopRisk = toStopRisk run previous changed;
          milestones = nullish (map_option (pg_remainingMilestones \<circ> su_progress) previous) []
      in \<lparr>ss_summary = js_join '' ''
            [''Branch '' @ nullish gitBranch ''unknown'' @ '' with '' @ show_nat (length changed)
               @ '' changed path(s).'',
             ''Route preference is '' @ underscores_to_spaces (show_preference (ds_routePreference destination))
               @ ''.'',
             nullish (map_option (pg_remainingDistance \<circ> su_progress) previous)
               ''No prior route distance is available yet.''],
          ss_repo = \<lparr>sr_branch = gitBranch, sr_dirtyWorkingTree = (changed \<noteq> []),
            sr_recentCommits = map ce_summary (take 3 commits),
            sr_touchedAreas = ci_touchedAreas collaborators, sr_changedPaths = changed,
            sr_unresolvedBlockers = nullish (map_option su_blockers previous) (rn_blockers run)\<rparr>,
          ss_task = \<lparr>st_completedSubgoals = all_subgoals run previous,
            st_pendingMilestones = (if milestones \<noteq> [] then milestones
              else dd_arrivalCriteria (ds_doneDefinition destination)),
            st_confidence = nullish (map_option (pg_arrivalConfidence \<circ> su_progress) previous) Medium,
            st_risk = stopRisk, st_currentBlocker = current_blocker_of run previous\<rparr>,
          ss_system = \<lparr>sy_consumedTokensEstimate = consumedTokensEstimate totals,
            sy_remainingTokensEstimate = remaining_tokens_of run,
            sy_iterationsUsed = rn_iteration run,
            sy_remainingIterations = remaining_iterations_of run,
            sy_elapsedMs = elapsedMs totals,
            sy_remainingDurationMs = map_option (\<lambda>d. max 0 (d - elapsedMs totals)) (maxDurationMs budget),
            sy_validationFailureCount = validationFailureCount totals,
            sy_noProgressCount = noProgressCount totals,
            sy_repeatedFailureCount = repeatedFailureCount totals,
            sy_rerouteCount = rerouteCount totals, sy_stopRisk = stopRisk\<rparr>,
          ss_routeHealth = start_route_health run previous changed\<rparr>)"

end
