(* ===== verification/RuntimeToolPolicy.thy ===== *)
theory RuntimeToolPolicy
  imports AutoDriveTypes RegexLanguage
begin

text \<open>
  Which provider runs a model, how many sub-agents may run at once, and whether a run may research on
  the network: \<^verbatim>\<open>facades/runtimeToolExecutionPolicy.ts\<close>, with the table of provider names of
  \<^verbatim>\<open>packages/code-runtime-host-contract/src/codeRuntimeRpcCompat.ts\<close>.  A provider or a model that is
  null or undefined is \<open>None\<close>.
\<close>

section \<open>Providers\<close>

datatype oauth_provider = OAuthCodex | OAuthClaudeCode | OAuthGemini
datatype model_pool = PoolAuto | PoolCodex | PoolClaude | PoolGemini

record alias_spec =
  as_providerId :: execution_provider
  as_pool :: "model_pool option"
  as_oauthProviderId :: "oauth_provider option"
  as_aliases :: "string list"

definition provider_aliases :: "alias_spec list" where
  "provider_aliases =
     [\<lparr>as_providerId = OpenAI, as_pool = Some PoolCodex, as_oauthProviderId = Some OAuthCodex,
       as_aliases = [''openai'', ''codex'', ''openai-codex'']\<rparr>,
      \<lparr>as_providerId = Anthropic, as_pool = Some PoolClaude, as_oauthProviderId = Some OAuthClaudeCode,
       as_aliases = [''anthropic'', ''claude'', ''claude_code'', ''claude-code'']\<rparr>,
      \<lparr>as_providerId = Google, as_pool = Some PoolGemini, as_oauthProviderId = Some OAuthGemini,
       as_aliases = [''google'', ''gemini'', ''antigravity'', ''anti-gravity'', ''gemini-antigravity'']\<rparr>,
      \<lparr>as_providerId = LocalProvider, as_pool = None, as_oauthProviderId = None, as_aliases = [''local'']\<rparr>,
      \<lparr>as_providerId = UnknownProvider, as_pool = None, as_oauthProviderId = None, as_aliases = [''unknown'']\<rparr>]"

definition normalizeAlias :: "string option \<Rightarrow> string option" where
  "normalizeAlias v =
     (case v of None \<Rightarrow> None
      | Some s \<Rightarrow> let normalized = to_lower (js_trim s) in if normalized \<noteq> [] then Some normalized else None)"

definition resolveProviderAliasSpec :: "string option \<Rightarrow> alias_spec option" where
  "resolveProviderAliasSpec v =
     (case normalizeAlias v of None \<Rightarrow> None
      | Some normalized \<Rightarrow> find (\<lambda>entry. normalized \<in> set (as_aliases entry)) provider_aliases)"

definition canonicalizeModelProvider :: "string option \<Rightarrow> execution_provider option" where
  "canonicalizeModelProvider provider = map_option as_providerId (resolveProviderAliasSpec provider)"

definition canonicalizeOAuthProviderId :: "string option \<Rightarrow> oauth_provider option" where
  "canonicalizeOAuthProviderId provider = Option.bind (resolveProviderAliasSpec provider) as_oauthProviderId"

definition canonicalizeModelPool :: "string option \<Rightarrow> model_pool option" where
  "canonicalizeModelPool pool =
     (case normalizeAlias pool of None \<Rightarrow> None
      | Some normalized \<Rightarrow>
          if normalized = ''auto'' then Some PoolAuto
          else Option.bind (resolveProviderAliasSpec pool) as_pool)"

definition inferProviderFromModelId :: "string option \<Rightarrow> execution_provider option" where
  "inferProviderFromModelId modelId =
     (let normalized = to_lower (js_trim (nullish modelId []))
      in if normalized = [] then None
         else if list_ex (starts_with normalized) [''gpt-'', ''o1'', ''o3'', ''o4'']
                 \<or> str_includes normalized ''codex'' then Some OpenAI
         else if str_includes normalized ''claude'' then Some Anthropic
         else if str_includes normalized ''gemini'' then Some Google
         else if str_includes normalized ''local'' then Some LocalProvider
         else None)"

definition normalizeRuntimeExecutionProvider :: "string option \<Rightarrow> string option \<Rightarrow> execution_provider" where
  "normalizeRuntimeExecutionProvider provider modelId =
     (case canonicalizeModelProvider provider of
        Some OpenAI \<Rightarrow> OpenAI
      | Some Anthropic \<Rightarrow> Anthropic
      | Some Google \<Rightarrow> Google
      | Some LocalProvider \<Rightarrow> LocalProvider
      | _ \<Rightarrow> nullish (inferProviderFromModelId modelId) UnknownProvider)"

section \<open>Parallelism\<close>

datatype execution_mode = Parallel | Sequential

record batch_policy =
  bp_provider :: execution_provider
  bp_requestedExecutionMode :: execution_mode
  bp_requestedMaxParallel :: "int option"
  bp_effectiveExecutionMode :: execution_mode
  bp_effectiveMaxParallel :: int
  bp_parallelToolCallsAllowed :: bool
  bp_reasonCodes :: "string list"

definition clampMaxParallel :: "int \<Rightarrow> int" where
  "clampMaxParallel v = min 6 (max 1 v)"

definition normalizeRequestedMaxParallel :: "int option \<Rightarrow> int" where
  "normalizeRequestedMaxParallel v = (case v of None \<Rightarrow> 6 | Some n \<Rightarrow> clampMaxParallel n)"

definition resolveRuntimeSubAgentBatchPolicy ::
    "string option \<Rightarrow> string option \<Rightarrow> execution_mode \<Rightarrow> int option \<Rightarrow> bool \<Rightarrow> batch_policy" where
  "resolveRuntimeSubAgentBatchPolicy provider modelId requestedMode requestedMax approvalSensitive =
     (let p = normalizeRuntimeExecutionProvider provider modelId;
          n = normalizeRequestedMaxParallel requestedMax;
          decide = (\<lambda>mode limit allowed reason.
            \<lparr>bp_provider = p, bp_requestedExecutionMode = requestedMode,
             bp_requestedMaxParallel = requestedMax, bp_effectiveExecutionMode = mode,
             bp_effectiveMaxParallel = limit, bp_parallelToolCallsAllowed = allowed,
             bp_reasonCodes = [reason]\<rparr>)
      in if requestedMode = Sequential then decide Sequential 1 False ''requested-sequential''
         else if approvalSensitive then decide Sequential 1 False ''approval-sensitive-tasks''
         else if p = Anthropic then decide Parallel (min n 2) True ''provider-capped-parallelism''
         else if p = LocalProvider then decide Sequential 1 False ''provider-unsupported-for-parallel''
         else if p = UnknownProvider then decide Parallel n True ''provider-unknown-defaults-to-parallel''
         else decide Parallel n True ''provider-allows-parallelism'')"

section \<open>Research on the network\<close>

text \<open>\<^verbatim>\<open>FRESHNESS_SIGNAL_PATTERN\<close>\<close>

definition freshness_signal_re :: re where
  "freshness_signal_re =
     Alts (Lit_i ''latest'') (map Lit_i [''upstream'', ''framework'', ''api'', ''sdk'', ''standard'', ''docs'',
       ''documentation'', ''version'', ''dependency'', ''release'', ''changelog'', ''breaking''])"

definition resolveAutoDriveExternalResearchPolicy ::
    "bool \<Rightarrow> string option \<Rightarrow> string option \<Rightarrow> destination_model \<Rightarrow> string option \<Rightarrow> research_policy" where
  "resolveAutoDriveExternalResearchPolicy allowed provider modelId destination previousSummaryText =
     (let p = normalizeRuntimeExecutionProvider provider modelId;
          sourceText = js_join [CHR 0x0A]
            ([ds_title destination] @ ds_desiredEndState destination
             @ dd_arrivalCriteria (ds_doneDefinition destination) @ ds_hardBoundaries destination
             @ [nullish previousSummaryText []]);
          disabled = (\<lambda>reason. \<lparr>rp_provider = p, rp_enabled = False, rp_strategy = ResearchDisabled,
            rp_fetchPageContent = False, rp_query = None, rp_recencyDays = None, rp_reasonCodes = [reason]\<rparr>);
          strategy = (if p \<in> {OpenAI, Google} then SearchContent else SearchOnly)
      in if \<not> allowed then disabled ''network-disabled-by-risk-policy''
         else if \<not> re_test freshness_signal_re sourceText then disabled ''no-freshness-signal''
         else \<lparr>rp_provider = p, rp_enabled = True, rp_strategy = strategy,
                rp_fetchPageContent = (strategy = SearchContent),
                rp_query = Some (ds_title destination @ '' relevant framework or API guidance''),
                rp_recencyDays = Some 30,
                rp_reasonCodes = [if strategy = SearchContent then ''research-search-content''
                  else ''research-search-only'']\<rparr>)"

lemma research_needs_permission:
  "rp_enabled (resolveAutoDriveExternalResearchPolicy allow provider modelId destination text) \<Longrightarrow> allow"
  by (simp add: resolveAutoDriveExternalResearchPolicy_def Let_def split: if_splits)

lemma batch_policy_bounds:
  "let p = resolveRuntimeSubAgentBatchPolicy provider modelId requestedMode requestedMax approvalSensitive
   in 1 \<le> bp_effectiveMaxParallel p \<and> bp_effectiveMaxParallel p \<le> 6
      \<and> bp_parallelToolCallsAllowed p = (bp_effectiveExecutionMode p = Parallel)
      \<and> (bp_effectiveExecutionMode p = Sequential \<longrightarrow> bp_effectiveMaxParallel p = 1)"
  by (auto simp: resolveRuntimeSubAgentBatchPolicy_def normalizeRequestedMaxParallel_def clampMaxParallel_def
      min_def max_def Let_def split: option.splits)

end
