(* ===== verification/AutoDriveContext.thy ===== *)
theory AutoDriveContext
  imports AutoDriveReadiness RuntimeToolPolicy ConversationItem
begin

text \<open>
  Collecting a context: the readers and \<open>synthesizeAutoDriveContext\<close> of
  \<^verbatim>\<open>facades/runtimeAutoDriveContext.ts\<close>.  The services that it asks are the parameter
  \<open>context_deps\<close>: what a call returns, or \<open>None\<close> when it is rejected.  An optional service that is
  absent is one that returns null; only the store of thread snapshots distinguishes the two.
  \<open>JSON.parse\<close> with the type that the code ascribes to its result is part of the parameter
  (\<open>cd_package\<close>, \<open>cd_scenarios\<close>, \<open>cd_run\<close>, \<open>cd_handoff\<close>): \<open>None\<close> when it throws.
\<close>

section \<open>Services\<close>

record git_status =
  gs_branchName :: "string option"
  gs_files :: "string list"
  gs_stagedFiles :: "string list"
  gs_unstagedFiles :: "string list"
  gs_totalAdditions :: int
  gs_totalDeletions :: int

record git_log_entry =
  ge_sha :: string
  ge_summary :: string
  ge_author :: string
  ge_timestamp :: int

record git_log =
  gl_entries :: "git_log_entry list"
  gl_upstream :: "string option"
  gl_ahead :: int
  gl_behind :: int

record github_list =
  gh_total :: int
  gh_items :: "(int \<times> string) list"

record skill_result =
  sk_output :: "string option"
  sk_urls :: "string option list"

record thread_snapshot =
  ts_updatedAt :: "int option"
  ts_items :: "conversation_item list option"

record memory_digest =
  md_summary :: "string option"
  md_updatedAt :: "int option"

record package_json =
  pj_scripts :: "(string \<times> string) list"
  pj_packageManager :: "string option"

record context_deps =
  cd_gitStatus :: "git_status option"
  cd_gitLog :: "git_log option"
  cd_workspaceFiles :: "string list option"
  cd_currentBranch :: "string option option"
  cd_gitRemote :: "string option option"
  cd_commitDiff :: "string \<Rightarrow> string list option"
  cd_readFile :: "string \<Rightarrow> string option"
  cd_issues :: "github_list option option"
  cd_pullRequests :: "github_list option option"
  cd_snapshots :: "thread_snapshot js_record option option"
  cd_digests :: "memory_digest js_record option"
  cd_skill :: "string \<Rightarrow> skill_result option"
  cd_now :: int
  cd_package :: "string \<Rightarrow> package_json option"
  cd_scenarios :: "string \<Rightarrow> (string \<times> string option) list option"
  cd_run :: "string \<Rightarrow> run_record option"
  cd_handoff :: "string \<Rightarrow> publish_handoff option"
  cd_localeLe :: "string \<Rightarrow> string \<Rightarrow> bool"

section \<open>Research, backlog, threads\<close>

definition research_policy_of :: "run_record \<Rightarrow> iteration_summary option \<Rightarrow> research_policy" where
  "research_policy_of run previous =
     resolveAutoDriveExternalResearchPolicy (allowNetworkAnalysis (rn_riskPolicy run)) None
       (Option.bind (rn_execution run) xc_modelId) (rn_destination run) (map_option su_summaryText previous)"

definition maybeRunExternalResearch ::
    "context_deps \<Rightarrow> run_record \<Rightarrow> iteration_summary option \<Rightarrow> research_policy \<times> research_entry list" where
  "maybeRunExternalResearch deps run previous =
     (let policy = research_policy_of run previous; query = nullish (rp_query policy) []
      in (policy,
          if \<not> rp_enabled policy \<or> query = [] then []
          else case cd_skill deps query of
              None \<Rightarrow> []
            | Some result \<Rightarrow>
                let text = js_trim (nullish (sk_output result) [])
                in [\<lparr>rx_query = query,
                     rx_summary = (if text \<noteq> [] then text else ''Network analysis completed.''),
                     rx_sources = take 5 (non_empty (sk_urls result))\<rparr>]))"

definition backlog_highlights :: "string \<Rightarrow> github_list option \<Rightarrow> string list" where
  "backlog_highlights label response =
     (case response of None \<Rightarrow> []
      | Some r \<Rightarrow> map (\<lambda>(n, title). label @ show_int n @ '': '' @ title) (take 2 (gh_items r)))"

definition readRepoBacklog :: "context_deps \<Rightarrow> repo_backlog" where
  "readRepoBacklog deps =
     (case (cd_issues deps, cd_pullRequests deps) of
        (Some issues, Some pulls) \<Rightarrow>
          \<lparr>bl_openIssues = map_option gh_total issues, bl_openPullRequests = map_option gh_total pulls,
           bl_highlights = take 4 (backlog_highlights ''Issue #'' issues @ backlog_highlights ''PR #'' pulls)\<rparr>
      | _ \<Rightarrow> \<lparr>bl_openIssues = None, bl_openPullRequests = None, bl_highlights = []\<rparr>)"

definition buildThreadSnapshotKey :: "string \<Rightarrow> string \<Rightarrow> string" where
  "buildThreadSnapshotKey workspaceId threadId = workspaceId @ '':'' @ threadId"

text \<open>The trimmed texts of the last \<open>n\<close> messages of a role.\<close>

definition recent_texts :: "nat \<Rightarrow> item_role \<Rightarrow> conversation_item list \<Rightarrow> string list" where
  "recent_texts n role items =
     filter (\<lambda>t. t \<noteq> []) (map js_trim (slice_last n (List.map_filter
       (\<lambda>i. case i of Message _ r text _ \<Rightarrow> if r = role then Some text else None | _ \<Rightarrow> None) items)))"

definition memory_of :: "memory_digest option \<Rightarrow> string option" where
  "memory_of digest =
     (let text = js_trim (nullish (Option.bind digest md_summary) [])
      in if text \<noteq> [] then Some text else None)"

definition thread_summary_text :: "string option \<Rightarrow> string list \<Rightarrow> string list \<Rightarrow> string" where
  "thread_summary_text memory prompts replies =
     js_join '' '' (non_empty
       [map_option (\<lambda>m. ''Long-term thread memory: '' @ m) memory,
        (if prompts \<noteq> [] then Some (''Recent operator prompts: '' @ bar prompts) else None),
        (if replies \<noteq> [] then Some (''Recent assistant replies: '' @ bar replies) else None)])"

definition thread_context_of ::
    "string \<Rightarrow> thread_snapshot option \<Rightarrow> memory_digest option \<Rightarrow> thread_context option" where
  "thread_context_of threadId snapshot digest =
     (let memory = memory_of digest; memoryAt = Option.bind digest md_updatedAt;
          items = Option.bind snapshot ts_items;
          prompts = recent_texts 3 User (nullish items []);
          replies = recent_texts 2 Assistant (nullish items [])
      in if prompts = [] \<and> replies = [] \<and> memory = None then None
         else Some \<lparr>tc_threadId = threadId,
                tc_snapshotUpdatedAt =
                  (if items = None then None else Option.bind snapshot ts_updatedAt),
                tc_recentUserPrompts = prompts, tc_recentAssistantReplies = replies,
                tc_longTermMemorySummary = memory, tc_longTermMemoryUpdatedAt = memoryAt,
                tc_summary = Some (thread_summary_text memory prompts replies)\<rparr>)"

definition readThreadContext :: "context_deps \<Rightarrow> string \<Rightarrow> string option \<Rightarrow> thread_context option" where
  "readThreadContext deps workspaceId threadId =
     (case (threadId, cd_snapshots deps) of
        (Some i, Some answer) \<Rightarrow>
          if i = [] then None
          else (case (answer, cd_digests deps) of
              (Some snapshots, Some digests) \<Rightarrow>
                thread_context_of i (snapshots (buildThreadSnapshotKey workspaceId i))
                  (digests (buildThreadSnapshotKey workspaceId i))
            | _ \<Rightarrow> None)
      | _ \<Rightarrow> None)"

section \<open>The repository\<close>

text \<open>The scripts of a context: the named ones under their own keys, and the end-to-end ones.\<close>

definition named_scripts :: "(string \<times> string) list" where
  "named_scripts =
     [(''test'', ''test''), (''testComponent'', ''test:component''), (''dev'', ''dev''), (''build'', ''build''),
      (''validateFast'', ''validate:fast''), (''validate'', ''validate''), (''validateFull'', ''validate:full''),
      (''preflight'', ''preflight:codex'')]"

definition is_e2e_key :: "string \<Rightarrow> bool" where
  "is_e2e_key key = starts_with key ''test:e2e:''"

definition parsePackageScripts :: "package_json option \<Rightarrow> string js_record" where
  "parsePackageScripts package =
     (case package of None \<Rightarrow> Map.empty
      | Some p \<Rightarrow> (\<lambda>key.
          if is_e2e_key key then map_of (pj_scripts p) key
          else Option.bind (map_of named_scripts key) (map_of (pj_scripts p))))"

definition e2e_commands :: "package_json option \<Rightarrow> string list" where
  "e2e_commands package =
     (case package of None \<Rightarrow> []
      | Some p \<Rightarrow> map snd (filter (\<lambda>(key, _). is_e2e_key key) (pj_scripts p)))"

definition resolveRepresentativeEvaluationCommands :: "string js_record \<Rightarrow> string list \<Rightarrow> string list" where
  "resolveRepresentativeEvaluationCommands scripts files =
     dedupeNonEmpty
       [scripts ''test'', scripts ''validateFast'',
        (if scripts ''test'' = None \<and> scripts ''validateFast'' = None then scripts ''validate'' else None),
        (if ''Cargo.toml'' \<in> set files then Some ''cargo test'' else None)] None"

definition parseEvaluationScenarioKeys :: "(string \<times> string option) list option \<Rightarrow> string list" where
  "parseEvaluationScenarioKeys parsed =
     (case parsed of None \<Rightarrow> []
      | Some entries \<Rightarrow>
          dedupeNonEmpty (map (\<lambda>(key, v). if js_trim (nullish v []) \<noteq> [] then Some key else None) entries) None)"

definition sample_path_names :: "string list" where
  "sample_path_names = [''.codex/e2e-map.json'', ''tests'', ''test'', ''fixtures'', ''__fixtures__'', ''playwright'']"

definition readRepoEvaluationProfile ::
    "context_deps \<Rightarrow> string list \<Rightarrow> package_json option \<Rightarrow> repo_evaluation" where
  "readRepoEvaluationProfile deps files package =
     (let scripts = parsePackageScripts package;
          representative = resolveRepresentativeEvaluationCommands scripts files;
          componentCommands = dedupeNonEmpty [scripts ''testComponent''] None;
          endToEnd = dedupeNonEmpty (map Some (e2e_commands package)) None;
          samples = filter (\<lambda>c. list_ex (\<lambda>path. path = c \<or> starts_with path (c @ ''/'')) files) sample_path_names;
          mapped = (''.codex/e2e-map.json'' \<in> set files);
          scenarios = (if mapped then parseEvaluationScenarioKeys
              (cd_scenarios deps (nullish (cd_readFile deps ''.codex/e2e-map.json'') [])) else [])
      in \<lparr>ev_representativeCommands = representative, ev_componentCommands = componentCommands,
          ev_endToEndCommands = endToEnd, ev_samplePaths = samples,
          ev_heldOutGuidance = only_if (samples \<noteq> [])
            [''Keep at least one held-out fixture or representative scenario untouched ''
              @ ''so drift detection stays meaningful.''],
          ev_sourceSignals =
            only_if (representative \<noteq> []) [''representative_commands'']
            @ only_if (componentCommands \<noteq> []) [''component_commands'']
            @ only_if (endToEnd \<noteq> []) [''end_to_end_commands'']
            @ only_if (samples \<noteq> []) [''sample_paths'']
            @ only_if mapped [''e2e_map'']
            @ only_if (scenarios \<noteq> []) [''scenario_keys'']
            @ only_if (''Cargo.toml'' \<in> set files) [''cargo_test''],
          ev_scenarioKeys = scenarios\<rparr>)"

definition relevant_doc_paths :: "string list" where
  "relevant_doc_paths =
     [''AGENTS.md'', ''README.md'', ''docs/development/README.md'', ''CODING_STANDARDS.md'',
      ''.agent/quality-gates.md'', ''.agent/agent-specs.md'']"

definition is_rule_doc :: "string \<Rightarrow> bool" where
  "is_rule_doc path = (path = ''AGENTS.md'' \<or> starts_with path ''.agent/'')"

definition read_doc :: "context_deps \<Rightarrow> string \<Rightarrow> rule_evidence option" where
  "read_doc deps path = Option.bind (cd_readFile deps path) (extractRuleEvidence path)"

definition read_package :: "context_deps \<Rightarrow> string list \<Rightarrow> package_json option" where
  "read_package deps files =
     (if ''package.json'' \<in> set files then Option.bind (cd_readFile deps ''package.json'') (cd_package deps)
      else None)"

definition loadCommitEvidence :: "context_deps \<Rightarrow> git_log_entry list \<Rightarrow> commit_evidence list" where
  "loadCommitEvidence deps commits =
     map (\<lambda>c. \<lparr>ce_sha = ge_sha c, ce_summary = ge_summary c, ce_author = ge_author c,
         ce_timestamp = ge_timestamp c,
         ce_touchedPaths = filter (\<lambda>p. js_trim p \<noteq> []) (nullish (cd_commitDiff deps (ge_sha c)) [])\<rparr>)
       (take 12 commits)"

section \<open>Synthesis\<close>

text \<open>\<^verbatim>\<open>/Composer|runtime|mission|thread|autodrive/i\<close>\<close>

definition relevant_file_re :: re where
  "relevant_file_re =
     Alts (Lit_i ''Composer'') [Lit_i ''runtime'', Lit_i ''mission'', Lit_i ''thread'', Lit_i ''autodrive'']"

definition relevant_files :: "string list \<Rightarrow> string list \<Rightarrow> iteration_summary option \<Rightarrow> string list" where
  "relevant_files workspaceFiles changed previous =
     take 12 (uniq (take 8 (filter (re_test relevant_file_re) workspaceFiles) @ changed
       @ (case previous of None \<Rightarrow> [] | Some s \<Rightarrow> su_suggestedNextAreas s)))"

definition context_blockers :: "run_record \<Rightarrow> iteration_summary option \<Rightarrow> route_stagnation \<Rightarrow> string list" where
  "context_blockers run previous stagnation =
     dedupeNonEmpty
       (map Some (nullish (map_option su_blockers previous) (rn_blockers run))
        @ map Some (sg_repeatedBlockers stagnation)
        @ [if sg_isStagnating stagnation then sg_summary stagnation else None]) (Some 6)"

record history_evidence =
  hy_corridor :: "publish_corridor option"
  hy_failure :: "string option"
  hy_published :: bool

definition read_history :: "context_deps \<Rightarrow> run_record \<Rightarrow> string list \<Rightarrow> history_evidence" where
  "read_history deps run files =
     (let ws = \<lparr>ws_files = files, ws_read = cd_readFile deps, ws_run = cd_run deps, ws_handoff = cd_handoff deps\<rparr>;
          title = ds_title (rn_destination run);
          runs = loadHistoricalAutoDriveRuns ws (rn_runId run);
          corridor = findBestHistoricalPublishCorridor title
            (loadHistoricalAutoDrivePublishHandoffs ws (rn_runId run))
      in \<lparr>hy_corridor = corridor,
          hy_failure = findHistoricalPublishFailureSummary title runs,
          hy_published = (corridor \<noteq> None \<or> hasHistoricalPublishedCorridor title runs)\<rparr>)"

text \<open>The part after all services have answered: first the evidence, then the context.\<close>

definition rule_evidence_of :: "context_deps \<Rightarrow> string list \<Rightarrow> (string \<Rightarrow> bool) \<Rightarrow> rule_evidence list" where
  "rule_evidence_of deps files selects =
     List.map_filter (read_doc deps) (filter selects (take 6 (filter (\<lambda>p. p \<in> set files) relevant_doc_paths)))"

definition context_evidence ::
    "context_deps \<Rightarrow> run_record \<Rightarrow> iteration_summary option \<Rightarrow> git_log \<Rightarrow> string list \<Rightarrow> evidence_base" where
  "context_evidence deps run previous gitLog files =
     (let lc = cd_localeLe deps;
          rules = rule_evidence_of deps files is_rule_doc;
          commits = loadCommitEvidence deps (gl_entries gitLog);
          thread = readThreadContext deps (rn_workspaceId run) (rn_threadId run);
          momentum = buildCommitMomentum lc run commits previous thread;
          stagnation = buildRouteStagnationSignal lc run previous
      in \<lparr>eb_run = run, eb_previous = previous,
          eb_collaborators = buildCollaboratorIntent lc run commits rules momentum,
          eb_momentum = momentum, eb_stagnation = stagnation, eb_rules = rules,
          eb_research = snd (maybeRunExternalResearch deps run previous),
          eb_backlog = readRepoBacklog deps, eb_thread = thread,
          eb_blockers = context_blockers run previous stagnation\<rparr>)"

definition context_of ::
    "context_deps \<Rightarrow> run_record \<Rightarrow> int \<Rightarrow> iteration_summary option \<Rightarrow> git_status \<Rightarrow> git_log
     \<Rightarrow> string list \<Rightarrow> string option \<Rightarrow> string option \<Rightarrow> context_snapshot" where
  "context_of deps run iteration previous status gitLog files currentBranch remote =
     (let e = context_evidence deps run previous gitLog files;
          package = read_package deps files;
          evaluation = readRepoEvaluationProfile deps files package;
          commits = loadCommitEvidence deps (gl_entries gitLog);
          history = read_history deps run files;
          tuning = buildExecutionFeedbackSignal run previous (eb_stagnation e) (hy_published history)
            (hy_failure history);
          changed = gs_files status;
          relevant = relevant_files files changed previous;
          branch = nullish2 currentBranch (gs_branchName status);
          intent = buildIntentModel e relevant;
          startState = buildStartState run previous branch changed commits (eb_collaborators e)
      in \<lparr>cx_runId = rn_runId run, cx_iteration = iteration, cx_destination = rn_destination run,
          cx_startState = startState,
          cx_repo = \<lparr>rc_packageManager = Option.bind package pj_packageManager,
            rc_workspaceMarkers = extractWorkspaceMarkers files, rc_scripts = parsePackageScripts package,
            rc_evaluation = Some evaluation, rc_ruleEvidence = eb_rules e,
            rc_relevantDocs = rule_evidence_of deps files (\<lambda>p. \<not> is_rule_doc p),
            rc_relevantFiles = relevant\<rparr>,
          cx_git = \<lparr>gc_branch = branch, gc_remote = remote, gc_upstream = gl_upstream gitLog,
            gc_ahead = gl_ahead gitLog, gc_behind = gl_behind gitLog, gc_recentCommits = commits,
            gc_workingTree = \<lparr>wt_dirty = (gs_files status \<noteq> []),
              wt_stagedCount = int (length (gs_stagedFiles status)),
              wt_unstagedCount = int (length (gs_unstagedFiles status)),
              wt_changedPaths = changed, wt_totalAdditions = gs_totalAdditions status,
              wt_totalDeletions = gs_totalDeletions status\<rparr>\<rparr>,
          cx_collaboratorIntent = eb_collaborators e, cx_intent = intent,
          cx_opportunities = buildOpportunityQueue (cd_localeLe deps)
            \<lparr>oi_evidence = e, oi_intent = intent, oi_tuning = tuning, oi_changedPaths = changed,
             oi_evaluation = evaluation, oi_corridor = hy_corridor history, oi_gitBehind = gl_behind gitLog\<rparr>,
          cx_executionTuning = tuning,
          cx_publishReadiness = buildPublishReadiness previous (eb_blockers e) changed remote (gl_behind gitLog)
            (sy_stopRisk (ss_system startState)),
          cx_publishHistory = \<lparr>ph_bestCorridor = hy_corridor history, ph_latestFailureSummary = hy_failure history\<rparr>,
          cx_repoBacklog = eb_backlog e, cx_threadContext = eb_thread e, cx_previousSummary = previous,
          cx_blockers = eb_blockers e, cx_completedSubgoals = all_subgoals run previous,
          cx_externalResearch = eb_research e,
          cx_researchPolicy = Some (fst (maybeRunExternalResearch deps run previous)),
          cx_synthesizedAt = cd_now deps\<rparr>)"

definition synthesizeAutoDriveContext ::
    "context_deps \<Rightarrow> run_record \<Rightarrow> int \<Rightarrow> iteration_summary option \<Rightarrow> context_snapshot option" where
  "synthesizeAutoDriveContext deps run iteration previous =
     (case (cd_gitStatus deps, cd_gitLog deps, cd_workspaceFiles deps, cd_currentBranch deps, cd_gitRemote deps) of
        (Some status, Some gitLog, Some files, Some currentBranch, Some remote) \<Rightarrow>
          Some (context_of deps run iteration previous status gitLog files currentBranch remote)
      | _ \<Rightarrow> None)"

end
