(* ===== verification/AutoDriveContextFacts.thy ===== *)
theory AutoDriveContextFacts
  imports AutoDriveContext AutoDrivePolicy AutoDriveExecution AutoDriveExamples
begin

text \<open>
  What a synthesized context promises to the planner and to the controller: which services it depends
  on, when it opens the publish corridor, how its stop risk relates to the check that the controller
  makes before an iteration, and which opportunity it selects.
\<close>

section \<open>The parts of a context\<close>

lemma synthesize_eq_Some:
  "synthesizeAutoDriveContext deps run iteration previous = Some cx \<longleftrightarrow>
     (\<exists>status gitLog files branch remote. cd_gitStatus deps = Some status \<and> cd_gitLog deps = Some gitLog
        \<and> cd_workspaceFiles deps = Some files \<and> cd_currentBranch deps = Some branch
        \<and> cd_gitRemote deps = Some remote
        \<and> cx = context_of deps run iteration previous status gitLog files branch remote)"
  by (auto simp: synthesizeAutoDriveContext_def split: option.splits)

lemma evidence_simps [simp]:
  "eb_run (context_evidence deps run previous gitLog files) = run"
  "eb_previous (context_evidence deps run previous gitLog files) = previous"
  "eb_stagnation (context_evidence deps run previous gitLog files) =
     buildRouteStagnationSignal (cd_localeLe deps) run previous"
  "eb_blockers (context_evidence deps run previous gitLog files) =
     context_blockers run previous (buildRouteStagnationSignal (cd_localeLe deps) run previous)"
  "eb_research (context_evidence deps run previous gitLog files) = snd (maybeRunExternalResearch deps run previous)"
  "eb_backlog (context_evidence deps run previous gitLog files) = readRepoBacklog deps"
  "eb_thread (context_evidence deps run previous gitLog files) =
     readThreadContext deps (rn_workspaceId run) (rn_threadId run)"
  by (simp_all add: context_evidence_def Let_def)

lemma context_of_simps [simp]:
  fixes deps run iteration previous status gitLog files branch remote
  defines "cx \<equiv> context_of deps run iteration previous status gitLog files branch remote"
    and "e \<equiv> context_evidence deps run previous gitLog files"
  shows "cx_runId cx = rn_runId run" "cx_iteration cx = iteration" "cx_destination cx = rn_destination run"
    "cx_previousSummary cx = previous" "cx_blockers cx = eb_blockers e" "cx_repoBacklog cx = eb_backlog e"
    "rc_relevantFiles (cx_repo cx) = relevant_files files (gs_files status) previous"
    "rc_ruleEvidence (cx_repo cx) = eb_rules e"
    "gc_remote (cx_git cx) = remote" "gc_behind (cx_git cx) = gl_behind gitLog"
    "gc_recentCommits (cx_git cx) = loadCommitEvidence deps (gl_entries gitLog)"
    "wt_dirty (gc_workingTree (cx_git cx)) \<longleftrightarrow> gs_files status \<noteq> []"
    "wt_changedPaths (gc_workingTree (cx_git cx)) = gs_files status"
    "cx_completedSubgoals cx = all_subgoals run previous"
    "cx_externalResearch cx = eb_research e" "cx_threadContext cx = eb_thread e"
    "cx_collaboratorIntent cx = eb_collaborators e"
    "cx_intent cx = buildIntentModel e (relevant_files files (gs_files status) previous)"
    "cx_startState cx = buildStartState run previous (nullish2 branch (gs_branchName status)) (gs_files status)
       (loadCommitEvidence deps (gl_entries gitLog)) (eb_collaborators e)"
    "cx_publishReadiness cx = buildPublishReadiness previous (eb_blockers e) (gs_files status) remote
       (gl_behind gitLog) (toStopRisk run previous (gs_files status))"
    "cx_executionTuning cx = buildExecutionFeedbackSignal run previous (eb_stagnation e)
       (hy_published (read_history deps run files)) (hy_failure (read_history deps run files))"
  unfolding cx_def e_def by (simp_all add: context_of_def buildStartState_def Let_def del: evidence_simps)

definition example_deps :: context_deps where
  "example_deps =
     \<lparr>cd_gitStatus = Some \<lparr>gs_branchName = Some ''main'', gs_files = [], gs_stagedFiles = [],
        gs_unstagedFiles = [], gs_totalAdditions = 0, gs_totalDeletions = 0\<rparr>,
      cd_gitLog = Some \<lparr>gl_entries = [\<lparr>ge_sha = ''c1'', ge_summary = ''Panel work'', ge_author = ''ann'', ge_timestamp = 1\<rparr>],
        gl_upstream = Some ''origin/main'', gl_ahead = 0, gl_behind = 0\<rparr>,
      cd_workspaceFiles = Some [''src/panel.ts''], cd_currentBranch = Some (Some ''main''),
      cd_gitRemote = Some (Some ''origin''),
      cd_commitDiff = (\<lambda>_. Some [''src/panel.ts'']), cd_readFile = (\<lambda>_. None), cd_issues = Some None,
      cd_pullRequests = Some None, cd_snapshots = None, cd_digests = Some Map.empty, cd_skill = (\<lambda>_. None),
      cd_now = 7, cd_package = (\<lambda>_. None), cd_scenarios = (\<lambda>_. None), cd_run = (\<lambda>_. None),
      cd_handoff = (\<lambda>_. None), cd_localeLe = (\<lambda>a b. length a \<le> length b)\<rparr>"

lemma example_synthesis:
  "\<exists>cx. synthesizeAutoDriveContext example_deps run iteration previous = Some cx
     \<and> gc_remote (cx_git cx) = Some ''origin'' \<and> \<not> wt_dirty (gc_workingTree (cx_git cx))"
  by (simp add: synthesizeAutoDriveContext_def example_deps_def)

section \<open>Services that fail\<close>

text \<open>The services whose failure the code catches, all failing at once.\<close>

definition silent :: "context_deps \<Rightarrow> context_deps" where
  "silent deps = deps\<lparr>cd_commitDiff := (\<lambda>_. None), cd_readFile := (\<lambda>_. None), cd_issues := None,
     cd_pullRequests := None, cd_snapshots := Some None, cd_digests := None, cd_skill := (\<lambda>_. None)\<rparr>"

lemma silent_simps [simp]:
  "cd_gitStatus (silent deps) = cd_gitStatus deps" "cd_gitLog (silent deps) = cd_gitLog deps"
  "cd_workspaceFiles (silent deps) = cd_workspaceFiles deps"
  "cd_currentBranch (silent deps) = cd_currentBranch deps" "cd_gitRemote (silent deps) = cd_gitRemote deps"
  "cd_localeLe (silent deps) = cd_localeLe deps"
  "readRepoBacklog (silent deps) = \<lparr>bl_openIssues = None, bl_openPullRequests = None, bl_highlights = []\<rparr>"
  "readThreadContext (silent deps) i j = None" "snd (maybeRunExternalResearch (silent deps) run previous) = []"
  "rule_evidence_of (silent deps) files selects = []"
  "c \<in> set (loadCommitEvidence (silent deps) cs) \<Longrightarrow> ce_touchedPaths c = []"
  by (auto simp: silent_def readRepoBacklog_def readThreadContext_def maybeRunExternalResearch_def Let_def
      rule_evidence_of_def read_doc_def map_filter_def loadCommitEvidence_def split: option.splits)

text \<open>A context depends on the working tree, the log, the list of files, the branches and the
  remote, and on nothing else to exist.  When all the other services fail at once (diffs of
  commits, files, issues, threads, memory, research), there is a context in the same cases, with
  the same blockers, the same budgets and stop risk and the same verdict on publishing; only the
  evidence those services give is missing.\<close>

theorem unreliable_services_isolated:
  "(synthesizeAutoDriveContext deps run iteration previous = None \<longleftrightarrow>
      cd_gitStatus deps = None \<or> cd_gitLog deps = None \<or> cd_workspaceFiles deps = None
      \<or> cd_currentBranch deps = None \<or> cd_gitRemote deps = None)
   \<and> rel_option (\<lambda>cx cx'.
       cx_blockers cx' = cx_blockers cx \<and> cx_publishReadiness cx' = cx_publishReadiness cx
       \<and> ss_system (cx_startState cx') = ss_system (cx_startState cx)
       \<and> gc_workingTree (cx_git cx') = gc_workingTree (cx_git cx)
       \<and> rc_relevantFiles (cx_repo cx') = rc_relevantFiles (cx_repo cx)
       \<and> cx_externalResearch cx' = [] \<and> cx_threadContext cx' = None \<and> rc_ruleEvidence (cx_repo cx') = []
       \<and> set (map ce_touchedPaths (gc_recentCommits (cx_git cx'))) \<subseteq> {[]})
     (synthesizeAutoDriveContext deps run iteration previous)
     (synthesizeAutoDriveContext (silent deps) run iteration previous)"
proof -
  have tree: "gc_workingTree (cx_git (context_of (silent deps) run iteration previous status gitLog files branch remote))
      = gc_workingTree (cx_git (context_of deps run iteration previous status gitLog files branch remote))"
    for status gitLog files branch remote by (simp add: context_of_def Let_def)
  have rules: "eb_rules (context_evidence (silent deps) run previous gitLog files) = []" for gitLog files
    by (simp add: context_evidence_def Let_def)
  show ?thesis
    by (auto simp: synthesizeAutoDriveContext_def buildStartState_def Let_def tree rules split: option.splits)
qed

section \<open>The network\<close>

lemma without_skill [simp]:
  "cd_gitStatus (deps\<lparr>cd_skill := f\<rparr>) = cd_gitStatus deps"
  "read_package (deps\<lparr>cd_skill := f\<rparr>) files = read_package deps files"
  "readRepoEvaluationProfile (deps\<lparr>cd_skill := f\<rparr>) files package = readRepoEvaluationProfile deps files package"
  "loadCommitEvidence (deps\<lparr>cd_skill := f\<rparr>) commits = loadCommitEvidence deps commits"
  "read_history (deps\<lparr>cd_skill := f\<rparr>) run files = read_history deps run files"
  "rule_evidence_of (deps\<lparr>cd_skill := f\<rparr>) files selects = rule_evidence_of deps files selects"
  "readThreadContext (deps\<lparr>cd_skill := f\<rparr>) i j = readThreadContext deps i j"
  "readRepoBacklog (deps\<lparr>cd_skill := f\<rparr>) = readRepoBacklog deps"
  by (simp_all add: read_package_def readRepoEvaluationProfile_def loadCommitEvidence_def read_history_def
      rule_evidence_of_def read_doc_def [abs_def] readThreadContext_def readRepoBacklog_def
      cong: if_cong option.case_cong)

lemma research_without_permission:
  assumes "\<not> allowNetworkAnalysis (rn_riskPolicy run)"
  shows "maybeRunExternalResearch deps run previous = (research_policy_of run previous, [])"
proof -
  have "\<not> rp_enabled (research_policy_of run previous)"
    using assms research_needs_permission unfolding research_policy_of_def by blast
  then show ?thesis by (simp add: maybeRunExternalResearch_def Let_def)
qed

text \<open>No network access without permission.  When the risk policy of a run does not allow network
  analysis, the context does not depend on the skill that searches the network: whatever the skill
  would answer, or whether it would fail, the context is the same.\<close>

theorem network_needs_permission:
  assumes "\<not> allowNetworkAnalysis (rn_riskPolicy run)"
  shows "synthesizeAutoDriveContext (deps\<lparr>cd_skill := skill\<rparr>) run iteration previous =
    synthesizeAutoDriveContext deps run iteration previous"
proof -
  have "context_of (deps\<lparr>cd_skill := skill\<rparr>) run iteration previous status gitLog files branch remote =
      context_of deps run iteration previous status gitLog files branch remote"
    for status gitLog files branch remote
    unfolding context_of_def context_evidence_def research_without_permission [OF assms] Let_def by simp
  then show ?thesis by (simp add: synthesizeAutoDriveContext_def split: option.split)
qed

theorem network_needs_permission_witness:
  "synthesizeAutoDriveContext (example_deps\<lparr>cd_skill := (\<lambda>_. Some \<lparr>sk_output = Some ''found'', sk_urls = []\<rparr>)\<rparr>)
     example_run 1 None = synthesizeAutoDriveContext example_deps example_run 1 None"
  by (rule network_needs_permission) (simp add: example_run_def)

section \<open>Publishing and stopping\<close>

lemma publish_mode_cases:
  fixes previous blockers changed remote behind risk
  defines "r \<equiv> buildPublishReadiness previous blockers changed remote behind risk"
    and "sound \<equiv> truthy remote \<and> blockers = [] \<and> validated previous \<and> risk \<noteq> High"
  shows "pr_recommendedMode r = PushCandidate \<longleftrightarrow> sound \<and> changed = [] \<and> behind \<le> 0"
    "pr_recommendedMode r = BranchOnly \<longleftrightarrow> sound \<and> changed \<noteq> [] \<and> behind = 0"
    "pr_allowed r \<longleftrightarrow> pr_recommendedMode r = PushCandidate"
    "pr_reasonCodes r = [] \<longleftrightarrow> pr_recommendedMode r = PushCandidate"
  unfolding r_def sound_def
  by (auto simp: buildPublishReadiness_def publish_reason_codes_def only_if_def Let_def)

text \<open>When a context opens the publish corridor.  It recommends a push exactly when the working
  tree is clean, there is a remote that is not ahead, no blocker is known, the last iteration
  passed its validation and the stop risk is not high; it recommends a local branch exactly when
  the changed files of the working tree are all that is missing; otherwise it holds.  In
  particular the first iteration, which follows no validation, always holds.\<close>

theorem publish_corridor_of_context:
  assumes "synthesizeAutoDriveContext deps run iteration previous = Some cx"
  shows "let readiness = cx_publishReadiness cx; git = cx_git cx; dirty = wt_dirty (gc_workingTree git);
      sound = (truthy (gc_remote git) \<and> cx_blockers cx = [] \<and> validated previous
        \<and> sy_stopRisk (ss_system (cx_startState cx)) \<noteq> High)
    in (pr_recommendedMode readiness = PushCandidate \<longleftrightarrow> sound \<and> \<not> dirty \<and> gc_behind git \<le> 0)
     \<and> (pr_recommendedMode readiness = BranchOnly \<longleftrightarrow> sound \<and> dirty \<and> gc_behind git = 0)
     \<and> (pr_allowed readiness \<longleftrightarrow> pr_recommendedMode readiness = PushCandidate)
     \<and> (pr_reasonCodes readiness = [] \<longleftrightarrow> pr_recommendedMode readiness = PushCandidate)"
  using assms by (auto simp: synthesize_eq_Some publish_mode_cases buildStartState_def Let_def)

theorem publish_corridor_of_context_witness:
  "\<exists>cx. synthesizeAutoDriveContext example_deps example_run 2 None = Some cx
     \<and> pr_recommendedMode (cx_publishReadiness cx) \<noteq> PushCandidate"
proof -
  obtain cx where cx: "synthesizeAutoDriveContext example_deps example_run 2 None = Some cx"
    using example_synthesis by blast
  show ?thesis
    using publish_corridor_of_context [OF cx] cx by (auto simp: Let_def validated_def)
qed

text \<open>The stop risk of a context and the check before an iteration.  The controller makes a context
  only when that check lets the run continue, and then the risk is never high, so a push is never
  held back for it, budgets are left, and the review of a proposal made from the context never
  complains about budget pressure: those branches of the code do nothing in a controlled run.\<close>

theorem permitted_iteration_not_risky:
  assumes "getPreIterationStopReason run = None"
    and "synthesizeAutoDriveContext deps run iteration previous = Some cx"
  shows "sy_stopRisk (ss_system (cx_startState cx)) \<noteq> High
    \<and> RouteRiskHigh \<notin> set (pr_reasonCodes (cx_publishReadiness cx))
    \<and> 1 \<le> sy_remainingIterations (ss_system (cx_startState cx))
    \<and> sy_remainingTokensEstimate (ss_system (cx_startState cx)) \<noteq> Some 0
    \<and> sy_remainingDurationMs (ss_system (cx_startState cx)) \<noteq> Some 0
    \<and> RouteBudgetPressure \<notin> set (map ri_code (rw_issues (reviewNextTaskProposal proposal cx run')))"
proof -
  have limits: "validationFailureCount (rn_totals run) < maxValidationFailures (rn_budget run)"
    "rerouteCount (rn_totals run) < maxReroutes (rn_budget run)" "rn_iteration run < maxIterations (rn_budget run)"
    "consumedTokensEstimate (rn_totals run) < maxTokens (rn_budget run)" "\<not> duration_exhausted run"
    using assms(1) by (auto simp: getPreIterationStopReason_def split: if_splits)
  from limits(1,2) have risk: "toStopRisk run previous changed \<noteq> High" for changed
    by (simp add: toStopRisk_def)
  have start: "sy_stopRisk (ss_system (cx_startState cx)) \<noteq> High"
    "1 \<le> sy_remainingIterations (ss_system (cx_startState cx))"
    "sy_remainingTokensEstimate (ss_system (cx_startState cx)) \<noteq> Some 0"
    "sy_remainingDurationMs (ss_system (cx_startState cx)) \<noteq> Some 0"
    using assms(2) limits risk
    by (auto simp: synthesize_eq_Some buildStartState_def Let_def remaining_iterations_of_def
        remaining_tokens_of_def duration_exhausted_def split: if_splits option.splits)
  moreover have "RouteRiskHigh \<notin> set (pr_reasonCodes (cx_publishReadiness cx))"
    using assms(2) risk by (auto simp: synthesize_eq_Some buildPublishReadiness_def publish_reason_codes_def
        only_if_def Let_def)
  moreover have "RouteBudgetPressure \<notin> set (map ri_code (rw_issues (reviewNextTaskProposal proposal cx run')))"
    using start by (auto simp: reviewNextTaskProposal_def review_issues_def Let_def issue_when_def)
  ultimately show ?thesis by blast
qed

theorem permitted_iteration_not_risky_witness:
  "\<exists>cx. synthesizeAutoDriveContext example_deps example_run 2 None = Some cx
     \<and> sy_stopRisk (ss_system (cx_startState cx)) \<noteq> High"
proof -
  obtain cx where cx: "synthesizeAutoDriveContext example_deps example_run 2 None = Some cx"
    using example_synthesis by blast
  have "getPreIterationStopReason example_run = None"
    by (simp add: getPreIterationStopReason_def duration_exhausted_def example_run_def example_totals_def)
  from permitted_iteration_not_risky [OF this cx] cx show ?thesis by blast
qed

section \<open>The first iteration\<close>

lemma feedback_after_reroute:
  assumes "recently_rerouted run previous"
  shows "''recent_reroute'' \<in> set (et_reasons (buildExecutionFeedbackSignal run previous stagnation h f))"
    and "et_effectiveMaxFilesPerIteration (buildExecutionFeedbackSignal run previous stagnation h f) \<le> 2"
    and "et_cautionLevel (buildExecutionFeedbackSignal run previous stagnation h f) = CautionHigh"
proof -
  let ?r = "tune_reroute run previous (tune_validation previous (untuned run))"
  have "set (et_reasons t) \<subseteq> set (et_reasons (tune_publish p ready h f t))" for p ready t
    using tune_reasons(5) [of p ready h f t] by auto
  moreover have "''recent_reroute'' \<in> set (et_reasons (tune_stagnation stagnation ?r))"
    using assms by (simp add: tune_reasons(1-3))
  ultimately show "''recent_reroute'' \<in> set (et_reasons (buildExecutionFeedbackSignal run previous stagnation h f))"
    by (auto simp: buildExecutionFeedbackSignal_def Let_def)
  show "et_effectiveMaxFilesPerIteration (buildExecutionFeedbackSignal run previous stagnation h f) \<le> 2"
    using assms by (simp add: buildExecutionFeedbackSignal_def Let_def tune_fields)
  show "et_cautionLevel (buildExecutionFeedbackSignal run previous stagnation h f) = CautionHigh"
    using assms by (simp add: caution_of_feedback)
qed

text \<open>The first iteration of a run is treated as one after a reroute.  The code asks whether the
  reroute of the previous summary is not null, which also holds when there is no previous summary.
  So without any history the tuning gives a recent reroute as a reason, asks for high caution, the
  next session gets the high reasoning effort whatever the route preference is, and the first
  waypoint has at most two areas, whatever the budget allows.\<close>

theorem first_iteration_counts_as_rerouted:
  assumes "synthesizeAutoDriveContext deps run iteration None = Some cx"
    and "0 \<le> nullish (maxFilesPerIteration (rn_budget run)) 6"
  shows "''recent_reroute'' \<in> set (et_reasons (cx_executionTuning cx))
    \<and> et_cautionLevel (cx_executionTuning cx) = CautionHigh
    \<and> xc_reasoningEffort (deriveAdaptiveExecutionConfig run cx) = Some ''high''
    \<and> length (wp_repoAreas (pp_currentWaypoint (buildNextTaskProposal run cx))) \<le> 2"
proof -
  have rerouted: "recently_rerouted run None" by (simp add: recently_rerouted_def)
  have tuning: "''recent_reroute'' \<in> set (et_reasons (cx_executionTuning cx))"
    "et_effectiveMaxFilesPerIteration (cx_executionTuning cx) \<le> 2"
    "et_cautionLevel (cx_executionTuning cx) = CautionHigh"
    using assms(1) feedback_after_reroute [OF rerouted] by (auto simp: synthesize_eq_Some)
  have "0 \<le> et_effectiveMaxFilesPerIteration (cx_executionTuning cx)"
    using assms by (auto simp: synthesize_eq_Some buildExecutionFeedbackSignal_def Let_def tune_fields untuned_def)
  with assms(2) tuning(2) have "0 \<le> area_limit run cx" "area_limit run cx \<le> 2"
    by (auto simp: area_limit_def)
  with dedupe_areas_length [of "area_limit run cx" "candidate_areas cx"]
  have "int (length (wp_repoAreas (pp_currentWaypoint (buildNextTaskProposal run cx)))) \<le> 2" by simp
  then have "length (wp_repoAreas (pp_currentWaypoint (buildNextTaskProposal run cx))) \<le> 2" by linarith
  moreover have "xc_reasoningEffort (deriveAdaptiveExecutionConfig run cx) = Some ''high''"
    using tuning(3) by (simp add: deriveAdaptiveExecutionConfig_def Let_def)
  ultimately show ?thesis using tuning(1,3) by blast
qed

theorem first_iteration_counts_as_rerouted_witness:
  "\<exists>cx. synthesizeAutoDriveContext example_deps example_run 1 None = Some cx
     \<and> ''recent_reroute'' \<in> set (et_reasons (cx_executionTuning cx)) \<and> rn_latestReroute example_run = None"
proof -
  obtain cx where cx: "synthesizeAutoDriveContext example_deps example_run 1 None = Some cx"
    using example_synthesis by blast
  have "0 \<le> nullish (maxFilesPerIteration (rn_budget example_run)) 6" by (simp add: example_run_def)
  from first_iteration_counts_as_rerouted [OF cx this] cx show ?thesis by (auto simp: example_run_def)
qed

section \<open>The shape of a context\<close>

lemma dedupeNonEmpty_facts:
  "distinct (dedupeNonEmpty vs limit)" "set (dedupeNonEmpty vs limit) \<subseteq> js_trim ` Option.these (set vs) - {[]}"
proof -
  have kept: "set (uniq (filter (\<lambda>v. v \<noteq> []) (map (\<lambda>v. js_trim (nullish v [])) vs)))
      \<subseteq> js_trim ` Option.these (set vs) - {[]}"
  proof
    fix v assume "v \<in> set (uniq (filter (\<lambda>v. v \<noteq> []) (map (\<lambda>v. js_trim (nullish v [])) vs)))"
    then obtain w where w: "w \<in> set vs" "v = js_trim (nullish w [])" "v \<noteq> []" by auto
    from w(2,3) obtain x where "w = Some x" by (cases w) simp_all
    with w have "x \<in> Option.these (set vs)" "v = js_trim x" by (auto simp: in_these_eq)
    with w(3) show "v \<in> js_trim ` Option.these (set vs) - {[]}" by blast
  qed
  have "set (dedupeNonEmpty vs limit) \<subseteq> set (uniq (filter (\<lambda>v. v \<noteq> []) (map (\<lambda>v. js_trim (nullish v [])) vs)))"
    by (cases limit) (simp_all only: dedupeNonEmpty_def Let_def option.case set_slice_to_subset order_refl)
  then show "set (dedupeNonEmpty vs limit) \<subseteq> js_trim ` Option.these (set vs) - {[]}"
    using kept by (rule order_trans)
  show "distinct (dedupeNonEmpty vs limit)"
    by (auto simp: dedupeNonEmpty_def Let_def slice_to_def split: option.splits)
qed

lemma dedupeNonEmpty_trimmed: "v \<in> set (dedupeNonEmpty vs limit) \<Longrightarrow> v \<noteq> [] \<and> js_trim v = v"
  using dedupeNonEmpty_facts(2) by fastforce

lemma dedupeNonEmpty_length: "0 \<le> n \<Longrightarrow> int (length (dedupeNonEmpty vs (Some n))) \<le> n"
  by (simp add: dedupeNonEmpty_def Let_def length_slice_to_le)

lemma dominant_kinds_length: "length (dominant_kinds e) \<le> 4"
  unfolding dominant_kinds_def by (rule length_take_le)

lemma take_removeAll: "set (take k ys) - {x} \<subseteq> set (take k (removeAll x ys))"
proof (induction ys arbitrary: k)
  case (Cons y ys)
  show ?case
  proof (cases k)
    case (Suc j)
    have "set (take j ys) - {x} \<subseteq> set (take (Suc j) (removeAll x ys))"
      using Cons.IH [of j] set_take_subset_set_take [of j "Suc j" "removeAll x ys"] by auto
    with Cons.IH [of j] Suc show ?thesis by auto
  qed simp
qed simp

lemma take_uniq: "set (take n xs) \<subseteq> set (take n (uniq xs))"
proof (induction xs arbitrary: n)
  case (Cons x xs)
  show ?case
  proof (cases n)
    case (Suc k)
    with Cons.IH [of k] take_removeAll [of k "uniq xs" x] show ?thesis by auto
  qed simp
qed simp

text \<open>The files that are relevant start with the matching ones, and the changed files follow as far as there is room.\<close>

lemma relevant_files_contents:
  assumes "hits = take 8 (filter (re_test relevant_file_re) files)"
  shows "set hits \<union> set (take (12 - length hits) changed) \<subseteq> set (relevant_files files changed previous)"
proof -
  let ?all = "hits @ changed @ nullish (map_option su_suggestedNextAreas previous) []"
  have "length hits \<le> 12" using assms by simp
  then have "set hits \<union> set (take (12 - length hits) changed) \<subseteq> set (take 12 ?all)" by auto
  also have "\<dots> \<subseteq> set (relevant_files files changed previous)"
    using take_uniq [of 12 ?all] assms by (auto simp: relevant_files_def split: option.splits)
  finally show ?thesis .
qed

text \<open>C15: the shape of a context, for a budget whose files per iteration are not negative (six when it gives none).
  Its blockers are at most six and the areas of the hypothesis at most the files of the budget, all
  trimmed, non-empty and different.  The relevant files are the first twelve different ones among
  the first eight files of the workspace that match, the changed files and the areas the last
  summary suggests, in this order; so they are different, all matching files among the eight are
  there, and of the changed files the first ones that fit beside them, at least the first four.  The commits are at most twelve;
  the working tree is dirty exactly when files have changed, and the start state agrees with it; what
  is left of each budget is never negative; and there is exactly one direction hypothesis, with at
  most four kinds of evidence.\<close>

theorem context_wellformed:
  assumes "synthesizeAutoDriveContext deps run iteration previous = Some cx"
    and "0 \<le> nullish (maxFilesPerIteration (rn_budget run)) 6"
  shows "let start = cx_startState cx; tree = gc_workingTree (cx_git cx); clean = (\<lambda>v. v \<noteq> [] \<and> js_trim v = v)
    in distinct (cx_blockers cx) \<and> length (cx_blockers cx) \<le> 6 \<and> list_all clean (cx_blockers cx)
     \<and> distinct (rc_relevantFiles (cx_repo cx)) \<and> length (rc_relevantFiles (cx_repo cx)) \<le> 12
     \<and> (let hits = take 8 (filter (re_test relevant_file_re) (nullish (cd_workspaceFiles deps) [])) in
          rc_relevantFiles (cx_repo cx) = take 12 (uniq (hits @ wt_changedPaths tree
            @ nullish (map_option su_suggestedNextAreas previous) []))
          \<and> set hits \<union> set (take (12 - length hits) (wt_changedPaths tree)) \<subseteq> set (rc_relevantFiles (cx_repo cx))
          \<and> set (take 4 (wt_changedPaths tree)) \<subseteq> set (rc_relevantFiles (cx_repo cx)))
     \<and> length (gc_recentCommits (cx_git cx)) \<le> 12
     \<and> (wt_dirty tree \<longleftrightarrow> wt_changedPaths tree \<noteq> [])
     \<and> sr_dirtyWorkingTree (ss_repo start) = wt_dirty tree
     \<and> sr_changedPaths (ss_repo start) = wt_changedPaths tree
     \<and> distinct (cx_completedSubgoals cx) \<and> st_completedSubgoals (ss_task start) = cx_completedSubgoals cx
     \<and> 0 \<le> sy_remainingIterations (ss_system start)
     \<and> 0 \<le> nullish (sy_remainingTokensEstimate (ss_system start)) 0
     \<and> 0 \<le> nullish (sy_remainingDurationMs (ss_system start)) 0
     \<and> (\<exists>h. im_directionHypotheses (cx_intent cx) = [h] \<and> distinct (dh_suggestedAreas h)
         \<and> int (length (dh_suggestedAreas h)) \<le> nullish (maxFilesPerIteration (rn_budget run)) 6
         \<and> list_all clean (dh_suggestedAreas h) \<and> length (dh_dominantSignalKinds h) \<le> 4)"
proof -
  obtain status gitLog files branch remote where cx: "cd_workspaceFiles deps = Some files"
    "cx = context_of deps run iteration previous status gitLog files branch remote"
    using assms(1) by (auto simp: synthesize_eq_Some)
  have limit: "0 \<le> max_files run" using assms(2) by (simp add: max_files_def)
  have blockers: "distinct (cx_blockers cx)" "length (cx_blockers cx) \<le> 6"
    "list_all (\<lambda>v. v \<noteq> [] \<and> js_trim v = v) (cx_blockers cx)"
    using dedupeNonEmpty_length [of 6]
    by (auto simp: cx context_blockers_def dedupeNonEmpty_facts list_all_iff dest: dedupeNonEmpty_trimmed)
  let ?hits = "take 8 (filter (re_test relevant_file_re) files)"
  have changed: "wt_changedPaths (gc_workingTree (cx_git cx)) = gs_files status"
    and files: "rc_relevantFiles (cx_repo cx) = relevant_files files (gs_files status) previous"
    by (simp_all add: cx context_of_def Let_def)
  have four: "set (take 4 (gs_files status)) \<subseteq> set (take (12 - length ?hits) (gs_files status))"
    by (rule set_take_subset_set_take) simp
  have relevant: "distinct (rc_relevantFiles (cx_repo cx))" "length (rc_relevantFiles (cx_repo cx)) \<le> 12"
      "rc_relevantFiles (cx_repo cx) = take 12 (uniq (?hits @ wt_changedPaths (gc_workingTree (cx_git cx))
        @ nullish (map_option su_suggestedNextAreas previous) []))"
      "set ?hits \<union> set (take (12 - length ?hits) (wt_changedPaths (gc_workingTree (cx_git cx))))
        \<subseteq> set (rc_relevantFiles (cx_repo cx))"
      "set (take 4 (wt_changedPaths (gc_workingTree (cx_git cx)))) \<subseteq> set (rc_relevantFiles (cx_repo cx))"
    using four relevant_files_contents [OF refl, of files "gs_files status" previous]
    unfolding changed files by (auto simp: relevant_files_def split: option.splits simp del: set_append)
  have start: "sr_dirtyWorkingTree (ss_repo (cx_startState cx)) = wt_dirty (gc_workingTree (cx_git cx))"
    "sr_changedPaths (ss_repo (cx_startState cx)) = wt_changedPaths (gc_workingTree (cx_git cx))"
    "st_completedSubgoals (ss_task (cx_startState cx)) = cx_completedSubgoals cx"
    "0 \<le> sy_remainingIterations (ss_system (cx_startState cx))"
    "0 \<le> nullish (sy_remainingTokensEstimate (ss_system (cx_startState cx))) 0"
    by (auto simp: cx buildStartState_def Let_def remaining_iterations_of_def remaining_tokens_of_def)
  have duration: "0 \<le> nullish (sy_remainingDurationMs (ss_system (cx_startState cx))) 0"
    by (cases "maxDurationMs (rn_budget run)") (simp_all add: cx buildStartState_def Let_def)
  have areas: "distinct (dh_suggestedAreas (primary_hypothesis e fs))"
      "list_all (\<lambda>v. v \<noteq> [] \<and> js_trim v = v) (dh_suggestedAreas (primary_hypothesis e fs))"
      "length (dh_dominantSignalKinds (primary_hypothesis e fs)) \<le> 4"
      "0 \<le> max_files (eb_run e) \<Longrightarrow> int (length (dh_suggestedAreas (primary_hypothesis e fs))) \<le> max_files (eb_run e)"
    for e fs
    by (auto simp: primary_hypothesis_def dominant_kinds_length Let_def dedupeNonEmpty_facts dedupeNonEmpty_length
        list_all_iff dest: dedupeNonEmpty_trimmed)
  have hypothesis: "im_directionHypotheses (cx_intent cx) = [primary_hypothesis
      (context_evidence deps run previous gitLog files) (relevant_files files (gs_files status) previous)]"
    by (simp add: cx buildIntentModel_def Let_def)
  have subgoals: "distinct (cx_completedSubgoals cx)" by (simp add: cx all_subgoals_def)
  have commits: "length (gc_recentCommits (cx_git cx)) \<le> 12" by (simp add: cx loadCommitEvidence_def)
  show ?thesis
    unfolding Let_def hypothesis
    using blockers start duration subgoals commits areas(1-3) areas(4) [of "context_evidence deps run previous gitLog files"]
      limit relevant
    by (intro conjI exI [of _ "primary_hypothesis (context_evidence deps run previous gitLog files)
          (relevant_files files (gs_files status) previous)"]; simp add: cx(1) max_files_def; simp add: cx(2))
qed

theorem context_wellformed_witness:
  "\<exists>cx. synthesizeAutoDriveContext example_deps example_run 1 None = Some cx
     \<and> distinct (rc_relevantFiles (cx_repo cx)) \<and> cx_runId cx = ''run-1''"
proof -
  obtain cx where cx: "synthesizeAutoDriveContext example_deps example_run 1 None = Some cx"
    using example_synthesis by blast
  have "0 \<le> nullish (maxFilesPerIteration (rn_budget example_run)) 6" by (simp add: example_run_def)
  from context_wellformed [OF cx this] cx show ?thesis
    by (auto simp: Let_def synthesize_eq_Some example_run_def)
qed

section \<open>The selected opportunity\<close>

text \<open>The candidates of a context, by identifier and base score.\<close>

definition base_scores :: "(string \<times> int) list" where
  "base_scores = [(''advance_primary_surface'', 72), (''use_fresh_research'', 60),
     (''triage_external_backlog'', 55), (''align_with_thread_history'', 58), (''follow_recent_commit_momentum'', 62),
     (''break_route_stagnation'', 68), (''prepare_publish_corridor'', 66), (''push_publish_candidate'', 70),
     (''resolve_active_blocker'', 64), (''tighten_validation_loop'', 65), (''stabilize_working_tree'', 52)]"

lemma list_all_only_if [simp]: "list_all P (only_if b xs) \<longleftrightarrow> (b \<longrightarrow> list_all P xs)"
  by (simp add: only_if_def)

lemma draft_bases:
  "list_all (\<lambda>d. (cd_id d, cd_baseScore d) \<in> set base_scores) (si_candidates (scoring_input_of oi))"
  by (simp add: scoring_input_of_def route_drafts_def publish_drafts_def repair_drafts_def draft_def
      base_scores_def Let_def split: option.split list.split)

lemma draft_present:
  "sg_isStagnating (eb_stagnation (oi_evidence oi)) \<Longrightarrow>
     \<exists>d \<in> set (si_candidates (scoring_input_of oi)). cd_id d = ''break_route_stagnation''"
  "failed_validation (eb_previous (oi_evidence oi)) \<Longrightarrow>
     \<exists>d \<in> set (si_candidates (scoring_input_of oi)). cd_id d = ''tighten_validation_loop''"
  "hypothesis_of oi = Some h \<Longrightarrow> dh_suggestedAreas h \<noteq> [] \<Longrightarrow>
     \<exists>d \<in> set (si_candidates (scoring_input_of oi)). cd_id d = ''advance_primary_surface''"
  "et_publishPriority (oi_tuning oi) = PrioPushCandidate \<Longrightarrow>
     \<exists>d \<in> set (si_candidates (scoring_input_of oi)). cd_id d = ''push_publish_candidate''"
  by (auto simp: scoring_input_of_def route_drafts_def publish_drafts_def repair_drafts_def draft_def only_if_def
      Let_def)

lemma sum_reasons [simp]:
  "sum_list (map sc_delta (reason c l n)) = n" "sum_list (map sc_delta (only_if b rs)) =
     (if b then sum_list (map sc_delta rs) else 0)"
  by (simp_all add: reason_def only_if_def)

lemma not_selected:
  assumes order: "\<And>a b. lc a b \<or> lc b a" "\<And>a b c. lc a b \<Longrightarrow> lc b c \<Longrightarrow> lc a c"
    and better: "d \<in> set (si_candidates input)"
      "\<And>d'. d' \<in> set (si_candidates input) \<Longrightarrow> cd_id d' = i \<Longrightarrow>
         oc_score (scoreCandidate d' input) < oc_score (scoreCandidate d input)"
  shows "oq_selectedCandidateId (scoreAutoDriveOpportunityQueue lc input) \<noteq> Some i"
proof
  define ranked where "ranked = js_sort (ranks_before lc) (map (\<lambda>c. scoreCandidate c input) (si_candidates input))"
  assume "oq_selectedCandidateId (scoreAutoDriveOpportunityQueue lc input) = Some i"
  then have "map_option oc_id (case take 5 ranked of [] \<Rightarrow> None | c # _ \<Rightarrow> Some c) = Some i"
    by (simp add: scoreAutoDriveOpportunityQueue_def ranked_def Let_def)
  then obtain c cs where c: "ranked = c # cs" "oc_id c = i" by (cases ranked) auto
  have "sorted_wrt (ranks_before lc) ranked"
    unfolding ranked_def by (rule sorted_js_sort) (use ranks_before_order order in blast)+
  moreover have "scoreCandidate d input \<in> set ranked" using better(1) by (simp add: ranked_def)
  ultimately have "oc_score (scoreCandidate d input) \<le> oc_score c"
    using c(1) by (auto dest: ranks_before_score)
  moreover have "c \<in> set ranked" by (simp add: c(1))
  then obtain d' where "d' \<in> set (si_candidates input)" "c = scoreCandidate d' input"
    by (auto simp: ranked_def)
  ultimately show False using better(2) [of d'] c(2) by (simp add: scoreCandidate_breakdown)
qed

lemma selected_is:
  assumes order: "\<And>a b. lc a b \<or> lc b a" "\<And>a b c. lc a b \<Longrightarrow> lc b c \<Longrightarrow> lc a c"
    and best: "d \<in> set (si_candidates input)"
      "\<And>d'. d' \<in> set (si_candidates input) \<Longrightarrow> cd_id d' \<noteq> cd_id d \<Longrightarrow>
         oc_score (scoreCandidate d' input) < oc_score (scoreCandidate d input)"
  shows "oq_selectedCandidateId (scoreAutoDriveOpportunityQueue lc input) = Some (cd_id d)"
proof -
  define ranked where "ranked = js_sort (ranks_before lc) (map (\<lambda>c. scoreCandidate c input) (si_candidates input))"
  have selected: "oq_selectedCandidateId (scoreAutoDriveOpportunityQueue lc input)
      = map_option oc_id (case take 5 ranked of [] \<Rightarrow> None | c # _ \<Rightarrow> Some c)"
    by (simp add: scoreAutoDriveOpportunityQueue_def ranked_def Let_def)
  have "set ranked \<noteq> {}" using best(1) by (auto simp: ranked_def)
  then obtain c cs where c: "ranked = c # cs" by (cases ranked) auto
  moreover have "c \<in> set ranked" by (simp add: c)
  then obtain d' where d': "d' \<in> set (si_candidates input)" "c = scoreCandidate d' input"
    by (auto simp: ranked_def)
  ultimately have this_selected: "oq_selectedCandidateId (scoreAutoDriveOpportunityQueue lc input) = Some (cd_id d')"
    using selected by (simp add: scoreCandidate_breakdown)
  moreover have "cd_id d' = cd_id d"
  proof (rule ccontr)
    assume other: "cd_id d' \<noteq> cd_id d"
    have "oq_selectedCandidateId (scoreAutoDriveOpportunityQueue lc input) \<noteq> Some (cd_id d')"
    proof (rule not_selected [OF order best(1)])
      fix d'' assume "d'' \<in> set (si_candidates input)" "cd_id d'' = cd_id d'"
      with best(2) [of d''] other show "oc_score (scoreCandidate d'' input) < oc_score (scoreCandidate d input)"
        by simp
    qed
    with this_selected show False by simp
  qed
  ultimately show ?thesis by simp
qed

definition weight_total :: "score_reason list \<times> string list \<Rightarrow> int" where
  "weight_total rs = sum_list (map sc_delta (fst rs))"

lemma score_by_id:
  assumes "d \<in> set (si_candidates (scoring_input_of oi))"
  shows "oc_score (scoreCandidate d input) =
     the (map_of base_scores (cd_id d)) + weight_total (case_reasons (cd_id d) input)"
proof -
  have "distinct (map fst base_scores)" by (simp add: base_scores_def)
  moreover have "(cd_id d, cd_baseScore d) \<in> set base_scores"
    using draft_bases [of oi] assms by (simp add: list_all_iff)
  ultimately have "map_of base_scores (cd_id d) = Some (cd_baseScore d)" by simp
  then show ?thesis by (simp add: scoreCandidate_breakdown weight_total_def)
qed

lemma candidate_ids:
  "d \<in> set (si_candidates (scoring_input_of oi)) \<Longrightarrow> cd_id d \<in> fst ` set base_scores"
  using draft_bases [of oi] by (force simp: list_all_iff)

lemma score_cases:
  "the (map_of base_scores ''advance_primary_surface'') + weight_total (case_reasons ''advance_primary_surface'' input) = 72 + weight_total (advance_reasons input)"
  "the (map_of base_scores ''use_fresh_research'') + weight_total (case_reasons ''use_fresh_research'' input) = 60 + weight_total (research_reasons input)"
  "the (map_of base_scores ''triage_external_backlog'') + weight_total (case_reasons ''triage_external_backlog'' input) = 55 + weight_total (backlog_reasons input)"
  "the (map_of base_scores ''align_with_thread_history'') + weight_total (case_reasons ''align_with_thread_history'' input) = 58 + weight_total (thread_reasons input)"
  "the (map_of base_scores ''follow_recent_commit_momentum'') + weight_total (case_reasons ''follow_recent_commit_momentum'' input) = 62 + weight_total (momentum_reasons input)"
  "the (map_of base_scores ''break_route_stagnation'') + weight_total (case_reasons ''break_route_stagnation'' input) = 68 + weight_total (stagnation_reasons input)"
  "the (map_of base_scores ''prepare_publish_corridor'') + weight_total (case_reasons ''prepare_publish_corridor'' input) = 66 + weight_total (prepare_reasons input)"
  "the (map_of base_scores ''push_publish_candidate'') + weight_total (case_reasons ''push_publish_candidate'' input) = 70 + weight_total (push_reasons input)"
  "the (map_of base_scores ''resolve_active_blocker'') + weight_total (case_reasons ''resolve_active_blocker'' input) = 64 + weight_total (blocker_reasons input)"
  "the (map_of base_scores ''tighten_validation_loop'') + weight_total (case_reasons ''tighten_validation_loop'' input) = 65 + weight_total (validation_reasons input)"
  "the (map_of base_scores ''stabilize_working_tree'') + weight_total (case_reasons ''stabilize_working_tree'' input) = 52 + weight_total (working_tree_reasons input)"
  by (simp_all add: base_scores_def case_reasons_def)

lemma score_by_id_cases:
  assumes "P ''advance_primary_surface''" "P ''use_fresh_research''" "P ''triage_external_backlog''"
    "P ''align_with_thread_history''" "P ''follow_recent_commit_momentum''" "P ''break_route_stagnation''"
    "P ''prepare_publish_corridor''" "P ''push_publish_candidate''" "P ''resolve_active_blocker''"
    "P ''tighten_validation_loop''" "P ''stabilize_working_tree''"
    and "i \<in> fst ` set base_scores"
  shows "P i"
  using assms unfolding base_scores_def by auto

lemma totals_when_pushing:
  assumes "tuning_priority input = PrioPushCandidate" "validation_outcome input = Some True"
  shows "weight_total (advance_reasons input) \<le> 12" "weight_total (research_reasons input) \<le> 22"
    "weight_total (backlog_reasons input) \<le> 20" "weight_total (thread_reasons input) \<le> 16"
    "weight_total (momentum_reasons input) \<le> 18" "weight_total (stagnation_reasons input) \<le> 12"
    "weight_total (prepare_reasons input) \<le> -4" "weight_total (blocker_reasons input) \<le> 20"
    "weight_total (validation_reasons input) \<le> 16" "weight_total (working_tree_reasons input) \<le> 14"
  using assms
  by (simp_all add: weight_total_def advance_reasons_def research_reasons_def backlog_reasons_def
      thread_reasons_def momentum_reasons_def stagnation_reasons_def prepare_reasons_def blocker_reasons_def
      validation_reasons_def working_tree_reasons_def Let_def)

lemma others_when_pushing:
  assumes "tuning_priority input = PrioPushCandidate" "validation_outcome input = Some True"
    and "i \<in> fst ` set base_scores" "i \<noteq> ''push_publish_candidate''"
  shows "the (map_of base_scores i) + weight_total (case_reasons i input) \<le> 84"
proof -
  have "i \<noteq> ''push_publish_candidate'' \<longrightarrow> the (map_of base_scores i) + weight_total (case_reasons i input) \<le> 84"
    by (rule score_by_id_cases [OF _ _ _ _ _ _ _ _ _ _ _ assms(3)];
        use totals_when_pushing [OF assms(1,2)] in \<open>simp add: score_cases\<close>)
  with assms(4) show ?thesis by blast
qed

text \<open>The scores that decide between the candidates.\<close>

lemma advance_totals:
  assumes "primary_confidence input \<noteq> Some High"
  shows "sg_isStagnating (si_routeStagnation input) \<Longrightarrow>
      weight_total (advance_reasons input) + (if tuning_priority input = PrioNone then 0 else 8) \<le> 1"
    and "validation_outcome input = Some False \<Longrightarrow>
      weight_total (advance_reasons input) + (if tuning_priority input = PrioNone then 0 else 8) \<le> 3"
  using assms by (simp_all add: weight_total_def advance_reasons_def)

lemma rival_totals:
  "sg_isStagnating (si_routeStagnation input) \<Longrightarrow>
     weight_total (stagnation_reasons input) \<ge> (if tuning_priority input = PrioPushCandidate then 6 else 24)"
  "validation_outcome input = Some False \<Longrightarrow>
     weight_total (validation_reasons input) \<ge> (if tuning_priority input = PrioPushCandidate then 6 else 22)"
  "tuning_priority input = PrioPushCandidate \<Longrightarrow> validation_outcome input = Some True \<Longrightarrow>
     si_gitBehind input \<le> 0 \<or> si_blockers input = [] \<Longrightarrow> weight_total (push_reasons input) \<ge> 16"
  "validation_outcome input \<noteq> Some False \<Longrightarrow> weight_total (blocker_reasons input) \<le> 20"
  by (auto simp: weight_total_def stagnation_reasons_def validation_reasons_def push_reasons_def blocker_reasons_def Let_def)

lemma advance_undisturbed:
  assumes "primary_confidence input = Some Medium" "si_conflictRisk input \<noteq> High"
    and "\<not> sg_isStagnating (si_routeStagnation input)" "validation_outcome input \<noteq> Some False"
    and "tuning_priority input = PrioNone" "si_directionHypotheses input = h # hs"
    and "2 \<le> length (dh_dominantSignalKinds h)"
  shows "weight_total (advance_reasons input) = 13"
  using assms by (simp add: weight_total_def advance_reasons_def)

text \<open>What the queue of a context is given.\<close>

lemma probable_intent_nonempty: "probable_intent commits boundary rules momentum \<noteq> []"
  by (simp add: probable_intent_def Let_def)

lemma context_queue:
  assumes "synthesizeAutoDriveContext deps run iteration previous = Some cx"
  obtains oi h where
    "cx_opportunities cx = scoreAutoDriveOpportunityQueue (cd_localeLe deps) (scoring_input_of oi)"
    "oi_tuning oi = cx_executionTuning cx" "eb_previous (oi_evidence oi) = previous"
    "eb_stagnation (oi_evidence oi) = buildRouteStagnationSignal (cd_localeLe deps) run previous"
    "eb_collaborators (oi_evidence oi) = cx_collaboratorIntent cx"
    "oi_gitBehind oi = gc_behind (cx_git cx)" "eb_blockers (oi_evidence oi) = cx_blockers cx"
    "im_directionHypotheses (oi_intent oi) = [h]" "im_directionHypotheses (cx_intent cx) = [h]"
    "dh_confidence h \<noteq> High" "previous \<noteq> None \<Longrightarrow> dh_confidence h = Medium"
    "2 \<le> length (dh_dominantSignalKinds h)"
proof -
  obtain status gitLog files branch remote where
    cx: "cx = context_of deps run iteration previous status gitLog files branch remote"
    using assms by (auto simp: synthesize_eq_Some)
  define e where "e = context_evidence deps run previous gitLog files"
  define fs where "fs = relevant_files files (gs_files status) previous"
  define h where "h = primary_hypothesis e fs"
  have e: "eb_previous e = previous" "eb_stagnation e = buildRouteStagnationSignal (cd_localeLe deps) run previous"
    "eb_blockers e = cx_blockers cx" "eb_collaborators e = cx_collaboratorIntent cx"
    by (simp_all add: e_def cx)
  obtain oi where oi: "cx_opportunities cx = scoreAutoDriveOpportunityQueue (cd_localeLe deps) (scoring_input_of oi)"
    "oi_tuning oi = cx_executionTuning cx" "oi_evidence oi = e" "oi_gitBehind oi = gc_behind (cx_git cx)"
    "oi_intent oi = buildIntentModel e fs"
  proof
    let ?oi = "\<lparr>oi_evidence = e, oi_intent = buildIntentModel e fs, oi_tuning = cx_executionTuning cx,
      oi_changedPaths = gs_files status,
      oi_evaluation = readRepoEvaluationProfile deps files (read_package deps files),
      oi_corridor = hy_corridor (read_history deps run files), oi_gitBehind = gc_behind (cx_git cx)\<rparr>"
    show "cx_opportunities cx = scoreAutoDriveOpportunityQueue (cd_localeLe deps) (scoring_input_of ?oi)"
      by (simp add: cx e_def fs_def context_of_def Let_def buildOpportunityQueue_def del: evidence_simps)
  qed simp_all
  have probable: "ci_probableIntent (eb_collaborators e) \<noteq> []"
    by (simp add: e_def context_evidence_def buildCollaboratorIntent_def Let_def probable_intent_nonempty)
  have hypotheses: "im_directionHypotheses (oi_intent oi) = [h]" "im_directionHypotheses (cx_intent cx) = [h]"
    by (simp_all add: oi(5) cx e_def fs_def h_def buildIntentModel_def Let_def)
  have kinds: "2 \<le> length (dh_dominantSignalKinds h)"
    using probable by (simp add: h_def primary_hypothesis_def Let_def dominant_kinds_def only_if_def numeral_eq_Suc)
  show thesis
  proof (rule that [OF oi(1,2)])
    show "dh_confidence h \<noteq> High" "previous \<noteq> None \<Longrightarrow> dh_confidence h = Medium"
      using e(1) by (simp_all add: h_def primary_hypothesis_def Let_def)
  qed (use e oi hypotheses kinds in simp_all)
qed

text \<open>Which opportunity leads the queue of a context.  A stagnating route or a failed validation
  never leads to another advance of the same route; a publish candidate that is to be pushed after
  a passed validation is selected, unless both the remote is ahead and blockers remain; but an
  active blocker on its own never leads: from the second iteration on, advancing the route scores
  one point more than resolving the blocker.\<close>

theorem opportunity_selection:
  assumes order: "\<And>a b. cd_localeLe deps a b \<or> cd_localeLe deps b a"
      "\<And>a b c. cd_localeLe deps a b \<Longrightarrow> cd_localeLe deps b c \<Longrightarrow> cd_localeLe deps a c"
    and synthesis: "synthesizeAutoDriveContext deps run iteration previous = Some cx"
  shows "let selected = oq_selectedCandidateId (cx_opportunities cx);
      stagnating = sg_isStagnating (buildRouteStagnationSignal (cd_localeLe deps) run previous);
      priority = et_publishPriority (cx_executionTuning cx)
    in (stagnating \<or> failed_validation previous \<longrightarrow> selected \<noteq> Some ''advance_primary_surface'')
     \<and> (priority = PrioPushCandidate \<and> validated previous \<and> (gc_behind (cx_git cx) \<le> 0 \<or> cx_blockers cx = [])
         \<longrightarrow> selected = Some ''push_publish_candidate'')
     \<and> (previous \<noteq> None \<and> \<not> failed_validation previous \<and> \<not> stagnating \<and> priority = PrioNone
         \<and> ci_conflictRisk (cx_collaboratorIntent cx) \<noteq> High
         \<and> list_ex (\<lambda>h. dh_suggestedAreas h \<noteq> []) (im_directionHypotheses (cx_intent cx))
         \<longrightarrow> selected \<noteq> Some ''resolve_active_blocker'')"
proof -
  obtain oi h where queue: "cx_opportunities cx = scoreAutoDriveOpportunityQueue (cd_localeLe deps) (scoring_input_of oi)"
      "oi_tuning oi = cx_executionTuning cx" "eb_previous (oi_evidence oi) = previous"
      "eb_stagnation (oi_evidence oi) = buildRouteStagnationSignal (cd_localeLe deps) run previous"
      "eb_collaborators (oi_evidence oi) = cx_collaboratorIntent cx"
      "oi_gitBehind oi = gc_behind (cx_git cx)" "eb_blockers (oi_evidence oi) = cx_blockers cx"
      "im_directionHypotheses (oi_intent oi) = [h]" "im_directionHypotheses (cx_intent cx) = [h]"
      "dh_confidence h \<noteq> High" "previous \<noteq> None \<Longrightarrow> dh_confidence h = Medium"
      "2 \<le> length (dh_dominantSignalKinds h)"
    using context_queue [OF synthesis] by metis
  define input where "input = scoring_input_of oi"
  have input: "primary_confidence input = Some (dh_confidence h)" "si_directionHypotheses input = [h]"
    "si_routeStagnation input = buildRouteStagnationSignal (cd_localeLe deps) run previous"
    "tuning_priority input = et_publishPriority (cx_executionTuning cx)"
    "si_conflictRisk input = ci_conflictRisk (cx_collaboratorIntent cx)"
    "si_gitBehind input = gc_behind (cx_git cx)" "si_blockers input = cx_blockers cx"
    "validation_outcome input = Option.bind (map_option su_validation previous) vr_success"
    using queue by (simp_all add: input_def scoring_input_of_def primary_confidence_def tuning_priority_def
        validation_outcome_def Let_def)
  have outcome: "validation_outcome input = Some False \<longleftrightarrow> failed_validation previous"
    "validation_outcome input = Some True \<longleftrightarrow> validated previous"
    by (cases previous; simp add: input(8) failed_validation_def validated_def)+
  note score = score_by_id [of _ oi input, folded input_def]
  note present = draft_present [of oi, folded input_def]
  have other: "oq_selectedCandidateId (cx_opportunities cx) \<noteq> Some i"
    if "d \<in> set (si_candidates input)" "\<And>d'. d' \<in> set (si_candidates input) \<Longrightarrow> cd_id d' = i \<Longrightarrow>
        oc_score (scoreCandidate d' input) < oc_score (scoreCandidate d input)" for d i
    unfolding queue(1) input_def [symmetric] by (rule not_selected [OF order that])
  have high: "primary_confidence input \<noteq> Some High" using queue(10) by (simp add: input(1))
  have 1: "oq_selectedCandidateId (cx_opportunities cx) \<noteq> Some ''advance_primary_surface''"
    if stagnating: "sg_isStagnating (si_routeStagnation input)"
  proof -
    obtain d where d: "d \<in> set (si_candidates input)" "cd_id d = ''break_route_stagnation''"
      using present(1) stagnating queue(4) input(3) by auto
    show ?thesis
      by (rule other [OF d(1)])
        (use advance_totals(1) [OF high stagnating] rival_totals(1) [OF stagnating] d in
          \<open>auto simp: score score_cases split: if_splits\<close>)
  qed
  have 2: "oq_selectedCandidateId (cx_opportunities cx) \<noteq> Some ''advance_primary_surface''"
    if failed: "failed_validation previous"
  proof -
    obtain d where d: "d \<in> set (si_candidates input)" "cd_id d = ''tighten_validation_loop''"
      using present(2) failed queue(3) by auto
    have wrong: "validation_outcome input = Some False" using failed outcome by simp
    show ?thesis
      by (rule other [OF d(1)])
        (use advance_totals(2) [OF high wrong] rival_totals(2) [OF wrong] d in
          \<open>auto simp: score score_cases split: if_splits\<close>)
  qed
  have 3: "oq_selectedCandidateId (cx_opportunities cx) = Some ''push_publish_candidate''"
    if push: "et_publishPriority (cx_executionTuning cx) = PrioPushCandidate" "validated previous"
      "gc_behind (cx_git cx) \<le> 0 \<or> cx_blockers cx = []"
  proof -
    obtain d where d: "d \<in> set (si_candidates input)" "cd_id d = ''push_publish_candidate''"
      using present(4) push(1) queue(2) by auto
    have pushing: "tuning_priority input = PrioPushCandidate" "validation_outcome input = Some True"
      using push input(4) outcome(2) by simp_all
    have mine: "86 \<le> oc_score (scoreCandidate d input)"
      using rival_totals(3) [OF pushing] push(3) d by (simp add: input(6,7) score score_cases)
    have "oq_selectedCandidateId (scoreAutoDriveOpportunityQueue (cd_localeLe deps) input) = Some (cd_id d)"
    proof (rule selected_is [OF order d(1)])
      fix d' assume "d' \<in> set (si_candidates input)" "cd_id d' \<noteq> cd_id d"
      with others_when_pushing [OF pushing, of "cd_id d'"] candidate_ids [of d' oi] mine d(2)
      show "oc_score (scoreCandidate d' input) < oc_score (scoreCandidate d input)"
        by (simp add: score input_def [symmetric])
    qed
    with d(2) show ?thesis by (simp add: queue(1) input_def)
  qed
  have 4: "oq_selectedCandidateId (cx_opportunities cx) \<noteq> Some ''resolve_active_blocker''"
    if calm: "previous \<noteq> None" "\<not> failed_validation previous"
      "\<not> sg_isStagnating (buildRouteStagnationSignal (cd_localeLe deps) run previous)"
      "et_publishPriority (cx_executionTuning cx) = PrioNone"
      "ci_conflictRisk (cx_collaboratorIntent cx) \<noteq> High" "dh_suggestedAreas h \<noteq> []"
  proof -
    obtain d where d: "d \<in> set (si_candidates input)" "cd_id d = ''advance_primary_surface''"
      using present(3) [of h] calm(6) queue(8) by (auto simp: hypothesis_of_def)
    have "weight_total (advance_reasons input) = 13"
      by (rule advance_undisturbed [of input h "[]"])
        (use calm queue(11,12) outcome(1) in \<open>simp_all add: input(1-5)\<close>)
    moreover have "weight_total (blocker_reasons input) \<le> 20"
      by (rule rival_totals(4)) (use calm outcome(1) in simp)
    ultimately show ?thesis
      by (intro other [OF d(1)]) (use d(2) in \<open>simp add: score score_cases d(1)\<close>)
  qed
  show ?thesis
    using 1 2 3 4 by (simp add: Let_def queue(9) input(3))
qed

theorem opportunity_selection_witness:
  "\<exists>cx. synthesizeAutoDriveContext example_deps example_run 2 (Some (example_summary\<lparr>su_validation :=
        \<lparr>vr_ran = True, vr_commands = [], vr_success = Some False, vr_failures = [], vr_summary = []\<rparr>\<rparr>)) = Some cx
     \<and> oq_selectedCandidateId (cx_opportunities cx) \<noteq> Some ''advance_primary_surface''"
proof -
  let ?previous = "example_summary\<lparr>su_validation :=
    \<lparr>vr_ran = True, vr_commands = [], vr_success = Some False, vr_failures = [], vr_summary = []\<rparr>\<rparr>"
  obtain cx where cx: "synthesizeAutoDriveContext example_deps example_run 2 (Some ?previous) = Some cx"
    using example_synthesis by blast
  have "cd_localeLe example_deps a b \<or> cd_localeLe example_deps b a"
    "cd_localeLe example_deps a b \<Longrightarrow> cd_localeLe example_deps b c \<Longrightarrow> cd_localeLe example_deps a c" for a b c
    by (auto simp: example_deps_def)
  from opportunity_selection [OF this cx] cx show ?thesis by (simp add: Let_def failed_validation_def)
qed

end
