(* ===== verification/AutoDriveLedger.thy ===== *)
theory AutoDriveLedger
  imports AutoDriveController AutoDriveHistory
begin

text \<open>
  The files of a run: \<^verbatim>\<open>facades/runtimeAutoDriveLedger.ts\<close> with the documents that it writes,
  \<^verbatim>\<open>runtimeAutoDriveReport.ts\<close>, \<^verbatim>\<open>runtimeAutoDrivePublishHandoff.ts\<close> and
  \<^verbatim>\<open>runtimeAutoDrivePublishRecoveryArtifact.ts\<close>.  A method of the ledger is the list of the artifacts
  that it writes, in order, as paths with contents.  \<open>JSON.stringify\<close> of a value is a parameter
  (\<open>json_writer\<close>), and so is the ISO form of a date.
\<close>

section \<open>The final report\<close>

abbreviation newline :: string where
  "newline \<equiv> [CHR 0x0A]"

definition join_lines :: "string list \<Rightarrow> string" where
  "join_lines ls = js_join newline ls"

fun show_run_stage :: "run_stage \<Rightarrow> string" where
  "show_run_stage StCreated = ''created''"
| "show_run_stage StPreparingContext = ''preparing_context''"
| "show_run_stage StPlanningNextTask = ''planning_next_task''"
| "show_run_stage StExecutingTask = ''executing_task''"
| "show_run_stage StValidatingResult = ''validating_result''"
| "show_run_stage StDecidingNextStep = ''deciding_next_step''"
| "show_run_stage StPaused = ''paused''"
| "show_run_stage StCompleted = ''completed''"
| "show_run_stage StStopped = ''stopped''"
| "show_run_stage StFailed = ''failed''"

definition operator_actions :: "run_record \<Rightarrow> string list" where
  "operator_actions run = nullish (Option.bind (rn_latestPublishOutcome run) po_operatorActions) []"

definition latest_summary_text :: "iteration_summary option \<Rightarrow> string" where
  "latest_summary_text latest = nullish (map_option su_summaryText latest) ''No summary available.''"

definition stop_code_or_none :: "run_record \<Rightarrow> string" where
  "stop_code_or_none run = nullish (map_option (show_stop_code \<circ> sr_code) (rn_lastStopReason run)) ''none''"

definition renderAutoDriveFinalReport :: "run_record \<Rightarrow> iteration_summary option \<Rightarrow> string" where
  "renderAutoDriveFinalReport run latest =
     (let actions = operator_actions run; navigation = rn_navigation run
      in join_lines
        ([''# AutoDrive Final Report'', [],
          ''Run ID: '' @ rn_runId run,
          ''Status: '' @ show_run_status (rn_status run),
          ''Stage: '' @ show_run_stage (rn_stage run),
          ''Destination: '' @ ds_title (rn_destination run),
          ''Route summary: '' @ nullish (nv_routeSummary navigation) ''none'',
          ''Current waypoint: '' @ nullish (nv_currentWaypointTitle navigation) ''none'',
          ''Iterations: '' @ show_int (rn_iteration run),
          ''Estimated tokens: '' @ show_int (consumedTokensEstimate (rn_totals run)),
          ''Reroutes: '' @ show_int (rerouteCount (rn_totals run)),
          ''Stop reason: '' @ stop_code_or_none run,
          ''Latest publish outcome: '' @ nullish (map_option po_summary (rn_latestPublishOutcome run)) ''none'']
         @ (if actions \<noteq> [] then [[], ''## Publish Recovery Actions'', []] @ map (\<lambda>a. ''- '' @ a) actions else [])
         @ [[], ''## Latest Summary'', [], latest_summary_text latest]))"

section \<open>The publish handoff\<close>

definition summarizeEndState :: "string list \<Rightarrow> string" where
  "summarizeEndState items =
     (if items = [] then ''- (none provided)'' else join_lines (map (\<lambda>i. ''- '' @ i) items))"

definition in_backticks :: "string \<Rightarrow> string" where
  "in_backticks s = ''`'' @ s @ ''`''"

definition summarizeValidation :: "iteration_summary \<Rightarrow> string" where
  "summarizeValidation summary =
     (let v = su_validation summary
      in if \<not> vr_ran v then ''- Validation was not run in the final iteration.''
         else if vr_commands v = [] then ''- Validation commands were not specified.''
         else join_lines (map (\<lambda>c. ''- '' @ in_backticks c) (vr_commands v)))"

definition buildReviewTitle :: "run_record \<Rightarrow> string" where
  "buildReviewTitle run = take 120 (''feat(autodrive): '' @ ds_title (rn_destination run))"

definition commit_message_or_none :: "run_record \<Rightarrow> string" where
  "commit_message_or_none run =
     nullish (Option.bind (rn_latestPublishOutcome run) po_commitMessage) ''(none)''"

definition buildReviewBody :: "run_record \<Rightarrow> iteration_summary \<Rightarrow> string \<Rightarrow> string" where
  "buildReviewBody run summary branchName =
     join_lines
       [''## Summary'', su_summaryText summary, [],
        ''## Destination'', summarizeEndState (ds_desiredEndState (rn_destination run)), [],
        ''## Validation'', summarizeValidation summary, [],
        ''## Publish'', ''- Isolated branch: '' @ in_backticks branchName,
        ''- Commit message: '' @ commit_message_or_none run, [],
        ''## Notes'',
        ''- This branch was created by AutoDrive push-candidate automation.'',
        ''- Use this draft as an operator-reviewed PR handoff, not an auto-merge signal.'']"

definition buildReviewChecklist :: "iteration_summary \<Rightarrow> string list" where
  "buildReviewChecklist summary =
     [''Confirm destination and scope alignment before review.'',
      (if vr_success (su_validation summary) = Some True
       then ''Validation evidence is green; verify no missing edge-case checks.''
       else ''Validation is incomplete or failed; rerun required checks before PR.''),
      ''Manually inspect changed files and blocker notes before merge.'']"

abbreviation squote :: char where "squote \<equiv> CHR 0x27"
abbreviation dquote :: char where "dquote \<equiv> CHR 0x22"

definition shellQuote :: "string \<Rightarrow> string" where
  "shellQuote v =
     [squote] @ js_join [squote, dquote, squote, dquote, squote] (split_on squote v) @ [squote]"

definition buildRunRoot :: "string \<Rightarrow> string" where
  "buildRunRoot i = ''.hugecode/runs/'' @ i"

definition buildOperatorCommands :: "string \<Rightarrow> string \<Rightarrow> string \<Rightarrow> string list" where
  "buildOperatorCommands i branchName reviewTitle =
     (let bodyPath = ''.hugecode/runs/'' @ i @ ''/publish/pr-body.md''
      in [''gh pr create --head '' @ shellQuote branchName @ '' --title '' @ shellQuote reviewTitle
            @ '' --body-file '' @ shellQuote bodyPath,
          ''gh pr view --head '' @ shellQuote branchName @ '' --web''])"

definition buildHandoffMarkdown :: "(int \<Rightarrow> string) \<Rightarrow> publish_handoff \<Rightarrow> string" where
  "buildHandoffMarkdown iso_date handoff =
     join_lines
       ([''# AutoDrive Publish Handoff'', [],
         ''Run ID: '' @ hf_runId handoff,
         ''Branch: '' @ hp_branchName (hf_publish handoff),
         ''Commit message: '' @ nullish (hp_commitMessage (hf_publish handoff)) ''(none)'',
         ''Created at: '' @ iso_date (hf_createdAt handoff), [],
         ''## Review Draft Title'', hr_title (hf_reviewDraft handoff), [],
         ''## Review Draft Body'', hr_body (hf_reviewDraft handoff), [],
         ''## Review Checklist'']
        @ map (\<lambda>i. ''- '' @ i) (hr_checklist (hf_reviewDraft handoff))
        @ [[], ''## Operator Commands'']
        @ map (\<lambda>c. ''- '' @ in_backticks c) (hf_operatorCommands handoff))"

definition handoff_of :: "run_record \<Rightarrow> iteration_summary \<Rightarrow> publish_outcome \<Rightarrow> string \<Rightarrow> publish_handoff" where
  "handoff_of run summary outcome branchName =
     \<lparr>hf_runId = rn_runId run, hf_workspaceId = rn_workspaceId run, hf_threadId = rn_threadId run,
      hf_createdAt = po_createdAt outcome,
      hf_publish = \<lparr>hp_branchName = branchName, hp_commitMessage = po_commitMessage outcome,
        hp_summary = po_summary outcome\<rparr>,
      hf_destination = \<lparr>hd_title = ds_title (rn_destination run),
        hd_desiredEndState = ds_desiredEndState (rn_destination run)\<rparr>,
      hf_validation = \<lparr>hv_commands = vr_commands (su_validation summary),
        hv_success = vr_success (su_validation summary), hv_summary = vr_summary (su_validation summary)\<rparr>,
      hf_evidence = \<lparr>he_summaryText = su_summaryText summary, he_changedFiles = su_changedFiles summary,
        he_blockers = su_blockers summary\<rparr>,
      hf_reviewDraft = \<lparr>hr_title = buildReviewTitle run, hr_body = buildReviewBody run summary branchName,
        hr_checklist = buildReviewChecklist summary\<rparr>,
      hf_operatorCommands = buildOperatorCommands (rn_runId run) branchName (buildReviewTitle run)\<rparr>"

definition buildAutoDrivePublishHandoff ::
    "(int \<Rightarrow> string) \<Rightarrow> run_record \<Rightarrow> iteration_summary option \<Rightarrow> (publish_handoff \<times> string) option" where
  "buildAutoDrivePublishHandoff iso_date run latest =
     (case (latest, rn_latestPublishOutcome run) of
        (Some summary, Some outcome) \<Rightarrow>
          (case po_branchName outcome of
             None \<Rightarrow> None
           | Some branchName \<Rightarrow>
               if po_mode outcome \<noteq> PushCandidate \<or> po_status outcome \<noteq> PubCompleted
                  \<or> \<not> po_pushed outcome \<or> branchName = [] then None
               else let handoff = handoff_of run summary outcome branchName
                 in Some (handoff, buildHandoffMarkdown iso_date handoff))
      | _ \<Rightarrow> None)"

section \<open>The recovery artifact\<close>

text \<open>\<^verbatim>\<open>/`git push origin ([^`]+)`/\<close>\<close>

definition push_command_re :: re where
  "push_command_re =
     Sequ (Lit ''`git push origin '') (Sequ (Group 1 (Plus (NoneOf ''`''))) (Lit ''`''))"

definition pushed_branch :: "string \<Rightarrow> string option" where
  "pushed_branch item =
     (case re_exec push_command_re item of None \<Rightarrow> None | Some (_, _, q) \<Rightarrow> pos_caps q 1)"

definition retry_commands :: "publish_outcome \<Rightarrow> string \<Rightarrow> string list" where
  "retry_commands outcome item =
     (if str_includes item ''`gh auth login`'' then [''gh auth login''] else [])
     @ (case pushed_branch item of None \<Rightarrow> []
        | Some b \<Rightarrow>
            if b = [] then []
            else [''git checkout '' @ nullish (po_branchName outcome) b, ''git push origin '' @ b]
              @ (case po_restoreBranch outcome of None \<Rightarrow> []
                 | Some r \<Rightarrow> if r = [] then [] else [''git checkout '' @ r]))"

definition buildAutoDrivePublishRecoveryArtifact ::
    "run_record \<Rightarrow> iteration_summary option \<Rightarrow> (string \<times> string option) option" where
  "buildAutoDrivePublishRecoveryArtifact run latest =
     (case rn_latestPublishOutcome run of
        None \<Rightarrow> None
      | Some outcome \<Rightarrow>
          let actions = operator_actions run;
              commands = uniq (concat (map (retry_commands outcome) actions))
          in if po_status outcome \<noteq> PubFailed \<or> actions = [] then None
             else Some (join_lines
                 ([''# AutoDrive Publish Recovery'', [],
                   ''Run ID: '' @ rn_runId run,
                   ''Destination: '' @ ds_title (rn_destination run),
                   ''Stop reason: '' @ stop_code_or_none run,
                   ''Publish summary: '' @ po_summary outcome,
                   ''Branch: '' @ nullish (po_branchName outcome) ''(none)'',
                   ''Commit message: '' @ nullish (po_commitMessage outcome) ''(none)'', [],
                   ''## Operator Actions'']
                  @ map (\<lambda>a. ''- '' @ a) actions
                  @ [[], ''## Latest Summary'', latest_summary_text latest]),
               if commands = [] then None
               else Some (join_lines ([''#!/usr/bin/env bash'', ''set -euo pipefail'', []] @ commands))))"

section \<open>The ledger\<close>

record json_writer =
  jw_run :: "run_record \<Rightarrow> string"
  jw_context :: "context_snapshot \<Rightarrow> string"
  jw_proposal :: "route_proposal \<Rightarrow> string"
  jw_summary :: "iteration_summary \<Rightarrow> string"
  jw_reroute :: "reroute_record \<Rightarrow> string"
  jw_handoff :: "publish_handoff \<Rightarrow> string"

type_synonym artifact = "string \<times> string"

definition trim_end :: "string \<Rightarrow> string" where
  "trim_end s = rev (trim_start (rev s))"

definition writePublishHandoffArtifacts ::
    "json_writer \<Rightarrow> string \<Rightarrow> publish_handoff \<Rightarrow> string \<Rightarrow> artifact list" where
  "writePublishHandoffArtifacts json i handoff markdown =
     (let publishRoot = buildRunRoot i @ ''/publish''
      in [(publishRoot @ ''/handoff.json'', jw_handoff json handoff),
          (publishRoot @ ''/handoff.md'', markdown),
          (publishRoot @ ''/pr-body.md'', hr_body (hf_reviewDraft handoff)),
          (publishRoot @ ''/pr-create.sh'',
            join_lines [''#!/usr/bin/env bash'', ''set -euo pipefail'',
              case hf_operatorCommands handoff of [] \<Rightarrow> [] | c # _ \<Rightarrow> c])])"

definition handoff_lines :: "string \<Rightarrow> publish_handoff option \<Rightarrow> string list" where
  "handoff_lines runRoot handoff =
     (case handoff of None \<Rightarrow> []
      | Some h \<Rightarrow>
          [[], ''## Publish Handoff'', [],
           ''- JSON: '' @ in_backticks (runRoot @ ''/publish/handoff.json''),
           ''- Markdown: '' @ in_backticks (runRoot @ ''/publish/handoff.md''),
           ''- Branch: '' @ in_backticks (hp_branchName (hf_publish h))])"

definition recovery_lines :: "string \<Rightarrow> bool \<Rightarrow> string list" where
  "recovery_lines runRoot recovery =
     (if recovery then [[], ''## Publish Recovery'', [],
        ''- Markdown: '' @ in_backticks (runRoot @ ''/publish/recovery.md'')] else [])"

definition writeFinalReport ::
    "json_writer \<Rightarrow> (int \<Rightarrow> string) \<Rightarrow> run_record \<Rightarrow> iteration_summary option \<Rightarrow> string \<Rightarrow> artifact list" where
  "writeFinalReport json iso_date run latest markdown =
     (let runRoot = buildRunRoot (rn_runId run);
          handoff = buildAutoDrivePublishHandoff iso_date run latest;
          recovery = buildAutoDrivePublishRecoveryArtifact run latest;
          finalReport =
            (if handoff = None \<and> recovery = None then markdown
             else join_lines ([trim_end markdown] @ handoff_lines runRoot (map_option fst handoff)
                    @ recovery_lines runRoot (recovery \<noteq> None)))
      in [(runRoot @ ''/final-report.md'', finalReport)]
         @ (case handoff of None \<Rightarrow> []
            | Some (h, text) \<Rightarrow> writePublishHandoffArtifacts json (rn_runId run) h text)
         @ (case recovery of None \<Rightarrow> []
            | Some (text, retryScript) \<Rightarrow>
                [(runRoot @ ''/publish/recovery.md'', text)]
                @ (case retryScript of None \<Rightarrow> []
                   | Some sh \<Rightarrow> if sh = [] then [] else [(runRoot @ ''/publish/retry.sh'', sh)])))"

text \<open>What a call of the controller's ledger writes; other calls write no artifact.\<close>

fun ledger_writes :: "json_writer \<Rightarrow> (int \<Rightarrow> string) \<Rightarrow> ctl_event \<Rightarrow> artifact list" where
  "ledger_writes json iso_date (WriteRun run) = [(buildRunRoot (rn_runId run) @ ''/run.json'', jw_run json run)]"
| "ledger_writes json iso_date (WriteContext context) =
     [(buildRunRoot (cx_runId context) @ ''/context/'' @ show_int (cx_iteration context) @ ''.json'',
       jw_context json context)]"
| "ledger_writes json iso_date (WriteProposal proposal) =
     [(buildRunRoot (pp_runId proposal) @ ''/next-task/'' @ show_int (pp_iteration proposal) @ ''.json'',
       jw_proposal json proposal)]"
| "ledger_writes json iso_date (WriteSummary summary) =
     [(buildRunRoot (su_runId summary) @ ''/summary/'' @ show_int (su_iteration summary) @ ''.json'',
       jw_summary json summary)]"
| "ledger_writes json iso_date (WriteReroute i n reroute) =
     [(buildRunRoot i @ ''/reroute/'' @ show_int n @ ''.json'', jw_reroute json reroute)]"
| "ledger_writes json iso_date (WriteFinalReport run latest) =
     writeFinalReport json iso_date run latest (renderAutoDriveFinalReport run latest)"
| "ledger_writes json iso_date _ = []"

definition store_artifacts :: "artifact list \<Rightarrow> string js_record \<Rightarrow> string js_record" where
  "store_artifacts writes files = foldl (\<lambda>m (path, content). m(path \<mapsto> content)) files writes"

definition readRun :: "(string \<Rightarrow> run_record option) \<Rightarrow> string js_record \<Rightarrow> string \<Rightarrow> run_record option" where
  "readRun parse files i =
     (case files (buildRunRoot i @ ''/run.json'') of None \<Rightarrow> None
      | Some raw \<Rightarrow> if raw = [] then None else parse raw)"

section \<open>The shell's reading of a command\<close>

text \<open>
  A specification of the part of the POSIX shell's word splitting that the commands of a handoff use:
  words separated by spaces, single quotes, and double quotes around characters without a special
  meaning.  \<open>None\<close> when a character with another special meaning is not quoted, or a quote is not
  closed.  The first argument is the word begun so far.
\<close>

definition shell_special :: "char \<Rightarrow> bool" where
  "shell_special c =
     (c \<in> set ''|&;<>()$`*?[]#~=%!{}'' \<or> (of_char c :: nat) \<in> {9, 10, 92})"

function shell_words :: "string option \<Rightarrow> string \<Rightarrow> string list option" where
  "shell_words w [] = Some (case w of None \<Rightarrow> [] | Some u \<Rightarrow> [u])"
| "shell_words w (c # s) =
     (let u = nullish w []; inside = takeWhile (\<lambda>x. x \<noteq> c) s; after = drop (Suc (length inside)) s
      in if c = CHR '' '' then
           map_option (\<lambda>ws. (case w of None \<Rightarrow> ws | Some u \<Rightarrow> u # ws)) (shell_words None s)
         else if c = squote then (if c \<in> set s then shell_words (Some (u @ inside)) after else None)
         else if c = dquote then
           (if c \<in> set s \<and> (\<forall>x \<in> set inside. \<not> shell_special x)
            then shell_words (Some (u @ inside)) after else None)
         else if shell_special c then None
         else shell_words (Some (u @ [c])) s)"
  by pat_completeness auto
termination
  by (relation "measure (\<lambda>(w, s). length s)") auto

declare shell_words.simps(2) [simp del]

lemma split_on_nonempty: "split_on d s \<noteq> []"
  by (induction s) (auto split: list.splits)

lemma join_split_on:
  "js_join sep (split_on d s) = concat (map (\<lambda>c. if c = d then sep else [c]) s)"
proof (induction s)
  case (Cons c s)
  obtain w ws where "split_on d s = w # ws" using split_on_nonempty [of d s] by (cases "split_on d s") auto
  with Cons show ?case by (cases ws) auto
qed simp

text \<open>Inside a quoted string: what is left of the value, then the closing quote.\<close>

lemma shell_words_quoted:
  "shell_words (Some u) ([squote] @ concat (map (\<lambda>c. if c = squote then [squote, dquote, squote, dquote, squote] else [c]) v)
     @ [squote] @ t) = shell_words (Some (u @ v)) t"
proof (induction "length v" arbitrary: u v rule: less_induct)
  case less
  let ?esc = "\<lambda>c. if c = squote then [squote, dquote, squote, dquote, squote] else [c]"
  let ?p = "takeWhile (\<lambda>c. c \<noteq> squote) v" and ?r = "dropWhile (\<lambda>c. c \<noteq> squote) v"
  have plain: "concat (map ?esc ?p) = ?p"
  proof -
    have "map ?esc ?p = map (\<lambda>c. [c]) ?p" by (auto dest: set_takeWhileD)
    then show ?thesis by (simp only: concat_map_singleton map_ident)
  qed
  have v: "v = ?p @ ?r" by simp
  have noquote: "squote \<notin> set ?p" by (auto dest: set_takeWhileD)
  have step: "shell_words (Some u) (squote # ?p @ squote # x) = shell_words (Some (u @ ?p)) x" for x
    using noquote by (simp add: shell_words.simps(2) takeWhile_append1 takeWhile_tail)
  show ?case
  proof (cases ?r)
    case Nil
    then have p: "?p = v" by (simp add: takeWhile_eq_all_conv dropWhile_eq_Nil_conv)
    show ?thesis using step [of t] plain unfolding p by simp
  next
    case (Cons c r')
    then have c: "c = squote" using hd_dropWhile [of "\<lambda>c. c \<noteq> squote" v] by force
    have v': "v = ?p @ squote # r'" using v Cons c by simp
    have dq: "shell_words (Some w) (dquote # squote # dquote # x) = shell_words (Some (w @ [squote])) x" for w x
      by (simp add: shell_words.simps(2) shell_special_def)
    have len: "length r' < length v" by (subst v') simp
    have "[squote] @ concat (map ?esc v) @ [squote] @ t
        = squote # ?p @ squote # dquote # squote # dquote # [squote] @ concat (map ?esc r') @ [squote] @ t"
      by (subst v', subst map_append, subst concat_append, subst plain) simp
    then have "shell_words (Some u) ([squote] @ concat (map ?esc v) @ [squote] @ t)
        = shell_words (Some (u @ ?p @ [squote])) ([squote] @ concat (map ?esc r') @ [squote] @ t)"
      by (simp only: step dq append_assoc)
    also have "\<dots> = shell_words (Some ((u @ ?p @ [squote]) @ r')) t" by (rule less [OF len])
    also have "(u @ ?p @ [squote]) @ r' = u @ v" using v' by (metis append.assoc append_Cons append_Nil)
    finally show ?thesis .
  qed
qed

lemma shell_words_start: "shell_words None (squote # s) = shell_words (Some []) (squote # s)"
  by (simp add: shell_words.simps(2))

lemma shell_words_shellQuote [simp]:
  "shell_words (Some u) (shellQuote v @ t) = shell_words (Some (u @ v)) t"
  "shell_words None (shellQuote v @ t) = shell_words (Some v) t"
  using shell_words_quoted [of u v t] shell_words_quoted [of "[]" v t]
  by (simp_all add: shellQuote_def join_split_on shell_words_start)

definition plain_word :: "string \<Rightarrow> bool" where
  "plain_word p =
     (p \<noteq> [] \<and> list_all (\<lambda>c. \<not> shell_special c \<and> c \<noteq> CHR '' '' \<and> c \<noteq> squote \<and> c \<noteq> dquote) p)"

lemma shell_words_plain:
  assumes "plain_word p"
  shows "shell_words None (p @ t) = shell_words (Some p) t"
proof -
  have "shell_words (Some u) (q @ t) = shell_words (Some (u @ q)) t"
    if "list_all (\<lambda>c. \<not> shell_special c \<and> c \<noteq> CHR '' '' \<and> c \<noteq> squote \<and> c \<noteq> dquote) q" for u q
    using that by (induction q arbitrary: u) (auto simp: shell_words.simps(2) Let_def)
  moreover obtain c q where "p = c # q" using assms by (cases p) (auto simp: plain_word_def)
  ultimately show ?thesis using assms by (simp add: shell_words.simps(2) Let_def plain_word_def)
qed

lemma shell_words_space:
  "shell_words (Some u) (CHR '' '' # s) = map_option (\<lambda>ws. u # ws) (shell_words None s)"
  by (simp add: shell_words.simps(2))

lemma shell_words_literal:
  "plain_word p \<Longrightarrow> shell_words None (p @ CHR '' '' # t) = map_option (\<lambda>ws. p # ws) (shell_words None t)"
  using shell_words_plain shell_words_space by simp

lemma plain_words:
  "plain_word ''gh''" "plain_word ''pr''" "plain_word ''create''" "plain_word ''view''"
  "plain_word ''--head''" "plain_word ''--title''" "plain_word ''--body-file''" "plain_word ''--web''"
  by code_simp+

section \<open>Properties\<close>

text \<open>The commands that a handoff offers the operator are safe to run.  Whatever characters the
  branch, the title of the destination and the identifier of the run contain, the shell reads the
  first command as exactly the nine words that were meant, and the second as the six.\<close>

theorem operator_commands_quoted:
  "map (shell_words None) (buildOperatorCommands i branchName reviewTitle) =
     [Some [''gh'', ''pr'', ''create'', ''--head'', branchName, ''--title'', reviewTitle,
            ''--body-file'', ''.hugecode/runs/'' @ i @ ''/publish/pr-body.md''],
      Some [''gh'', ''pr'', ''view'', ''--head'', branchName, ''--web'']]"
proof -
  have 1: "''gh pr create --head '' @ b @ '' --title '' @ t @ '' --body-file '' @ p
      = ''gh'' @ CHR '' '' # ''pr'' @ CHR '' '' # ''create'' @ CHR '' '' # ''--head'' @ CHR '' '' # b
        @ CHR '' '' # ''--title'' @ CHR '' '' # t @ CHR '' '' # ''--body-file'' @ CHR '' '' # p @ []"
    and 2: "''gh pr view --head '' @ b @ '' --web''
      = ''gh'' @ CHR '' '' # ''pr'' @ CHR '' '' # ''view'' @ CHR '' '' # ''--head'' @ CHR '' '' # b
        @ CHR '' '' # ''--web'' @ []" for b t p
    by simp_all
  show ?thesis
    unfolding buildOperatorCommands_def Let_def list.map 1 2
    by (simp only: shell_words_literal shell_words_plain plain_words shell_words_shellQuote
        shell_words_space shell_words.simps(1) option.map option.case)
qed

text \<open>The retry script, unlike the handoff, does not quote.  When a publish failed and one of the
  operator's actions names the branch to push, the script has the branch to return to as it is:
  a branch name with a semicolon, which git allows, starts another command.\<close>

theorem retry_script_unquoted:
  assumes "rn_latestPublishOutcome run = Some outcome" "po_status outcome = PubFailed"
    and "item \<in> set (operator_actions run)" "pushed_branch item = Some b" "b \<noteq> []"
    and "po_restoreBranch outcome = Some r" "r \<noteq> []"
  shows "\<exists>text lines. buildAutoDrivePublishRecoveryArtifact run latest = Some (text, Some (join_lines lines))
      \<and> ''git checkout '' @ r \<in> set lines"
proof -
  let ?commands = "uniq (concat (map (retry_commands outcome) (operator_actions run)))"
  have "''git checkout '' @ r \<in> set (retry_commands outcome item)"
    using assms(4-) by (simp add: retry_commands_def)
  then have in_commands: "''git checkout '' @ r \<in> set ?commands" using assms(3) by auto
  then have "?commands \<noteq> []" by (metis list.set(1) empty_iff)
  moreover have "operator_actions run \<noteq> []" using assms(3) by auto
  ultimately have "\<exists>text. buildAutoDrivePublishRecoveryArtifact run latest
      = Some (text, Some (join_lines ([''#!/usr/bin/env bash'', ''set -euo pipefail'', []] @ ?commands)))"
    using assms(1,2) by (simp add: buildAutoDrivePublishRecoveryArtifact_def Let_def)
  then show ?thesis using in_commands by (metis UnCI set_append)
qed

definition unsafe_restore :: publish_outcome where
  "unsafe_restore =
     with_operator_actions ''main;reboot''
       (push_outcome PubFailed ''Push candidate failed: authentication'' None (Some ''autodrive/ship'')
         (Some ''main;reboot'') False 0)"

theorem retry_script_unquoted_witness:
  "(\<exists>text lines. buildAutoDrivePublishRecoveryArtifact (example_run\<lparr>rn_latestPublishOutcome := Some unsafe_restore\<rparr>) None
       = Some (text, Some (join_lines lines)) \<and> ''git checkout main;reboot'' \<in> set lines)
   \<and> shell_words None ''git checkout main;reboot'' = None"
proof
  let ?run = "example_run\<lparr>rn_latestPublishOutcome := Some unsafe_restore\<rparr>"
  let ?item = "''Checkout `autodrive/ship` and retry `git push origin autodrive/ship` after credentials are fixed.''"
  have facts: "po_status unsafe_restore = PubFailed" "po_restoreBranch unsafe_restore = Some ''main;reboot''"
    by (simp_all add: unsafe_restore_def with_operator_actions_def push_outcome_def)
  have item: "?item \<in> set (operator_actions ?run)" by code_simp
  have branch: "pushed_branch ?item = Some ''autodrive/ship''" by code_simp
  show "\<exists>text lines. buildAutoDrivePublishRecoveryArtifact ?run None
       = Some (text, Some (join_lines lines)) \<and> ''git checkout main;reboot'' \<in> set lines"
    using retry_script_unquoted [OF _ facts(1) item branch _ facts(2), of None] by simp
  show "shell_words None ''git checkout main;reboot'' = None"
    by (simp add: shell_words.simps(2) shell_special_def)
qed

lemma take_sorted_or:
  assumes "sorted_wrt le xs" "x \<in> set xs"
  shows "x \<in> set (take n xs) \<or> length (take n xs) = n \<and> (\<forall>y \<in> set (take n xs). le y x)"
proof (cases "x \<in> set (take n xs)")
  case False
  with assms(2) have x: "x \<in> set (drop n xs)" by (metis UnE append_take_drop_id set_append)
  then have "n < length xs" by (cases "n < length xs") simp_all
  moreover have "sorted_wrt le (take n xs @ drop n xs)" using assms(1) by simp
  ultimately show ?thesis using x by (auto simp: sorted_wrt_append simp del: append_take_drop_id)
qed simp

lemma in_map_filter:
  "f p = Some x \<Longrightarrow> P p \<Longrightarrow> p \<in> set ps \<Longrightarrow> x \<in> set (List.map_filter f (filter P ps))"
  by (induction ps) (auto split: option.splits)

lemma artifact_loaded:
  assumes "i \<noteq> []" "CHR ''/'' \<notin> set i" "i \<noteq> current"
    and "artifact_path i file \<in> set (ws_files ws)"
    and "ws_read ws (artifact_path i file) = Some content" "parse content = Some x"
  shows "x \<in> set (load_artifacts ws file parse stamp current)
    \<or> length (load_artifacts ws file parse stamp current) = 6
      \<and> (\<forall>y \<in> set (load_artifacts ws file parse stamp current). stamp x \<le> stamp y)"
proof -
  let ?load = "\<lambda>path. if artifact_run_id file path \<in> {None, Some current} then None
      else Option.bind (ws_read ws path) parse"
  let ?found = "List.map_filter ?load (filter (re_test (artifact_pattern file)) (ws_files ws))"
  let ?sorted = "js_sort (\<lambda>l r. stamp r \<le> stamp l) ?found"
  have "?load (artifact_path i file) = Some x"
    using artifact_found(2) [OF assms(1,2)] assms(3,5,6) by simp
  then have "x \<in> set ?found"
    using artifact_found(1) [OF assms(1,2)] assms(4) by (blast intro: in_map_filter)
  moreover have "sorted_wrt (\<lambda>l r. stamp r \<le> stamp l) ?sorted" by (rule sorted_js_sort) auto
  moreover have "load_artifacts ws file parse stamp current = take 6 ?sorted"
    by (simp add: load_artifacts_def Let_def)
  ultimately show ?thesis using take_sorted_or [of _ ?sorted x 6] by simp
qed

text \<open>A published run is found by the next one.  After the final report of a run whose candidate was
  pushed, the handoff that the ledger wrote is among the handoffs that a later context loads, or
  six handoffs that are not older are: provided that \<open>JSON.parse\<close> gives back the handoff that
  \<open>JSON.stringify\<close> wrote, that the workspace lists the file, and that the identifier of the run has no slash.\<close>

theorem pushed_run_found:
  assumes inverse: "ws_handoff ws (jw_handoff json (handoff_of run summary outcome b))
      = Some (handoff_of run summary outcome b)"
    and stored: "ws_read ws = store_artifacts (ledger_writes json iso_date (WriteFinalReport run (Some summary))) before"
    and listed: "\<And>path. ws_read ws path \<noteq> None \<Longrightarrow> path \<in> set (ws_files ws)"
    and named: "rn_runId run \<noteq> []" "CHR ''/'' \<notin> set (rn_runId run)" "rn_runId run \<noteq> current"
    and pushed: "rn_latestPublishOutcome run = Some outcome" "candidate_pushed (Some outcome)"
      "po_branchName outcome = Some b" "b \<noteq> []"
  shows "let loaded = loadHistoricalAutoDrivePublishHandoffs ws current; h = handoff_of run summary outcome b
    in hf_runId h = rn_runId run \<and> handoff_title h = ds_title (rn_destination run)
       \<and> (h \<in> set loaded \<or> length loaded = 6 \<and> (\<forall>g \<in> set loaded. hf_createdAt h \<le> hf_createdAt g))"
proof -
  let ?i = "rn_runId run"
  define h where "h = handoff_of run summary outcome b"
  note inverse = inverse [folded h_def]
  have path: "artifact_path ?i ''publish/handoff.json'' = buildRunRoot ?i @ ''/publish/handoff.json''"
    by (simp add: artifact_path_def buildRunRoot_def)
  have none: "buildAutoDrivePublishRecoveryArtifact run (Some summary) = None"
    using pushed by (simp add: buildAutoDrivePublishRecoveryArtifact_def candidate_pushed_def Let_def)
  have handoff: "\<exists>text. buildAutoDrivePublishHandoff iso_date run (Some summary) = Some (h, text)"
    using pushed by (simp add: h_def buildAutoDrivePublishHandoff_def candidate_pushed_def Let_def)
  then have read: "ws_read ws (artifact_path ?i ''publish/handoff.json'') = Some (jw_handoff json h)"
    unfolding stored path
    by (auto simp: none writeFinalReport_def writePublishHandoffArtifacts_def store_artifacts_def Let_def)
  have "artifact_path ?i ''publish/handoff.json'' \<in> set (ws_files ws)" using listed read by simp
  from artifact_loaded [where stamp = hf_createdAt and parse = "ws_handoff ws", OF named this read inverse]
  show ?thesis
    unfolding h_def [symmetric]
    by (simp add: loadHistoricalAutoDrivePublishHandoffs_def Let_def h_def handoff_of_def handoff_title_def)
qed

definition pushed_outcome :: publish_outcome where
  "pushed_outcome = push_outcome PubCompleted ''Pushed.'' None (Some ''autodrive/ship'') None True 7"

definition pushed_example :: run_record where
  "pushed_example = example_run\<lparr>rn_latestPublishOutcome := Some pushed_outcome\<rparr>"

definition pushed_handoff :: publish_handoff where
  "pushed_handoff = handoff_of pushed_example example_summary pushed_outcome ''autodrive/ship''"

definition tag_writer :: json_writer where
  "tag_writer =
     \<lparr>jw_run = (\<lambda>_. ''run''), jw_context = (\<lambda>_. ''context''), jw_proposal = (\<lambda>_. ''proposal''),
      jw_summary = (\<lambda>_. ''summary''), jw_reroute = (\<lambda>_. ''reroute''), jw_handoff = (\<lambda>_. ''handoff'')\<rparr>"

definition written_workspace :: workspace where
  "written_workspace =
     (let writes = ledger_writes tag_writer show_int (WriteFinalReport pushed_example (Some example_summary))
      in \<lparr>ws_files = map fst writes, ws_read = store_artifacts writes Map.empty, ws_run = (\<lambda>_. None),
          ws_handoff = (\<lambda>content. if content = ''handoff'' then Some pushed_handoff else None)\<rparr>)"

lemma store_artifacts_listed:
  "store_artifacts writes files path \<noteq> None \<Longrightarrow> path \<in> fst ` set writes \<or> files path \<noteq> None"
proof (induction writes arbitrary: files)
  case (Cons w writes)
  obtain p content where w: "w = (p, content)" by (cases w)
  have "store_artifacts writes (files(p \<mapsto> content)) path \<noteq> None"
    using Cons.prems by (simp add: store_artifacts_def w)
  from Cons.IH [OF this] show ?case by (auto simp: w split: if_splits)
qed (simp add: store_artifacts_def)

lemma length_map_filter_le: "length (List.map_filter f ps) \<le> length ps"
  by (induction ps) (auto split: option.splits)

lemma length_load_artifacts: "length (load_artifacts w file parse stamp i) \<le> length (ws_files w)"
proof -
  have "length (take n (js_sort le (List.map_filter f (filter P ps)))) \<le> length ps"
    for n le f P and ps :: "string list"
    using order_trans [OF length_map_filter_le length_filter_le, of f P ps] by (simp add: min.coboundedI1)
  then show ?thesis unfolding load_artifacts_def Let_def .
qed

lemma few_writes:
  "length (ledger_writes tag_writer show_int (WriteFinalReport pushed_example (Some example_summary))) < 6"
  by (simp add: writeFinalReport_def writePublishHandoffArtifacts_def buildAutoDrivePublishHandoff_def
      buildAutoDrivePublishRecoveryArtifact_def pushed_example_def pushed_outcome_def push_outcome_def Let_def)

theorem pushed_run_found_witness:
  "(\<exists>h. h \<in> set (loadHistoricalAutoDrivePublishHandoffs written_workspace ''run-2'')
     \<and> hf_runId h = ''run-1'')"
proof -
  let ?writes = "ledger_writes tag_writer show_int (WriteFinalReport pushed_example (Some example_summary))"
  let ?loaded = "loadHistoricalAutoDrivePublishHandoffs written_workspace ''run-2''"
  have parsed: "ws_handoff written_workspace (jw_handoff tag_writer pushed_handoff) = Some pushed_handoff"
    by (simp add: written_workspace_def tag_writer_def Let_def)
  have read: "ws_read written_workspace = store_artifacts ?writes Map.empty"
    by (simp add: written_workspace_def Let_def)
  have listed: "path \<in> set (ws_files written_workspace)" if "ws_read written_workspace path \<noteq> None" for path
    using store_artifacts_listed [of ?writes Map.empty path] that unfolding read
    by (simp add: written_workspace_def Let_def)
  have outcome: "rn_latestPublishOutcome pushed_example = Some pushed_outcome" "candidate_pushed (Some pushed_outcome)"
    "po_branchName pushed_outcome = Some ''autodrive/ship''" "''autodrive/ship'' \<noteq> []"
    and named: "rn_runId pushed_example \<noteq> []" "CHR ''/'' \<notin> set (rn_runId pushed_example)"
      "rn_runId pushed_example \<noteq> ''run-2''"
    by (simp_all add: pushed_example_def pushed_outcome_def push_outcome_def candidate_pushed_def example_run_def)
  have found: "pushed_handoff \<in> set ?loaded \<or> length ?loaded = 6"
    using pushed_run_found [OF parsed [unfolded pushed_handoff_def] read listed named outcome]
    unfolding pushed_handoff_def [symmetric] Let_def by blast
  have "hf_runId pushed_handoff = ''run-1''"
    by (simp add: pushed_handoff_def handoff_of_def pushed_example_def example_run_def)
  moreover have "length ?loaded \<le> length ?writes"
    using length_load_artifacts [of written_workspace]
    by (simp add: loadHistoricalAutoDrivePublishHandoffs_def written_workspace_def Let_def)
  then have "length ?loaded < 6" by (rule order_le_less_trans) (rule few_writes)
  ultimately show ?thesis using found by auto
qed

end
