(* ===== verification/SubAgentBatchPlanner.thy ===== *)
theory SubAgentBatchPlanner
  imports RuntimeToolPolicy
begin

text \<open>
  The plan of a batch of sub-agent tasks, \<^verbatim>\<open>src/apps/code/src/services/webMcpBridgeRuntimeSubAgentBatchPlanner.ts\<close>:
  tasks with dependencies are sorted into waves, each of which only depends on the waves before it.
  A thrown error is \<open>Inl\<close> of its message.
\<close>

section \<open>Tasks and plans\<close>

record batch_task =
  bt_index :: int
  bt_taskKey :: string
  bt_dependsOn :: "string list"
  bt_requiresApproval :: bool

record batch_plan =
  bl_executionMode :: execution_mode
  bl_maxParallel :: int
  bl_order :: "string list"
  bl_waves :: "string list list"
  bl_policy :: batch_policy

definition resolveMaxParallel :: "execution_mode \<Rightarrow> int option \<Rightarrow> int" where
  "resolveMaxParallel mode n =
     (if mode = Sequential then 1 else case n of None \<Rightarrow> 6 | Some v \<Rightarrow> clampMaxParallel v)"

section \<open>The table of tasks\<close>

fun duplicate_key :: "string list \<Rightarrow> batch_task list \<Rightarrow> string option" where
  "duplicate_key seen [] = None"
| "duplicate_key seen (t # ts) =
     (if bt_taskKey t \<in> set seen then Some (bt_taskKey t) else duplicate_key (bt_taskKey t # seen) ts)"

definition keys_of :: "batch_task list \<Rightarrow> string list" where
  "keys_of tasks = map bt_taskKey tasks"

text \<open>\<open>taskByKey\<close>: every task with each dependency once.\<close>

definition task_table :: "batch_task list \<Rightarrow> batch_task list" where
  "task_table tasks = map (\<lambda>t. t\<lparr>bt_dependsOn := uniq (bt_dependsOn t)\<rparr>) tasks"

definition missing_dependency :: "batch_task list \<Rightarrow> (string \<times> string) option" where
  "missing_dependency table =
     find (\<lambda>(k, d). d \<notin> set (keys_of table))
       (concat (map (\<lambda>t. map (Pair (bt_taskKey t)) (bt_dependsOn t)) table))"

definition dependents :: "batch_task list \<Rightarrow> string \<Rightarrow> string list" where
  "dependents table k = keys_of (filter (\<lambda>t. k \<in> set (bt_dependsOn t)) table)"

definition initial_indegrees :: "batch_task list \<Rightarrow> int js_record" where
  "initial_indegrees table = map_of (map (\<lambda>t. (bt_taskKey t, int (length (bt_dependsOn t)))) table)"

definition index_of :: "batch_task list \<Rightarrow> string \<Rightarrow> int" where
  "index_of table k = nullish (map_option bt_index (find (\<lambda>t. bt_taskKey t = k) table)) 0"

section \<open>Waves\<close>

definition indegree :: "int js_record \<Rightarrow> string \<Rightarrow> int" where
  "indegree m k = nullish (m k) 0"

definition release :: "int js_record \<times> string list \<Rightarrow> string \<Rightarrow> int js_record \<times> string list" where
  "release = (\<lambda>(m, fresh) d.
     let n = indegree m d - 1 in (m(d \<mapsto> n), if n = 0 then fresh @ [d] else fresh))"

definition visit ::
    "batch_task list \<Rightarrow> string list \<times> int js_record \<times> string list \<Rightarrow> string
     \<Rightarrow> string list \<times> int js_record \<times> string list" where
  "visit table = (\<lambda>(order, m, fresh) k.
     let (m', fresh') = foldl release (m, fresh) (dependents table k) in (order @ [k], m', fresh'))"

definition sort_by_index :: "batch_task list \<Rightarrow> string list \<Rightarrow> string list" where
  "sort_by_index table ks = js_sort (\<lambda>l r. index_of table l \<le> index_of table r) ks"

text \<open>The termination of the loop: a key becomes ready when its count of open dependencies goes from one
  to zero, which happens once.\<close>

definition open_keys :: "batch_task list \<Rightarrow> int js_record \<Rightarrow> string set" where
  "open_keys table m = {k \<in> set (keys_of table). 0 < indegree m k}"

lemma release_step:
  "0 < indegree (fst (release (m, fresh) d)) k \<Longrightarrow> 0 < indegree m k"
  "k \<in> set (snd (release (m, fresh) d)) \<Longrightarrow>
     k \<in> set fresh \<or> k = d \<and> 0 < indegree m k \<and> \<not> 0 < indegree (fst (release (m, fresh) d)) k"
  by (auto simp: release_def indegree_def Let_def split: if_splits)

lemma release_all_facts:
  "(0 < indegree (fst (foldl release (m, fresh) ds)) k \<longrightarrow> 0 < indegree m k)
   \<and> (k \<in> set (snd (foldl release (m, fresh) ds)) \<longrightarrow>
     k \<in> set fresh \<or> k \<in> set ds \<and> 0 < indegree m k \<and> \<not> 0 < indegree (fst (foldl release (m, fresh) ds)) k)"
proof (induction ds arbitrary: m fresh)
  case (Cons d ds)
  obtain m' fresh' where step: "release (m, fresh) d = (m', fresh')" by (cases "release (m, fresh) d")
  have "0 < indegree m' k \<Longrightarrow> 0 < indegree m k"
    "k \<in> set fresh' \<Longrightarrow> k \<in> set fresh \<or> k = d \<and> 0 < indegree m k \<and> \<not> 0 < indegree m' k"
    using release_step [where m = m and fresh = fresh and d = d and k = k] by (simp_all add: step)
  with Cons.IH [of m' fresh'] show ?case by (auto simp: step)
qed simp

lemma visit_all_facts:
  "foldl (visit table) (order, m, fresh) ks = (order', m', fresh') \<longrightarrow>
     order' = order @ ks \<and> (\<forall>k. 0 < indegree m' k \<longrightarrow> 0 < indegree m k)
     \<and> (\<forall>k \<in> set fresh'. k \<in> set fresh \<or> k \<in> open_keys table m \<and> k \<notin> open_keys table m')"
proof (induction ks arbitrary: order m fresh)
  case (Cons x ks)
  obtain m1 fresh1 where step: "foldl release (m, fresh) (dependents table x) = (m1, fresh1)" by fastforce
  have one: "0 < indegree m1 k \<longrightarrow> 0 < indegree m k"
      "k \<in> set fresh1 \<longrightarrow> k \<in> set fresh \<or> k \<in> set (dependents table x) \<and> 0 < indegree m k \<and> \<not> 0 < indegree m1 k" for k
    using release_all_facts [where m = m and fresh = fresh and ds = "dependents table x" and k = k] by (simp_all add: step)
  have deps: "set (dependents table x) \<subseteq> set (keys_of table)" by (auto simp: dependents_def keys_of_def)
  show ?case
  proof
    assume "foldl (visit table) (order, m, fresh) (x # ks) = (order', m', fresh')"
    then have "foldl (visit table) (order @ [x], m1, fresh1) ks = (order', m', fresh')"
      by (simp add: visit_def step)
    with Cons.IH [of "order @ [x]" m1 fresh1] have rest: "order' = order @ x # ks"
      "\<forall>k. 0 < indegree m' k \<longrightarrow> 0 < indegree m1 k"
      "\<forall>k \<in> set fresh'. k \<in> set fresh1 \<or> k \<in> open_keys table m1 \<and> k \<notin> open_keys table m'" by simp_all
    have "k \<in> set fresh \<or> k \<in> open_keys table m \<and> k \<notin> open_keys table m'" if "k \<in> set fresh'" for k
      using rest(2,3) one [of k] deps that by (auto simp: open_keys_def)
    with rest(1,2) one(1) show "order' = order @ x # ks \<and> (\<forall>k. 0 < indegree m' k \<longrightarrow> 0 < indegree m k)
        \<and> (\<forall>k \<in> set fresh'. k \<in> set fresh \<or> k \<in> open_keys table m \<and> k \<notin> open_keys table m')" by blast
  qed
qed simp

lemma visit_all:
  assumes "foldl (visit table) (order, m, fresh) ks = (order', m', fresh')"
  shows "order' = order @ ks" "0 < indegree m' k \<Longrightarrow> 0 < indegree m k"
    "k \<in> set fresh' \<Longrightarrow> k \<in> set fresh \<or> k \<in> open_keys table m \<and> k \<notin> open_keys table m'"
  using assms visit_all_facts [of table order m fresh ks order' m' fresh'] by blast+

function batch_loop ::
    "batch_task list \<Rightarrow> string list \<Rightarrow> int js_record \<Rightarrow> string list \<Rightarrow> string list list
     \<Rightarrow> string list \<times> string list list" where
  "batch_loop table ready m order waves =
     (if ready = [] then (order, waves)
      else let (order', m', fresh) = foldl (visit table) (order, m, []) ready
           in batch_loop table (sort_by_index table (uniq fresh)) m' order' (waves @ [ready]))"
  by auto

termination
proof (relation "measure (\<lambda>(table, ready, m, _, _). 2 * card (open_keys table m) + (if ready = [] then 0 else 1))")
  fix table ready m order waves x order' y m' fresh
  assume ready: "ready \<noteq> []" and x: "x = foldl (visit table) (order, m, []) ready" "(order', y) = x" "(m', fresh) = y"
  then have all: "foldl (visit table) (order, m, []) ready = (order', m', fresh)" by simp
  have sub: "open_keys table m' \<subseteq> open_keys table m"
    using visit_all(2) [OF all] by (auto simp: open_keys_def)
  have fin: "finite (open_keys table m)" by (simp add: open_keys_def)
  have "card (open_keys table m') < card (open_keys table m)" if "fresh \<noteq> []"
  proof -
    from that obtain k where "k \<in> set fresh" by (cases fresh) auto
    with visit_all(3) [OF all, of k] have "k \<in> open_keys table m" "k \<notin> open_keys table m'" by auto
    with sub fin show ?thesis by (intro psubset_card_mono) auto
  qed
  moreover have "card (open_keys table m') \<le> card (open_keys table m)" using sub fin by (rule card_mono [rotated])
  ultimately show "((table, sort_by_index table (uniq fresh), m', order', waves @ [ready]), table, ready, m, order, waves)
      \<in> measure (\<lambda>(table, ready, m, _, _). 2 * card (open_keys table m) + (if ready = [] then 0 else 1))"
    using ready by (cases "fresh = []") (auto simp: sort_by_index_def js_sort_def)
qed simp

declare batch_loop.simps [simp del]

definition planRuntimeSubAgentBatch ::
    "execution_mode \<Rightarrow> int option \<Rightarrow> string option \<Rightarrow> string option \<Rightarrow> batch_task list \<Rightarrow> string + batch_plan" where
  "planRuntimeSubAgentBatch mode requestedMax provider modelId tasks =
     (let policy = resolveRuntimeSubAgentBatchPolicy provider modelId mode requestedMax
            (list_ex bt_requiresApproval tasks);
          effective = bp_effectiveExecutionMode policy;
          table = task_table tasks
      in case duplicate_key [] tasks of
           Some k \<Rightarrow> Inl (''Duplicate taskKey: '' @ k @ ''. taskKey values must be unique.'')
         | None \<Rightarrow>
             (case missing_dependency table of
                Some (k, d) \<Rightarrow> Inl (''Task '' @ k @ '' depends on missing taskKey '' @ d @ ''.'')
              | None \<Rightarrow>
                  let m = initial_indegrees table;
                      ready = keys_of (js_sort (\<lambda>l r. bt_index l \<le> bt_index r)
                        (filter (\<lambda>t. indegree m (bt_taskKey t) = 0) table));
                      (order, waves) = batch_loop table ready m [] []
                  in if length order \<noteq> length tasks
                     then Inl (''Dependency cycle detected across task keys: ''
                       @ js_join '', '' (filter (\<lambda>k. k \<notin> set order) (keys_of tasks)) @ ''.'')
                     else Inr \<lparr>bl_executionMode = effective,
                       bl_maxParallel = resolveMaxParallel effective (Some (bp_effectiveMaxParallel policy)),
                       bl_order = order, bl_waves = waves, bl_policy = policy\<rparr>))"

section \<open>Specification\<close>

definition deps_of :: "batch_task list \<Rightarrow> string \<Rightarrow> string set" where
  "deps_of table k = (\<Union>t \<in> {t \<in> set table. bt_taskKey t = k}. set (bt_dependsOn t))"

text \<open>The tasks that may run when those of a set are done.\<close>

definition enabled :: "batch_task list \<Rightarrow> string set \<Rightarrow> string set" where
  "enabled table past = {k \<in> set (keys_of table). deps_of table k \<subseteq> past}"

definition good_table :: "batch_task list \<Rightarrow> bool" where
  "good_table table \<longleftrightarrow> distinct (keys_of table)
     \<and> (\<forall>t \<in> set table. distinct (bt_dependsOn t) \<and> set (bt_dependsOn t) \<subseteq> set (keys_of table))"

definition counts_open :: "batch_task list \<Rightarrow> int js_record \<Rightarrow> string set \<Rightarrow> bool" where
  "counts_open table m past \<longleftrightarrow> (\<forall>k \<in> set (keys_of table). indegree m k = int (card (deps_of table k - past)))"

lemma finite_deps [simp]: "finite (deps_of table k)"
  by (simp add: deps_of_def)

lemma deps_of_task:
  assumes "distinct (keys_of table)" "t \<in> set table"
  shows "deps_of table (bt_taskKey t) = set (bt_dependsOn t)"
proof -
  have "t' = t" if "t' \<in> set table" "bt_taskKey t' = bt_taskKey t" for t'
    using assms that by (auto simp: keys_of_def distinct_map inj_on_def)
  with assms(2) have "{t' \<in> set table. bt_taskKey t' = bt_taskKey t} = {t}" by auto
  then show ?thesis by (simp add: deps_of_def)
qed

lemma set_dependents: "set (dependents table w) = {k \<in> set (keys_of table). w \<in> deps_of table k}"
  unfolding dependents_def keys_of_def deps_of_def by (auto simp: image_iff) metis+

lemma distinct_dependents: "distinct (keys_of table) \<Longrightarrow> distinct (dependents table w)"
  by (simp add: dependents_def keys_of_def distinct_map_filter)

lemma enabled_mono: "A \<subseteq> B \<Longrightarrow> enabled table A \<subseteq> enabled table B"
  by (auto simp: enabled_def)

section \<open>One wave\<close>

lemma release_distinct:
  "distinct ds \<Longrightarrow> foldl release (m, fresh) ds =
     ((\<lambda>k. if k \<in> set ds then Some (indegree m k - 1) else m k), fresh @ filter (\<lambda>d. indegree m d = 1) ds)"
proof (induction ds arbitrary: m fresh)
  case (Cons d ds)
  define m1 where "m1 = m(d \<mapsto> indegree m d - 1)"
  define f1 where "f1 = (if indegree m d = 1 then fresh @ [d] else fresh)"
  have first: "foldl release (m, fresh) (d # ds) = foldl release (m1, f1) ds"
    by (simp add: release_def Let_def m1_def f1_def)
  have kept: "filter (\<lambda>x. indegree m1 x = 1) ds = filter (\<lambda>x. indegree m x = 1) ds"
    using Cons.prems by (intro filter_cong) (auto simp: indegree_def m1_def)
  have "(\<lambda>k. if k \<in> set ds then Some (indegree m1 k - 1) else m1 k) =
      (\<lambda>k. if k \<in> set (d # ds) then Some (indegree m k - 1) else m k)"
    using Cons.prems by (auto simp: indegree_def fun_eq_iff m1_def)
  then show ?case
    unfolding first using Cons.IH [of m1 f1] Cons.prems by (simp add: kept) (simp add: f1_def)
qed simp

lemma visit_counts:
  assumes "good_table table" "counts_open table m past" "w \<notin> past"
    and "visit table (order, m, fresh) w = (order', m', fresh')"
  shows "counts_open table m' (insert w past)"
    and "\<exists>ks. fresh' = fresh @ ks \<and> distinct ks \<and> set ks = enabled table (insert w past) - enabled table past"
proof -
  have dist: "distinct (dependents table w)" using assms(1) by (simp add: good_table_def distinct_dependents)
  have result: "m' = (\<lambda>k. if k \<in> set (dependents table w) then Some (indegree m k - 1) else m k)"
    "fresh' = fresh @ filter (\<lambda>d. indegree m d = 1) (dependents table w)"
    using assms(4) by (simp_all add: visit_def release_distinct [OF dist])
  have count: "indegree m k = int (card (deps_of table k - past))" if "k \<in> set (keys_of table)" for k
    using assms(2) that by (simp add: counts_open_def)
  have less: "int (card (deps_of table k - insert w past)) = int (card (deps_of table k - past)) - 1"
    if "w \<in> deps_of table k" for k
  proof -
    have "card (deps_of table k - past) = Suc (card (deps_of table k - past - {w}))"
      using that assms(3) by (intro card.remove) simp_all
    moreover have "deps_of table k - past - {w} = deps_of table k - insert w past" by auto
    ultimately have "card (deps_of table k - past) = Suc (card (deps_of table k - insert w past))" by simp
    then show ?thesis by simp
  qed
  have same: "deps_of table k - insert w past = deps_of table k - past" if "w \<notin> deps_of table k" for k
    using that by auto
  show "counts_open table m' (insert w past)"
    unfolding counts_open_def
  proof
    fix k assume k: "k \<in> set (keys_of table)"
    show "indegree m' k = int (card (deps_of table k - insert w past))"
      using count [OF k] less [of k] same [of k] k
      by (auto simp: result indegree_def set_dependents)
  qed
  have "(indegree m k = 1 \<and> w \<in> deps_of table k) \<longleftrightarrow>
      deps_of table k \<subseteq> insert w past \<and> \<not> deps_of table k \<subseteq> past" if "k \<in> set (keys_of table)" for k
  proof
    assume *: "indegree m k = 1 \<and> w \<in> deps_of table k"
    then have "card (deps_of table k - insert w past) = 0" using less [of k] count [OF that] by simp
    then have "deps_of table k - insert w past = {}" by (simp only: card_0_eq finite_Diff finite_deps)
    then show "deps_of table k \<subseteq> insert w past \<and> \<not> deps_of table k \<subseteq> past" using * assms(3) by auto
  next
    assume *: "deps_of table k \<subseteq> insert w past \<and> \<not> deps_of table k \<subseteq> past"
    then have "deps_of table k - past = {w}" using assms(3) by auto
    then show "indegree m k = 1 \<and> w \<in> deps_of table k" using count [OF that] by auto
  qed
  then have "set (filter (\<lambda>d. indegree m d = 1) (dependents table w))
      = enabled table (insert w past) - enabled table past"
    by (auto simp: set_dependents enabled_def)
  with dist show "\<exists>ks. fresh' = fresh @ ks \<and> distinct ks \<and> set ks = enabled table (insert w past) - enabled table past"
    by (intro exI [of _ "filter (\<lambda>d. indegree m d = 1) (dependents table w)"]) (simp add: result)
qed

lemma wave_counts:
  assumes "good_table table"
  shows "counts_open table m past \<Longrightarrow> distinct ws \<Longrightarrow> set ws \<inter> past = {} \<Longrightarrow>
    foldl (visit table) (order, m, fresh) ws = (order', m', fresh') \<Longrightarrow>
    counts_open table m' (past \<union> set ws)
    \<and> (\<exists>ks. fresh' = fresh @ ks \<and> distinct ks \<and> set ks = enabled table (past \<union> set ws) - enabled table past)"
proof (induction ws arbitrary: order m fresh past)
  case (Cons w ws)
  obtain o1 m1 f1 where step: "visit table (order, m, fresh) w = (o1, m1, f1)" by (cases "visit table (order, m, fresh) w")
  have "w \<notin> past" using Cons.prems(3) by simp
  note one = visit_counts [OF assms Cons.prems(1) this step]
  obtain ks where ks: "f1 = fresh @ ks" "distinct ks" "set ks = enabled table (insert w past) - enabled table past"
    using one(2) by blast
  have "set ws \<inter> insert w past = {}" "distinct ws" using Cons.prems(2,3) by auto
  with Cons.IH [OF one(1) _ _, of o1 f1] Cons.prems(4)
  obtain ks' where rest: "counts_open table m' (insert w past \<union> set ws)" "fresh' = f1 @ ks'" "distinct ks'"
      "set ks' = enabled table (insert w past \<union> set ws) - enabled table (insert w past)"
    by (auto simp: step)
  have "enabled table past \<subseteq> enabled table (insert w past)"
    "enabled table (insert w past) \<subseteq> enabled table (insert w past \<union> set ws)"
    by (intro enabled_mono; auto)+
  then have "distinct (ks @ ks')" "set (ks @ ks') = enabled table (past \<union> set (w # ws)) - enabled table past"
    using ks rest by auto
  then show ?case using rest(1,2) ks(1) by (intro conjI exI [of _ "ks @ ks'"]) auto
qed auto

section \<open>All waves\<close>

definition past_waves :: "string list list \<Rightarrow> nat \<Rightarrow> string set" where
  "past_waves waves i = set (concat (take i waves))"

text \<open>The state of the loop: the tasks in \<open>order\<close> are those of the waves so far, every wave is what its
  predecessors enable, and the ready tasks are the next one.\<close>

definition loop_inv ::
    "batch_task list \<Rightarrow> string list \<Rightarrow> int js_record \<Rightarrow> string list \<Rightarrow> string list list \<Rightarrow> bool" where
  "loop_inv table ready m order waves \<longleftrightarrow>
     counts_open table m (set order) \<and> concat waves = order \<and> distinct (order @ ready)
     \<and> set (order @ ready) = enabled table (set order)
     \<and> sorted (map (index_of table) ready)
     \<and> (\<forall>i < length waves. waves ! i \<noteq> [] \<and> sorted (map (index_of table) (waves ! i))
          \<and> past_waves waves (Suc i) = enabled table (past_waves waves i))"

lemma sort_by_index_facts [simp]:
  "set (sort_by_index table ks) = set ks" "distinct ks \<Longrightarrow> distinct (sort_by_index table ks)"
  "sorted (map (index_of table) (sort_by_index table ks))"
proof -
  show "set (sort_by_index table ks) = set ks" by (simp add: sort_by_index_def)
  have "length (sort_by_index table ks) = length ks" by (simp add: sort_by_index_def)
  then show "distinct ks \<Longrightarrow> distinct (sort_by_index table ks)"
    using \<open>set (sort_by_index table ks) = set ks\<close> by (metis card_distinct distinct_card)
  have "sorted_wrt (\<lambda>l r. index_of table l \<le> index_of table r) (sort_by_index table ks)"
    unfolding sort_by_index_def by (rule sorted_js_sort) auto
  then show "sorted (map (index_of table) (sort_by_index table ks))" by (simp add: sorted_map)
qed

lemma past_waves_append: "i \<le> length waves \<Longrightarrow> past_waves (waves @ ws) i = past_waves waves i"
  by (simp add: past_waves_def)

lemma loop_step:
  assumes "good_table table" and inv: "loop_inv table ready m order waves" and "ready \<noteq> []"
    and step: "foldl (visit table) (order, m, []) ready = (order', m', fresh)"
  shows "loop_inv table (sort_by_index table (uniq fresh)) m' order' (waves @ [ready])"
proof -
  note inv = inv [unfolded loop_inv_def]
  have order: "order' = order @ ready" using visit_all(1) [OF step] .
  have disjoint: "set ready \<inter> set order = {}" "distinct ready" "distinct order" using inv by auto
  obtain ks where counts: "counts_open table m' (set order \<union> set ready)" and fresh: "fresh = ks" "distinct ks"
      "set ks = enabled table (set order \<union> set ready) - enabled table (set order)"
    using wave_counts [OF assms(1) _ disjoint(2) disjoint(1) step] inv by auto
  have now: "set order \<union> set ready = enabled table (set order)" using inv by auto
  have mono: "enabled table (set order) \<subseteq> enabled table (set order \<union> set ready)" by (rule enabled_mono) auto
  have ready': "set (sort_by_index table (uniq fresh)) = enabled table (set order') - set order'"
    using fresh now by (simp add: order)
  have all: "set (order' @ sort_by_index table (uniq fresh)) = enabled table (set order')"
    using mono now ready' by (auto simp: order)
  have waves: "(waves @ [ready]) ! i \<noteq> [] \<and> sorted (map (index_of table) ((waves @ [ready]) ! i))
      \<and> past_waves (waves @ [ready]) (Suc i) = enabled table (past_waves (waves @ [ready]) i)"
    if "i < length (waves @ [ready])" for i
  proof (cases "i < length waves")
    case True
    then show ?thesis using inv by (simp add: nth_append past_waves_append)
  next
    case False
    then have "i = length waves" using that by simp
    then show ?thesis using inv now assms(3) by (auto simp: past_waves_def)
  qed
  show ?thesis
    unfolding loop_inv_def
    using counts waves all ready' disjoint inv by (auto simp: order)
qed

lemma batch_loop_inv:
  assumes "good_table table"
  shows "loop_inv table ready m order waves \<Longrightarrow> batch_loop table ready m order waves = (order', waves') \<Longrightarrow>
    \<exists>m'. loop_inv table [] m' order' waves'"
  using assms
proof (induction table ready m order waves rule: batch_loop.induct)
  case (1 table ready m order waves)
  show ?case
  proof (cases "ready = []")
    case True
    with 1(2,3) show ?thesis by (auto simp: batch_loop.simps)
  next
    case False
    obtain o1 m1 f1 where step: "foldl (visit table) (order, m, []) ready = (o1, m1, f1)"
      by (cases "foldl (visit table) (order, m, []) ready")
    have "batch_loop table (sort_by_index table (uniq f1)) m1 o1 (waves @ [ready]) = (order', waves')"
      using 1(3) False step by (simp add: batch_loop.simps [of table ready])
    with 1(1) [OF False refl step [symmetric] refl loop_step [OF 1(4) 1(2) False step]] 1(4) show ?thesis by simp
  qed
qed

section \<open>The plan as a whole\<close>

lemma duplicate_key_None: "duplicate_key seen tasks = None \<longleftrightarrow> distinct (keys_of tasks) \<and> set seen \<inter> set (keys_of tasks) = {}"
  by (induction seen tasks rule: duplicate_key.induct) (auto simp: keys_of_def)

lemma task_table_simps [simp]:
  "keys_of (task_table tasks) = keys_of tasks" "length (task_table tasks) = length tasks"
  "length (keys_of tasks) = length tasks"
  by (simp_all add: keys_of_def task_table_def)

lemma missing_dependency_None:
  "missing_dependency table = None \<longleftrightarrow> (\<forall>t \<in> set table. set (bt_dependsOn t) \<subseteq> set (keys_of table))"
  by (auto simp: missing_dependency_def find_None_iff)

lemma good_task_table:
  "distinct (keys_of tasks) \<Longrightarrow> missing_dependency (task_table tasks) = None \<Longrightarrow> good_table (task_table tasks)"
  by (simp add: good_table_def missing_dependency_None) (auto simp: task_table_def)

lemma initial_counts:
  assumes "good_table table"
  shows "indegree (initial_indegrees table) k = (if k \<in> set (keys_of table) then int (card (deps_of table k)) else 0)"
proof (cases "k \<in> set (keys_of table)")
  case True
  then obtain t where t: "t \<in> set table" "bt_taskKey t = k" by (auto simp: keys_of_def)
  have dist: "distinct (keys_of table)" "distinct (bt_dependsOn t)" using assms t(1) by (auto simp: good_table_def)
  have "initial_indegrees table k = Some (int (length (bt_dependsOn t)))"
    unfolding initial_indegrees_def using dist(1) t by (intro map_of_is_SomeI) (auto simp: keys_of_def comp_def)
  moreover have "deps_of table k = set (bt_dependsOn t)" using deps_of_task [OF dist(1) t(1)] t(2) by simp
  ultimately show ?thesis using True dist(2) by (simp add: indegree_def distinct_card)
next
  case False
  then have "initial_indegrees table k = None"
    by (auto simp: initial_indegrees_def map_of_eq_None_iff keys_of_def image_iff)
  with False show ?thesis by (simp add: indegree_def)
qed

lemma find_key:
  assumes "distinct (keys_of table)" "t \<in> set table"
  shows "index_of table (bt_taskKey t) = bt_index t"
proof -
  have "find (\<lambda>t'. bt_taskKey t' = bt_taskKey t) table = Some t"
    using assms by (induction table) (auto simp: keys_of_def)
  then show ?thesis by (simp add: index_of_def)
qed

lemma initial_loop:
  assumes "good_table table"
  shows "loop_inv table (keys_of (js_sort (\<lambda>l r. bt_index l \<le> bt_index r)
      (filter (\<lambda>t. indegree (initial_indegrees table) (bt_taskKey t) = 0) table))) (initial_indegrees table) [] []"
proof -
  let ?m = "initial_indegrees table"
  let ?ts = "js_sort (\<lambda>l r. bt_index l \<le> bt_index r) (filter (\<lambda>t. indegree ?m (bt_taskKey t) = 0) table)"
  have dist: "distinct (keys_of table)" using assms by (simp add: good_table_def)
  have "counts_open table ?m {}" using initial_counts [OF assms] by (simp add: counts_open_def)
  moreover have ready: "set (keys_of ?ts) = enabled table {}"
    using initial_counts [OF assms] by (auto simp: keys_of_def enabled_def)
  moreover have "distinct (keys_of ?ts)"
  proof -
    have "distinct (keys_of (filter (\<lambda>t. indegree ?m (bt_taskKey t) = 0) table))"
      using dist by (simp add: keys_of_def distinct_map_filter)
    moreover have "set (keys_of ?ts) = set (keys_of (filter (\<lambda>t. indegree ?m (bt_taskKey t) = 0) table))"
      "length (keys_of ?ts) = length (keys_of (filter (\<lambda>t. indegree ?m (bt_taskKey t) = 0) table))"
      by (simp_all add: keys_of_def)
    ultimately show ?thesis by (metis card_distinct distinct_card)
  qed
  moreover have "sorted (map (index_of table) (keys_of ?ts))"
  proof -
    have "sorted_wrt (\<lambda>l r. bt_index l \<le> bt_index r) ?ts" by (rule sorted_js_sort) auto
    moreover have "map (index_of table) (keys_of ?ts) = map bt_index ?ts"
      using find_key [OF dist] by (simp add: keys_of_def)
    ultimately show ?thesis by (simp add: sorted_map)
  qed
  ultimately show ?thesis by (simp add: loop_inv_def)
qed

text \<open>What the loop computes from the initial state.\<close>

lemma planned_waves:
  assumes good: "good_table (task_table tasks)"
    and "planRuntimeSubAgentBatch mode limit provider modelId tasks = plan"
    and "distinct (keys_of tasks)" "missing_dependency (task_table tasks) = None"
  obtains m order waves where "loop_inv (task_table tasks) [] m order waves"
    "isl plan \<longleftrightarrow> set order \<noteq> set (keys_of tasks)"
    "\<And>p. plan = Inr p \<Longrightarrow> bl_order p = order \<and> bl_waves p = waves"
proof -
  let ?table = "task_table tasks"
  obtain order waves where loop: "batch_loop ?table (keys_of (js_sort (\<lambda>l r. bt_index l \<le> bt_index r)
      (filter (\<lambda>t. indegree (initial_indegrees ?table) (bt_taskKey t) = 0) ?table))) (initial_indegrees ?table) [] []
      = (order, waves)" by fastforce
  from batch_loop_inv [OF good initial_loop [OF good] this] obtain m where
    inv: "loop_inv ?table [] m order waves" by blast
  have "distinct order" "set order \<subseteq> set (keys_of tasks)"
    using inv by (auto simp: loop_inv_def enabled_def)
  then have "length order = length tasks \<longleftrightarrow> set order = set (keys_of tasks)"
    using assms(3) by (metis List.finite_set card_subset_eq distinct_card task_table_simps(3))
  moreover have "duplicate_key [] tasks = None" using assms(3) by (simp add: duplicate_key_None)
  ultimately have "isl plan \<longleftrightarrow> set order \<noteq> set (keys_of tasks)"
      "\<And>p. plan = Inr p \<Longrightarrow> bl_order p = order \<and> bl_waves p = waves"
    using assms(2,4) loop by (auto simp: planRuntimeSubAgentBatch_def Let_def split: if_splits)
  with inv that show thesis by blast
qed

lemma planned_tables:
  assumes "planRuntimeSubAgentBatch mode limit provider modelId tasks = Inr plan"
  shows "distinct (keys_of tasks)" "missing_dependency (task_table tasks) = None" "good_table (task_table tasks)"
proof -
  show 1: "distinct (keys_of tasks)" "missing_dependency (task_table tasks) = None"
    using assms duplicate_key_None [of "[]" tasks]
    by (auto simp: planRuntimeSubAgentBatch_def Let_def split: option.splits)
  then show "good_table (task_table tasks)" by (rule good_task_table)
qed

section \<open>Properties\<close>

lemma deps_of_table_task:
  "distinct (keys_of tasks) \<Longrightarrow> t \<in> set tasks \<Longrightarrow> deps_of (task_table tasks) (bt_taskKey t) = set (bt_dependsOn t)"
  using deps_of_task [of "task_table tasks" "t\<lparr>bt_dependsOn := uniq (bt_dependsOn t)\<rparr>"]
  by (auto simp: task_table_def keys_of_def comp_def)

lemma past_waves_eq: "past_waves waves i = (\<Union>j \<in> {j. j < i \<and> j < length waves}. set (waves ! j))"
proof -
  have "take i waves = take (min i (length waves)) waves" by (simp add: min_def)
  moreover have "{0..<min i (length waves)} = {j. j < i \<and> j < length waves}" by auto
  ultimately have "set (take i waves) = (!) waves ` {j. j < i \<and> j < length waves}"
    using nth_image [of "min i (length waves)" waves] by simp
  then show ?thesis by (simp add: past_waves_def)
qed

lemma past_waves_less: "d \<in> past_waves waves i \<Longrightarrow> \<exists>j<i. j < length waves \<and> d \<in> set (waves ! j)"
  by (auto simp: past_waves_eq)

lemma in_past_waves: "j < i \<Longrightarrow> j < length waves \<Longrightarrow> d \<in> set (waves ! j) \<Longrightarrow> d \<in> past_waves waves i"
  by (auto simp: past_waves_eq)

lemma wave_dependencies:
  assumes inv: "loop_inv table [] m order waves" and i: "i < length waves" and k: "k \<in> set (waves ! i)"
  shows "deps_of table k \<subseteq> past_waves waves i"
    and "0 < i \<Longrightarrow> deps_of table k \<inter> set (waves ! (i - 1)) \<noteq> {}"
proof -
  have level: "past_waves waves (Suc j) = enabled table (past_waves waves j)" if "j < length waves" for j
    using inv that by (auto simp: loop_inv_def)
  have "k \<in> past_waves waves (Suc i)" using i k by (intro in_past_waves) auto
  then have enabled: "k \<in> enabled table (past_waves waves i)" using level [OF i] by simp
  then show deps: "deps_of table k \<subseteq> past_waves waves i" by (simp add: enabled_def)
  assume "0 < i"
  then obtain j where j: "i = Suc j" by (cases i) auto
  have "distinct (concat waves)" using inv by (auto simp: loop_inv_def)
  then have "distinct (concat (take i waves @ drop i waves))" by simp
  moreover have "k \<in> set (concat (drop i waves))"
    using i k by (simp add: Cons_nth_drop_Suc [symmetric])
  ultimately have "k \<notin> past_waves waves i" unfolding past_waves_def concat_append distinct_append by blast
  then have "k \<notin> enabled table (past_waves waves j)" using level [of j] i by (simp add: j)
  with enabled obtain d where d: "d \<in> deps_of table k" "d \<notin> past_waves waves j"
    by (auto simp: enabled_def)
  with deps have "d \<in> past_waves waves (Suc j)" by (auto simp: j)
  then have "d \<in> past_waves waves j \<union> set (waves ! j)"
    using i by (auto simp: past_waves_def take_Suc_conv_app_nth j)
  with d show "deps_of table k \<inter> set (waves ! (i - 1)) \<noteq> {}" by (auto simp: j)
qed

lemma plan_waves:
  assumes "planRuntimeSubAgentBatch mode limit provider modelId tasks = Inr plan"
  shows "distinct (bl_order plan)" "set (bl_order plan) = set (keys_of tasks)" "concat (bl_waves plan) = bl_order plan"
    "\<forall>wave \<in> set (bl_waves plan). wave \<noteq> [] \<and> sorted (map (index_of tasks) wave)"
    "\<And>t i. t \<in> set tasks \<Longrightarrow> i < length (bl_waves plan) \<Longrightarrow> bt_taskKey t \<in> set (bl_waves plan ! i) \<Longrightarrow>
       (\<forall>d \<in> set (bt_dependsOn t). \<exists>j<i. d \<in> set (bl_waves plan ! j))
       \<and> (0 < i \<longrightarrow> (\<exists>d \<in> set (bt_dependsOn t). d \<in> set (bl_waves plan ! (i - 1))))"
proof -
  note tables = planned_tables [OF assms]
  obtain m order waves where inv: "loop_inv (task_table tasks) [] m order waves"
      and isl: "isl (Inr plan :: string + batch_plan) \<longleftrightarrow> set order \<noteq> set (keys_of tasks)"
      and plan: "\<And>p. (Inr plan :: string + batch_plan) = Inr p \<Longrightarrow> bl_order p = order \<and> bl_waves p = waves"
    using planned_waves [OF tables(3) assms tables(1,2)] by metis
  have parts: "bl_order plan = order" "bl_waves plan = waves" using plan by blast+
  have index: "index_of (task_table tasks) = index_of tasks"
  proof
    show "index_of (task_table tasks) k = index_of tasks k" for k
      unfolding index_of_def task_table_def by (induction tasks) auto
  qed
  show "distinct (bl_order plan)" "set (bl_order plan) = set (keys_of tasks)" "concat (bl_waves plan) = bl_order plan"
    "\<forall>wave \<in> set (bl_waves plan). wave \<noteq> [] \<and> sorted (map (index_of tasks) wave)"
    using inv isl unfolding parts by (auto simp: loop_inv_def index in_set_conv_nth)
  show "(\<forall>d \<in> set (bt_dependsOn t). \<exists>j<i. d \<in> set (bl_waves plan ! j))
      \<and> (0 < i \<longrightarrow> (\<exists>d \<in> set (bt_dependsOn t). d \<in> set (bl_waves plan ! (i - 1))))"
    if "t \<in> set tasks" "i < length (bl_waves plan)" "bt_taskKey t \<in> set (bl_waves plan ! i)" for t i
    using that unfolding parts
    using wave_dependencies [OF inv that(2,3) [unfolded parts]] deps_of_table_task [OF tables(1) that(1)] past_waves_less by blast
qed

lemma plan_width:
  assumes "planRuntimeSubAgentBatch mode limit provider modelId tasks = Inr plan"
  shows "1 \<le> bl_maxParallel plan" "bl_maxParallel plan \<le> 6"
    "bl_executionMode plan = Sequential \<Longrightarrow> bl_maxParallel plan = 1"
  using assms by (auto simp: planRuntimeSubAgentBatch_def resolveMaxParallel_def clampMaxParallel_def Let_def
      split: option.splits prod.splits if_splits)

text \<open>C16: a plan is a correct schedule.  It has every task exactly once, its waves are the order cut into
  non-empty pieces, each in the order of the input; every dependency of a task lies in an earlier
  wave, and no task waits longer than it must: one of its dependencies is in the wave just before
  it.  Between one and six tasks run at once, and one at a time in a sequential batch.\<close>

theorem batch_plan_sound:
  assumes "planRuntimeSubAgentBatch mode limit provider modelId tasks = Inr plan"
  shows "distinct (bl_order plan) \<and> set (bl_order plan) = set (keys_of tasks)
    \<and> concat (bl_waves plan) = bl_order plan
    \<and> (\<forall>wave \<in> set (bl_waves plan). wave \<noteq> [] \<and> sorted (map (index_of tasks) wave))
    \<and> (\<forall>t \<in> set tasks. \<forall>i < length (bl_waves plan). bt_taskKey t \<in> set (bl_waves plan ! i) \<longrightarrow>
         (\<forall>d \<in> set (bt_dependsOn t). \<exists>j<i. d \<in> set (bl_waves plan ! j))
         \<and> (0 < i \<longrightarrow> (\<exists>d \<in> set (bt_dependsOn t). d \<in> set (bl_waves plan ! (i - 1)))))
    \<and> 1 \<le> bl_maxParallel plan \<and> bl_maxParallel plan \<le> 6
    \<and> (bl_executionMode plan = Sequential \<longrightarrow> bl_maxParallel plan = 1)"
  using plan_waves [OF assms] plan_width [OF assms] by blast

definition example_tasks :: "batch_task list" where
  "example_tasks =
     [\<lparr>bt_index = 0, bt_taskKey = ''review'', bt_dependsOn = [''build''], bt_requiresApproval = False\<rparr>,
      \<lparr>bt_index = 1, bt_taskKey = ''build'', bt_dependsOn = [], bt_requiresApproval = False\<rparr>]"

lemma example_plan:
  "map_sum id bl_waves (planRuntimeSubAgentBatch Parallel None None None example_tasks)
     = Inr [[''build''], [''review'']]"
  by code_simp

theorem batch_plan_sound_witness:
  "\<exists>plan. planRuntimeSubAgentBatch Parallel None None None example_tasks = Inr plan
     \<and> concat (bl_waves plan) = bl_order plan \<and> bl_order plan = [''build'', ''review'']"
proof -
  obtain plan where plan: "planRuntimeSubAgentBatch Parallel None None None example_tasks = Inr plan"
      "bl_waves plan = [[''build''], [''review'']]"
    using example_plan by (cases "planRuntimeSubAgentBatch Parallel None None None example_tasks") auto
  with batch_plan_sound [OF plan(1)] show ?thesis by auto
qed

lemma complete_if_acyclic:
  assumes inv: "loop_inv table [] m order waves" and good: "good_table table"
    and "acyclic {(d, k). k \<in> set (keys_of table) \<and> d \<in> deps_of table k}" (is "acyclic ?rel")
  shows "set order = set (keys_of table)"
proof (rule ccontr)
  have fixed: "enabled table (set order) = set order" using inv by (auto simp: loop_inv_def)
  have closed: "deps_of table k \<subseteq> set (keys_of table)" for k
    using good by (auto simp: deps_of_def good_table_def)
  assume "set order \<noteq> set (keys_of table)"
  then obtain k where "k \<in> set (keys_of table) - set order" using fixed by (auto simp: enabled_def)
  moreover have "?rel \<subseteq> set (keys_of table) \<times> set (keys_of table)" using closed by auto
  then have "finite ?rel" by (rule finite_subset) simp
  then have "wf ?rel" using assms(3) by (rule finite_acyclic_wf)
  ultimately obtain z where z: "z \<in> set (keys_of table) - set order"
      "\<And>y. (y, z) \<in> ?rel \<Longrightarrow> y \<notin> set (keys_of table) - set order"
    by (meson wf_eq_minimal)
  then have "deps_of table z \<subseteq> set order" using closed by blast
  with z(1) have "z \<in> enabled table (set order)" by (simp add: enabled_def)
  with fixed z(1) show False by simp
qed

lemma acyclic_if_complete:
  assumes inv: "loop_inv table [] m order waves" and all: "set order = set (keys_of table)"
  shows "acyclic {(d, k). k \<in> set (keys_of table) \<and> d \<in> deps_of table k}"
proof -
  define level where "level = (\<lambda>k. LEAST i. i < length waves \<and> k \<in> set (waves ! i))"
  have level: "level k < length waves \<and> k \<in> set (waves ! level k)" if "k \<in> set (keys_of table)" for k
  proof -
    have "\<exists>i. i < length waves \<and> k \<in> set (waves ! i)"
      using that all inv unfolding loop_inv_def by (metis UN_E in_set_conv_nth set_concat)
    then show ?thesis unfolding level_def by (rule LeastI_ex)
  qed
  have "level d < level k" if k: "k \<in> set (keys_of table)" "d \<in> deps_of table k" for d k
  proof -
    from wave_dependencies(1) [OF inv, of "level k" k] level k have "d \<in> past_waves waves (level k)" by blast
    then obtain j where "j < level k" "j < length waves" "d \<in> set (waves ! j)" using past_waves_less by blast
    then have "level d \<le> j" unfolding level_def by (intro Least_le) simp
    with \<open>j < level k\<close> show ?thesis by simp
  qed
  then have "{(d, k). k \<in> set (keys_of table) \<and> d \<in> deps_of table k} \<subseteq> measure level" by auto
  then show ?thesis by (meson wf_acyclic wf_measure wf_subset)
qed

lemma dependency_relation:
  assumes "distinct (keys_of tasks)"
  shows "(\<Union>t \<in> set tasks. (\<lambda>d. (d, bt_taskKey t)) ` set (bt_dependsOn t)) =
    {(d, k). k \<in> set (keys_of (task_table tasks)) \<and> d \<in> deps_of (task_table tasks) k}"
proof -
  have "(\<lambda>d. (d, bt_taskKey t)) ` set (bt_dependsOn t) =
      {(d, k). k = bt_taskKey t \<and> d \<in> deps_of (task_table tasks) k}" if "t \<in> set tasks" for t
    using deps_of_table_task [OF assms that] by auto
  then show ?thesis unfolding task_table_simps by (auto simp: keys_of_def)
qed

text \<open>C17: when there is a plan.  The batch is planned exactly when the task keys are different, every
  dependency is a task of the batch, and the dependencies have no cycle; otherwise it is rejected
  with an error.  So the loop over the ready tasks, which knows only counts of open dependencies,
  decides acyclicity.\<close>

theorem batch_planned_iff_acyclic:
  "(\<exists>plan. planRuntimeSubAgentBatch mode limit provider modelId tasks = Inr plan) \<longleftrightarrow>
     distinct (keys_of tasks)
     \<and> \<Union> (set ` bt_dependsOn ` set tasks) \<subseteq> set (keys_of tasks)
     \<and> acyclic (\<Union>t \<in> set tasks. (\<lambda>d. (d, bt_taskKey t)) ` set (bt_dependsOn t))"
  (is "?planned \<longleftrightarrow> ?distinct \<and> ?closed \<and> acyclic ?rel")
proof (cases "?distinct \<and> ?closed")
  case True
  have missing: "missing_dependency (task_table tasks) = None"
    unfolding missing_dependency_None task_table_simps using True by (force simp: task_table_def)
  note good = good_task_table [OF conjunct1 [OF True] missing]
  obtain m order waves where inv: "loop_inv (task_table tasks) [] m order waves"
      and isl: "isl (planRuntimeSubAgentBatch mode limit provider modelId tasks) \<longleftrightarrow> set order \<noteq> set (keys_of tasks)"
    using planned_waves [OF good refl conjunct1 [OF True] missing] by metis
  have "acyclic ?rel \<longleftrightarrow> set order = set (keys_of tasks)"
    unfolding dependency_relation [OF conjunct1 [OF True]]
    using complete_if_acyclic [OF inv good] acyclic_if_complete [OF inv] by auto
  also have "\<dots> \<longleftrightarrow> ?planned"
    using isl by (cases "planRuntimeSubAgentBatch mode limit provider modelId tasks") auto
  finally show ?thesis using True by blast
next
  case False
  have "\<not> ?planned"
  proof
    assume ?planned
    then obtain plan where plan: "planRuntimeSubAgentBatch mode limit provider modelId tasks = Inr plan" by blast
    note tables = planned_tables [OF plan]
    have "?closed" using tables(2) by (auto simp: missing_dependency_None) (auto simp: task_table_def)
    with False tables(1) show False by blast
  qed
  with False show ?thesis by blast
qed

end
