(* ===== verification/LiveSkills.thy ===== *)
theory LiveSkills
  imports JsValue
begin

text \<open>
  The identifiers of live skills, \<^verbatim>\<open>src/apps/code/src/services/runtimeClientLiveSkills.ts\<close>, and the index of
  the skills of a runtime, from \<^verbatim>\<open>webMcpBridgeRuntimeToolsShared.ts\<close>: aliases are mapped to canonical
  identifiers, and a request is checked before it is sent.
\<close>

section \<open>Canonical identifiers\<close>

definition accepted_ids :: "(string \<times> string list) list" where
  "accepted_ids =
     [(''network-analysis'', [''network-analysis'', ''network_analysis'']),
      (''research-orchestrator'', [''research-orchestrator'', ''research_orchestrator'', ''research'']),
      (''core-read'', [''core-read'', ''read'', ''file-read'', ''file_read'', ''read-file'', ''read_file'']),
      (''core-tree'', [''core-tree'', ''tree'', ''file-tree'', ''file_tree'', ''ls'']),
      (''core-grep'', [''core-grep'', ''grep'', ''rg'', ''search'', ''file-search'', ''file_search'']),
      (''core-write'', [''core-write'', ''write'', ''file-write'', ''file_write'', ''write-file'', ''write_file'']),
      (''core-edit'', [''core-edit'', ''edit'', ''file-edit'', ''file_edit'', ''edit-file'', ''edit_file'']),
      (''core-bash'', [''core-bash'', ''bash'', ''shell'', ''shell-command'', ''shell_command'']),
      (''core-js-repl'', [''core-js-repl'', ''js-repl'', ''js_repl'', ''javascript-repl'', ''javascript_repl'']),
      (''core-js-repl-reset'', [''core-js-repl-reset'', ''js-repl-reset'', ''js_repl_reset'',
        ''javascript-repl-reset'', ''javascript_repl_reset'', ''reset-js-repl'', ''reset_js_repl'']),
      (''core-diagnostics'', [''core-diagnostics'', ''diagnostics'', ''workspace-diagnostics'',
        ''workspace_diagnostics'']),
      (''core-computer-observe'', [''core-computer-observe'', ''computer-observe'', ''computer_observe'',
        ''observe-computer'', ''observe-computer-screen''])]"

definition canonical_by_alias :: "(string \<times> string) list" where
  "canonical_by_alias = concat (map (\<lambda>(canonical, ids). map (\<lambda>i. (i, canonical)) ids) accepted_ids)"

definition normalizeLiveSkillLookupId :: "string \<Rightarrow> string" where
  "normalizeLiveSkillLookupId i = to_lower (js_trim i)"

definition canonicalizeLiveSkillId :: "string \<Rightarrow> string option" where
  "canonicalizeLiveSkillId i = map_of canonical_by_alias (normalizeLiveSkillLookupId i)"

text \<open>The first entry of each lookup identifier, as a \<open>Map\<close> from lookup identifier to entry keeps it.\<close>

fun first_by_lookup :: "string list \<Rightarrow> string list \<Rightarrow> string list" where
  "first_by_lookup seen [] = []"
| "first_by_lookup seen (e # es) =
     (let lookup = normalizeLiveSkillLookupId e
      in if lookup = [] \<or> lookup \<in> set seen then first_by_lookup seen es
         else js_trim e # first_by_lookup (lookup # seen) es)"

definition normalizeLiveSkillAliasList :: "js_value list option \<Rightarrow> string list" where
  "normalizeLiveSkillAliasList aliases =
     first_by_lookup [] (map js_trim (List.map_filter as_string (nullish aliases [])))"

definition listAcceptedLiveSkillIds :: "string \<Rightarrow> string list" where
  "listAcceptedLiveSkillIds i =
     (case canonicalizeLiveSkillId i of
        None \<Rightarrow> let trimmed = js_trim i in if trimmed \<noteq> [] then [trimmed] else []
      | Some canonical \<Rightarrow> nullish (map_of accepted_ids canonical) [])"

record live_skill =
  lk_id :: string
  lk_aliases :: "js_value list option"

definition listAcceptedLiveSkillIdsFromCatalogSkill :: "live_skill \<Rightarrow> string list" where
  "listAcceptedLiveSkillIdsFromCatalogSkill skill =
     (let i = js_trim (lk_id skill)
      in if i = [] then []
         else first_by_lookup [] ([i, nullish (canonicalizeLiveSkillId i) i]
                @ normalizeLiveSkillAliasList (lk_aliases skill) @ listAcceptedLiveSkillIds i))"

section \<open>Checking a request\<close>

record live_request =
  lr_skillId :: string
  lr_input :: string
  lr_query :: "string option"
  lr_command :: "string option"
  lr_pattern :: "string option"
  lr_matchMode :: "string option"
  lr_maxResults :: "rat option option"
  lr_contextBefore :: "rat option option"
  lr_contextAfter :: "rat option option"

definition normalizeNullableText :: "string option \<Rightarrow> string option" where
  "normalizeNullableText v =
     (let trimmed = js_trim (nullish v []) in if trimmed \<noteq> [] then Some trimmed else None)"

definition resolveLiveSkillQuery :: "live_request \<Rightarrow> string" where
  "resolveLiveSkillQuery r =
     nullish (nullish2 (normalizeNullableText (lr_query r)) (normalizeNullableText (Some (lr_input r)))) []"

definition resolveCoreShellCommand :: "live_request \<Rightarrow> string" where
  "resolveCoreShellCommand r =
     nullish (nullish2 (normalizeNullableText (lr_command r)) (normalizeNullableText (Some (lr_input r)))) []"

definition resolveCoreGrepPattern :: "live_request \<Rightarrow> string" where
  "resolveCoreGrepPattern r =
     nullish (nullish2 (normalizeNullableText (lr_pattern r))
       (nullish2 (normalizeNullableText (lr_query r)) (normalizeNullableText (Some (lr_input r))))) []"

text \<open>\<open>Number.isInteger(n) && lo <= n && n <= hi\<close>\<close>

definition integer_between :: "int \<Rightarrow> int \<Rightarrow> rat option \<Rightarrow> bool" where
  "integer_between lo hi v =
     (case v of None \<Rightarrow> False | Some n \<Rightarrow> of_int \<lfloor>n\<rfloor> = n \<and> of_int lo \<le> n \<and> n \<le> of_int hi)"

definition validateCoreGrepContextValue :: "rat option option \<Rightarrow> string \<Rightarrow> string option" where
  "validateCoreGrepContextValue v label =
     (case v of None \<Rightarrow> None
      | Some n \<Rightarrow> if integer_between 0 10 n then None
          else Some (label @ '' must be an integer between 0 and 10.''))"

definition validate_network :: "live_request \<Rightarrow> string option" where
  "validate_network r =
     (if canonicalizeLiveSkillId (lr_skillId r) = Some ''network-analysis''
         \<and> length (resolveLiveSkillQuery r) > 2048
      then Some ''Live skill query must be <= 2048 characters.'' else None)"

definition validate_shell :: "live_request \<Rightarrow> string option" where
  "validate_shell r =
     (if canonicalizeLiveSkillId (lr_skillId r) = Some ''core-bash''
         \<and> length (resolveCoreShellCommand r) > 8192
      then Some ''command must be <= 8192 characters.'' else None)"

definition validate_grep :: "live_request \<Rightarrow> string option" where
  "validate_grep r =
     (let pattern = resolveCoreGrepPattern r
      in if canonicalizeLiveSkillId (lr_skillId r) \<noteq> Some ''core-grep'' then None
         else if pattern = [] then Some ''pattern is required for core-grep.''
         else if length pattern > 2048 then Some ''pattern must be <= 2048 characters.''
         else if lr_matchMode r \<notin> {None, Some ''literal'', Some ''regex''}
           then Some ''matchMode must be literal or regex.''
         else if (case lr_maxResults r of None \<Rightarrow> False | Some n \<Rightarrow> \<not> integer_between 1 2000 n)
           then Some ''maxResults must be an integer between 1 and 2000.''
         else nullish2 (validateCoreGrepContextValue (lr_contextBefore r) ''contextBefore'')
           (validateCoreGrepContextValue (lr_contextAfter r) ''contextAfter''))"

definition validateLiveSkillExecuteRequest :: "live_request \<Rightarrow> string option" where
  "validateLiveSkillExecuteRequest r =
     nullish2 (validate_network r) (nullish2 (validate_shell r) (validate_grep r))"

definition normalizeLiveSkillExecuteRequest :: "live_request \<Rightarrow> live_request" where
  "normalizeLiveSkillExecuteRequest r =
     (case canonicalizeLiveSkillId (lr_skillId r) of None \<Rightarrow> r
      | Some canonical \<Rightarrow> if canonical = [] \<or> canonical = lr_skillId r then r else r\<lparr>lr_skillId := canonical\<rparr>)"

section \<open>The skills of a runtime\<close>

record catalog_index =
  ki_known :: "string set"
  ki_canonical :: "string js_record"
  ki_accepted :: "string list js_record"

definition index_alias :: "string \<Rightarrow> catalog_index \<times> string list \<Rightarrow> string \<Rightarrow> catalog_index \<times> string list" where
  "index_alias canonical = (\<lambda>(ix, entries) i.
     let lookup = normalizeLiveSkillLookupId i
     in (ix\<lparr>ki_known := insert lookup (ki_known ix), ki_canonical := (ki_canonical ix)(lookup \<mapsto> canonical)\<rparr>,
         if lookup \<in> normalizeLiveSkillLookupId ` set entries then entries else entries @ [i]))"

definition index_skill :: "catalog_index \<Rightarrow> live_skill \<Rightarrow> catalog_index" where
  "index_skill ix skill =
     (let canonical = nullish (canonicalizeLiveSkillId (lk_id skill)) (js_trim (lk_id skill));
          (ix', entries) = foldl (index_alias canonical) (ix, nullish (ki_accepted ix canonical) [])
            (listAcceptedLiveSkillIdsFromCatalogSkill skill)
      in ix'\<lparr>ki_accepted := (ki_accepted ix')(canonical \<mapsto> entries)\<rparr>)"

definition buildRuntimeLiveSkillCatalogIndex :: "live_skill list \<Rightarrow> catalog_index" where
  "buildRuntimeLiveSkillCatalogIndex skills =
     foldl index_skill \<lparr>ki_known = {}, ki_canonical = Map.empty, ki_accepted = Map.empty\<rparr> skills"

record skill_resolution =
  kr_requested :: string
  kr_resolved :: string
  kr_aliasApplied :: bool
  kr_accepted :: "string list"

definition resolveRuntimeSkillId :: "string \<Rightarrow> catalog_index option \<Rightarrow> string" where
  "resolveRuntimeSkillId i index =
     (let requested = js_trim i
      in nullish (nullish2 (Option.bind index (\<lambda>ix. ki_canonical ix (normalizeLiveSkillLookupId requested)))
           (canonicalizeLiveSkillId requested)) requested)"

definition buildRuntimeSkillIdResolution :: "string \<Rightarrow> catalog_index option \<Rightarrow> skill_resolution" where
  "buildRuntimeSkillIdResolution i index =
     (let requested = js_trim i; resolved = resolveRuntimeSkillId requested index
      in \<lparr>kr_requested = requested, kr_resolved = resolved, kr_aliasApplied = (requested \<noteq> resolved),
          kr_accepted = nullish (Option.bind index (\<lambda>ix. ki_accepted ix resolved))
            (listAcceptedLiveSkillIds requested)\<rparr>)"

record allowed_resolution =
  ar_requested :: "string list"
  ar_resolved :: "string list"
  ar_entries :: "skill_resolution list"

definition buildRuntimeAllowedSkillResolution :: "js_value \<Rightarrow> catalog_index option \<Rightarrow> allowed_resolution option" where
  "buildRuntimeAllowedSkillResolution v index =
     (let requested = toStringArray v;
          entries = map (\<lambda>i. buildRuntimeSkillIdResolution i index) requested
      in if requested = [] then None
         else Some \<lparr>ar_requested = requested, ar_resolved = uniq (map kr_resolved entries), ar_entries = entries\<rparr>)"

definition assertKnownRuntimeLiveSkillIds :: "string list option \<Rightarrow> string set option \<Rightarrow> string \<Rightarrow> thrown option" where
  "assertKnownRuntimeLiveSkillIds allowed known toolName =
     (case (allowed, known) of
        (Some ids, Some k) \<Rightarrow>
          (let unknown = filter (\<lambda>i. normalizeLiveSkillLookupId i \<notin> k) ids
           in if unknown = [] then None
              else Some (createRuntimeError (Some ''runtime.validation.input.invalid'')
                (toolName @ '' received unknown allowedSkillIds: '' @ js_join '', '' unknown @ ''.'')))
      | _ \<Rightarrow> None)"

end
