(* ===== verification/SubAgentBatch.thy ===== *)
theory SubAgentBatch
  imports SubAgentBatchPlanner LiveSkills
begin

text \<open>
  Running a batch of sub-agent tasks: the tool \<^verbatim>\<open>orchestrate-runtime-sub-agent-batch\<close> of
  \<^verbatim>\<open>src/apps/code/src/services/webMcpBridgeRuntimeSubAgentBatchTool.ts\<close>, with the normalisation of the
  input of a session from \<^verbatim>\<open>webMcpBridgeRuntimeToolsShared.ts\<close>.  The runtime that opens, instructs, awaits
  and closes sessions is a parameter: what each call gives for a task and an attempt, or what it throws.
  The tasks of a chunk run concurrently; none of them reads what another writes, so the model runs them
  one after the other and keeps the calls of each apart.
\<close>

section \<open>The model of the caller\<close>

definition resolveProviderModelFromInputAndAgent ::
    "js_object \<Rightarrow> js_value \<Rightarrow> string option \<times> string option" where
  "resolveProviderModelFromInputAndAgent input agent =
     (let ofRecord = (\<lambda>r k. toNonEmptyString (case r of None \<Rightarrow> Undefined | Some rec \<Rightarrow> field rec k));
          sub = (\<lambda>k. Option.bind (toOptionalRecord agent) (\<lambda>a. toOptionalRecord (field a k)));
          agentRecord = toOptionalRecord agent; model = sub ''model''; ctx = sub ''context'';
          agentProvider = nullish2 (ofRecord agentRecord ''provider'')
            (nullish2 (ofRecord model ''provider'') (ofRecord ctx ''provider''));
          agentModel = nullish2 (ofRecord agentRecord ''modelId'')
            (nullish2 (ofRecord agentRecord ''model_id'')
              (nullish2 (ofRecord model ''id'') (nullish2 (ofRecord ctx ''modelId'') (ofRecord ctx ''model_id''))))
      in (nullish2 (toNonEmptyString (field input ''provider'')) agentProvider,
          nullish2 (toNonEmptyString (field input ''modelId'')) agentModel))"

section \<open>The input of a session\<close>

record spawn_input =
  sp_workspaceId :: string
  sp_threadId :: "string option"
  sp_title :: "string option"
  sp_accessMode :: string
  sp_reasonEffort :: "string option"
  sp_provider :: "string option"
  sp_modelId :: "string option"
  sp_scopeProfile :: "string option"
  sp_allowedSkillIds :: "string list option"
  sp_allowNetwork :: "bool option"
  sp_workspaceReadPaths :: "string list option"
  sp_parentRunId :: "string option"

definition normalizeOptionalStringArray :: "js_value \<Rightarrow> string list option" where
  "normalizeOptionalStringArray v = (let xs = toStringArray v in if xs \<noteq> [] then Some xs else None)"

definition normalizeSubAgentScopeProfile :: "js_value \<Rightarrow> string option" where
  "normalizeSubAgentScopeProfile v =
     (if v = Str ''general'' \<or> v = Str ''research'' \<or> v = Str ''review'' then as_string v else None)"

definition normalizeAllowedSkillIds :: "js_value \<Rightarrow> catalog_index option \<Rightarrow> string list option" where
  "normalizeAllowedSkillIds v index = map_option ar_resolved (buildRuntimeAllowedSkillResolution v index)"

definition normalizeSubAgentSpawnInput ::
    "js_object \<Rightarrow> string \<Rightarrow> catalog_index option \<Rightarrow> js_value \<Rightarrow> spawn_input" where
  "normalizeSubAgentSpawnInput input snapshotWorkspaceId index agent =
     (let (provider, modelId) = resolveProviderModelFromInputAndAgent input agent;
          str = (\<lambda>k. toNonEmptyString (field input k))
      in \<lparr>sp_workspaceId = nullish (str ''workspaceId'') snapshotWorkspaceId, sp_threadId = str ''threadId'',
          sp_title = str ''title'', sp_accessMode = normalizeRuntimeAccessMode (field input ''accessMode''),
          sp_reasonEffort = normalizeRuntimeReasonEffort (field input ''reasonEffort''),
          sp_provider = provider, sp_modelId = modelId,
          sp_scopeProfile = normalizeSubAgentScopeProfile (field input ''scopeProfile''),
          sp_allowedSkillIds = normalizeAllowedSkillIds (field input ''allowedSkillIds'') index,
          sp_allowNetwork = as_bool (field input ''allowNetwork''),
          sp_workspaceReadPaths = normalizeOptionalStringArray (field input ''workspaceReadPaths''),
          sp_parentRunId = str ''parentRunId''\<rparr>)"

section \<open>Tasks\<close>

datatype failure_policy = StopBatch | ContinueBatch

record task_input =
  tk_index :: nat
  tk_taskKey :: string
  tk_label :: string
  tk_instruction :: string
  tk_dependsOn :: "string list"
  tk_maxRetries :: int
  tk_onFailure :: failure_policy
  tk_input :: js_object

definition toRecordArray :: "js_value \<Rightarrow> js_object list" where
  "toRecordArray v = (case v of Arr vs \<Rightarrow> List.map_filter toOptionalRecord vs | _ \<Rightarrow> [])"

definition normalizeBatchExecutionMode :: "js_value \<Rightarrow> execution_mode" where
  "normalizeBatchExecutionMode v = (if v = Str ''sequential'' then Sequential else Parallel)"

definition toOptionalInteger :: "js_value \<Rightarrow> int option" where
  "toOptionalInteger v = map_option js_trunc (as_number v)"

definition normalizeTaskMaxRetries :: "js_value \<Rightarrow> int" where
  "normalizeTaskMaxRetries v = (case toOptionalInteger v of None \<Rightarrow> 0 | Some n \<Rightarrow> min 2 (max 0 n))"

definition normalizeTaskFailurePolicy :: "js_value \<Rightarrow> failure_policy" where
  "normalizeTaskFailurePolicy v = (if v = Str ''stop'' then StopBatch else ContinueBatch)"

fun toDependencyKeyList :: "js_value \<Rightarrow> string list" where
  "toDependencyKeyList (Str s) = (case toNonEmptyString (Str s) of None \<Rightarrow> [] | Some d \<Rightarrow> [d])"
| "toDependencyKeyList (Arr vs) = uniq (List.map_filter toNonEmptyString vs)"
| "toDependencyKeyList _ = []"

definition required :: "string \<Rightarrow> js_object \<Rightarrow> thrown + string" where
  "required k input =
     (case toNonEmptyString (field input k) of None \<Rightarrow> Inl (plain_error (k @ '' is required.'')) | Some s \<Rightarrow> Inr s)"

definition normalize_task :: "nat \<Rightarrow> js_object \<Rightarrow> thrown + task_input" where
  "normalize_task i input =
     (case required ''taskKey'' input of Inl e \<Rightarrow> Inl e
      | Inr key \<Rightarrow>
          (case required ''instruction'' input of Inl e \<Rightarrow> Inl e
           | Inr instruction \<Rightarrow>
               Inr \<lparr>tk_index = i, tk_taskKey = key,
                 tk_label = nullish (toNonEmptyString (field input ''title'')) key,
                 tk_instruction = instruction, tk_dependsOn = toDependencyKeyList (field input ''dependsOn''),
                 tk_maxRetries = normalizeTaskMaxRetries (field input ''maxRetries''),
                 tk_onFailure = normalizeTaskFailurePolicy (field input ''onFailure''), tk_input = input\<rparr>))"

fun normalize_tasks :: "nat \<Rightarrow> js_object list \<Rightarrow> thrown + task_input list" where
  "normalize_tasks i [] = Inr []"
| "normalize_tasks i (x # xs) =
     (case normalize_task i x of Inl e \<Rightarrow> Inl e
      | Inr t \<Rightarrow> (case normalize_tasks (Suc i) xs of Inl e \<Rightarrow> Inl e | Inr ts \<Rightarrow> Inr (t # ts)))"

fun chunkArray :: "'a list \<Rightarrow> nat \<Rightarrow> 'a list list" where
  "chunkArray xs n = (if n = 0 then [xs] else if xs = [] then [] else take n xs # chunkArray (drop n xs) n)"

declare chunkArray.simps [simp del]

section \<open>Results\<close>

record sub_session =
  sn_sessionId :: string
  sn_status :: string
  sn_activeTaskId :: "string option"
  sn_lastTaskId :: "string option"
  sn_checkpointId :: "string option"
  sn_traceId :: "string option"
  sn_recovered :: "bool option"

record wait_result =
  wa_done :: bool
  wa_timedOut :: bool
  wa_session :: "sub_session option"

record attempt_success =
  as_sessionId :: string
  as_session :: sub_session
  as_handle :: sub_session
  as_resolution :: "allowed_resolution option"
  as_dispatch :: "sub_session option"
  as_wait :: wait_result
  as_close :: "js_value option"

record attempt_failure =
  af_error :: string
  af_timedOut :: bool
  af_fatal :: bool
  af_resolution :: "allowed_resolution option"
  af_close :: "js_value option"

datatype skip_reason = DependencyFailed | StoppedByPolicy

datatype task_outcome = Succeeded attempt_success | Failed attempt_failure | Skipped skip_reason "string list"

record task_result =
  tr_index :: nat
  tr_taskKey :: string
  tr_label :: string
  tr_dependsOn :: "string list"
  tr_onFailure :: failure_policy
  tr_instruction :: string
  tr_attempts :: int
  tr_retried :: int
  tr_resumed :: bool
  tr_outcome :: task_outcome

definition result_of :: "task_input \<Rightarrow> int \<Rightarrow> int \<Rightarrow> task_outcome \<Rightarrow> task_result" where
  "result_of task attempts retried outcome =
     \<lparr>tr_index = tk_index task, tr_taskKey = tk_taskKey task, tr_label = tk_label task,
      tr_dependsOn = tk_dependsOn task, tr_onFailure = tk_onFailure task,
      tr_instruction = tk_instruction task, tr_attempts = attempts, tr_retried = retried,
      tr_resumed = False, tr_outcome = outcome\<rparr>"

definition toSkippedResult :: "task_input \<Rightarrow> skip_reason \<Rightarrow> string list \<Rightarrow> task_result" where
  "toSkippedResult task reason blockedBy = result_of task 0 0 (Skipped reason blockedBy)"

definition succeeded :: "task_result \<Rightarrow> bool" where
  "succeeded r = (case tr_outcome r of Succeeded _ \<Rightarrow> True | _ \<Rightarrow> False)"

definition timed_out :: "task_result \<Rightarrow> bool" where
  "timed_out r = (case tr_outcome r of Failed f \<Rightarrow> af_timedOut f | _ \<Rightarrow> False)"

definition stops_batch :: "task_result \<Rightarrow> bool" where
  "stops_batch r = (case tr_outcome r of Failed f \<Rightarrow> af_fatal f \<or> tr_onFailure r = StopBatch | _ \<Rightarrow> False)"

section \<open>Errors of an attempt\<close>

definition fatal_codes :: "string list" where
  "fatal_codes =
     [''runtime.validation.input.required'', ''runtime.validation.input.invalid'',
      ''runtime.validation.method.unavailable'', ''runtime.validation.payload.too_large'',
      ''runtime.validation.payload_too_large'', ''runtime.validation.path.outside_workspace'',
      ''runtime.validation.command.restricted'', ''runtime.validation.request.blocked'',
      ''runtime.validation.approval.rejected'', ''runtime.validation.circuit_open'',
      ''runtime.validation.rate_limited'']"

text \<open>\<^verbatim>\<open>/input schema validation failed/i\<close>, \<^verbatim>\<open>/approval.*required|approval.*rejected/i\<close> and
  \<^verbatim>\<open>/unavailable because runtime control method/i\<close>\<close>

definition no_line_break :: "char \<Rightarrow> bool" where
  "no_line_break c = (c \<noteq> CHR 0x0A \<and> c \<noteq> CHR 0x0D)"

definition fatal_message_re :: re where
  "fatal_message_re =
     Alts (Lit_i ''input schema validation failed'')
       [Sequ (Lit_i ''approval'') (Sequ (Star (Chr no_line_break)) (Lit_i ''required'')),
        Sequ (Lit_i ''approval'') (Sequ (Star (Chr no_line_break)) (Lit_i ''rejected'')),
        Lit_i ''unavailable because runtime control method'']"

definition isFatalBatchAttemptError :: "thrown \<Rightarrow> bool" where
  "isFatalBatchAttemptError e =
     ((case readRuntimeCode e of None \<Rightarrow> False | Some c \<Rightarrow> c \<in> set fatal_codes)
      \<or> re_test fatal_message_re (th_message e))"

definition isTimeoutLikeError :: "thrown \<Rightarrow> bool" where
  "isTimeoutLikeError e = re_test (Lit_i ''timed out'') (th_message e)"

section \<open>The runtime\<close>

record send_input =
  sd_sessionId :: string
  sd_instruction :: string
  sd_requestId :: string
  sd_requiresApproval :: "bool option"
  sd_approvalReason :: "string option"

record wait_input =
  wi_sessionId :: string
  wi_timeoutMs :: "int option"
  wi_pollIntervalMs :: "int option"

record close_input =
  ci_sessionId :: string
  ci_reason :: string
  ci_force :: bool

datatype runtime_call = SpawnCall spawn_input | SendCall send_input | WaitCall wait_input | CloseCall close_input

text \<open>What the methods of the runtime give for a task and an attempt.  A session may be ended twice in
  an attempt; the first argument that follows the attempt says which of the two it is.\<close>

record runtime_methods =
  rm_spawn :: "string \<Rightarrow> int \<Rightarrow> spawn_input \<Rightarrow> thrown + sub_session"
  rm_send :: "string \<Rightarrow> int \<Rightarrow> send_input \<Rightarrow> thrown + sub_session option"
  rm_wait :: "string \<Rightarrow> int \<Rightarrow> wait_input \<Rightarrow> thrown + wait_result"
  rm_close :: "(string \<Rightarrow> int \<Rightarrow> nat \<Rightarrow> close_input \<Rightarrow> thrown + js_value) option"

record batch_env =
  en_input :: js_object
  en_agent :: js_value
  en_snapshotWorkspaceId :: string
  en_index :: "catalog_index option"
  en_methods :: runtime_methods
  en_batchRunId :: string

section \<open>One attempt\<close>

definition strip_dashes :: "string \<Rightarrow> string" where
  "strip_dashes s = rev (dropWhile (\<lambda>c. c = CHR ''-'') (rev (dropWhile (\<lambda>c. c = CHR ''-'') s)))"

definition normalizeTaskKeyForRequestId :: "string \<Rightarrow> string" where
  "normalizeTaskKeyForRequestId k =
     (let normalized = replace_all (Plus (Chr (\<lambda>c. \<not> (is_lower c \<or> is_digit c)))) (\<lambda>_. ''-'') (to_lower (js_trim k))
      in if normalized \<noteq> [] then strip_dashes normalized else ''task'')"

definition buildBatchTaskRequestId :: "string \<Rightarrow> task_input \<Rightarrow> int \<Rightarrow> string" where
  "buildBatchTaskRequestId batchRunId task attempt =
     (case toNonEmptyString (field (tk_input task) ''requestId'') of Some explicit \<Rightarrow> explicit
      | None \<Rightarrow> ''webmcp:sub-agent-batch:'' @ batchRunId @ '':'' @ normalizeTaskKeyForRequestId (tk_taskKey task)
          @ '':attempt-'' @ show_int attempt)"

definition buildRuntimeSubAgentSessionHandle :: "sub_session \<Rightarrow> sub_session" where
  "buildRuntimeSubAgentSessionHandle s =
     \<lparr>sn_sessionId = sn_sessionId s, sn_status = sn_status s, sn_activeTaskId = sn_activeTaskId s,
      sn_lastTaskId = sn_lastTaskId s, sn_checkpointId = sn_checkpointId s, sn_traceId = sn_traceId s,
      sn_recovered = sn_recovered s\<rparr>"

definition opt_str :: "string option \<Rightarrow> js_value" where
  "opt_str v = (case v of None \<Rightarrow> Null | Some s \<Rightarrow> Str s)"

text \<open>\<open>defaultWorkspaceId\<close>, \<open>shouldClose\<close>, \<open>closeReason\<close>, and the value of a field of the task, or of the
  batch where the task has none\<close>

definition defaultWorkspaceId :: "batch_env \<Rightarrow> string" where
  "defaultWorkspaceId env =
     nullish (toNonEmptyString (field (en_input env) ''workspaceId'')) (en_snapshotWorkspaceId env)"

definition shouldClose :: "batch_env \<Rightarrow> task_input \<Rightarrow> bool" where
  "shouldClose env task =
     nullish (nullish2 (as_bool (field (tk_input task) ''closeSubAgentSession''))
       (as_bool (field (en_input env) ''closeSubAgentSession''))) True"

definition closeReason :: "batch_env \<Rightarrow> task_input \<Rightarrow> string" where
  "closeReason env task =
     nullish (nullish2 (toNonEmptyString (field (tk_input task) ''closeReason''))
       (toNonEmptyString (field (en_input env) ''closeReason''))) ''webmcp:sub-agent-batch-task-complete''"

definition text_setting :: "batch_env \<Rightarrow> task_input \<Rightarrow> string \<Rightarrow> string option" where
  "text_setting env task k =
     nullish2 (toNonEmptyString (field (tk_input task) k)) (toNonEmptyString (field (en_input env) k))"

definition raw_setting :: "batch_env \<Rightarrow> task_input \<Rightarrow> string \<Rightarrow> js_value" where
  "raw_setting env task k =
     (if field (tk_input task) k \<noteq> Undefined then field (tk_input task) k else field (en_input env) k)"

definition spawnPayload :: "batch_env \<Rightarrow> task_input \<Rightarrow> js_object" where
  "spawnPayload env task =
     (let (provider, modelId) = resolveProviderModelFromInputAndAgent (en_input env) (en_agent env);
          own = (\<lambda>k. toNonEmptyString (field (tk_input task) k))
      in [(''workspaceId'', Str (nullish (own ''workspaceId'') (defaultWorkspaceId env))),
          (''threadId'', opt_str (text_setting env task ''threadId'')),
          (''title'', opt_str (own ''title'')),
          (''accessMode'', opt_str (text_setting env task ''accessMode'')),
          (''reasonEffort'', opt_str (text_setting env task ''reasonEffort'')),
          (''provider'', opt_str (nullish2 (own ''provider'') provider)),
          (''modelId'', opt_str (nullish2 (own ''modelId'') modelId)),
          (''scopeProfile'', opt_str (text_setting env task ''scopeProfile'')),
          (''allowedSkillIds'', raw_setting env task ''allowedSkillIds''),
          (''allowNetwork'', case as_bool (field (tk_input task) ''allowNetwork'') of
             Some b \<Rightarrow> Bool b | None \<Rightarrow> field (en_input env) ''allowNetwork''),
          (''workspaceReadPaths'', raw_setting env task ''workspaceReadPaths''),
          (''parentRunId'', opt_str (text_setting env task ''parentRunId''))])"

definition spawn_of :: "batch_env \<Rightarrow> task_input \<Rightarrow> spawn_input" where
  "spawn_of env task =
     normalizeSubAgentSpawnInput (spawnPayload env task) (en_snapshotWorkspaceId env) (en_index env) (en_agent env)"

definition send_of :: "batch_env \<Rightarrow> task_input \<Rightarrow> int \<Rightarrow> string \<Rightarrow> send_input" where
  "send_of env task attempt sessionId =
     \<lparr>sd_sessionId = sessionId, sd_instruction = tk_instruction task,
      sd_requestId = buildBatchTaskRequestId (en_batchRunId env) task attempt,
      sd_requiresApproval = nullish2 (as_bool (field (tk_input task) ''requiresApproval''))
        (as_bool (field (en_input env) ''requiresApproval'')),
      sd_approvalReason = text_setting env task ''approvalReason''\<rparr>"

definition wait_of :: "batch_env \<Rightarrow> task_input \<Rightarrow> string \<Rightarrow> wait_input" where
  "wait_of env task sessionId =
     \<lparr>wi_sessionId = sessionId,
      wi_timeoutMs = nullish2 (toPositiveInteger (field (tk_input task) ''waitTimeoutMs''))
        (toPositiveInteger (field (en_input env) ''waitTimeoutMs'')),
      wi_pollIntervalMs = nullish2 (toPositiveInteger (field (tk_input task) ''waitPollIntervalMs''))
        (toPositiveInteger (field (en_input env) ''waitPollIntervalMs''))\<rparr>"

definition close_of :: "batch_env \<Rightarrow> task_input \<Rightarrow> string \<Rightarrow> bool \<Rightarrow> close_input" where
  "close_of env task sessionId force =
     \<lparr>ci_sessionId = sessionId, ci_reason = closeReason env task, ci_force = force\<rparr>"

definition skill_resolution_of :: "batch_env \<Rightarrow> task_input \<Rightarrow> allowed_resolution option" where
  "skill_resolution_of env task =
     buildRuntimeAllowedSkillResolution (raw_setting env task ''allowedSkillIds'') (en_index env)"

definition tool_name :: string where "tool_name = ''orchestrate-runtime-sub-agent-batch''"

text \<open>The close at the end of the \<open>try\<close> block, when there is one\<close>

definition close_after_wait ::
    "batch_env \<Rightarrow> task_input \<Rightarrow> int \<Rightarrow> string \<Rightarrow> wait_result \<Rightarrow> (thrown + js_value option) \<times> runtime_call list" where
  "close_after_wait env task attempt sessionId w =
     (case rm_close (en_methods env) of
        Some close_session \<Rightarrow>
          (if shouldClose env task \<and> (wa_done w \<or> wa_timedOut w)
           then let c = close_of env task sessionId (wa_timedOut w)
                in (map_sum id Some (close_session (tk_taskKey task) attempt 0 c), [CloseCall c])
           else (Inr None, []))
      | None \<Rightarrow> (Inr None, []))"

definition attempt_end ::
    "batch_env \<Rightarrow> task_input \<Rightarrow> sub_session \<Rightarrow> sub_session option \<Rightarrow> wait_result \<Rightarrow> js_value option
     \<Rightarrow> attempt_failure + attempt_success" where
  "attempt_end env task session dispatched w ended =
     (if wa_timedOut w
      then Inl \<lparr>af_error = ''Timed out while waiting for sub-agent session '' @ sn_sessionId session @ ''.'',
             af_timedOut = True, af_fatal = False, af_resolution = skill_resolution_of env task, af_close = ended\<rparr>
      else Inr \<lparr>as_sessionId = sn_sessionId session, as_session = session,
             as_handle = buildRuntimeSubAgentSessionHandle (nullish (nullish2 (wa_session w) dispatched) session),
             as_resolution = skill_resolution_of env task, as_dispatch = dispatched, as_wait = w,
             as_close = ended\<rparr>)"

text \<open>The \<open>try\<close> block: what it throws or gives, the calls it made, and the session it had opened\<close>

definition attempt_body ::
    "batch_env \<Rightarrow> task_input \<Rightarrow> int
     \<Rightarrow> (thrown + (attempt_failure + attempt_success)) \<times> runtime_call list \<times> string option" where
  "attempt_body env task attempt =
     (let key = tk_taskKey task; spawn = spawn_of env task in
      case assertKnownRuntimeLiveSkillIds (sp_allowedSkillIds spawn) (map_option ki_known (en_index env)) tool_name of
        Some e \<Rightarrow> (Inl e, [], None)
      | None \<Rightarrow>
      (case rm_spawn (en_methods env) key attempt spawn of Inl e \<Rightarrow> (Inl e, [SpawnCall spawn], None)
       | Inr session \<Rightarrow>
           let i = sn_sessionId session; send = send_of env task attempt i; wait = wait_of env task i in
           (case rm_send (en_methods env) key attempt send of
              Inl e \<Rightarrow> (Inl e, [SpawnCall spawn, SendCall send], Some i)
            | Inr dispatched \<Rightarrow>
                (case rm_wait (en_methods env) key attempt wait of
                   Inl e \<Rightarrow> (Inl e, [SpawnCall spawn, SendCall send, WaitCall wait], Some i)
                 | Inr w \<Rightarrow>
                     let (ended, more) = close_after_wait env task attempt i w
                     in (map_sum id (attempt_end env task session dispatched w) ended,
                         [SpawnCall spawn, SendCall send, WaitCall wait] @ more, Some i)))))"

fun is_close :: "runtime_call \<Rightarrow> bool" where
  "is_close (CloseCall _) = True"
| "is_close _ = False"

text \<open>The close of the \<open>catch\<close> block, which swallows what it throws\<close>

definition close_after_error ::
    "batch_env \<Rightarrow> task_input \<Rightarrow> int \<Rightarrow> nat \<Rightarrow> string option \<Rightarrow> js_value option \<times> runtime_call list" where
  "close_after_error env task attempt n spawned =
     (case (rm_close (en_methods env), spawned) of
        (Some close_session, Some i) \<Rightarrow>
          (if shouldClose env task \<and> i \<noteq> []
           then let c = close_of env task i True
                in (case close_session (tk_taskKey task) attempt n c of Inl _ \<Rightarrow> None | Inr v \<Rightarrow> Some v, [CloseCall c])
           else (None, []))
      | _ \<Rightarrow> (None, []))"

definition runTaskAttempt ::
    "batch_env \<Rightarrow> task_input \<Rightarrow> int \<Rightarrow> (attempt_failure + attempt_success) \<times> runtime_call list" where
  "runTaskAttempt env task attempt =
     (let (outcome, calls, spawned) = attempt_body env task attempt in
      case outcome of Inr r \<Rightarrow> (r, calls)
      | Inl e \<Rightarrow>
          let (ended, more) = close_after_error env task attempt (length (filter is_close calls)) spawned
          in (Inl \<lparr>af_error = th_message e, af_timedOut = isTimeoutLikeError e, af_fatal = isFatalBatchAttemptError e,
                 af_resolution = skill_resolution_of env task, af_close = ended\<rparr>, calls @ more))"

section \<open>Attempts\<close>

definition failed_result :: "task_input \<Rightarrow> int \<Rightarrow> int \<Rightarrow> attempt_failure option \<Rightarrow> task_result" where
  "failed_result task attempts retried f =
     result_of task attempts retried (Failed
       (nullish f \<lparr>af_error = ''Task failed.'', af_timedOut = False, af_fatal = False, af_resolution = None,
          af_close = None\<rparr>))"

function run_attempts ::
    "batch_env \<Rightarrow> task_input \<Rightarrow> int \<Rightarrow> int \<Rightarrow> attempt_failure option \<Rightarrow> task_result \<times> runtime_call list" where
  "run_attempts env task attempts retried failure =
     (if attempts < tk_maxRetries task + 1
      then let n = attempts + 1; (outcome, calls) = runTaskAttempt env task n in
        (case outcome of
           Inr success \<Rightarrow> (result_of task n retried (Succeeded success), calls)
         | Inl f \<Rightarrow>
             if af_fatal f then (failed_result task n retried (Some f), calls)
             else let retried' = (if n < tk_maxRetries task + 1 then retried + 1 else retried);
                      (result, more) = run_attempts env task n retried' (Some f)
                  in (result, calls @ more))
      else (failed_result task attempts retried failure, []))"
  by auto

termination by (relation "measure (\<lambda>(_, task, attempts, _, _). nat (tk_maxRetries task + 1 - attempts))") auto

declare run_attempts.simps [simp del]

definition runTaskWithRetries :: "batch_env \<Rightarrow> task_input \<Rightarrow> task_result \<times> runtime_call list" where
  "runTaskWithRetries env task = run_attempts env task 0 0 None"

end
