(* ===== verification/SubAgentBatchRun.thy ===== *)
theory SubAgentBatchRun
  imports SubAgentBatch
begin

text \<open>
  The waves of a batch and its journal, from
  \<^verbatim>\<open>src/apps/code/src/services/webMcpBridgeRuntimeSubAgentBatchTool.ts\<close>: which tasks of a chunk run, when
  the batch stops, how a batch is resumed, and the whole of the tool.
\<close>

section \<open>The journal\<close>

record journal_entry =
  je_batchRunId :: string
  je_idempotencyKey :: string
  je_workspaceId :: string
  je_updatedAt :: int
  je_results :: "(string \<times> task_result) list"

type_synonym journals = "(string \<times> journal_entry) list"

definition buildBatchJournalKey :: "string \<Rightarrow> string \<Rightarrow> string" where
  "buildBatchJournalKey workspaceId idempotencyKey = workspaceId @ '':'' @ idempotencyKey"

fun trimJournalIfNeeded :: "journals \<Rightarrow> journals" where
  "trimJournalIfNeeded [] = []"
| "trimJournalIfNeeded ((k, e) # m) =
     (if length ((k, e) # m) > 64 then if k = [] then (k, e) # m else trimJournalIfNeeded m else (k, e) # m)"

definition upsertBatchJournalEntry :: "journal_entry \<Rightarrow> journals \<Rightarrow> journals" where
  "upsertBatchJournalEntry e m =
     trimJournalIfNeeded (map_put (buildBatchJournalKey (je_workspaceId e) (je_idempotencyKey e)) e m)"

section \<open>Chunks and waves\<close>

record batch_state =
  bs_results :: "(string \<times> task_result) list"
  bs_journal :: journal_entry
  bs_journals :: journals
  bs_stop :: bool
  bs_moment :: nat
  bs_calls :: "(string \<times> runtime_call list) list list"

definition task_of :: "task_input list \<Rightarrow> string \<Rightarrow> task_input option" where
  "task_of tasks k = map_of (rev (map (\<lambda>t. (tk_taskKey t, t)) tasks)) k"

definition result_at :: "(string \<times> task_result) list \<Rightarrow> string \<Rightarrow> task_result option" where
  "result_at results k = map_of results k"

definition blocked_by :: "(string \<times> task_result) list \<Rightarrow> task_input \<Rightarrow> string list" where
  "blocked_by results task =
     filter (\<lambda>d. case result_at results d of None \<Rightarrow> True | Some r \<Rightarrow> \<not> succeeded r) (tk_dependsOn task)"

definition select_task ::
    "task_input list \<Rightarrow> bool \<Rightarrow> (string \<times> task_result) list \<times> task_input list \<Rightarrow> string
     \<Rightarrow> (string \<times> task_result) list \<times> task_input list" where
  "select_task tasks stopped = (\<lambda>(results, runnable) k.
     if result_at results k \<noteq> None then (results, runnable)
     else case task_of tasks k of None \<Rightarrow> (results, runnable)
       | Some task \<Rightarrow>
           let blockedBy = blocked_by results task
           in if blockedBy \<noteq> [] then (map_put k (toSkippedResult task DependencyFailed blockedBy) results, runnable)
              else if stopped then (map_put k (toSkippedResult task StoppedByPolicy []) results, runnable)
              else (results, runnable @ [task]))"

definition note_result :: "batch_state \<Rightarrow> task_result \<Rightarrow> batch_state" where
  "note_result st r =
     st\<lparr>bs_results := map_put (tr_taskKey r) r (bs_results st),
        bs_journal := (bs_journal st)\<lparr>je_results := map_put (tr_taskKey r) r (je_results (bs_journal st))\<rparr>,
        bs_stop := bs_stop st \<or> stops_batch r\<rparr>"

text \<open>\<open>journal.updatedAt = Date.now(); upsertBatchJournalEntry(journal)\<close>\<close>

definition save_journal :: "(nat \<Rightarrow> int) \<Rightarrow> batch_state \<Rightarrow> batch_state" where
  "save_journal clock st =
     (let journal = (bs_journal st)\<lparr>je_updatedAt := clock (bs_moment st)\<rparr>
      in st\<lparr>bs_journal := journal, bs_journals := upsertBatchJournalEntry journal (bs_journals st),
            bs_moment := Suc (bs_moment st)\<rparr>)"

definition run_chunk ::
    "(nat \<Rightarrow> int) \<Rightarrow> batch_env \<Rightarrow> task_input list \<Rightarrow> batch_state \<Rightarrow> string list \<Rightarrow> batch_state" where
  "run_chunk clock env tasks st chunk =
     (let (results, runnable) = foldl (select_task tasks (bs_stop st)) (bs_results st, []) chunk;
          ran = map (runTaskWithRetries env) runnable;
          noted = foldl note_result (st\<lparr>bs_results := results\<rparr>) (map fst ran)
      in save_journal clock (noted\<lparr>bs_calls := bs_calls noted @ [zip (map tk_taskKey runnable) (map snd ran)]\<rparr>))"

fun run_chunks ::
    "(nat \<Rightarrow> int) \<Rightarrow> batch_env \<Rightarrow> task_input list \<Rightarrow> batch_state \<Rightarrow> string list list \<Rightarrow> batch_state" where
  "run_chunks clock env tasks st [] = st"
| "run_chunks clock env tasks st (chunk # chunks) =
     (let st' = run_chunk clock env tasks st chunk
      in if bs_stop st' then st' else run_chunks clock env tasks st' chunks)"

definition skip_task :: "task_input list \<Rightarrow> batch_state \<Rightarrow> string \<Rightarrow> batch_state" where
  "skip_task tasks st k =
     (if result_at (bs_results st) k \<noteq> None then st
      else case task_of tasks k of None \<Rightarrow> st
        | Some task \<Rightarrow> st\<lparr>bs_results := map_put k (toSkippedResult task StoppedByPolicy []) (bs_results st)\<rparr>)"

definition run_wave ::
    "(nat \<Rightarrow> int) \<Rightarrow> batch_env \<Rightarrow> task_input list \<Rightarrow> nat \<Rightarrow> batch_state \<Rightarrow> string list \<Rightarrow> batch_state" where
  "run_wave clock env tasks maxParallel st wave =
     (if bs_stop st then foldl (skip_task tasks) st wave
      else let st' = run_chunks clock env tasks st (chunkArray wave maxParallel)
           in if bs_stop st' then foldl (skip_task tasks) st' wave else st')"

section \<open>The batch\<close>

record batch_summary =
  sm_total :: nat
  sm_succeeded :: nat
  sm_failed :: nat
  sm_skipped :: nat
  sm_resumed :: nat
  sm_retried :: int
  sm_timedOut :: nat

fun is_failed :: "task_outcome \<Rightarrow> bool" where
  "is_failed (Failed _) = True"
| "is_failed _ = False"

fun is_skipped :: "task_outcome \<Rightarrow> bool" where
  "is_skipped (Skipped _ _) = True"
| "is_skipped _ = False"

definition summarize_batch :: "task_result list \<Rightarrow> batch_summary" where
  "summarize_batch results =
     \<lparr>sm_total = length results, sm_succeeded = length (filter succeeded results),
      sm_failed = length (filter (\<lambda>r. is_failed (tr_outcome r)) results),
      sm_skipped = length (filter (\<lambda>r. is_skipped (tr_outcome r)) results),
      sm_resumed = length (filter tr_resumed results),
      sm_retried = foldl (\<lambda>n r. n + tr_retried r) 0 results,
      sm_timedOut = length (filter timed_out results)\<rparr>"

record batch_response =
  br_workspaceId :: string
  br_batchRunId :: string
  br_idempotencyKey :: string
  br_resumeApplied :: bool
  br_resumeFromBatchRunId :: "string option"
  br_plan :: batch_plan
  br_journalKey :: string
  br_updatedAt :: int
  br_trackedTasks :: nat
  br_summary :: batch_summary
  br_results :: "task_result list"

definition toResumedResult :: "task_result \<Rightarrow> task_result" where
  "toResumedResult r = r\<lparr>tr_resumed := True\<rparr>"

definition resume_applied :: "journal_entry option \<Rightarrow> string option \<Rightarrow> string \<Rightarrow> bool" where
  "resume_applied existing resumeFrom batchRunId =
     (case existing of None \<Rightarrow> False
      | Some e \<Rightarrow> je_batchRunId e = nullish resumeFrom batchRunId)"

text \<open>The journal and the results that a batch starts with\<close>

definition start_batch ::
    "(nat \<Rightarrow> int) \<Rightarrow> journals \<Rightarrow> journal_entry option \<Rightarrow> bool \<Rightarrow> string \<Rightarrow> string \<Rightarrow> string \<Rightarrow> batch_state" where
  "start_batch clock m existing resumed batchRunId idempotencyKey workspaceId =
     (let fresh = \<lparr>je_batchRunId = batchRunId, je_idempotencyKey = idempotencyKey, je_workspaceId = workspaceId,
            je_updatedAt = clock 0, je_results = []\<rparr>;
          journal = (if resumed then nullish existing fresh else fresh)
      in \<lparr>bs_results = (if resumed then map (map_prod id toResumedResult) (je_results journal) else []),
          bs_journal = journal, bs_journals = m, bs_stop = False, bs_moment = 1, bs_calls = []\<rparr>)"

definition batch_results :: "task_input list \<Rightarrow> (string \<times> task_result) list \<Rightarrow> task_result list" where
  "batch_results tasks results =
     map (\<lambda>t. nullish (result_at results (tk_taskKey t)) (toSkippedResult t StoppedByPolicy [])) tasks"

definition results_map :: "task_result list \<Rightarrow> (string \<times> task_result) list" where
  "results_map results = foldl (\<lambda>m r. map_put (tr_taskKey r) r m) [] results"

definition run_batch ::
    "(nat \<Rightarrow> int) \<Rightarrow> batch_env \<Rightarrow> task_input list \<Rightarrow> batch_plan \<Rightarrow> batch_state \<Rightarrow> task_result list \<times> batch_state" where
  "run_batch clock env tasks plan st =
     (let ended = foldl (run_wave clock env tasks (nat (bl_maxParallel plan))) st (bl_waves plan);
          results = batch_results tasks (bs_results ended)
      in (results, save_journal clock
           (ended\<lparr>bs_journal := (bs_journal ended)\<lparr>je_results := results_map results\<rparr>\<rparr>)))"

section \<open>The tool\<close>

text \<open>\<open>await e\<close> of something that may throw\<close>

definition try_then :: "'e + 'a \<Rightarrow> ('a \<Rightarrow> 'e + 'b) \<Rightarrow> 'e + 'b" where
  "try_then r f = (case r of Inl e \<Rightarrow> Inl e | Inr v \<Rightarrow> f v)"

lemma try_then_Inr [simp]: "try_then (Inr v) f = f v"
  by (simp add: try_then_def)

lemma try_then_Inl [simp]: "try_then (Inl e) f = Inl e"
  by (simp add: try_then_def)

lemma try_then_eq_Inr: "try_then r f = Inr b \<longleftrightarrow> (\<exists>v. r = Inr v \<and> f v = Inr b)"
  by (cases r) simp_all

text \<open>Who is asked for approval: the handler of the bridge, or else the browser; the agent may wrap the
  question.\<close>

record approval =
  ap_onApprovalRequest :: "(string \<Rightarrow> thrown + bool) option"
  ap_windowConfirm :: "(string \<Rightarrow> thrown + bool) option"
  ap_requestUserInteraction :: "((thrown + bool) \<Rightarrow> thrown + bool) option"

definition askForApproval :: "approval \<Rightarrow> string \<Rightarrow> thrown + bool" where
  "askForApproval ap message =
     (case ap_onApprovalRequest ap of Some ask \<Rightarrow> ask message
      | None \<Rightarrow> (case ap_windowConfirm ap of Some ask \<Rightarrow> ask message | None \<Rightarrow> Inr False))"

definition confirmWriteAction :: "approval \<Rightarrow> bool \<Rightarrow> string \<Rightarrow> thrown + unit" where
  "confirmWriteAction ap requireUserApproval message =
     (if \<not> requireUserApproval then Inr ()
      else let answer = (case ap_requestUserInteraction ap of Some wrap \<Rightarrow> wrap (askForApproval ap message)
                         | None \<Rightarrow> askForApproval ap message)
        in try_then answer (\<lambda>approved.
             if approved then Inr ()
             else Inl (createRuntimeError (Some ''runtime.validation.approval.rejected'')
               ''Action cancelled: user approval is required.'')))"

definition requireSubAgentControlMethod :: "'m option \<Rightarrow> string \<Rightarrow> string \<Rightarrow> thrown + 'm" where
  "requireSubAgentControlMethod m methodName toolName =
     (case m of Some f \<Rightarrow> Inr f
      | None \<Rightarrow> Inl (plain_error (''Tool '' @ toolName @ '' is unavailable because runtime control method ''
          @ methodName @ '' is not implemented.'')))"

record sub_control =
  sc_spawn :: "(string \<Rightarrow> int \<Rightarrow> spawn_input \<Rightarrow> thrown + sub_session) option"
  sc_send :: "(string \<Rightarrow> int \<Rightarrow> send_input \<Rightarrow> thrown + sub_session option) option"
  sc_wait :: "(string \<Rightarrow> int \<Rightarrow> wait_input \<Rightarrow> thrown + wait_result) option"
  sc_close :: "(string \<Rightarrow> int \<Rightarrow> nat \<Rightarrow> close_input \<Rightarrow> thrown + js_value) option"
  sc_listLiveSkills :: "(thrown + live_skill list) option"

record batch_tool =
  bx_workspaceId :: string
  bx_workspaceName :: string
  bx_control :: sub_control
  bx_requireUserApproval :: bool
  bx_approval :: approval

definition required_methods :: "sub_control \<Rightarrow> thrown + runtime_methods" where
  "required_methods c =
     try_then (requireSubAgentControlMethod (sc_spawn c) ''spawnSubAgentSession'' tool_name) (\<lambda>spawn.
     try_then (requireSubAgentControlMethod (sc_send c) ''sendSubAgentInstruction'' tool_name) (\<lambda>send.
     try_then (requireSubAgentControlMethod (sc_wait c) ''waitSubAgentSession'' tool_name) (\<lambda>wait.
     Inr \<lparr>rm_spawn = spawn, rm_send = send, rm_wait = wait, rm_close = sc_close c\<rparr>)))"

definition task_inputs :: "js_object \<Rightarrow> thrown + js_object list" where
  "task_inputs input =
     (let xs = toRecordArray (field input ''tasks'')
      in if xs = [] then Inl (plain_error ''tasks must include at least one item.'')
         else if length xs > 12 then Inl (plain_error ''tasks supports up to 12 items per batch.'')
         else Inr xs)"

definition getRuntimeLiveSkillCatalogIndex :: "(thrown + live_skill list) option \<Rightarrow> thrown + catalog_index option" where
  "getRuntimeLiveSkillCatalogIndex listed =
     (case listed of None \<Rightarrow> Inr None
      | Some r \<Rightarrow> try_then r (\<lambda>skills. Inr (Some (buildRuntimeLiveSkillCatalogIndex skills))))"

definition plan_task :: "js_object \<Rightarrow> task_input \<Rightarrow> batch_task" where
  "plan_task input t =
     \<lparr>bt_index = int (tk_index t), bt_taskKey = tk_taskKey t, bt_dependsOn = tk_dependsOn t,
      bt_requiresApproval = nullish (nullish2 (as_bool (field (tk_input t) ''requiresApproval''))
        (as_bool (field input ''requiresApproval''))) False\<rparr>"

definition plan_of :: "js_object \<Rightarrow> js_value \<Rightarrow> task_input list \<Rightarrow> thrown + batch_plan" where
  "plan_of input agent tasks =
     (let (provider, modelId) = resolveProviderModelFromInputAndAgent input agent
      in map_sum plain_error id
           (planRuntimeSubAgentBatch (normalizeBatchExecutionMode (field input ''executionMode''))
              (toOptionalInteger (field input ''maxParallel'')) provider modelId (map (plan_task input) tasks)))"

text \<open>\<open>execute\<close>: the answer, and the state in which the batch ended\<close>

definition execute_batch ::
    "(nat \<Rightarrow> int) \<Rightarrow> string \<Rightarrow> batch_tool \<Rightarrow> journals \<Rightarrow> js_object \<Rightarrow> js_value
     \<Rightarrow> thrown + batch_response \<times> batch_state" where
  "execute_batch clock freshRunId tool m input agent =
     try_then (confirmWriteAction (bx_approval tool) (bx_requireUserApproval tool)
         (''Run runtime sub-agent batch in workspace '' @ bx_workspaceName tool @ ''?'')) (\<lambda>_.
     try_then (required_methods (bx_control tool)) (\<lambda>methods.
     try_then (task_inputs input) (\<lambda>inputs.
     let workspaceId = nullish (toNonEmptyString (field input ''workspaceId'')) (bx_workspaceId tool);
         batchRunId = nullish (toNonEmptyString (field input ''batchRunId'')) freshRunId;
         idempotencyKey = nullish (toNonEmptyString (field input ''idempotencyKey'')) batchRunId;
         resumeFrom = toNonEmptyString (field input ''resumeFromBatchRunId'') in
     try_then (getRuntimeLiveSkillCatalogIndex (sc_listLiveSkills (bx_control tool))) (\<lambda>index.
     try_then (normalize_tasks 0 inputs) (\<lambda>tasks.
     try_then (plan_of input agent tasks) (\<lambda>plan.
     let existing = map_of m (buildBatchJournalKey workspaceId idempotencyKey);
         resumed = resume_applied existing resumeFrom batchRunId;
         env = \<lparr>en_input = input, en_agent = agent, en_snapshotWorkspaceId = bx_workspaceId tool,
                en_index = index, en_methods = methods, en_batchRunId = batchRunId\<rparr>;
         (results, ended) = run_batch clock env tasks plan
           (start_batch clock m existing resumed batchRunId idempotencyKey workspaceId);
         journal = bs_journal ended
     in Inr (\<lparr>br_workspaceId = bx_workspaceId tool, br_batchRunId = je_batchRunId journal,
           br_idempotencyKey = je_idempotencyKey journal, br_resumeApplied = resumed,
           br_resumeFromBatchRunId = resumeFrom, br_plan = plan,
           br_journalKey = buildBatchJournalKey (je_workspaceId journal) (je_idempotencyKey journal),
           br_updatedAt = je_updatedAt journal, br_trackedTasks = length (je_results journal),
           br_summary = summarize_batch results, br_results = results\<rparr>, ended)))))))"

end
