(* ===== verification/SubAgentBatchFacts.thy ===== *)
theory SubAgentBatchFacts
  imports SubAgentBatchRun
begin

text \<open>
  What a batch of sub-agent tasks guarantees: how often a task is tried, that its session is closed, that
  the results are complete and justified by the dependencies, that nothing runs after the batch has
  stopped, and what a resumed batch does.
\<close>

section \<open>Attempts\<close>

fun is_spawn :: "runtime_call \<Rightarrow> bool" where
  "is_spawn (SpawnCall _) = True"
| "is_spawn _ = False"

lemma filter_spawn_close [simp]:
  "close_after_wait env task n i w = (ended, calls) \<Longrightarrow> filter is_spawn calls = []"
  by (auto simp: close_after_wait_def Let_def split: option.splits if_splits)

lemma filter_spawn_close_error [simp]:
  "close_after_error env task n k s = (ended, calls) \<Longrightarrow> filter is_spawn calls = []"
  by (auto simp: close_after_error_def Let_def split: option.splits if_splits)

lemma body_spawns: "attempt_body env task n = (outcome, calls, s) \<Longrightarrow> length (filter is_spawn calls) \<le> 1"
  by (auto simp: attempt_body_def Let_def split: option.splits sum.splits prod.splits)

lemma attempt_spawns: "runTaskAttempt env task n = (outcome, calls) \<Longrightarrow> length (filter is_spawn calls) \<le> 1"
  unfolding runTaskAttempt_def Let_def
  by (auto dest: body_spawns split: prod.splits sum.splits)

lemma run_attempts_cases:
  assumes "attempts < tk_maxRetries task + 1" "runTaskAttempt env task (attempts + 1) = (outcome, first)"
  shows "outcome = Inr s \<Longrightarrow>
      run_attempts env task attempts retried failure = (result_of task (attempts + 1) retried (Succeeded s), first)"
    and "outcome = Inl f \<Longrightarrow> af_fatal f \<or> attempts + 1 = tk_maxRetries task + 1 \<Longrightarrow>
      run_attempts env task attempts retried failure = (failed_result task (attempts + 1) retried (Some f), first)"
    and "outcome = Inl f \<Longrightarrow> \<not> af_fatal f \<Longrightarrow> attempts + 1 < tk_maxRetries task + 1 \<Longrightarrow>
      run_attempts env task attempts retried failure =
        map_prod id (\<lambda>more. first @ more) (run_attempts env task (attempts + 1) (retried + 1) (Some f))"
proof -
  note unfold = run_attempts.simps [of env task attempts retried failure]
  show "run_attempts env task attempts retried failure =
      (result_of task (attempts + 1) retried (Succeeded s), first)" if "outcome = Inr s"
    unfolding unfold using assms that by simp
  show "run_attempts env task attempts retried failure =
      (failed_result task (attempts + 1) retried (Some f), first)"
    if "outcome = Inl f" "af_fatal f \<or> attempts + 1 = tk_maxRetries task + 1"
  proof (cases "af_fatal f")
    case False
    have "run_attempts env task (attempts + 1) retried (Some f) =
        (failed_result task (attempts + 1) retried (Some f), [])"
      using that False by (subst run_attempts.simps) simp
    then show ?thesis unfolding unfold using assms that False by simp
  qed (unfold unfold, use assms that in simp)
  show "run_attempts env task attempts retried failure =
      map_prod id (\<lambda>more. first @ more) (run_attempts env task (attempts + 1) (retried + 1) (Some f))"
    if "outcome = Inl f" "\<not> af_fatal f" "attempts + 1 < tk_maxRetries task + 1"
    unfolding unfold using assms that by (simp add: map_prod_def split: prod.split)
qed

definition tried :: "task_input \<Rightarrow> int \<Rightarrow> task_result \<times> runtime_call list \<Rightarrow> bool" where
  "tried task attempts = (\<lambda>(r, calls).
     tr_index r = tk_index task \<and> tr_taskKey r = tk_taskKey task \<and> tr_dependsOn r = tk_dependsOn task
     \<and> tr_onFailure r = tk_onFailure task \<and> \<not> tr_resumed r \<and> \<not> is_skipped (tr_outcome r)
     \<and> attempts < tr_attempts r \<and> tr_attempts r \<le> tk_maxRetries task + 1 \<and> tr_retried r = tr_attempts r - 1
     \<and> (\<forall>f. tr_outcome r = Failed f \<longrightarrow> af_fatal f \<or> tr_attempts r = tk_maxRetries task + 1)
     \<and> int (length (filter is_spawn calls)) \<le> tr_attempts r - attempts)"

lemma run_attempts_tried:
  "attempts < tk_maxRetries task + 1 \<Longrightarrow> tried task attempts (run_attempts env task attempts attempts failure)"
proof (induction "nat (tk_maxRetries task - attempts)" arbitrary: attempts failure)
  case 0
  obtain outcome first where step: "runTaskAttempt env task (attempts + 1) = (outcome, first)" by fastforce
  then have "length (filter is_spawn first) \<le> 1" by (rule attempt_spawns)
  then show ?case using 0 run_attempts_cases(1,2) [OF 0(2) step]
    by (cases outcome) (auto simp: tried_def result_of_def failed_result_def)
next
  case (Suc n)
  obtain outcome first where step: "runTaskAttempt env task (attempts + 1) = (outcome, first)" by fastforce
  then have spawns: "length (filter is_spawn first) \<le> 1" by (rule attempt_spawns)
  show ?case
  proof (cases "\<exists>f. outcome = Inl f \<and> \<not> af_fatal f")
    case True
    then obtain f where f: "outcome = Inl f" "\<not> af_fatal f" by blast
    have "tried task (attempts + 1) (run_attempts env task (attempts + 1) (attempts + 1) (Some f))"
      using Suc by (intro Suc.hyps(1)) auto
    moreover have "attempts + 1 < tk_maxRetries task + 1" using Suc(2) by linarith
    ultimately show ?thesis
      using spawns run_attempts_cases(3) [OF Suc(3) step f]
      by (auto simp: tried_def map_prod_def split: prod.splits)
  next
    case False
    then show ?thesis using Suc(3) spawns run_attempts_cases(1,2) [OF Suc(3) step]
      by (cases outcome) (auto simp: tried_def result_of_def failed_result_def)
  qed
qed

section \<open>Chunks\<close>

lemma result_at_map_put [simp]: "result_at (map_put k r m) = (result_at m)(k \<mapsto> r)"
  by (simp add: result_at_def fun_eq_iff)

text \<open>Why a task has the result it has, given the results of all tasks\<close>

definition dependencies_met :: "(string \<Rightarrow> task_result option) \<Rightarrow> string list \<Rightarrow> bool" where
  "dependencies_met \<rho> ds \<longleftrightarrow> (\<forall>d \<in> set ds. \<exists>r. \<rho> d = Some r \<and> succeeded r)"

definition justified :: "(string \<Rightarrow> task_result option) \<Rightarrow> task_result \<Rightarrow> bool" where
  "justified \<rho> r =
     (case tr_outcome r of
        Skipped DependencyFailed bs \<Rightarrow>
          bs \<noteq> [] \<and> set (tr_dependsOn r) \<subseteq> dom \<rho>
          \<and> bs = filter (\<lambda>d. \<not> dependencies_met \<rho> [d]) (tr_dependsOn r)
      | Skipped StoppedByPolicy bs \<Rightarrow> bs = [] \<and> (\<exists>r' \<in> ran \<rho>. stops_batch r')
      | _ \<Rightarrow> dependencies_met \<rho> (tr_dependsOn r))"

definition belongs :: "task_input \<Rightarrow> task_result \<Rightarrow> bool" where
  "belongs t r \<longleftrightarrow> tr_index r = tk_index t \<and> tr_taskKey r = tk_taskKey t \<and> tr_dependsOn r = tk_dependsOn t
     \<and> tr_onFailure r = tk_onFailure t \<and> \<not> tr_resumed r"

definition results_ok :: "task_input list \<Rightarrow> (string \<Rightarrow> task_result option) \<Rightarrow> bool" where
  "results_ok tasks \<rho> \<longleftrightarrow>
     (\<forall>k r. \<rho> k = Some r \<longrightarrow> justified \<rho> r \<and> (\<exists>t \<in> set tasks. tk_taskKey t = k \<and> belongs t r))"

lemma met_mono: "dependencies_met \<rho> ds \<Longrightarrow> \<rho> \<subseteq>\<^sub>m \<rho>' \<Longrightarrow> dependencies_met \<rho>' ds"
  unfolding dependencies_met_def map_le_def by (metis domI)

lemma met_same: "d \<in> dom \<rho> \<Longrightarrow> \<rho> \<subseteq>\<^sub>m \<rho>' \<Longrightarrow> dependencies_met \<rho>' [d] = dependencies_met \<rho> [d]"
  unfolding dependencies_met_def map_le_def by auto

lemma ran_mono: "\<rho> \<subseteq>\<^sub>m \<rho>' \<Longrightarrow> r \<in> ran \<rho> \<Longrightarrow> r \<in> ran \<rho>'"
  unfolding map_le_def ran_def by (smt (verit) domI mem_Collect_eq)

lemma justified_mono:
  assumes "justified \<rho> r" "\<rho> \<subseteq>\<^sub>m \<rho>'"
  shows "justified \<rho>' r"
proof -
  have "filter (\<lambda>d. \<not> dependencies_met \<rho>' [d]) (tr_dependsOn r) = filter (\<lambda>d. \<not> dependencies_met \<rho> [d]) (tr_dependsOn r)"
    if "set (tr_dependsOn r) \<subseteq> dom \<rho>"
    using met_same [OF _ assms(2)] that by (intro filter_cong) blast+
  moreover have "set (tr_dependsOn r) \<subseteq> dom \<rho>'" if "set (tr_dependsOn r) \<subseteq> dom \<rho>"
    using that map_le_implies_dom_le [OF assms(2)] by blast
  ultimately show ?thesis
    using assms by (cases "tr_outcome r"; cases "\<exists>bs. tr_outcome r = Skipped DependencyFailed bs")
      (auto simp: justified_def met_mono ran_mono simp del: filter_empty_conv split: skip_reason.splits)
qed

lemma fresh_update: "k \<notin> dom \<rho> \<Longrightarrow> \<rho> \<subseteq>\<^sub>m \<rho>(k \<mapsto> r)"
  by (auto simp: map_le_def)

lemma results_ok_add:
  assumes "results_ok tasks \<rho>" "k \<notin> dom \<rho>" "t \<in> set tasks" "tk_taskKey t = k" "belongs t r" "justified \<rho> r"
  shows "results_ok tasks (\<rho>(k \<mapsto> r))"
  using assms justified_mono [OF _ fresh_update [OF assms(2), of r]] unfolding results_ok_def by auto

lemma task_of_Some:
  "distinct (map tk_taskKey tasks) \<Longrightarrow> task_of tasks k = Some t \<longleftrightarrow> t \<in> set tasks \<and> tk_taskKey t = k"
  unfolding task_of_def
  by (subst map_of_eq_Some_iff) (auto simp: rev_map [symmetric] comp_def)

lemma blocked_by_met:
  "blocked_by results t = filter (\<lambda>d. \<not> dependencies_met (result_at results) [d]) (tk_dependsOn t)"
  "blocked_by results t = [] \<longleftrightarrow> dependencies_met (result_at results) (tk_dependsOn t)"
proof -
  show "blocked_by results t = filter (\<lambda>d. \<not> dependencies_met (result_at results) [d]) (tk_dependsOn t)"
    unfolding blocked_by_def dependencies_met_def by (rule filter_cong) (auto split: option.splits)
  then show "blocked_by results t = [] \<longleftrightarrow> dependencies_met (result_at results) (tk_dependsOn t)"
    by (auto simp: filter_empty_conv dependencies_met_def)
qed

lemma skipped_facts [simp]:
  "belongs t (toSkippedResult t reason bs)" "tr_outcome (toSkippedResult t reason bs) = Skipped reason bs"
  "\<not> stops_batch (toSkippedResult t reason bs)" "tr_dependsOn (toSkippedResult t reason bs) = tk_dependsOn t"
  "tr_taskKey (toSkippedResult t reason bs) = tk_taskKey t"
  by (simp_all add: belongs_def toSkippedResult_def result_of_def stops_batch_def)

text \<open>What the selection of the tasks of a chunk leaves: skipped tasks in the results, and tasks to run whose
  dependencies have all succeeded.\<close>

definition selection_ok :: "task_input list \<Rightarrow> (string \<times> task_result) list \<times> task_input list \<Rightarrow> bool" where
  "selection_ok tasks = (\<lambda>(results, runnable).
     results_ok tasks (result_at results) \<and> set runnable \<subseteq> set tasks \<and> distinct (map tk_taskKey runnable)
     \<and> tk_taskKey ` set runnable \<inter> dom (result_at results) = {}
     \<and> (\<forall>t \<in> set runnable. dependencies_met (result_at results) (tk_dependsOn t)))"

definition ready_key :: "task_input list \<Rightarrow> string set \<Rightarrow> string \<Rightarrow> bool" where
  "ready_key tasks past k \<longleftrightarrow> (\<exists>t. task_of tasks k = Some t \<and> set (tk_dependsOn t) \<subseteq> past)"

lemma select_step:
  assumes "distinct (map tk_taskKey tasks)" "selection_ok tasks (results, runnable)"
    "ready_key tasks (dom (result_at results)) k" "k \<notin> dom (result_at results)" "k \<notin> tk_taskKey ` set runnable"
    "select_task tasks False (results, runnable) k = (results', runnable')"
  shows "selection_ok tasks (results', runnable') \<and> result_at results \<subseteq>\<^sub>m result_at results'
    \<and> (\<forall>j r. result_at results' j = Some r \<longrightarrow> \<not> is_skipped (tr_outcome r) \<longrightarrow> result_at results j = Some r)
    \<and> dom (result_at results') \<union> tk_taskKey ` set runnable' = insert k (dom (result_at results) \<union> tk_taskKey ` set runnable)"
proof -
  from assms(3) obtain t where t: "task_of tasks k = Some t" "set (tk_dependsOn t) \<subseteq> dom (result_at results)"
    by (auto simp: ready_key_def)
  then have mem: "t \<in> set tasks" "tk_taskKey t = k" using task_of_Some [OF assms(1)] by blast+
  have new: "result_at results k = None" using assms(4) by auto
  show ?thesis
  proof (cases "blocked_by results t = []")
    case True
    then have "results' = results" "runnable' = runnable @ [t]"
      using assms(6) t(1) new by (auto simp: select_task_def)
    with True assms(2,4,5) mem show ?thesis by (auto simp: selection_ok_def blocked_by_met(2))
  next
    case False
    let ?r = "toSkippedResult t DependencyFailed (blocked_by results t)"
    have step: "results' = map_put k ?r results" "runnable' = runnable"
      using False assms(6) t(1) new by (auto simp: select_task_def)
    have fresh: "result_at results \<subseteq>\<^sub>m (result_at results)(k \<mapsto> ?r)" using assms(4) by (rule fresh_update)
    have "justified (result_at results) ?r"
      using False t(2) by (simp add: justified_def blocked_by_met(1))
    then have "results_ok tasks (result_at results')"
      using assms(2,4) mem unfolding step by (auto simp: selection_ok_def intro: results_ok_add)
    moreover have "\<forall>t \<in> set runnable. dependencies_met (result_at results') (tk_dependsOn t)"
      using assms(2) met_mono [OF _ fresh] unfolding step selection_ok_def by simp
    ultimately show ?thesis
      using assms(2,4,5) fresh by (auto simp: step selection_ok_def ran_def split: if_splits)
  qed
qed

lemma ready_mono: "ready_key tasks A k \<Longrightarrow> A \<subseteq> B \<Longrightarrow> ready_key tasks B k"
  by (auto simp: ready_key_def)

lemma select_all:
  assumes "distinct (map tk_taskKey tasks)" "selection_ok tasks (results, runnable)" "distinct chunk"
    "\<forall>k \<in> set chunk. ready_key tasks (dom (result_at results)) k"
    "set chunk \<inter> (dom (result_at results) \<union> tk_taskKey ` set runnable) = {}"
    "foldl (select_task tasks False) (results, runnable) chunk = (results', runnable')"
  shows "selection_ok tasks (results', runnable') \<and> result_at results \<subseteq>\<^sub>m result_at results'
    \<and> (\<forall>j r. result_at results' j = Some r \<longrightarrow> \<not> is_skipped (tr_outcome r) \<longrightarrow> result_at results j = Some r)
    \<and> dom (result_at results') \<union> tk_taskKey ` set runnable'
        = set chunk \<union> (dom (result_at results) \<union> tk_taskKey ` set runnable)"
  using assms(2-6)
proof (induction chunk arbitrary: results runnable)
  case (Cons k chunk)
  obtain results1 runnable1 where one: "select_task tasks False (results, runnable) k = (results1, runnable1)" by fastforce
  have step: "selection_ok tasks (results1, runnable1) \<and> result_at results \<subseteq>\<^sub>m result_at results1
    \<and> (\<forall>j r. result_at results1 j = Some r \<longrightarrow> \<not> is_skipped (tr_outcome r) \<longrightarrow> result_at results j = Some r)
    \<and> dom (result_at results1) \<union> tk_taskKey ` set runnable1 = insert k (dom (result_at results) \<union> tk_taskKey ` set runnable)"
    using Cons.prems by (intro select_step [OF assms(1) _ _ _ _ one]) auto
  then have "dom (result_at results) \<subseteq> dom (result_at results1)" by (blast dest: map_le_implies_dom_le)
  then have "\<forall>j \<in> set chunk. ready_key tasks (dom (result_at results1)) j"
    using Cons.prems(3) by (auto intro: ready_mono)
  from Cons.IH [OF _ _ this, of runnable1] step Cons.prems one
  have "selection_ok tasks (results', runnable') \<and> result_at results1 \<subseteq>\<^sub>m result_at results'
    \<and> (\<forall>j r. result_at results' j = Some r \<longrightarrow> \<not> is_skipped (tr_outcome r) \<longrightarrow> result_at results1 j = Some r)
    \<and> dom (result_at results') \<union> tk_taskKey ` set runnable'
        = set chunk \<union> (dom (result_at results1) \<union> tk_taskKey ` set runnable1)" by auto
  with step show ?case by (auto intro: map_le_trans)
qed simp

lemma selection_length:
  "foldl (select_task tasks stopped) (results, runnable) chunk = (results', runnable') \<Longrightarrow>
     length runnable' \<le> length runnable + length chunk"
proof (induction chunk arbitrary: results runnable)
  case (Cons k chunk)
  obtain results1 runnable1 where one: "select_task tasks stopped (results, runnable) k = (results1, runnable1)" by fastforce
  then have "length runnable1 \<le> Suc (length runnable)"
    by (auto simp: select_task_def Let_def split: if_splits option.splits)
  with Cons.IH [of results1 runnable1] Cons.prems one show ?case by simp
qed simp

abbreviation results_in :: "batch_state \<Rightarrow> string \<Rightarrow> task_result option" where
  "results_in st \<equiv> result_at (bs_results st)"

lemma note_all:
  assumes "results_ok tasks (results_in st)" "distinct (map tr_taskKey rs)"
    "tr_taskKey ` set rs \<inter> dom (results_in st) = {}"
    "\<forall>r \<in> set rs. justified (results_in st) r \<and> (\<exists>t \<in> set tasks. belongs t r)"
    "foldl note_result st rs = st'"
  shows "results_ok tasks (results_in st') \<and> results_in st \<subseteq>\<^sub>m results_in st'
    \<and> dom (results_in st') = dom (results_in st) \<union> tr_taskKey ` set rs
    \<and> (\<forall>r \<in> set rs. results_in st' (tr_taskKey r) = Some r)
    \<and> ran (results_in st') = ran (results_in st) \<union> set rs
    \<and> bs_stop st' = (bs_stop st \<or> (\<exists>r \<in> set rs. stops_batch r)) \<and> bs_calls st' = bs_calls st"
  using assms
proof (induction rs arbitrary: st)
  case (Cons r rs)
  let ?st = "note_result st r"
  have new: "tr_taskKey r \<notin> dom (results_in st)" using Cons.prems(3) by auto
  have step: "results_in ?st = (results_in st)(tr_taskKey r \<mapsto> r)" "bs_stop ?st = (bs_stop st \<or> stops_batch r)"
      "bs_calls ?st = bs_calls st"
    by (simp_all add: note_result_def)
  from new have fresh: "results_in st \<subseteq>\<^sub>m results_in ?st" unfolding step by (rule fresh_update)
  obtain t where t: "t \<in> set tasks" "belongs t r" using Cons.prems(4) by auto
  then have "tk_taskKey t = tr_taskKey r" by (simp add: belongs_def)
  then have ok: "results_ok tasks (results_in ?st)"
    using Cons.prems(1,4) new t unfolding step by (auto intro: results_ok_add)
  have justified: "\<forall>r \<in> set rs. justified (results_in ?st) r \<and> (\<exists>t \<in> set tasks. belongs t r)"
    using Cons.prems(4) justified_mono [OF _ fresh] by auto
  have apart: "tr_taskKey ` set rs \<inter> dom (results_in ?st) = {}"
    using Cons.prems(2,3) unfolding step by auto
  have ran: "ran (results_in ?st) = insert r (ran (results_in st))"
    using new unfolding step by (auto simp: ran_map_upd domIff)
  from Cons.IH [OF ok _ apart justified] Cons.prems(2,5)
  have rest: "results_ok tasks (results_in st')" "results_in ?st \<subseteq>\<^sub>m results_in st'"
    "dom (results_in st') = dom (results_in ?st) \<union> tr_taskKey ` set rs"
    "\<forall>r \<in> set rs. results_in st' (tr_taskKey r) = Some r"
    "ran (results_in st') = ran (results_in ?st) \<union> set rs"
    "bs_stop st' = (bs_stop ?st \<or> (\<exists>r \<in> set rs. stops_batch r))" "bs_calls st' = bs_calls ?st" by auto
  have "results_in ?st (tr_taskKey r) = Some r" by (simp add: step)
  then have "results_in st' (tr_taskKey r) = Some r"
    using rest(2) unfolding map_le_def by (metis domI)
  moreover have "dom (results_in ?st) = insert (tr_taskKey r) (dom (results_in st))" by (simp add: step)
  ultimately show ?case
    using rest(1,4) map_le_trans [OF fresh rest(2)] unfolding rest(3,5,6,7) ran step(2,3) by auto
qed simp

section \<open>The state of a batch\<close>

definition calls_ok :: "batch_env \<Rightarrow> task_input list \<Rightarrow> nat \<Rightarrow> (string \<Rightarrow> task_result option)
     \<Rightarrow> (string \<times> runtime_call list) list list \<Rightarrow> bool" where
  "calls_ok env tasks n \<rho> calls \<longleftrightarrow>
     distinct (map fst (concat calls)) \<and> (\<forall>chunk \<in> set calls. length chunk \<le> n)
     \<and> (\<forall>(k, cs) \<in> set (concat calls). \<exists>t \<in> set tasks. tk_taskKey t = k
          \<and> \<rho> k = Some (fst (runTaskWithRetries env t)) \<and> cs = snd (runTaskWithRetries env t))
     \<and> (\<forall>k r. \<rho> k = Some r \<longrightarrow> \<not> is_skipped (tr_outcome r) \<longrightarrow> k \<in> fst ` set (concat calls))
     \<and> (\<forall>chunk \<in> set (butlast calls). \<forall>k \<in> fst ` set chunk. \<forall>r. \<rho> k = Some r \<longrightarrow> \<not> stops_batch r)"

definition batch_inv :: "batch_env \<Rightarrow> task_input list \<Rightarrow> nat \<Rightarrow> batch_state \<Rightarrow> bool" where
  "batch_inv env tasks n st \<longleftrightarrow>
     results_ok tasks (results_in st) \<and> (bs_stop st \<longleftrightarrow> (\<exists>r \<in> ran (results_in st). stops_batch r))
     \<and> calls_ok env tasks n (results_in st) (bs_calls st)"

lemma runTask_facts:
  assumes "0 \<le> tk_maxRetries t" "dependencies_met \<rho> (tk_dependsOn t)" "runTaskWithRetries env t = (r, calls)"
  shows "belongs t r" "justified \<rho> r" "tr_taskKey r = tk_taskKey t" "\<not> is_skipped (tr_outcome r)"
proof -
  have tried: "tried t 0 (r, calls)"
    using run_attempts_tried [of 0 t env None] assms(1,3) by (simp add: runTaskWithRetries_def)
  then show "belongs t r" "tr_taskKey r = tk_taskKey t" "\<not> is_skipped (tr_outcome r)"
    by (auto simp: tried_def belongs_def)
  with assms(2) show "justified \<rho> r"
    by (cases "tr_outcome r") (auto simp: justified_def belongs_def)
qed

lemma save_journal_simps [simp]:
  "bs_results (save_journal clock st) = bs_results st" "bs_stop (save_journal clock st) = bs_stop st"
  "bs_calls (save_journal clock st) = bs_calls st"
  by (simp_all add: save_journal_def Let_def)

lemma stops_not_skipped: "stops_batch r \<Longrightarrow> \<not> is_skipped (tr_outcome r)"
  by (cases "tr_outcome r") (simp_all add: stops_batch_def)

lemma calls_ok_append:
  assumes "calls_ok env tasks n \<rho> calls" "\<rho> \<subseteq>\<^sub>m \<rho>'" "\<not> (\<exists>r \<in> ran \<rho>. stops_batch r)"
    "set runnable \<subseteq> set tasks" "distinct (map tk_taskKey runnable)" "length runnable \<le> n"
    "tk_taskKey ` set runnable \<inter> dom \<rho> = {}"
    "\<forall>t \<in> set runnable. \<rho>' (tk_taskKey t) = Some (fst (runTaskWithRetries env t))"
    "\<forall>k r. \<rho>' k = Some r \<longrightarrow> \<not> is_skipped (tr_outcome r) \<longrightarrow> \<rho> k = Some r \<or> k \<in> tk_taskKey ` set runnable"
  shows "calls_ok env tasks n \<rho>' (calls @ [map (\<lambda>t. (tk_taskKey t, snd (runTaskWithRetries env t))) runnable])"
    (is "calls_ok _ _ _ _ (calls @ [?chunk])")
proof -
  have old: "distinct (map fst (concat calls))" "\<forall>chunk \<in> set calls. length chunk \<le> n"
    "\<And>k cs. (k, cs) \<in> set (concat calls) \<Longrightarrow> \<exists>t \<in> set tasks. tk_taskKey t = k
      \<and> \<rho> k = Some (fst (runTaskWithRetries env t)) \<and> cs = snd (runTaskWithRetries env t)"
    "\<And>k r. \<rho> k = Some r \<Longrightarrow> \<not> is_skipped (tr_outcome r) \<Longrightarrow> k \<in> fst ` set (concat calls)"
    using assms(1) unfolding calls_ok_def by blast+
  have keep: "\<rho>' k = Some r" if "\<rho> k = Some r" for k r
    using assms(2) that unfolding map_le_def by (metis domI)
  have fst_chunk: "map fst ?chunk = map tk_taskKey runnable" "fst ` set ?chunk = tk_taskKey ` set runnable"
    by (simp_all add: image_image comp_def)
  have known: "k \<in> dom \<rho>" if "k \<in> fst ` set (concat calls)" for k
  proof -
    from that obtain cs where "(k, cs) \<in> set (concat calls)" by force
    from old(3) [OF this] show ?thesis by blast
  qed
  have silent: "\<not> stops_batch r" if "chunk \<in> set calls" "k \<in> fst ` set chunk" "\<rho>' k = Some r" for chunk k r
  proof -
    from that(1,2) have "k \<in> fst ` set (concat calls)" by (force simp: image_iff)
    then obtain r' where r': "\<rho> k = Some r'" using known by blast
    with keep [OF this] that(3) have "\<rho> k = Some r" by simp
    with assms(3) show ?thesis by (auto simp: ran_def)
  qed
  have "fst ` set (concat calls) \<inter> tk_taskKey ` set runnable = {}" using assms(7) known by blast
  then have "distinct (map fst (concat (calls @ [?chunk])))"
    unfolding concat_append map_append distinct_append set_map [of fst] using old(1) assms(5)
    by (simp add: image_image comp_def)
  moreover have "\<forall>chunk \<in> set (calls @ [?chunk]). length chunk \<le> n" using old(2) assms(6) by simp
  moreover have "\<forall>(k, cs) \<in> set (concat (calls @ [?chunk])). \<exists>t \<in> set tasks. tk_taskKey t = k
      \<and> \<rho>' k = Some (fst (runTaskWithRetries env t)) \<and> cs = snd (runTaskWithRetries env t)"
  proof (clarify)
    fix k cs
    assume "(k, cs) \<in> set (concat (calls @ [?chunk]))"
    then consider "(k, cs) \<in> set (concat calls)" | "(k, cs) \<in> set ?chunk" by auto
    then show "\<exists>t \<in> set tasks. tk_taskKey t = k \<and> \<rho>' k = Some (fst (runTaskWithRetries env t))
        \<and> cs = snd (runTaskWithRetries env t)"
    proof cases
      case 1
      from old(3) [OF this] keep show ?thesis by blast
    next
      case 2
      with assms(4,8) show ?thesis by auto
    qed
  qed
  moreover have "\<forall>k r. \<rho>' k = Some r \<longrightarrow> \<not> is_skipped (tr_outcome r) \<longrightarrow> k \<in> fst ` set (concat (calls @ [?chunk]))"
  proof (intro allI impI)
    fix k r
    assume "\<rho>' k = Some r" "\<not> is_skipped (tr_outcome r)"
    with assms(9) old(4) have "k \<in> fst ` set (concat calls) \<or> k \<in> fst ` set ?chunk" unfolding fst_chunk by blast
    then show "k \<in> fst ` set (concat (calls @ [?chunk]))" by auto
  qed
  moreover have "\<forall>chunk \<in> set (butlast (calls @ [?chunk])). \<forall>k \<in> fst ` set chunk. \<forall>r. \<rho>' k = Some r \<longrightarrow> \<not> stops_batch r"
    using silent by simp
  ultimately show ?thesis unfolding calls_ok_def by blast
qed

lemma zip_own_map: "zip (map f xs) (map g (map h xs)) = map (\<lambda>t. (f t, g (h t))) xs"
  by (induction xs) simp_all

lemma run_chunk_steps:
  assumes tasks: "distinct (map tk_taskKey tasks)" "\<forall>t \<in> set tasks. 0 \<le> tk_maxRetries t"
    and inv: "batch_inv env tasks n st" "\<not> bs_stop st"
    and chunk: "distinct chunk" "\<forall>k \<in> set chunk. ready_key tasks (dom (results_in st)) k"
      "set chunk \<inter> dom (results_in st) = {}" "length chunk \<le> n"
  obtains results runnable noted where
    "run_chunk clock env tasks st chunk = save_journal clock (noted\<lparr>bs_calls := bs_calls st
       @ [map (\<lambda>t. (tk_taskKey t, snd (runTaskWithRetries env t))) runnable]\<rparr>)"
    "set runnable \<subseteq> set tasks" "distinct (map tk_taskKey runnable)" "length runnable \<le> n"
    "tk_taskKey ` set runnable \<inter> dom (results_in st) = {}"
    "results_in st \<subseteq>\<^sub>m result_at results"
    "\<And>k r. result_at results k = Some r \<Longrightarrow> \<not> is_skipped (tr_outcome r) \<Longrightarrow> results_in st k = Some r"
    "dom (results_in noted) = set chunk \<union> dom (results_in st)"
    "results_ok tasks (results_in noted)" "result_at results \<subseteq>\<^sub>m results_in noted"
    "\<And>k r. results_in noted k = Some r \<Longrightarrow> result_at results k = Some r \<or> k \<in> tk_taskKey ` set runnable"
    "\<And>t. t \<in> set runnable \<Longrightarrow> results_in noted (tk_taskKey t) = Some (fst (runTaskWithRetries env t))"
    "ran (results_in noted) = ran (result_at results) \<union> fst ` runTaskWithRetries env ` set runnable"
    "bs_stop noted \<longleftrightarrow> (\<exists>r \<in> fst ` runTaskWithRetries env ` set runnable. stops_batch r)"
proof -
  obtain results runnable where sel: "foldl (select_task tasks False) (bs_results st, []) chunk = (results, runnable)"
    by fastforce
  have "selection_ok tasks (bs_results st, [])" using inv(1) by (simp add: selection_ok_def batch_inv_def)
  from select_all [OF tasks(1) this chunk(1,2) _ sel] chunk(3)
  have selected: "selection_ok tasks (results, runnable)" "results_in st \<subseteq>\<^sub>m result_at results"
    "\<And>k r. result_at results k = Some r \<Longrightarrow> \<not> is_skipped (tr_outcome r) \<Longrightarrow> results_in st k = Some r"
    "dom (result_at results) \<union> tk_taskKey ` set runnable = set chunk \<union> dom (results_in st)" by auto
  let ?run = "runTaskWithRetries env" and ?st = "st\<lparr>bs_results := results\<rparr>"
  have run: "belongs t (fst (?run t)) \<and> justified (result_at results) (fst (?run t))
      \<and> tr_taskKey (fst (?run t)) = tk_taskKey t \<and> t \<in> set tasks" if "t \<in> set runnable" for t
    using runTask_facts [of t "result_at results" env "fst (?run t)" "snd (?run t)"] selected(1) tasks(2) that
    by (auto simp: selection_ok_def)
  then have keys: "map tr_taskKey (map fst (map ?run runnable)) = map tk_taskKey runnable" by simp
  then have key_set: "tr_taskKey ` set (map fst (map ?run runnable)) = tk_taskKey ` set runnable"
    by (metis set_map)
  define noted where "noted = foldl note_result ?st (map fst (map ?run runnable))"
  have "results_ok tasks (results_in ?st)" "distinct (map tr_taskKey (map fst (map ?run runnable)))"
    "tr_taskKey ` set (map fst (map ?run runnable)) \<inter> dom (results_in ?st) = {}"
    "\<forall>r \<in> set (map fst (map ?run runnable)). justified (results_in ?st) r \<and> (\<exists>t \<in> set tasks. belongs t r)"
    using selected(1) run unfolding keys key_set by (auto simp: selection_ok_def)
  from note_all [OF this noted_def [symmetric]]
  have noted: "results_ok tasks (results_in noted)" "result_at results \<subseteq>\<^sub>m results_in noted"
    "dom (results_in noted) = dom (result_at results) \<union> tk_taskKey ` set runnable"
    "\<And>t. t \<in> set runnable \<Longrightarrow> results_in noted (tk_taskKey t) = Some (fst (?run t))"
    "ran (results_in noted) = ran (result_at results) \<union> fst ` ?run ` set runnable"
    "bs_stop noted = (\<exists>r \<in> fst ` ?run ` set runnable. stops_batch r)" "bs_calls noted = bs_calls st"
    unfolding key_set using inv(2) run by (auto simp: image_image)
  show ?thesis
  proof (rule that [where noted = noted and runnable = runnable and results = results])
    show "run_chunk clock env tasks st chunk = save_journal clock (noted\<lparr>bs_calls := bs_calls st
       @ [map (\<lambda>t. (tk_taskKey t, snd (runTaskWithRetries env t))) runnable]\<rparr>)"
      using inv(2) sel noted(7) unfolding run_chunk_def zip_own_map Let_def noted_def [symmetric]
      by (simp add: noted_def)
    show "tk_taskKey ` set runnable \<inter> dom (results_in st) = {}"
      using selected(1,2) map_le_implies_dom_le by (fastforce simp: selection_ok_def)
    show "results_in noted k = Some r \<Longrightarrow> result_at results k = Some r \<or> k \<in> tk_taskKey ` set runnable" for k r
      using noted(2,3) unfolding map_le_def by (metis Un_iff domI)
    show "length runnable \<le> n" using selection_length [OF sel] chunk(4) by simp
  qed (use selected noted in \<open>auto simp: selection_ok_def\<close>)
qed

lemma run_chunk_inv:
  assumes tasks: "distinct (map tk_taskKey tasks)" "\<forall>t \<in> set tasks. 0 \<le> tk_maxRetries t"
    and inv: "batch_inv env tasks n st" "\<not> bs_stop st"
    and chunk: "distinct chunk" "\<forall>k \<in> set chunk. ready_key tasks (dom (results_in st)) k"
      "set chunk \<inter> dom (results_in st) = {}" "length chunk \<le> n"
  shows "batch_inv env tasks n (run_chunk clock env tasks st chunk)
    \<and> dom (results_in (run_chunk clock env tasks st chunk)) = dom (results_in st) \<union> set chunk"
proof (rule run_chunk_steps [OF tasks inv chunk, of clock])
  fix results runnable noted
  assume step: "run_chunk clock env tasks st chunk = save_journal clock (noted\<lparr>bs_calls := bs_calls st
       @ [map (\<lambda>t. (tk_taskKey t, snd (runTaskWithRetries env t))) runnable]\<rparr>)"
    and runnable: "set runnable \<subseteq> set tasks" "distinct (map tk_taskKey runnable)" "length runnable \<le> n"
      "tk_taskKey ` set runnable \<inter> dom (results_in st) = {}"
    and results: "results_in st \<subseteq>\<^sub>m result_at results"
      "\<And>k r. result_at results k = Some r \<Longrightarrow> \<not> is_skipped (tr_outcome r) \<Longrightarrow> results_in st k = Some r"
    and noted: "dom (results_in noted) = set chunk \<union> dom (results_in st)"
      "results_ok tasks (results_in noted)" "result_at results \<subseteq>\<^sub>m results_in noted"
      "\<And>k r. results_in noted k = Some r \<Longrightarrow> result_at results k = Some r \<or> k \<in> tk_taskKey ` set runnable"
      "\<And>t. t \<in> set runnable \<Longrightarrow> results_in noted (tk_taskKey t) = Some (fst (runTaskWithRetries env t))"
      "ran (results_in noted) = ran (result_at results) \<union> fst ` runTaskWithRetries env ` set runnable"
      "bs_stop noted \<longleftrightarrow> (\<exists>r \<in> fst ` runTaskWithRetries env ` set runnable. stops_batch r)"
  have calm: "\<not> (\<exists>r \<in> ran (results_in st). stops_batch r)" using inv by (simp add: batch_inv_def)
  have earlier: "r \<in> ran (results_in st)" if "r \<in> ran (result_at results)" "stops_batch r" for r
  proof -
    from that(1) obtain k where "result_at results k = Some r" by (auto simp: ran_def)
    from results(2) [OF this stops_not_skipped [OF that(2)]] show ?thesis by (auto simp: ran_def)
  qed
  have stop: "bs_stop noted \<longleftrightarrow> (\<exists>r \<in> ran (results_in noted). stops_batch r)"
    unfolding noted(6,7) using calm earlier by (meson UnCI UnE)
  have calls: "calls_ok env tasks n (results_in noted)
      (bs_calls st @ [map (\<lambda>t. (tk_taskKey t, snd (runTaskWithRetries env t))) runnable])"
  proof (rule calls_ok_append [OF _ map_le_trans [OF results(1) noted(3)] calm runnable])
    show "calls_ok env tasks n (results_in st) (bs_calls st)" using inv(1) by (simp add: batch_inv_def)
    show "\<forall>t \<in> set runnable. results_in noted (tk_taskKey t) = Some (fst (runTaskWithRetries env t))"
      using noted(5) by blast
    show "\<forall>k r. results_in noted k = Some r \<longrightarrow> \<not> is_skipped (tr_outcome r) \<longrightarrow>
        results_in st k = Some r \<or> k \<in> tk_taskKey ` set runnable"
      using noted(4) results(2) by blast
  qed
  show ?thesis using noted(1,2) stop calls unfolding step batch_inv_def by simp blast
qed

section \<open>Waves\<close>

lemma concat_chunkArray [simp]: "concat (chunkArray xs n) = xs"
proof (induction xs n rule: chunkArray.induct)
  case (1 xs n)
  then show ?case by (subst chunkArray.simps) simp
qed

lemma length_chunkArray: "0 < n \<Longrightarrow> chunk \<in> set (chunkArray xs n) \<Longrightarrow> length chunk \<le> n"
proof (induction xs n rule: chunkArray.induct)
  case (1 xs n)
  then show ?case by (subst (asm) chunkArray.simps) (auto split: if_splits)
qed

lemma run_chunks_inv:
  assumes tasks: "distinct (map tk_taskKey tasks)" "\<forall>t \<in> set tasks. 0 \<le> tk_maxRetries t"
    and "batch_inv env tasks n st" "\<not> bs_stop st" "distinct (concat chunks)"
      "\<forall>k \<in> set (concat chunks). ready_key tasks (dom (results_in st)) k"
      "set (concat chunks) \<inter> dom (results_in st) = {}" "\<forall>chunk \<in> set chunks. length chunk \<le> n"
  shows "batch_inv env tasks n (run_chunks clock env tasks st chunks)
    \<and> dom (results_in st) \<subseteq> dom (results_in (run_chunks clock env tasks st chunks))
    \<and> dom (results_in (run_chunks clock env tasks st chunks)) \<subseteq> dom (results_in st) \<union> set (concat chunks)
    \<and> (\<not> bs_stop (run_chunks clock env tasks st chunks) \<longrightarrow>
        dom (results_in (run_chunks clock env tasks st chunks)) = dom (results_in st) \<union> set (concat chunks))"
  using assms(3-8)
proof (induction chunks arbitrary: st)
  case (Cons chunk chunks)
  let ?st = "run_chunk clock env tasks st chunk"
  have step: "batch_inv env tasks n ?st" "dom (results_in ?st) = dom (results_in st) \<union> set chunk"
    using run_chunk_inv [OF tasks Cons.prems(1,2), of chunk clock] Cons.prems(3-6) by auto
  show ?case
  proof (cases "bs_stop ?st")
    case False
    have "\<forall>k \<in> set (concat chunks). ready_key tasks (dom (results_in ?st)) k"
      using Cons.prems(4) step(2) by (auto intro: ready_mono)
    moreover have "set (concat chunks) \<inter> dom (results_in ?st) = {}"
      using Cons.prems(3,5) unfolding step(2) by auto
    ultimately show ?thesis using Cons.IH [OF step(1) False] Cons.prems(3,6) False step(2) by (auto simp: Let_def)
  qed (use step in \<open>auto simp: Let_def\<close>)
qed simp

lemma calls_ok_skip:
  assumes "calls_ok env tasks n \<rho> calls" "k \<notin> dom \<rho>" "is_skipped (tr_outcome r)" "\<not> stops_batch r"
  shows "calls_ok env tasks n (\<rho>(k \<mapsto> r)) calls"
proof -
  have "k' \<noteq> k" if "(k', cs) \<in> set (concat calls)" for k' cs
    using assms(1,2) that unfolding calls_ok_def by fastforce
  with assms show ?thesis unfolding calls_ok_def by (auto split: if_splits) (fastforce+)
qed

lemma skip_task_inv:
  assumes "distinct (map tk_taskKey tasks)" "batch_inv env tasks n st" "bs_stop st" "task_of tasks k \<noteq> None"
  shows "batch_inv env tasks n (skip_task tasks st k) \<and> bs_stop (skip_task tasks st k)
    \<and> dom (results_in (skip_task tasks st k)) = insert k (dom (results_in st))"
proof (cases "k \<in> dom (results_in st)")
  case False
  obtain t where t: "task_of tasks k = Some t" using assms(4) by auto
  then have mem: "t \<in> set tasks" "tk_taskKey t = k" using task_of_Some [OF assms(1)] by blast+
  let ?r = "toSkippedResult t StoppedByPolicy []" and ?st = "skip_task tasks st k"
  have step: "results_in ?st = (results_in st)(k \<mapsto> ?r)" "bs_stop ?st = bs_stop st" "bs_calls ?st = bs_calls st"
    using False t by (auto simp: skip_task_def)
  obtain r where r: "r \<in> ran (results_in st)" "stops_batch r" using assms(2,3) by (auto simp: batch_inv_def)
  then have "justified (results_in st) ?r" by (auto simp: justified_def)
  then have "results_ok tasks (results_in ?st)"
    using assms(2) False mem unfolding step by (auto simp: batch_inv_def intro: results_ok_add)
  moreover have "calls_ok env tasks n (results_in ?st) (bs_calls ?st)"
    using assms(2) False unfolding step by (auto simp: batch_inv_def intro: calls_ok_skip)
  moreover have "\<exists>r \<in> ran (results_in ?st). stops_batch r"
    using r ran_mono [OF fresh_update [OF False]] unfolding step by blast
  ultimately show ?thesis using assms(3) by (auto simp: batch_inv_def step)
qed (use assms in \<open>auto simp: skip_task_def\<close>)

lemma skip_wave_inv:
  assumes "distinct (map tk_taskKey tasks)" "batch_inv env tasks n st" "bs_stop st" "\<forall>k \<in> set wave. task_of tasks k \<noteq> None"
  shows "batch_inv env tasks n (foldl (skip_task tasks) st wave)
    \<and> dom (results_in (foldl (skip_task tasks) st wave)) = dom (results_in st) \<union> set wave"
  using assms(2-4)
proof (induction wave arbitrary: st)
  case (Cons k wave)
  from skip_task_inv [OF assms(1) Cons.prems(1,2), of k] Cons.prems(3)
  have "batch_inv env tasks n (skip_task tasks st k)" "bs_stop (skip_task tasks st k)"
    "dom (results_in (skip_task tasks st k)) = insert k (dom (results_in st))" by auto
  with Cons.IH [of "skip_task tasks st k"] Cons.prems(3) show ?case by simp
qed simp

lemma run_wave_inv:
  assumes tasks: "distinct (map tk_taskKey tasks)" "\<forall>t \<in> set tasks. 0 \<le> tk_maxRetries t" and n: "0 < n"
    and inv: "batch_inv env tasks n st" and wave: "distinct wave"
      "\<forall>k \<in> set wave. ready_key tasks (dom (results_in st)) k" "set wave \<inter> dom (results_in st) = {}"
  shows "batch_inv env tasks n (run_wave clock env tasks n st wave)
    \<and> dom (results_in (run_wave clock env tasks n st wave)) = dom (results_in st) \<union> set wave"
proof -
  have known: "\<forall>k \<in> set wave. task_of tasks k \<noteq> None" using wave(2) by (auto simp: ready_key_def)
  show ?thesis
  proof (cases "bs_stop st")
    case True
    with skip_wave_inv [OF tasks(1) inv True known] show ?thesis by (simp add: run_wave_def)
  next
    case False
    let ?st = "run_chunks clock env tasks st (chunkArray wave n)"
    have ran: "batch_inv env tasks n ?st" "dom (results_in st) \<subseteq> dom (results_in ?st)"
      "dom (results_in ?st) \<subseteq> dom (results_in st) \<union> set wave"
      "\<not> bs_stop ?st \<longrightarrow> dom (results_in ?st) = dom (results_in st) \<union> set wave"
      using run_chunks_inv [OF tasks inv False, of "chunkArray wave n" clock] wave length_chunkArray [OF n, of _ wave]
      by (simp_all add: subset_eq)
    show ?thesis
    proof (cases "bs_stop ?st")
      case True
      with skip_wave_inv [OF tasks(1) ran(1) True known] ran(2,3) False show ?thesis by (auto simp: run_wave_def Let_def)
    qed (use ran False in \<open>simp add: run_wave_def Let_def\<close>)
  qed
qed

fun scheduled :: "task_input list \<Rightarrow> string set \<Rightarrow> string list list \<Rightarrow> bool" where
  "scheduled tasks past [] = True"
| "scheduled tasks past (wave # waves) =
     ((\<forall>k \<in> set wave. ready_key tasks past k) \<and> scheduled tasks (past \<union> set wave) waves)"

lemma run_waves_inv:
  assumes tasks: "distinct (map tk_taskKey tasks)" "\<forall>t \<in> set tasks. 0 \<le> tk_maxRetries t" and n: "0 < n"
    and "batch_inv env tasks n st" "scheduled tasks (dom (results_in st)) waves" "distinct (concat waves)"
      "set (concat waves) \<inter> dom (results_in st) = {}"
  shows "batch_inv env tasks n (foldl (run_wave clock env tasks n) st waves)
    \<and> dom (results_in (foldl (run_wave clock env tasks n) st waves)) = dom (results_in st) \<union> set (concat waves)"
  using assms(4-)
proof (induction waves arbitrary: st)
  case (Cons wave waves)
  let ?st = "run_wave clock env tasks n st wave"
  have step: "batch_inv env tasks n ?st" "dom (results_in ?st) = dom (results_in st) \<union> set wave"
    using run_wave_inv [OF tasks n Cons.prems(1), of wave clock] Cons.prems(2-4) by auto
  have "set (concat waves) \<inter> dom (results_in ?st) = {}" using Cons.prems(3,4) unfolding step(2) by auto
  with Cons.IH [OF step(1)] Cons.prems(2,3) step(2) show ?case by auto
qed simp

lemma scheduled_nth:
  assumes "\<And>i k. i < length waves \<Longrightarrow> k \<in> set (waves ! i) \<Longrightarrow>
    \<exists>t. task_of tasks k = Some t \<and> (\<forall>d \<in> set (tk_dependsOn t). d \<in> past \<or> (\<exists>j<i. d \<in> set (waves ! j)))"
  shows "scheduled tasks past waves"
  using assms
proof (induction waves arbitrary: past)
  case (Cons wave waves)
  have "ready_key tasks past k" if "k \<in> set wave" for k
    using Cons.prems [of 0 k] that by (auto simp: ready_key_def)
  moreover have "scheduled tasks (past \<union> set wave) waves"
  proof (rule Cons.IH)
    fix i k
    assume "i < length waves" "k \<in> set (waves ! i)"
    with Cons.prems [of "Suc i" k] obtain t where t: "task_of tasks k = Some t"
        "\<forall>d \<in> set (tk_dependsOn t). d \<in> past \<or> (\<exists>j<Suc i. d \<in> set ((wave # waves) ! j))" by auto
    have "\<exists>j<i. d \<in> set (waves ! j)" if "j < Suc i" "d \<in> set ((wave # waves) ! j)" "d \<notin> set wave" for j d
      using that by (cases j) auto
    with t show "\<exists>t. task_of tasks k = Some t
        \<and> (\<forall>d \<in> set (tk_dependsOn t). d \<in> past \<union> set wave \<or> (\<exists>j<i. d \<in> set (waves ! j)))" by blast
  qed
  ultimately show ?case by simp
qed simp

lemma plan_task_simps [simp]:
  "bt_taskKey (plan_task input t) = tk_taskKey t" "bt_dependsOn (plan_task input t) = tk_dependsOn t"
  by (simp_all add: plan_task_def)

lemma plan_of_facts:
  assumes "plan_of input agent tasks = Inr plan"
  shows "distinct (map tk_taskKey tasks)" "scheduled tasks {} (bl_waves plan)" "distinct (concat (bl_waves plan))"
    "set (concat (bl_waves plan)) = tk_taskKey ` set tasks" "1 \<le> bl_maxParallel plan" "bl_maxParallel plan \<le> 6"
    "bl_executionMode plan = Sequential \<Longrightarrow> bl_maxParallel plan = 1"
proof -
  obtain mode limit provider modelId where
    plan: "planRuntimeSubAgentBatch mode limit provider modelId (map (plan_task input) tasks) = Inr plan"
    using assms unfolding plan_of_def
    by (cases "resolveProviderModelFromInputAndAgent input agent")
       (auto simp: map_sum_def split: sum.splits)
  have keys: "keys_of (map (plan_task input) tasks) = map tk_taskKey tasks"
    by (simp add: keys_of_def comp_def)
  show distinct: "distinct (map tk_taskKey tasks)" using planned_tables(1) [OF plan] by (simp add: keys)
  note waves = plan_waves [OF plan, unfolded keys]
  show "distinct (concat (bl_waves plan))" "set (concat (bl_waves plan)) = tk_taskKey ` set tasks"
    using waves(1-3) by simp_all
  show "1 \<le> bl_maxParallel plan" "bl_maxParallel plan \<le> 6"
    "bl_executionMode plan = Sequential \<Longrightarrow> bl_maxParallel plan = 1"
    using plan_width [OF plan] by blast+
  show "scheduled tasks {} (bl_waves plan)"
  proof (rule scheduled_nth)
    fix i k
    assume i: "i < length (bl_waves plan)" "k \<in> set (bl_waves plan ! i)"
    then have "k \<in> set (bl_order plan)" using waves(3) by (metis UN_I nth_mem set_concat)
    then obtain t where t: "t \<in> set tasks" "tk_taskKey t = k" using waves(2) by auto
    then have "\<forall>d \<in> set (tk_dependsOn t). \<exists>j<i. d \<in> set (bl_waves plan ! j)"
      using waves(5) [of "plan_task input t" i] i by simp
    with t task_of_Some [OF distinct] show "\<exists>t. task_of tasks k = Some t
        \<and> (\<forall>d \<in> set (tk_dependsOn t). d \<in> {} \<or> (\<exists>j<i. d \<in> set (bl_waves plan ! j)))" by blast
  qed
qed

section \<open>A whole batch\<close>

lemma normalize_task_facts:
  "normalize_task i x = Inr t \<Longrightarrow> tk_index t = i \<and> 0 \<le> tk_maxRetries t \<and> tk_maxRetries t \<le> 2"
  by (auto simp: normalize_task_def normalizeTaskMaxRetries_def split: sum.splits option.splits)

lemma normalize_tasks_facts:
  "normalize_tasks i xs = Inr ts \<Longrightarrow> length ts = length xs \<and> map tk_index ts = [i..<i + length xs]
     \<and> (\<forall>t \<in> set ts. 0 \<le> tk_maxRetries t \<and> tk_maxRetries t \<le> 2)"
proof (induction xs arbitrary: i ts)
  case (Cons x xs)
  then obtain t rest where parts: "normalize_task i x = Inr t" "normalize_tasks (Suc i) xs = Inr rest" "ts = t # rest"
    by (auto split: sum.splits)
  have "i < i + length (x # xs)" by simp
  then have "[i..<i + length (x # xs)] = i # [Suc i..<Suc i + length xs]" by (simp only: upt_conv_Cons) simp
  with Cons.IH [OF parts(2)] normalize_task_facts [OF parts(1)] parts(3) show ?case by simp
qed simp

lemma batch_results_ok:
  assumes "distinct (map tk_taskKey tasks)" "results_ok tasks (result_at results)"
    "dom (result_at results) = tk_taskKey ` set tasks"
  shows "list_all2 belongs tasks (batch_results tasks results)"
    "\<And>r. r \<in> set (batch_results tasks results) \<Longrightarrow> result_at results (tr_taskKey r) = Some r"
    "set (batch_results tasks results) = ran (result_at results)"
proof -
  have at: "\<exists>r. result_at results (tk_taskKey t) = Some r \<and> belongs t r" if "t \<in> set tasks" for t
  proof -
    from that assms(3) obtain r where r: "result_at results (tk_taskKey t) = Some r" by blast
    then obtain t' where "t' \<in> set tasks" "tk_taskKey t' = tk_taskKey t" "belongs t' r"
      using assms(2) unfolding results_ok_def by blast
    with that assms(1) have "t' = t" by (auto simp: distinct_map inj_on_def)
    with r \<open>belongs t' r\<close> show ?thesis by blast
  qed
  show "list_all2 belongs tasks (batch_results tasks results)"
    unfolding batch_results_def list_all2_map2 list_all2_same
  proof
    fix t
    assume "t \<in> set tasks"
    from at [OF this] obtain r where "result_at results (tk_taskKey t) = Some r" "belongs t r" by blast
    then show "belongs t (nullish (result_at results (tk_taskKey t)) (toSkippedResult t StoppedByPolicy []))" by simp
  qed
  show rho: "result_at results (tr_taskKey r) = Some r" if r: "r \<in> set (batch_results tasks results)" for r
  proof -
    from r obtain t where t: "t \<in> set tasks"
        "r = nullish (result_at results (tk_taskKey t)) (toSkippedResult t StoppedByPolicy [])"
      by (auto simp: batch_results_def)
    from at [OF t(1)] obtain r' where "result_at results (tk_taskKey t) = Some r'" "belongs t r'" by blast
    with t(2) show ?thesis by (simp add: belongs_def)
  qed
  have "r \<in> set (batch_results tasks results)" if "result_at results k = Some r" for k r
  proof -
    from that have "k \<in> dom (result_at results)" by (rule domI)
    then obtain t where "t \<in> set tasks" "tk_taskKey t = k" unfolding assms(3) by (elim imageE) simp
    then have "nullish (result_at results k) (toSkippedResult t StoppedByPolicy []) \<in> set (batch_results tasks results)"
      by (auto simp: batch_results_def)
    with that show ?thesis by simp
  qed
  with rho show "set (batch_results tasks results) = ran (result_at results)"
    unfolding ran_def by blast
qed

text \<open>The results of a batch as a map\<close>

definition result_in :: "task_result list \<Rightarrow> string \<Rightarrow> task_result option" where
  "result_in results = map_of (map (\<lambda>r. (tr_taskKey r, r)) results)"

lemma belongs_keys: "list_all2 belongs tasks results \<Longrightarrow> map tr_taskKey results = map tk_taskKey tasks"
  by (induction rule: list_all2_induct) (auto simp: belongs_def)

lemma result_in_batch:
  assumes "distinct (map tk_taskKey tasks)" "results_ok tasks (result_at results)"
    "dom (result_at results) = tk_taskKey ` set tasks"
  shows "result_in (batch_results tasks results) = result_at results"
proof
  fix k
  note facts = batch_results_ok [OF assms]
  from belongs_keys [OF facts(1)] assms(1) have distinct: "distinct (map tr_taskKey (batch_results tasks results))" by simp
  show "result_in (batch_results tasks results) k = result_at results k"
  proof (cases "result_at results k")
    case None
    then have "r \<notin> set (batch_results tasks results) \<or> tr_taskKey r \<noteq> k" for r using facts(2) by force
    with None show ?thesis by (fastforce simp: result_in_def map_of_eq_None_iff)
  next
    case (Some r)
    then have r: "r \<in> set (batch_results tasks results)" unfolding facts(3) by (auto simp: ran_def)
    obtain t where "tk_taskKey t = k" "belongs t r" using assms(2) Some unfolding results_ok_def by blast
    then have "tr_taskKey r = k" by (simp add: belongs_def)
    with r distinct Some show ?thesis
      unfolding result_in_def by (subst map_of_is_SomeI) (force simp: comp_def)+
  qed
qed

lemma run_batch_fresh:
  assumes tasks: "distinct (map tk_taskKey tasks)" "\<forall>t \<in> set tasks. 0 \<le> tk_maxRetries t"
    and plan: "scheduled tasks {} (bl_waves plan)" "distinct (concat (bl_waves plan))"
      "set (concat (bl_waves plan)) = tk_taskKey ` set tasks" "1 \<le> bl_maxParallel plan"
    and run: "run_batch clock env tasks plan (start_batch clock m existing False batchRunId key workspaceId) = (results, st)"
  shows "list_all2 belongs tasks results" "\<And>r. r \<in> set results \<Longrightarrow> justified (result_in results) r"
    "calls_ok env tasks (nat (bl_maxParallel plan)) (result_in results) (bs_calls st)"
proof -
  let ?st = "start_batch clock m existing False batchRunId key workspaceId" and ?n = "nat (bl_maxParallel plan)"
  have start: "results_in ?st = Map.empty" "\<not> bs_stop ?st" "bs_calls ?st = []"
    by (simp_all add: start_batch_def result_at_def fun_eq_iff)
  then have "batch_inv env tasks ?n ?st" by (simp add: batch_inv_def results_ok_def calls_ok_def)
  note inv = run_waves_inv [OF tasks _ this, of "bl_waves plan" clock]
  define ended where "ended = foldl (run_wave clock env tasks ?n) ?st (bl_waves plan)"
  have ended: "batch_inv env tasks ?n ended" "dom (results_in ended) = tk_taskKey ` set tasks"
    using inv plan start(1) by (simp_all add: ended_def)
  then have ok: "results_ok tasks (results_in ended)" by (simp add: batch_inv_def)
  have results: "results = batch_results tasks (bs_results ended)" "bs_calls st = bs_calls ended"
    using run unfolding run_batch_def Let_def ended_def [symmetric] by auto
  note facts = batch_results_ok [OF tasks(1) ok ended(2)] and same = result_in_batch [OF tasks(1) ok ended(2)]
  show "list_all2 belongs tasks results" using facts(1) by (simp add: results)
  show "justified (result_in results) r" if "r \<in> set results" for r
    using facts(2) ok that unfolding results same results_ok_def by blast
  show "calls_ok env tasks ?n (result_in results) (bs_calls st)"
    using ended(1) unfolding results same batch_inv_def by blast
qed

end
