(* ===== verification/SubAgentBatchTool.thy ===== *)
theory SubAgentBatchTool
  imports SubAgentBatchFacts
begin

text \<open>
  Properties of the whole tool \<^verbatim>\<open>orchestrate-runtime-sub-agent-batch\<close> and of its attempts, with examples of
  runtimes at which they hold.
\<close>

section \<open>What a run of the tool consists of\<close>

lemma execute_batch_run:
  assumes "execute_batch clock fresh tool m input agent = Inr (resp, st)"
  obtains tasks env existing key where
    "confirmWriteAction (bx_approval tool) (bx_requireUserApproval tool)
      (''Run runtime sub-agent batch in workspace '' @ bx_workspaceName tool @ ''?'') = Inr ()"
    "0 < length (toRecordArray (field input ''tasks''))" "length (toRecordArray (field input ''tasks'')) \<le> 12"
    "normalize_tasks 0 (toRecordArray (field input ''tasks'')) = Inr tasks"
    "plan_of input agent tasks = Inr (br_plan resp)" "en_input env = input"
    "run_batch clock env tasks (br_plan resp)
       (start_batch clock m existing (br_resumeApplied resp) (en_batchRunId env) key (defaultWorkspaceId env))
     = (br_results resp, st)"
    "br_summary resp = summarize_batch (br_results resp)" "br_trackedTasks resp = length (je_results (bs_journal st))"
    "existing = map_of m (buildBatchJournalKey (defaultWorkspaceId env) key)"
    "key = nullish (toNonEmptyString (field input ''idempotencyKey'')) (en_batchRunId env)"
    "en_batchRunId env = nullish (toNonEmptyString (field input ''batchRunId'')) fresh"
    "en_snapshotWorkspaceId env = bx_workspaceId tool"
    "br_resumeApplied resp = resume_applied existing (toNonEmptyString (field input ''resumeFromBatchRunId'')) (en_batchRunId env)"
proof -
  from assms obtain methods inputs index tasks plan where ok:
    "confirmWriteAction (bx_approval tool) (bx_requireUserApproval tool)
      (''Run runtime sub-agent batch in workspace '' @ bx_workspaceName tool @ ''?'') = Inr ()"
    "task_inputs input = Inr inputs" "normalize_tasks 0 inputs = Inr tasks" "plan_of input agent tasks = Inr plan"
    "required_methods (bx_control tool) = Inr methods"
    "getRuntimeLiveSkillCatalogIndex (sc_listLiveSkills (bx_control tool)) = Inr index"
    unfolding execute_batch_def Let_def by (auto simp: try_then_eq_Inr)
  from ok(2) have inputs: "inputs = toRecordArray (field input ''tasks'')" "inputs \<noteq> []" "length inputs \<le> 12"
    by (auto simp: task_inputs_def Let_def split: if_splits)
  let ?id = "nullish (toNonEmptyString (field input ''batchRunId'')) fresh"
  let ?env = "\<lparr>en_input = input, en_agent = agent, en_snapshotWorkspaceId = bx_workspaceId tool,
    en_index = index, en_methods = methods, en_batchRunId = ?id\<rparr>"
  have tool: "execute_batch clock fresh tool m input agent = Inr (resp, st) \<Longrightarrow> thesis"
    unfolding execute_batch_def ok try_then_Inr Let_def
    using ok(1,3,4) inputs
    by (auto split: prod.splits intro!: that [of tasks ?env] simp: defaultWorkspaceId_def)
  with assms show thesis by blast
qed

lemma foldl_results_map:
  "distinct (map fst m @ map tr_taskKey rs) \<Longrightarrow>
     foldl (\<lambda>m r. map_put (tr_taskKey r) r m) m rs = m @ map (\<lambda>r. (tr_taskKey r, r)) rs"
proof (induction rs arbitrary: m)
  case (Cons r rs)
  then have "map_put (tr_taskKey r) r m = m @ [(tr_taskKey r, r)]" by (auto simp: map_put_def)
  with Cons.IH [of "m @ [(tr_taskKey r, r)]"] Cons.prems show ?case by simp
qed simp

lemma results_map_distinct:
  "distinct (map tr_taskKey rs) \<Longrightarrow> results_map rs = map (\<lambda>r. (tr_taskKey r, r)) rs"
  using foldl_results_map [of "[]" rs] by (simp add: results_map_def)

lemma summary_counts:
  "sm_succeeded (summarize_batch rs) + sm_failed (summarize_batch rs) + sm_skipped (summarize_batch rs) = length rs"
proof (induction rs)
  case (Cons r rs)
  then show ?case
    by (cases "tr_outcome r") (simp_all add: summarize_batch_def succeeded_def)
qed (simp add: summarize_batch_def)

lemma belongs_indices: "list_all2 belongs tasks results \<Longrightarrow> map tr_index results = map tk_index tasks"
  by (induction rule: list_all2_induct) (auto simp: belongs_def)

lemma journal_after_batch: "run_batch clock env tasks plan st0 = (results, st) \<Longrightarrow> je_results (bs_journal st) = results_map results"
  by (auto simp: run_batch_def save_journal_def Let_def)

lemma fresh_run:
  assumes "execute_batch clock fresh tool m input agent = Inr (resp, st)" "\<not> br_resumeApplied resp"
  obtains tasks env where
    "normalize_tasks 0 (toRecordArray (field input ''tasks'')) = Inr tasks" "list_all2 belongs tasks (br_results resp)"
    "distinct (map tr_taskKey (br_results resp))" "\<And>r. r \<in> set (br_results resp) \<Longrightarrow> justified (result_in (br_results resp)) r"
    "calls_ok env tasks (nat (bl_maxParallel (br_plan resp))) (result_in (br_results resp)) (bs_calls st)"
    "je_results (bs_journal st) = map (\<lambda>r. (tr_taskKey r, r)) (br_results resp)"
proof (rule execute_batch_run [OF assms(1)])
  fix tasks env existing key
  assume tasks: "normalize_tasks 0 (toRecordArray (field input ''tasks'')) = Inr tasks"
    and plan: "plan_of input agent tasks = Inr (br_plan resp)"
    and run: "run_batch clock env tasks (br_plan resp)
       (start_batch clock m existing (br_resumeApplied resp) (en_batchRunId env) key (defaultWorkspaceId env))
     = (br_results resp, st)"
  note facts = plan_of_facts [OF plan]
  have "\<forall>t \<in> set tasks. 0 \<le> tk_maxRetries t" using normalize_tasks_facts [OF tasks] by blast
  note done_batch = run_batch_fresh [OF facts(1) this facts(2-5), of clock env m existing "en_batchRunId env" key
      "defaultWorkspaceId env" "br_results resp" st]
  have run': "run_batch clock env tasks (br_plan resp)
      (start_batch clock m existing False (en_batchRunId env) key (defaultWorkspaceId env)) = (br_results resp, st)"
    using run assms(2) by simp
  have distinct: "distinct (map tr_taskKey (br_results resp))"
    using belongs_keys [OF done_batch(1) [OF run']] facts(1) by simp
  show thesis
  proof (rule that [OF tasks done_batch(1) [OF run'] distinct _ done_batch(3) [OF run']])
    show "r \<in> set (br_results resp) \<Longrightarrow> justified (result_in (br_results resp)) r" for r
      using done_batch(2) [OF run'] by blast
    show "je_results (bs_journal st) = map (\<lambda>r. (tr_taskKey r, r)) (br_results resp)"
      using journal_after_batch [OF run'] results_map_distinct [OF distinct] by simp
  qed
qed

section \<open>A runtime to run on\<close>

definition calm_session :: sub_session where
  "calm_session = \<lparr>sn_sessionId = ''s1'', sn_status = ''running'', sn_activeTaskId = None, sn_lastTaskId = None,
     sn_checkpointId = None, sn_traceId = None, sn_recovered = None\<rparr>"

text \<open>A runtime in which the session of the task \<^verbatim>\<open>broken\<close> never finishes, and all others do.\<close>

definition calm_control :: sub_control where
  "calm_control = \<lparr>sc_spawn = Some (\<lambda>k n s. Inr calm_session), sc_send = Some (\<lambda>k n s. Inr None),
     sc_wait = Some (\<lambda>k n w. Inr \<lparr>wa_done = (k \<noteq> ''broken''), wa_timedOut = (k = ''broken''), wa_session = None\<rparr>),
     sc_close = Some (\<lambda>k n i c. Inr Null), sc_listLiveSkills = None\<rparr>"

definition calm_tool :: batch_tool where
  "calm_tool = \<lparr>bx_workspaceId = ''w1'', bx_workspaceName = ''Work'', bx_control = calm_control,
     bx_requireUserApproval = False,
     bx_approval = \<lparr>ap_onApprovalRequest = None, ap_windowConfirm = None, ap_requestUserInteraction = None\<rparr>\<rparr>"

definition example_input :: js_object where
  "example_input = [(''batchRunId'', Str ''b1''), (''tasks'', Arr
     [Obj [(''taskKey'', Str ''test''), (''instruction'', Str ''run the tests''), (''dependsOn'', Arr [Str ''broken''])],
      Obj [(''taskKey'', Str ''broken''), (''instruction'', Str ''build it''), (''maxRetries'', Num (Some 1))],
      Obj [(''taskKey'', Str ''docs''), (''instruction'', Str ''write the docs'')]])]"

definition example_run :: "thrown + batch_response \<times> batch_state" where
  "example_run = execute_batch (\<lambda>i. int i) ''fresh'' calm_tool [] example_input Null"

lemma example_stages:
  "toRecordArray (field example_input ''tasks'') \<noteq> []" "length (toRecordArray (field example_input ''tasks'')) = 3"
  "\<not> isl (normalize_tasks 0 (toRecordArray (field example_input ''tasks'')))"
  "case normalize_tasks 0 (toRecordArray (field example_input ''tasks'')) of
     Inr tasks \<Rightarrow> \<not> isl (plan_of example_input Null tasks) | Inl _ \<Rightarrow> False"
  by code_simp+

lemma example_runs: "\<exists>resp st. execute_batch clock fresh calm_tool m example_input Null = Inr (resp, st)
    \<and> (m = [] \<longrightarrow> \<not> br_resumeApplied resp)"
proof -
  obtain tasks where tasks: "normalize_tasks 0 (toRecordArray (field example_input ''tasks'')) = Inr tasks"
    using example_stages(3) by (cases "normalize_tasks 0 (toRecordArray (field example_input ''tasks''))") auto
  then obtain plan where plan: "plan_of example_input Null tasks = Inr plan"
    using example_stages(4) by (cases "plan_of example_input Null tasks") auto
  have inputs: "task_inputs example_input = Inr (toRecordArray (field example_input ''tasks''))"
    using example_stages(1,2) by (simp add: task_inputs_def Let_def)
  have ready: "\<exists>methods. required_methods (bx_control calm_tool) = Inr methods"
      "sc_listLiveSkills (bx_control calm_tool) = None" "\<not> bx_requireUserApproval calm_tool"
    by (simp_all add: calm_tool_def calm_control_def required_methods_def requireSubAgentControlMethod_def)
  then show ?thesis
    unfolding execute_batch_def Let_def
    by (auto simp: tasks plan inputs confirmWriteAction_def getRuntimeLiveSkillCatalogIndex_def resume_applied_def
        split: prod.split)
qed

lemma example_run_ok: "\<exists>resp st. example_run = Inr (resp, st) \<and> \<not> br_resumeApplied resp"
  using example_runs [of "\<lambda>i. int i" "''fresh''" "[]"] by (auto simp: example_run_def)

section \<open>Properties of a batch\<close>

text \<open>The answer of the tool is complete.  A batch that is not resumed answers for each of its one to twelve
  tasks exactly once, in the order of the input, and only for them; its summary divides them into
  succeeded, failed and skipped tasks, and the journal has an entry for each.\<close>

theorem batch_answer_complete:
  assumes "execute_batch clock fresh tool m input agent = Inr (resp, st)" "\<not> br_resumeApplied resp"
  shows "map tr_index (br_results resp) = [0..<length (toRecordArray (field input ''tasks''))]
    \<and> 1 \<le> length (br_results resp) \<and> length (br_results resp) \<le> 12 \<and> distinct (map tr_taskKey (br_results resp))
    \<and> sm_succeeded (br_summary resp) + sm_failed (br_summary resp) + sm_skipped (br_summary resp)
        = length (br_results resp)
    \<and> br_trackedTasks resp = length (br_results resp)"
proof (rule fresh_run [OF assms])
  fix tasks env
  assume tasks: "normalize_tasks 0 (toRecordArray (field input ''tasks'')) = Inr tasks"
    and results: "list_all2 belongs tasks (br_results resp)" "distinct (map tr_taskKey (br_results resp))"
    and journal: "je_results (bs_journal st) = map (\<lambda>r. (tr_taskKey r, r)) (br_results resp)"
  have run: "0 < length (toRecordArray (field input ''tasks''))" "length (toRecordArray (field input ''tasks'')) \<le> 12"
    "br_summary resp = summarize_batch (br_results resp)" "br_trackedTasks resp = length (je_results (bs_journal st))"
    using execute_batch_run [OF assms(1)] by metis+
  have size: "length (br_results resp) = length (toRecordArray (field input ''tasks''))"
    using normalize_tasks_facts [OF tasks] list_all2_lengthD [OF results(1)] by simp
  show ?thesis
    using normalize_tasks_facts [OF tasks] belongs_indices [OF results(1)] run results(2) journal size
    by (simp add: summary_counts Suc_le_eq)
qed

theorem batch_answer_complete_witness:
  "\<exists>resp st. example_run = Inr (resp, st) \<and> map tr_index (br_results resp) = [0, 1, 2] \<and> br_trackedTasks resp = 3"
proof -
  obtain resp st where run: "example_run = Inr (resp, st)" "\<not> br_resumeApplied resp" using example_run_ok by blast
  note facts = batch_answer_complete [OF run(1) [unfolded example_run_def] run(2), unfolded example_stages(2)]
  then have "map tr_index (br_results resp) = [0, 1, 2]" by (simp add: upt_rec)
  moreover from this have "length (br_results resp) = 3" by (metis length_map length_Cons list.size(3) numeral_3_eq_3)
  ultimately show ?thesis using facts run(1) by auto
qed

text \<open>C18: every result is justified by the others.  In a batch that is not resumed, a task that was run has
  dependencies that all succeeded; a task is skipped for its dependencies exactly with the list of
  those that did not succeed, which is not empty; and a task is skipped by policy only when some task
  of the batch failed fatally or failed with the policy to stop.\<close>

theorem batch_answer_justified:
  assumes "execute_batch clock fresh tool m input agent = Inr (resp, st)" "\<not> br_resumeApplied resp"
    "r \<in> set (br_results resp)"
  shows "case tr_outcome r of
      Skipped DependencyFailed bs \<Rightarrow> bs \<noteq> []
        \<and> bs = filter (\<lambda>d. \<not> (\<exists>r' \<in> set (br_results resp). tr_taskKey r' = d \<and> succeeded r')) (tr_dependsOn r)
    | Skipped StoppedByPolicy bs \<Rightarrow> bs = [] \<and> (\<exists>r' \<in> set (br_results resp). stops_batch r')
    | _ \<Rightarrow> \<forall>d \<in> set (tr_dependsOn r). \<exists>r' \<in> set (br_results resp). tr_taskKey r' = d \<and> succeeded r'"
proof (rule fresh_run [OF assms(1,2)])
  fix tasks env
  assume distinct: "distinct (map tr_taskKey (br_results resp))"
    and justified: "\<And>r. r \<in> set (br_results resp) \<Longrightarrow> justified (result_in (br_results resp)) r"
  have at: "result_in (br_results resp) d = Some r' \<longleftrightarrow> r' \<in> set (br_results resp) \<and> tr_taskKey r' = d" for d r'
    unfolding result_in_def by (subst map_of_eq_Some_iff) (use distinct in \<open>auto simp: comp_def\<close>)
  then have "ran (result_in (br_results resp)) = set (br_results resp)" by (auto simp: ran_def)
  moreover have "dependencies_met (result_in (br_results resp)) ds \<longleftrightarrow>
      (\<forall>d \<in> set ds. \<exists>r' \<in> set (br_results resp). tr_taskKey r' = d \<and> succeeded r')" for ds
    unfolding dependencies_met_def at by blast
  ultimately show ?thesis
    using justified [OF assms(3)] unfolding justified_def
    by (simp split: task_outcome.splits skip_reason.splits)
qed

theorem batch_answer_justified_witness:
  "\<exists>resp st. example_run = Inr (resp, st) \<and> (\<forall>r \<in> set (br_results resp). case tr_outcome r of
      Skipped StoppedByPolicy bs \<Rightarrow> \<exists>r' \<in> set (br_results resp). stops_batch r' | _ \<Rightarrow> True)"
proof -
  obtain resp st where run: "example_run = Inr (resp, st)" "\<not> br_resumeApplied resp" using example_run_ok by blast
  have "case tr_outcome r of Skipped StoppedByPolicy bs \<Rightarrow> \<exists>r' \<in> set (br_results resp). stops_batch r' | _ \<Rightarrow> True"
    if "r \<in> set (br_results resp)" for r
    using batch_answer_justified [OF run(1) [unfolded example_run_def] run(2) that]
    by (auto split: task_outcome.splits skip_reason.splits)
  with run(1) show ?thesis by blast
qed

text \<open>C19: what is run, and how much at once.  In a batch that is not resumed, no task is run twice, the tasks
  that are run are those whose result is not a skip, at most the planned number of tasks (never more
  than six) is run at once, and after a chunk in which a task failed fatally, or failed with the
  policy to stop, nothing else is run.\<close>

theorem batch_runs_what_it_reports:
  assumes "execute_batch clock fresh tool m input agent = Inr (resp, st)" "\<not> br_resumeApplied resp"
  shows "distinct (map fst (concat (bs_calls st)))
    \<and> fst ` set (concat (bs_calls st)) = {tr_taskKey r |r. r \<in> set (br_results resp) \<and> \<not> is_skipped (tr_outcome r)}
    \<and> (\<forall>chunk \<in> set (bs_calls st). int (length chunk) \<le> bl_maxParallel (br_plan resp))
    \<and> bl_maxParallel (br_plan resp) \<le> 6
    \<and> (\<forall>chunk \<in> set (butlast (bs_calls st)). \<forall>r \<in> set (br_results resp).
         tr_taskKey r \<in> fst ` set chunk \<longrightarrow> \<not> stops_batch r)"
proof (rule fresh_run [OF assms])
  fix tasks env
  let ?\<rho> = "result_in (br_results resp)"
  assume tasks: "normalize_tasks 0 (toRecordArray (field input ''tasks'')) = Inr tasks"
    and distinct: "distinct (map tr_taskKey (br_results resp))"
    and calls: "calls_ok env tasks (nat (bl_maxParallel (br_plan resp))) ?\<rho> (bs_calls st)"
  obtain tasks' where plan: "plan_of input agent tasks' = Inr (br_plan resp)"
    using execute_batch_run [OF assms(1)] by metis
  note width = plan_of_facts(5,6) [OF plan]
  have at: "?\<rho> d = Some r \<longleftrightarrow> r \<in> set (br_results resp) \<and> tr_taskKey r = d" for d r
    unfolding result_in_def by (subst map_of_eq_Some_iff) (use distinct in \<open>auto simp: comp_def\<close>)
  have ran: "\<exists>r. ?\<rho> k = Some r \<and> \<not> is_skipped (tr_outcome r)" if "(k, cs) \<in> set (concat (bs_calls st))" for k cs
  proof -
    from calls that obtain t where t: "t \<in> set tasks" "?\<rho> k = Some (fst (runTaskWithRetries env t))"
      unfolding calls_ok_def by blast
    have "0 \<le> tk_maxRetries t" using normalize_tasks_facts [OF tasks] t(1) by blast
    then have "tried t 0 (runTaskWithRetries env t)"
      using run_attempts_tried [of 0 t] by (simp add: runTaskWithRetries_def)
    with t(2) show ?thesis by (auto simp: tried_def split: prod.splits)
  qed
  have "fst ` set (concat (bs_calls st)) = {k. \<exists>r. ?\<rho> k = Some r \<and> \<not> is_skipped (tr_outcome r)}"
    using ran calls unfolding calls_ok_def by (auto simp del: set_concat)
  also have "\<dots> = {tr_taskKey r |r. r \<in> set (br_results resp) \<and> \<not> is_skipped (tr_outcome r)}"
    unfolding at by blast
  finally show ?thesis
    using calls width unfolding calls_ok_def at by auto
qed

theorem batch_runs_what_it_reports_witness:
  "\<exists>resp st. example_run = Inr (resp, st) \<and> distinct (map fst (concat (bs_calls st)))
     \<and> (\<forall>chunk \<in> set (bs_calls st). length chunk \<le> 6)"
proof -
  obtain resp st where run: "example_run = Inr (resp, st)" "\<not> br_resumeApplied resp" using example_run_ok by blast
  note facts = batch_runs_what_it_reports [OF run(1) [unfolded example_run_def] run(2)]
  then have "int (length chunk) \<le> 6" if "chunk \<in> set (bs_calls st)" for chunk
    using that by (meson order_trans)
  with facts run(1) show ?thesis by auto
qed

section \<open>Attempts\<close>

text \<open>C20: how often a task is tried.  A task of the input is tried at least once and at most three times,
  each try opens at most one session, the reported retries are the tries after the first, and a task
  only ends in failure when its error was fatal or all its tries are used up.\<close>

theorem task_attempts_bounded:
  assumes "normalize_task i x = Inr t" "runTaskWithRetries env t = (r, calls)"
  shows "1 \<le> tr_attempts r \<and> tr_attempts r \<le> tk_maxRetries t + 1 \<and> tr_attempts r \<le> 3
    \<and> tr_retried r = tr_attempts r - 1
    \<and> int (length (filter is_spawn calls)) \<le> tr_attempts r
    \<and> (\<forall>f. tr_outcome r = Failed f \<longrightarrow> af_fatal f \<or> tr_attempts r = tk_maxRetries t + 1)"
proof -
  note bounds = normalize_task_facts [OF assms(1)]
  then have "tried t 0 (r, calls)"
    using run_attempts_tried [of 0 t env None] assms(2) by (simp add: runTaskWithRetries_def)
  with bounds show ?thesis by (auto simp: tried_def)
qed

definition calm_methods :: runtime_methods where
  "calm_methods = \<lparr>rm_spawn = (\<lambda>k n s. Inr calm_session), rm_send = (\<lambda>k n s. Inr None),
     rm_wait = (\<lambda>k n w. Inr \<lparr>wa_done = True, wa_timedOut = False, wa_session = None\<rparr>),
     rm_close = Some (\<lambda>k n i c. Inl (plain_error ''gone''))\<rparr>"

definition example_env :: batch_env where
  "example_env = \<lparr>en_input = [], en_agent = Null, en_snapshotWorkspaceId = ''w1'', en_index = None,
     en_methods = calm_methods, en_batchRunId = ''b1''\<rparr>"

definition example_task :: js_object where
  "example_task = [(''taskKey'', Str ''docs''), (''instruction'', Str ''write the docs''), (''maxRetries'', Num (Some 1))]"

lemma example_task_ok: "\<exists>t. normalize_task 0 example_task = Inr t \<and> tk_maxRetries t = 1 \<and> tk_input t = example_task"
proof -
  have "map_sum id (\<lambda>t. (tk_maxRetries t, tk_input t)) (normalize_task 0 example_task) = Inr (1, example_task)"
    by code_simp
  then show ?thesis by (cases "normalize_task 0 example_task") auto
qed

theorem task_attempts_bounded_witness:
  "\<exists>t. normalize_task 0 example_task = Inr t \<and> tr_attempts (fst (runTaskWithRetries example_env t)) \<le> 2"
proof -
  obtain t where t: "normalize_task 0 example_task = Inr t" "tk_maxRetries t = 1" using example_task_ok by blast
  from task_attempts_bounded [OF t(1) prod.collapse [symmetric]] t show ?thesis by auto
qed

lemma close_after_wait_calls:
  "close_after_wait env task n i w = (ended, cs) \<Longrightarrow>
     (rm_close (en_methods env) \<noteq> None \<and> shouldClose env task \<and> (wa_done w \<or> wa_timedOut w) \<longrightarrow>
        cs = [CloseCall (close_of env task i (wa_timedOut w))])
     \<and> (\<not> (rm_close (en_methods env) \<noteq> None \<and> shouldClose env task \<and> (wa_done w \<or> wa_timedOut w)) \<longrightarrow>
        cs = [] \<and> ended = Inr None)"
  by (auto simp: close_after_wait_def Let_def split: option.splits if_splits)

lemma close_after_error_calls:
  "close_after_error env task n k spawned = (ended, cs) \<Longrightarrow>
     cs = (if rm_close (en_methods env) \<noteq> None \<and> shouldClose env task \<and> nullish spawned [] \<noteq> []
       then [CloseCall (close_of env task (nullish spawned []) True)] else [])"
  by (auto simp: close_after_error_def Let_def split: option.splits if_splits)

lemma call_inputs [simp]:
  "sd_sessionId (send_of env task n i) = i" "ci_sessionId (close_of env task i force) = i"
  by (simp_all add: send_of_def close_of_def)

text \<open>The ways an attempt can go\<close>

lemma attempt_body_cases:
  assumes "attempt_body env task n = (outcome, calls, spawned)"
  obtains e where "outcome = Inl e" "spawned = None" "set calls \<subseteq> {SpawnCall (spawn_of env task)}"
  | e i where "outcome = Inl e" "spawned = Some i" "SendCall (send_of env task n i) \<in> set calls"
      "set calls \<subseteq> {SpawnCall (spawn_of env task), SendCall (send_of env task n i), WaitCall (wait_of env task i)}"
  | session dispatched w ended cs where
      "spawned = Some (sn_sessionId session)" "close_after_wait env task n (sn_sessionId session) w = (ended, cs)"
      "outcome = map_sum id (attempt_end env task session dispatched w) ended"
      "calls = [SpawnCall (spawn_of env task), SendCall (send_of env task n (sn_sessionId session)),
         WaitCall (wait_of env task (sn_sessionId session))] @ cs"
  using assms unfolding attempt_body_def Let_def
  by (auto split: option.splits sum.splits prod.splits)

lemma attempt_calls:
  assumes "runTaskAttempt env task n = (outcome, calls)" "attempt_body env task n = (body, first, spawned)"
  shows "body = Inr r \<Longrightarrow> outcome = r \<and> calls = first"
    and "body = Inl e \<Longrightarrow> isl outcome \<and> calls = first @
      (if rm_close (en_methods env) \<noteq> None \<and> shouldClose env task \<and> nullish spawned [] \<noteq> []
       then [CloseCall (close_of env task (nullish spawned []) True)] else [])"
  using assms by (auto simp: runTaskAttempt_def Let_def split: prod.splits dest!: close_after_error_calls)

text \<open>C21: a session is not forgotten.  When closing is on, the runtime can close and the session that an attempt
  has opened and instructed has a non-empty identifier, then that attempt asks the runtime to close it,
  however it goes: only a wait that ended neither finished nor timed out makes no such call, and then the
  attempt counts as a success.  And closing is asked for nothing but what this attempt has instructed, and
  only when closing is on.  (The call can be rejected; whether the session is closed then is up to the
  runtime.)\<close>

theorem sessions_are_closed:
  assumes "runTaskAttempt env task n = (outcome, calls)"
  shows "(SendCall send \<in> set calls \<and> sd_sessionId send \<noteq> [] \<and> rm_close (en_methods env) \<noteq> None \<and> shouldClose env task \<longrightarrow>
       (\<exists>c. CloseCall c \<in> set calls \<and> ci_sessionId c = sd_sessionId send)
       \<or> (\<exists>s. outcome = Inr s \<and> \<not> wa_done (as_wait s) \<and> \<not> wa_timedOut (as_wait s)))
    \<and> (CloseCall c \<in> set calls \<longrightarrow> rm_close (en_methods env) \<noteq> None \<and> shouldClose env task
       \<and> (\<exists>send. SendCall send \<in> set calls \<and> sd_sessionId send = ci_sessionId c))"
proof -
  obtain body first spawned where body: "attempt_body env task n = (body, first, spawned)"
    by (cases "attempt_body env task n") auto
  from body show ?thesis
  proof (cases rule: attempt_body_cases)
    case (1 e)
    with attempt_calls(2) [OF assms body 1(1)] show ?thesis by auto
  next
    case (2 e i)
    let ?close = "close_of env task i True"
    have only: "SendCall s \<in> set first \<Longrightarrow> s = send_of env task n i" "CloseCall c \<notin> set first" for s c
      using 2(4) by auto
    note calls = attempt_calls(2) [OF assms body 2(1), unfolded 2(2) nullish_simps]
    show ?thesis
    proof (cases "rm_close (en_methods env) \<noteq> None \<and> shouldClose env task \<and> i \<noteq> []")
      case True
      then have "calls = first @ [CloseCall ?close]" using calls by simp
      moreover have "\<exists>send. SendCall send \<in> set first \<and> sd_sessionId send = i"
        using 2(3) by (intro exI [of _ "send_of env task n i"]) simp
      ultimately show ?thesis using True only by (auto dest!: only(1) intro: exI [of _ ?close])
    next
      case False
      then have "calls = first" using calls by (simp split: if_splits)
      with False only show ?thesis by (auto dest: only(1))
    qed
  next
    case (3 session dispatched w ended cs)
    show ?thesis
    proof (cases ended)
      case (Inl e)
      with 3 attempt_calls(2) [OF assms body, of e] close_after_wait_calls [OF 3(2)] show ?thesis
        by (auto split: if_splits)
    next
      case (Inr v)
      have "wa_done (as_wait s) = wa_done w \<and> wa_timedOut (as_wait s) = wa_timedOut w"
        if "outcome = Inr s" for s
        using that 3(3) Inr attempt_calls(1) [OF assms body] by (auto simp: attempt_end_def split: if_splits)
      moreover have "\<exists>s. outcome = Inr s" if "\<not> wa_timedOut w"
        using that 3(3) Inr attempt_calls(1) [OF assms body] by (auto simp: attempt_end_def)
      ultimately show ?thesis
        using 3(3,4) Inr attempt_calls(1) [OF assms body] close_after_wait_calls [OF 3(2)] by auto
    qed
  qed
qed

fun is_send :: "runtime_call \<Rightarrow> bool" where
  "is_send (SendCall _) = True"
| "is_send _ = False"

text \<open>At this attempt the runtime finishes the work of the task but then refuses to close the session.\<close>

definition close_rejected_at :: "batch_env \<Rightarrow> task_input \<Rightarrow> int \<Rightarrow> thrown \<Rightarrow> bool" where
  "close_rejected_at env task n e \<longleftrightarrow>
     (let key = tk_taskKey task; spawn = spawn_of env task; m = en_methods env in
      shouldClose env task
      \<and> assertKnownRuntimeLiveSkillIds (sp_allowedSkillIds spawn) (map_option ki_known (en_index env)) tool_name = None
      \<and> (case rm_spawn m key n spawn of Inl _ \<Rightarrow> False | Inr session \<Rightarrow>
          \<not> isl (rm_send m key n (send_of env task n (sn_sessionId session)))
          \<and> (case rm_wait m key n (wait_of env task (sn_sessionId session)) of Inl _ \<Rightarrow> False
             | Inr w \<Rightarrow> wa_done w \<and> \<not> wa_timedOut w)
          \<and> (case rm_close m of None \<Rightarrow> False
             | Some cl \<Rightarrow> cl key n 0 (close_of env task (sn_sessionId session) False) = Inl e)))"

lemma close_rejected:
  assumes "close_rejected_at env task n e"
  shows "\<exists>f calls. runTaskAttempt env task n = (Inl f, calls) \<and> af_error f = th_message e
    \<and> (af_fatal f \<longleftrightarrow> isFatalBatchAttemptError e) \<and> length (filter is_send calls) = 1"
proof -
  have "\<exists>c s. close_after_error env task n k spawned = (c, s) \<and> filter is_send s = []" for k spawned
    by (auto simp: close_after_error_def Let_def split: option.splits)
  then obtain c s where after: "close_after_error env task n k spawned = (c k spawned, s k spawned)"
      "filter is_send (s k spawned) = []" for k spawned
    by metis
  show ?thesis
    using assms
    by (auto simp: close_rejected_at_def runTaskAttempt_def attempt_body_def close_after_wait_def after Let_def
        split: option.splits sum.splits)
qed

lemma run_attempts_all_fail:
  assumes "\<And>n. 1 \<le> n \<Longrightarrow> n \<le> tk_maxRetries task + 1 \<Longrightarrow>
      \<exists>f calls. runTaskAttempt env task n = (Inl f, calls) \<and> \<not> af_fatal f \<and> af_error f = E n
      \<and> length (filter is_send calls) = 1"
  shows "0 \<le> attempts \<Longrightarrow> attempts < tk_maxRetries task + 1 \<Longrightarrow>
    \<exists>f. tr_outcome (fst (run_attempts env task attempts retried failure)) = Failed f
      \<and> af_error f = E (tk_maxRetries task + 1)
      \<and> int (length (filter is_send (snd (run_attempts env task attempts retried failure))))
          = tk_maxRetries task + 1 - attempts"
proof (induction "nat (tk_maxRetries task - attempts)" arbitrary: attempts retried failure)
  case 0
  obtain f calls where step: "runTaskAttempt env task (attempts + 1) = (Inl f, calls)" "af_error f = E (attempts + 1)"
      "length (filter is_send calls) = 1"
    using assms [of "attempts + 1"] 0(2,3) by auto
  have last_try: "attempts = tk_maxRetries task" using 0 by linarith
  have "run_attempts env task attempts retried failure = (failed_result task (attempts + 1) retried (Some f), calls)"
    using run_attempts_cases(2) [OF 0(3) step(1) refl] last_try by simp
  with step last_try show ?case by (simp add: failed_result_def result_of_def)
next
  case (Suc k)
  obtain f calls where step: "runTaskAttempt env task (attempts + 1) = (Inl f, calls)" "\<not> af_fatal f"
      "length (filter is_send calls) = 1"
    using assms [of "attempts + 1"] Suc(3,4) by auto
  have less: "attempts + 1 < tk_maxRetries task + 1" using Suc(2) by linarith
  have "\<exists>f'. tr_outcome (fst (run_attempts env task (attempts + 1) (retried + 1) (Some f))) = Failed f'
      \<and> af_error f' = E (tk_maxRetries task + 1)
      \<and> int (length (filter is_send (snd (run_attempts env task (attempts + 1) (retried + 1) (Some f)))))
          = tk_maxRetries task + 1 - (attempts + 1)"
    using Suc(2,3) less by (intro Suc.hyps(1)) auto
  with run_attempts_cases(3) [OF Suc(4) step(1) refl step(2) less, of retried failure] step(3) show ?case by auto
qed

text \<open>C22: a close that is rejected undoes finished work.  Suppose the session of an attempt was opened and
  instructed and the wait has ended with the work done, but the runtime rejects to close the session.
  Then the attempt counts as failed, with the error of the close.  And when that happens at every
  attempt of a task, each time with some error that is not fatal, then the instruction is sent
  once for each of the permitted attempts, the first and all retries, and the task is reported as
  failed with the error of the last close, although its work was finished every time.\<close>

theorem rejected_close_repeats_the_work:
  "(close_rejected_at env task n err \<longrightarrow>
      (\<exists>f. fst (runTaskAttempt env task n) = Inl f \<and> af_error f = th_message err
         \<and> (af_fatal f \<longleftrightarrow> isFatalBatchAttemptError err)))
   \<and> (0 \<le> tk_maxRetries task
      \<and> (\<forall>k. 1 \<le> k \<and> k \<le> tk_maxRetries task + 1 \<longrightarrow> close_rejected_at env task k (e k) \<and> \<not> isFatalBatchAttemptError (e k))
      \<longrightarrow> (\<exists>f. tr_outcome (fst (runTaskWithRetries env task)) = Failed f
             \<and> af_error f = th_message (e (tk_maxRetries task + 1)))
          \<and> int (length (filter is_send (snd (runTaskWithRetries env task)))) = tk_maxRetries task + 1)"
proof (intro conjI impI)
  assume "close_rejected_at env task n err"
  from close_rejected [OF this] show "\<exists>f. fst (runTaskAttempt env task n) = Inl f \<and> af_error f = th_message err
      \<and> (af_fatal f \<longleftrightarrow> isFatalBatchAttemptError err)" by auto
next
  assume all: "0 \<le> tk_maxRetries task \<and> (\<forall>k. 1 \<le> k \<and> k \<le> tk_maxRetries task + 1 \<longrightarrow>
    close_rejected_at env task k (e k) \<and> \<not> isFatalBatchAttemptError (e k))"
  have "\<exists>f calls. runTaskAttempt env task k = (Inl f, calls) \<and> \<not> af_fatal f \<and> af_error f = th_message (e k)
      \<and> length (filter is_send calls) = 1" if "1 \<le> k" "k \<le> tk_maxRetries task + 1" for k
    using close_rejected [of env task k "e k"] all that by auto
  note fail = run_attempts_all_fail [of task env "\<lambda>k. th_message (e k)" 0 0 None, OF this]
  then show "\<exists>f. tr_outcome (fst (runTaskWithRetries env task)) = Failed f
      \<and> af_error f = th_message (e (tk_maxRetries task + 1))"
    and "int (length (filter is_send (snd (runTaskWithRetries env task)))) = tk_maxRetries task + 1"
    using all by (auto simp: runTaskWithRetries_def)
qed

lemma example_close:
  assumes "tk_input t = example_task"
  shows "close_rejected_at example_env t n (plain_error ''gone'')"
  using assms by (simp add: close_rejected_at_def example_env_def calm_methods_def shouldClose_def example_task_def
      field_def assertKnownRuntimeLiveSkillIds_def Let_def split: option.splits)

lemma example_error: "\<not> isFatalBatchAttemptError (plain_error ''gone'')"
  by code_simp

theorem rejected_close_repeats_the_work_witness:
  "\<exists>t f. normalize_task 0 example_task = Inr t \<and> tr_outcome (fst (runTaskWithRetries example_env t)) = Failed f
     \<and> af_error f = ''gone'' \<and> length (filter is_send (snd (runTaskWithRetries example_env t))) = 2"
proof -
  obtain t where t: "normalize_task 0 example_task = Inr t" "tk_input t = example_task" "tk_maxRetries t = 1"
    using example_task_ok by blast
  from rejected_close_repeats_the_work [of example_env t 1 "plain_error ''gone''" "\<lambda>_. plain_error ''gone''"]
    example_close [OF t(2)] example_error t(1,3) show ?thesis
    by (auto simp: plain_error_def)
qed

definition closing_env :: batch_env where
  "closing_env = example_env\<lparr>en_methods := calm_methods\<lparr>rm_close := Some (\<lambda>k n i c. Inr Null)\<rparr>\<rparr>"

theorem sessions_are_closed_witness:
  "\<exists>t outcome calls. normalize_task 0 example_task = Inr t \<and> runTaskAttempt closing_env t 1 = (outcome, calls)
     \<and> (\<exists>c. CloseCall c \<in> set calls \<and> ci_sessionId c = ''s1'')"
proof -
  obtain t where t: "normalize_task 0 example_task = Inr t" "tk_input t = example_task" using example_task_ok by blast
  obtain outcome calls where run: "runTaskAttempt closing_env t 1 = (outcome, calls)" by fastforce
  have on: "rm_close (en_methods closing_env) \<noteq> None" "shouldClose closing_env t"
    by (simp_all add: closing_env_def example_env_def shouldClose_def t(2) example_task_def field_def)
  have "SendCall (send_of closing_env t 1 ''s1'') \<in> set calls \<and> (\<exists>s. outcome = Inr s \<and> wa_done (as_wait s))"
    using run on
    by (auto simp: closing_env_def calm_methods_def calm_session_def example_env_def runTaskAttempt_def attempt_body_def
        assertKnownRuntimeLiveSkillIds_def close_after_wait_def attempt_end_def Let_def split: option.splits)
  with sessions_are_closed [OF run, of "send_of closing_env t 1 ''s1''"] on t(1) run show ?thesis by fastforce
qed

end
