(* ===== verification/SubAgentBatchResume.thy ===== *)
theory SubAgentBatchResume
  imports SubAgentBatchTool
begin

text \<open>
  The journal of the batches: it keeps the last batches, and a batch that is asked for again answers from it.
\<close>

section \<open>The journal\<close>

definition journals_ok :: "journals \<Rightarrow> bool" where
  "journals_ok m \<longleftrightarrow> length m \<le> 64 \<and> [] \<notin> fst ` set m"

abbreviation key_of :: "journal_entry \<Rightarrow> string" where
  "key_of e \<equiv> buildBatchJournalKey (je_workspaceId e) (je_idempotencyKey e)"

lemma journal_key_nonempty [simp]: "buildBatchJournalKey w k \<noteq> []" "[] \<noteq> buildBatchJournalKey w k"
  by (simp_all add: buildBatchJournalKey_def)

lemma trim_short [simp]: "length m \<le> 64 \<Longrightarrow> trimJournalIfNeeded m = m"
  by (cases m) auto

lemma upsert_facts:
  assumes "journals_ok m"
  shows "journals_ok (upsertBatchJournalEntry e m)" "map_of (upsertBatchJournalEntry e m) (key_of e) = Some e"
proof -
  have "journals_ok (upsertBatchJournalEntry e m) \<and> map_of (upsertBatchJournalEntry e m) (key_of e) = Some e"
  proof (cases "key_of e \<in> fst ` set m \<or> length m < 64")
    case True
    then have short: "length (map_put (key_of e) e m) \<le> 64"
      using assms by (auto simp: map_put_def journals_ok_def)
    moreover have "fst ` set (map_put (key_of e) e m) = insert (key_of e) (fst ` set m)"
      using keys_map_put [of "key_of e" e m] by (metis (no_types, opaque_lifting) insert_absorb image_set
          Un_insert_right list.simps(15) set_append sup_bot_right set_empty)
    ultimately show ?thesis
      using assms by (auto simp: upsertBatchJournalEntry_def journals_ok_def)
  next
    case False
    then obtain k0 e0 rest where m: "m = (k0, e0) # rest" "length rest = 63" "k0 \<noteq> []" "k0 \<noteq> key_of e"
      using assms by (cases m) (auto simp: journals_ok_def)
    have "map_put (key_of e) e m = (k0, e0) # (rest @ [(key_of e, e)])" using False by (auto simp: map_put_def m(1))
    then have upsert: "upsertBatchJournalEntry e m = rest @ [(key_of e, e)]"
      using m(2,3) by (simp add: upsertBatchJournalEntry_def)
    have "key_of e \<notin> fst ` set rest" using False m(1) by auto
    then have "map_of rest (key_of e) = None" by (simp add: map_of_eq_None_iff)
    then show ?thesis
      using assms m(1,2) unfolding upsert by (auto simp: journals_ok_def map_add_def)
  qed
  then show "journals_ok (upsertBatchJournalEntry e m)" "map_of (upsertBatchJournalEntry e m) (key_of e) = Some e" by blast+
qed

section \<open>The journal of a running batch\<close>

definition same_batch :: "journal_entry \<Rightarrow> batch_state \<Rightarrow> bool" where
  "same_batch e st \<longleftrightarrow> je_batchRunId (bs_journal st) = je_batchRunId e
     \<and> je_idempotencyKey (bs_journal st) = je_idempotencyKey e
     \<and> je_workspaceId (bs_journal st) = je_workspaceId e \<and> journals_ok (bs_journals st)"

lemma same_batch_steps:
  "same_batch e st \<Longrightarrow> same_batch e (note_result st r)"
  "same_batch e st \<Longrightarrow> same_batch e (skip_task tasks st k)"
  "same_batch e st \<Longrightarrow> same_batch e (save_journal clock st)"
  "same_batch e st \<Longrightarrow> same_batch e (st\<lparr>bs_results := rs\<rparr>)"
  "same_batch e st \<Longrightarrow> same_batch e (st\<lparr>bs_calls := cs\<rparr>)"
  "same_batch e st \<Longrightarrow> same_batch e (st\<lparr>bs_journal := (bs_journal st)\<lparr>je_results := js\<rparr>\<rparr>)"
  by (auto simp: same_batch_def note_result_def skip_task_def save_journal_def Let_def intro: upsert_facts split: option.split)

lemma same_batch_chunk: "same_batch e st \<Longrightarrow> same_batch e (run_chunk clock env tasks st chunk)"
  unfolding run_chunk_def Let_def
  by (auto split: prod.split intro!: same_batch_steps(3,5) foldl_invariant [where I = "same_batch e"]
      intro: same_batch_steps)

lemma same_batch_chunks: "same_batch e st \<Longrightarrow> same_batch e (run_chunks clock env tasks st chunks)"
  by (induction chunks arbitrary: st) (auto simp: Let_def same_batch_chunk)

lemma same_batch_wave: "same_batch e st \<Longrightarrow> same_batch e (run_wave clock env tasks n st wave)"
  unfolding run_wave_def Let_def
  by (auto intro!: foldl_invariant [where I = "same_batch e"] intro: same_batch_steps same_batch_chunks)

lemma run_batch_journal:
  assumes "same_batch e st0" "run_batch clock env tasks plan st0 = (results, st)"
  shows "same_batch e st" "journals_ok (bs_journals st)"
    "map_of (bs_journals st) (key_of e) = Some (bs_journal st)"
proof -
  let ?n = "nat (bl_maxParallel plan)"
  have "same_batch e (foldl (run_wave clock env tasks ?n) st0 (bl_waves plan))"
    using assms(1) by (intro foldl_invariant [where I = "same_batch e"] same_batch_wave)
  then obtain st1 where st1: "same_batch e st1" "st = save_journal clock st1"
    using assms(2) by (auto simp: run_batch_def Let_def intro: same_batch_steps(6))
  then show same: "same_batch e st" by (simp add: same_batch_steps(3))
  then show "journals_ok (bs_journals st)" by (simp add: same_batch_def)
  have "bs_journals st = upsertBatchJournalEntry (bs_journal st) (bs_journals st1)"
    using st1(2) by (simp add: save_journal_def Let_def)
  moreover have "key_of e = key_of (bs_journal st)" using same by (simp add: same_batch_def)
  ultimately show "map_of (bs_journals st) (key_of e) = Some (bs_journal st)"
    using upsert_facts(2) st1(1) by (simp add: same_batch_def)
qed

section \<open>A batch whose results are all there\<close>

definition settled :: "string list \<Rightarrow> (string \<times> task_result) list \<Rightarrow> batch_state \<Rightarrow> bool" where
  "settled ks results st \<longleftrightarrow> bs_results st = results \<and> \<not> bs_stop st \<and> concat (bs_calls st) = []
     \<and> (\<forall>k \<in> set ks. result_at results k \<noteq> None)"

lemma select_settled:
  "\<forall>k \<in> set chunk. result_at results k \<noteq> None \<Longrightarrow> foldl (select_task tasks s) (results, []) chunk = (results, [])"
  by (induction chunk) (auto simp: select_task_def)

lemma chunk_settled:
  assumes "settled ks results st" "set chunk \<subseteq> set ks"
  shows "settled ks results (run_chunk clock env tasks st chunk)"
proof -
  have "foldl (select_task tasks (bs_stop st)) (bs_results st, []) chunk = (results, [])"
    using assms select_settled [of chunk results] unfolding settled_def by blast
  then show ?thesis using assms(1) by (simp add: run_chunk_def settled_def)
qed

lemma chunks_settled:
  "settled ks results st \<Longrightarrow> set (concat chunks) \<subseteq> set ks \<Longrightarrow>
     settled ks results (run_chunks clock env tasks st chunks)"
proof (induction chunks arbitrary: st)
  case (Cons chunk chunks)
  have step: "settled ks results (run_chunk clock env tasks st chunk)"
    using Cons.prems by (intro chunk_settled) auto
  then have "\<not> bs_stop (run_chunk clock env tasks st chunk)" by (simp add: settled_def)
  with Cons.IH [OF step] Cons.prems(2) show ?case by (simp add: Let_def)
qed simp

lemma wave_settled:
  assumes "settled ks results st" "set wave \<subseteq> set ks"
  shows "settled ks results (run_wave clock env tasks n st wave)"
proof -
  have "settled ks results (run_chunks clock env tasks st (chunkArray wave n))"
    using assms by (intro chunks_settled) auto
  with assms(1) show ?thesis by (simp add: run_wave_def settled_def Let_def)
qed

lemma run_batch_settled:
  assumes "settled (concat (bl_waves plan)) results st0" "run_batch clock env tasks plan st0 = (results', st)"
  shows "results' = batch_results tasks results" "concat (bs_calls st) = []"
proof -
  let ?step = "run_wave clock env tasks (nat (bl_maxParallel plan))"
  have "settled (concat (bl_waves plan)) results (foldl ?step st0 (bl_waves plan))"
    using assms(1) by (intro foldl_invariant [where I = "settled (concat (bl_waves plan)) results"] wave_settled) auto
  with assms(2) show "results' = batch_results tasks results" "concat (bs_calls st) = []"
    by (auto simp: run_batch_def settled_def Let_def)
qed

lemma batch_results_resumed:
  assumes "list_all2 belongs tasks results" "distinct (map tk_taskKey tasks)"
  shows "batch_results tasks (map (map_prod id toResumedResult) (map (\<lambda>r. (tr_taskKey r, r)) results))
    = map toResumedResult results"
proof (rule nth_equalityI)
  have length: "length tasks = length results" using assms(1) by (rule list_all2_lengthD)
  then show "length (batch_results tasks (map (map_prod id toResumedResult) (map (\<lambda>r. (tr_taskKey r, r)) results)))
      = length (map toResumedResult results)" by (simp add: batch_results_def)
  fix i
  assume "i < length (batch_results tasks (map (map_prod id toResumedResult) (map (\<lambda>r. (tr_taskKey r, r)) results)))"
  then have i: "i < length tasks" "i < length results" using length by (simp_all add: batch_results_def)
  then have key: "tr_taskKey (results ! i) = tk_taskKey (tasks ! i)"
    using list_all2_nthD [OF assms(1)] by (simp add: belongs_def)
  have "distinct (map tr_taskKey results)" using belongs_keys [OF assms(1)] assms(2) by simp
  then have "map_of (map (\<lambda>r. (tr_taskKey r, toResumedResult r)) results) (tr_taskKey (results ! i))
      = Some (toResumedResult (results ! i))"
    using i(2) by (intro map_of_is_SomeI) (force simp: comp_def)+
  with i key show "batch_results tasks (map (map_prod id toResumedResult) (map (\<lambda>r. (tr_taskKey r, r)) results)) ! i
      = map toResumedResult results ! i"
    by (simp add: batch_results_def result_at_def comp_def)
qed

section \<open>Asking for a batch again\<close>

text \<open>C23: a batch that is asked for again is answered from the journal.  When a batch with an identifier of its
  own has run its tasks (without being resumed itself, and on a journal of at most 64 entries under
  non-empty keys, which is what the tool keeps), and the same request (which names no batch to resume from, or this one) comes again,
  by whatever agent, in the same workspace, as the next batch, so that the journal is the one this batch
  has left, then it finds the batch there: every result is given back, marked as resumed, and no task is
  run.  This holds for the tasks that failed or were skipped as well, so a batch that had a failure
  cannot be brought to its end by resuming it.  (After enough other batches the journal has dropped the
  entry, and a request that resumes from another batch runs its tasks.)\<close>

theorem finished_batch_is_never_rerun:
  assumes "execute_batch clock fresh tool m input agent = Inr (resp, st)" "\<not> br_resumeApplied resp" "journals_ok m"
    "toNonEmptyString (field input ''batchRunId'') = Some b"
    "toNonEmptyString (field input ''resumeFromBatchRunId'') \<in> {None, Some b}"
    "execute_batch clock' fresh' tool' (bs_journals st) input agent' = Inr (resp', st')"
    "bx_workspaceId tool' = bx_workspaceId tool"
  shows "br_resumeApplied resp' \<and> br_results resp' = map toResumedResult (br_results resp) \<and> concat (bs_calls st') = []"
proof (rule fresh_run [OF assms(1,2)], rule execute_batch_run [OF assms(1)], rule execute_batch_run [OF assms(6)])
  fix tasks env0 tasks1 env existing key tasks' env' existing' key'
  let ?inputs = "toRecordArray (field input ''tasks'')"
  assume tasks: "normalize_tasks 0 ?inputs = Inr tasks" "list_all2 belongs tasks (br_results resp)"
      "distinct (map tr_taskKey (br_results resp))"
      "je_results (bs_journal st) = map (\<lambda>r. (tr_taskKey r, r)) (br_results resp)"
    and run: "run_batch clock env tasks1 (br_plan resp) (start_batch clock m existing (br_resumeApplied resp)
        (en_batchRunId env) key (defaultWorkspaceId env)) = (br_results resp, st)"
    and ids: "key = nullish (toNonEmptyString (field input ''idempotencyKey'')) (en_batchRunId env)"
      "en_batchRunId env = nullish (toNonEmptyString (field input ''batchRunId'')) fresh"
      "en_snapshotWorkspaceId env = bx_workspaceId tool" "en_input env = input"
    and again: "normalize_tasks 0 ?inputs = Inr tasks'" "plan_of input agent' tasks' = Inr (br_plan resp')"
      "run_batch clock' env' tasks' (br_plan resp') (start_batch clock' (bs_journals st) existing'
        (br_resumeApplied resp') (en_batchRunId env') key' (defaultWorkspaceId env')) = (br_results resp', st')"
    and ids': "existing' = map_of (bs_journals st) (buildBatchJournalKey (defaultWorkspaceId env') key')"
      "key' = nullish (toNonEmptyString (field input ''idempotencyKey'')) (en_batchRunId env')"
      "en_batchRunId env' = nullish (toNonEmptyString (field input ''batchRunId'')) fresh'"
      "en_snapshotWorkspaceId env' = bx_workspaceId tool'" "en_input env' = input"
      "br_resumeApplied resp' =
         resume_applied existing' (toNonEmptyString (field input ''resumeFromBatchRunId'')) (en_batchRunId env')"
  have same_ids: "en_batchRunId env = b" "en_batchRunId env' = b" "key' = key" "defaultWorkspaceId env' = defaultWorkspaceId env"
    using ids ids' assms(4,7) by (simp_all add: defaultWorkspaceId_def)
  define e where "e = \<lparr>je_batchRunId = b, je_idempotencyKey = key, je_workspaceId = defaultWorkspaceId env,
    je_updatedAt = clock 0, je_results = []\<rparr>"
  have "same_batch e (start_batch clock m existing False (en_batchRunId env) key (defaultWorkspaceId env))"
    using assms(3) by (simp add: same_batch_def start_batch_def e_def same_ids(1))
  then have journal: "same_batch e st" "existing' = Some (bs_journal st)"
    using run_batch_journal [of e _ clock env tasks1 "br_plan resp"] run assms(2) ids'(1)
    by (simp_all add: e_def same_ids)
  then have resumed: "br_resumeApplied resp'"
    using ids'(6) assms(5) by (auto simp: resume_applied_def same_batch_def e_def same_ids)
  have all: "tasks' = tasks" using tasks(1) again(1) by simp
  note plan = plan_of_facts [OF again(2) [unfolded all]]
  define ms where "ms = map (map_prod id toResumedResult) (map (\<lambda>r. (tr_taskKey r, r)) (br_results resp))"
  let ?start = "start_batch clock' (bs_journals st) existing' True b key (defaultWorkspaceId env)"
  have "\<forall>k \<in> set (concat (bl_waves (br_plan resp'))). result_at ms k \<noteq> None"
    unfolding plan(4) using belongs_keys [OF tasks(2)]
    by (auto simp: ms_def result_at_def map_of_eq_None_iff image_image comp_def) (metis (mono_tags) image_eqI list.set_map)
  then have "settled (concat (bl_waves (br_plan resp'))) ms ?start"
    by (simp add: settled_def start_batch_def journal(2) tasks(4) ms_def)
  moreover have "run_batch clock' env' tasks (br_plan resp') ?start = (br_results resp', st')"
    using again(3) resumed by (simp add: all same_ids)
  ultimately show ?thesis
    using run_batch_settled [of "br_plan resp'" ms ?start clock' env' tasks] resumed
      batch_results_resumed [OF tasks(2) plan(1)] by (simp add: ms_def)
qed

lemma example_ids:
  "toNonEmptyString (field example_input ''batchRunId'') = Some ''b1''"
  "toNonEmptyString (field example_input ''resumeFromBatchRunId'') = None"
  by code_simp+

theorem finished_batch_is_never_rerun_witness:
  "\<exists>resp st resp' st'. example_run = Inr (resp, st)
     \<and> execute_batch (\<lambda>i. int i) ''again'' calm_tool (bs_journals st) example_input Null = Inr (resp', st')
     \<and> br_results resp' = map toResumedResult (br_results resp) \<and> concat (bs_calls st') = []"
proof -
  obtain resp st where first: "example_run = Inr (resp, st)" "\<not> br_resumeApplied resp" using example_run_ok by blast
  obtain resp' st' where second:
    "execute_batch (\<lambda>i. int i) ''again'' calm_tool (bs_journals st) example_input Null = Inr (resp', st')"
    using example_runs by blast
  have "journals_ok []" by (simp add: journals_ok_def)
  from finished_batch_is_never_rerun [OF first(1) [unfolded example_run_def] first(2) this example_ids(1) _ second]
  have "br_results resp' = map toResumedResult (br_results resp) \<and> concat (bs_calls st') = []"
    by (simp only: example_ids(2)) simp
  with first second show ?thesis by blast
qed

end
