(* ===== verification/LiveSkillFacts.thy ===== *)
theory LiveSkillFacts
  imports LiveSkills
begin

text \<open>
  Canonical identifiers are stable, a request may be normalised before or after it is checked, and the
  skills a runtime offers are never rejected, under whatever name they are asked for.
\<close>

section \<open>Normalising a request\<close>

lemma canonical_ids: "set (map fst accepted_ids) = set (map snd canonical_by_alias)"
  by code_simp

lemma canonical_of_canonical: "list_all (\<lambda>c. canonicalizeLiveSkillId c = Some c) (map fst accepted_ids)"
  by code_simp

lemma canonicalize_canonical:
  assumes "canonicalizeLiveSkillId i = Some c"
  shows "canonicalizeLiveSkillId c = Some c"
proof -
  have "c \<in> set (map snd canonical_by_alias)"
    using map_of_SomeD [OF assms [unfolded canonicalizeLiveSkillId_def]] by force
  then have "c \<in> set (map fst accepted_ids)" by (simp only: canonical_ids)
  with canonical_of_canonical show ?thesis unfolding list_all_iff by blast
qed

lemma normalized_skill_id:
  "canonicalizeLiveSkillId (lr_skillId (normalizeLiveSkillExecuteRequest r)) = canonicalizeLiveSkillId (lr_skillId r)"
  by (auto simp: normalizeLiveSkillExecuteRequest_def canonicalize_canonical split: option.split)

lemma renamed_fields:
  "lr_query (r\<lparr>lr_skillId := i\<rparr>) = lr_query r" "lr_command (r\<lparr>lr_skillId := i\<rparr>) = lr_command r"
  "lr_pattern (r\<lparr>lr_skillId := i\<rparr>) = lr_pattern r" "lr_matchMode (r\<lparr>lr_skillId := i\<rparr>) = lr_matchMode r"
  "lr_maxResults (r\<lparr>lr_skillId := i\<rparr>) = lr_maxResults r" "lr_contextBefore (r\<lparr>lr_skillId := i\<rparr>) = lr_contextBefore r"
  "lr_contextAfter (r\<lparr>lr_skillId := i\<rparr>) = lr_contextAfter r" "lr_input (r\<lparr>lr_skillId := i\<rparr>) = lr_input r"
 "lr_skillId (r\<lparr>lr_skillId := i\<rparr>) = i"
  by simp_all

lemma normalized_rest:
  "(normalizeLiveSkillExecuteRequest r)\<lparr>lr_skillId := i\<rparr> = r\<lparr>lr_skillId := i\<rparr>"
  by (auto simp: normalizeLiveSkillExecuteRequest_def split: option.split)

text \<open>Normalising a request is harmless.  It changes nothing but the identifier of the skill, which stays
  the name of the same skill; doing it twice is doing it once; and a request is valid before exactly when
  it is valid after, with the same message.\<close>

theorem live_skill_normalization:
  "normalizeLiveSkillExecuteRequest (normalizeLiveSkillExecuteRequest r) = normalizeLiveSkillExecuteRequest r
   \<and> validateLiveSkillExecuteRequest (normalizeLiveSkillExecuteRequest r) = validateLiveSkillExecuteRequest r
   \<and> canonicalizeLiveSkillId (lr_skillId (normalizeLiveSkillExecuteRequest r)) = canonicalizeLiveSkillId (lr_skillId r)
   \<and> (normalizeLiveSkillExecuteRequest r)\<lparr>lr_skillId := lr_skillId r\<rparr> = r"
proof -
  have "normalizeLiveSkillExecuteRequest (normalizeLiveSkillExecuteRequest r) = normalizeLiveSkillExecuteRequest r"
    by (auto simp: normalizeLiveSkillExecuteRequest_def canonicalize_canonical split: option.split)
  moreover have "validateLiveSkillExecuteRequest (r\<lparr>lr_skillId := i\<rparr>) = validateLiveSkillExecuteRequest r"
    if "canonicalizeLiveSkillId i = canonicalizeLiveSkillId (lr_skillId r)" for i
    by (simp only: validateLiveSkillExecuteRequest_def validate_network_def validate_shell_def validate_grep_def
        resolveLiveSkillQuery_def resolveCoreShellCommand_def resolveCoreGrepPattern_def renamed_fields that)
  then have "validateLiveSkillExecuteRequest (normalizeLiveSkillExecuteRequest r) = validateLiveSkillExecuteRequest r"
    by (auto simp: normalizeLiveSkillExecuteRequest_def canonicalize_canonical split: option.split)
  ultimately show ?thesis using normalized_skill_id normalized_rest [where r = r and i = "lr_skillId r"] by simp
qed

section \<open>The index of the skills of a runtime\<close>

lemma lookup_idem [simp]: "normalizeLiveSkillLookupId (js_trim s) = normalizeLiveSkillLookupId s"
  by (simp add: normalizeLiveSkillLookupId_def)

lemma first_by_lookup_set:
  "normalizeLiveSkillLookupId ` set (first_by_lookup seen es)
     = normalizeLiveSkillLookupId ` set es - set seen - {[]}"
proof (induction es arbitrary: seen)
  case (Cons e es)
  then show ?case by (auto simp: Let_def)
qed simp

lemma index_aliases:
  "foldl (index_alias canonical) (ix, entries) ids = (ix', entries') \<Longrightarrow>
     ki_known ix' = ki_known ix \<union> normalizeLiveSkillLookupId ` set ids
     \<and> ki_canonical ix' = (\<lambda>k. if k \<in> normalizeLiveSkillLookupId ` set ids then Some canonical else ki_canonical ix k)"
proof (induction ids arbitrary: ix entries)
  case (Cons i ids)
  obtain ix1 entries1 where step: "index_alias canonical (ix, entries) i = (ix1, entries1)" by fastforce
  then have "ki_known ix1 = insert (normalizeLiveSkillLookupId i) (ki_known ix)"
      "ki_canonical ix1 = (ki_canonical ix)(normalizeLiveSkillLookupId i \<mapsto> canonical)"
    by (auto simp: index_alias_def Let_def)
  with Cons.IH [of ix1 entries1] Cons.prems step show ?case by (auto simp: fun_eq_iff)
qed simp

text \<open>Every name in the index leads to a skill whose own name is in the index.\<close>

definition index_ok :: "catalog_index \<Rightarrow> bool" where
  "index_ok ix \<longleftrightarrow> dom (ki_canonical ix) = ki_known ix
     \<and> (\<forall>c \<in> ran (ki_canonical ix). normalizeLiveSkillLookupId c \<in> ki_known ix)"

lemma canonicalize_trim [simp]: "canonicalizeLiveSkillId (js_trim i) = canonicalizeLiveSkillId i"
  by (simp add: canonicalizeLiveSkillId_def)

lemma no_blank_alias: "map_of canonical_by_alias [] = None"
  by code_simp

lemma canonical_not_blank: "canonicalizeLiveSkillId i = Some c \<Longrightarrow> normalizeLiveSkillLookupId c \<noteq> []"
  using canonicalize_canonical [of i c] no_blank_alias by (auto simp: canonicalizeLiveSkillId_def)

lemma accepted_has_canonical:
  assumes "listAcceptedLiveSkillIdsFromCatalogSkill skill \<noteq> []"
  shows "normalizeLiveSkillLookupId (nullish (canonicalizeLiveSkillId (lk_id skill)) (js_trim (lk_id skill)))
     \<in> normalizeLiveSkillLookupId ` set (listAcceptedLiveSkillIdsFromCatalogSkill skill)"
proof -
  let ?i = "js_trim (lk_id skill)"
  let ?c = "nullish (canonicalizeLiveSkillId (lk_id skill)) ?i"
  have "?i \<noteq> []" using assms by (auto simp: listAcceptedLiveSkillIdsFromCatalogSkill_def Let_def)
  then have "normalizeLiveSkillLookupId ?c \<noteq> []"
    using canonical_not_blank by (cases "canonicalizeLiveSkillId (lk_id skill)")
      (auto simp: normalizeLiveSkillLookupId_def to_lower_def)
  with \<open>?i \<noteq> []\<close> show ?thesis
    by (simp add: listAcceptedLiveSkillIdsFromCatalogSkill_def Let_def first_by_lookup_set del: first_by_lookup.simps)
qed

lemma index_skill_ok:
  assumes "index_ok ix"
  shows "index_ok (index_skill ix skill)"
    "ki_known (index_skill ix skill) = ki_known ix \<union> normalizeLiveSkillLookupId ` set (listAcceptedLiveSkillIdsFromCatalogSkill skill)"
proof -
  let ?c = "nullish (canonicalizeLiveSkillId (lk_id skill)) (js_trim (lk_id skill))"
  let ?ids = "listAcceptedLiveSkillIdsFromCatalogSkill skill"
  obtain ix' entries where fold: "foldl (index_alias ?c) (ix, nullish (ki_accepted ix ?c) []) ?ids = (ix', entries)"
    by fastforce
  note facts = index_aliases [OF fold]
  have step: "ki_known (index_skill ix skill) = ki_known ix'" "ki_canonical (index_skill ix skill) = ki_canonical ix'"
    using fold by (simp_all add: index_skill_def Let_def)
  then show "ki_known (index_skill ix skill) = ki_known ix \<union> normalizeLiveSkillLookupId ` set ?ids"
    using facts by simp
  show "index_ok (index_skill ix skill)"
    unfolding index_ok_def step
  proof (intro conjI ballI)
    show "dom (ki_canonical ix') = ki_known ix'"
      using assms facts unfolding index_ok_def dom_def by (auto split: if_splits)
    fix c
    assume "c \<in> ran (ki_canonical ix')"
    then obtain k where k: "ki_canonical ix' k = Some c" by (auto simp: ran_def)
    show "normalizeLiveSkillLookupId c \<in> ki_known ix'"
    proof (cases "k \<in> normalizeLiveSkillLookupId ` set ?ids")
      case True
      with k facts have "c = ?c" "?ids \<noteq> []" by auto
      with facts accepted_has_canonical [of skill] show ?thesis by simp
    next
      case False
      with k facts have "c \<in> ran (ki_canonical ix)" by (auto intro: ranI)
      with assms facts show ?thesis by (simp add: index_ok_def)
    qed
  qed
qed

lemma folded_index:
  "index_ok ix \<Longrightarrow> index_ok (foldl index_skill ix skills)
     \<and> ki_known (foldl index_skill ix skills)
       = ki_known ix \<union> (\<Union>skill \<in> set skills. normalizeLiveSkillLookupId ` set (listAcceptedLiveSkillIdsFromCatalogSkill skill))"
  by (induction skills arbitrary: ix) (auto simp: index_skill_ok)

lemma empty_index: "index_ok \<lparr>ki_known = {}, ki_canonical = Map.empty, ki_accepted = Map.empty\<rparr>"
  by (simp add: index_ok_def)

lemma built_index:
  "index_ok (buildRuntimeLiveSkillCatalogIndex skills)
   \<and> ki_known (buildRuntimeLiveSkillCatalogIndex skills)
      = (\<Union>skill \<in> set skills. normalizeLiveSkillLookupId ` set (listAcceptedLiveSkillIdsFromCatalogSkill skill))"
  using folded_index [OF empty_index, of skills] by (simp add: buildRuntimeLiveSkillCatalogIndex_def)

text \<open>A skill that the runtime offers is never rejected.  When every identifier asked for is one that some
  listed skill accepts (its identifier, its canonical identifier or an alias, in any case and with any
  white space around it), then the identifiers they are resolved to all pass the check against the
  listed skills.\<close>

theorem offered_skills_pass:
  assumes "\<forall>i \<in> set (toStringArray v). \<exists>skill \<in> set skills.
      normalizeLiveSkillLookupId i \<in> normalizeLiveSkillLookupId ` set (listAcceptedLiveSkillIdsFromCatalogSkill skill)"
    and "index = buildRuntimeLiveSkillCatalogIndex skills"
  shows "assertKnownRuntimeLiveSkillIds (map_option ar_resolved (buildRuntimeAllowedSkillResolution v (Some index)))
    (Some (ki_known index)) toolName = None"
proof -
  have known: "normalizeLiveSkillLookupId (resolveRuntimeSkillId i (Some index)) \<in> ki_known index"
    if "i \<in> set (toStringArray v)" for i
  proof -
    have "normalizeLiveSkillLookupId i \<in> ki_known index"
      using assms(1) that built_index [of skills] unfolding assms(2) by blast
    then obtain c where c: "ki_canonical index (normalizeLiveSkillLookupId i) = Some c"
      using built_index [of skills] unfolding assms(2) index_ok_def by blast
    then have "normalizeLiveSkillLookupId c \<in> ki_known index"
      using built_index [of skills] unfolding assms(2) index_ok_def by (blast intro: ranI)
    with c show ?thesis by (simp add: resolveRuntimeSkillId_def)
  qed
  then have "filter (\<lambda>i. normalizeLiveSkillLookupId i \<notin> ki_known index)
      (uniq (map (\<lambda>i. resolveRuntimeSkillId i (Some index)) (toStringArray v))) = []"
    by (auto simp: filter_empty_conv)
  moreover have "resolveRuntimeSkillId (js_trim i) index' = resolveRuntimeSkillId i index'" for i index'
    by (simp add: resolveRuntimeSkillId_def)
  ultimately show ?thesis
    by (simp add: assertKnownRuntimeLiveSkillIds_def buildRuntimeAllowedSkillResolution_def
        buildRuntimeSkillIdResolution_def Let_def comp_def)
qed

theorem offered_skills_pass_witness:
  "assertKnownRuntimeLiveSkillIds
     (map_option ar_resolved (buildRuntimeAllowedSkillResolution (Str ''GREP, notes'')
       (Some (buildRuntimeLiveSkillCatalogIndex [\<lparr>lk_id = ''core-grep'', lk_aliases = Some [Str ''Notes'']\<rparr>]))))
     (Some (ki_known (buildRuntimeLiveSkillCatalogIndex [\<lparr>lk_id = ''core-grep'', lk_aliases = Some [Str ''Notes'']\<rparr>])))
     ''tool'' = None"
proof (rule offered_skills_pass [OF _ refl])
  have "list_all (\<lambda>i. normalizeLiveSkillLookupId i \<in> set (map normalizeLiveSkillLookupId
      (listAcceptedLiveSkillIdsFromCatalogSkill \<lparr>lk_id = ''core-grep'', lk_aliases = Some [Str ''Notes'']\<rparr>)))
      (toStringArray (Str ''GREP, notes''))"
    by code_simp
  then show "\<forall>i \<in> set (toStringArray (Str ''GREP, notes'')). \<exists>skill \<in> set [\<lparr>lk_id = ''core-grep'', lk_aliases = Some [Str ''Notes'']\<rparr>].
      normalizeLiveSkillLookupId i \<in> normalizeLiveSkillLookupId ` set (listAcceptedLiveSkillIdsFromCatalogSkill skill)"
    unfolding list_all_iff by simp
qed

end
