(* ===== verification/ToolInputSchema.thy ===== *)
theory ToolInputSchema
  imports JsValue "HOL-Library.Multiset"
begin

text \<open>
  The check of a tool's input against its JSON schema:
  \<^verbatim>\<open>src/packages/code-runtime-client/src/webMcpToolInputSchemaValidation.ts\<close> and the error of
  \<^verbatim>\<open>webMcpInputSchemaValidationError.ts\<close> that carries its result.  The code has two readings of
  a schema: \<open>matchesSchema\<close> answers yes or no and is used for the variants of \<open>oneOf\<close>, and
  \<open>validateValue\<close> walks the same value and reports what is wrong and where.  \<open>String(v)\<close>, which only
  shows in messages, is the parameter \<open>str\<close>; numbers that are not finite are all one value.
\<close>

section \<open>The result\<close>

record schema_result =
  sr_errors :: "string list"
  sr_warnings :: "string list"
  sr_missingRequired :: "string list"
  sr_typeMismatches :: "string list"
  sr_extraFields :: "string list"

definition empty_result :: schema_result where
  "empty_result = \<lparr>sr_errors = [], sr_warnings = [], sr_missingRequired = [], sr_typeMismatches = [],
     sr_extraFields = []\<rparr>"

section \<open>Reading values and schemas\<close>

fun isRecord :: "js_value \<Rightarrow> bool" where
  "isRecord (Obj _) = True"
| "isRecord _ = False"

text \<open>The strings of an array, as they are.\<close>

fun schema_strings :: "js_value \<Rightarrow> string list" where
  "schema_strings (Arr vs) = List.map_filter as_string vs"
| "schema_strings _ = []"

fun describeValueType :: "js_value \<Rightarrow> string" where
  "describeValueType Null = ''null''"
| "describeValueType (Arr _) = ''array''"
| "describeValueType Undefined = ''undefined''"
| "describeValueType (Bool _) = ''boolean''"
| "describeValueType (Num _) = ''number''"
| "describeValueType (Str _) = ''string''"
| "describeValueType (Obj _) = ''object''"

definition joinPath :: "string \<Rightarrow> string \<Rightarrow> string" where
  "joinPath path key = (if path \<noteq> [] then path @ ''.'' @ key else key)"

definition addTypeMismatch :: "schema_result \<Rightarrow> string \<Rightarrow> schema_result" where
  "addTypeMismatch st message =
     st\<lparr>sr_typeMismatches := sr_typeMismatches st @ [message], sr_errors := sr_errors st @ [message]\<rparr>"

definition matchesExpectedType :: "js_value \<Rightarrow> string \<Rightarrow> bool" where
  "matchesExpectedType v expected =
     (if expected = ''string'' then as_string v \<noteq> None
      else if expected = ''number'' then as_number v \<noteq> None
      else if expected = ''integer'' then
        (case as_number v of None \<Rightarrow> False | Some n \<Rightarrow> n = of_int \<lfloor>n\<rfloor>)
      else if expected = ''boolean'' then as_bool v \<noteq> None
      else if expected = ''array'' then isArray v
      else if expected = ''object'' then isRecord v
      else True)"

text \<open>\<open>Object.is\<close>: arrays and objects are compared by identity, and those of a schema are never those
  of an input.\<close>

fun object_is :: "js_value \<Rightarrow> js_value \<Rightarrow> bool" where
  "object_is (Arr _) _ = False"
| "object_is (Obj _) _ = False"
| "object_is a b = (a = b)"

fun enum_entries :: "js_value \<Rightarrow> js_value list option" where
  "enum_entries (Arr vs) = Some vs"
| "enum_entries _ = None"

definition outside_enum :: "js_object \<Rightarrow> js_value \<Rightarrow> bool" where
  "outside_enum s v =
     (case enum_entries (field s ''enum'') of None \<Rightarrow> False
      | Some entries \<Rightarrow> \<not> list_ex (\<lambda>e. object_is e v) entries)"

definition schema_type :: "js_object \<Rightarrow> string option" where
  "schema_type s = as_string (field s ''type'')"

definition type_mismatch :: "js_object \<Rightarrow> js_value \<Rightarrow> bool" where
  "type_mismatch s v =
     (case schema_type s of None \<Rightarrow> False | Some t \<Rightarrow> t \<noteq> [] \<and> \<not> matchesExpectedType v t)"

text \<open>\<open>schemaType === "array" && Array.isArray(value) && schema.items !== undefined\<close>: the items of the
  value and their schema.\<close>

fun array_items :: "js_object \<Rightarrow> js_value \<Rightarrow> (js_value list \<times> js_value) option" where
  "array_items s (Arr vs) =
     (if schema_type s = Some ''array'' \<and> field s ''items'' \<noteq> Undefined then Some (vs, field s ''items'')
      else None)"
| "array_items s _ = None"

text \<open>\<open>schemaType === "object" && isRecord(value)\<close>: the fields of the value.\<close>

fun object_fields :: "js_object \<Rightarrow> js_value \<Rightarrow> js_object option" where
  "object_fields s (Obj r) = (if schema_type s = Some ''object'' then Some r else None)"
| "object_fields s _ = None"

fun schema_properties :: "js_value \<Rightarrow> js_object option" where
  "schema_properties (Obj p) = Some p"
| "schema_properties _ = None"

definition missing_required :: "js_object \<Rightarrow> js_object \<Rightarrow> string list" where
  "missing_required s r = filter (\<lambda>k. field r k = Undefined) (schema_strings (field s ''required''))"

section \<open>Sizes of schemas\<close>

lemma size_field: "(k, v) \<in> set r \<Longrightarrow> size v < size (Obj r)"
  by (induction r) auto

lemma size_item: "v \<in> set vs \<Longrightarrow> size v < size (Arr vs)"
  by (induction vs) auto

lemma field_mem: "field r k = v \<Longrightarrow> v \<noteq> Undefined \<Longrightarrow> (k, v) \<in> set r"
  by (cases "map_of r k") (auto simp: field_def dest: map_of_SomeD)

lemma size_of_field: "field r k = v \<Longrightarrow> v \<noteq> Undefined \<Longrightarrow> size v < size (Obj r)"
  by (rule size_field) (rule field_mem)

lemma enum_entries_SomeD: "enum_entries v = Some vs \<Longrightarrow> v = Arr vs"
  by (cases v) auto

lemma schema_properties_SomeD: "schema_properties v = Some p \<Longrightarrow> v = Obj p"
  by (cases v) auto

lemma array_items_SomeD:
  "array_items s v = Some (vs, items) \<Longrightarrow> v = Arr vs \<and> items = field s ''items'' \<and> items \<noteq> Undefined"
  by (cases v) (auto split: if_splits)

lemma object_fields_SomeD: "object_fields s v = Some r \<Longrightarrow> v = Obj r \<and> schema_type s = Some ''object''"
  by (cases v) (auto split: if_splits)

lemma size_variant: "enum_entries (field s k) = Some vs \<Longrightarrow> v \<in> set vs \<Longrightarrow> size v < size (Obj s)"
  using size_of_field [of s k "Arr vs"] size_item [of v vs] by (auto dest!: enum_entries_SomeD)

lemma size_property:
  "schema_properties (field s k) = Some p \<Longrightarrow> e \<in> set p \<Longrightarrow> size (snd e) < size (Obj s)"
  using size_of_field [of s k "Obj p"] size_field [of "fst e" "snd e" p]
  by (auto dest!: schema_properties_SomeD)

lemma size_items: "array_items s v = Some (vs, items) \<Longrightarrow> size items < size (Obj s)"
  using size_of_field [of s "''items''" items] by (auto dest!: array_items_SomeD)

lemmas schema_sizes = size_variant size_property size_items

section \<open>Matching\<close>

function matchesSchema :: "js_value \<Rightarrow> js_value \<Rightarrow> bool" where
  "matchesSchema v schema =
     (case schema of Obj s \<Rightarrow>
        (case enum_entries (field s ''oneOf'') of
           Some variants \<Rightarrow> list_ex (\<lambda>variant. matchesSchema v variant) variants
         | None \<Rightarrow>
           if outside_enum s v then False
           else if type_mismatch s v then False
           else (case array_items s v of
               Some (vs, items) \<Rightarrow> list_all (\<lambda>item. matchesSchema item items) vs
             | None \<Rightarrow> (case object_fields s v of
                 None \<Rightarrow> True
               | Some r \<Rightarrow>
                 if missing_required s r \<noteq> [] then False
                 else (case schema_properties (field s ''properties'') of
                     None \<Rightarrow> True
                   | Some properties \<Rightarrow>
                     list_all (\<lambda>e. field r (fst e) = Undefined \<or> matchesSchema (field r (fst e)) (snd e))
                       properties))))
      | _ \<Rightarrow> True)"
  by pat_completeness auto
termination
  by (relation "measure (size \<circ> snd)") (auto dest: schema_sizes simp del: js_value.size)

declare matchesSchema.simps [simp del]

section \<open>Validation\<close>

definition report_missing :: "string \<Rightarrow> string list \<Rightarrow> schema_result \<Rightarrow> schema_result" where
  "report_missing path names st =
     fold (\<lambda>f acc. acc\<lparr>sr_missingRequired := sr_missingRequired acc @ [joinPath path f],
         sr_errors := sr_errors acc @ [''Missing required field: '' @ joinPath path f]\<rparr>) names st"

definition report_extra :: "string \<Rightarrow> string list \<Rightarrow> schema_result \<Rightarrow> schema_result" where
  "report_extra path names st =
     fold (\<lambda>f acc. acc\<lparr>sr_extraFields := sr_extraFields acc @ [joinPath path f],
         sr_warnings := sr_warnings acc @ [''Unexpected field: '' @ joinPath path f]\<rparr>) names st"

definition extra_keys :: "js_object \<Rightarrow> js_object \<Rightarrow> string list" where
  "extra_keys properties r = filter (\<lambda>k. field properties k = Undefined) (map fst r)"

definition variant_message :: "string \<Rightarrow> string" where
  "variant_message path =
     ''Invalid field value at '' @ path @ '': value does not match any allowed schema variant.''"

definition enum_message :: "(js_value \<Rightarrow> string) \<Rightarrow> string \<Rightarrow> js_object \<Rightarrow> js_value \<Rightarrow> string" where
  "enum_message str path s v =
     ''Invalid enum value at '' @ path @ '': expected one of ''
     @ js_join '', '' (map str (nullish (enum_entries (field s ''enum'')) [])) @ '', received '' @ str v @ ''.''"

definition type_message :: "string \<Rightarrow> js_object \<Rightarrow> js_value \<Rightarrow> string" where
  "type_message path s v =
     ''Invalid field type at '' @ path @ '': expected '' @ nullish (schema_type s) [] @ '', received ''
     @ describeValueType v @ ''.''"

definition item_path :: "string \<Rightarrow> nat \<Rightarrow> string" where
  "item_path path i = path @ ''['' @ show_nat i @ '']''"

function validateValue ::
      "(js_value \<Rightarrow> string) \<Rightarrow> bool \<Rightarrow> js_value \<Rightarrow> js_value \<Rightarrow> string \<Rightarrow> schema_result \<Rightarrow> schema_result"
    and validate_node ::
      "(js_value \<Rightarrow> string) \<Rightarrow> bool \<Rightarrow> js_value \<Rightarrow> js_object \<Rightarrow> string \<Rightarrow> schema_result \<Rightarrow> schema_result" where
  "validateValue str extra v schema path st =
     (case schema of Obj s \<Rightarrow>
        (case enum_entries (field s ''oneOf'') of
           Some variants \<Rightarrow> if \<not> list_ex (\<lambda>variant. matchesSchema v variant) variants
             then addTypeMismatch st (variant_message path)
             else validate_node str extra v s path st
         | None \<Rightarrow> validate_node str extra v s path st)
      | _ \<Rightarrow> st)"
| "validate_node str extra v s path st =
     (if outside_enum s v then addTypeMismatch st (enum_message str path s v)
      else if type_mismatch s v then addTypeMismatch st (type_message path s v)
      else (case array_items s v of
          Some (vs, items) \<Rightarrow>
            fold (\<lambda>e acc. validateValue str extra (snd e) items (item_path path (fst e)) acc)
              (enumerate 0 vs) st
        | None \<Rightarrow> (case object_fields s v of
            None \<Rightarrow> st
          | Some r \<Rightarrow>
            let st = report_missing path (missing_required s r) st
            in (case schema_properties (field s ''properties'') of
                None \<Rightarrow> st
              | Some properties \<Rightarrow>
                let st = (if extra then report_extra path (extra_keys properties r) st else st)
                in fold (\<lambda>e acc. if field r (fst e) = Undefined then acc
                     else validateValue str extra (field r (fst e)) (snd e) (joinPath path (fst e)) acc)
                     properties st))))"
  by pat_completeness auto
termination
  by (relation "measure (\<lambda>x. case x of Inl (_, _, _, schema, _) \<Rightarrow> 2 * size schema + 1
        | Inr (_, _, _, s, _) \<Rightarrow> 2 * size (Obj s))")
     (auto dest: schema_sizes simp del: js_value.size)

declare validateValue.simps [simp del] validate_node.simps [simp del]

definition validateToolInputAgainstSchema ::
    "(js_value \<Rightarrow> string) \<Rightarrow> js_value \<Rightarrow> js_value \<Rightarrow> schema_result" where
  "validateToolInputAgainstSchema str input schema =
     (case schema of Obj s \<Rightarrow>
        if schema_type s = Some ''object'' \<and> \<not> isRecord input
        then addTypeMismatch empty_result
          (''Invalid root type: expected object, received '' @ describeValueType input @ ''.'')
        else validateValue str True input schema [] empty_result
      | _ \<Rightarrow> empty_result)"

end
