(* ===== verification/ToolInputSchemaFacts.thy ===== *)
theory ToolInputSchemaFacts
  imports ToolInputSchema
begin

text \<open>
  What the two readings of a schema have to do with each other.  \<open>validateValue\<close> only appends to the
  result it is given (\<open>writes\<close>), so the errors of an array or of an object are those of its parts, and
  by induction over the walk there are none exactly when \<open>matchesSchema\<close> says yes, as long as no schema
  on the way puts other constraints beside a \<open>oneOf\<close>.
\<close>

section \<open>Appending results\<close>

definition append_result :: "schema_result \<Rightarrow> schema_result \<Rightarrow> schema_result" where
  "append_result a b = \<lparr>sr_errors = sr_errors a @ sr_errors b, sr_warnings = sr_warnings a @ sr_warnings b,
     sr_missingRequired = sr_missingRequired a @ sr_missingRequired b,
     sr_typeMismatches = sr_typeMismatches a @ sr_typeMismatches b,
     sr_extraFields = sr_extraFields a @ sr_extraFields b\<rparr>"

lemma append_result_laws [simp]:
  "append_result empty_result a = a" "append_result a empty_result = a"
  "append_result (append_result a b) c = append_result a (append_result b c)"
  by (simp_all add: append_result_def empty_result_def)

lemma errors_append [simp]: "sr_errors (append_result a b) = sr_errors a @ sr_errors b"
  by (simp add: append_result_def)

lemma errors_empty [simp]: "sr_errors empty_result = []"
  by (simp add: empty_result_def)

definition writes :: "(schema_result \<Rightarrow> schema_result) \<Rightarrow> bool" where
  "writes f \<longleftrightarrow> (\<forall>st. f st = append_result st (f empty_result))"

lemma writesD: "writes f \<Longrightarrow> f st = append_result st (f empty_result)"
  unfolding writes_def by (rule spec)

lemma writes_id [simp]: "writes (\<lambda>st. st)"
  by (simp add: writes_def)

lemma writes_comp:
  assumes "writes f" "writes g"
  shows "writes (\<lambda>st. g (f st))"
  unfolding writes_def
proof
  fix st
  have "g (f st) = append_result (append_result st (f empty_result)) (g empty_result)"
    using writesD [OF assms(2), of "f st"] writesD [OF assms(1), of st] by simp
  also have "\<dots> = append_result st (g (f empty_result))"
    using writesD [OF assms(2), of "f empty_result"] by simp
  finally show "g (f st) = append_result st (g (f empty_result))" .
qed

lemma writes_if: "(c \<Longrightarrow> writes f) \<Longrightarrow> (\<not> c \<Longrightarrow> writes g) \<Longrightarrow> writes (\<lambda>st. if c then f st else g st)"
  by (cases c) simp_all

lemma writes_fold:
  assumes "\<And>x. x \<in> set xs \<Longrightarrow> writes (f x)"
  shows "writes (fold f xs)"
  using assms
proof (induction xs)
  case Nil
  show ?case by (simp add: writes_def)
next
  case (Cons x xs)
  then have "writes (f x)" "writes (fold f xs)" by simp_all
  then have "writes (\<lambda>st. fold f xs (f x st))" by (rule writes_comp)
  then show ?case by (simp add: comp_def)
qed

lemma errors_comp:
  "writes g \<Longrightarrow> sr_errors (g (f empty_result)) = sr_errors (f empty_result) @ sr_errors (g empty_result)"
  using writesD [of g "f empty_result"] by simp

lemma errors_fold:
  assumes "\<And>x. x \<in> set xs \<Longrightarrow> writes (f x)"
  shows "sr_errors (fold f xs empty_result) = concat (map (\<lambda>x. sr_errors (f x empty_result)) xs)"
  using assms
proof (induction xs)
  case (Cons x xs)
  then have "writes (fold f xs)" by (simp add: writes_fold)
  with Cons show ?case by (simp add: errors_comp)
qed simp

lemma writes_addTypeMismatch [simp]: "writes (\<lambda>st. addTypeMismatch st m)"
  by (simp add: writes_def append_result_def addTypeMismatch_def empty_result_def)

lemma writes_report_missing [simp]: "writes (report_missing path names)"
  unfolding report_missing_def
  by (rule writes_fold) (simp add: writes_def append_result_def empty_result_def)

lemma writes_report_extra [simp]: "writes (report_extra path names)"
  unfolding report_extra_def
  by (rule writes_fold) (simp add: writes_def append_result_def empty_result_def)

lemma errors_addTypeMismatch [simp]: "sr_errors (addTypeMismatch st m) = sr_errors st @ [m]"
  by (simp add: addTypeMismatch_def)

lemma errors_report_missing:
  "sr_errors (report_missing path names st)
     = sr_errors st @ map (\<lambda>f. ''Missing required field: '' @ joinPath path f) names"
  unfolding report_missing_def by (induction names arbitrary: st) simp_all

lemma errors_report_extra [simp]: "sr_errors (report_extra path names st) = sr_errors st"
  unfolding report_extra_def by (induction names arbitrary: st) simp_all

section \<open>The walk only appends\<close>

definition no_variant :: "js_object \<Rightarrow> js_value \<Rightarrow> bool" where
  "no_variant s v =
     (case enum_entries (field s ''oneOf'') of None \<Rightarrow> False
      | Some variants \<Rightarrow> \<not> list_ex (\<lambda>variant. matchesSchema v variant) variants)"

lemma validateValue_Obj:
  "validateValue str x v (Obj s) path st =
     (if no_variant s v then addTypeMismatch st (variant_message path)
      else validate_node str x v s path st)"
  by (simp add: validateValue.simps [of _ _ _ "Obj s"] no_variant_def split: option.split)

lemma validateValue_other: "\<not> isRecord schema \<Longrightarrow> validateValue str x v schema path st = st"
  by (cases schema) (simp_all add: validateValue.simps)

lemma validate_induct [case_names obj node other]:
  assumes obj: "\<And>v s path. (\<not> no_variant s v \<Longrightarrow> Q v s path) \<Longrightarrow> P v (Obj s) path"
    and node: "\<And>v s path.
      (\<And>vs items i item. \<not> outside_enum s v \<Longrightarrow> \<not> type_mismatch s v \<Longrightarrow> array_items s v = Some (vs, items) \<Longrightarrow>
         item \<in> set vs \<Longrightarrow> P item items (item_path path i)) \<Longrightarrow>
      (\<And>r properties k sub. \<not> outside_enum s v \<Longrightarrow> \<not> type_mismatch s v \<Longrightarrow> array_items s v = None \<Longrightarrow>
         object_fields s v = Some r \<Longrightarrow> schema_properties (field s ''properties'') = Some properties \<Longrightarrow>
         (k, sub) \<in> set properties \<Longrightarrow> field r k \<noteq> Undefined \<Longrightarrow> P (field r k) sub (joinPath path k)) \<Longrightarrow>
      Q v s path"
    and other: "\<And>v schema path. \<not> isRecord schema \<Longrightarrow> P v schema path"
  shows "P v schema path"
proof -
  have "P v schema path \<and> (\<forall>s. schema = Obj s \<longrightarrow> Q v s path)"
  proof (induction schema arbitrary: v path rule: measure_induct_rule [of size])
    case (less schema)
    show ?case
    proof (cases schema)
      case (Obj s)
      have Q: "Q v s path"
      proof (rule node)
        fix vs items i item
        assume "array_items s v = Some (vs, items)"
        then have "size items < size (Obj s)" by (rule size_items)
        then show "P item items (item_path path i)" using less Obj by blast
      next
        fix r properties k sub
        assume "schema_properties (field s ''properties'') = Some properties" "(k, sub) \<in> set properties"
        then have "size sub < size (Obj s)" using size_property by fastforce
        then show "P (field r k) sub (joinPath path k)" using less Obj by blast
      qed
      with obj Obj show ?thesis by blast
    qed (auto intro: other)
  qed
  then show ?thesis ..
qed

text \<open>The walk at a record, by the case of the value.\<close>

definition property_walk ::
    "(js_value \<Rightarrow> string) \<Rightarrow> bool \<Rightarrow> js_object \<Rightarrow> string \<Rightarrow> js_object \<Rightarrow> schema_result \<Rightarrow> schema_result" where
  "property_walk str x r path properties =
     fold (\<lambda>e acc. if field r (fst e) = Undefined then acc
       else validateValue str x (field r (fst e)) (snd e) (joinPath path (fst e)) acc) properties"

definition item_walk ::
    "(js_value \<Rightarrow> string) \<Rightarrow> bool \<Rightarrow> js_value \<Rightarrow> string \<Rightarrow> js_value list \<Rightarrow> schema_result \<Rightarrow> schema_result" where
  "item_walk str x its path vs =
     fold (\<lambda>e acc. validateValue str x (snd e) its (item_path path (fst e)) acc) (enumerate 0 vs)"

definition extra_step :: "bool \<Rightarrow> string \<Rightarrow> string list \<Rightarrow> schema_result \<Rightarrow> schema_result" where
  "extra_step x path names = (\<lambda>st. if x then report_extra path names st else st)"

lemma node_enum: "outside_enum s v \<Longrightarrow>
    validate_node str x v s path = (\<lambda>st. addTypeMismatch st (enum_message str path s v))"
  by (rule ext) (simp add: validate_node.simps)

lemma node_type: "\<not> outside_enum s v \<Longrightarrow> type_mismatch s v \<Longrightarrow>
    validate_node str x v s path = (\<lambda>st. addTypeMismatch st (type_message path s v))"
  by (rule ext) (simp add: validate_node.simps)

lemma node_items: "\<not> outside_enum s v \<Longrightarrow> \<not> type_mismatch s v \<Longrightarrow> array_items s v = Some (vs, its) \<Longrightarrow>
    validate_node str x v s path = item_walk str x its path vs"
  by (rule ext) (simp add: validate_node.simps item_walk_def)

lemma node_plain: "\<not> outside_enum s v \<Longrightarrow> \<not> type_mismatch s v \<Longrightarrow> array_items s v = None \<Longrightarrow>
    object_fields s v = None \<Longrightarrow> validate_node str x v s path = (\<lambda>st. st)"
  by (rule ext) (simp add: validate_node.simps)

lemma node_open: "\<not> outside_enum s v \<Longrightarrow> \<not> type_mismatch s v \<Longrightarrow> array_items s v = None \<Longrightarrow>
    object_fields s v = Some r \<Longrightarrow> schema_properties (field s ''properties'') = None \<Longrightarrow>
    validate_node str x v s path = report_missing path (missing_required s r)"
  by (rule ext) (simp add: validate_node.simps)

lemma node_object: "\<not> outside_enum s v \<Longrightarrow> \<not> type_mismatch s v \<Longrightarrow> array_items s v = None \<Longrightarrow>
    object_fields s v = Some r \<Longrightarrow> schema_properties (field s ''properties'') = Some properties \<Longrightarrow>
    validate_node str x v s path = (\<lambda>st. property_walk str x r path properties
      (extra_step x path (extra_keys properties r) (report_missing path (missing_required s r) st)))"
  by (rule ext) (simp add: validate_node.simps property_walk_def extra_step_def)

lemma node_cases:
  obtains (enum) "outside_enum s v"
  | (mismatch) "\<not> outside_enum s v" "type_mismatch s v"
  | (items) vs its where "\<not> outside_enum s v" "\<not> type_mismatch s v" "array_items s v = Some (vs, its)"
  | (plain) "\<not> outside_enum s v" "\<not> type_mismatch s v" "array_items s v = None" "object_fields s v = None"
  | (undeclared) r where "\<not> outside_enum s v" "\<not> type_mismatch s v" "array_items s v = None" "object_fields s v = Some r"
      "schema_properties (field s ''properties'') = None"
  | (object) r properties where "\<not> outside_enum s v" "\<not> type_mismatch s v" "array_items s v = None"
      "object_fields s v = Some r" "schema_properties (field s ''properties'') = Some properties"
  by (cases "outside_enum s v"; cases "type_mismatch s v"; cases "array_items s v";
      cases "object_fields s v"; cases "schema_properties (field s ''properties'')") auto

lemma writes_extra_step [simp]: "writes (extra_step x path names)"
  unfolding extra_step_def by (rule writes_if) simp_all

lemma writes_node:
  assumes items: "\<And>vs items i item. \<not> outside_enum s v \<Longrightarrow> \<not> type_mismatch s v \<Longrightarrow>
      array_items s v = Some (vs, items) \<Longrightarrow> item \<in> set vs \<Longrightarrow>
      writes (validateValue str x item items (item_path path i))"
    and props: "\<And>r properties k sub. \<not> outside_enum s v \<Longrightarrow> \<not> type_mismatch s v \<Longrightarrow> array_items s v = None \<Longrightarrow>
      object_fields s v = Some r \<Longrightarrow> schema_properties (field s ''properties'') = Some properties \<Longrightarrow>
      (k, sub) \<in> set properties \<Longrightarrow> field r k \<noteq> Undefined \<Longrightarrow>
      writes (validateValue str x (field r k) sub (joinPath path k))"
  shows "writes (validate_node str x v s path)"
proof (cases rule: node_cases [of s v])
  case (items vs its)
  have "writes (item_walk str x its path vs)"
    unfolding item_walk_def
    by (rule writes_fold) (auto simp: in_set_enumerate_eq intro!: assms(1) [OF items])
  then show ?thesis by (simp only: node_items [OF items])
next
  case (object r properties)
  have "writes (property_walk str x r path properties)"
    unfolding property_walk_def
    by (rule writes_fold) (auto intro!: writes_if assms(2) [OF object])
  note writes_comp [OF writes_comp [OF writes_report_missing writes_extra_step] this]
  then show ?thesis unfolding node_object [OF object] .
qed (simp_all add: node_enum node_type node_plain node_open)

lemma writes_validate [simp]: "writes (validateValue str x v schema path)"
proof (induction v schema path rule: validate_induct [where Q = "\<lambda>v s path. writes (validate_node str x v s path)"])
  case (obj v s path)
  then show ?case unfolding validateValue_Obj by (intro writes_if) simp_all
next
  case (node v s path)
  then show ?case by (rule writes_node)
next
  case (other v schema path)
  then show ?case by (simp add: writes_def validateValue_other)
qed

lemma writes_item_walk [simp]: "writes (item_walk str x its path vs)"
  unfolding item_walk_def by (rule writes_fold) simp

lemma writes_property_walk [simp]: "writes (property_walk str x r path properties)"
  unfolding property_walk_def by (rule writes_fold) (simp add: writes_if)

section \<open>The errors of a walk\<close>

lemma item_walk_errors:
  "sr_errors (item_walk str x its path vs empty_result) = [] \<longleftrightarrow>
     (\<forall>(i, item) \<in> set (enumerate 0 vs).
        sr_errors (validateValue str x item its (item_path path i) empty_result) = [])"
  unfolding item_walk_def by (subst errors_fold) auto

lemma property_walk_errors:
  "sr_errors (property_walk str x r path properties empty_result) = [] \<longleftrightarrow>
     (\<forall>(k, sub) \<in> set properties. field r k = Undefined \<or>
        sr_errors (validateValue str x (field r k) sub (joinPath path k) empty_result) = [])"
  unfolding property_walk_def by (subst errors_fold) (auto simp: writes_if)

lemma object_walk_errors:
  "sr_errors (property_walk str x r path properties
      (extra_step x path names (report_missing path missing empty_result))) = [] \<longleftrightarrow>
     missing = [] \<and> sr_errors (property_walk str x r path properties empty_result) = []"
proof -
  have "sr_errors (extra_step x path names (report_missing path missing empty_result))
      = map (\<lambda>f. ''Missing required field: '' @ joinPath path f) missing"
    by (simp add: extra_step_def errors_report_missing)
  then show ?thesis by (subst writesD [OF writes_property_walk]) simp
qed

section \<open>Matching is validating without errors\<close>

definition matches_node :: "js_object \<Rightarrow> js_value \<Rightarrow> bool" where
  "matches_node s v =
     (\<not> outside_enum s v \<and> \<not> type_mismatch s v \<and>
      (case array_items s v of
         Some (vs, its) \<Rightarrow> list_all (\<lambda>item. matchesSchema item its) vs
       | None \<Rightarrow> (case object_fields s v of
           None \<Rightarrow> True
         | Some r \<Rightarrow> missing_required s r = [] \<and>
             (case schema_properties (field s ''properties'') of
                None \<Rightarrow> True
              | Some properties \<Rightarrow> list_all (\<lambda>e. field r (fst e) = Undefined
                  \<or> matchesSchema (field r (fst e)) (snd e)) properties))))"

lemma matchesSchema_Obj:
  "matchesSchema v (Obj s) =
     (case enum_entries (field s ''oneOf'') of
        Some variants \<Rightarrow> list_ex (\<lambda>variant. matchesSchema v variant) variants
      | None \<Rightarrow> matches_node s v)"
  by (simp add: matchesSchema.simps [of v "Obj s"] matches_node_def split: option.split) blast

lemma matchesSchema_other: "\<not> isRecord schema \<Longrightarrow> matchesSchema v schema"
  by (cases schema) (simp_all add: matchesSchema.simps)

text \<open>No schema on the way has another constraint beside its \<open>oneOf\<close>.\<close>

lemma size_any_field: "size (field s k) < size (Obj s)"
  by (cases "field s k = Undefined") (auto dest: size_of_field [OF refl])

function oneOf_alone :: "js_value \<Rightarrow> bool" where
  "oneOf_alone schema =
     (case schema of Obj s \<Rightarrow>
        (enum_entries (field s ''oneOf'') = None \<or>
           enum_entries (field s ''enum'') = None \<and> nullish (schema_type s) [] = []) \<and>
        oneOf_alone (field s ''items'') \<and>
        (case schema_properties (field s ''properties'') of
           None \<Rightarrow> True | Some properties \<Rightarrow> list_all (\<lambda>e. oneOf_alone (snd e)) properties)
      | _ \<Rightarrow> True)"
  by pat_completeness auto
termination
  by (relation "measure size") (auto dest: size_property intro: size_any_field simp del: js_value.size)

declare oneOf_alone.simps [simp del]

lemma oneOf_alone_Obj:
  "oneOf_alone (Obj s) \<longleftrightarrow>
     (enum_entries (field s ''oneOf'') = None \<or>
        enum_entries (field s ''enum'') = None \<and> nullish (schema_type s) [] = []) \<and>
     oneOf_alone (field s ''items'') \<and>
     (\<forall>properties. schema_properties (field s ''properties'') = Some properties \<longrightarrow>
        (\<forall>(k, sub) \<in> set properties. oneOf_alone sub))"
  by (auto simp: oneOf_alone.simps [of "Obj s"] list_all_iff split: option.split)

text \<open>A record whose only constraint is a \<open>oneOf\<close> adds nothing once a variant matches.\<close>

lemma alone_node:
  assumes "enum_entries (field s ''enum'') = None" "nullish (schema_type s) [] = []"
  shows "validate_node str x v s path = (\<lambda>st. st)"
proof (rule node_plain)
  show "\<not> outside_enum s v" using assms(1) by (simp add: outside_enum_def)
  have t: "schema_type s = None \<or> schema_type s = Some []" using assms(2) by (cases "schema_type s") simp_all
  then show "\<not> type_mismatch s v" by (auto simp: type_mismatch_def)
  show "array_items s v = None" "object_fields s v = None" using t by (cases v; auto)+
qed

lemma validate_matches:
  "(sr_errors (validateValue str x v schema path empty_result) = [] \<longrightarrow> matchesSchema v schema) \<and>
   (oneOf_alone schema \<longrightarrow> matchesSchema v schema \<longrightarrow>
      sr_errors (validateValue str x v schema path empty_result) = [])"
proof (induction v schema path rule: validate_induct [where Q = "\<lambda>v s path.
      (sr_errors (validate_node str x v s path empty_result) = [] \<longrightarrow> matches_node s v) \<and>
      (oneOf_alone (Obj s) \<longrightarrow> matches_node s v \<longrightarrow>
         sr_errors (validate_node str x v s path empty_result) = [])"])
  case (obj v s path)
  show ?case
  proof (cases "enum_entries (field s ''oneOf'')")
    case None
    then have *: "\<not> no_variant s v" "matchesSchema v (Obj s) = matches_node s v"
      by (simp_all add: no_variant_def matchesSchema_Obj)
    have eq: "validateValue str x v (Obj s) path empty_result = validate_node str x v s path empty_result"
      using *(1) by (simp only: validateValue_Obj if_False)
    show ?thesis unfolding eq *(2) by (rule obj [OF *(1)])
  next
    case (Some variants)
    show ?thesis
    proof (cases "no_variant s v")
      case True
      then have "\<not> matchesSchema v (Obj s)" using Some by (simp add: matchesSchema_Obj no_variant_def)
      moreover have "sr_errors (validateValue str x v (Obj s) path empty_result) \<noteq> []"
        using True by (simp only: validateValue_Obj if_True errors_addTypeMismatch) simp
      ultimately show ?thesis by blast
    next
      case False
      then have "matchesSchema v (Obj s)" using Some by (simp add: matchesSchema_Obj no_variant_def)
      moreover have "sr_errors (validate_node str x v s path empty_result) = []" if "oneOf_alone (Obj s)"
        using that Some by (simp add: oneOf_alone_Obj alone_node)
      moreover have "validateValue str x v (Obj s) path empty_result = validate_node str x v s path empty_result"
        using False by (simp only: validateValue_Obj if_False)
      ultimately show ?thesis by simp
    qed
  qed
next
  case (node v s path)
  show ?case
  proof (cases rule: node_cases [of s v])
    case (items vs its)
    have IH: "(sr_errors (validateValue str x (vs ! i) its (item_path path i) empty_result) = [] \<longrightarrow>
          matchesSchema (vs ! i) its) \<and>
        (oneOf_alone its \<longrightarrow> matchesSchema (vs ! i) its \<longrightarrow>
          sr_errors (validateValue str x (vs ! i) its (item_path path i) empty_result) = [])"
      if "i < length vs" for i by (rule node(1) [OF items nth_mem [OF that]])
    have alone: "oneOf_alone (Obj s) \<Longrightarrow> oneOf_alone its"
      using items(3) by (auto simp: oneOf_alone_Obj dest: array_items_SomeD)
    have errs: "sr_errors (item_walk str x its path vs empty_result) = [] \<longleftrightarrow> (\<forall>i < length vs.
        sr_errors (validateValue str x (vs ! i) its (item_path path i) empty_result) = [])"
      unfolding item_walk_errors by (auto simp: in_set_enumerate_eq)
    have match: "matches_node s v \<longleftrightarrow> (\<forall>i < length vs. matchesSchema (vs ! i) its)"
      by (simp add: matches_node_def items list_all_length)
    show ?thesis unfolding node_items [OF items] errs match using IH alone by blast
  next
    case (object r properties)
    have IH: "(sr_errors (validateValue str x (field r k) sub (joinPath path k) empty_result) = [] \<longrightarrow>
          matchesSchema (field r k) sub) \<and>
        (oneOf_alone sub \<longrightarrow> matchesSchema (field r k) sub \<longrightarrow>
          sr_errors (validateValue str x (field r k) sub (joinPath path k) empty_result) = [])"
      if "(k, sub) \<in> set properties" "field r k \<noteq> Undefined" for k sub by (rule node(2) [OF object that])
    have alone: "oneOf_alone (Obj s) \<Longrightarrow> (k, sub) \<in> set properties \<Longrightarrow> oneOf_alone sub" for k sub
      using object(5) by (auto simp: oneOf_alone_Obj)
    have match: "matches_node s v \<longleftrightarrow> missing_required s r = [] \<and>
        (\<forall>(k, sub) \<in> set properties. field r k = Undefined \<or> matchesSchema (field r k) sub)"
      by (auto simp: matches_node_def object list_all_iff)
    show ?thesis unfolding node_object [OF object] object_walk_errors property_walk_errors match
      using IH alone by blast
  qed (simp_all add: node_enum node_type node_plain node_open matches_node_def errors_report_missing)
next
  case (other v schema path)
  then show ?case by (simp add: validateValue_other matchesSchema_other)
qed

text \<open>C35: the reported errors and the answer of \<open>matchesSchema\<close> agree: an input that passes
  \<open>validateToolInputAgainstSchema\<close> matches the schema, and an input that matches passes when no schema
  on the way puts an \<open>enum\<close> or a \<open>type\<close> beside its \<open>oneOf\<close> (the proviso is needed, see
  \<open>siblings_of_oneOf\<close>).
\<close>

theorem accepted_iff_matches:
  "(sr_errors (validateToolInputAgainstSchema str input schema) = [] \<longrightarrow> matchesSchema input schema) \<and>
   (oneOf_alone schema \<longrightarrow>
      (sr_errors (validateToolInputAgainstSchema str input schema) = []) = matchesSchema input schema)"
proof (cases schema)
  case (Obj s)
  show ?thesis
  proof (cases "schema_type s = Some ''object'' \<and> \<not> isRecord input")
    case True
    then have "\<not> matches_node s input"
      by (simp add: matches_node_def type_mismatch_def matchesExpectedType_def)
    then have "oneOf_alone schema \<Longrightarrow> \<not> matchesSchema input schema"
      using True by (auto simp: Obj oneOf_alone_Obj matchesSchema_Obj)
    moreover have "sr_errors (validateToolInputAgainstSchema str input schema) \<noteq> []"
      using True by (simp add: validateToolInputAgainstSchema_def Obj)
    ultimately show ?thesis by blast
  next
    case False
    then have "validateToolInputAgainstSchema str input schema = validateValue str True input schema [] empty_result"
      by (auto simp: validateToolInputAgainstSchema_def Obj)
    with validate_matches [of str True input schema "[]"] show ?thesis by metis
  qed
qed (simp_all add: validateToolInputAgainstSchema_def matchesSchema_other)

definition schema_example :: js_value where
  "schema_example = Obj [(''type'', Str ''object''), (''required'', Arr [Str ''path'']),
     (''properties'', Obj [(''path'', Obj [(''type'', Str ''string'')]),
        (''limit'', Obj [(''oneOf'', Arr [Obj [(''type'', Str ''integer'')], Obj [(''enum'', Arr [Str ''all''])]])]),
        (''tags'', Obj [(''type'', Str ''array''), (''items'', Obj [(''type'', Str ''string'')])])])]"

definition schema_input :: js_value where
  "schema_input = Obj [(''path'', Str ''a''), (''limit'', Str ''all''), (''tags'', Arr [Str ''x'', Str ''y'']),
     (''more'', Null)]"

lemma example_schema_alone: "oneOf_alone schema_example"
  by code_simp

lemma example_input_matches: "matchesSchema schema_input schema_example"
  by code_simp

theorem accepted_iff_matches_witness:
  "sr_errors (validateToolInputAgainstSchema (\<lambda>_. []) schema_input schema_example) = []"
  using accepted_iff_matches [of "\<lambda>_. []" schema_input schema_example] example_schema_alone
    example_input_matches by blast

text \<open>A field whose schema has a type beside its \<open>oneOf\<close>: the number matches, and is reported.\<close>

definition sibling_schema :: js_value where
  "sibling_schema = Obj [(''type'', Str ''object''), (''properties'', Obj [(''n'',
     Obj [(''type'', Str ''string''),
       (''oneOf'', Arr [Obj [(''type'', Str ''string'')], Obj [(''type'', Str ''number'')]])])])]"

lemma siblings_of_oneOf:
  "matchesSchema (Obj [(''n'', Num (Some 1))]) sibling_schema"
  "sr_errors (validateToolInputAgainstSchema str (Obj [(''n'', Num (Some 1))]) sibling_schema) \<noteq> []"
  by code_simp+

section \<open>What the result counts\<close>

definition result_accounted :: "schema_result \<Rightarrow> bool" where
  "result_accounted r \<longleftrightarrow> sr_warnings r = map (\<lambda>f. ''Unexpected field: '' @ f) (sr_extraFields r) \<and>
     mset (sr_errors r) = mset (sr_typeMismatches r)
       + mset (map (\<lambda>f. ''Missing required field: '' @ f) (sr_missingRequired r))"

lemma accounted_fold:
  "(\<And>x st. x \<in> set xs \<Longrightarrow> result_accounted st \<Longrightarrow> result_accounted (f x st)) \<Longrightarrow> result_accounted st \<Longrightarrow> result_accounted (fold f xs st)"
  by (induction xs arbitrary: st) simp_all

lemma accounted_missing: "result_accounted st \<Longrightarrow> result_accounted (report_missing path names st)"
  unfolding report_missing_def by (rule accounted_fold) (simp_all add: result_accounted_def)

lemma accounted_extra: "result_accounted st \<Longrightarrow> result_accounted (report_extra path names st)"
  unfolding report_extra_def by (rule accounted_fold) (simp_all add: result_accounted_def)

lemma accounted_mismatch: "result_accounted empty_result" "result_accounted st \<Longrightarrow> result_accounted (addTypeMismatch st m)"
  by (simp_all add: result_accounted_def empty_result_def addTypeMismatch_def)

lemma accounted_extra_step: "result_accounted st \<Longrightarrow> result_accounted (extra_step x path names st)"
  by (simp add: extra_step_def accounted_extra)

lemmas accounted_steps = accounted_mismatch accounted_missing accounted_extra_step

lemma accounted_validate: "result_accounted st \<Longrightarrow> result_accounted (validateValue str x v schema path st)"
proof (induction v schema path arbitrary: st rule: validate_induct
    [where Q = "\<lambda>v s path. \<forall>st. result_accounted st \<longrightarrow> result_accounted (validate_node str x v s path st)"])
  case (obj v s path)
  then show ?case by (simp add: validateValue_Obj accounted_steps)
next
  case (node v s path)
  show ?case
  proof (cases rule: node_cases [of s v])
    case (items vs its)
    show ?thesis unfolding node_items [OF items] item_walk_def
      by (auto intro!: accounted_fold node(1) [OF items] simp: in_set_enumerate_eq)
  next
    case (object r properties)
    show ?thesis unfolding node_object [OF object] property_walk_def
      by (auto intro!: accounted_fold accounted_steps node(2) [OF object])
  qed (simp_all add: node_enum node_type node_plain node_open accounted_steps)
next
  case (other v schema path)
  then show ?case by (simp add: validateValue_other)
qed

text \<open>Every error of a validation is either a type mismatch or the report of one missing required field,
  with its path, and every warning is the report of one undeclared field: nothing is counted twice or lost.
\<close>

theorem validation_accounted:
  "let r = validateToolInputAgainstSchema str input schema
   in sr_warnings r = map (\<lambda>f. ''Unexpected field: '' @ f) (sr_extraFields r) \<and>
      mset (sr_errors r) = mset (sr_typeMismatches r)
        + mset (map (\<lambda>f. ''Missing required field: '' @ f) (sr_missingRequired r))"
proof -
  have "result_accounted (validateToolInputAgainstSchema str input schema)"
    unfolding validateToolInputAgainstSchema_def
    by (auto intro: accounted_steps accounted_validate split: js_value.split)
  then show ?thesis by (simp add: result_accounted_def Let_def)
qed

end
