(* ===== verification/ToolMetrics.thy ===== *)
theory ToolMetrics
  imports JsValue
begin

text \<open>
  The metrics of tool calls: \<^verbatim>\<open>src/apps/code/src/services/runtimeToolExecutionMetrics.ts\<close>.  The module
  keeps one snapshot and a set of listeners; every operation copies the snapshot, changes the copy,
  stores it and gives it to the listeners.  A counter is a natural number, a time a rational; each
  operation takes the readings of the clock it makes: that of the entry of the tool and the last one,
  of the snapshot.  A dictionary of tools keeps the order in which its keys came.
\<close>

section \<open>The snapshot\<close>

datatype tool_status = StSuccess | StValidationFailed | StRuntimeFailed | StTimeout | StBlocked

datatype tool_scope = ScWrite | ScRuntime | ScComputerObserve

fun scope_text :: "tool_scope \<Rightarrow> string" where
  "scope_text ScWrite = ''write''"
| "scope_text ScRuntime = ''runtime''"
| "scope_text ScComputerObserve = ''computer_observe''"

record recent_entry =
  rn_toolName :: string
  rn_scope :: tool_scope
  rn_status :: tool_status
  rn_errorCode :: "string option"
  rn_durationMs :: "int option"
  rn_truncatedOutput :: bool
  rn_at :: rat

record tool_totals =
  attemptedTotal :: nat
  startedTotal :: nat
  completedTotal :: nat
  successTotal :: nat
  validationFailedTotal :: nat
  runtimeFailedTotal :: nat
  timeoutTotal :: nat
  blockedTotal :: nat
  truncatedTotal :: nat

record by_tool_entry =
  bt_toolName :: string
  bt_scope :: tool_scope
  bt_totals :: tool_totals
  bt_lastStatus :: "tool_status option"
  bt_lastErrorCode :: "string option"
  bt_lastDurationMs :: "int option"
  bt_updatedAt :: rat

record metrics_snapshot =
  sn_totals :: tool_totals
  sn_byTool :: "(string \<times> by_tool_entry) list"
  sn_recent :: "recent_entry list"
  sn_updatedAt :: rat

definition MAX_RECENT_RECORDS :: nat where "MAX_RECENT_RECORDS = 80"

definition createEmptyTotals :: tool_totals where
  "createEmptyTotals = \<lparr>attemptedTotal = 0, startedTotal = 0, completedTotal = 0, successTotal = 0,
     validationFailedTotal = 0, runtimeFailedTotal = 0, timeoutTotal = 0, blockedTotal = 0, truncatedTotal = 0\<rparr>"

definition createEmptySnapshot :: "rat \<Rightarrow> metrics_snapshot" where
  "createEmptySnapshot now =
     \<lparr>sn_totals = createEmptyTotals, sn_byTool = [], sn_recent = [], sn_updatedAt = now\<rparr>"

definition toToolKey :: "string \<Rightarrow> tool_scope \<Rightarrow> string" where
  "toToolKey toolName scope = scope_text scope @ '':'' @ toolName"

text \<open>The argument is \<open>None\<close> when it is absent, \<open>null\<close> or not finite.\<close>

definition toNonNegativeInteger :: "rat option \<Rightarrow> int option" where
  "toNonNegativeInteger v =
     (case v of None \<Rightarrow> None | Some n \<Rightarrow> if \<lfloor>n\<rfloor> < 0 then None else Some \<lfloor>n\<rfloor>)"

section \<open>The changes\<close>

definition new_entry :: "string \<Rightarrow> tool_scope \<Rightarrow> rat \<Rightarrow> by_tool_entry" where
  "new_entry toolName scope now =
     \<lparr>bt_toolName = toolName, bt_scope = scope, bt_totals = createEmptyTotals, bt_lastStatus = None,
      bt_lastErrorCode = None, bt_lastDurationMs = None, bt_updatedAt = now\<rparr>"

definition ensureByToolEntry :: "metrics_snapshot \<Rightarrow> string \<Rightarrow> tool_scope \<Rightarrow> rat \<Rightarrow> by_tool_entry" where
  "ensureByToolEntry s toolName scope now =
     nullish (map_of (sn_byTool s) (toToolKey toolName scope)) (new_entry toolName scope now)"

text \<open>The entry of a tool, made if need be, with a change to it.\<close>

definition change_entry ::
    "string \<Rightarrow> tool_scope \<Rightarrow> rat \<Rightarrow> (by_tool_entry \<Rightarrow> by_tool_entry) \<Rightarrow> metrics_snapshot \<Rightarrow> metrics_snapshot" where
  "change_entry toolName scope now f s =
     s\<lparr>sn_byTool := map_put (toToolKey toolName scope) (f (ensureByToolEntry s toolName scope now)) (sn_byTool s)\<rparr>"

fun incrementStatusTotals :: "tool_status \<Rightarrow> tool_totals \<Rightarrow> tool_totals" where
  "incrementStatusTotals StSuccess t = t\<lparr>successTotal := successTotal t + 1\<rparr>"
| "incrementStatusTotals StValidationFailed t = t\<lparr>validationFailedTotal := validationFailedTotal t + 1\<rparr>"
| "incrementStatusTotals StTimeout t = t\<lparr>timeoutTotal := timeoutTotal t + 1\<rparr>"
| "incrementStatusTotals StBlocked t = t\<lparr>blockedTotal := blockedTotal t + 1\<rparr>"
| "incrementStatusTotals StRuntimeFailed t = t\<lparr>runtimeFailedTotal := runtimeFailedTotal t + 1\<rparr>"

definition count_attempt :: "tool_totals \<Rightarrow> tool_totals" where
  "count_attempt t = t\<lparr>attemptedTotal := attemptedTotal t + 1\<rparr>"

definition count_start :: "tool_totals \<Rightarrow> tool_totals" where
  "count_start t = t\<lparr>startedTotal := startedTotal t + 1\<rparr>"

definition count_end :: "tool_status \<Rightarrow> bool \<Rightarrow> tool_totals \<Rightarrow> tool_totals" where
  "count_end status truncated t =
     (let t = incrementStatusTotals status (t\<lparr>completedTotal := completedTotal t + 1\<rparr>)
      in if truncated then t\<lparr>truncatedTotal := truncatedTotal t + 1\<rparr> else t)"

record tool_end =
  te_toolName :: string
  te_scope :: tool_scope
  te_status :: tool_status
  te_errorCode :: "string option"
  te_durationMs :: "rat option"
  te_truncatedOutput :: bool
  te_at :: "rat option"

definition normalizeErrorCode :: "string option \<Rightarrow> string option" where
  "normalizeErrorCode code =
     (case code of None \<Rightarrow> None | Some c \<Rightarrow> if js_trim c \<noteq> [] then Some (js_trim c) else None)"

definition recent_of :: "rat \<Rightarrow> tool_end \<Rightarrow> recent_entry" where
  "recent_of now e =
     \<lparr>rn_toolName = te_toolName e, rn_scope = te_scope e, rn_status = te_status e,
      rn_errorCode = normalizeErrorCode (te_errorCode e), rn_durationMs = toNonNegativeInteger (te_durationMs e),
      rn_truncatedOutput = te_truncatedOutput e, rn_at = nullish (te_at e) now\<rparr>"

datatype metrics_op =
  Attempt string tool_scope
| Start string tool_scope
| End tool_end

definition record_attempt :: "string \<Rightarrow> tool_scope \<Rightarrow> rat \<Rightarrow> metrics_snapshot \<Rightarrow> metrics_snapshot" where
  "record_attempt toolName scope now s =
     change_entry toolName scope now (\<lambda>e. e\<lparr>bt_totals := count_attempt (bt_totals e), bt_updatedAt := now\<rparr>)
       (s\<lparr>sn_totals := count_attempt (sn_totals s)\<rparr>)"

definition record_start :: "string \<Rightarrow> tool_scope \<Rightarrow> rat \<Rightarrow> metrics_snapshot \<Rightarrow> metrics_snapshot" where
  "record_start toolName scope now s =
     change_entry toolName scope now (\<lambda>e. e\<lparr>bt_totals := count_start (bt_totals e), bt_updatedAt := now\<rparr>)
       (s\<lparr>sn_totals := count_start (sn_totals s)\<rparr>)"

definition record_end :: "tool_end \<Rightarrow> rat \<Rightarrow> metrics_snapshot \<Rightarrow> metrics_snapshot" where
  "record_end input now s =
     (let entry = recent_of now input;
          s = change_entry (te_toolName input) (te_scope input) now
            (\<lambda>e. e\<lparr>bt_totals := count_end (te_status input) (te_truncatedOutput input) (bt_totals e),
                  bt_lastStatus := Some (te_status input), bt_lastErrorCode := rn_errorCode entry,
                  bt_lastDurationMs := rn_durationMs entry, bt_updatedAt := rn_at entry\<rparr>)
            (s\<lparr>sn_totals := count_end (te_status input) (te_truncatedOutput input) (sn_totals s)\<rparr>)
      in s\<lparr>sn_recent := take MAX_RECENT_RECORDS (entry # sn_recent s)\<rparr>)"

fun metrics_change :: "metrics_op \<Rightarrow> rat \<Rightarrow> metrics_snapshot \<Rightarrow> metrics_snapshot" where
  "metrics_change (Attempt toolName scope) now = record_attempt toolName scope now"
| "metrics_change (Start toolName scope) now = record_start toolName scope now"
| "metrics_change (End input) now = record_end input now"

section \<open>The module\<close>

text \<open>Listeners are numbers; each change gives every listener, in the order of subscription, the new snapshot.\<close>

record metrics_module =
  mm_snapshot :: metrics_snapshot
  mm_listeners :: "nat list"

definition emitSnapshot :: "metrics_module \<Rightarrow> (nat \<times> metrics_snapshot) list" where
  "emitSnapshot m = map (\<lambda>listener. (listener, mm_snapshot m)) (mm_listeners m)"

definition patchSnapshot ::
    "metrics_op \<Rightarrow> rat \<Rightarrow> rat \<Rightarrow> metrics_module \<Rightarrow> metrics_module \<times> (nat \<times> metrics_snapshot) list" where
  "patchSnapshot op now now' m =
     (let following = (metrics_change op now (mm_snapshot m))\<lparr>sn_updatedAt := now'\<rparr>;
          m = m\<lparr>mm_snapshot := following\<rparr>
      in (m, emitSnapshot m))"

definition subscribe :: "nat \<Rightarrow> metrics_module \<Rightarrow> metrics_module" where
  "subscribe listener m =
     m\<lparr>mm_listeners := (if listener \<in> set (mm_listeners m) then mm_listeners m else mm_listeners m @ [listener])\<rparr>"

definition unsubscribe :: "nat \<Rightarrow> metrics_module \<Rightarrow> metrics_module" where
  "unsubscribe listener m = m\<lparr>mm_listeners := removeAll listener (mm_listeners m)\<rparr>"

text \<open>A history: the changes with their readings of the clock, from the empty snapshot.\<close>

definition run_metrics :: "(metrics_op \<times> rat \<times> rat) list \<Rightarrow> metrics_module \<Rightarrow> metrics_module" where
  "run_metrics ops m = fold (\<lambda>(op, now, now') m. fst (patchSnapshot op now now' m)) ops m"

section \<open>The snapshot is a function of the history\<close>

text \<open>What a history counts, for the operations that satisfy \<open>p\<close>.\<close>

fun ends_of :: "(metrics_op \<times> rat \<times> rat) list \<Rightarrow> (tool_end \<times> rat) list" where
  "ends_of [] = []"
| "ends_of ((End e, now, now') # ops) = (e, now) # ends_of ops"
| "ends_of (_ # ops) = ends_of ops"

definition ends_by_status :: "tool_status \<Rightarrow> (metrics_op \<times> rat \<times> rat) list \<Rightarrow> nat" where
  "ends_by_status status ops = length (filter (\<lambda>(e, _). te_status e = status) (ends_of ops))"

fun is_attempt :: "metrics_op \<Rightarrow> bool" where
  "is_attempt (Attempt _ _) = True"
| "is_attempt _ = False"

fun is_start :: "metrics_op \<Rightarrow> bool" where
  "is_start (Start _ _) = True"
| "is_start _ = False"

definition totals_of :: "(metrics_op \<times> rat \<times> rat) list \<Rightarrow> tool_totals" where
  "totals_of ops =
     \<lparr>attemptedTotal = length (filter (\<lambda>(op, _). is_attempt op) ops),
      startedTotal = length (filter (\<lambda>(op, _). is_start op) ops),
      completedTotal = length (ends_of ops), successTotal = ends_by_status StSuccess ops,
      validationFailedTotal = ends_by_status StValidationFailed ops,
      runtimeFailedTotal = ends_by_status StRuntimeFailed ops, timeoutTotal = ends_by_status StTimeout ops,
      blockedTotal = ends_by_status StBlocked ops,
      truncatedTotal = length (filter (\<lambda>(e, _). te_truncatedOutput e) (ends_of ops))\<rparr>"

fun op_tool :: "metrics_op \<Rightarrow> string \<times> tool_scope" where
  "op_tool (Attempt t s) = (t, s)"
| "op_tool (Start t s) = (t, s)"
| "op_tool (End e) = (te_toolName e, te_scope e)"

definition ops_about :: "string \<Rightarrow> tool_scope \<Rightarrow> (metrics_op \<times> rat \<times> rat) list \<Rightarrow> (metrics_op \<times> rat \<times> rat) list" where
  "ops_about t s ops = filter (\<lambda>(op, _). op_tool op = (t, s)) ops"

lemma scope_text_prefix: "scope_text a @ '':'' @ x = scope_text b @ '':'' @ y \<Longrightarrow> a = b \<and> x = y"
  by (cases a; cases b) simp_all

lemma toToolKey_inj [simp]: "toToolKey t s = toToolKey t' s' \<longleftrightarrow> t = t' \<and> s = s'"
  unfolding toToolKey_def using scope_text_prefix by blast

lemma ends_of_append [simp]: "ends_of (xs @ ys) = ends_of xs @ ends_of ys"
  by (induction xs rule: ends_of.induct) simp_all

lemma totals_of_Nil: "totals_of [] = createEmptyTotals"
  by (simp add: totals_of_def createEmptyTotals_def ends_by_status_def)

lemma totals_of_snoc:
  "totals_of (ops @ [(Attempt t s, now, now')]) = count_attempt (totals_of ops)"
  "totals_of (ops @ [(Start t s, now, now')]) = count_start (totals_of ops)"
  by (simp_all add: totals_of_def count_attempt_def count_start_def ends_by_status_def)

lemma totals_of_snoc_end:
  "totals_of (ops @ [(End e, now, now')]) = count_end (te_status e) (te_truncatedOutput e) (totals_of ops)"
  by (cases "te_status e"; cases "te_truncatedOutput e")
    (simp_all add: totals_of_def count_end_def ends_by_status_def)

lemma ops_about_snoc:
  "ops_about t s (ops @ [(op, w)]) = ops_about t s ops @ (if op_tool op = (t, s) then [(op, w)] else [])"
  by (simp add: ops_about_def)

definition reflects :: "(metrics_op \<times> rat \<times> rat) list \<Rightarrow> metrics_snapshot \<Rightarrow> bool" where
  "reflects ops s \<longleftrightarrow>
     sn_totals s = totals_of ops \<and>
     sn_recent s = take MAX_RECENT_RECORDS (rev (map (\<lambda>(e, now). recent_of now e) (ends_of ops))) \<and>
     (\<forall>t sc. map_option bt_totals (map_of (sn_byTool s) (toToolKey t sc))
        = (if ops_about t sc ops = [] then None else Some (totals_of (ops_about t sc ops))))"

lemma entry_totals:
  assumes "reflects ops s"
  shows "bt_totals (ensureByToolEntry s t sc now) = totals_of (ops_about t sc ops)"
proof -
  have *: "map_option bt_totals (map_of (sn_byTool s) (toToolKey t sc))
        = (if ops_about t sc ops = [] then None else Some (totals_of (ops_about t sc ops)))"
    using assms unfolding reflects_def by blast
  show ?thesis
  proof (cases "map_of (sn_byTool s) (toToolKey t sc)")
    case None
    with * have "ops_about t sc ops = []" by (simp split: if_splits)
    with None show ?thesis by (simp add: ensureByToolEntry_def new_entry_def totals_of_Nil)
  next
    case (Some e)
    with * show ?thesis by (simp add: ensureByToolEntry_def split: if_splits)
  qed
qed

text \<open>A change of one entry, seen through the keys.\<close>

lemma change_entry_lookup:
  "map_option bt_totals (map_of (sn_byTool (change_entry t sc now f s)) (toToolKey t' sc')) =
     (if (t', sc') = (t, sc) then Some (bt_totals (f (ensureByToolEntry s t sc now)))
      else map_option bt_totals (map_of (sn_byTool s) (toToolKey t' sc')))"
  by (auto simp: change_entry_def)

lemma change_entry_rest [simp]:
  "sn_totals (change_entry t sc now f s) = sn_totals s" "sn_recent (change_entry t sc now f s) = sn_recent s"
  by (simp_all add: change_entry_def)

lemma ensure_rest [simp]: "ensureByToolEntry (s\<lparr>sn_totals := x\<rparr>) = ensureByToolEntry s"
  by (rule ext)+ (simp add: ensureByToolEntry_def)

lemma reflects_change:
  assumes r: "reflects ops s" and s': "s' = change_entry t sc now f (s\<lparr>sn_totals := count (sn_totals s)\<rparr>)"
    and f: "\<And>e. bt_totals (f e) = count (bt_totals e)" and op: "op_tool op = (t, sc)"
    and count: "\<And>ops. totals_of (ops @ [(op, w)]) = count (totals_of ops)"
  shows "sn_totals s' = totals_of (ops @ [(op, w)]) \<and>
    (\<forall>t sc. map_option bt_totals (map_of (sn_byTool s') (toToolKey t sc))
        = (if ops_about t sc (ops @ [(op, w)]) = [] then None else Some (totals_of (ops_about t sc (ops @ [(op, w)])))))"
proof (intro conjI allI)
  show "sn_totals s' = totals_of (ops @ [(op, w)])" using r by (simp add: s' count reflects_def)
  fix t' sc'
  have "map_option bt_totals (map_of (sn_byTool s) (toToolKey t' sc'))
      = (if ops_about t' sc' ops = [] then None else Some (totals_of (ops_about t' sc' ops)))"
    using r unfolding reflects_def by blast
  then show "map_option bt_totals (map_of (sn_byTool s') (toToolKey t' sc'))
        = (if ops_about t' sc' (ops @ [(op, w)]) = [] then None
           else Some (totals_of (ops_about t' sc' (ops @ [(op, w)]))))"
    unfolding s' change_entry_lookup
    by (cases "(t', sc') = (t, sc)") (auto simp: ops_about_snoc op f count entry_totals [OF r])
qed

lemma reflects_step:
  assumes "reflects ops s"
  shows "reflects (ops @ [(op, now, now')]) ((metrics_change op now s)\<lparr>sn_updatedAt := now'\<rparr>)"
proof (cases op)
  case (Attempt t sc)
  have "sn_recent (record_attempt t sc now s) = sn_recent s" by (simp add: record_attempt_def)
  with reflects_change [OF assms record_attempt_def _ _ totals_of_snoc(1)] assms show ?thesis
    by (simp add: Attempt reflects_def)
next
  case (Start t sc)
  have "sn_recent (record_start t sc now s) = sn_recent s" by (simp add: record_start_def)
  with reflects_change [OF assms record_start_def _ _ totals_of_snoc(2)] assms show ?thesis
    by (simp add: Start reflects_def)
next
  case (End e)
  let ?f = "\<lambda>b. b\<lparr>bt_totals := count_end (te_status e) (te_truncatedOutput e) (bt_totals b),
      bt_lastStatus := Some (te_status e), bt_lastErrorCode := rn_errorCode (recent_of now e),
      bt_lastDurationMs := rn_durationMs (recent_of now e), bt_updatedAt := rn_at (recent_of now e)\<rparr>"
  define s' where "s' = change_entry (te_toolName e) (te_scope e) now ?f
      (s\<lparr>sn_totals := count_end (te_status e) (te_truncatedOutput e) (sn_totals s)\<rparr>)"
  have eq: "record_end e now s = s'\<lparr>sn_recent := take MAX_RECENT_RECORDS (recent_of now e # sn_recent s)\<rparr>"
    by (simp add: record_end_def Let_def s'_def)
  have "take MAX_RECENT_RECORDS (recent_of now e # sn_recent s)
      = take MAX_RECENT_RECORDS (rev (map (\<lambda>(e, now). recent_of now e) (ends_of (ops @ [(End e, now, now')]))))"
    using assms by (simp add: reflects_def take_Cons' min_def MAX_RECENT_RECORDS_def)
  moreover have "sn_totals s' = totals_of (ops @ [(End e, now, now')]) \<and>
      (\<forall>t sc. map_option bt_totals (map_of (sn_byTool s') (toToolKey t sc))
        = (if ops_about t sc (ops @ [(End e, now, now')]) = [] then None
           else Some (totals_of (ops_about t sc (ops @ [(End e, now, now')])))))"
    by (rule reflects_change [OF assms s'_def _ _ totals_of_snoc_end]) simp_all
  ultimately show ?thesis by (simp add: End eq reflects_def)
qed

lemma reflects_run:
  "reflects ops (mm_snapshot m) \<Longrightarrow> reflects (ops @ rest) (mm_snapshot (run_metrics rest m))"
proof (induction rest arbitrary: ops m)
  case (Cons x rest)
  obtain op now now' where x: "x = (op, now, now')" by (cases x)
  have "mm_snapshot (fst (patchSnapshot op now now' m)) = (metrics_change op now (mm_snapshot m))\<lparr>sn_updatedAt := now'\<rparr>"
    by (simp add: patchSnapshot_def Let_def)
  then have "reflects (ops @ [x]) (mm_snapshot (fst (patchSnapshot op now now' m)))"
    using reflects_step [OF Cons.prems] by (simp add: x)
  from Cons.IH [OF this] show ?case by (simp add: run_metrics_def x)
qed (simp add: run_metrics_def)

text \<open>C32: the metrics are a function of the history of the recorded calls.  The totals are the numbers of
  attempts, of starts, of ends and of ends by status; the entry of a tool in a scope is there when the
  history has an operation of it, and counts those operations and no others; and the recent records are
  the last 80 ends, the newest first.
\<close>

theorem metrics_reflect_history:
  "let s = mm_snapshot (run_metrics ops \<lparr>mm_snapshot = createEmptySnapshot t0, mm_listeners = ls\<rparr>)
   in sn_totals s = totals_of ops \<and>
      sn_recent s = take 80 (rev (map (\<lambda>(e, now). recent_of now e) (ends_of ops))) \<and>
      (\<forall>t sc. map_option bt_totals (map_of (sn_byTool s) (toToolKey t sc))
         = (if ops_about t sc ops = [] then None else Some (totals_of (ops_about t sc ops))))"
proof -
  let ?m = "\<lparr>mm_snapshot = createEmptySnapshot t0, mm_listeners = ls\<rparr>"
  have "reflects [] (mm_snapshot ?m)"
    by (simp add: reflects_def createEmptySnapshot_def totals_of_Nil ops_about_def)
  from reflects_run [OF this] show ?thesis
    by (simp add: reflects_def Let_def MAX_RECENT_RECORDS_def)
qed

end
