(* ===== verification/ToolReliability.thy ===== *)
theory ToolReliability
  imports ToolMetrics JsNumber
begin

text \<open>
  The gate in front of a tool call: \<^verbatim>\<open>src/apps/code/src/services/runtimeToolReliabilityPolicy.ts\<close>, a
  limit on the payload, a circuit breaker per scope over the recent metrics, and a rate limit on
  \<open>computer_observe\<close> per workspace.  The size of the payload is an argument, as is the snapshot (\<open>None\<close>
  when it is not available) and the time of the call.
\<close>

section \<open>State\<close>

definition RUNTIME_TOOL_MAX_INPUT_BYTES :: nat where "RUNTIME_TOOL_MAX_INPUT_BYTES = 64 * 1024"
definition COMPUTER_OBSERVE_RATE_LIMIT_PER_MINUTE :: nat where "COMPUTER_OBSERVE_RATE_LIMIT_PER_MINUTE = 12"
definition COMPUTER_OBSERVE_RATE_WINDOW_MS :: rat where "COMPUTER_OBSERVE_RATE_WINDOW_MS = 60 * 1000"
definition RUNTIME_TOOL_CIRCUIT_OPEN_MS :: rat where "RUNTIME_TOOL_CIRCUIT_OPEN_MS = 10 * 60 * 1000"
definition RUNTIME_TOOL_CIRCUIT_RECENT_WINDOW :: nat where "RUNTIME_TOOL_CIRCUIT_RECENT_WINDOW = 50"
definition RUNTIME_TOOL_CIRCUIT_MIN_COMPLETED :: nat where "RUNTIME_TOOL_CIRCUIT_MIN_COMPLETED = 20"
definition RUNTIME_TOOL_CIRCUIT_MIN_SUCCESS_RATE :: rat where "RUNTIME_TOOL_CIRCUIT_MIN_SUCCESS_RATE = dbl (4 / 5)"
definition RUNTIME_TOOL_HALF_OPEN_MAX_PROBES :: nat where "RUNTIME_TOOL_HALF_OPEN_MAX_PROBES = 3"
definition RUNTIME_TOOL_HALF_OPEN_REQUIRED_SUCCESSES :: nat where "RUNTIME_TOOL_HALF_OPEN_REQUIRED_SUCCESSES = 2"

datatype circuit_value = CircuitClosed | CircuitOpen | CircuitHalfOpen

record circuit =
  ci_state :: circuit_value
  ci_openedAt :: "rat option"
  ci_updatedAt :: rat
  ci_probeAttempts :: nat
  ci_probeSuccesses :: nat

datatype block_reason = PayloadTooLarge | RateLimited | CircuitIsOpen | MetricsUnhealthy

datatype reliability_decision =
  Allowed tool_scope
| Denied tool_scope block_reason string string

record reliability =
  rl_circuit :: "tool_scope \<Rightarrow> circuit"
  rl_calls :: "(string \<times> rat list) list"

definition createClosedCircuitState :: "rat \<Rightarrow> circuit" where
  "createClosedCircuitState now = \<lparr>ci_state = CircuitClosed, ci_openedAt = None, ci_updatedAt = now,
     ci_probeAttempts = 0, ci_probeSuccesses = 0\<rparr>"

definition createOpenCircuitState :: "rat \<Rightarrow> circuit" where
  "createOpenCircuitState now = \<lparr>ci_state = CircuitOpen, ci_openedAt = Some now, ci_updatedAt = now,
     ci_probeAttempts = 0, ci_probeSuccesses = 0\<rparr>"

definition initial_reliability :: reliability where
  "initial_reliability = \<lparr>rl_circuit = (\<lambda>_. createClosedCircuitState 0), rl_calls = []\<rparr>"

definition set_circuit :: "tool_scope \<Rightarrow> circuit \<Rightarrow> reliability \<Rightarrow> reliability" where
  "set_circuit scope c st = st\<lparr>rl_circuit := (rl_circuit st)(scope := c)\<rparr>"

definition transitionCircuitToHalfOpen :: "tool_scope \<Rightarrow> rat \<Rightarrow> reliability \<Rightarrow> reliability" where
  "transitionCircuitToHalfOpen scope now =
     set_circuit scope \<lparr>ci_state = CircuitHalfOpen, ci_openedAt = None, ci_updatedAt = now,
       ci_probeAttempts = 0, ci_probeSuccesses = 0\<rparr>"

definition transitionCircuitToClosed :: "tool_scope \<Rightarrow> rat \<Rightarrow> reliability \<Rightarrow> reliability" where
  "transitionCircuitToClosed scope now = set_circuit scope (createClosedCircuitState now)"

definition transitionCircuitToOpen :: "tool_scope \<Rightarrow> rat \<Rightarrow> reliability \<Rightarrow> reliability" where
  "transitionCircuitToOpen scope now = set_circuit scope (createOpenCircuitState now)"

section \<open>The decision\<close>

fun block_code :: "block_reason \<Rightarrow> string" where
  "block_code PayloadTooLarge = ''runtime.validation.payload_too_large''"
| "block_code RateLimited = ''runtime.validation.rate_limited''"
| "block_code CircuitIsOpen = ''runtime.validation.circuit_open''"
| "block_code MetricsUnhealthy = ''runtime.validation.metrics_unhealthy''"

definition blockDecision :: "tool_scope \<Rightarrow> block_reason \<Rightarrow> string \<Rightarrow> reliability_decision" where
  "blockDecision scope reason message = Denied scope reason (block_code reason) message"

definition scope_window :: "tool_scope \<Rightarrow> metrics_snapshot \<Rightarrow> recent_entry list" where
  "scope_window scope s =
     take RUNTIME_TOOL_CIRCUIT_RECENT_WINDOW (filter (\<lambda>e. rn_scope e = scope) (sn_recent s))"

definition count_health :: "recent_entry list \<Rightarrow> nat \<times> nat" where
  "count_health recent =
     fold (\<lambda>e (success, denominator).
         if rn_status e = StSuccess then (success + 1, denominator + 1)
         else if rn_status e \<in> {StValidationFailed, StRuntimeFailed, StTimeout} then (success, denominator + 1)
         else (success, denominator)) recent (0, 0)"

definition isHealthyRecentSuccessRate :: "tool_scope \<Rightarrow> metrics_snapshot \<Rightarrow> bool" where
  "isHealthyRecentSuccessRate scope s =
     (let recent = scope_window scope s
      in if length recent < RUNTIME_TOOL_CIRCUIT_MIN_COMPLETED then True
         else case count_health recent of (success, denominator) \<Rightarrow>
           if denominator \<le> 0 then True
           else RUNTIME_TOOL_CIRCUIT_MIN_SUCCESS_RATE \<le> dbl (of_nat success / of_nat denominator))"

definition workspace_key :: "string option \<Rightarrow> string" where
  "workspace_key workspaceId =
     (let trimmed = js_trim (nullish workspaceId [])
      in if trimmed \<noteq> [] then trimmed else ''__workspace_unknown__'')"

definition calls_of :: "reliability \<Rightarrow> string \<Rightarrow> rat list" where
  "calls_of st key = nullish (map_of (rl_calls st) key) []"

text \<open>The rate limit: the calls still in the window, and whether one more is within the limit.\<close>

definition rate_gate :: "string \<Rightarrow> rat \<Rightarrow> reliability \<Rightarrow> bool \<times> reliability" where
  "rate_gate key now st =
     (let withinWindow = filter (\<lambda>t. now - COMPUTER_OBSERVE_RATE_WINDOW_MS \<le> t) (calls_of st key)
      in if COMPUTER_OBSERVE_RATE_LIMIT_PER_MINUTE \<le> length withinWindow
         then (False, st\<lparr>rl_calls := map_put key withinWindow (rl_calls st)\<rparr>)
         else (True, st\<lparr>rl_calls := map_put key (withinWindow @ [now]) (rl_calls st)\<rparr>))"

definition count_probe :: "tool_scope \<Rightarrow> rat \<Rightarrow> reliability \<Rightarrow> reliability" where
  "count_probe scope now st =
     (let c = rl_circuit st scope
      in if ci_state c = CircuitHalfOpen
         then set_circuit scope (c\<lparr>ci_probeAttempts := ci_probeAttempts c + 1, ci_updatedAt := now\<rparr>) st
         else st)"

text \<open>The circuit as the call finds it, \<open>None\<close> when it blocks the call.\<close>

definition circuit_gate :: "tool_scope \<Rightarrow> rat \<Rightarrow> metrics_snapshot \<Rightarrow> reliability \<Rightarrow> bool \<times> reliability" where
  "circuit_gate scope now s st =
     (let st = (if \<not> isHealthyRecentSuccessRate scope s then transitionCircuitToOpen scope now st else st);
          c = rl_circuit st scope
      in if ci_state c = CircuitOpen then
           (let openedAt = nullish (ci_openedAt c) (ci_updatedAt c)
            in if now - openedAt < RUNTIME_TOOL_CIRCUIT_OPEN_MS then (False, st)
               else (True, transitionCircuitToHalfOpen scope now st))
         else (True, st))"

record evaluate_input =
  ev_toolName :: string
  ev_scope :: tool_scope
  ev_workspaceId :: "string option"
  ev_payloadBytes :: nat
  ev_now :: rat
  ev_snapshot :: "metrics_snapshot option"

definition payload_message :: "evaluate_input \<Rightarrow> string" where
  "payload_message i = ''Tool '' @ ev_toolName i @ '' blocked because input payload is ''
     @ show_nat (ev_payloadBytes i) @ '' bytes (limit '' @ show_nat RUNTIME_TOOL_MAX_INPUT_BYTES @ '' bytes).''"

definition evaluateRuntimeToolReliability ::
    "evaluate_input \<Rightarrow> reliability \<Rightarrow> reliability_decision \<times> reliability" where
  "evaluateRuntimeToolReliability i st =
     (let scope = ev_scope i; now = ev_now i; tool = ''Tool '' @ ev_toolName i
      in if RUNTIME_TOOL_MAX_INPUT_BYTES < ev_payloadBytes i
         then (blockDecision scope PayloadTooLarge (payload_message i), st)
         else case ev_snapshot i of
           None \<Rightarrow> (blockDecision scope MetricsUnhealthy
             (tool @ '' blocked because runtime metrics are unavailable.''), st)
         | Some s \<Rightarrow>
           (case circuit_gate scope now s st of
              (False, st) \<Rightarrow> (blockDecision scope CircuitIsOpen
                (tool @ '' blocked by reliability circuit ('' @ scope_text scope @ ''); cooldown in progress.''), st)
            | (True, st) \<Rightarrow>
              if scope = ScComputerObserve then
                (case rate_gate (workspace_key (ev_workspaceId i)) now st of
                   (False, st) \<Rightarrow> (blockDecision scope RateLimited
                     (tool @ '' blocked by computer-observe rate limit ('' @
                      show_nat COMPUTER_OBSERVE_RATE_LIMIT_PER_MINUTE @ ''/min per workspace).''), st)
                 | (True, st) \<Rightarrow> (Allowed scope, count_probe scope now st))
              else (Allowed scope, count_probe scope now st)))"

definition recordRuntimeToolReliabilityOutcome ::
    "tool_scope \<Rightarrow> tool_status \<Rightarrow> rat \<Rightarrow> reliability \<Rightarrow> reliability" where
  "recordRuntimeToolReliabilityOutcome scope status now st =
     (let c = rl_circuit st scope
      in if ci_state c \<noteq> CircuitHalfOpen then st
         else let c = c\<lparr>ci_probeSuccesses := ci_probeSuccesses c + (if status = StSuccess then 1 else 0),
                        ci_updatedAt := now\<rparr>;
                  st = set_circuit scope c st
           in if ci_probeAttempts c < RUNTIME_TOOL_HALF_OPEN_MAX_PROBES then st
              else if RUNTIME_TOOL_HALF_OPEN_REQUIRED_SUCCESSES \<le> ci_probeSuccesses c
                then transitionCircuitToClosed scope now st
              else transitionCircuitToOpen scope now st)"

section \<open>Histories\<close>

datatype reliability_op =
  Evaluate evaluate_input
| Outcome tool_scope tool_status rat

fun op_time :: "reliability_op \<Rightarrow> rat" where
  "op_time (Evaluate i) = ev_now i"
| "op_time (Outcome _ _ now) = now"

fun reliability_step :: "reliability_op \<Rightarrow> reliability \<Rightarrow> reliability_decision option \<times> reliability" where
  "reliability_step (Evaluate i) st =
     (case evaluateRuntimeToolReliability i st of (d, st) \<Rightarrow> (Some d, st))"
| "reliability_step (Outcome scope status now) st =
     (None, recordRuntimeToolReliabilityOutcome scope status now st)"

text \<open>The state after a history, and the history with the decisions, the first one first.\<close>

fun run_reliability ::
    "reliability_op list \<Rightarrow> reliability \<Rightarrow> (reliability_op \<times> reliability_decision option) list \<times> reliability" where
  "run_reliability [] st = ([], st)"
| "run_reliability (op # ops) st =
     (case reliability_step op st of (d, st') \<Rightarrow>
      case run_reliability ops st' of (ds, st'') \<Rightarrow> ((op, d) # ds, st''))"

text \<open>The times of the allowed calls of a workspace.\<close>

definition observed_at :: "string \<Rightarrow> (reliability_op \<times> reliability_decision option) list \<Rightarrow> rat list" where
  "observed_at key ds = List.map_filter (\<lambda>(op, d). case op of
       Evaluate i \<Rightarrow> if ev_scope i = ScComputerObserve \<and> workspace_key (ev_workspaceId i) = key
           \<and> d = Some (Allowed ScComputerObserve) then Some (ev_now i) else None
     | Outcome _ _ _ \<Rightarrow> None) ds"

end
