(* ===== verification/ToolReliabilityFacts.thy ===== *)
theory ToolReliabilityFacts
  imports ToolReliability
begin

text \<open>
  What the gate guarantees over every history of calls and outcomes: the rate limit as an invariant of
  the stored call times, the cooldown of an open circuit, and the way back through half-open.
\<close>

section \<open>Which part of the state an operation changes\<close>

lemma calls_of_set_circuit [simp]: "calls_of (set_circuit sc c st) = calls_of st"
  by (rule ext) (simp add: calls_of_def set_circuit_def)

lemma calls_of_transitions [simp]:
  "calls_of (transitionCircuitToOpen sc t st) = calls_of st"
  "calls_of (transitionCircuitToHalfOpen sc t st) = calls_of st"
  "calls_of (transitionCircuitToClosed sc t st) = calls_of st"
  by (simp_all add: transitionCircuitToOpen_def transitionCircuitToHalfOpen_def transitionCircuitToClosed_def)

lemma calls_of_count_probe [simp]: "calls_of (count_probe sc t st) = calls_of st"
  by (simp add: count_probe_def Let_def)

lemma calls_of_circuit_gate [simp]: "calls_of (snd (circuit_gate sc t s st)) = calls_of st"
  by (simp add: circuit_gate_def Let_def)

lemma calls_of_outcome [simp]: "calls_of (recordRuntimeToolReliabilityOutcome sc status t st) = calls_of st"
  by (simp add: recordRuntimeToolReliabilityOutcome_def Let_def)

lemma calls_of_put: "calls_of (st\<lparr>rl_calls := map_put k v (rl_calls st)\<rparr>) k' = (if k' = k then v else calls_of st k')"
  by (simp add: calls_of_def)

lemma circuit_rate_gate [simp]: "rl_circuit (snd (rate_gate key t st)) = rl_circuit st"
  by (simp add: rate_gate_def Let_def)

lemma circuit_set_circuit [simp]: "rl_circuit (set_circuit sc c st) = (rl_circuit st)(sc := c)"
  by (simp add: set_circuit_def)

section \<open>The rate limit\<close>

definition rate_inv :: "string \<Rightarrow> rat list \<Rightarrow> rat \<Rightarrow> reliability \<Rightarrow> bool" where
  "rate_inv key A prev st \<longleftrightarrow>
     (\<forall>c. prev - COMPUTER_OBSERVE_RATE_WINDOW_MS \<le> c \<longrightarrow>
        filter (\<lambda>t. c \<le> t) (calls_of st key) = filter (\<lambda>t. c \<le> t) A) \<and>
     (\<forall>t \<in> set A. t \<le> prev) \<and>
     (\<forall>c. length (filter (\<lambda>t. c \<le> t \<and> t \<le> c + COMPUTER_OBSERVE_RATE_WINDOW_MS) A)
        \<le> COMPUTER_OBSERVE_RATE_LIMIT_PER_MINUTE)"

lemma rate_inv_later: "rate_inv key A prev st \<Longrightarrow> prev \<le> now \<Longrightarrow> rate_inv key A now st"
  unfolding rate_inv_def by (meson diff_right_mono order_trans)

lemma rate_inv_calls: "calls_of st' key = calls_of st key \<Longrightarrow> rate_inv key A prev st' = rate_inv key A prev st"
  by (simp add: rate_inv_def)

lemma length_filter_mono: "(\<And>x. x \<in> set xs \<Longrightarrow> P x \<Longrightarrow> Q x) \<Longrightarrow> length (filter P xs) \<le> length (filter Q xs)"
  by (induction xs) (auto simp: le_SucI)

lemma rate_inv_allow:
  assumes inv: "rate_inv key A prev st" and now: "prev \<le> now"
    and calls: "calls_of st' key = filter (\<lambda>t. now - COMPUTER_OBSERVE_RATE_WINDOW_MS \<le> t) (calls_of st key) @ [now]"
    and few: "length (filter (\<lambda>t. now - COMPUTER_OBSERVE_RATE_WINDOW_MS \<le> t) (calls_of st key))
        < COMPUTER_OBSERVE_RATE_LIMIT_PER_MINUTE"
  shows "rate_inv key (A @ [now]) now st'"
proof -
  let ?W = COMPUTER_OBSERVE_RATE_WINDOW_MS and ?N = COMPUTER_OBSERVE_RATE_LIMIT_PER_MINUTE
  have stored: "filter (\<lambda>t. now - ?W \<le> t) (calls_of st key) = filter (\<lambda>t. now - ?W \<le> t) A"
    using inv now unfolding rate_inv_def by (meson diff_right_mono)
  have "filter (\<lambda>t. c \<le> t) (calls_of st' key) = filter (\<lambda>t. c \<le> t) (A @ [now])" if "now - ?W \<le> c" for c
  proof -
    have "filter (\<lambda>t. c \<le> t) (filter (\<lambda>t. now - ?W \<le> t) A) = filter (\<lambda>t. c \<le> t) A"
      using that by (auto simp: intro!: filter_cong)
    then show ?thesis by (simp add: calls stored)
  qed
  moreover have "\<forall>t \<in> set (A @ [now]). t \<le> now" using inv now unfolding rate_inv_def by auto
  moreover have "length (filter (\<lambda>t. c \<le> t \<and> t \<le> c + ?W) (A @ [now])) \<le> ?N" for c
  proof (cases "c \<le> now \<and> now \<le> c + ?W")
    case True
    have "length (filter (\<lambda>t. c \<le> t \<and> t \<le> c + ?W) A) \<le> length (filter (\<lambda>t. now - ?W \<le> t) A)"
      using True by (intro length_filter_mono) simp
    with few True show ?thesis by (simp add: stored)
  next
    case False
    then have "filter (\<lambda>t. c \<le> t \<and> t \<le> c + ?W) (A @ [now]) = filter (\<lambda>t. c \<le> t \<and> t \<le> c + ?W) A"
      by auto
    then show ?thesis using inv unfolding rate_inv_def by metis
  qed
  ultimately show ?thesis unfolding rate_inv_def by blast
qed

lemma rate_inv_deny:
  assumes inv: "rate_inv key A prev st" and now: "prev \<le> now"
    and calls: "calls_of st' key = filter (\<lambda>t. now - COMPUTER_OBSERVE_RATE_WINDOW_MS \<le> t) (calls_of st key)"
  shows "rate_inv key A now st'"
proof -
  let ?W = COMPUTER_OBSERVE_RATE_WINDOW_MS
  have "filter (\<lambda>t. c \<le> t) (calls_of st' key) = filter (\<lambda>t. c \<le> t) (calls_of st key)" if "now - ?W \<le> c" for c
    unfolding calls using that by (auto intro!: filter_cong)
  with rate_inv_later [OF inv now] show ?thesis unfolding rate_inv_def by metis
qed

lemma rate_gate_calls:
  assumes "rate_gate key now st = (ok, st')"
  shows "k \<noteq> key \<Longrightarrow> calls_of st' k = calls_of st k"
    and "ok \<Longrightarrow> calls_of st' key = filter (\<lambda>t. now - COMPUTER_OBSERVE_RATE_WINDOW_MS \<le> t) (calls_of st key) @ [now]"
    and "ok \<Longrightarrow> length (filter (\<lambda>t. now - COMPUTER_OBSERVE_RATE_WINDOW_MS \<le> t) (calls_of st key))
        < COMPUTER_OBSERVE_RATE_LIMIT_PER_MINUTE"
    and "\<not> ok \<Longrightarrow> calls_of st' key = filter (\<lambda>t. now - COMPUTER_OBSERVE_RATE_WINDOW_MS \<le> t) (calls_of st key)"
proof -
  let ?F = "filter (\<lambda>t. now - COMPUTER_OBSERVE_RATE_WINDOW_MS \<le> t) (calls_of st key)"
  have "(ok, st') = (if COMPUTER_OBSERVE_RATE_LIMIT_PER_MINUTE \<le> length ?F
      then (False, st\<lparr>rl_calls := map_put key ?F (rl_calls st)\<rparr>)
      else (True, st\<lparr>rl_calls := map_put key (?F @ [now]) (rl_calls st)\<rparr>))"
    using assms by (simp only: rate_gate_def Let_def)
  then consider "ok" "length ?F < COMPUTER_OBSERVE_RATE_LIMIT_PER_MINUTE"
      "st' = st\<lparr>rl_calls := map_put key (?F @ [now]) (rl_calls st)\<rparr>"
    | "\<not> ok" "st' = st\<lparr>rl_calls := map_put key ?F (rl_calls st)\<rparr>"
    by (cases "COMPUTER_OBSERVE_RATE_LIMIT_PER_MINUTE \<le> length ?F") simp_all
  then have "(k \<noteq> key \<longrightarrow> calls_of st' k = calls_of st k) \<and> (ok \<longrightarrow> calls_of st' key = ?F @ [now]) \<and>
      (ok \<longrightarrow> length ?F < COMPUTER_OBSERVE_RATE_LIMIT_PER_MINUTE) \<and> (\<not> ok \<longrightarrow> calls_of st' key = ?F)"
    by cases (simp_all add: calls_of_put)
  then show "k \<noteq> key \<Longrightarrow> calls_of st' k = calls_of st k" "ok \<Longrightarrow> calls_of st' key = ?F @ [now]"
    "ok \<Longrightarrow> length ?F < COMPUTER_OBSERVE_RATE_LIMIT_PER_MINUTE" "\<not> ok \<Longrightarrow> calls_of st' key = ?F"
    by blast+
qed

lemma rate_inv_gate:
  assumes inv: "rate_inv key A prev st" and now: "prev \<le> now"
    and gate: "rate_gate key' now st = (ok, st')"
  shows "rate_inv key (A @ (if ok \<and> key' = key then [now] else [])) now st'"
proof (cases "key' = key")
  case True
  note calls = rate_gate_calls [OF gate, unfolded True]
  show ?thesis
  proof (cases ok)
    case ok: True
    have "rate_inv key (A @ [now]) now st'"
      by (rule rate_inv_allow [OF inv now calls(2) [OF ok] calls(3) [OF ok]])
    with ok True show ?thesis by simp
  next
    case False
    have "rate_inv key A now st'" by (rule rate_inv_deny [OF inv now calls(4) [OF False]])
    with False show ?thesis by simp
  qed
next
  case False
  then have "calls_of st' key = calls_of st key" by (intro rate_gate_calls(1) [OF gate]) simp
  from rate_inv_calls [OF this, of A now] rate_inv_later [OF inv now] False show ?thesis by simp
qed

text \<open>The cases of an evaluation.\<close>

lemma evaluate_cases:
  obtains (payload) "evaluateRuntimeToolReliability i st = (blockDecision (ev_scope i) PayloadTooLarge (payload_message i), st)"
      "RUNTIME_TOOL_MAX_INPUT_BYTES < ev_payloadBytes i"
  | (unavailable) m where "evaluateRuntimeToolReliability i st = (blockDecision (ev_scope i) MetricsUnhealthy m, st)"
      "ev_payloadBytes i \<le> RUNTIME_TOOL_MAX_INPUT_BYTES" "ev_snapshot i = None"
  | (circuit) s m st1 where "ev_snapshot i = Some s" "circuit_gate (ev_scope i) (ev_now i) s st = (False, st1)"
      "ev_payloadBytes i \<le> RUNTIME_TOOL_MAX_INPUT_BYTES"
      "evaluateRuntimeToolReliability i st = (blockDecision (ev_scope i) CircuitIsOpen m, st1)"
  | (limited) s m st1 st2 where "ev_snapshot i = Some s" "circuit_gate (ev_scope i) (ev_now i) s st = (True, st1)"
      "ev_payloadBytes i \<le> RUNTIME_TOOL_MAX_INPUT_BYTES" "ev_scope i = ScComputerObserve"
      "rate_gate (workspace_key (ev_workspaceId i)) (ev_now i) st1 = (False, st2)"
      "evaluateRuntimeToolReliability i st = (blockDecision (ev_scope i) RateLimited m, st2)"
  | (observe) s st1 st2 where "ev_snapshot i = Some s" "circuit_gate (ev_scope i) (ev_now i) s st = (True, st1)"
      "ev_payloadBytes i \<le> RUNTIME_TOOL_MAX_INPUT_BYTES" "ev_scope i = ScComputerObserve"
      "rate_gate (workspace_key (ev_workspaceId i)) (ev_now i) st1 = (True, st2)"
      "evaluateRuntimeToolReliability i st = (Allowed (ev_scope i), count_probe (ev_scope i) (ev_now i) st2)"
  | (other) s st1 where "ev_snapshot i = Some s" "circuit_gate (ev_scope i) (ev_now i) s st = (True, st1)"
      "ev_payloadBytes i \<le> RUNTIME_TOOL_MAX_INPUT_BYTES" "ev_scope i \<noteq> ScComputerObserve"
      "evaluateRuntimeToolReliability i st = (Allowed (ev_scope i), count_probe (ev_scope i) (ev_now i) st1)"
proof (cases "RUNTIME_TOOL_MAX_INPUT_BYTES < ev_payloadBytes i")
  case True
  then show ?thesis by (intro payload) (simp_all add: evaluateRuntimeToolReliability_def)
next
  case False
  then have p: "ev_payloadBytes i \<le> RUNTIME_TOOL_MAX_INPUT_BYTES" by simp
  show ?thesis
  proof (cases "ev_snapshot i")
    case None
    with False p show ?thesis by (intro unavailable) (simp_all add: evaluateRuntimeToolReliability_def)
  next
    case (Some s)
    obtain ok st1 where g: "circuit_gate (ev_scope i) (ev_now i) s st = (ok, st1)" by fastforce
    obtain ok' st2 where r: "rate_gate (workspace_key (ev_workspaceId i)) (ev_now i) st1 = (ok', st2)" by fastforce
    note def = evaluateRuntimeToolReliability_def Let_def
    show ?thesis
    proof (cases ok)
      case no: False
      with False Some g p show ?thesis by (intro circuit) (simp_all add: def)
    next
      case yes: True
      show ?thesis
      proof (cases "ev_scope i = ScComputerObserve")
        case sc: True
        show ?thesis
        proof (cases ok')
          case True
          with False Some g r p yes sc show ?thesis by (intro observe) (simp_all add: def)
        next
          case no: False
          with False Some g r p yes sc show ?thesis by (intro limited) (simp_all add: def)
        qed
      next
        case nsc: False
        with False Some g p yes show ?thesis by (intro other) (simp_all add: def)
      qed
    qed
  qed
qed

text \<open>The time, if any, at which an evaluation lets a call of the workspace pass.\<close>

definition passed :: "string \<Rightarrow> reliability_op \<Rightarrow> reliability_decision option \<Rightarrow> rat list" where
  "passed key op d = (case op of
       Evaluate i \<Rightarrow> if ev_scope i = ScComputerObserve \<and> workspace_key (ev_workspaceId i) = key
           \<and> d = Some (Allowed ScComputerObserve) then [ev_now i] else []
     | Outcome _ _ _ \<Rightarrow> [])"

lemma observed_at_Cons: "observed_at key ((op, d) # ds) = passed key op d @ observed_at key ds"
  by (cases op) (simp_all add: observed_at_def passed_def map_filter_def)

lemma observed_at_Nil: "observed_at key [] = []"
  by (simp add: observed_at_def map_filter_def)

lemma rate_inv_step:
  assumes inv: "rate_inv key A prev st" and now: "prev \<le> op_time op" and step: "reliability_step op st = (d, st')"
  shows "rate_inv key (A @ passed key op d) (op_time op) st'"
proof (cases op)
  case (Outcome sc status t)
  then have "calls_of st' key = calls_of st key" using step by auto
  from rate_inv_calls [OF this, of A "op_time op"] rate_inv_later [OF inv now] Outcome
  show ?thesis by (simp add: passed_def)
next
  case (Evaluate i)
  have now': "prev \<le> ev_now i" using now Evaluate by simp
  have unmoved: "rate_inv key (A @ []) (ev_now i) st2" if "calls_of st2 key = calls_of st key" for st2
    using rate_inv_calls [OF that, of A "ev_now i"] rate_inv_later [OF inv now'] by simp
  have gated: "rate_inv key A prev st1" if "circuit_gate sc t s st = (ok, st1)" for sc t s ok st1
    using rate_inv_calls [of st1 key st A prev] calls_of_circuit_gate [of sc t s st] that inv by simp
  have probed: "rate_inv key A' t st2 \<Longrightarrow> rate_inv key A' t (count_probe sc t st2)" for A' t st2 sc
    using rate_inv_calls [of "count_probe sc t st2" key st2 A' t] by simp
  note out = Evaluate passed_def blockDecision_def
  show ?thesis
  proof (cases rule: evaluate_cases [of i st])
    case payload
    with step unmoved [OF refl] show ?thesis by (auto simp: out)
  next
    case (unavailable m)
    with step unmoved [OF refl] show ?thesis by (auto simp: out)
  next
    case (circuit s m st1)
    then have "calls_of st1 key = calls_of st key"
      using calls_of_circuit_gate [of "ev_scope i" "ev_now i" s st] by simp
    from unmoved [OF this] circuit(4) step show ?thesis by (auto simp: out)
  next
    case (limited s m st1 st2)
    from rate_inv_gate [OF gated [OF limited(2)] now' limited(5)] limited(6) step show ?thesis by (auto simp: out)
  next
    case (observe s st1 st2)
    from probed [OF rate_inv_gate [OF gated [OF observe(2)] now' observe(5)]] observe(4,6) step
    show ?thesis by (auto simp: out)
  next
    case (other s st1)
    have "calls_of (count_probe (ev_scope i) (ev_now i) st1) key = calls_of st key"
      using other(2) calls_of_circuit_gate [of "ev_scope i" "ev_now i" s st] by simp
    from unmoved [OF this] other(4,5) step show ?thesis by (auto simp: out)
  qed
qed

lemma rate_inv_run:
  "rate_inv key A prev st \<Longrightarrow> sorted (prev # map op_time ops) \<Longrightarrow> run_reliability ops st = (ds, st') \<Longrightarrow>
   \<exists>t. rate_inv key (A @ observed_at key ds) t st'"
proof (induction ops arbitrary: A prev st ds)
  case Nil
  then show ?case by (auto simp: observed_at_Nil)
next
  case (Cons op ops)
  obtain d st1 where s: "reliability_step op st = (d, st1)" by fastforce
  obtain ds' st2 where r: "run_reliability ops st1 = (ds', st2)" by fastforce
  have out: "ds = (op, d) # ds'" "st' = st2" using Cons.prems(3) by (simp_all add: s r)
  have "rate_inv key (A @ passed key op d) (op_time op) st1"
    using Cons.prems(2) by (intro rate_inv_step [OF Cons.prems(1) _ s]) simp
  moreover have "sorted (op_time op # map op_time ops)" using Cons.prems(2) by simp
  moreover have "run_reliability ops st1 = (ds', st')" using r out(2) by simp
  ultimately have "\<exists>t. rate_inv key ((A @ passed key op d) @ observed_at key ds') t st'" by (rule Cons.IH)
  then show ?case by (simp add: out(1) observed_at_Cons)
qed

text \<open>C33: over every history of evaluations and outcomes with a clock that does not go back, no more than 12
  calls of \<open>computer_observe\<close> are allowed for a workspace in any window of a minute, wherever it starts and
  whatever the circuits, the other workspaces and the denied calls do.
\<close>

theorem observe_rate_limited:
  assumes "sorted (map op_time ops)"
  shows "length (filter (\<lambda>t. c \<le> t \<and> t \<le> c + 60000)
      (observed_at key (fst (run_reliability ops initial_reliability)))) \<le> 12"
proof (cases ops)
  case Nil
  then show ?thesis by (simp add: observed_at_Nil)
next
  case (Cons op rest)
  obtain ds st' where r: "run_reliability ops initial_reliability = (ds, st')" by fastforce
  have "rate_inv key [] (op_time op) initial_reliability"
    by (simp add: rate_inv_def calls_of_def initial_reliability_def)
  moreover have "sorted (op_time op # map op_time ops)" using assms Cons by simp
  ultimately obtain t where "rate_inv key ([] @ observed_at key ds) t st'" using rate_inv_run [OF _ _ r] by blast
  then show ?thesis
    by (simp add: r rate_inv_def COMPUTER_OBSERVE_RATE_WINDOW_MS_def COMPUTER_OBSERVE_RATE_LIMIT_PER_MINUTE_def)
qed

definition observe_call :: "rat \<Rightarrow> reliability_op" where
  "observe_call t = Evaluate \<lparr>ev_toolName = ''run-runtime-computer-observe'', ev_scope = ScComputerObserve,
     ev_workspaceId = Some ''w'', ev_payloadBytes = 10, ev_now = t, ev_snapshot = Some (createEmptySnapshot 0)\<rparr>"

theorem observe_rate_limited_witness:
  "length (filter (\<lambda>t. 0 \<le> t \<and> t \<le> 0 + 60000)
      (observed_at ''w'' (fst (run_reliability (map observe_call [0, 1, 2]) initial_reliability)))) \<le> 12"
  by (rule observe_rate_limited) (simp add: observe_call_def)

section \<open>The circuit\<close>

lemma circuit_gate_other:
  "sc' \<noteq> sc \<Longrightarrow> rl_circuit (snd (circuit_gate sc' t s st)) sc = rl_circuit st sc"
  by (simp add: circuit_gate_def Let_def transitionCircuitToOpen_def transitionCircuitToHalfOpen_def)

lemma circuit_count_probe_other: "sc' \<noteq> sc \<Longrightarrow> rl_circuit (count_probe sc' t st) sc = rl_circuit st sc"
  by (simp add: count_probe_def Let_def)

lemma circuit_outcome_other:
  "sc' \<noteq> sc \<Longrightarrow> rl_circuit (recordRuntimeToolReliabilityOutcome sc' status t st) sc = rl_circuit st sc"
  by (simp add: recordRuntimeToolReliabilityOutcome_def Let_def transitionCircuitToClosed_def transitionCircuitToOpen_def)

lemma circuit_evaluate_other:
  assumes "ev_scope i \<noteq> sc"
  shows "rl_circuit (snd (evaluateRuntimeToolReliability i st)) sc = rl_circuit st sc"
proof (cases rule: evaluate_cases [of i st])
  case (circuit s m st1)
  then show ?thesis using circuit_gate_other [OF assms, of "ev_now i" s st] by simp
next
  case (limited s m st1 st2)
  then show ?thesis using circuit_gate_other [OF assms, of "ev_now i" s st]
      circuit_rate_gate [of "workspace_key (ev_workspaceId i)" "ev_now i" st1] by simp
next
  case (observe s st1 st2)
  then show ?thesis using circuit_gate_other [OF assms, of "ev_now i" s st]
      circuit_rate_gate [of "workspace_key (ev_workspaceId i)" "ev_now i" st1]
      circuit_count_probe_other [OF assms] by simp
next
  case (other s st1)
  then show ?thesis using circuit_gate_other [OF assms, of "ev_now i" s st]
      circuit_count_probe_other [OF assms] by simp
qed simp_all

text \<open>An open circuit of the scope, opened no earlier than \<open>t0\<close> and not after \<open>t\<close>.\<close>

definition opened_within :: "tool_scope \<Rightarrow> rat \<Rightarrow> reliability \<Rightarrow> bool" where
  "opened_within sc t0 st \<longleftrightarrow> ci_state (rl_circuit st sc) = CircuitOpen \<and>
     (\<exists>x. ci_openedAt (rl_circuit st sc) = Some x \<and> t0 \<le> x)"

lemma circuit_gate_open:
  assumes "opened_within sc t0 st" "t0 \<le> now" "now < t0 + RUNTIME_TOOL_CIRCUIT_OPEN_MS"
  shows "\<not> fst (circuit_gate sc now s st)" "opened_within sc t0 (snd (circuit_gate sc now s st))"
proof -
  from assms(1) obtain x where x: "ci_state (rl_circuit st sc) = CircuitOpen"
      "ci_openedAt (rl_circuit st sc) = Some x" "t0 \<le> x" unfolding opened_within_def by blast
  have near: "now - x < RUNTIME_TOOL_CIRCUIT_OPEN_MS" "0 < RUNTIME_TOOL_CIRCUIT_OPEN_MS"
    using x(3) assms(3) by (simp_all add: RUNTIME_TOOL_CIRCUIT_OPEN_MS_def)
  have "\<not> fst (circuit_gate sc now s st) \<and> opened_within sc t0 (snd (circuit_gate sc now s st))"
    using x near assms(1,2)
    by (cases "isHealthyRecentSuccessRate sc s")
      (simp_all add: circuit_gate_def Let_def transitionCircuitToOpen_def createOpenCircuitState_def opened_within_def)
  then show "\<not> fst (circuit_gate sc now s st)" "opened_within sc t0 (snd (circuit_gate sc now s st))" by simp_all
qed

lemma evaluate_open:
  assumes "opened_within sc t0 st" "t0 \<le> ev_now i" "ev_now i < t0 + RUNTIME_TOOL_CIRCUIT_OPEN_MS"
  shows "opened_within sc t0 (snd (evaluateRuntimeToolReliability i st)) \<and>
    (ev_scope i = sc \<longrightarrow> fst (evaluateRuntimeToolReliability i st) \<noteq> Allowed sc)"
proof (cases "ev_scope i = sc")
  case False
  then show ?thesis using assms(1) circuit_evaluate_other [of i sc st] by (simp add: opened_within_def)
next
  case True
  note gate = circuit_gate_open [OF assms]
  show ?thesis
  proof (cases rule: evaluate_cases [of i st])
    case (circuit s m st1)
    then show ?thesis using gate(2) [of s] True by (simp add: blockDecision_def)
  next
    case (limited s m st1 st2)
    then show ?thesis using gate(1) [of s] True by simp
  next
    case (observe s st1 st2)
    then show ?thesis using gate(1) [of s] True by simp
  next
    case (other s st1)
    then show ?thesis using gate(1) [of s] True by simp
  qed (use assms(1) in \<open>simp_all add: blockDecision_def\<close>)
qed

lemma outcome_open:
  "opened_within sc t0 st \<Longrightarrow> opened_within sc t0 (recordRuntimeToolReliabilityOutcome sc' status t st)"
proof (cases "sc' = sc")
  case True
  assume "opened_within sc t0 st"
  then show ?thesis using True
    by (simp add: recordRuntimeToolReliabilityOutcome_def opened_within_def)
next
  case False
  assume "opened_within sc t0 st"
  then show ?thesis using circuit_outcome_other [OF False] by (simp add: opened_within_def)
qed

text \<open>C34: once the circuit of a scope has opened, no call of that scope is allowed for the ten minutes of the
  cooldown, whatever calls, outcomes and metrics come in that time.
\<close>

theorem open_circuit_blocks:
  assumes "ci_state (rl_circuit st sc) = CircuitOpen" "ci_openedAt (rl_circuit st sc) = Some t0"
    "\<forall>op \<in> set ops. t0 \<le> op_time op \<and> op_time op < t0 + 600000"
  shows "\<forall>(op, d) \<in> set (fst (run_reliability ops st)). d \<noteq> Some (Allowed sc)"
proof -
  have "opened_within sc t0 st \<Longrightarrow> \<forall>op \<in> set ops. t0 \<le> op_time op \<and> op_time op < t0 + 600000 \<Longrightarrow>
      \<forall>(op, d) \<in> set (fst (run_reliability ops st)). d \<noteq> Some (Allowed sc)" for st
  proof (induction ops arbitrary: st)
    case (Cons op ops)
    have "opened_within sc t0 (snd (reliability_step op st)) \<and> fst (reliability_step op st) \<noteq> Some (Allowed sc)"
    proof (cases op)
      case (Evaluate i)
      have "fst (evaluateRuntimeToolReliability i st) = Allowed sc \<Longrightarrow> ev_scope i = sc"
        by (cases rule: evaluate_cases [of i st]) (simp_all add: blockDecision_def)
      then show ?thesis using evaluate_open [of sc t0 st i] Cons.prems Evaluate
        by (auto simp: RUNTIME_TOOL_CIRCUIT_OPEN_MS_def split: prod.split)
    next
      case (Outcome sc' status t)
      then show ?thesis using outcome_open [OF Cons.prems(1)] by simp
    qed
    then show ?case using Cons.IH [of "snd (reliability_step op st)"] Cons.prems
      by (auto split: prod.split)
  qed simp
  moreover have "opened_within sc t0 st" using assms(1,2) by (simp add: opened_within_def)
  ultimately show ?thesis using assms(3) by blast
qed

definition open_at :: "tool_scope \<Rightarrow> rat \<Rightarrow> reliability" where
  "open_at sc t = transitionCircuitToOpen sc t initial_reliability"

definition probe_call :: "rat \<Rightarrow> evaluate_input" where
  "probe_call t = \<lparr>ev_toolName = ''list-tasks'', ev_scope = ScRuntime, ev_workspaceId = None,
     ev_payloadBytes = 10, ev_now = t, ev_snapshot = Some (createEmptySnapshot 0)\<rparr>"

theorem open_circuit_blocks_witness:
  "list_all (\<lambda>(op, d). d \<noteq> Some (Allowed ScRuntime))
     (fst (run_reliability [Evaluate (probe_call 7), Outcome ScRuntime StSuccess 9] (open_at ScRuntime 5)))"
  unfolding list_all_iff
  by (rule open_circuit_blocks [where ?t0.0 = 5])
    (simp_all add: open_at_def probe_call_def transitionCircuitToOpen_def createOpenCircuitState_def)

section \<open>The health of the recent calls\<close>

definition failed_call :: "recent_entry \<Rightarrow> bool" where
  "failed_call e \<longleftrightarrow> rn_status e \<in> {StValidationFailed, StRuntimeFailed, StTimeout}"

definition successes :: "recent_entry list \<Rightarrow> nat" where
  "successes w = length (filter (\<lambda>e. rn_status e = StSuccess) w)"

definition failures :: "recent_entry list \<Rightarrow> nat" where
  "failures w = length (filter failed_call w)"

lemma count_health_eq: "count_health w = (successes w, successes w + failures w)"
proof -
  have "fold (\<lambda>e (success, denominator).
         if rn_status e = StSuccess then (success + 1, denominator + 1)
         else if rn_status e \<in> {StValidationFailed, StRuntimeFailed, StTimeout} then (success, denominator + 1)
         else (success, denominator)) w (a, b) = (a + successes w, b + (successes w + failures w))" for a b
    by (induction w arbitrary: a b) (auto simp: successes_def failures_def failed_call_def)
  from this [of 0 0] show ?thesis by (simp add: count_health_def)
qed

lemma counts_bounded: "successes w + failures w \<le> length w"
  unfolding successes_def failures_def
  by (induction w) (auto simp: failed_call_def)

lemma rate_gap: "dbl (199 / 250) < dbl (4 / 5)"
  by code_simp

lemma success_rate_iff:
  assumes "0 < s + f" "s + f \<le> (50 :: nat)"
  shows "dbl (4 / 5) \<le> dbl (of_nat s / of_nat (s + f)) \<longleftrightarrow> 4 * f \<le> s"
proof
  assume "4 * f \<le> s"
  then have "4 * (of_nat f :: rat) \<le> of_nat s" by (metis of_nat_le_iff of_nat_mult of_nat_numeral)
  moreover have "0 < (of_nat (s + f) :: rat)" using assms(1) by (simp only: of_nat_0_less_iff)
  ultimately have "(4 / 5 :: rat) \<le> of_nat s / of_nat (s + f)" by (simp add: pos_le_divide_eq)
  then show "dbl (4 / 5) \<le> dbl (of_nat s / of_nat (s + f))" by (intro dbl_mono) simp_all
next
  assume rate: "dbl (4 / 5) \<le> dbl (of_nat s / of_nat (s + f))"
  show "4 * f \<le> s"
  proof (rule ccontr)
    assume "\<not> 4 * f \<le> s"
    then have "s + 1 \<le> 4 * f" by simp
    then have "51 * s \<le> 199 * f" using assms(2) by linarith
    then have "250 * s \<le> 199 * (s + f)" by simp
    then have "250 * (of_nat s :: rat) \<le> 199 * of_nat (s + f)"
      by (metis of_nat_le_iff of_nat_mult of_nat_numeral)
    moreover have "0 < (of_nat (s + f) :: rat)" using assms(1) by (simp only: of_nat_0_less_iff)
    ultimately have "of_nat s / of_nat (s + f) \<le> (199 / 250 :: rat)" by (simp add: pos_divide_le_eq)
    then have "dbl (of_nat s / of_nat (s + f)) \<le> dbl (199 / 250)" by (intro dbl_mono) simp_all
    with rate rate_gap show False by linarith
  qed
qed

text \<open>The circuit opens on more than one failure in five calls: a scope is healthy exactly when its window of
  the last 50 records has fewer than 20, or at least four successes for every failure, blocked calls
  counting as neither.  The rounding of the quotient and of \<open>0.8\<close> never changes the answer.
\<close>

theorem healthy_iff_four_in_five:
  "isHealthyRecentSuccessRate sc s \<longleftrightarrow>
     (let w = scope_window sc s in length w < 20 \<or> 4 * failures w \<le> successes w)"
proof -
  let ?w = "scope_window sc s"
  have "length ?w \<le> 50" by (simp add: scope_window_def RUNTIME_TOOL_CIRCUIT_RECENT_WINDOW_def)
  then have le: "successes ?w + failures ?w \<le> 50" using counts_bounded [of ?w] by linarith
  show ?thesis
  proof (cases "successes ?w + failures ?w = 0")
    case True
    then show ?thesis
      by (simp add: isHealthyRecentSuccessRate_def Let_def count_health_eq)
  next
    case False
    with le success_rate_iff [of "successes ?w" "failures ?w"] show ?thesis
      by (simp add: isHealthyRecentSuccessRate_def Let_def count_health_eq
          RUNTIME_TOOL_CIRCUIT_MIN_COMPLETED_def RUNTIME_TOOL_CIRCUIT_MIN_SUCCESS_RATE_def del: of_nat_add)
  qed
qed

section \<open>Recovery\<close>

text \<open>A call of the scope within the payload limit, with its metrics at hand and healthy or not.\<close>

definition call_in :: "tool_scope \<Rightarrow> bool \<Rightarrow> evaluate_input \<Rightarrow> bool" where
  "call_in sc healthy i \<longleftrightarrow> ev_scope i = sc \<and> ev_payloadBytes i \<le> RUNTIME_TOOL_MAX_INPUT_BYTES \<and>
     (\<exists>s. ev_snapshot i = Some s \<and> isHealthyRecentSuccessRate sc s = healthy)"

definition half_open :: "rat \<Rightarrow> nat \<Rightarrow> nat \<Rightarrow> circuit" where
  "half_open t a k = \<lparr>ci_state = CircuitHalfOpen, ci_openedAt = None, ci_updatedAt = t,
     ci_probeAttempts = a, ci_probeSuccesses = k\<rparr>"

lemma evaluate_half_open:
  assumes "call_in sc True i" "sc \<noteq> ScComputerObserve" "rl_circuit st sc = half_open t a k"
  shows "fst (evaluateRuntimeToolReliability i st) = Allowed sc"
    "rl_circuit (snd (evaluateRuntimeToolReliability i st)) sc = half_open (ev_now i) (Suc a) k"
  using assms by (auto simp: call_in_def evaluateRuntimeToolReliability_def Let_def circuit_gate_def half_open_def
      count_probe_def)

lemma evaluate_elapsed:
  assumes "call_in sc True i" "sc \<noteq> ScComputerObserve" "ci_state (rl_circuit st sc) = CircuitOpen"
    "ci_openedAt (rl_circuit st sc) = Some t0" "t0 + RUNTIME_TOOL_CIRCUIT_OPEN_MS \<le> ev_now i"
  shows "fst (evaluateRuntimeToolReliability i st) = Allowed sc"
    "rl_circuit (snd (evaluateRuntimeToolReliability i st)) sc = half_open (ev_now i) 1 0"
  using assms by (auto simp: call_in_def evaluateRuntimeToolReliability_def Let_def circuit_gate_def half_open_def
      count_probe_def transitionCircuitToHalfOpen_def)

lemma outcome_half_open:
  assumes "rl_circuit st sc = half_open t a k"
  shows "rl_circuit (recordRuntimeToolReliabilityOutcome sc status now st) sc =
    (let k = k + (if status = StSuccess then 1 else 0)
     in if a < 3 then half_open now a k
        else if 2 \<le> k then createClosedCircuitState now else createOpenCircuitState now)"
  using assms by (simp add: recordRuntimeToolReliabilityOutcome_def half_open_def Let_def
      RUNTIME_TOOL_HALF_OPEN_MAX_PROBES_def RUNTIME_TOOL_HALF_OPEN_REQUIRED_SUCCESSES_def
      transitionCircuitToClosed_def transitionCircuitToOpen_def)

lemma run_Evaluate:
  "run_reliability (Evaluate i # ops) st =
     (let r = evaluateRuntimeToolReliability i st; r' = run_reliability ops (snd r)
      in ((Evaluate i, Some (fst r)) # fst r', snd r'))"
  by (simp add: Let_def split: prod.split)

lemma run_Outcome:
  "run_reliability (Outcome sc status t # ops) st =
     (let r' = run_reliability ops (recordRuntimeToolReliabilityOutcome sc status t st)
      in ((Outcome sc status t, None) # fst r', snd r'))"
  by (simp add: Let_def split: prod.split)

text \<open>A circuit can always close again.  Once the cooldown has passed and the metrics are healthy, the next
  three calls of the scope are let through as probes, and with their outcomes the circuit closes when at
  least two of them succeeded and opens again, with a new cooldown, when not.
\<close>

theorem circuit_recovers:
  assumes "ci_state (rl_circuit st sc) = CircuitOpen" "ci_openedAt (rl_circuit st sc) = Some t0"
    "sc \<noteq> ScComputerObserve" "call_in sc True i1" "call_in sc True i2" "call_in sc True i3" "t0 + 600000 \<le> ev_now i1"
  shows "let r = run_reliability [Evaluate i1, Outcome sc s1 t1, Evaluate i2, Outcome sc s2 t2,
               Evaluate i3, Outcome sc s3 t3] st
     in map snd (fst r) = [Some (Allowed sc), None, Some (Allowed sc), None, Some (Allowed sc), None] \<and>
        rl_circuit (snd r) sc = (if 2 \<le> length (filter (\<lambda>s. s = StSuccess) [s1, s2, s3])
          then createClosedCircuitState t3 else createOpenCircuitState t3)"
proof -
  have elapsed: "t0 + RUNTIME_TOOL_CIRCUIT_OPEN_MS \<le> ev_now i1"
    using assms(7) by (simp add: RUNTIME_TOOL_CIRCUIT_OPEN_MS_def)
  let ?n = "\<lambda>s. if s = StSuccess then 1 else 0 :: nat"
  let ?e = "\<lambda>i st. snd (evaluateRuntimeToolReliability i st)"
  let ?o = "recordRuntimeToolReliabilityOutcome sc"
  define a1 b1 where "a1 = ?e i1 st" and "b1 = ?o s1 t1 a1"
  define a2 b2 where "a2 = ?e i2 b1" and "b2 = ?o s2 t2 a2"
  define a3 b3 where "a3 = ?e i3 b2" and "b3 = ?o s3 t3 a3"
  note e1 = evaluate_elapsed [OF assms(4,3,1,2) elapsed, folded a1_def]
  have o1: "rl_circuit b1 sc = half_open t1 1 (?n s1)"
    unfolding b1_def outcome_half_open [OF e1(2)] by simp
  note e2 = evaluate_half_open [OF assms(5,3) o1, folded a2_def]
  have o2: "rl_circuit b2 sc = half_open t2 2 (?n s1 + ?n s2)"
    unfolding b2_def outcome_half_open [OF e2(2)] by (simp add: numeral_2_eq_2)
  note e3 = evaluate_half_open [OF assms(6,3) o2, folded a3_def]
  have o3: "rl_circuit b3 sc = (if 2 \<le> ?n s1 + ?n s2 + ?n s3
      then createClosedCircuitState t3 else createOpenCircuitState t3)"
    unfolding b3_def outcome_half_open [OF e3(2)] by (simp add: Let_def)
  have "length (filter (\<lambda>s. s = StSuccess) [s1, s2, s3]) = ?n s1 + ?n s2 + ?n s3" by simp
  then show ?thesis
    unfolding run_Evaluate run_Outcome Let_def
    using e1(1) e2(1) e3(1) o3
    by (simp only: a1_def [symmetric] b1_def [symmetric] a2_def [symmetric] b2_def [symmetric]
        a3_def [symmetric] b3_def [symmetric] fst_conv snd_conv run_reliability.simps list.map simp_thms)
qed

theorem circuit_recovers_witness:
  "rl_circuit (snd (run_reliability [Evaluate (probe_call 600005), Outcome ScRuntime StSuccess 1,
      Evaluate (probe_call 600010), Outcome ScRuntime StTimeout 2, Evaluate (probe_call 600020),
      Outcome ScRuntime StSuccess 3] (open_at ScRuntime 5))) ScRuntime = createClosedCircuitState 3"
proof -
  have "call_in ScRuntime True (probe_call t)" for t
    by (simp add: call_in_def probe_call_def isHealthyRecentSuccessRate_def scope_window_def
        createEmptySnapshot_def RUNTIME_TOOL_CIRCUIT_MIN_COMPLETED_def RUNTIME_TOOL_MAX_INPUT_BYTES_def)
  then show ?thesis
    using circuit_recovers [of "open_at ScRuntime 5" ScRuntime 5 "probe_call 600005" "probe_call 600010"
        "probe_call 600020" StSuccess 1 StTimeout 2 StSuccess 3]
    by (simp add: open_at_def transitionCircuitToOpen_def createOpenCircuitState_def probe_call_def Let_def
        del: run_reliability.simps)
qed

text \<open>
  The two ways in which the gate does less than its constants say.  While the metrics of a scope are not
  healthy, every call opens its circuit again with the time of the call as the start of the cooldown: no
  call is a probe, and the cooldown of a scope that is called at all never ends.  And the number of calls that pass a
  half-open circuit is not limited: only the outcomes look at \<open>RUNTIME_TOOL_HALF_OPEN_MAX_PROBES\<close>.
\<close>

lemma unhealthy_reopens:
  assumes "call_in sc False i"
  shows "fst (evaluateRuntimeToolReliability i st) \<noteq> Allowed sc"
    "rl_circuit (snd (evaluateRuntimeToolReliability i st)) sc = createOpenCircuitState (ev_now i)"
  using assms by (auto simp: call_in_def evaluateRuntimeToolReliability_def Let_def circuit_gate_def
      transitionCircuitToOpen_def createOpenCircuitState_def RUNTIME_TOOL_CIRCUIT_OPEN_MS_def blockDecision_def)

lemma half_open_admits_all:
  assumes "sc \<noteq> ScComputerObserve" "\<forall>i \<in> set calls. call_in sc True i" "rl_circuit st sc = half_open t a k"
  shows "\<forall>(op, d) \<in> set (fst (run_reliability (map Evaluate calls) st)). d = Some (Allowed sc)"
  using assms(2,3)
proof (induction calls arbitrary: st t a)
  case (Cons i calls)
  note half = evaluate_half_open [OF _ assms(1) Cons.prems(2), of i]
  from Cons.prems(1) half Cons.IH [of "snd (evaluateRuntimeToolReliability i st)" "ev_now i" "Suc a"]
  show ?case by (simp add: run_Evaluate Let_def del: run_reliability.simps)
qed simp

end
