(* ===== verification/RuntimeErrors.thy ===== *)
theory RuntimeErrors
  imports JsValue
begin

text \<open>
  The classification of what a call to the runtime throws:
  \<^verbatim>\<open>src/packages/code-runtime-client/src/runtimeErrorClassifier.ts\<close>, with \<open>getErrorMessage\<close> of
  \<^verbatim>\<open>runtimeClientErrorUtils.ts\<close>.  A thrown value is a \<open>js_value\<close>; an \<open>Error\<close> is an object with its
  fields \<open>name\<close>, \<open>message\<close>, \<open>code\<close> and \<open>cause\<close>.  The code keeps the objects it has seen so as not to run
  around a cycle; a \<open>js_value\<close> is a finite tree, in which no object comes twice.
\<close>

section \<open>The chain of causes\<close>

fun trimmed_or_empty :: "js_value \<Rightarrow> string" where
  "trimmed_or_empty (Str s) = js_trim s"
| "trimmed_or_empty _ = []"

text \<open>\<open>typeof v === "object"\<close>: the fields of an object; an array has none of those the code reads.\<close>

fun as_object :: "js_value \<Rightarrow> js_object option" where
  "as_object (Obj r) = Some r"
| "as_object (Arr _) = Some []"
| "as_object _ = None"

definition object_list :: "js_value \<Rightarrow> js_value list" where
  "object_list v = (if as_object v = None then [] else [v])"

definition nested_errors :: "js_object \<Rightarrow> js_value list" where
  "nested_errors r = object_list (field r ''error'') @ object_list (field r ''cause'')
     @ (case as_object (field r ''details'') of None \<Rightarrow> [] | Some d \<Rightarrow> object_list (field d ''error''))"

definition error_weight :: "js_value \<Rightarrow> nat" where
  "error_weight v = (if v = Undefined then 0 else Suc (size v))"

lemma field_weights:
  assumes "a \<noteq> b" "a \<noteq> c" "b \<noteq> c"
  shows "error_weight (field r a) + error_weight (field r b) + error_weight (field r c)
     \<le> size_list (size_prod (\<lambda>_. 0) size) r"
proof (induction r)
  case (Cons p r)
  obtain k v where p: "p = (k, v)" by (cases p)
  have f: "field ((k, v) # r) x = (if x = k then v else field r x)" for x
    by (simp add: field_def)
  have "error_weight v \<le> Suc (size v)" by (simp add: error_weight_def)
  then show ?case using Cons assms unfolding p f by (cases "a = k"; cases "b = k"; cases "c = k") auto
qed (simp add: field_def error_weight_def)

lemma weight_object_list: "sum_list (map error_weight (object_list v)) \<le> error_weight v"
  by (simp add: object_list_def)

lemma weight_details:
  "as_object v = Some d \<Longrightarrow> sum_list (map error_weight (object_list (field d ''error''))) \<le> error_weight v"
proof (cases v)
  case (Obj r)
  assume "as_object v = Some d"
  then have "error_weight (field d ''error'') \<le> size_list (size_prod (\<lambda>_. 0) size) r"
    using field_weights [of "''error''" "''a''" "''b''" r] Obj by simp
  then show ?thesis using weight_object_list [of "field d ''error''"] Obj by (simp add: error_weight_def)
qed (simp_all add: object_list_def field_def)

lemma weight_nested:
  assumes "as_object v = Some r"
  shows "sum_list (map error_weight (nested_errors r)) < error_weight v"
proof (cases v)
  case (Obj q)
  then have r: "q = r" using assms by simp
  have "sum_list (map error_weight (nested_errors r))
      \<le> error_weight (field r ''error'') + error_weight (field r ''cause'') + error_weight (field r ''details'')"
    using weight_object_list [of "field r ''error''"] weight_object_list [of "field r ''cause''"]
      weight_details [of "field r ''details''"]
    by (cases "as_object (field r ''details'')") (auto simp: nested_errors_def)
  also have "\<dots> \<le> size_list (size_prod (\<lambda>_. 0) size) r" by (rule field_weights) simp_all
  also have "\<dots> < error_weight v" by (simp add: Obj r error_weight_def)
  finally show ?thesis .
qed (use assms in \<open>simp_all add: nested_errors_def object_list_def field_def error_weight_def\<close>)

text \<open>The candidates of the queue, breadth first.\<close>

function collect_chain :: "js_value list \<Rightarrow> js_object list" where
  "collect_chain [] = []"
| "collect_chain (candidate # queue) =
     (case as_object candidate of None \<Rightarrow> collect_chain queue
      | Some r \<Rightarrow> r # collect_chain (queue @ nested_errors r))"
  by pat_completeness auto
termination
proof (relation "measures [\<lambda>q. sum_list (map error_weight q), length]")
  show "wf (measures [\<lambda>q. sum_list (map error_weight q), length])" by simp
next
  fix candidate queue assume "as_object candidate = None"
  show "(queue, candidate # queue) \<in> measures [\<lambda>q. sum_list (map error_weight q), length]" by auto
next
  fix candidate queue r assume "as_object candidate = Some r"
  then show "(queue @ nested_errors r, candidate # queue) \<in> measures [\<lambda>q. sum_list (map error_weight q), length]"
    using weight_nested by simp
qed

definition collectErrorChain :: "js_value \<Rightarrow> js_object list" where
  "collectErrorChain e = collect_chain [e]"

definition readErrorField :: "js_value \<Rightarrow> string \<Rightarrow> string" where
  "readErrorField e k =
     nullish (find (\<lambda>s. s \<noteq> []) (map (\<lambda>r. trimmed_or_empty (field r k)) (collectErrorChain e))) []"

definition readErrorCode :: "js_value \<Rightarrow> string" where "readErrorCode e = readErrorField e ''code''"
definition readErrorName :: "js_value \<Rightarrow> string" where "readErrorName e = readErrorField e ''name''"
definition readErrorMethod :: "js_value \<Rightarrow> string" where "readErrorMethod e = readErrorField e ''method''"

definition readRuntimeErrorCode :: "js_value \<Rightarrow> string option" where
  "readRuntimeErrorCode e = (let code = readErrorCode e in if code \<noteq> [] then Some code else None)"

definition readRuntimeErrorMessage :: "js_value \<Rightarrow> string option" where
  "readRuntimeErrorMessage e =
     (let message = readErrorField e ''message'' in if message \<noteq> [] then Some message else None)"

fun getErrorMessage :: "js_value \<Rightarrow> string" where
  "getErrorMessage (Str s) = s"
| "getErrorMessage (Obj r) = (case field r ''message'' of Str s \<Rightarrow> s | _ \<Rightarrow> [])"
| "getErrorMessage _ = []"

section \<open>The classes of errors\<close>

definition hasMessageToken :: "string \<Rightarrow> string list \<Rightarrow> bool" where
  "hasMessageToken message tokens = list_ex (str_includes message) tokens"

definition code_separators :: re where
  "code_separators = Plus (Chr (\<lambda>c. is_js_space c \<or> c = CHR ''.'' \<or> c = CHR ''-''))"

definition normalizeErrorCodeToken :: "string \<Rightarrow> string" where
  "normalizeErrorCodeToken code = replace_all code_separators (\<lambda>_. ''_'') (to_lower (js_trim code))"

definition isMissingTauriInvokeError :: "js_value \<Rightarrow> bool" where
  "isMissingTauriInvokeError e =
     (let code = to_lower (readErrorCode e); message = getErrorMessage e
      in if str_includes code ''invoke_unavailable'' \<or> str_includes code ''tauri_invoke_unavailable'' then True
         else if message = [] then False
         else hasMessageToken message [''reading '' @ [CHR 0x27] @ ''invoke'' @ [CHR 0x27],
            ''reading '' @ [CHR 0x22] @ ''invoke'' @ [CHR 0x22], ''.invoke is not a function'',
            ''__TAURI_INTERNALS__'', ''__TAURI_IPC__''])"

definition isMissingTauriCommandError :: "js_value \<Rightarrow> string \<Rightarrow> bool" where
  "isMissingTauriCommandError e command =
     (let normalizedCommand = to_lower (js_trim command); code = to_lower (readErrorCode e);
          method = to_lower (readErrorMethod e);
          hasMethodNotFoundCode =
            code \<in> {''method_not_found'', ''method_not_found_error'', ''method_unavailable''};
          message = getErrorMessage e; normalized = to_lower message
      in if hasMethodNotFoundCode \<and> method \<noteq> [] \<and> method = normalizedCommand then True
         else if message = [] then False
         else if \<not> str_includes normalized normalizedCommand then False
         else hasMessageToken normalized
           [''unknown command'', ''command not found'', ''method not found'', ''does not exist''])"

definition isMissingTextFileError :: "js_value \<Rightarrow> bool" where
  "isMissingTextFileError e =
     (let code = to_lower (readErrorCode e); message = getErrorMessage e
      in if str_includes code ''enoent'' \<or> str_includes code ''os_error_2'' then True
         else if message = [] then False
         else hasMessageToken (to_lower message) [''no such file'', ''os error 2'', ''enoent''])"

definition isWebRuntimeConnectionError :: "js_value \<Rightarrow> bool" where
  "isWebRuntimeConnectionError e =
     (let code = to_lower (readErrorCode e); nam = to_lower (readErrorName e);
          message = to_lower (js_trim (getErrorMessage e))
      in if hasMessageToken code [''network'', ''fetch'', ''connection'', ''runtime_unavailable''] then True
         else if nam \<in> {''typeerror'', ''networkerror'', ''aborterror''} then True
         else if message = [] then False
         else hasMessageToken message [''failed to fetch'', ''networkerror'', ''network request failed'',
            ''fetch failed'', ''runtime is unavailable''])"

definition isTimeoutLikeRuntimeError :: "js_value \<Rightarrow> bool" where
  "isTimeoutLikeRuntimeError e =
     (let code = to_lower (readErrorCode e); nam = to_lower (readErrorName e);
          message = to_lower (js_trim (getErrorMessage e))
      in if str_includes code ''timeout'' \<or> str_includes code ''timed_out'' then True
         else if nam \<in> {''timeouterror'', ''aborterror''} then True
         else if message = [] then False
         else hasMessageToken message [''timed out'', ''timeout'', ''aborterror'', ''aborted''])"

definition isRuntimeMethodUnsupportedError :: "js_value \<Rightarrow> string option \<Rightarrow> bool" where
  "isRuntimeMethodUnsupportedError e method =
     (if as_object e = None then False
      else let nam = to_lower (readErrorName e); code = normalizeErrorCodeToken (readErrorCode e);
               wanted = nullish method []; message = to_lower (js_trim (getErrorMessage e))
        in if nam = ''runtimerpcmethodunsupportederror'' then True
           else if str_includes code ''method_not_found'' \<or> str_includes code ''method_unavailable'' then
             (let methodFromError = to_lower (readErrorMethod e)
              in if wanted = [] then True
                 else if methodFromError \<noteq> [] then methodFromError = to_lower wanted
                 else str_includes message (to_lower wanted))
           else if message = [] then False
           else if wanted \<noteq> [] \<and> \<not> str_includes message (to_lower wanted) then False
           else hasMessageToken message [''unsupported rpc method'', ''method not found'', ''unknown command'',
              ''command not found'', ''does not exist'', ''does not support rpc method''])"

section \<open>Breadth first is by levels\<close>

definition objects_of :: "js_value list \<Rightarrow> js_object list" where
  "objects_of vs = List.map_filter as_object vs"

definition nested_level :: "js_value list \<Rightarrow> js_value list" where
  "nested_level vs = concat (map nested_errors (objects_of vs))"

lemma objects_of_simps [simp]:
  "objects_of [] = []"
  "objects_of (v # vs) = (case as_object v of None \<Rightarrow> objects_of vs | Some r \<Rightarrow> r # objects_of vs)"
  "objects_of (vs @ ws) = objects_of vs @ objects_of ws"
  by (simp_all add: objects_of_def map_filter_def split: option.split)

lemma collect_chain_append:
  "collect_chain (vs @ ws) = objects_of vs @ collect_chain (ws @ nested_level vs)"
proof (induction vs arbitrary: ws)
  case (Cons v vs)
  show ?case
  proof (cases "as_object v")
    case None
    with Cons [of ws] show ?thesis by (simp add: nested_level_def)
  next
    case (Some r)
    with Cons [of "ws @ nested_errors r"] show ?thesis by (simp add: nested_level_def)
  qed
qed (simp add: nested_level_def)

lemma collect_chain_level: "collect_chain vs = objects_of vs @ collect_chain (nested_level vs)"
  using collect_chain_append [of vs "[]"] by simp

lemma collect_chain_levels:
  "collect_chain vs = concat (map (\<lambda>n. objects_of ((nested_level ^^ n) vs)) [0..<n])
     @ collect_chain ((nested_level ^^ n) vs)"
proof (induction n)
  case (Suc n)
  then show ?case using collect_chain_level [of "(nested_level ^^ n) vs"] by simp
qed simp

lemma weight_level:
  "sum_list (map error_weight (nested_level vs)) + length (objects_of vs) \<le> sum_list (map error_weight vs)"
proof (induction vs)
  case (Cons v vs)
  then show ?case using weight_nested [of v] by (cases "as_object v") (auto simp: nested_level_def)
qed (simp add: nested_level_def)

lemma level_bound:
  "objects_of ((nested_level ^^ n) vs) = [] \<or>
   n + sum_list (map error_weight ((nested_level ^^ n) vs)) \<le> sum_list (map error_weight vs)"
proof (induction n)
  case (Suc n)
  let ?l = "(nested_level ^^ n) vs"
  show ?case
  proof (cases "objects_of ?l = []")
    case True
    then have "nested_level ?l = []" by (simp add: nested_level_def)
    then show ?thesis by simp
  next
    case False
    then have "0 < length (objects_of ?l)" by simp
    moreover have "n + sum_list (map error_weight ?l) \<le> sum_list (map error_weight vs)" using Suc False by simp
    ultimately have "Suc n + sum_list (map error_weight (nested_level ?l)) \<le> sum_list (map error_weight vs)"
      using weight_level [of ?l] by linarith
    then show ?thesis by simp
  qed
qed simp

lemma no_objects: "sum_list (map error_weight vs) = 0 \<Longrightarrow> objects_of vs = []"
  by (induction vs) (auto simp: error_weight_def split: if_splits)

text \<open>The chain of an error is its objects by their depth, the error first and then what it nests, level
  by level, until none is left: so the code, name or method read from an error is that of the shallowest
  object that has one.
\<close>

theorem error_chain_by_levels:
  "collectErrorChain e = concat (map (\<lambda>n. objects_of ((nested_level ^^ n) [e])) [0..<Suc (size e)])"
proof -
  let ?l = "(nested_level ^^ Suc (size e)) [e]"
  have "sum_list (map error_weight [e]) \<le> Suc (size e)" by (simp add: error_weight_def)
  then have "objects_of ?l = []"
    using level_bound [of "Suc (size e)" "[e]"] no_objects [of ?l] by linarith
  then have "collect_chain ?l = []" by (subst collect_chain_level) (simp add: nested_level_def)
  then show ?thesis using collect_chain_levels [of "[e]" "Suc (size e)"]
    by (simp only: collectErrorChain_def append_Nil2)
qed

end
