(* ===== verification/ToolPreflight.thy ===== *)
theory ToolPreflight
  imports ToolMetrics ToolInputSchema RuntimeErrors
begin

text \<open>
  A call of a tool of the web bridge: \<open>wrapToolsWithInputSchemaPreflight\<close> of
  \<^verbatim>\<open>src/apps/code/src/services/webMcpBridgeToolPreflight.ts\<close> with the reporters of
  \<^verbatim>\<open>runtimeToolExecutionMetricsReporter.ts\<close>.  The call reports the attempt to the host, asks the
  host's guardrail, checks the input, reports the start, runs the tool and reports how it ended, to the
  host and to the metrics of the module.  The host, the tool, the clock and the size of the payload are
  parameters; the model gives what a call does, in order, and what it returns or throws.  The listeners
  of the metrics and the logger do not throw.
\<close>

section \<open>Metadata\<close>

record event_metadata =
  md_traceId :: "string option"
  md_spanId :: "string option"
  md_parentSpanId :: "string option"
  md_attempt :: "int option"
  md_requestId :: "string option"
  md_plannerStepKey :: "string option"
  md_workspaceId :: "string option"
  md_capabilityProfile :: "string option"

definition toOptionalAttempt :: "js_value \<Rightarrow> int option" where
  "toOptionalAttempt v =
     (case as_number v of None \<Rightarrow> None | Some n \<Rightarrow> if 0 \<le> js_trunc n then Some (js_trunc n) else None)"

definition capability_profile :: "js_object \<Rightarrow> string option" where
  "capability_profile input =
     (let explicit = toNonEmptyString (field input ''capabilityProfile'');
          accessMode = toNonEmptyString (field input ''accessMode'')
      in if explicit = Some ''solo-max'' \<or> explicit = Some ''default'' then explicit
         else if accessMode = Some ''full-access'' then Some ''solo-max'' else None)"

definition buildEventMetadataFromInput :: "js_object \<Rightarrow> event_metadata" where
  "buildEventMetadataFromInput input =
     \<lparr>md_traceId = toNonEmptyString (field input ''traceId''), md_spanId = toNonEmptyString (field input ''spanId''),
      md_parentSpanId = toNonEmptyString (field input ''parentSpanId''),
      md_attempt = toOptionalAttempt (field input ''attempt''),
      md_requestId = toNonEmptyString (field input ''requestId''),
      md_plannerStepKey = toNonEmptyString (field input ''plannerStepKey''),
      md_workspaceId = toNonEmptyString (field input ''workspaceId''),
      md_capabilityProfile = capability_profile input\<rparr>"

section \<open>What a call does\<close>

datatype event_phase = PhaseAttempted | PhaseStarted | PhaseCompleted

record execution_event =
  xe_toolName :: string
  xe_scope :: tool_scope
  xe_phase :: event_phase
  xe_at :: rat
  xe_status :: "tool_status option"
  xe_errorCode :: "string option"
  xe_durationMs :: "rat option"
  xe_metadata :: event_metadata

record guardrail_request =
  gr_toolName :: string
  gr_scope :: tool_scope
  gr_workspaceId :: "string option"
  gr_payloadBytes :: int
  gr_at :: rat
  gr_metadata :: event_metadata

record guardrail_decision =
  gd_allowed :: bool
  gd_errorCode :: "string option"
  gd_message :: "string option"
  gd_payloadLimit :: "rat option"
  gd_observeRateLimit :: "rat option"

record outcome_event =
  oe_toolName :: string
  oe_scope :: tool_scope
  oe_status :: tool_status
  oe_at :: rat
  oe_workspaceId :: "string option"
  oe_durationMs :: "rat option"
  oe_errorCode :: "string option"
  oe_metadata :: event_metadata

datatype call_effect =
  HostRecord execution_event
| HostEvaluate guardrail_request
| HostOutcome outcome_event
| Metric metrics_op
| Execute js_object
| Warn string

text \<open>The readings of the clock a call makes.\<close>

datatype clock_reading =
  AtAttempted | AtGuardrail | AtStarted | StartedAt | DurationReported | AtCompleted
| DurationRecorded | DurationOutcome | AtOutcome

record call_env =
  ce_record :: "execution_event \<Rightarrow> js_value option"
  ce_evaluate :: "guardrail_request \<Rightarrow> js_value + guardrail_decision"
  ce_outcome :: "outcome_event \<Rightarrow> js_value option"
  ce_execute :: "js_object \<Rightarrow> js_value + js_value"
  ce_clock :: "clock_reading \<Rightarrow> rat"
  ce_payloadBytes :: "js_object \<Rightarrow> nat"
  ce_string :: "js_value \<Rightarrow> string"

record tool_descriptor =
  td_name :: string
  td_inputSchema :: js_value

type_synonym 'a traced = "call_effect list \<times> (js_value + 'a)"

definition after :: "unit traced \<Rightarrow> 'a traced \<Rightarrow> 'a traced" where
  "after c d = (case snd c of Inl e \<Rightarrow> (fst c, Inl e) | Inr _ \<Rightarrow> (fst c @ fst d, snd d))"

definition does :: "call_effect list \<Rightarrow> unit traced" where
  "does es = (es, Inr ())"

section \<open>Reporting\<close>

definition runtime_error :: "string \<Rightarrow> string \<Rightarrow> js_value" where
  "runtime_error code message =
     (let e = createRuntimeError (Some code) message
      in Obj [(''name'', Str ''Error''), (''message'', Str (th_message e)), (''code'', Str (nullish (th_code e) []))])"

definition toMetricsUnavailableError :: "string \<Rightarrow> string \<Rightarrow> js_value \<Rightarrow> js_value" where
  "toMetricsUnavailableError toolName phase cause =
     (let causeCode = readRuntimeErrorCode cause; causeMessage = getErrorMessage cause;
          details = (if causeMessage \<noteq> [] then '' Cause: '' @ causeMessage else [])
      in if causeCode = Some ''INVALID_PARAMS'' then
           runtime_error ''INVALID_PARAMS''
             (''Runtime tool telemetry payload is invalid while recording '' @ phase @ '' for '' @ toolName @ ''.'' @ details)
         else runtime_error ''runtime.validation.metrics.unavailable''
             (''Runtime tool metrics channel is unavailable while recording '' @ phase @ '' for '' @ toolName @ ''.'' @ details))"

fun phase_text :: "event_phase \<Rightarrow> string" where
  "phase_text PhaseAttempted = ''attempted''"
| "phase_text PhaseStarted = ''started''"
| "phase_text PhaseCompleted = ''completed''"

definition recordStrict :: "call_env \<Rightarrow> execution_event \<Rightarrow> unit traced" where
  "recordStrict env event =
     ([HostRecord event],
      case ce_record env event of None \<Rightarrow> Inr ()
      | Some e \<Rightarrow> Inl (toMetricsUnavailableError (xe_toolName event) (phase_text (xe_phase event)) e))"

definition recordBestEffort :: "call_env \<Rightarrow> execution_event \<Rightarrow> unit traced" where
  "recordBestEffort env event =
     does (HostRecord event # (case ce_record env event of None \<Rightarrow> []
       | Some e \<Rightarrow> [Warn (''[runtime][tool-metrics] failed to record '' @ phase_text (xe_phase event)
           @ '' event for '' @ xe_toolName event @ '': '' @ getErrorMessage e)]))"

definition plain_event :: "string \<Rightarrow> tool_scope \<Rightarrow> event_phase \<Rightarrow> rat \<Rightarrow> event_metadata \<Rightarrow> execution_event" where
  "plain_event toolName scope phase t md = \<lparr>xe_toolName = toolName, xe_scope = scope, xe_phase = phase,
     xe_at = t, xe_status = None, xe_errorCode = None, xe_durationMs = None, xe_metadata = md\<rparr>"

definition reportToolAttempted :: "call_env \<Rightarrow> string \<Rightarrow> tool_scope \<Rightarrow> event_metadata \<Rightarrow> bool \<Rightarrow> unit traced" where
  "reportToolAttempted env toolName scope md exempt =
     (if exempt then does []
      else recordStrict env (plain_event toolName scope PhaseAttempted (ce_clock env AtAttempted) md))"

definition reportToolStarted :: "call_env \<Rightarrow> string \<Rightarrow> tool_scope \<Rightarrow> event_metadata \<Rightarrow> bool \<Rightarrow> unit traced" where
  "reportToolStarted env toolName scope md exempt =
     (if exempt then does []
      else recordStrict env (plain_event toolName scope PhaseStarted (ce_clock env AtStarted) md))"

definition reportToolCompleted ::
    "call_env \<Rightarrow> string \<Rightarrow> tool_scope \<Rightarrow> tool_status \<Rightarrow> string option \<Rightarrow> rat \<Rightarrow> event_metadata \<Rightarrow> bool \<Rightarrow> unit traced" where
  "reportToolCompleted env toolName scope status errorCode durationMs md exempt =
     (if exempt then does []
      else recordBestEffort env \<lparr>xe_toolName = toolName, xe_scope = scope, xe_phase = PhaseCompleted,
        xe_at = ce_clock env AtCompleted, xe_status = Some status, xe_errorCode = errorCode,
        xe_durationMs = Some durationMs, xe_metadata = md\<rparr>)"

definition evaluateRuntimeToolGuardrail ::
    "call_env \<Rightarrow> guardrail_request \<Rightarrow> call_effect list \<times> (js_value + guardrail_decision)" where
  "evaluateRuntimeToolGuardrail env request =
     ([HostEvaluate request],
      case ce_evaluate env request of
        Inl e \<Rightarrow> Inl (toMetricsUnavailableError (gr_toolName request) ''guardrail_evaluate'' e)
      | Inr d \<Rightarrow> Inr d)"

definition reportRuntimeToolGuardrailOutcome :: "call_env \<Rightarrow> outcome_event \<Rightarrow> unit traced" where
  "reportRuntimeToolGuardrailOutcome env event =
     does (HostOutcome event # (case ce_outcome env event of None \<Rightarrow> []
       | Some e \<Rightarrow> [Warn (''[runtime][tool-guardrail] failed to record outcome event for ''
           @ oe_toolName event @ '': '' @ getErrorMessage e)]))"

section \<open>The stages of a call\<close>

definition toMetricsScope :: "tool_scope \<Rightarrow> string \<Rightarrow> tool_scope" where
  "toMetricsScope scope toolName =
     (if scope = ScRuntime \<and> toolName = ''run-runtime-computer-observe'' then ScComputerObserve else scope)"

definition isRuntimeMetricsDiagnosticsTool :: "string \<Rightarrow> bool" where
  "isRuntimeMetricsDiagnosticsTool toolName \<longleftrightarrow>
     toolName = ''get-runtime-tool-execution-metrics'' \<or> toolName = ''get-runtime-tool-guardrail-state''"

definition isRuntimeWorkspaceDryRun :: "string \<Rightarrow> js_object \<Rightarrow> bool" where
  "isRuntimeWorkspaceDryRun toolName input =
     (if toolName \<noteq> ''execute-workspace-command'' \<and> toolName \<noteq> ''write-workspace-file''
         \<and> toolName \<noteq> ''edit-workspace-file'' then False
      else field input ''dryRun'' = Bool True)"

definition readToolOutputTruncatedFlag :: "js_value \<Rightarrow> bool" where
  "readToolOutputTruncatedFlag result =
     (case toOptionalRecord result of None \<Rightarrow> False | Some r \<Rightarrow>
      case toOptionalRecord (field r ''data'') of None \<Rightarrow> False | Some d \<Rightarrow>
      case toOptionalRecord (field d ''toolOutput'') of None \<Rightarrow> False
      | Some output \<Rightarrow> field output ''truncated'' = Bool True)"

definition buildGuardrailEffectiveLimitsSuffix :: "guardrail_decision \<Rightarrow> string" where
  "buildGuardrailEffectiveLimitsSuffix d =
     (let limit = map_option (\<lambda>n. max 0 (js_trunc n))
      in case (limit (gd_payloadLimit d), limit (gd_observeRateLimit d)) of
           (Some payload, Some rate) \<Rightarrow> '' (effective limits: payload<='' @ show_int payload
             @ ''B, computer_observe<='' @ show_int rate @ ''/min)''
         | _ \<Rightarrow> [])"

definition toRuntimeFailureStatus :: "js_value \<Rightarrow> tool_status \<times> string option" where
  "toRuntimeFailureStatus e =
     (let errorCode = readRuntimeErrorCode e
      in if errorCode = Some ''runtime.validation.request.blocked''
            \<or> errorCode = Some ''runtime.validation.command.restricted'' then (StBlocked, errorCode)
         else if isTimeoutLikeRuntimeError e then (StTimeout, errorCode)
         else (StRuntimeFailed, errorCode))"

text \<open>The values of a call that its stages share.\<close>

record call_context =
  cc_toolName :: string
  cc_scope :: tool_scope
  cc_metadata :: event_metadata
  cc_workspaceId :: "string option"
  cc_exempt :: bool

definition call_context_of :: "tool_descriptor \<Rightarrow> tool_scope \<Rightarrow> js_object \<Rightarrow> call_context" where
  "call_context_of tool scope input =
     \<lparr>cc_toolName = td_name tool, cc_scope = toMetricsScope scope (td_name tool),
      cc_metadata = buildEventMetadataFromInput input,
      cc_workspaceId = toNonEmptyString (field input ''workspaceId''),
      cc_exempt = isRuntimeMetricsDiagnosticsTool (td_name tool)\<rparr>"

definition end_metric ::
    "call_context \<Rightarrow> tool_status \<Rightarrow> string option \<Rightarrow> rat \<Rightarrow> bool \<Rightarrow> unit traced" where
  "end_metric c status errorCode durationMs truncated =
     does [Metric (End \<lparr>te_toolName = cc_toolName c, te_scope = cc_scope c, te_status = status,
       te_errorCode = errorCode, te_durationMs = Some durationMs, te_truncatedOutput = truncated, te_at = None\<rparr>)]"

definition report_outcome ::
    "call_env \<Rightarrow> call_context \<Rightarrow> tool_status \<Rightarrow> string option \<Rightarrow> rat \<Rightarrow> unit traced" where
  "report_outcome env c status errorCode durationMs =
     reportRuntimeToolGuardrailOutcome env
       \<lparr>oe_toolName = cc_toolName c, oe_scope = cc_scope c, oe_status = status, oe_at = ce_clock env AtOutcome,
        oe_workspaceId = cc_workspaceId c, oe_durationMs = Some durationMs, oe_errorCode = errorCode,
        oe_metadata = (cc_metadata c)\<lparr>md_workspaceId := None, md_capabilityProfile := None\<rparr>\<rparr>"

text \<open>How every branch tells of the end of a call: the host, the metrics, and the guardrail unless exempt.\<close>

definition report_end ::
    "call_env \<Rightarrow> call_context \<Rightarrow> tool_status \<Rightarrow> string option \<Rightarrow> (clock_reading \<Rightarrow> rat) \<Rightarrow> bool \<Rightarrow> unit traced" where
  "report_end env c status errorCode duration truncated =
     after (reportToolCompleted env (cc_toolName c) (cc_scope c) status errorCode (duration DurationReported)
       (cc_metadata c) (cc_exempt c))
     (after (end_metric c status errorCode (duration DurationRecorded) truncated)
       (if cc_exempt c then does [] else report_outcome env c status errorCode (duration DurationOutcome)))"

definition throws :: "js_value \<Rightarrow> 'a traced" where
  "throws e = ([], Inl e)"

definition guardrail_code :: "guardrail_decision \<Rightarrow> string" where
  "guardrail_code d = nullish (normalizeErrorCode (gd_errorCode d)) ''runtime.validation.request.blocked''"

definition guardrail_message :: "string \<Rightarrow> guardrail_decision \<Rightarrow> string" where
  "guardrail_message toolName d =
     nullish (normalizeErrorCode (gd_message d)) (''Tool '' @ toolName @ '' blocked by runtime guardrail.'')
     @ buildGuardrailEffectiveLimitsSuffix d"

definition guardrail_request_of :: "call_env \<Rightarrow> call_context \<Rightarrow> js_object \<Rightarrow> guardrail_request" where
  "guardrail_request_of env c input =
     \<lparr>gr_toolName = cc_toolName c, gr_scope = cc_scope c, gr_workspaceId = cc_workspaceId c,
      gr_payloadBytes = max 0 (js_trunc (of_nat (ce_payloadBytes env input))), gr_at = ce_clock env AtGuardrail,
      gr_metadata = (cc_metadata c)\<lparr>md_workspaceId := None\<rparr>\<rparr>"

definition guardrail_stage :: "call_env \<Rightarrow> call_context \<Rightarrow> js_object \<Rightarrow> unit traced" where
  "guardrail_stage env c input =
     (if cc_exempt c \<or> isRuntimeWorkspaceDryRun (cc_toolName c) input then does []
      else case evaluateRuntimeToolGuardrail env (guardrail_request_of env c input) of
        (es, Inl e) \<Rightarrow> (es, Inl e)
      | (es, Inr d) \<Rightarrow>
          if gd_allowed d then does es
          else after (does es) (after (report_end env c StBlocked (Some (guardrail_code d)) (\<lambda>_. 0) False)
            (throws (runtime_error (guardrail_code d) (guardrail_message (cc_toolName c) d)))))"

definition schema_warnings :: "tool_scope \<Rightarrow> string \<Rightarrow> schema_result \<Rightarrow> call_effect list" where
  "schema_warnings scope toolName v =
     (let start = ''[webmcp]['' @ scope_text scope @ ''] '' @ toolName
      in if sr_extraFields v \<noteq> []
         then [Warn (start @ '' received unexpected input fields: '' @ js_join '', '' (sr_extraFields v))]
         else if sr_warnings v \<noteq> [] then [Warn (start @ '' input warnings: '' @ js_join ''; '' (sr_warnings v))]
         else [])"

definition schema_validation_error :: "string \<Rightarrow> tool_scope \<Rightarrow> schema_result \<Rightarrow> js_value" where
  "schema_validation_error toolName scope v =
     (let strings = (\<lambda>xs. Arr (map Str xs));
          details = (if sr_errors v \<noteq> [] then js_join ''; '' (sr_errors v) else ''Unknown schema validation error.'')
      in Obj [(''name'', Str ''WebMcpInputSchemaValidationError''),
         (''message'', Str (''Input schema validation failed for '' @ toolName @ '': '' @ details)),
         (''code'', Str ''INPUT_SCHEMA_VALIDATION_FAILED''), (''toolName'', Str toolName),
         (''scope'', Str (scope_text scope)),
         (''validation'', Obj [(''errors'', strings (sr_errors v)), (''warnings'', strings (sr_warnings v)),
            (''missingRequired'', strings (sr_missingRequired v)), (''typeMismatches'', strings (sr_typeMismatches v)),
            (''extraFields'', strings (sr_extraFields v))])])"

definition validation_stage ::
    "call_env \<Rightarrow> call_context \<Rightarrow> tool_descriptor \<Rightarrow> tool_scope \<Rightarrow> js_object \<Rightarrow> unit traced" where
  "validation_stage env c tool scope input =
     (let v = validateToolInputAgainstSchema (ce_string env) (Obj input) (td_inputSchema tool)
      in after (does (schema_warnings scope (td_name tool) v))
         (if sr_errors v \<noteq> [] then
            after (report_end env c StValidationFailed (Some ''INPUT_SCHEMA_VALIDATION_FAILED'') (\<lambda>_. 0) False)
              (throws (schema_validation_error (td_name tool) scope v))
          else does []))"

definition execute_stage :: "call_env \<Rightarrow> call_context \<Rightarrow> js_object \<Rightarrow> js_value traced" where
  "execute_stage env c input =
     (let duration = (\<lambda>r. ce_clock env r - ce_clock env StartedAt)
      in after (does [Execute input])
         (case ce_execute env input of
            Inr result \<Rightarrow> after (report_end env c StSuccess None duration (readToolOutputTruncatedFlag result)) ([], Inr result)
          | Inl e \<Rightarrow> (case toRuntimeFailureStatus e of (status, errorCode) \<Rightarrow>
              after (report_end env c status errorCode duration False) (throws e))))"

definition wrapped_execute ::
    "call_env \<Rightarrow> tool_descriptor \<Rightarrow> tool_scope \<Rightarrow> js_object \<Rightarrow> js_value traced" where
  "wrapped_execute env tool scope input =
     (let c = call_context_of tool scope input
      in after (reportToolAttempted env (cc_toolName c) (cc_scope c) (cc_metadata c) (cc_exempt c))
        (after (does [Metric (Attempt (cc_toolName c) (cc_scope c))])
        (after (guardrail_stage env c input)
        (after (validation_stage env c tool scope input)
        (after (reportToolStarted env (cc_toolName c) (cc_scope c) (cc_metadata c) (cc_exempt c))
        (after (does [Metric (Start (cc_toolName c) (cc_scope c))])
          (execute_stage env c input)))))))"

end
