(* ===== verification/ToolPreflightFacts.thy ===== *)
theory ToolPreflightFacts
  imports ToolPreflight "HOL-Library.Multiset"
begin

text \<open>
  When a wrapped call runs its tool, and what it leaves in the metrics.  Both are read off the list of
  what the call does: its \<open>Execute\<close> entries and its metric operations.  Since the totals only depend on
  the multiset of the operations, the balance of the metrics holds for every interleaving of the calls.
\<close>

section \<open>What the stages do\<close>

fun metric_ops :: "call_effect list \<Rightarrow> metrics_op list" where
  "metric_ops [] = []"
| "metric_ops (Metric op # es) = op # metric_ops es"
| "metric_ops (_ # es) = metric_ops es"

fun executions :: "call_effect list \<Rightarrow> js_object list" where
  "executions [] = []"
| "executions (Execute input # es) = input # executions es"
| "executions (_ # es) = executions es"

lemma metric_ops_append [simp]: "metric_ops (xs @ ys) = metric_ops xs @ metric_ops ys"
  by (induction xs rule: metric_ops.induct) simp_all

lemma executions_append [simp]: "executions (xs @ ys) = executions xs @ executions ys"
  by (induction xs rule: executions.induct) simp_all

lemma after_simps [simp]:
  "after (es, Inl e) d = (es, Inl e)" "after (es, Inr u) d = (es @ fst d, snd d)"
  by (simp_all add: after_def)

lemma does_simps [simp]: "fst (does es) = es" "snd (does es) = Inr ()"
  by (simp_all add: does_def)

lemma after_does [simp]: "after (does es) d = (es @ fst d, snd d)"
  by (simp add: does_def)

lemma throws_simps [simp]: "fst (throws e) = []" "snd (throws e) = Inl e"
  by (simp_all add: throws_def)

text \<open>A stage that cannot throw.\<close>

lemma after_ok: "snd c = Inr () \<Longrightarrow> after c d = (fst c @ fst d, snd d)"
  by (simp add: after_def)

lemma report_completed_simps [simp]:
  "snd (reportToolCompleted env t s st ec d md ex) = Inr ()"
  "metric_ops (fst (reportToolCompleted env t s st ec d md ex)) = []"
  "executions (fst (reportToolCompleted env t s st ec d md ex)) = []"
  by (simp_all add: reportToolCompleted_def recordBestEffort_def split: option.split)

lemma report_outcome_simps [simp]:
  "snd (report_outcome env c st ec d) = Inr ()"
  "metric_ops (fst (report_outcome env c st ec d)) = []"
  "executions (fst (report_outcome env c st ec d)) = []"
  by (simp_all add: report_outcome_def reportRuntimeToolGuardrailOutcome_def split: option.split)

definition end_op :: "call_context \<Rightarrow> tool_status \<Rightarrow> string option \<Rightarrow> rat \<Rightarrow> bool \<Rightarrow> metrics_op" where
  "end_op c status errorCode durationMs truncated =
     End \<lparr>te_toolName = cc_toolName c, te_scope = cc_scope c, te_status = status, te_errorCode = errorCode,
       te_durationMs = Some durationMs, te_truncatedOutput = truncated, te_at = None\<rparr>"

lemma end_metric_eq: "end_metric c st ec d tr = does [Metric (end_op c st ec d tr)]"
  by (simp add: end_metric_def end_op_def)

lemma report_end_simps [simp]:
  "snd (report_end env c st ec d tr) = Inr ()"
  "metric_ops (fst (report_end env c st ec d tr)) = [end_op c st ec (d DurationRecorded) tr]"
  "executions (fst (report_end env c st ec d tr)) = []"
  by (simp_all add: report_end_def after_ok end_metric_eq)

lemma report_attempted_simps:
  "metric_ops (fst (reportToolAttempted env t s md ex)) = []"
  "executions (fst (reportToolAttempted env t s md ex)) = []"
  by (simp_all add: reportToolAttempted_def recordStrict_def)

lemma report_started_simps:
  "metric_ops (fst (reportToolStarted env t s md ex)) = []"
  "executions (fst (reportToolStarted env t s md ex)) = []"
  by (simp_all add: reportToolStarted_def recordStrict_def)

lemma schema_warnings_simps [simp]:
  "metric_ops (schema_warnings scope t v) = []" "executions (schema_warnings scope t v) = []"
  by (simp_all add: schema_warnings_def Let_def)

lemma after_parts:
  "metric_ops (fst (after c d)) = metric_ops (fst c) @ (if isl (snd c) then [] else metric_ops (fst d))"
  "executions (fst (after c d)) = executions (fst c) @ (if isl (snd c) then [] else executions (fst d))"
  "isl (snd (after c d)) \<longleftrightarrow> isl (snd c) \<or> isl (snd d)"
  by (simp_all add: after_def split: sum.split)

section \<open>The conditions of a call\<close>

text \<open>The four questions a call asks before it runs the tool.\<close>

definition attempt_refused :: "call_env \<Rightarrow> tool_descriptor \<Rightarrow> tool_scope \<Rightarrow> js_object \<Rightarrow> bool" where
  "attempt_refused env tool scope input =
     (let c = call_context_of tool scope input
      in \<not> cc_exempt c \<and> ce_record env (plain_event (cc_toolName c) (cc_scope c) PhaseAttempted
           (ce_clock env AtAttempted) (cc_metadata c)) \<noteq> None)"

definition start_refused :: "call_env \<Rightarrow> tool_descriptor \<Rightarrow> tool_scope \<Rightarrow> js_object \<Rightarrow> bool" where
  "start_refused env tool scope input =
     (let c = call_context_of tool scope input
      in \<not> cc_exempt c \<and> ce_record env (plain_event (cc_toolName c) (cc_scope c) PhaseStarted
           (ce_clock env AtStarted) (cc_metadata c)) \<noteq> None)"

definition guarded :: "tool_descriptor \<Rightarrow> js_object \<Rightarrow> bool" where
  "guarded tool input \<longleftrightarrow> \<not> isRuntimeMetricsDiagnosticsTool (td_name tool) \<and> \<not> isRuntimeWorkspaceDryRun (td_name tool) input"

definition guardrail_answer ::
    "call_env \<Rightarrow> tool_descriptor \<Rightarrow> tool_scope \<Rightarrow> js_object \<Rightarrow> js_value + guardrail_decision" where
  "guardrail_answer env tool scope input = ce_evaluate env (guardrail_request_of env (call_context_of tool scope input) input)"

definition input_errors :: "call_env \<Rightarrow> tool_descriptor \<Rightarrow> js_object \<Rightarrow> string list" where
  "input_errors env tool input =
     sr_errors (validateToolInputAgainstSchema (ce_string env) (Obj input) (td_inputSchema tool))"

lemma context_simps [simp]:
  "cc_toolName (call_context_of tool scope input) = td_name tool"
  "cc_exempt (call_context_of tool scope input) = isRuntimeMetricsDiagnosticsTool (td_name tool)"
  by (simp_all add: call_context_of_def)

lemma attempted_isl:
  "isl (snd (reportToolAttempted env (td_name tool) (cc_scope (call_context_of tool scope input))
      (cc_metadata (call_context_of tool scope input)) (isRuntimeMetricsDiagnosticsTool (td_name tool))))
   = attempt_refused env tool scope input"
  by (simp add: reportToolAttempted_def recordStrict_def attempt_refused_def Let_def split: option.split)

lemma started_isl:
  "isl (snd (reportToolStarted env (td_name tool) (cc_scope (call_context_of tool scope input))
      (cc_metadata (call_context_of tool scope input)) (isRuntimeMetricsDiagnosticsTool (td_name tool))))
   = start_refused env tool scope input"
  by (simp add: reportToolStarted_def recordStrict_def start_refused_def Let_def split: option.split)

text \<open>The guardrail stage, by the answer of the host.\<close>

lemma guardrail_stage_unguarded:
  "\<not> guarded tool input \<Longrightarrow> guardrail_stage env (call_context_of tool scope input) input = does []"
  by (simp add: guardrail_stage_def guarded_def)

lemma guardrail_stage_guarded:
  assumes "guarded tool input"
  shows "guardrail_stage env (call_context_of tool scope input) input =
    (let c = call_context_of tool scope input; es = [HostEvaluate (guardrail_request_of env c input)]
     in case guardrail_answer env tool scope input of
          Inl e \<Rightarrow> (es, Inl (toMetricsUnavailableError (td_name tool) ''guardrail_evaluate'' e))
        | Inr d \<Rightarrow> if gd_allowed d then does es
            else after (does es) (after (report_end env c StBlocked (Some (guardrail_code d)) (\<lambda>_. 0) False)
              (throws (runtime_error (guardrail_code d) (guardrail_message (td_name tool) d)))))"
  using assms
  by (simp add: guardrail_stage_def guarded_def evaluateRuntimeToolGuardrail_def guardrail_answer_def Let_def
      guardrail_request_of_def split: sum.split)

definition denied :: "call_env \<Rightarrow> tool_descriptor \<Rightarrow> tool_scope \<Rightarrow> js_object \<Rightarrow> guardrail_decision option" where
  "denied env tool scope input =
     (if guarded tool input
      then case guardrail_answer env tool scope input of
          Inl _ \<Rightarrow> None | Inr d \<Rightarrow> if gd_allowed d then None else Some d
      else None)"

definition guardrail_lost :: "call_env \<Rightarrow> tool_descriptor \<Rightarrow> tool_scope \<Rightarrow> js_object \<Rightarrow> bool" where
  "guardrail_lost env tool scope input \<longleftrightarrow> guarded tool input \<and> isl (guardrail_answer env tool scope input)"

lemma guardrail_stage_parts:
  "metric_ops (fst (guardrail_stage env (call_context_of tool scope input) input)) =
     (case denied env tool scope input of None \<Rightarrow> []
      | Some d \<Rightarrow> [end_op (call_context_of tool scope input) StBlocked (Some (guardrail_code d)) 0 False])"
  "executions (fst (guardrail_stage env (call_context_of tool scope input) input)) = []"
  "isl (snd (guardrail_stage env (call_context_of tool scope input) input)) \<longleftrightarrow>
     guardrail_lost env tool scope input \<or> denied env tool scope input \<noteq> None"
  by (cases "guarded tool input"; cases "guardrail_answer env tool scope input";
      simp add: guardrail_stage_unguarded guardrail_stage_guarded Let_def after_ok denied_def guardrail_lost_def)+

lemma validation_stage_parts:
  "metric_ops (fst (validation_stage env c tool scope input)) =
     (if input_errors env tool input \<noteq> []
      then [end_op c StValidationFailed (Some ''INPUT_SCHEMA_VALIDATION_FAILED'') 0 False] else [])"
  "executions (fst (validation_stage env c tool scope input)) = []"
  "isl (snd (validation_stage env c tool scope input)) \<longleftrightarrow> input_errors env tool input \<noteq> []"
  by (simp_all add: validation_stage_def input_errors_def Let_def after_ok)

text \<open>The end of a call whose tool ran.\<close>

definition execute_end :: "call_env \<Rightarrow> call_context \<Rightarrow> js_object \<Rightarrow> metrics_op" where
  "execute_end env c input =
     (let duration = ce_clock env DurationRecorded - ce_clock env StartedAt
      in case ce_execute env input of
           Inr result \<Rightarrow> end_op c StSuccess None duration (readToolOutputTruncatedFlag result)
         | Inl e \<Rightarrow> end_op c (fst (toRuntimeFailureStatus e)) (snd (toRuntimeFailureStatus e)) duration False)"

lemma execute_stage_parts:
  "metric_ops (fst (execute_stage env c input)) = [execute_end env c input]"
  "executions (fst (execute_stage env c input)) = [input]"
  "snd (execute_stage env c input) = ce_execute env input"
  by (cases "ce_execute env input";
      simp add: execute_stage_def execute_end_def Let_def after_ok split: prod.split)+

definition call_metrics :: "call_env \<Rightarrow> tool_descriptor \<Rightarrow> tool_scope \<Rightarrow> js_object \<Rightarrow> metrics_op list" where
  "call_metrics env tool scope input =
     (let c = call_context_of tool scope input; attempt = Attempt (td_name tool) (cc_scope c)
      in if attempt_refused env tool scope input then []
         else if guardrail_lost env tool scope input then [attempt]
         else case denied env tool scope input of
           Some d \<Rightarrow> [attempt, end_op c StBlocked (Some (guardrail_code d)) 0 False]
         | None \<Rightarrow>
           if input_errors env tool input \<noteq> []
           then [attempt, end_op c StValidationFailed (Some ''INPUT_SCHEMA_VALIDATION_FAILED'') 0 False]
           else if start_refused env tool scope input then [attempt]
           else [attempt, Start (td_name tool) (cc_scope c), execute_end env c input])"

definition tool_runs :: "call_env \<Rightarrow> tool_descriptor \<Rightarrow> tool_scope \<Rightarrow> js_object \<Rightarrow> bool" where
  "tool_runs env tool scope input \<longleftrightarrow>
     \<not> attempt_refused env tool scope input \<and> \<not> guardrail_lost env tool scope input \<and>
     denied env tool scope input = None \<and> input_errors env tool input = [] \<and>
     \<not> start_refused env tool scope input"

lemma lost_not_denied: "guardrail_lost env tool scope input \<Longrightarrow> denied env tool scope input = None"
  by (auto simp: guardrail_lost_def denied_def split: sum.split)

lemmas stage_parts =
  after_parts report_attempted_simps report_started_simps attempted_isl started_isl guardrail_stage_parts
  validation_stage_parts execute_stage_parts

lemma wrapped_metrics: "metric_ops (fst (wrapped_execute env tool scope input)) = call_metrics env tool scope input"
  using lost_not_denied [of env tool scope input]
  by (simp add: wrapped_execute_def call_metrics_def Let_def stage_parts split: option.split)

lemma wrapped_executions:
  "executions (fst (wrapped_execute env tool scope input)) = (if tool_runs env tool scope input then [input] else [])"
  by (simp add: wrapped_execute_def tool_runs_def Let_def stage_parts)

lemma after_result: "snd (after c d) = (case snd c of Inl e \<Rightarrow> Inl e | Inr _ \<Rightarrow> snd d)"
  by (simp add: after_def split: sum.split)

lemma wrapped_result:
  "tool_runs env tool scope input \<Longrightarrow> snd (wrapped_execute env tool scope input) = ce_execute env input"
  "\<not> tool_runs env tool scope input \<Longrightarrow> isl (snd (wrapped_execute env tool scope input))"
proof -
  assume runs: "tool_runs env tool scope input"
  have ok: "\<not> isl (snd c) \<Longrightarrow> snd (after c d) = snd d" for c :: "unit traced" and d :: "js_value traced"
    by (auto simp: after_def split: sum.split)
  show "snd (wrapped_execute env tool scope input) = ce_execute env input"
    using runs by (simp add: wrapped_execute_def Let_def ok stage_parts tool_runs_def)
next
  assume "\<not> tool_runs env tool scope input"
  then show "isl (snd (wrapped_execute env tool scope input))"
    by (auto simp: wrapped_execute_def Let_def stage_parts tool_runs_def)
qed

text \<open>C30: a wrapped tool runs at most once and only when every gate was passed: the host took the report of
  the attempt and of the start (but for the two diagnostics tools), the host's guardrail allowed the call
  (but for those and for dry runs), and the input has no schema error.  When it runs, the call
  returns what the tool returned or throws what it threw; when it does not, the call throws.
\<close>

theorem tool_runs_when_cleared:
  "let r = wrapped_execute env tool scope input;
       exempt = isRuntimeMetricsDiagnosticsTool (td_name tool);
       c = call_context_of tool scope input;
       accepts = (\<lambda>phase reading. ce_record env (plain_event (td_name tool) (cc_scope c) phase
         (ce_clock env reading) (cc_metadata c)) = None);
       cleared = (exempt \<or> accepts PhaseAttempted AtAttempted) \<and>
         (exempt \<or> isRuntimeWorkspaceDryRun (td_name tool) input \<or>
           (case ce_evaluate env (guardrail_request_of env c input) of Inl _ \<Rightarrow> False | Inr d \<Rightarrow> gd_allowed d)) \<and>
         sr_errors (validateToolInputAgainstSchema (ce_string env) (Obj input) (td_inputSchema tool)) = [] \<and>
         (exempt \<or> accepts PhaseStarted AtStarted)
   in executions (fst r) = (if cleared then [input] else []) \<and>
      (if cleared then snd r = ce_execute env input else isl (snd r))"
proof -
  let ?c = "call_context_of tool scope input"
  have "tool_runs env tool scope input \<longleftrightarrow>
      (isRuntimeMetricsDiagnosticsTool (td_name tool) \<or> ce_record env (plain_event (td_name tool) (cc_scope ?c)
          PhaseAttempted (ce_clock env AtAttempted) (cc_metadata ?c)) = None) \<and>
      (isRuntimeMetricsDiagnosticsTool (td_name tool) \<or> isRuntimeWorkspaceDryRun (td_name tool) input \<or>
        (case ce_evaluate env (guardrail_request_of env ?c input) of Inl _ \<Rightarrow> False | Inr d \<Rightarrow> gd_allowed d)) \<and>
      sr_errors (validateToolInputAgainstSchema (ce_string env) (Obj input) (td_inputSchema tool)) = [] \<and>
      (isRuntimeMetricsDiagnosticsTool (td_name tool) \<or> ce_record env (plain_event (td_name tool) (cc_scope ?c)
          PhaseStarted (ce_clock env AtStarted) (cc_metadata ?c)) = None)"
    by (cases "ce_evaluate env (guardrail_request_of env ?c input)")
      (auto simp: tool_runs_def attempt_refused_def start_refused_def guardrail_lost_def denied_def
        guardrail_answer_def guarded_def input_errors_def Let_def)
  then show ?thesis using wrapped_executions [of env tool scope input] wrapped_result [of env tool scope input]
    unfolding Let_def by presburger
qed

section \<open>The balance of the metrics\<close>

text \<open>The totals of a history count its operations, so they only depend on the multiset of them.\<close>

fun is_end :: "metrics_op \<Rightarrow> bool" where
  "is_end (End _) = True"
| "is_end _ = False"

fun ends_in :: "tool_status \<Rightarrow> metrics_op \<Rightarrow> bool" where
  "ends_in status (End e) = (te_status e = status)"
| "ends_in _ _ = False"

definition op_count :: "(metrics_op \<Rightarrow> bool) \<Rightarrow> (metrics_op \<times> rat \<times> rat) list \<Rightarrow> nat" where
  "op_count p ops = length (filter p (map fst ops))"

lemma op_count_simps [simp]:
  "op_count p [] = 0" "op_count p ((op, w) # ops) = (if p op then 1 else 0) + op_count p ops"
  by (simp_all add: op_count_def)

lemma totals_count:
  "attemptedTotal (totals_of ops) = op_count is_attempt ops"
  "startedTotal (totals_of ops) = op_count is_start ops"
  "completedTotal (totals_of ops) = op_count is_end ops"
  "successTotal (totals_of ops) = op_count (ends_in StSuccess) ops"
proof -
  have "length (filter (\<lambda>(op, _). is_attempt op) ops) = op_count is_attempt ops"
    "length (filter (\<lambda>(op, _). is_start op) ops) = op_count is_start ops"
    by (induction ops) auto
  moreover have "length (ends_of ops) = op_count is_end ops" by (induction ops rule: ends_of.induct) simp_all
  moreover have "ends_by_status StSuccess ops = op_count (ends_in StSuccess) ops"
    unfolding ends_by_status_def by (induction ops rule: ends_of.induct) simp_all
  ultimately show "attemptedTotal (totals_of ops) = op_count is_attempt ops"
    "startedTotal (totals_of ops) = op_count is_start ops" "completedTotal (totals_of ops) = op_count is_end ops"
    "successTotal (totals_of ops) = op_count (ends_in StSuccess) ops" by (simp_all add: totals_of_def)
qed

lemma length_by_status:
  "length xs = length (filter (\<lambda>x. f x = StSuccess) xs) + length (filter (\<lambda>x. f x = StValidationFailed) xs)
     + length (filter (\<lambda>x. f x = StRuntimeFailed) xs) + length (filter (\<lambda>x. f x = StTimeout) xs)
     + length (filter (\<lambda>x. f x = StBlocked) xs)"
proof (induction xs)
  case (Cons x xs)
  then show ?case by (cases "f x") simp_all
qed simp

lemma completed_is_sum:
  "completedTotal (totals_of ops) = successTotal (totals_of ops) + validationFailedTotal (totals_of ops)
     + runtimeFailedTotal (totals_of ops) + timeoutTotal (totals_of ops) + blockedTotal (totals_of ops)"
  using length_by_status [of "ends_of ops" "\<lambda>x. te_status (fst x)"]
  by (simp add: totals_of_def ends_by_status_def split_def)

text \<open>A call with its surroundings, and what it contributes.\<close>

record wrapped_call =
  wc_env :: call_env
  wc_tool :: tool_descriptor
  wc_scope :: tool_scope
  wc_input :: js_object

definition perform :: "wrapped_call \<Rightarrow> js_value traced" where
  "perform w = wrapped_execute (wc_env w) (wc_tool w) (wc_scope w) (wc_input w)"

definition returned :: "wrapped_call \<Rightarrow> bool" where
  "returned w \<longleftrightarrow> \<not> isl (snd (perform w))"

text \<open>The host took the attempt and then failed: on the question of the guardrail or the report of the start.\<close>

definition host_failed :: "wrapped_call \<Rightarrow> bool" where
  "host_failed w \<longleftrightarrow>
     \<not> attempt_refused (wc_env w) (wc_tool w) (wc_scope w) (wc_input w) \<and>
     (guardrail_lost (wc_env w) (wc_tool w) (wc_scope w) (wc_input w) \<or>
      denied (wc_env w) (wc_tool w) (wc_scope w) (wc_input w) = None \<and>
      input_errors (wc_env w) (wc_tool w) (wc_input w) = [] \<and>
      start_refused (wc_env w) (wc_tool w) (wc_scope w) (wc_input w))"

definition contributes :: "(metrics_op \<Rightarrow> bool) \<Rightarrow> wrapped_call \<Rightarrow> nat" where
  "contributes p w = length (filter p (metric_ops (fst (perform w))))"

lemma toRuntimeFailureStatus_fails: "fst (toRuntimeFailureStatus e) \<noteq> StSuccess"
  by (simp add: toRuntimeFailureStatus_def Let_def)

lemma call_contributions:
  "contributes is_start w \<le> contributes is_end w"
  "contributes is_attempt w = contributes is_end w + (if host_failed w then 1 else 0)"
  "contributes (ends_in StSuccess) w = (if returned w then 1 else 0)"
proof -
  obtain env tool scope input where w: "w = \<lparr>wc_env = env, wc_tool = tool, wc_scope = scope, wc_input = input\<rparr>"
    by (cases w)
  have ops: "metric_ops (fst (perform w)) = call_metrics env tool scope input"
    by (simp only: perform_def w wrapped_metrics wrapped_call.simps)
  note metrics = ops call_metrics_def
  let ?refused = "attempt_refused env tool scope input" and ?lost = "guardrail_lost env tool scope input"
  obtain e where e: "execute_end env (call_context_of tool scope input) input = End e"
      "te_status e = StSuccess \<longleftrightarrow> \<not> isl (ce_execute env input)"
    by (cases "ce_execute env input") (simp_all add: execute_end_def end_op_def toRuntimeFailureStatus_fails Let_def)
  consider "?refused" | "\<not> ?refused" "?lost"
    | d where "\<not> ?refused" "\<not> ?lost" "denied env tool scope input = Some d"
    | "\<not> ?refused" "\<not> ?lost" "denied env tool scope input = None" "input_errors env tool input \<noteq> []"
    | "\<not> ?refused" "\<not> ?lost" "denied env tool scope input = None" "input_errors env tool input = []"
      "start_refused env tool scope input"
    | "tool_runs env tool scope input"
    unfolding tool_runs_def by (cases "denied env tool scope input") blast+
  moreover have host: "host_failed w \<longleftrightarrow> \<not> ?refused \<and> (?lost \<or> denied env tool scope input = None \<and>
      input_errors env tool input = [] \<and> start_refused env tool scope input)"
    by (simp only: host_failed_def w wrapped_call.simps)
  moreover have ret: "returned w \<longleftrightarrow> tool_runs env tool scope input \<and> \<not> isl (ce_execute env input)"
    using wrapped_result [of env tool scope input] by (simp only: returned_def perform_def w wrapped_call.simps) metis
  ultimately have "contributes is_start w \<le> contributes is_end w \<and>
      contributes is_attempt w = contributes is_end w + (if host_failed w then 1 else 0) \<and>
      contributes (ends_in StSuccess) w = (if returned w then 1 else 0)"
    unfolding contributes_def metrics host ret
    by cases (use e lost_not_denied [of env tool scope input] in
      \<open>auto simp: Let_def tool_runs_def end_op_def\<close>)
  then show "contributes is_start w \<le> contributes is_end w"
    "contributes is_attempt w = contributes is_end w + (if host_failed w then 1 else 0)"
    "contributes (ends_in StSuccess) w = (if returned w then 1 else 0)" by blast+
qed

lemma op_count_interleaved:
  assumes "mset (map fst ops) = (\<Sum>w\<leftarrow>ws. mset (metric_ops (fst (perform w))))"
  shows "op_count p ops = (\<Sum>w\<leftarrow>ws. contributes p w)"
proof -
  have "op_count p ops = size (filter_mset p (mset (map fst ops)))"
    by (simp only: op_count_def size_mset flip: mset_filter)
  also have "\<dots> = (\<Sum>w\<leftarrow>ws. contributes p w)"
    unfolding assms by (induction ws) (simp_all add: contributes_def flip: mset_filter)
  finally show ?thesis .
qed

text \<open>C31: however the wrapped calls interleave, when they are over the metrics balance: every end has one
  of the five statuses, the successes are the calls that returned, no tool was started without an
  end, and the attempts exceed the ends by exactly the calls that the host failed between the two.
\<close>

theorem metrics_balance:
  assumes "mset (map fst ops) = (\<Sum>w\<leftarrow>ws. mset (metric_ops (fst (perform w))))"
  shows "let t = sn_totals (mm_snapshot (run_metrics ops \<lparr>mm_snapshot = createEmptySnapshot t0, mm_listeners = ls\<rparr>))
    in completedTotal t = successTotal t + validationFailedTotal t + runtimeFailedTotal t + timeoutTotal t + blockedTotal t \<and>
       successTotal t = length (filter returned ws) \<and>
       startedTotal t \<le> completedTotal t \<and>
       attemptedTotal t = completedTotal t + length (filter host_failed ws)"
proof -
  let ?m = "\<lparr>mm_snapshot = createEmptySnapshot t0, mm_listeners = ls\<rparr>"
  have "reflects [] (mm_snapshot ?m)"
    by (simp add: reflects_def createEmptySnapshot_def totals_of_Nil ops_about_def)
  from reflects_run [OF this, of ops] have t: "sn_totals (mm_snapshot (run_metrics ops ?m)) = totals_of ops"
    by (simp add: reflects_def)
  note count = op_count_interleaved [OF assms]
  have "(\<Sum>w\<leftarrow>ws. contributes (ends_in StSuccess) w) = length (filter returned ws)"
    by (induction ws) (simp_all add: call_contributions(3))
  moreover have "(\<Sum>w\<leftarrow>ws. contributes is_start w) \<le> (\<Sum>w\<leftarrow>ws. contributes is_end w)"
    by (rule sum_list_mono) (rule call_contributions(1))
  moreover have "(\<Sum>w\<leftarrow>ws. contributes is_attempt w)
      = (\<Sum>w\<leftarrow>ws. contributes is_end w) + length (filter host_failed ws)"
    by (induction ws) (simp_all add: call_contributions(2))
  ultimately show ?thesis
    unfolding t Let_def using completed_is_sum [of ops] by (simp add: totals_count count)
qed

definition example_call :: "bool \<Rightarrow> wrapped_call" where
  "example_call ok = \<lparr>wc_env = \<lparr>ce_record = (\<lambda>_. None),
       ce_evaluate = (\<lambda>_. Inr \<lparr>gd_allowed = True, gd_errorCode = None, gd_message = None, gd_payloadLimit = None,
          gd_observeRateLimit = None\<rparr>),
       ce_outcome = (\<lambda>_. None), ce_execute = (\<lambda>_. if ok then Inr Null else Inl (Str ''timeout'')),
       ce_clock = (\<lambda>_. 0), ce_payloadBytes = (\<lambda>_. 2), ce_string = (\<lambda>_. [])\<rparr>,
     wc_tool = \<lparr>td_name = ''list-tasks'', td_inputSchema = Obj []\<rparr>, wc_scope = ScRuntime, wc_input = []\<rparr>"

text \<open>Two such calls one inside the other.\<close>

definition example_ops :: "(metrics_op \<times> rat \<times> rat) list" where
  "example_ops = (let a = metric_ops (fst (perform (example_call True))); b = metric_ops (fst (perform (example_call False)))
     in map (\<lambda>op. (op, 0, 0)) (take 2 a @ b @ drop 2 a))"

theorem metrics_balance_witness:
  "successTotal (sn_totals (mm_snapshot (run_metrics example_ops
      \<lparr>mm_snapshot = createEmptySnapshot 0, mm_listeners = []\<rparr>)))
   = length (filter returned [example_call True, example_call False])"
proof -
  have "mset (take 2 a @ b @ drop 2 a) = mset a + mset b" for a b :: "metrics_op list"
    by (metis append_take_drop_id mset_append union_assoc union_commute)
  then have "mset (map fst example_ops) = (\<Sum>w\<leftarrow>[example_call True, example_call False]. mset (metric_ops (fst (perform w))))"
    by (simp add: example_ops_def Let_def comp_def)
  from metrics_balance [OF this, of 0 "[]"] show ?thesis by (simp only: Let_def)
qed

end
