(* ===== verification/DictionarySum.thy ===== *)
theory DictionarySum
  imports JsValue
begin

text \<open>
  Dictionaries that keep the order of their keys, as lists of pairs with distinct keys: sums over
  the values, and what a \<open>set\<close> or a \<open>delete\<close> does to them.
\<close>

text \<open>\<open>Map.prototype.delete\<close>\<close>

definition map_delete :: "'k \<Rightarrow> ('k \<times> 'v) list \<Rightarrow> ('k \<times> 'v) list" where
  "map_delete k m = filter (\<lambda>(k', _). k' \<noteq> k) m"

definition value_sum :: "('v \<Rightarrow> nat) \<Rightarrow> ('k \<times> 'v) list \<Rightarrow> nat" where
  "value_sum f m = sum_list (map (\<lambda>(_, v). f v) m)"

definition sum_at :: "('v \<Rightarrow> nat) \<Rightarrow> ('k \<times> 'v) list \<Rightarrow> 'k \<Rightarrow> nat" where
  "sum_at f m k = (case map_of m k of None \<Rightarrow> 0 | Some v \<Rightarrow> f v)"

lemma set_map_put: "x \<in> set (map_put k v m) \<Longrightarrow> x = (k, v) \<or> x \<in> set m"
  by (auto simp: map_put_def split: if_splits)

lemma distinct_map_delete: "distinct (map fst m) \<Longrightarrow> distinct (map fst (map_delete k m))"
  by (induction m) (auto simp: map_delete_def)

lemma value_sum_replace:
  "k \<in> fst ` set m \<Longrightarrow> distinct (map fst m) \<Longrightarrow>
     value_sum f (map (\<lambda>(k', v'). if k' = k then (k, v) else (k', v')) m) + sum_at f m k = value_sum f m + f v"
proof (induction m)
  case (Cons p m)
  obtain k' v' where p: "p = (k', v')" by (cases p)
  show ?case
  proof (cases "k' = k")
    case True
    with Cons.prems p have "map (\<lambda>(k', v'). if k' = k then (k, v) else (k', v')) m = m"
      by (intro map_idI) (auto simp: image_iff)
    with True p show ?thesis by (simp add: value_sum_def sum_at_def)
  next
    case False
    with Cons p show ?thesis by (simp add: value_sum_def sum_at_def)
  qed
qed simp

lemma value_sum_put:
  assumes "distinct (map fst m)"
  shows "value_sum f (map_put k v m) + sum_at f m k = value_sum f m + f v"
proof (cases "k \<in> fst ` set m")
  case True
  then show ?thesis using value_sum_replace [OF True assms] by (simp add: map_put_def)
next
  case False
  then have "map_of m k = None" by (simp add: map_of_eq_None_iff)
  with False show ?thesis by (simp add: map_put_def value_sum_def sum_at_def)
qed

lemma value_sum_delete:
  "distinct (map fst m) \<Longrightarrow> value_sum f (map_delete k m) + sum_at f m k = value_sum f m"
proof (induction m)
  case (Cons p m)
  obtain k' v' where p: "p = (k', v')" by (cases p)
  show ?case
  proof (cases "k' = k")
    case True
    with Cons.prems p have "map_delete k m = m" by (auto simp: map_delete_def filter_id_conv image_iff)
    with True p show ?thesis by (simp add: value_sum_def sum_at_def map_delete_def)
  next
    case False
    with Cons p show ?thesis by (simp add: value_sum_def sum_at_def map_delete_def)
  qed
qed (simp add: value_sum_def sum_at_def map_delete_def)

lemma value_sum_filter: "length (filter (\<lambda>(_, v). P v) m) = value_sum (\<lambda>v. if P v then 1 else 0) m"
  by (induction m) (auto simp: value_sum_def)

end
