(* ===== verification/EventChannel.thy ===== *)
theory EventChannel
  imports DictionarySum
begin

text \<open>
  The state of the event channels: the diagnostics per channel
  (\<^verbatim>\<open>src/packages/code-runtime-client/src/runtimeEventChannelDiagnostics.ts\<close>), the counters of
  fallbacks and reconnects (\<^verbatim>\<open>runtimeEventStabilityMetrics.ts\<close>) and the state machine that moves both
  (\<^verbatim>\<open>runtimeEventStateMachine.ts\<close>).  A time is an integer, a reading of the clock an argument; an
  optional field of a patch that may itself be null is an option of an option.  The order of the
  snapshot that the listeners get is not part of the model.
\<close>

section \<open>Diagnostics\<close>

datatype channel_transport = TrBridge | TrTauri | TrWs | TrSse | TrUnknown

datatype channel_status = ChIdle | ChConnecting | ChOpen | ChReconnecting | ChFallback | ChError | ChStopped

record channel_diagnostics =
  cd_id :: string
  cd_label :: string
  cd_transport :: channel_transport
  cd_status :: channel_status
  cd_retryAttempt :: nat
  cd_retryDelayMs :: "int option"
  cd_lastError :: "string option"
  cd_fallbackSinceMs :: "int option"
  cd_consecutiveFailures :: nat
  cd_lastTransitionReason :: "string option"
  cd_updatedAt :: int

record channel_patch =
  cp_label :: "string option"
  cp_transport :: "channel_transport option"
  cp_status :: "channel_status option"
  cp_retryAttempt :: "nat option"
  cp_retryDelayMs :: "int option option"
  cp_lastError :: "string option option"
  cp_fallbackSinceMs :: "int option option"
  cp_consecutiveFailures :: "nat option"
  cp_lastTransitionReason :: "string option option"

type_synonym diagnostics = "(string \<times> channel_diagnostics) list"

text \<open>\<open>previous?.field ?? d\<close>\<close>

definition prior :: "channel_diagnostics option \<Rightarrow> (channel_diagnostics \<Rightarrow> 'a) \<Rightarrow> 'a \<Rightarrow> 'a" where
  "prior previous f d = (case previous of None \<Rightarrow> d | Some p \<Rightarrow> f p)"

definition prior_option :: "channel_diagnostics option \<Rightarrow> (channel_diagnostics \<Rightarrow> 'a option) \<Rightarrow> 'a option" where
  "prior_option previous f = Option.bind previous f"

definition patched_fallback_since :: "channel_patch \<Rightarrow> channel_diagnostics option \<Rightarrow> int \<Rightarrow> int option" where
  "patched_fallback_since patch previous now =
     (case cp_fallbackSinceMs patch of Some v \<Rightarrow> v
      | None \<Rightarrow> if cp_status patch = Some ChFallback
          then Some (nullish (prior_option previous cd_fallbackSinceMs) now) else None)"

definition patched_failures :: "channel_patch \<Rightarrow> channel_diagnostics option \<Rightarrow> nat" where
  "patched_failures patch previous =
     (let before = prior previous cd_consecutiveFailures 0
      in case cp_consecutiveFailures patch of Some n \<Rightarrow> n
         | None \<Rightarrow> if cp_status patch = Some ChOpen then 0
             else if cp_status patch = Some ChError then before + 1 else before)"

definition patched_channel ::
    "string \<Rightarrow> channel_patch \<Rightarrow> channel_diagnostics option \<Rightarrow> int \<Rightarrow> channel_diagnostics" where
  "patched_channel i patch previous now =
     \<lparr>cd_id = i, cd_label = nullish (cp_label patch) (prior previous cd_label i),
      cd_transport = nullish (cp_transport patch) (prior previous cd_transport TrUnknown),
      cd_status = nullish (cp_status patch) (prior previous cd_status ChIdle),
      cd_retryAttempt = nullish (cp_retryAttempt patch) (prior previous cd_retryAttempt 0),
      cd_retryDelayMs = nullish (cp_retryDelayMs patch) (prior_option previous cd_retryDelayMs),
      cd_lastError = nullish (cp_lastError patch) (prior_option previous cd_lastError),
      cd_fallbackSinceMs = patched_fallback_since patch previous now,
      cd_consecutiveFailures = patched_failures patch previous,
      cd_lastTransitionReason = nullish (cp_lastTransitionReason patch) (prior_option previous cd_lastTransitionReason),
      cd_updatedAt = now\<rparr>"

definition updateRuntimeEventChannelDiagnostics ::
    "string \<Rightarrow> channel_patch \<Rightarrow> int \<Rightarrow> diagnostics \<Rightarrow> channel_diagnostics \<times> diagnostics" where
  "updateRuntimeEventChannelDiagnostics i patch now ds =
     (let updated = patched_channel i patch (map_of ds i) now in (updated, map_put i updated ds))"

text \<open>What a subscriber of one channel is told of: a change of these five fields.\<close>

definition channel_changed :: "channel_diagnostics option \<Rightarrow> channel_diagnostics \<Rightarrow> bool" where
  "channel_changed previous current =
     (case previous of None \<Rightarrow> True
      | Some p \<Rightarrow> \<not> (cd_status p = cd_status current \<and> cd_retryAttempt p = cd_retryAttempt current \<and>
          cd_retryDelayMs p = cd_retryDelayMs current \<and> cd_lastError p = cd_lastError current \<and>
          cd_lastTransitionReason p = cd_lastTransitionReason current))"

section \<open>Counters\<close>

record stability =
  sy_fallbackEnterTotal :: nat
  sy_fallbackRecoverTotal :: nat
  sy_reconnectAttemptTotal :: nat
  sy_reconnectSuccessTotal :: nat
  sy_dedupeHitTotal :: nat
  sy_lastFallbackReason :: "string option"
  sy_lastFallbackDurationMs :: "int option"
  sy_updatedAt :: int

definition initial_stability :: "int \<Rightarrow> stability" where
  "initial_stability now = \<lparr>sy_fallbackEnterTotal = 0, sy_fallbackRecoverTotal = 0, sy_reconnectAttemptTotal = 0,
     sy_reconnectSuccessTotal = 0, sy_dedupeHitTotal = 0, sy_lastFallbackReason = None,
     sy_lastFallbackDurationMs = None, sy_updatedAt = now\<rparr>"

definition recordRuntimeEventFallbackEntered :: "string \<Rightarrow> int \<Rightarrow> stability \<Rightarrow> stability" where
  "recordRuntimeEventFallbackEntered reason now s =
     s\<lparr>sy_fallbackEnterTotal := sy_fallbackEnterTotal s + 1,
       sy_lastFallbackReason := Some (if js_trim reason \<noteq> [] then js_trim reason else ''unknown''),
       sy_lastFallbackDurationMs := None, sy_updatedAt := now\<rparr>"

definition recordRuntimeEventFallbackRecovered :: "int option \<Rightarrow> int \<Rightarrow> stability \<Rightarrow> stability" where
  "recordRuntimeEventFallbackRecovered durationMs now s =
     s\<lparr>sy_fallbackRecoverTotal := sy_fallbackRecoverTotal s + 1,
       sy_lastFallbackDurationMs := (case durationMs of None \<Rightarrow> None | Some d \<Rightarrow> if 0 \<le> d then Some d else None),
       sy_updatedAt := now\<rparr>"

definition recordRuntimeEventReconnectAttempt :: "int \<Rightarrow> stability \<Rightarrow> stability" where
  "recordRuntimeEventReconnectAttempt now s =
     s\<lparr>sy_reconnectAttemptTotal := sy_reconnectAttemptTotal s + 1, sy_updatedAt := now\<rparr>"

definition recordRuntimeEventReconnectSuccess :: "int \<Rightarrow> stability \<Rightarrow> stability" where
  "recordRuntimeEventReconnectSuccess now s =
     s\<lparr>sy_reconnectSuccessTotal := sy_reconnectSuccessTotal s + 1, sy_updatedAt := now\<rparr>"

definition recordRuntimeEventDedupeHit :: "int \<Rightarrow> stability \<Rightarrow> stability" where
  "recordRuntimeEventDedupeHit now s = s\<lparr>sy_dedupeHitTotal := sy_dedupeHitTotal s + 1, sy_updatedAt := now\<rparr>"

section \<open>The state machine\<close>

record channels =
  cs_diagnostics :: diagnostics
  cs_stability :: stability

record machine =
  ma_id :: string
  ma_label :: string
  ma_defaultTransport :: channel_transport

record transition_options =
  to_reason :: "string option"
  to_transport :: "channel_transport option"
  to_retryAttempt :: "nat option"
  to_retryDelayMs :: "int option option"
  to_lastError :: "string option option"
  to_consecutiveFailures :: "nat option"

definition reason_of :: "transition_options \<Rightarrow> string option" where
  "reason_of opts = (let r = js_trim (nullish (to_reason opts) []) in if r \<noteq> [] then Some r else None)"

definition null_when_open :: "channel_status \<Rightarrow> 'a option option \<Rightarrow> 'a option option" where
  "null_when_open status v = (case v of Some x \<Rightarrow> Some x | None \<Rightarrow> if status = ChOpen then Some None else None)"

definition transition_patch ::
    "machine \<Rightarrow> channel_status \<Rightarrow> transition_options \<Rightarrow> channel_diagnostics option \<Rightarrow> channel_patch" where
  "transition_patch m status opts previous =
     \<lparr>cp_label = Some (ma_label m),
      cp_transport = Some (nullish (to_transport opts) (prior previous cd_transport (ma_defaultTransport m))),
      cp_status = Some status, cp_retryAttempt = to_retryAttempt opts,
      cp_retryDelayMs = null_when_open status (to_retryDelayMs opts),
      cp_lastError = null_when_open status (to_lastError opts), cp_fallbackSinceMs = None,
      cp_consecutiveFailures = to_consecutiveFailures opts, cp_lastTransitionReason = Some (reason_of opts)\<rparr>"

definition status_was :: "channel_status \<Rightarrow> channel_diagnostics option \<Rightarrow> bool" where
  "status_was status previous = (map_option cd_status previous = Some status)"

definition count_transition ::
    "machine \<Rightarrow> channel_status \<Rightarrow> transition_options \<Rightarrow> channel_diagnostics option \<Rightarrow> int \<Rightarrow> stability \<Rightarrow> stability" where
  "count_transition m status opts previous now s =
     (let s = (if status = ChFallback \<and> \<not> status_was ChFallback previous
               then recordRuntimeEventFallbackEntered (nullish (reason_of opts) (ma_id m)) now s else s);
          s = (if status_was ChFallback previous \<and> status \<noteq> ChFallback
               then recordRuntimeEventFallbackRecovered
                 (map_option (\<lambda>t. now - t) (prior_option previous cd_fallbackSinceMs)) now s else s);
          s = (if status = ChReconnecting \<and> \<not> status_was ChReconnecting previous
               then recordRuntimeEventReconnectAttempt now s else s)
      in if status = ChOpen \<and> \<not> status_was ChOpen previous then recordRuntimeEventReconnectSuccess now s else s)"

definition transition :: "machine \<Rightarrow> channel_status \<Rightarrow> transition_options \<Rightarrow> int \<Rightarrow> channels \<Rightarrow> channels" where
  "transition m status opts now c =
     (let previous = map_of (cs_diagnostics c) (ma_id m);
          (_, ds) = updateRuntimeEventChannelDiagnostics (ma_id m) (transition_patch m status opts previous) now
             (cs_diagnostics c)
      in \<lparr>cs_diagnostics = ds, cs_stability = count_transition m status opts previous now (cs_stability c)\<rparr>)"

definition no_options :: transition_options where
  "no_options = \<lparr>to_reason = None, to_transport = None, to_retryAttempt = None, to_retryDelayMs = None,
     to_lastError = None, to_consecutiveFailures = None\<rparr>"

text \<open>\<open>message\<close> is the text of the error.\<close>

definition setError :: "machine \<Rightarrow> string \<Rightarrow> string option \<Rightarrow> int \<Rightarrow> channels \<Rightarrow> channels" where
  "setError m message reason =
     transition m ChError (no_options\<lparr>to_reason := reason, to_lastError := Some (Some message)\<rparr>)"

definition recordAgentEnvelopeEvent :: "machine \<Rightarrow> string \<Rightarrow> int \<Rightarrow> channels \<Rightarrow> channels" where
  "recordAgentEnvelopeEvent m eventType =
     transition m ChOpen (no_options\<lparr>to_reason := Some (''agent-envelope:'' @ eventType)\<rparr>)"

section \<open>The counters are those of the channels\<close>

definition in_fallback :: "diagnostics \<Rightarrow> nat" where
  "in_fallback ds = value_sum (\<lambda>d. if cd_status d = ChFallback then 1 else 0) ds"

definition balanced :: "channels \<Rightarrow> bool" where
  "balanced c \<longleftrightarrow> distinct (map fst (cs_diagnostics c)) \<and>
     sy_fallbackEnterTotal (cs_stability c) = sy_fallbackRecoverTotal (cs_stability c) + in_fallback (cs_diagnostics c) \<and>
     (\<forall>(_, d) \<in> set (cs_diagnostics c). (cd_fallbackSinceMs d \<noteq> None) = (cd_status d = ChFallback))"

lemma transition_fields:
  "cs_diagnostics (transition m status opts now c) =
     map_put (ma_id m) (patched_channel (ma_id m) (transition_patch m status opts (map_of (cs_diagnostics c) (ma_id m)))
       (map_of (cs_diagnostics c) (ma_id m)) now) (cs_diagnostics c)"
  "cs_stability (transition m status opts now c) =
     count_transition m status opts (map_of (cs_diagnostics c) (ma_id m)) now (cs_stability c)"
  by (simp_all add: transition_def updateRuntimeEventChannelDiagnostics_def Let_def)

lemma patched_status [simp]: "cd_status (patched_channel i (transition_patch m status opts p) q now) = status"
  by (simp add: patched_channel_def transition_patch_def)

lemma patched_since [simp]:
  "(\<exists>y. cd_fallbackSinceMs (patched_channel i (transition_patch m status opts p) q now) = Some y) \<longleftrightarrow> status = ChFallback"
  by (simp add: patched_channel_def transition_patch_def patched_fallback_since_def)

lemma count_transition_fallback:
  "sy_fallbackEnterTotal (count_transition m status opts previous now s) = sy_fallbackEnterTotal s
     + (if status = ChFallback \<and> \<not> status_was ChFallback previous then 1 else 0)"
  "sy_fallbackRecoverTotal (count_transition m status opts previous now s) = sy_fallbackRecoverTotal s
     + (if status_was ChFallback previous \<and> status \<noteq> ChFallback then 1 else 0)"
  by (simp_all add: count_transition_def Let_def recordRuntimeEventFallbackEntered_def
      recordRuntimeEventFallbackRecovered_def recordRuntimeEventReconnectAttempt_def
      recordRuntimeEventReconnectSuccess_def)

lemma balanced_transition:
  assumes "balanced c"
  shows "balanced (transition m status opts now c)"
proof -
  let ?ds = "cs_diagnostics c" and ?i = "ma_id m"
  define v where "v = patched_channel ?i (transition_patch m status opts (map_of ?ds ?i)) (map_of ?ds ?i) now"
  have v: "cd_status v = status" "(cd_fallbackSinceMs v \<noteq> None) = (status = ChFallback)" by (simp_all add: v_def)
  have d: "distinct (map fst ?ds)" using assms by (simp add: balanced_def)
  have "in_fallback (map_put ?i v ?ds) + (if status_was ChFallback (map_of ?ds ?i) then 1 else 0)
      = in_fallback ?ds + (if status = ChFallback then 1 else 0)"
    using value_sum_put [OF d, of "\<lambda>d. if cd_status d = ChFallback then 1 else 0" ?i v] v(1)
    by (cases "map_of ?ds ?i") (simp_all add: in_fallback_def status_was_def sum_at_def)
  moreover have "sy_fallbackEnterTotal (cs_stability c) = sy_fallbackRecoverTotal (cs_stability c) + in_fallback ?ds"
    using assms by (simp add: balanced_def)
  moreover have "\<forall>(_, d) \<in> set (map_put ?i v ?ds). (cd_fallbackSinceMs d \<noteq> None) = (cd_status d = ChFallback)"
  proof
    fix x assume "x \<in> set (map_put ?i v ?ds)"
    then have "x = (?i, v) \<or> x \<in> set ?ds" by (rule set_map_put)
    then show "case x of (_, d) \<Rightarrow> (cd_fallbackSinceMs d \<noteq> None) = (cd_status d = ChFallback)"
      using assms v unfolding balanced_def by (cases x) fastforce
  qed
  ultimately show ?thesis
    using distinct_map_put [OF d, of ?i v]
    unfolding balanced_def transition_fields count_transition_fallback v_def [symmetric]
    by (cases "status = ChFallback"; cases "status_was ChFallback (map_of ?ds ?i)") simp_all
qed

text \<open>C29: over every history of transitions of any number of channels, the fallbacks entered are those
  recovered plus the channels that are in fallback now, and exactly those have a time since when.
  (This is about counters that only the transitions change, as in the second version of the bridge.
  The first version, in events.ts, moves the same counters by itself as well.)\<close>

theorem fallbacks_accounted:
  "let c = fold (\<lambda>(m, status, opts, now). transition m status opts now) ts
       \<lparr>cs_diagnostics = [], cs_stability = initial_stability t0\<rparr>
   in sy_fallbackEnterTotal (cs_stability c) = sy_fallbackRecoverTotal (cs_stability c)
        + length (filter (\<lambda>(_, d). cd_status d = ChFallback) (cs_diagnostics c)) \<and>
      list_all (\<lambda>(_, d). (cd_fallbackSinceMs d \<noteq> None) = (cd_status d = ChFallback)) (cs_diagnostics c)"
proof -
  have "balanced c \<Longrightarrow> balanced (fold (\<lambda>(m, status, opts, now). transition m status opts now) ts c)" for c
    by (induction ts arbitrary: c) (auto simp: balanced_transition)
  from this [of "\<lparr>cs_diagnostics = [], cs_stability = initial_stability t0\<rparr>"] show ?thesis
    by (simp add: balanced_def in_fallback_def initial_stability_def Let_def list_all_iff value_sum_filter value_sum_def)
qed

end
