(* ===== verification/EventDelivery.thy ===== *)
theory EventDelivery
  imports DictionarySum JsText
begin

text \<open>
  The parts of an event subscription that keep state of their own: the identifiers of events and their
  de-duplication (\<^verbatim>\<open>src/apps/code/src/services/eventsWebTransportHelpers.ts\<close>), the scheduler of retries
  (\<^verbatim>\<open>retryScheduler.ts\<close>), and the envelopes of agent messages with their queues
  (\<^verbatim>\<open>runtimeEventBridgeV2.ts\<close>).
\<close>

section \<open>Identifiers\<close>

definition WEB_RUNTIME_EVENT_ID_DEDUPE_WINDOW :: nat where "WEB_RUNTIME_EVENT_ID_DEDUPE_WINDOW = 2048"

text \<open>\<open>Number.parseInt(s, 10)\<close>: an optional sign and the digits after leading white space.\<close>

definition digits_value :: "string \<Rightarrow> int" where
  "digits_value s = fold (\<lambda>c n. 10 * n + (of_char c - 48)) s 0"

definition unsigned_prefix :: "string \<Rightarrow> int option" where
  "unsigned_prefix s =
     (let digits = takeWhile is_digit s
      in if digits = [] then None else Some (digits_value digits))"

definition parse_int :: "string \<Rightarrow> int option" where
  "parse_int s =
     (case trim_start s of
        [] \<Rightarrow> None
      | c # rest \<Rightarrow> if c = CHR ''-'' then map_option uminus (unsigned_prefix rest)
          else if c = CHR ''+'' then unsigned_prefix rest else unsigned_prefix (c # rest))"

fun readPositiveInteger :: "js_value \<Rightarrow> int option" where
  "readPositiveInteger (Num (Some n)) = (if n = of_int \<lfloor>n\<rfloor> \<and> 0 < n then Some \<lfloor>n\<rfloor> else None)"
| "readPositiveInteger (Str s) =
     (if js_trim s \<noteq> [] then (case parse_int s of None \<Rightarrow> None | Some n \<Rightarrow> if 0 < n then Some n else None)
      else None)"
| "readPositiveInteger _ = None"

definition readFieldString :: "js_object \<Rightarrow> string list \<Rightarrow> string option" where
  "readFieldString r ks = Option.bind (find (\<lambda>s. s \<noteq> None) (map (\<lambda>k. toNonEmptyString (field r k)) ks)) id"

definition runtime_event :: "js_value \<Rightarrow> js_object option" where
  "runtime_event payload =
     (case toOptionalRecord payload of None \<Rightarrow> None
      | Some r \<Rightarrow> if field r ''type'' = Str ''runtime.event'' then Some r else None)"

definition numeric_event_id :: "js_object \<Rightarrow> int option" where
  "numeric_event_id r = readPositiveInteger (js_nullish (field r ''eventId'') (field r ''event_id''))"

definition parseWebRuntimeWsEventId :: "js_value \<Rightarrow> int option" where
  "parseWebRuntimeWsEventId payload = Option.bind (runtime_event payload) numeric_event_id"

definition parseWebRuntimeWsEventIdentifier :: "js_value \<Rightarrow> string option" where
  "parseWebRuntimeWsEventIdentifier payload =
     (case runtime_event payload of None \<Rightarrow> None
      | Some r \<Rightarrow> (case numeric_event_id r of Some n \<Rightarrow> Some (show_int n) | None \<Rightarrow> readFieldString r [''id'']))"

definition parseWebRuntimeReplayEventId :: "string option \<Rightarrow> int option" where
  "parseWebRuntimeReplayEventId eventId = (case eventId of None \<Rightarrow> None | Some s \<Rightarrow> readPositiveInteger (Str s))"

text \<open>The first argument is the identifier that the event source itself gives.\<close>

definition parseWebRuntimeSseEventId :: "js_value \<Rightarrow> js_value \<Rightarrow> string option" where
  "parseWebRuntimeSseEventId explicit payload =
     (case toNonEmptyString explicit of Some s \<Rightarrow> Some s
      | None \<Rightarrow> (case toOptionalRecord payload of None \<Rightarrow> None
          | Some r \<Rightarrow> nullish2 (readFieldString r [''eventId'', ''event_id''])
              (readFieldString (nullish (toOptionalRecord (field r ''event'')) []) [''eventId'', ''event_id''])))"

section \<open>De-duplication\<close>

record deduper =
  dd_seenIds :: "string set"
  dd_queue :: "string list"

definition createEventIdDeduper :: deduper where
  "createEventIdDeduper = \<lparr>dd_seenIds = {}, dd_queue = []\<rparr>"

definition isDuplicate :: "nat \<Rightarrow> string option \<Rightarrow> deduper \<Rightarrow> bool \<times> deduper" where
  "isDuplicate maxEntries rawEventId d =
     (let eventId = js_trim (nullish rawEventId [])
      in if eventId = [] then (False, d)
         else if eventId \<in> dd_seenIds d then (True, d)
         else let seen = insert eventId (dd_seenIds d); queue = dd_queue d @ [eventId]
           in if maxEntries < length queue
              then (False, \<lparr>dd_seenIds = (if hd queue \<noteq> [] then seen - {hd queue} else seen), dd_queue = tl queue\<rparr>)
              else (False, \<lparr>dd_seenIds = seen, dd_queue = queue\<rparr>))"

text \<open>The identifiers of a sequence of events that were not duplicates, and the deduper after it.\<close>

fun dedupe_run :: "nat \<Rightarrow> string option list \<Rightarrow> deduper \<Rightarrow> string list \<times> deduper" where
  "dedupe_run n [] d = ([], d)"
| "dedupe_run n (x # xs) d =
     (case isDuplicate n x d of (dup, d') \<Rightarrow>
      case dedupe_run n xs d' of (accepted, d'') \<Rightarrow>
        (if dup \<or> js_trim (nullish x []) = [] then accepted else js_trim (nullish x []) # accepted, d''))"

section \<open>Retries\<close>

record retry_scheduler =
  rs_attempt :: nat
  rs_timer :: bool

definition retry_idle :: retry_scheduler where "retry_idle = \<lparr>rs_attempt = 0, rs_timer = False\<rparr>"

definition retry_clear :: "retry_scheduler \<Rightarrow> retry_scheduler" where "retry_clear r = r\<lparr>rs_timer := False\<rparr>"

definition retry_delay :: "int \<Rightarrow> int \<Rightarrow> nat \<Rightarrow> int" where
  "retry_delay baseDelayMs maxDelayMs attempt = min maxDelayMs (baseDelayMs * 2 ^ attempt)"

text \<open>The attempt and the delay, \<open>None\<close> when a retry is already pending.\<close>

definition retry_schedule :: "int \<Rightarrow> int \<Rightarrow> retry_scheduler \<Rightarrow> (nat \<times> int) option \<times> retry_scheduler" where
  "retry_schedule baseDelayMs maxDelayMs r =
     (if rs_timer r then (None, r)
      else (Some (rs_attempt r + 1, retry_delay baseDelayMs maxDelayMs (rs_attempt r)),
            \<lparr>rs_attempt = rs_attempt r + 1, rs_timer = True\<rparr>))"

definition retry_reset :: "retry_scheduler \<Rightarrow> retry_scheduler" where
  "retry_reset r = (retry_clear r)\<lparr>rs_attempt := 0\<rparr>"

section \<open>Envelopes\<close>

record envelope_route =
  er_sourceAgentId :: string
  er_targetAgentId :: string
  er_channelId :: string

record envelope_queue =
  eq_queueId :: string
  eq_priority :: "rat option"

record envelope_ack =
  ea_ackId :: string
  ea_required :: bool
  ea_success :: "bool option"
  ea_error :: "string option"

record envelope_failure =
  ef_code :: "string option"
  ef_message :: "string option"

record agent_envelope =
  en_route :: envelope_route
  en_eventType :: string
  en_queue :: "envelope_queue option"
  en_ack :: "envelope_ack option"
  en_failure :: "envelope_failure option"
  en_payload :: "js_object option"

fun readAgentEnvelopeBoolean :: "js_value \<Rightarrow> bool option" where
  "readAgentEnvelopeBoolean (Bool b) = Some b"
| "readAgentEnvelopeBoolean (Num (Some n)) = Some (n \<noteq> 0)"
| "readAgentEnvelopeBoolean (Str s) =
     (let normalized = to_lower (js_trim s)
      in if normalized \<in> {''true'', ''1'', ''yes'', ''y''} then Some True
         else if normalized \<in> {''false'', ''0'', ''no'', ''n''} then Some False else None)"
| "readAgentEnvelopeBoolean _ = None"

definition readAgentEnvelopeRoute :: "js_value \<Rightarrow> envelope_route option" where
  "readAgentEnvelopeRoute v =
     (case toOptionalRecord v of None \<Rightarrow> None
      | Some r \<Rightarrow>
        (case (toNonEmptyString (js_nullish (field r ''sourceAgentId'') (field r ''source'')),
               toNonEmptyString (js_nullish (js_nullish (field r ''targetAgentId'') (field r ''target'')) (field r ''destination'')),
               toNonEmptyString (js_nullish (field r ''channelId'') (field r ''channel''))) of
           (Some source, Some target, Some channel) \<Rightarrow>
             Some \<lparr>er_sourceAgentId = source, er_targetAgentId = target, er_channelId = channel\<rparr>
         | _ \<Rightarrow> None))"

definition readAgentEnvelopeQueue :: "js_value \<Rightarrow> envelope_queue option" where
  "readAgentEnvelopeQueue v =
     (case toOptionalRecord v of None \<Rightarrow> None
      | Some r \<Rightarrow>
        (case toNonEmptyString (js_nullish (js_nullish (field r ''queueId'') (field r ''id'')) (field r ''channelId'')) of
           None \<Rightarrow> None
         | Some queueId \<Rightarrow> Some \<lparr>eq_queueId = queueId, eq_priority = as_number (field r ''priority'')\<rparr>))"

definition readAgentEnvelopeAck :: "js_value \<Rightarrow> envelope_ack option" where
  "readAgentEnvelopeAck v =
     (case toOptionalRecord v of None \<Rightarrow> None
      | Some r \<Rightarrow>
        (case toNonEmptyString (js_nullish (field r ''ackId'') (field r ''id'')) of
           None \<Rightarrow> None
         | Some ackId \<Rightarrow> Some \<lparr>ea_ackId = ackId, ea_required = nullish (as_bool (field r ''required'')) False,
             ea_success = readAgentEnvelopeBoolean (js_nullish (field r ''success'') (field r ''succeeded'')),
             ea_error = toNonEmptyString (js_nullish (field r ''error'') (field r ''message''))\<rparr>))"

definition readAgentEnvelopeFailure :: "js_value \<Rightarrow> envelope_failure option" where
  "readAgentEnvelopeFailure v =
     (case toOptionalRecord v of None \<Rightarrow> None
      | Some r \<Rightarrow> let code = toNonEmptyString (field r ''code''); message = toNonEmptyString (field r ''message'')
        in if code = None \<and> message = None then None else Some \<lparr>ef_code = code, ef_message = message\<rparr>)"

text \<open>The object that should hold the envelope; the argument is the message of the event.\<close>

definition candidate_envelope :: "js_object \<Rightarrow> js_value" where
  "candidate_envelope message =
     (let params = toOptionalRecord (field message ''params'');
          paramsMetadata = Option.bind params (\<lambda>p. toOptionalRecord (field p ''metadata''));
          ofParams = (case params of None \<Rightarrow> Null
            | Some p \<Rightarrow> js_nullish (js_nullish (field p ''envelope'')
                (case paramsMetadata of None \<Rightarrow> Undefined | Some m \<Rightarrow> field m ''envelope'')) (field p ''agentEnvelope''))
      in js_nullish ofParams
           (case toOptionalRecord (field message ''envelope'') of None \<Rightarrow> Null | Some r \<Rightarrow> Obj r))"

definition readAgentEnvelopeMetadataFromEvent :: "js_value \<Rightarrow> agent_envelope option" where
  "readAgentEnvelopeMetadataFromEvent eventMessage =
     (case toOptionalRecord eventMessage of None \<Rightarrow> None | Some message \<Rightarrow>
      (case toOptionalRecord (candidate_envelope message) of None \<Rightarrow> None | Some c \<Rightarrow>
       (case readAgentEnvelopeRoute (js_nullish (js_nullish (field c ''route'') (field c ''routing'')) Null) of
          None \<Rightarrow> None
        | Some route \<Rightarrow>
          (case nullish2 (toNonEmptyString (js_nullish (field c ''eventType'') (field c ''type'')))
              (toNonEmptyString (field message ''method'')) of
             None \<Rightarrow> None
           | Some eventType \<Rightarrow> Some \<lparr>en_route = route, en_eventType = eventType,
               en_queue = readAgentEnvelopeQueue (js_nullish (field c ''queue'') (field c ''channel'')),
               en_ack = readAgentEnvelopeAck (js_nullish (field c ''ack'') (field c ''acknowledgement'')),
               en_failure = readAgentEnvelopeFailure (js_nullish (field c ''failure'') (field c ''error'')),
               en_payload = toOptionalRecord (field c ''payload'')\<rparr>))))"

section \<open>The queues of envelopes\<close>

record queue_entry =
  qe_envelopeId :: string
  qe_metadata :: agent_envelope
  qe_queuedAt :: int

record envelope_queues =
  qs_queues :: "(string \<times> queue_entry list) list"
  qs_byAckId :: "string \<rightharpoonup> queue_entry"

definition queue_key :: "agent_envelope \<Rightarrow> string" where
  "queue_key m = nullish (map_option eq_queueId (en_queue m)) (er_channelId (en_route m))"

definition queue_at :: "envelope_queues \<Rightarrow> string \<Rightarrow> queue_entry list" where
  "queue_at q k = nullish (map_of (qs_queues q) k) []"

definition enqueueAgentEnvelope :: "agent_envelope \<Rightarrow> int \<Rightarrow> envelope_queues \<Rightarrow> queue_entry \<times> envelope_queues" where
  "enqueueAgentEnvelope m now q =
     (let envelopeId = nullish (map_option ea_ackId (en_ack m)) (er_channelId (en_route m) @ '':'' @ show_int now);
          entry = \<lparr>qe_envelopeId = envelopeId, qe_metadata = m, qe_queuedAt = now\<rparr>
      in (entry, \<lparr>qs_queues = map_put (queue_key m) (queue_at q (queue_key m) @ [entry]) (qs_queues q),
                  qs_byAckId = (qs_byAckId q)(envelopeId \<mapsto> entry)\<rparr>))"

text \<open>\<open>queue.splice(index, 1)\<close>\<close>

definition remove_at :: "nat \<Rightarrow> 'a list \<Rightarrow> 'a list" where
  "remove_at i xs = take i xs @ drop (Suc i) xs"

definition releaseAgentEnvelope :: "queue_entry \<Rightarrow> envelope_queues \<Rightarrow> envelope_queues" where
  "releaseAgentEnvelope entry q =
     (let k = queue_key (qe_metadata entry);
          queues = (case map_of (qs_queues q) k of None \<Rightarrow> qs_queues q
            | Some queue \<Rightarrow>
              (case find_index (\<lambda>c. qe_envelopeId c = qe_envelopeId entry) queue of None \<Rightarrow> qs_queues q
               | Some i \<Rightarrow> let queue = remove_at i queue
                   in if queue = [] then map_delete k (qs_queues q) else map_put k queue (qs_queues q)))
      in \<lparr>qs_queues = queues, qs_byAckId = (qs_byAckId q)(qe_envelopeId entry := None)\<rparr>)"

definition resolved_metadata :: "queue_entry \<Rightarrow> bool \<Rightarrow> string option \<Rightarrow> agent_envelope" where
  "resolved_metadata entry success err =
     (let m = qe_metadata entry
      in m\<lparr>en_eventType := (if success then ''agent.ack'' else ''agent.failure''),
           en_failure := (if success then None
             else Some \<lparr>ef_code = Option.bind (en_failure m) ef_code,
                        ef_message = nullish2 err (Option.bind (en_failure m) ef_message)\<rparr>)\<rparr>)"

text \<open>The events recorded for an envelope, in order, and the queues after it.\<close>

definition handleAgentEnvelope :: "agent_envelope \<Rightarrow> int \<Rightarrow> envelope_queues \<Rightarrow> agent_envelope list \<times> envelope_queues" where
  "handleAgentEnvelope m now q =
     (case enqueueAgentEnvelope m now q of (entry, q) \<Rightarrow>
      (case Option.bind (en_ack m) ea_success of
         Some success \<Rightarrow>
           ([m, resolved_metadata entry success (Option.bind (en_ack m) ea_error)], releaseAgentEnvelope entry q)
       | None \<Rightarrow>
         (case en_failure m of
            Some f \<Rightarrow> ([m, resolved_metadata entry False (nullish2 (ef_message f) (ef_code f))], releaseAgentEnvelope entry q)
          | None \<Rightarrow> ([m], q))))"

end
