(* ===== verification/EventSubscription.thy ===== *)
theory EventSubscription
  imports EventChannel EventDelivery
begin

text \<open>
  The subscription to the events of the runtime over a web socket, with server-sent events to fall back
  on: \<open>subscribeWebRuntimeWsEventsV2\<close> of \<^verbatim>\<open>src/apps/code/src/services/runtimeEventBridgeV2.ts\<close>.  What the browser
  calls back (the handlers of a socket, the timers) and the disposal by the caller are the events of a
  step function over the variables of the closure; what the closure does to the world is its output.  The
  world answers through the environment of a step: the clock, whether a socket can be constructed, whether the
  fallback can be started, the parser of JSON, and the adapter of the payloads of the runtime.  A socket is a
  number; the handlers of one that was torn down are gone, so events of it are ignored.
\<close>

section \<open>State\<close>

definition WEB_RUNTIME_EVENTS_RECONNECT_BASE_MS :: int where "WEB_RUNTIME_EVENTS_RECONNECT_BASE_MS = 400"
definition WEB_RUNTIME_EVENTS_RECONNECT_MAX_MS :: int where "WEB_RUNTIME_EVENTS_RECONNECT_MAX_MS = 10000"
definition WEB_RUNTIME_EVENTS_RECONNECT_SIGNAL_THROTTLE_MS :: int where
  "WEB_RUNTIME_EVENTS_RECONNECT_SIGNAL_THROTTLE_MS = 5000"
definition WEB_RUNTIME_WS_FALLBACK_PROBE_MS :: int where "WEB_RUNTIME_WS_FALLBACK_PROBE_MS = 10000"

record subscription =
  su_disposed :: bool
  su_socket :: "nat option"
  su_sockets :: nat
  su_hasOpened :: bool
  su_usingFallback :: bool
  su_lastEventId :: "int option"
  su_cursor :: "int option"
  su_lastSignalAt :: int
  su_errorReported :: bool
  su_fallback :: bool
  su_probe :: bool
  su_retry :: retry_scheduler
  su_dedupe :: deduper
  su_envelopes :: envelope_queues
  su_channels :: channels

datatype sub_output =
  OpenSocket nat "int option" | CloseSocket nat | StartFallback "int option" | StopFallback
| ScheduleRetry int | ScheduleProbe int | NotifyError string | ReconnectSignal int | Deliver js_value

text \<open>\<open>sv_socketFails\<close> is the error the constructor throws; \<open>sv_fallbackStarts\<close> is \<open>None\<close> without a fallback.\<close>

record sub_env =
  sv_now :: int
  sv_socketFails :: "string option"
  sv_fallbackStarts :: "bool option"
  sv_parse :: "string \<Rightarrow> js_value"
  sv_normalize :: "js_value \<Rightarrow> js_value option"

type_synonym sub_action = "subscription \<Rightarrow> sub_output list \<times> subscription"

definition sub_then :: "sub_action \<Rightarrow> sub_action \<Rightarrow> sub_action" where
  "sub_then f g s = (case f s of (out, s1) \<Rightarrow> case g s1 of (out', s2) \<Rightarrow> (out @ out', s2))"

definition sub_nothing :: sub_action where "sub_nothing s = ([], s)"

definition sub_emit :: "sub_output \<Rightarrow> sub_action" where "sub_emit out s = ([out], s)"

definition sub_set :: "(subscription \<Rightarrow> subscription) \<Rightarrow> sub_action" where "sub_set f s = ([], f s)"

section \<open>The parts of the closure\<close>

definition ws_machine :: machine where
  "ws_machine = \<lparr>ma_id = ''app-server-events'', ma_label = ''App server stream'', ma_defaultTransport = TrWs\<rparr>"

definition ws_transition :: "sub_env \<Rightarrow> channel_status \<Rightarrow> transition_options \<Rightarrow> sub_action" where
  "ws_transition env status opts =
     sub_set (\<lambda>s. s\<lparr>su_channels := transition ws_machine status opts (sv_now env) (su_channels s)\<rparr>)"

definition trackReplayEventId :: "int option \<Rightarrow> subscription \<Rightarrow> subscription" where
  "trackReplayEventId eventId s =
     (case eventId of None \<Rightarrow> s
      | Some i \<Rightarrow> if (case su_lastEventId s of None \<Rightarrow> True | Some j \<Rightarrow> j < i)
          then s\<lparr>su_lastEventId := Some i\<rparr> else s)"

definition reportError :: "sub_env \<Rightarrow> string \<Rightarrow> sub_action" where
  "reportError env err s =
     (if su_errorReported s then ([], s)
      else sub_then (sub_set (\<lambda>s. s\<lparr>su_errorReported := True,
               su_channels := setError ws_machine err (Some ''websocket-stream-error'') (sv_now env) (su_channels s)\<rparr>))
             (sub_emit (NotifyError err)) s)"

definition teardownSocket :: sub_action where
  "teardownSocket s =
     (case su_socket s of None \<Rightarrow> ([], s) | Some n \<Rightarrow> ([CloseSocket n], s\<lparr>su_socket := None\<rparr>))"

definition stopFallback :: sub_action where
  "stopFallback s = (if su_fallback s then ([StopFallback], s\<lparr>su_fallback := False\<rparr>) else ([], s))"

definition scheduleReconnect :: "sub_env \<Rightarrow> sub_action" where
  "scheduleReconnect env s =
     (if su_disposed s \<or> su_usingFallback s \<or> rs_timer (su_retry s) then ([], s)
      else case retry_schedule WEB_RUNTIME_EVENTS_RECONNECT_BASE_MS WEB_RUNTIME_EVENTS_RECONNECT_MAX_MS (su_retry s) of
        (None, _) \<Rightarrow> ([], s)
      | (Some (attempt, delayMs), r) \<Rightarrow>
          sub_then (ws_transition env ChReconnecting (no_options\<lparr>to_reason := Some ''websocket-reconnect-scheduled'',
              to_transport := Some TrWs, to_retryAttempt := Some attempt, to_retryDelayMs := Some (Some delayMs)\<rparr>))
            (sub_then (sub_set (\<lambda>s. s\<lparr>su_retry := r\<rparr>)) (sub_emit (ScheduleRetry delayMs))) s)"

definition scheduleFallbackProbe :: sub_action where
  "scheduleFallbackProbe s =
     (if su_disposed s \<or> \<not> su_usingFallback s \<or> su_probe s then ([], s)
      else ([ScheduleProbe WEB_RUNTIME_WS_FALLBACK_PROBE_MS], s\<lparr>su_probe := True\<rparr>))"

definition activateFallback :: "sub_env \<Rightarrow> sub_action" where
  "activateFallback env s =
     (if su_disposed s \<or> su_usingFallback s then ([], s)
      else sub_then (sub_set (\<lambda>s. s\<lparr>su_usingFallback := True, su_retry := retry_clear (su_retry s)\<rparr>))
        (sub_then teardownSocket
          (if sv_fallbackStarts env \<noteq> Some True
           then sub_then (sub_set (\<lambda>s. s\<lparr>su_fallback := False, su_usingFallback := False\<rparr>)) (scheduleReconnect env)
           else sub_then (\<lambda>s. ([StartFallback (su_cursor s)], s\<lparr>su_fallback := True\<rparr>))
             (sub_then (ws_transition env ChFallback (no_options\<lparr>to_reason := Some ''websocket-fallback-sse'',
                 to_transport := Some TrSse, to_retryDelayMs := Some (Some WEB_RUNTIME_WS_FALLBACK_PROBE_MS)\<rparr>))
               scheduleFallbackProbe))) s)"

definition handleFailure :: "sub_env \<Rightarrow> string option \<Rightarrow> sub_action" where
  "handleFailure env err =
     sub_then (case err of None \<Rightarrow> sub_nothing | Some e \<Rightarrow> reportError env e)
       (sub_then teardownSocket
         (\<lambda>s. if su_disposed s \<or> su_usingFallback s then ([], s)
              else if \<not> su_hasOpened s \<and> sv_fallbackStarts env \<noteq> None then activateFallback env s
              else scheduleReconnect env s))"

definition emitReconnectSignal :: "sub_env \<Rightarrow> sub_action" where
  "emitReconnectSignal env s =
     (let now = sv_now env
      in if su_hasOpened s \<and> (su_lastSignalAt s = 0 \<or>
            WEB_RUNTIME_EVENTS_RECONNECT_SIGNAL_THROTTLE_MS \<le> now - su_lastSignalAt s)
         then ([ReconnectSignal now], s\<lparr>su_lastSignalAt := now\<rparr>)
         else ([], s\<lparr>su_hasOpened := True\<rparr>))"

definition connect :: "sub_env \<Rightarrow> sub_action" where
  "connect env s =
     (if su_disposed s \<or> su_usingFallback s then ([], s)
      else sub_then (ws_transition env ChConnecting (no_options\<lparr>to_reason := Some ''websocket-connect'',
             to_transport := Some TrWs, to_retryDelayMs := Some None\<rparr>))
        (sub_then (sub_set (\<lambda>s. trackReplayEventId (su_cursor s) s))
          (case sv_socketFails env of
             None \<Rightarrow> (\<lambda>s. ([OpenSocket (su_sockets s) (su_lastEventId s)],
                 s\<lparr>su_socket := Some (su_sockets s), su_sockets := su_sockets s + 1\<rparr>))
           | Some e \<Rightarrow> sub_then (reportError env e)
               (\<lambda>s. if \<not> su_hasOpened s \<and> sv_fallbackStarts env \<noteq> None then activateFallback env s
                    else scheduleReconnect env s))) s)"

section \<open>The events\<close>

definition socket_opened :: "sub_env \<Rightarrow> sub_action" where
  "socket_opened env =
     sub_then (emitReconnectSignal env)
       (sub_then (sub_set (\<lambda>s. s\<lparr>su_retry := retry_reset (su_retry s), su_errorReported := False\<rparr>))
         (ws_transition env ChOpen \<lparr>to_reason = Some ''websocket-open'', to_transport = Some TrWs,
            to_retryAttempt = Some 0, to_retryDelayMs = Some None, to_lastError = None, to_consecutiveFailures = Some 0\<rparr>))"

definition event_message :: "js_value \<Rightarrow> js_value" where
  "event_message event = (case toOptionalRecord event of None \<Rightarrow> Undefined | Some r \<Rightarrow> field r ''message'')"

definition handleAgentEnvelopeEvent :: "sub_env \<Rightarrow> js_value \<Rightarrow> sub_action" where
  "handleAgentEnvelopeEvent env event s =
     (case readAgentEnvelopeMetadataFromEvent (event_message event) of
        None \<Rightarrow> ([], s)
      | Some m \<Rightarrow> (case handleAgentEnvelope m (sv_now env) (su_envelopes s) of
          (recorded, q) \<Rightarrow> ([], s\<lparr>su_envelopes := q,
             su_channels := fold (\<lambda>e. recordAgentEnvelopeEvent ws_machine (en_eventType e) (sv_now env)) recorded
               (su_channels s)\<rparr>)))"

definition parsed_payload :: "sub_env \<Rightarrow> js_value \<Rightarrow> js_value" where
  "parsed_payload env data = (case data of Str text \<Rightarrow> sv_parse env text | _ \<Rightarrow> data)"

definition track_event_id :: "int option \<Rightarrow> subscription \<Rightarrow> subscription" where
  "track_event_id eventId s =
     (case eventId of None \<Rightarrow> s | Some i \<Rightarrow> s\<lparr>su_lastEventId := Some i, su_cursor := Some i\<rparr>)"

definition socket_message :: "sub_env \<Rightarrow> js_value \<Rightarrow> sub_action" where
  "socket_message env data s =
     (let payload = parsed_payload env data
      in if js_falsy payload then ([], s)
         else let s = track_event_id (parseWebRuntimeWsEventId payload) s;
                  (dup, d) = isDuplicate WEB_RUNTIME_EVENT_ID_DEDUPE_WINDOW
                    (parseWebRuntimeWsEventIdentifier payload) (su_dedupe s);
                  s = s\<lparr>su_dedupe := d\<rparr>
           in if dup then ([], s\<lparr>su_channels := (su_channels s)\<lparr>cs_stability :=
                  recordRuntimeEventDedupeHit (sv_now env) (cs_stability (su_channels s))\<rparr>\<rparr>)
              else case sv_normalize env payload of
                None \<Rightarrow> ([], s)
              | Some event \<Rightarrow> sub_then (handleAgentEnvelopeEvent env event) (sub_emit (Deliver event)) s)"

definition probe_due :: "sub_env \<Rightarrow> sub_action" where
  "probe_due env =
     sub_then (sub_set (\<lambda>s. s\<lparr>su_probe := False\<rparr>))
       (\<lambda>s. if su_disposed s \<or> \<not> su_usingFallback s then ([], s)
            else sub_then stopFallback
              (sub_then (sub_set (\<lambda>s. s\<lparr>su_usingFallback := False, su_retry := retry_reset (su_retry s),
                  su_errorReported := False\<rparr>))
                (sub_then (ws_transition env ChConnecting (no_options\<lparr>to_reason := Some ''fallback-probe'',
                    to_transport := Some TrWs, to_retryDelayMs := Some None\<rparr>))
                  (connect env))) s)"

definition dispose :: "sub_env \<Rightarrow> sub_action" where
  "dispose env =
     sub_then (sub_set (\<lambda>s. s\<lparr>su_disposed := True, su_retry := retry_clear (su_retry s), su_probe := False\<rparr>))
       (sub_then teardownSocket
         (sub_then stopFallback
           (ws_transition env ChStopped (no_options\<lparr>to_reason := Some ''disposed'', to_retryDelayMs := Some None\<rparr>))))"

datatype sub_event =
  SocketOpened nat | SocketMessage nat js_value | SocketErrored nat string | SocketClosed nat
| RetryDue | ProbeDue | FallbackReplayed int | Dispose

fun sub_step :: "sub_env \<Rightarrow> sub_event \<Rightarrow> sub_action" where
  "sub_step env (SocketOpened n) s = (if su_socket s = Some n then socket_opened env s else ([], s))"
| "sub_step env (SocketMessage n data) s = (if su_socket s = Some n then socket_message env data s else ([], s))"
| "sub_step env (SocketErrored n e) s = (if su_socket s = Some n then handleFailure env (Some e) s else ([], s))"
| "sub_step env (SocketClosed n) s = (if su_socket s = Some n then handleFailure env None s else ([], s))"
| "sub_step env RetryDue s =
     (if rs_timer (su_retry s) then connect env (s\<lparr>su_retry := retry_clear (su_retry s)\<rparr>) else ([], s))"
| "sub_step env ProbeDue s = (if su_probe s then probe_due env s else ([], s))"
| "sub_step env (FallbackReplayed i) s = (if su_fallback s then ([], s\<lparr>su_cursor := Some i\<rparr>) else ([], s))"
| "sub_step env Dispose s = dispose env s"

text \<open>The closure before its first \<open>connect\<close>, and the start of a subscription.\<close>

definition fresh_subscription :: "channels \<Rightarrow> subscription" where
  "fresh_subscription c = \<lparr>su_disposed = False, su_socket = None, su_sockets = 0, su_hasOpened = False,
     su_usingFallback = False, su_lastEventId = None, su_cursor = None, su_lastSignalAt = 0, su_errorReported = False,
     su_fallback = False, su_probe = False, su_retry = retry_idle, su_dedupe = createEventIdDeduper,
     su_envelopes = \<lparr>qs_queues = [], qs_byAckId = Map.empty\<rparr>, su_channels = c\<rparr>"

definition start_subscription :: "sub_env \<Rightarrow> channels \<Rightarrow> sub_output list \<times> subscription" where
  "start_subscription env c =
     sub_then (ws_transition env ChConnecting \<lparr>to_reason = Some ''initial-connect'', to_transport = Some TrWs,
         to_retryAttempt = Some 0, to_retryDelayMs = Some None, to_lastError = None, to_consecutiveFailures = Some 0\<rparr>)
       (connect env) (fresh_subscription c)"

fun run_events :: "(sub_env \<times> sub_event) list \<Rightarrow> sub_action" where
  "run_events [] s = ([], s)"
| "run_events ((env, e) # es) s = sub_then (sub_step env e) (run_events es) s"

definition run_subscription ::
    "sub_env \<Rightarrow> channels \<Rightarrow> (sub_env \<times> sub_event) list \<Rightarrow> sub_output list \<times> subscription" where
  "run_subscription env c es =
     (case start_subscription env c of (out, s) \<Rightarrow> case run_events es s of (out', s') \<Rightarrow> (out @ out', s'))"

end
