(* ===== verification/EventDeliveryFacts.thy ===== *)
theory EventDeliveryFacts
  imports EventDelivery
begin

text \<open>
  The deduper remembers exactly the last accepted identifiers, the delays of the retries are bounded,
  and the queues of envelopes never give up an entry that was there before.
\<close>

section \<open>The deduper is a window\<close>

text \<open>No two of the accepted identifiers within a distance of \<open>n\<close> are equal.\<close>

definition apart :: "nat \<Rightarrow> string list \<Rightarrow> bool" where
  "apart n acc \<longleftrightarrow> (\<forall>i j. i < j \<longrightarrow> j < length acc \<longrightarrow> j \<le> i + n \<longrightarrow> acc ! i \<noteq> acc ! j)"

definition window_inv :: "nat \<Rightarrow> string list \<Rightarrow> deduper \<Rightarrow> bool" where
  "window_inv n acc d \<longleftrightarrow> dd_queue d = slice_last n acc \<and> dd_seenIds d = set (slice_last n acc) \<and>
     [] \<notin> set acc \<and> apart n acc"

lemma slice_last_snoc:
  "slice_last n (xs @ [x]) = (if n < length (slice_last n xs @ [x]) then tl (slice_last n xs @ [x])
     else slice_last n xs @ [x])"
proof (cases "length xs < n")
  case True
  then show ?thesis by (simp add: slice_last_def)
next
  case long: False
  show ?thesis
  proof (cases n)
    case 0
    then show ?thesis by (simp add: slice_last_def)
  next
    case (Suc m)
    then have k: "length xs - m = Suc (length xs - Suc m)" "drop (length xs - Suc m) xs \<noteq> []" using long by auto
    then show ?thesis using long Suc by (simp add: slice_last_def k(1) drop_Suc drop_tl del: drop_eq_Nil)
  qed
qed

lemma mem_slice_last_iff: "x \<in> set (slice_last n xs) \<longleftrightarrow> (\<exists>i < length xs. length xs \<le> i + n \<and> xs ! i = x)"
proof
  assume "x \<in> set (slice_last n xs)"
  then obtain k where "k < length xs - (length xs - n)" "xs ! (length xs - n + k) = x"
    by (auto simp: slice_last_def in_set_conv_nth)
  then show "\<exists>i < length xs. length xs \<le> i + n \<and> xs ! i = x"
    by (intro exI [of _ "length xs - n + k"]) auto
next
  assume "\<exists>i < length xs. length xs \<le> i + n \<and> xs ! i = x"
  then obtain i where i: "i < length xs" "length xs \<le> i + n" "xs ! i = x" by blast
  then have "slice_last n xs ! (i - (length xs - n)) = x" "i - (length xs - n) < length (slice_last n xs)"
    by (auto simp: slice_last_def)
  then show "x \<in> set (slice_last n xs)" by (metis nth_mem)
qed

lemma apart_snoc: "apart n acc \<Longrightarrow> e \<notin> set (slice_last n acc) \<Longrightarrow> apart n (acc @ [e])"
  unfolding apart_def by (auto simp: nth_append less_Suc_eq mem_slice_last_iff)

lemma apart_distinct: "apart n acc \<Longrightarrow> distinct (take (Suc n) (drop i acc))"
proof -
  assume apart: "apart n acc"
  have "take (Suc n) (drop i acc) ! a \<noteq> take (Suc n) (drop i acc) ! b"
    if "a < b" "b < length (take (Suc n) (drop i acc))" for a b
  proof -
    have "i + a < i + b" "i + b < length acc" "i + b \<le> i + a + n" using that by auto
    then have "acc ! (i + a) \<noteq> acc ! (i + b)" using apart unfolding apart_def by blast
    then show ?thesis using that by (auto simp: nth_drop)
  qed
  then show ?thesis unfolding distinct_conv_nth by (metis linorder_neqE_nat)
qed

lemma window_step:
  assumes inv: "window_inv n acc d" and step: "isDuplicate n x d = (dup, d')"
  shows "window_inv n (if dup \<or> js_trim (nullish x []) = [] then acc else acc @ [js_trim (nullish x [])]) d'"
    and "dup \<longleftrightarrow> js_trim (nullish x []) \<noteq> [] \<and> js_trim (nullish x []) \<in> set (slice_last n acc)"
proof -
  let ?e = "js_trim (nullish x [])" and ?q = "slice_last n acc"
  have d: "dd_queue d = ?q" "dd_seenIds d = set ?q" "[] \<notin> set acc" "apart n acc"
    using inv unfolding window_inv_def by blast+
  show "dup \<longleftrightarrow> ?e \<noteq> [] \<and> ?e \<in> set ?q"
    using step d(2) by (auto simp: isDuplicate_def Let_def split: if_splits)
  show "window_inv n (if dup \<or> ?e = [] then acc else acc @ [?e]) d'"
  proof (cases "?e = [] \<or> ?e \<in> set ?q")
    case True
    then have "d' = d" "dup \<or> ?e = []" using step d(2) by (auto simp: isDuplicate_def Let_def split: if_splits)
    with inv show ?thesis by simp
  next
    case False
    have "distinct ?q"
      using apart_distinct [OF d(4), of "length acc - n"] by (simp add: slice_last_def)
    then have dq: "distinct (?q @ [?e])" using False by simp
    have hd: "hd (?q @ [?e]) \<noteq> []"
      using False d(3) set_slice_last_subset [of n acc] by (cases ?q) auto
    have seen: "insert ?e (set ?q) - {hd (?q @ [?e])} = set (tl (?q @ [?e]))"
      using dq by (cases ?q) auto
    have "dup = False \<and> d' = \<lparr>dd_seenIds = set (slice_last n (acc @ [?e])), dd_queue = slice_last n (acc @ [?e])\<rparr>"
      using step False hd seen by (auto simp: isDuplicate_def Let_def d(1,2) slice_last_snoc split: if_splits)
    moreover have "apart n (acc @ [?e])" using apart_snoc [OF d(4)] False by blast
    ultimately show ?thesis using False d(3) by (auto simp: window_inv_def)
  qed
qed

lemma window_run:
  "window_inv n acc d \<Longrightarrow> dedupe_run n xs d = (acc', d') \<Longrightarrow> window_inv n (acc @ acc') d'"
proof (induction xs arbitrary: acc d acc')
  case (Cons x xs)
  obtain dup d1 where s: "isDuplicate n x d = (dup, d1)" by fastforce
  obtain acc1 d2 where r: "dedupe_run n xs d1 = (acc1, d2)" by fastforce
  let ?e = "js_trim (nullish x [])"
  have eq: "acc' = (if dup \<or> ?e = [] then acc1 else ?e # acc1)" "d2 = d'"
    using Cons.prems(2) by (simp_all add: s r)
  have "window_inv n ((if dup \<or> ?e = [] then acc else acc @ [?e]) @ acc1) d'"
    by (rule Cons.IH [OF window_step(1) [OF Cons.prems(1) s]]) (simp add: r eq(2))
  then show ?case by (auto simp: eq(1) split: if_splits)
qed simp

text \<open>C27: the de-duplication refines its specification, a window over what was let through: after any
  sequence of events the deduper holds exactly the last \<open>maxEntries\<close> accepted identifiers, it calls an event a duplicate exactly when its trimmed
  identifier is one of them, and among any \<open>maxEntries + 1\<close> accepted identifiers in a row none comes twice.
\<close>

theorem dedupe_refines_window:
  "let (accepted, d) = dedupe_run n ids createEventIdDeduper; recent = slice_last n accepted;
       e = js_trim (nullish x [])
   in dd_queue d = recent \<and> dd_seenIds d = set recent \<and>
      fst (isDuplicate n x d) = (e \<noteq> [] \<and> e \<in> set recent) \<and>
      (\<forall>i. distinct (take (n + 1) (drop i accepted)))"
proof -
  obtain acc d where r: "dedupe_run n ids createEventIdDeduper = (acc, d)" by fastforce
  have "window_inv n [] createEventIdDeduper"
    by (simp add: window_inv_def createEventIdDeduper_def slice_last_def apart_def)
  from window_run [OF this r] have inv: "window_inv n acc d" by simp
  obtain dup d' where s: "isDuplicate n x d = (dup, d')" by fastforce
  from inv window_step(2) [OF inv s] apart_distinct [of n acc] show ?thesis
    by (simp add: r s window_inv_def Let_def)
qed

section \<open>The delays of the retries\<close>

lemma retry_delay_bounds: "0 < b \<Longrightarrow> b \<le> m \<Longrightarrow> b \<le> retry_delay b m n \<and> retry_delay b m n \<le> m"
  using mult_left_mono [of 1 "2 ^ n" b] by (auto simp: retry_delay_def min_def)

lemma retry_delay_mono: "0 < b \<Longrightarrow> k \<le> n \<Longrightarrow> retry_delay b m k \<le> retry_delay b m n"
  unfolding retry_delay_def by (intro min.mono mult_left_mono power_increasing) simp_all

section \<open>The queues of envelopes\<close>

definition queued :: "envelope_queues \<Rightarrow> nat" where
  "queued q = value_sum length (qs_queues q)"

definition unresolved :: "agent_envelope \<Rightarrow> bool" where
  "unresolved m \<longleftrightarrow> Option.bind (en_ack m) ea_success = None \<and> en_failure m = None"

lemma queued_enqueue:
  assumes "distinct (map fst (qs_queues q))" "enqueueAgentEnvelope m now q = (entry, q')"
  shows "queued q' = queued q + 1" "distinct (map fst (qs_queues q'))"
    "entry \<in> set (queue_at q' (queue_key (qe_metadata entry)))"
    "map_of (qs_queues q') (queue_key (qe_metadata entry)) = Some (queue_at q' (queue_key (qe_metadata entry)))"
proof -
  let ?k = "queue_key m"
  from assms(2) have q': "qs_queues q' = map_put ?k (queue_at q ?k @ [entry]) (qs_queues q)" "qe_metadata entry = m"
    by (auto simp: enqueueAgentEnvelope_def Let_def)
  have "sum_at length (qs_queues q) ?k = length (queue_at q ?k)"
    by (simp add: sum_at_def queue_at_def split: option.split)
  then show "queued q' = queued q + 1"
    using value_sum_put [OF assms(1), of length ?k "queue_at q ?k @ [entry]"] by (simp add: queued_def q'(1))
  show "distinct (map fst (qs_queues q'))" unfolding q'(1) by (rule distinct_map_put [OF assms(1)])
  show "entry \<in> set (queue_at q' (queue_key (qe_metadata entry)))"
    "map_of (qs_queues q') (queue_key (qe_metadata entry)) = Some (queue_at q' (queue_key (qe_metadata entry)))"
    by (simp_all add: q' queue_at_def)
qed

lemma queued_release:
  assumes d: "distinct (map fst (qs_queues q))" and at_key: "map_of (qs_queues q) (queue_key (qe_metadata entry)) = Some es"
    and mem: "entry \<in> set es"
  shows "queued (releaseAgentEnvelope entry q) + 1 = queued q"
    "distinct (map fst (qs_queues (releaseAgentEnvelope entry q)))"
proof -
  let ?k = "queue_key (qe_metadata entry)" and ?p = "\<lambda>c. qe_envelopeId c = qe_envelopeId entry"
  obtain i where i: "find_index ?p es = Some i"
    using find_index_None_iff [of ?p es] mem by (cases "find_index ?p es") auto
  then have lt: "i < length es" using find_index_SomeD by blast
  let ?r = "remove_at i es"
  have len: "length ?r + 1 = length es" using lt by (simp add: remove_at_def)
  have at_sum: "sum_at length (qs_queues q) ?k = length es" by (simp add: sum_at_def at_key)
  have queues: "qs_queues (releaseAgentEnvelope entry q)
      = (if ?r = [] then map_delete ?k (qs_queues q) else map_put ?k ?r (qs_queues q))"
    by (simp add: releaseAgentEnvelope_def Let_def at_key i)
  show "queued (releaseAgentEnvelope entry q) + 1 = queued q"
    using value_sum_put [OF d, of length ?k ?r] value_sum_delete [OF d, of length ?k] len at_sum
    by (cases "?r = []") (simp_all add: queued_def queues)
  show "distinct (map fst (qs_queues (releaseAgentEnvelope entry q)))"
    unfolding queues using distinct_map_put [OF d] distinct_map_delete [OF d] by simp
qed

lemma queued_handle:
  assumes "distinct (map fst (qs_queues q))"
  shows "queued (snd (handleAgentEnvelope m now q)) = queued q + (if unresolved m then 1 else 0)"
    "distinct (map fst (qs_queues (snd (handleAgentEnvelope m now q))))"
proof -
  obtain entry q1 where e: "enqueueAgentEnvelope m now q = (entry, q1)" by fastforce
  note enq = queued_enqueue [OF assms e]
  note rel = queued_release [OF enq(2,4,3)]
  have "snd (handleAgentEnvelope m now q) = (if unresolved m then q1 else releaseAgentEnvelope entry q1)"
    by (simp add: handleAgentEnvelope_def e unresolved_def split: option.split)
  with enq(1,2) rel show "queued (snd (handleAgentEnvelope m now q)) = queued q + (if unresolved m then 1 else 0)"
    "distinct (map fst (qs_queues (snd (handleAgentEnvelope m now q))))" by simp_all
qed

text \<open>Which entry goes\<close>

lemma find_index_append:
  "find_index p (xs @ ys) = (case find_index p xs of Some i \<Rightarrow> Some i
     | None \<Rightarrow> map_option (\<lambda>i. length xs + i) (find_index p ys))"
  by (induction xs; cases "find_index p ys") (auto split: option.splits)

lemma remove_at_append:
  "i < length xs \<Longrightarrow> remove_at i (xs @ ys) = remove_at i xs @ ys"
  "remove_at (length xs) (xs @ [y]) = xs"
  by (simp_all add: remove_at_def)

lemma map_of_delete: "map_of (map_delete k m) = (map_of m)(k := None)"
  by (induction m) (auto simp: map_delete_def)

lemma queue_at_put: "map_of (qs_queues q') k' = map_of (map_put k es (qs_queues q)) k' \<Longrightarrow>
    queue_at q' k' = (if k' = k then es else queue_at q k')"
  by (simp add: queue_at_def)

lemma queue_at_release:
  assumes at_key: "map_of (qs_queues q) (queue_key (qe_metadata entry)) = Some es"
    and i: "find_index (\<lambda>c. qe_envelopeId c = qe_envelopeId entry) es = Some i"
  shows "queue_at (releaseAgentEnvelope entry q) k'
    = (if k' = queue_key (qe_metadata entry) then remove_at i es else queue_at q k')"
  by (simp add: releaseAgentEnvelope_def Let_def at_key i queue_at_def map_of_delete)

lemma queue_after:
  "queue_at (snd (handleAgentEnvelope m now q)) k' =
     (if k' \<noteq> queue_key m then queue_at q k'
      else let entry = fst (enqueueAgentEnvelope m now q) in
        if unresolved m then queue_at q k' @ [entry]
        else case find_index (\<lambda>c. qe_envelopeId c = qe_envelopeId entry) (queue_at q k') of
            None \<Rightarrow> queue_at q k'
          | Some i \<Rightarrow> remove_at i (queue_at q k') @ [entry])"
proof -
  obtain entry q1 where e: "enqueueAgentEnvelope m now q = (entry, q1)" by fastforce
  then have q1: "qs_queues q1 = map_put (queue_key m) (queue_at q (queue_key m) @ [entry]) (qs_queues q)"
      "qe_metadata entry = m"
    by (auto simp: enqueueAgentEnvelope_def Let_def)
  then have at: "map_of (qs_queues q1) (queue_key (qe_metadata entry)) = Some (queue_at q (queue_key m) @ [entry])"
    by simp
  have put: "queue_at q1 k' = (if k' = queue_key m then queue_at q (queue_key m) @ [entry] else queue_at q k')" for k'
    by (rule queue_at_put) (simp add: q1)
  have step: "snd (handleAgentEnvelope m now q) = (if unresolved m then q1 else releaseAgentEnvelope entry q1)"
    by (simp add: handleAgentEnvelope_def e unresolved_def split: option.split)
  show ?thesis
  proof (cases "find_index (\<lambda>c. qe_envelopeId c = qe_envelopeId entry) (queue_at q (queue_key m))")
    case None
    then have "find_index (\<lambda>c. qe_envelopeId c = qe_envelopeId entry) (queue_at q (queue_key m) @ [entry])
        = Some (length (queue_at q (queue_key m)))"
      by (simp add: find_index_append)
    note release = queue_at_release [OF at this]
    show ?thesis
      by (simp add: step e release put None q1(2) remove_at_append Let_def)
  next
    case (Some i)
    then have "find_index (\<lambda>c. qe_envelopeId c = qe_envelopeId entry) (queue_at q (queue_key m) @ [entry]) = Some i"
      by (simp add: find_index_append)
    note release = queue_at_release [OF at this]
    show ?thesis using find_index_SomeD [OF Some]
      by (simp add: step e release put Some q1(2) remove_at_append Let_def)
  qed
qed

text \<open>C28: the queues of envelopes never shrink.  After any sequence of envelopes they hold one entry for every
  envelope that came without a result or failure, even when the results have come later.  For an envelope with a
  result or a failure is queued as one more entry, and one entry of its identifier is released, the first of its
  queue: when the envelope that waited for the result is in that queue, it is taken out and the entry
  of the result stays in its place at the end; otherwise the entry of the result itself is the one
  that goes.  No other queue changes.\<close>

theorem queued_envelopes_stay:
  "value_sum length (qs_queues (fold (\<lambda>(m, now) q. snd (handleAgentEnvelope m now q)) es
      \<lparr>qs_queues = [], qs_byAckId = Map.empty\<rparr>))
   = length (filter (\<lambda>(m, _). Option.bind (en_ack m) ea_success = None \<and> en_failure m = None) es)
   \<and> queue_at (snd (handleAgentEnvelope m now q)) k =
       (if k \<noteq> queue_key m then queue_at q k
        else let entry = fst (enqueueAgentEnvelope m now q) in
          if Option.bind (en_ack m) ea_success = None \<and> en_failure m = None then queue_at q k @ [entry]
          else case find_index (\<lambda>c. qe_envelopeId c = qe_envelopeId entry) (queue_at q k) of
              None \<Rightarrow> queue_at q k
            | Some i \<Rightarrow> remove_at i (queue_at q k) @ [entry])"
proof
  have "distinct (map fst (qs_queues q)) \<Longrightarrow>
      queued (fold (\<lambda>(m, now) q. snd (handleAgentEnvelope m now q)) es q)
        = queued q + length (filter (\<lambda>(m, _). unresolved m) es)" for q
    by (induction es arbitrary: q) (auto simp: queued_handle)
  from this [of "\<lparr>qs_queues = [], qs_byAckId = Map.empty\<rparr>"]
  show "value_sum length (qs_queues (fold (\<lambda>(m, now) q. snd (handleAgentEnvelope m now q)) es
      \<lparr>qs_queues = [], qs_byAckId = Map.empty\<rparr>))
   = length (filter (\<lambda>(m, _). Option.bind (en_ack m) ea_success = None \<and> en_failure m = None) es)"
    by (simp add: queued_def value_sum_def unresolved_def)
qed (rule queue_after [unfolded unresolved_def])

end
