(* ===== verification/EventSubscriptionFacts.thy ===== *)
theory EventSubscriptionFacts
  imports EventSubscription EventDeliveryFacts
begin

text \<open>
  The subscription never stalls and never leaks: until it is disposed it has exactly one thing that will
  wake it, a live socket, a pending retry or a running fallback with its probe; and whatever it opened
  and does not use any more it has closed.  Both are invariants of the step function.
\<close>

section \<open>Sequences of actions\<close>

lemma sub_then_parts [simp]:
  "snd (sub_then f g s) = snd (g (snd (f s)))" "fst (sub_then f g s) = fst (f s) @ fst (g (snd (f s)))"
  by (simp_all add: sub_then_def split: prod.split)

lemma sub_small [simp]:
  "sub_nothing s = ([], s)" "sub_set h s = ([], h s)" "sub_emit e s = ([e], s)"
  by (simp_all add: sub_nothing_def sub_set_def sub_emit_def)

section \<open>The shape of a subscription\<close>

text \<open>Disposed, has a socket, has a retry pending, uses the fallback, has a fallback, has a probe pending.\<close>

definition shape :: "subscription \<Rightarrow> bool list" where
  "shape s = [su_disposed s, su_socket s \<noteq> None, rs_timer (su_retry s), su_usingFallback s, su_fallback s, su_probe s]"

definition idle :: "subscription \<Rightarrow> bool" where
  "idle s \<longleftrightarrow> shape s = [False, False, False, False, False, False]"

definition alive :: "subscription \<Rightarrow> bool" where
  "alive s \<longleftrightarrow> shape s = [False, True, False, False, False, False] \<or> shape s = [False, False, True, False, False, False]
     \<or> shape s = [False, False, False, True, True, True]"

definition dead :: "subscription \<Rightarrow> bool" where
  "dead s \<longleftrightarrow> su_disposed s \<and> su_socket s = None \<and> \<not> rs_timer (su_retry s) \<and> \<not> su_fallback s \<and> \<not> su_probe s"

lemmas shape_defs = shape_def idle_def alive_def dead_def

lemma shape_transition [simp]: "shape (snd (ws_transition env st opts s)) = shape s"
  by (simp add: ws_transition_def shape_def)

lemma shape_report [simp]: "shape (snd (reportError env e s)) = shape s"
  by (simp add: reportError_def shape_def)

lemma shape_track [simp]: "shape (trackReplayEventId i s) = shape s"
  by (simp add: trackReplayEventId_def shape_def split: option.split)

lemma shape_teardown: "shape (snd (teardownSocket s)) = (shape s)[1 := False]"
  by (simp add: teardownSocket_def shape_def split: option.split)

lemma shape_stop: "shape (snd (stopFallback s)) = (shape s)[4 := False]"
  by (simp add: stopFallback_def shape_def)

lemma schedule_alive: "idle s \<Longrightarrow> alive (snd (scheduleReconnect env s))"
  by (simp add: scheduleReconnect_def shape_defs retry_schedule_def ws_transition_def)

lemma activate_alive:
  assumes "shape s = [False, x, False, False, False, False]"
  shows "alive (snd (activateFallback env s))"
proof -
  let ?a = "snd (teardownSocket (s\<lparr>su_usingFallback := True, su_retry := retry_clear (su_retry s)\<rparr>))"
  have a: "shape ?a = [False, False, False, True, False, False]"
  proof -
    have "shape (s\<lparr>su_usingFallback := True, su_retry := retry_clear (su_retry s)\<rparr>) = [False, x, False, True, False, False]"
      using assms by (simp add: shape_def retry_clear_def)
    then show ?thesis by (simp add: shape_teardown)
  qed
  have c: "\<not> (su_disposed s \<or> su_usingFallback s)" using assms by (simp add: shape_def)
  show ?thesis
  proof (cases "sv_fallbackStarts env = Some True")
    case True
    with a c show ?thesis
      by (simp add: activateFallback_def alive_def scheduleFallbackProbe_def ws_transition_def shape_def)
  next
    case False
    have "idle (?a\<lparr>su_fallback := False, su_usingFallback := False\<rparr>)" using a by (simp add: idle_def shape_def)
    from schedule_alive [OF this] False c show ?thesis by (simp add: activateFallback_def)
  qed
qed

lemma connect_alive:
  assumes "idle s"
  shows "alive (snd (connect env s))"
proof -
  let ?a = "trackReplayEventId (su_cursor (snd (ws_transition env ChConnecting (no_options\<lparr>to_reason := Some ''websocket-connect'',
      to_transport := Some TrWs, to_retryDelayMs := Some None\<rparr>) s))) (snd (ws_transition env ChConnecting
      (no_options\<lparr>to_reason := Some ''websocket-connect'', to_transport := Some TrWs, to_retryDelayMs := Some None\<rparr>) s))"
  have a: "idle ?a" using assms by (simp add: idle_def)
  have c: "\<not> (su_disposed s \<or> su_usingFallback s)" using assms by (simp add: idle_def shape_def)
  show ?thesis
  proof (cases "sv_socketFails env")
    case None
    with a c show ?thesis by (simp add: connect_def alive_def idle_def shape_def)
  next
    case (Some e)
    let ?b = "snd (reportError env e ?a)"
    have b: "idle ?b" using a by (simp add: idle_def)
    then have "shape ?b = [False, False, False, False, False, False]" by (simp add: idle_def)
    from activate_alive [OF this] schedule_alive [OF b] Some c show ?thesis by (simp add: connect_def)
  qed
qed

lemma failure_alive:
  assumes "shape s = [False, True, False, False, False, False]"
  shows "alive (snd (handleFailure env e s))"
proof -
  let ?r = "snd ((case e of None \<Rightarrow> sub_nothing | Some e \<Rightarrow> reportError env e) s)"
  have "shape ?r = shape s" by (simp split: option.split)
  then have a: "shape (snd (teardownSocket ?r)) = [False, False, False, False, False, False]"
    using assms by (simp add: shape_teardown)
  then have i: "idle (snd (teardownSocket ?r))" by (simp add: idle_def)
  then have c: "\<not> (su_disposed (snd (teardownSocket ?r)) \<or> su_usingFallback (snd (teardownSocket ?r)))"
    by (simp add: idle_def shape_def)
  from activate_alive [OF a] schedule_alive [OF i] c show ?thesis by (simp add: handleFailure_def)
qed

lemma shape_opened: "shape s = [False, True, False, False, False, False] \<Longrightarrow> shape (snd (socket_opened env s)) = shape s"
  by (simp add: socket_opened_def emitReconnectSignal_def ws_transition_def Let_def shape_def retry_reset_def
      retry_clear_def)

lemma shape_envelope [simp]: "shape (snd (handleAgentEnvelopeEvent env event s)) = shape s"
  by (simp add: handleAgentEnvelopeEvent_def shape_def split: option.split prod.split)

lemma shape_message [simp]: "shape (snd (socket_message env data s)) = shape s"
proof -
  let ?p = "parsed_payload env data"
  let ?t = "track_event_id (parseWebRuntimeWsEventId ?p) s"
  obtain dup d where dup: "isDuplicate WEB_RUNTIME_EVENT_ID_DEDUPE_WINDOW (parseWebRuntimeWsEventIdentifier ?p)
      (su_dedupe ?t) = (dup, d)" by fastforce
  have t: "shape (?t\<lparr>su_dedupe := d\<rparr>) = shape s" by (simp add: track_event_id_def shape_def split: option.split)
  have c: "shape (s'\<lparr>su_channels := c\<rparr>) = shape s'" for s' c by (simp add: shape_def)
  show ?thesis
  proof (cases "js_falsy ?p")
    case False
    then show ?thesis
    proof (cases dup)
      case True
      with False dup t c show ?thesis by (simp add: socket_message_def Let_def)
    next
      case fresh: False
      from False fresh dup t show ?thesis
        by (cases "sv_normalize env ?p") (simp_all add: socket_message_def Let_def)
    qed
  qed (simp add: socket_message_def Let_def)
qed

lemma probe_alive:
  assumes "shape s = [False, False, False, True, True, True]"
  shows "alive (snd (probe_due env s))"
proof -
  let ?p = "s\<lparr>su_probe := False\<rparr>"
  let ?q = "(snd (stopFallback ?p))\<lparr>su_usingFallback := False, su_retry := retry_reset (su_retry (snd (stopFallback ?p))),
      su_errorReported := False\<rparr>"
  have "idle ?q" using assms by (simp add: idle_def shape_def stopFallback_def retry_reset_def retry_clear_def)
  then have "idle (snd (ws_transition env ChConnecting (no_options\<lparr>to_reason := Some ''fallback-probe'',
      to_transport := Some TrWs, to_retryDelayMs := Some None\<rparr>) ?q))" by (simp add: idle_def)
  from connect_alive [OF this] show ?thesis using assms by (simp add: probe_due_def shape_def)
qed

lemma dispose_dead: "dead (snd (dispose env s))"
  by (simp add: dispose_def dead_def teardownSocket_def stopFallback_def ws_transition_def retry_clear_def
      split: option.split)

lemma alive_cases:
  "alive s \<Longrightarrow> su_socket s = Some n \<Longrightarrow> shape s = [False, True, False, False, False, False]"
  "alive s \<Longrightarrow> rs_timer (su_retry s) \<Longrightarrow> shape s = [False, False, True, False, False, False]"
  "alive s \<Longrightarrow> su_probe s \<Longrightarrow> shape s = [False, False, False, True, True, True]"
  by (auto simp: alive_def shape_def)

lemma alive_shape: "shape s' = shape s \<Longrightarrow> alive s \<Longrightarrow> alive s'"
  by (simp add: alive_def)

lemma alive_step:
  assumes "alive s"
  shows "if e = Dispose then dead (snd (sub_step env e s)) else alive (snd (sub_step env e s))"
proof (cases e)
  case (SocketOpened n)
  have "su_socket s = Some n \<Longrightarrow> alive (snd (socket_opened env s))"
    by (rule alive_shape [OF shape_opened assms]) (rule alive_cases(1) [OF assms])
  then show ?thesis using assms by (simp add: SocketOpened)
next
  case (SocketMessage n data)
  have "alive (snd (socket_message env data s))" by (rule alive_shape [OF shape_message assms])
  then show ?thesis using assms by (simp add: SocketMessage)
next
  case (SocketErrored n m)
  have "su_socket s = Some n \<Longrightarrow> alive (snd (handleFailure env (Some m) s))"
    by (rule failure_alive) (rule alive_cases(1) [OF assms])
  then show ?thesis using assms by (simp add: SocketErrored)
next
  case (SocketClosed n)
  have "su_socket s = Some n \<Longrightarrow> alive (snd (handleFailure env None s))"
    by (rule failure_alive) (rule alive_cases(1) [OF assms])
  then show ?thesis using assms by (simp add: SocketClosed)
next
  case RetryDue
  have "idle (s\<lparr>su_retry := retry_clear (su_retry s)\<rparr>)" if "rs_timer (su_retry s)"
    using alive_cases(2) [OF assms that] by (simp add: idle_def shape_def retry_clear_def)
  then show ?thesis using assms connect_alive by (simp add: RetryDue)
next
  case ProbeDue
  have "su_probe s \<Longrightarrow> alive (snd (probe_due env s))"
    by (rule probe_alive) (rule alive_cases(3) [OF assms])
  then show ?thesis using assms by (simp add: ProbeDue)
next
  case (FallbackReplayed i)
  have "alive (s\<lparr>su_cursor := Some i\<rparr>)" by (rule alive_shape [OF _ assms]) (simp add: shape_def)
  then show ?thesis using assms by (simp add: FallbackReplayed)
next
  case Dispose
  show ?thesis by (simp add: Dispose dispose_dead)
qed

lemma dead_step:
  assumes "dead s"
  shows "dead (snd (sub_step env e s))" "fst (sub_step env e s) = []"
  using assms
  by (cases e; simp add: dead_def dispose_dead [unfolded dead_def]; simp add: dispose_def teardownSocket_def
      stopFallback_def ws_transition_def)+

section \<open>What is opened is closed\<close>

fun opens_socket :: "sub_output \<Rightarrow> bool" where
  "opens_socket (OpenSocket _ _) = True" | "opens_socket _ = False"

fun closes_socket :: "sub_output \<Rightarrow> bool" where
  "closes_socket (CloseSocket _) = True" | "closes_socket _ = False"

fun starts_fallback :: "sub_output \<Rightarrow> bool" where
  "starts_fallback (StartFallback _) = True" | "starts_fallback _ = False"

fun stops_fallback :: "sub_output \<Rightarrow> bool" where
  "stops_fallback StopFallback = True" | "stops_fallback _ = False"

fun delay_within :: "sub_output \<Rightarrow> bool" where
  "delay_within (ScheduleRetry d) = (400 \<le> d \<and> d \<le> 10000)"
| "delay_within (ScheduleProbe d) = (d = 10000)"
| "delay_within _ = True"

definition how_many :: "('a \<Rightarrow> bool) \<Rightarrow> 'a list \<Rightarrow> nat" where
  "how_many p xs = length (filter p xs)"

lemma how_many_simps [simp]:
  "how_many p [] = 0" "how_many p (x # xs) = (if p x then 1 else 0) + how_many p xs"
  "how_many p (xs @ ys) = how_many p xs + how_many p ys"
  by (simp_all add: how_many_def)

definition one_if :: "bool \<Rightarrow> nat" where "one_if b = (if b then 1 else 0)"

definition balanced_out :: "sub_output list \<Rightarrow> subscription \<Rightarrow> subscription \<Rightarrow> bool" where
  "balanced_out out s s' \<longleftrightarrow>
     how_many opens_socket out + one_if (su_socket s \<noteq> None) = how_many closes_socket out + one_if (su_socket s' \<noteq> None) \<and>
     how_many starts_fallback out + one_if (su_fallback s) = how_many stops_fallback out + one_if (su_fallback s') \<and>
     list_all delay_within out"

abbreviation settles :: "sub_action \<Rightarrow> subscription \<Rightarrow> bool" where
  "settles f s \<equiv> balanced_out (fst (f s)) s (snd (f s))"

lemma balanced_out_append: "balanced_out a s s1 \<Longrightarrow> balanced_out b s1 s2 \<Longrightarrow> balanced_out (a @ b) s s2"
  by (simp add: balanced_out_def)

lemma settles_then: "settles f s \<Longrightarrow> settles g (snd (f s)) \<Longrightarrow> settles (sub_then f g) s"
  by (simp add: balanced_out_append)

text \<open>An action that neither opens nor closes.\<close>

lemma balanced_out_same:
  "su_socket s' = su_socket s \<Longrightarrow> su_fallback s' = su_fallback s \<Longrightarrow> balanced_out [] s s'"
  by (simp add: balanced_out_def)

lemma settles_transition [simp]: "settles (ws_transition env st opts) s"
  by (simp add: ws_transition_def balanced_out_same)

lemma settles_report [simp]: "settles (reportError env e) s"
  by (simp add: reportError_def balanced_out_def)

lemma settles_teardown [simp]: "settles teardownSocket s"
  by (simp add: teardownSocket_def balanced_out_def one_if_def split: option.split)

lemma settles_stop [simp]: "settles stopFallback s"
  by (simp add: stopFallback_def balanced_out_def one_if_def)

lemma delay_of_retry: "400 \<le> retry_delay 400 10000 n \<and> retry_delay 400 10000 n \<le> 10000"
  by (rule retry_delay_bounds) simp_all

lemma settles_schedule [simp]: "settles (scheduleReconnect env) s"
  using delay_of_retry [of "rs_attempt (su_retry s)"]
  by (simp add: scheduleReconnect_def retry_schedule_def balanced_out_def ws_transition_def
      WEB_RUNTIME_EVENTS_RECONNECT_BASE_MS_def WEB_RUNTIME_EVENTS_RECONNECT_MAX_MS_def)

lemma settles_probe_schedule [simp]: "settles scheduleFallbackProbe s"
  by (simp add: scheduleFallbackProbe_def balanced_out_def WEB_RUNTIME_WS_FALLBACK_PROBE_MS_def)

lemma settles_activate:
  assumes "\<not> su_fallback s"
  shows "settles (activateFallback env) s"
proof -
  let ?u = "s\<lparr>su_usingFallback := True, su_retry := retry_clear (su_retry s)\<rparr>"
  let ?t = "snd (teardownSocket ?u)"
  have nofb: "\<not> su_fallback ?t" using assms by (simp add: teardownSocket_def split: option.split)
  have u: "balanced_out [] s ?u" by (simp add: balanced_out_same)
  have t: "balanced_out (fst (teardownSocket ?u)) s ?t" using balanced_out_append [OF u settles_teardown] by simp
  show ?thesis
  proof (cases "su_disposed s \<or> su_usingFallback s")
    case False
    show ?thesis
    proof (cases "sv_fallbackStarts env = Some True")
      case True
      let ?f = "?t\<lparr>su_fallback := True\<rparr>"
      have f: "balanced_out [StartFallback (su_cursor ?t)] ?t ?f" using nofb by (simp add: balanced_out_def one_if_def)
      have "settles (sub_then (ws_transition env ChFallback (no_options\<lparr>to_reason := Some ''websocket-fallback-sse'',
                 to_transport := Some TrSse, to_retryDelayMs := Some (Some WEB_RUNTIME_WS_FALLBACK_PROBE_MS)\<rparr>))
               scheduleFallbackProbe) ?f"
        by (rule settles_then) simp_all
      from balanced_out_append [OF t balanced_out_append [OF f this]] True False show ?thesis
        by (simp add: activateFallback_def)
    next
      case no: False
      let ?n = "?t\<lparr>su_fallback := False, su_usingFallback := False\<rparr>"
      have "balanced_out [] ?t ?n" using nofb by (simp add: balanced_out_def)
      from balanced_out_append [OF t balanced_out_append [OF this settles_schedule]] no False show ?thesis
        by (simp add: activateFallback_def)
    qed
  qed (simp add: activateFallback_def balanced_out_same)
qed

lemma settles_connect:
  assumes "su_socket s = None" "\<not> su_fallback s"
  shows "settles (connect env) s"
proof (cases "su_disposed s \<or> su_usingFallback s")
  case False
  let ?w = "ws_transition env ChConnecting (no_options\<lparr>to_reason := Some ''websocket-connect'',
      to_transport := Some TrWs, to_retryDelayMs := Some None\<rparr>)"
  let ?a = "trackReplayEventId (su_cursor (snd (?w s))) (snd (?w s))"
  have same: "su_socket ?a = su_socket s" "su_fallback ?a = su_fallback s"
    by (simp_all add: trackReplayEventId_def ws_transition_def split: option.split)
  have a: "balanced_out [] s ?a" by (rule balanced_out_same [OF same])
  have w: "fst (?w s) = []" by (simp add: ws_transition_def)
  show ?thesis
  proof (cases "sv_socketFails env")
    case None
    have "balanced_out [OpenSocket (su_sockets ?a) (su_lastEventId ?a)] ?a
        (?a\<lparr>su_socket := Some (su_sockets ?a), su_sockets := su_sockets ?a + 1\<rparr>)"
      using same assms by (simp add: balanced_out_def one_if_def)
    from balanced_out_append [OF a this] None False w show ?thesis by (simp add: connect_def)
  next
    case (Some e)
    let ?b = "snd (reportError env e ?a)"
    have b: "balanced_out (fst (reportError env e ?a)) s ?b" using balanced_out_append [OF a settles_report] by simp
    have "\<not> su_fallback ?b" using same assms by (simp add: reportError_def)
    from balanced_out_append [OF b settles_activate [OF this]] balanced_out_append [OF b settles_schedule] Some False w
    show ?thesis by (simp add: connect_def)
  qed
qed (simp add: connect_def balanced_out_same)

lemma settles_failure:
  assumes "\<not> su_fallback s"
  shows "settles (handleFailure env e) s"
proof -
  let ?f = "case e of None \<Rightarrow> sub_nothing | Some e \<Rightarrow> reportError env e"
  let ?r = "snd (?f s)" and ?t = "snd (teardownSocket (snd (?f s)))"
  have "settles ?f s" by (simp add: balanced_out_same split: option.split)
  from balanced_out_append [OF this settles_teardown] have t: "balanced_out (fst (?f s) @ fst (teardownSocket ?r)) s ?t" .
  have "\<not> su_fallback ?t" using assms
    by (simp add: teardownSocket_def reportError_def split: option.split)
  from balanced_out_append [OF t settles_activate [OF this]] balanced_out_append [OF t settles_schedule]
    balanced_out_append [OF t balanced_out_same [OF refl refl]]
  show ?thesis by (simp add: handleFailure_def)
qed

lemma settles_opened: "settles (socket_opened env) s"
proof -
  have "settles (emitReconnectSignal env) s" by (simp add: emitReconnectSignal_def Let_def balanced_out_def)
  moreover have "settles (sub_set (\<lambda>s. s\<lparr>su_retry := retry_reset (su_retry s), su_errorReported := False\<rparr>)) s'" for s'
    by (simp add: balanced_out_same)
  ultimately show ?thesis unfolding socket_opened_def by (intro settles_then settles_transition)
qed

lemma settles_envelope: "settles (handleAgentEnvelopeEvent env event) s"
  by (simp add: handleAgentEnvelopeEvent_def balanced_out_same split: option.split prod.split)

lemma settles_message: "settles (socket_message env data) s"
proof -
  let ?p = "parsed_payload env data"
  let ?t = "track_event_id (parseWebRuntimeWsEventId ?p) s"
  obtain dup d where dup: "isDuplicate WEB_RUNTIME_EVENT_ID_DEDUPE_WINDOW (parseWebRuntimeWsEventIdentifier ?p)
      (su_dedupe ?t) = (dup, d)" by fastforce
  let ?u = "?t\<lparr>su_dedupe := d\<rparr>"
  have u: "su_socket ?u = su_socket s" "su_fallback ?u = su_fallback s"
    by (simp_all add: track_event_id_def split: option.split)
  have deliver: "balanced_out (fst (handleAgentEnvelopeEvent env event ?u) @ [Deliver event]) s
      (snd (handleAgentEnvelopeEvent env event ?u))" for event
    by (rule balanced_out_append [OF balanced_out_append [OF balanced_out_same [OF u] settles_envelope, simplified]])
      (simp add: balanced_out_def)
  show ?thesis
  proof (cases "js_falsy ?p")
    case False
    then show ?thesis
    proof (cases dup)
      case True
      with False dup u show ?thesis by (simp add: socket_message_def Let_def balanced_out_same)
    next
      case fresh: False
      from False fresh dup u deliver show ?thesis
        by (cases "sv_normalize env ?p") (simp_all add: socket_message_def Let_def balanced_out_same)
    qed
  qed (simp add: socket_message_def Let_def balanced_out_same)
qed

lemma settles_probe_due:
  assumes "shape s = [False, False, False, True, True, True]"
  shows "settles (probe_due env) s"
proof -
  let ?p = "s\<lparr>su_probe := False\<rparr>"
  let ?c = "ws_transition env ChConnecting (no_options\<lparr>to_reason := Some ''fallback-probe'',
      to_transport := Some TrWs, to_retryDelayMs := Some None\<rparr>)"
  let ?q = "snd (?c ((snd (stopFallback ?p))\<lparr>su_usingFallback := False,
      su_retry := retry_reset (su_retry (snd (stopFallback ?p))), su_errorReported := False\<rparr>))"
  have q: "su_socket ?q = None" "\<not> su_fallback ?q"
    using assms by (simp_all add: shape_def stopFallback_def ws_transition_def)
  have "balanced_out [StopFallback] s ?q"
    using assms q by (simp add: balanced_out_def one_if_def shape_def)
  from balanced_out_append [OF this settles_connect [OF q]] assms show ?thesis
    by (simp add: probe_due_def shape_def stopFallback_def ws_transition_def)
qed

lemma settles_dispose: "settles (dispose env) s"
proof -
  have "settles (sub_set (\<lambda>s. s\<lparr>su_disposed := True, su_retry := retry_clear (su_retry s), su_probe := False\<rparr>)) s"
    by (simp add: balanced_out_same)
  then show ?thesis unfolding dispose_def
    by (intro settles_then settles_teardown settles_stop settles_transition)
qed

lemma settles_step:
  assumes "alive s"
  shows "settles (sub_step env e) s"
proof (cases e)
  case (SocketErrored n m)
  have "su_socket s = Some n \<Longrightarrow> \<not> su_fallback s" using assms by (auto simp: alive_def shape_def)
  then show ?thesis using settles_failure by (simp add: SocketErrored balanced_out_same)
next
  case (SocketClosed n)
  have "su_socket s = Some n \<Longrightarrow> \<not> su_fallback s" using assms by (auto simp: alive_def shape_def)
  then show ?thesis using settles_failure by (simp add: SocketClosed balanced_out_same)
next
  case RetryDue
  let ?r = "s\<lparr>su_retry := retry_clear (su_retry s)\<rparr>"
  have "rs_timer (su_retry s) \<Longrightarrow> su_socket ?r = None \<and> \<not> su_fallback ?r"
    using alive_cases(2) [OF assms] by (simp add: shape_def)
  moreover have "balanced_out (fst (connect env ?r)) ?r (snd (connect env ?r)) \<Longrightarrow>
      balanced_out (fst (connect env ?r)) s (snd (connect env ?r))" by (simp add: balanced_out_def)
  ultimately show ?thesis using settles_connect [of ?r env] by (simp add: RetryDue balanced_out_same)
next
  case ProbeDue
  have "su_probe s \<Longrightarrow> settles (probe_due env) s"
    by (rule settles_probe_due) (rule alive_cases(3) [OF assms])
  then show ?thesis by (simp add: ProbeDue balanced_out_same)
qed (simp_all add: settles_opened settles_message settles_dispose balanced_out_same)

section \<open>Every history\<close>

definition disposed_by :: "(sub_env \<times> sub_event) list \<Rightarrow> bool" where
  "disposed_by es = list_ex (\<lambda>(_, e). e = Dispose) es"

lemma dead_run: "dead s \<Longrightarrow> fst (run_events es s) = [] \<and> dead (snd (run_events es s))"
proof (induction es arbitrary: s)
  case (Cons x es)
  obtain env e where x: "x = (env, e)" by (cases x)
  from dead_step [OF Cons.prems, of env e] Cons.IH [of "snd (sub_step env e s)"] show ?case by (simp add: x)
qed simp

lemma run_invariant:
  "alive s \<Longrightarrow> (if disposed_by es then dead (snd (run_events es s)) else alive (snd (run_events es s))) \<and>
     balanced_out (fst (run_events es s)) s (snd (run_events es s))"
proof (induction es arbitrary: s)
  case (Cons x es)
  obtain env e where x: "x = (env, e)" by (cases x)
  let ?s = "snd (sub_step env e s)"
  note first = settles_step [OF Cons.prems, of env e]
  show ?case
  proof (cases "e = Dispose")
    case True
    then have dead: "dead ?s" using alive_step [OF Cons.prems, of e env] by simp
    have "balanced_out [] ?s (snd (run_events es ?s))"
      using dead dead_run [OF dead, of es] by (simp add: balanced_out_def dead_def)
    from balanced_out_append [OF first this] dead_run [OF dead, of es] True show ?thesis
      by (simp add: x disposed_by_def)
  next
    case False
    then have alive: "alive ?s" using alive_step [OF Cons.prems, of e env] by simp
    from Cons.IH [OF alive] balanced_out_append [OF first, of "fst (run_events es ?s)" "snd (run_events es ?s)"] False
    show ?thesis by (simp add: x disposed_by_def)
  qed
qed (simp add: disposed_by_def balanced_out_same)

lemma start_alive:
  "alive (snd (start_subscription env c))"
  "balanced_out (fst (start_subscription env c)) (fresh_subscription c) (snd (start_subscription env c))"
proof -
  let ?w = "ws_transition env ChConnecting \<lparr>to_reason = Some ''initial-connect'', to_transport = Some TrWs,
         to_retryAttempt = Some 0, to_retryDelayMs = Some None, to_lastError = None, to_consecutiveFailures = Some 0\<rparr>"
  let ?s = "snd (?w (fresh_subscription c))"
  have i: "idle ?s" by (simp add: idle_def shape_def ws_transition_def fresh_subscription_def retry_idle_def)
  then show "alive (snd (start_subscription env c))" by (simp add: start_subscription_def connect_alive)
  have "su_socket ?s = None" "\<not> su_fallback ?s" using i by (simp_all add: idle_def shape_def)
  from balanced_out_append [OF settles_transition settles_connect [OF this]]
  show "balanced_out (fst (start_subscription env c)) (fresh_subscription c) (snd (start_subscription env c))"
    by (simp add: start_subscription_def)
qed

lemma whole_run:
  assumes "run_subscription env c es = (out, s)"
  shows "if disposed_by es then dead s else alive s" "balanced_out out (fresh_subscription c) s"
proof -
  let ?s = "snd (start_subscription env c)"
  have eq: "out = fst (start_subscription env c) @ fst (run_events es ?s)" "s = snd (run_events es ?s)"
    using assms by (simp_all add: run_subscription_def split: prod.splits)
  note run = run_invariant [OF start_alive(1), of es env c]
  from run show "if disposed_by es then dead s else alive s" unfolding eq by blast
  from balanced_out_append [OF start_alive(2)] run show "balanced_out out (fresh_subscription c) s" unfolding eq by blast
qed

text \<open>C24: the subscription never stalls: whatever sockets, timers, the fallback and the clock do, as long as it is
  not disposed there is exactly one thing that will move it on, a live socket, a pending retry or a
  running fallback with its probe, and every delay it schedules is between 0.4 and 10 seconds; once it
  is disposed there is none of them.
\<close>

theorem subscription_never_stalls:
  "let (out, s) = run_subscription env c es; disposed = list_ex (\<lambda>(_, e). e = Dispose) es
   in length (filter (\<lambda>b. b) [su_socket s \<noteq> None, rs_timer (su_retry s), su_fallback s]) = (if disposed then 0 else 1) \<and>
      su_probe s = su_fallback s \<and> su_disposed s = disposed \<and> list_all delay_within out"
proof -
  obtain out s where r: "run_subscription env c es = (out, s)" by fastforce
  note run = whole_run [OF r]
  have "list_all delay_within out" using run(2) by (simp add: balanced_out_def)
  with run(1) show ?thesis
    by (cases "disposed_by es") (auto simp: r Let_def disposed_by_def [symmetric] dead_def alive_def shape_def)
qed

text \<open>C25: the subscription leaks nothing: it has opened as many sockets as it has closed, but for the live one, and
  started the fallback as often as it has stopped it, but for the running one.
\<close>

theorem subscription_leaks_nothing:
  "let (out, s) = run_subscription env c es
   in length (filter opens_socket out) = length (filter closes_socket out) + (if su_socket s = None then 0 else 1) \<and>
      length (filter starts_fallback out) = length (filter stops_fallback out) + (if su_fallback s then 1 else 0)"
proof -
  obtain out s where r: "run_subscription env c es = (out, s)" by fastforce
  from whole_run(2) [OF r] show ?thesis
    by (auto simp: r balanced_out_def how_many_def one_if_def fresh_subscription_def)
qed

text \<open>C26: nothing happens after the disposal: a subscription that was disposed has closed its socket and its
  fallback, and no later event of a socket or a timer makes it open, deliver, notify or schedule anything.
\<close>

theorem disposed_subscription_silent:
  "let (out, s) = run_subscription env c (es @ [(env', Dispose)])
   in su_socket s = None \<and> \<not> su_fallback s \<and> fst (run_events later s) = [] \<and>
      fst (run_subscription env c (es @ [(env', Dispose)] @ later)) = out"
proof -
  have append: "run_events (xs @ ys) s = sub_then (run_events xs) (run_events ys) s" for xs ys s
  proof (induction xs arbitrary: s)
    case (Cons x xs)
    obtain e1 e2 where "x = (e1, e2)" by (cases x)
    with Cons show ?case by (simp add: sub_then_def split: prod.split)
  qed (simp add: sub_then_def split: prod.split)
  obtain out s where r: "run_subscription env c (es @ [(env', Dispose)]) = (out, s)" by fastforce
  have dead: "dead s" using whole_run(1) [OF r] by (simp add: disposed_by_def)
  have quiet: "fst (run_events later s) = []" using dead_run [OF dead] by blast
  have "fst (run_subscription env c ((es @ [(env', Dispose)]) @ later)) = out @ fst (run_events later s)"
    using r unfolding run_subscription_def append [of "es @ [(env', Dispose)]" later]
    by (auto simp: sub_then_def split: prod.splits)
  with quiet dead show ?thesis by (simp add: r dead_def)
qed

end
