(* ===== verification/ThreadItemBuilders.thy ===== *)
theory ThreadItemBuilders
  imports ThreadItems JsText
begin

text \<open>
  The builders of \<^verbatim>\<open>apps/code/src/utils/threadItems.ts\<close>: they read the untyped items that the runtime
  service sends, one at a time (\<open>buildConversationItem\<close>) or in the snapshot of a thread
  (\<open>buildItemsFromThread\<close>), and make the typed items that the store keeps.  Nothing checks the shape of
  the input first: reading a field of \<open>undefined\<close> or \<open>null\<close> throws, which is a left value.  \<open>Date.parse\<close>
  is the parameter \<open>date\<close>.  The arrow U+2192 in the detail of a collaboration is written with the code 0x90.
\<close>

section \<open>Texts, numbers and lists\<close>

definition asString :: "number_text \<Rightarrow> js_value \<Rightarrow> string" where
  "asString num v =
     (case v of Str s \<Rightarrow> s | _ \<Rightarrow> if js_falsy v then [] else js_text num v)"

fun asNumber :: "js_value \<Rightarrow> rat option" where
  "asNumber (Num n) = n"
| "asNumber (Str s) = js_number_of_text s"
| "asNumber _ = None"

text \<open>\<open>asString(record.field ?? "")\<close>\<close>

definition text_field :: "number_text \<Rightarrow> js_object \<Rightarrow> string \<Rightarrow> string" where
  "text_field num r k = asString num (js_nullish (field r k) (Str []))"

definition normalizeStringList :: "number_text \<Rightarrow> js_value \<Rightarrow> string list" where
  "normalizeStringList num v =
     (case v of Arr vs \<Rightarrow> filter (\<lambda>s. s \<noteq> []) (map (asString num) vs)
      | _ \<Rightarrow> let single = asString num v in if single \<noteq> [] then [single] else [])"

text \<open>\<open>Object.entries\<close> of an object or array\<close>

fun entries_of :: "js_value \<Rightarrow> (string \<times> js_value) list" where
  "entries_of (Obj r) = r"
| "entries_of (Arr vs) = map (\<lambda>(i, v). (show_nat i, v)) (enumerate 0 vs)"
| "entries_of _ = []"

definition agent_state :: "number_text \<Rightarrow> string \<times> js_value \<Rightarrow> string" where
  "agent_state num e =
     (case e of (i, st) \<Rightarrow>
        let status = asString num (js_nullish (js_nullish (field_if_any st ''status'') st) (Str []))
        in if status \<noteq> [] then i @ '': '' @ status else i)"

definition formatCollabAgentStates :: "number_text \<Rightarrow> js_value \<Rightarrow> string" where
  "formatCollabAgentStates num v =
     js_join [CHR 0x0A] (filter (\<lambda>s. s \<noteq> []) (map (agent_state num) (entries_of v)))"

section \<open>Times\<close>

definition positive_millis :: "rat option \<Rightarrow> rat" where
  "positive_millis n =
     (case n of None \<Rightarrow> 0
      | Some x \<Rightarrow> if x \<le> 0 then 0 else if x < 1000000000000 then dbl (x * 1000) else x)"

definition normalizeThreadTimestamp :: "(string \<Rightarrow> rat option) \<Rightarrow> number_text \<Rightarrow> js_value \<Rightarrow> rat" where
  "normalizeThreadTimestamp date num raw =
     (case raw of
        Str s \<Rightarrow> positive_millis (case js_number_of_text s of Some n \<Rightarrow> Some n | None \<Rightarrow> date s)
      | _ \<Rightarrow> positive_millis (js_number_of num raw))"

definition getThreadTimestamp :: "(string \<Rightarrow> rat option) \<Rightarrow> number_text \<Rightarrow> js_object \<Rightarrow> rat" where
  "getThreadTimestamp date num thread =
     normalizeThreadTimestamp date num
       (js_nullish (field2 thread ''updatedAt'' ''updated_at'')
         (js_nullish (field2 thread ''createdAt'' ''created_at'') (Num (Some 0))))"

definition getThreadCreatedTimestamp :: "(string \<Rightarrow> rat option) \<Rightarrow> number_text \<Rightarrow> js_object \<Rightarrow> rat" where
  "getThreadCreatedTimestamp date num thread =
     normalizeThreadTimestamp date num
       (js_nullish (field2 thread ''createdAt'' ''created_at'') (Num (Some 0)))"

definition previewThreadName :: "string \<Rightarrow> string \<Rightarrow> string" where
  "previewThreadName text fallback = (let trimmed = js_trim text in if trimmed = [] then fallback else trimmed)"

section \<open>The inputs of the user\<close>

definition extractImageInputValue :: "number_text \<Rightarrow> js_object \<Rightarrow> string" where
  "extractImageInputValue num r =
     js_trim (case filter (\<lambda>s. s \<noteq> []) (map (text_field num r) [''url'', ''path'', ''value'', ''data'', ''source''])
              of [] \<Rightarrow> [] | s # _ \<Rightarrow> s)"

text \<open>The texts and the images of one input.\<close>

definition user_input :: "number_text \<Rightarrow> js_value \<Rightarrow> type_error + string list \<times> string list" where
  "user_input num v =
     (case object_of v of Inl e \<Rightarrow> Inl e
      | Inr r \<Rightarrow>
         let type = asString num (field r ''type'')
         in Inr (if type = ''text'' then
                   (let text = asString num (field r ''text'') in (if text \<noteq> [] then [text] else [], []))
                 else if type = ''skill'' then
                   (let name = asString num (field r ''name'') in (if name \<noteq> [] then [''$'' @ name] else [], []))
                 else if type = ''image'' \<or> type = ''localImage'' then
                   (let i = extractImageInputValue num r in ([], if i \<noteq> [] then [i] else []))
                 else ([], [])))"

definition parseUserInputs :: "number_text \<Rightarrow> js_value list \<Rightarrow> type_error + string \<times> string list" where
  "parseUserInputs num inputs =
     (case map_throwing (user_input num) inputs of Inl e \<Rightarrow> Inl e
      | Inr parts \<Rightarrow> Inr (js_trim (js_join '' '' (concat (map fst parts))), concat (map snd parts)))"

section \<open>One item\<close>

definition status_field :: "js_object \<Rightarrow> string" where
  "status_field r = normalizeLifecycleStatus (as_string (js_nullish (field r ''status'') (Str [])))"

definition plain_tool :: "string \<Rightarrow> string \<Rightarrow> string \<Rightarrow> string \<Rightarrow> string \<Rightarrow> tool_fields" where
  "plain_tool type title detail status output =
     \<lparr>toolType = type, tool_title = title, tool_detail = detail, tool_status = Some status,
      tool_output = Some output, durationMs = None, checkpointId = None, traceId = None, errorClass = None,
      recovered = None, batchId = None, attempt = None, changes = None\<rparr>"

definition some_text :: "string \<Rightarrow> string option" where
  "some_text s = (if s \<noteq> [] then Some s else None)"

definition user_message_item :: "number_text \<Rightarrow> string \<Rightarrow> js_object \<Rightarrow> type_error + conversation_item" where
  "user_message_item num i r =
     (case parseUserInputs num (array_of (field r ''content'')) of Inl e \<Rightarrow> Inl e
      | Inr (text, images) \<Rightarrow> Inr (Message i User text (if images \<noteq> [] then Some images else None)))"

text \<open>An array is joined line by line, anything else is one text.\<close>

definition lines_field :: "number_text \<Rightarrow> js_object \<Rightarrow> string \<Rightarrow> string" where
  "lines_field num r k =
     (case field r k of Arr vs \<Rightarrow> js_join [CHR 0x0A] (map (asString num) vs) | _ \<Rightarrow> text_field num r k)"

definition command_tool :: "number_text \<Rightarrow> string \<Rightarrow> js_object \<Rightarrow> tool_fields" where
  "command_tool num type r =
     (let command = (case field r ''command'' of Arr vs \<Rightarrow> js_join '' '' (map (asString num) vs)
            | _ \<Rightarrow> text_field num r ''command'')
      in (plain_tool type (if command \<noteq> [] then ''Command: '' @ command else ''Command'')
            (text_field num r ''cwd'') (status_field r) (text_field num r ''aggregatedOutput''))
           \<lparr>durationMs := asNumber (field2 r ''durationMs'' ''duration_ms'')\<rparr>)"

definition change_kind_text :: "number_text \<Rightarrow> js_value \<Rightarrow> string" where
  "change_kind_text num kind =
     (case kind of Str s \<Rightarrow> s | Obj k \<Rightarrow> text_field num k ''type'' | _ \<Rightarrow> [])"

definition change_of :: "number_text \<Rightarrow> js_value \<Rightarrow> file_change" where
  "change_of num change =
     \<lparr>chg_path = asString num (js_nullish (field_if_any change ''path'') (Str [])),
      chg_kind = some_text (to_lower (change_kind_text num (field_if_any change ''kind''))),
      chg_diff = some_text (asString num (js_nullish (field_if_any change ''diff'') (Str [])))\<rparr>"

definition change_line :: "file_change \<Rightarrow> string" where
  "change_line c =
     (let p = (case chg_kind c of None \<Rightarrow> []
         | Some k \<Rightarrow> if k = ''add'' then ''A'' else if k = ''delete'' then ''D'' else ''M'')
      in js_join '' '' (filter (\<lambda>s. s \<noteq> []) [p, chg_path c]))"

definition file_change_tool :: "number_text \<Rightarrow> string \<Rightarrow> js_object \<Rightarrow> tool_fields" where
  "file_change_tool num type r =
     (let normalized = filter (\<lambda>c. chg_path c \<noteq> []) (map (change_of num) (array_of (field r ''changes'')));
          paths = js_join '', '' (filter (\<lambda>s. s \<noteq> []) (map change_line normalized));
          diffs = js_join [CHR 0x0A, CHR 0x0A] (filter (\<lambda>s. s \<noteq> []) (map (\<lambda>c. nullish (chg_diff c) []) normalized))
      in (plain_tool type ''File changes'' (if paths \<noteq> [] then paths else ''Pending changes'') (status_field r) diffs)
           \<lparr>changes := Some normalized\<rparr>)"

text \<open>The arguments of a call when they are an object or array; the fields that are read of them.\<close>

definition call_arguments :: "js_object \<Rightarrow> js_value" where
  "call_arguments r = (case field r ''arguments'' of Obj a \<Rightarrow> Obj a | Arr vs \<Rightarrow> Arr vs | _ \<Rightarrow> Obj [])"

fun read_recovered :: "js_value \<Rightarrow> bool option" where
  "read_recovered (Bool b) = Some b"
| "read_recovered (Num n) = Some (n \<noteq> Some 0)"
| "read_recovered (Str s) = Some (to_lower s \<in> {''true'', ''1'', ''yes'', ''on'', ''enabled''})"
| "read_recovered _ = None"

definition labelled :: "string \<Rightarrow> string \<Rightarrow> string" where
  "labelled label s = (if s \<noteq> [] then label @ '': '' @ s else [])"

text \<open>The notes below the arguments in the detail of a call.\<close>

definition call_notes :: "number_text \<Rightarrow> string \<Rightarrow> rat option \<Rightarrow> string \<Rightarrow> string \<Rightarrow> string \<Rightarrow> bool option \<Rightarrow> string" where
  "call_notes num batch att checkpoint trace error rec =
     js_join [CHR 0x0A] (filter (\<lambda>s. s \<noteq> [])
       [labelled ''batch'' batch,
        (case att of None \<Rightarrow> [] | Some n \<Rightarrow> ''attempt: '' @ js_number_text num (Some n)),
        labelled ''checkpoint'' checkpoint, labelled ''trace'' trace, labelled ''error class'' error,
        (if rec = Some True then ''recovered: yes'' else [])])"

definition mcp_tool :: "number_text \<Rightarrow> string \<Rightarrow> js_object \<Rightarrow> tool_fields" where
  "mcp_tool num type r =
     (let arguments = call_arguments r;
          arg = field_if_any arguments;
          args = (if entries_of arguments \<noteq> [] then json_text num [] arguments else []);
          id_text = (\<lambda>a b. asString num (js_nullish (js_nullish (field2 r a b) (arg a)) (Str [])));
          batch = id_text ''batchId'' ''batch_id'';
          att = nullish2 (asNumber (field2 r ''attempt'' ''attempt_count'')) (asNumber (js_nullish (arg ''attempt'') Null));
          checkpoint = id_text ''checkpointId'' ''checkpoint_id'';
          trace = id_text ''traceId'' ''trace_id'';
          error = id_text ''errorClass'' ''error_class'';
          rec = read_recovered (js_nullish (field2 r ''recovered'' ''recovered_state'') (arg ''recovered''));
          tool = text_field num r ''tool'';
          notes = call_notes num batch att checkpoint trace error rec
      in (plain_tool type (''Tool: '' @ text_field num r ''server'' @ (if tool \<noteq> [] then '' / '' @ tool else []))
            (js_join [CHR 0x0A] (filter (\<lambda>s. s \<noteq> []) [args, notes])) (status_field r)
            (asString num (js_nullish (field2 r ''result'' ''error'') (Str []))))
           \<lparr>durationMs := nullish2 (asNumber (field2 r ''durationMs'' ''duration_ms''))
               (asNumber (js_nullish (arg ''durationMs'') (arg ''duration_ms''))),
            batchId := some_text batch, attempt := att, checkpointId := some_text checkpoint,
            traceId := some_text trace, errorClass := some_text error, recovered := rec\<rparr>)"

definition arrow :: string where "arrow = [CHR 0x90]"

definition collab_tool :: "number_text \<Rightarrow> js_object \<Rightarrow> tool_fields" where
  "collab_tool num r =
     (let tool = text_field num r ''tool'';
          sender = asString num (js_nullish (field2 r ''senderThreadId'' ''sender_thread_id'') (Str []));
          receivers = normalizeStringList num (field2 r ''receiverThreadId'' ''receiver_thread_id'')
            @ normalizeStringList num (field2 r ''receiverThreadIds'' ''receiver_thread_ids'')
            @ normalizeStringList num (field2 r ''newThreadId'' ''new_thread_id'');
          states = formatCollabAgentStates num
            (js_nullish (field r ''agentStatus'') (field2 r ''agentsStates'' ''agents_states''));
          detailParts = filter (\<lambda>s. s \<noteq> []) [if sender \<noteq> [] then ''From '' @ sender else [],
            if receivers \<noteq> [] then arrow @ '' '' @ js_join '', '' receivers else []];
          outputParts = filter (\<lambda>s. s \<noteq> []) [text_field num r ''prompt'', states]
      in plain_tool ''collabToolCall'' (if tool \<noteq> [] then ''Collab: '' @ tool else ''Collab tool call'')
           (js_join '' '' detailParts) (status_field r) (js_join [CHR 0x0A, CHR 0x0A] outputParts))"

text \<open>The items that are made without a call that can throw.\<close>

definition simple_item :: "number_text \<Rightarrow> string \<Rightarrow> string \<Rightarrow> js_object \<Rightarrow> conversation_item option" where
  "simple_item num type i r =
     (if type = ''reasoning'' then Some (Reasoning i (text_field num r ''summary'') (lines_field num r ''content''))
      else if type = ''plan'' then
        (let status = status_field r
         in Some (Tool i (plain_tool ''plan'' ''Plan'' status status (text_field num r ''text''))))
      else if type = ''commandExecution'' then Some (Tool i (command_tool num type r))
      else if type = ''fileChange'' then Some (Tool i (file_change_tool num type r))
      else if type = ''mcpToolCall'' then Some (Tool i (mcp_tool num type r))
      else if type = ''collabToolCall'' \<or> type = ''collabAgentToolCall'' then Some (Tool i (collab_tool num r))
      else if type = ''webSearch'' then Some (Tool i (plain_tool type ''Web search'' (text_field num r ''query'') [] []))
      else if type = ''imageView'' then Some (Tool i (plain_tool type ''Image view'' (text_field num r ''path'') [] []))
      else if type = ''contextCompaction'' then
        (let status = status_field r
         in Some (Tool i (plain_tool type ''Context compaction''
              ''Compacting conversation context to fit token limits.''
              (if status \<noteq> [] then status else ''completed'') [])))
      else if type = ''enteredReviewMode'' \<or> type = ''exitedReviewMode'' then
        Some (Review i (if type = ''enteredReviewMode'' then Started else Completed) (text_field num r ''review''))
      else None)"

definition buildConversationItem :: "number_text \<Rightarrow> js_value \<Rightarrow> type_error + conversation_item option" where
  "buildConversationItem num item =
     (case object_of item of Inl e \<Rightarrow> Inl e
      | Inr r \<Rightarrow>
         let type = asString num (field r ''type''); i = asString num (field r ''id'')
         in if i = [] \<or> type = [] then Inr None
            else if type = ''agentMessage'' then Inr None
            else if type = ''userMessage'' then map_sum id Some (user_message_item num i r)
            else Inr (simple_item num type i r))"

definition buildConversationItemFromThreadItem ::
    "number_text \<Rightarrow> js_value \<Rightarrow> type_error + conversation_item option" where
  "buildConversationItemFromThreadItem num item =
     (case object_of item of Inl e \<Rightarrow> Inl e
      | Inr r \<Rightarrow>
         let type = asString num (field r ''type''); i = asString num (field r ''id'')
         in if i = [] \<or> type = [] then Inr None
            else if type = ''userMessage'' then map_sum id Some (user_message_item num i r)
            else if type = ''agentMessage'' then
              Inr (Some (Message i Assistant (asString num (field r ''text'')) None))
            else if type = ''reasoning'' then
              Inr (Some (Reasoning i (lines_field num r ''summary'') (lines_field num r ''content'')))
            else buildConversationItem num item)"

section \<open>The snapshot of a thread\<close>

text \<open>The items of all turns, in order.\<close>

definition turn_items :: "js_value \<Rightarrow> type_error + js_value list" where
  "turn_items turn = map_sum id (\<lambda>r. array_of (field r ''items'')) (object_of turn)"

text \<open>
  The loop handles the items of a turn before it looks at the next turn; since nothing but an error leaves
  it early and an error is all that is left then, the items can be collected first.
\<close>

definition thread_items :: "js_object \<Rightarrow> type_error + js_value list" where
  "thread_items thread =
     map_sum id concat (map_throwing turn_items (array_of (field thread ''turns'')))"

definition buildItemsFromThread :: "number_text \<Rightarrow> js_object \<Rightarrow> type_error + conversation_item list" where
  "buildItemsFromThread num thread =
     (case thread_items thread of Inl e \<Rightarrow> Inl e
      | Inr items \<Rightarrow> map_sum id (List.map_filter (\<lambda>x. x))
          (map_throwing (buildConversationItemFromThreadItem num) items))"

definition review_flag :: "number_text \<Rightarrow> js_value \<Rightarrow> bool \<Rightarrow> bool" where
  "review_flag num item reviewing =
     (let type = asString num (js_nullish (field_if_any item ''type'') (Str []))
      in if type = ''enteredReviewMode'' then True else if type = ''exitedReviewMode'' then False else reviewing)"

definition isReviewingFromThread :: "number_text \<Rightarrow> js_object \<Rightarrow> type_error + bool" where
  "isReviewingFromThread num thread =
     map_sum id (\<lambda>items. fold (review_flag num) items False) (thread_items thread)"

end
