(* ===== verification/ThreadItemBuildersFacts.thy ===== *)
theory ThreadItemBuildersFacts
  imports ThreadItemBuilders
begin

text \<open>
  What the builders of \<open>ThreadItemBuilders\<close> promise: the shape of the items of a snapshot, that the items of a
  snapshot say whether a review is under way, and where an item that arrives live differs from the same
  item of a snapshot.
\<close>

section \<open>Reading values\<close>

lemma asString_nullish [simp]: "asString num (js_nullish v (Str [])) = asString num v"
  by (cases v) (simp_all add: asString_def js_nullish_def)

lemma object_of_field: "object_of v = Inr r \<Longrightarrow> field_if_any v k = field r k"
  by (cases v) (auto simp: field_if_any_def field_def)

lemma map_filter_Cons: "List.map_filter f (x # xs) = (case f x of None \<Rightarrow> [] | Some y \<Rightarrow> [y]) @ List.map_filter f xs"
  by (simp add: List.map_filter_def split: option.split)

lemma map_filter_empty: "List.map_filter f [] = []"
  by (simp add: List.map_filter_def)

section \<open>Normal statuses\<close>

lemma known_statuses:
  "normalizeLifecycleStatus (Some ''inProgress'') = ''inProgress''"
  "normalizeLifecycleStatus (Some ''completed'') = ''completed''"
  "normalizeLifecycleStatus (Some ''failed'') = ''failed''"
  "normalizeLifecycleStatus (Some []) = []"
  by code_simp+

lemma normalized_cases:
  "normalizeLifecycleStatus v \<in> {[], ''inProgress'', ''completed'', ''failed''} \<or>
   (\<exists>s. v = Some s \<and> normalizeLifecycleStatus v = js_trim s)"
  by (auto simp: normalizeLifecycleStatus_def Let_def split: option.split)

lemma normalize_trimmed: "normalizeLifecycleStatus (Some (js_trim s)) = normalizeLifecycleStatus (Some s)"
  by (simp add: normalizeLifecycleStatus_def)

lemma normalizeLifecycleStatus_idem: "normalizeLifecycleStatus (Some (normalizeLifecycleStatus v)) = normalizeLifecycleStatus v"
  using normalized_cases [of v]
proof (elim disjE exE conjE)
  fix s
  assume "v = Some s" "normalizeLifecycleStatus v = js_trim s"
  then show ?thesis by (metis normalize_trimmed)
qed (auto simp: known_statuses)

lemma status_field_normal: "normalizeLifecycleStatus (Some (status_field r)) = status_field r"
  unfolding status_field_def by (rule normalizeLifecycleStatus_idem)

section \<open>The shape of what is built\<close>

definition change_built :: "file_change \<Rightarrow> bool" where
  "change_built c \<longleftrightarrow> chg_path c \<noteq> [] \<and> chg_kind c \<noteq> Some [] \<and> chg_diff c \<noteq> Some []"

definition tool_built :: "tool_fields \<Rightarrow> bool" where
  "tool_built t \<longleftrightarrow> (\<exists>s. tool_status t = Some s \<and> normalizeLifecycleStatus (Some s) = s) \<and> tool_output t \<noteq> None \<and>
     tool_title t \<noteq> [] \<and> pred_option (list_all change_built) (changes t) \<and>
     list_all (\<lambda>s. s \<noteq> Some []) [batchId t, checkpointId t, traceId t, errorClass t]"

definition image_built :: "string \<Rightarrow> bool" where
  "image_built s \<longleftrightarrow> s \<noteq> [] \<and> js_trim s = s"

fun item_built :: "conversation_item \<Rightarrow> bool" where
  "item_built (Message i r t images) \<longleftrightarrow> i \<noteq> [] \<and> images \<noteq> Some [] \<and> pred_option (list_all image_built) images \<and>
     (r = User \<longrightarrow> js_trim t = t)"
| "item_built (Reasoning i s c) \<longleftrightarrow> i \<noteq> []"
| "item_built (DiffItem i t d s) \<longleftrightarrow> False"
| "item_built (Review i s t) \<longleftrightarrow> i \<noteq> []"
| "item_built (Explore i s es) \<longleftrightarrow> False"
| "item_built (Tool i t) \<longleftrightarrow> i \<noteq> [] \<and> tool_built t"

lemma some_text_built [simp]: "some_text s \<noteq> Some []"
  by (simp add: some_text_def)

lemma plain_tool_built:
  "tool_built (plain_tool type title detail status out) \<longleftrightarrow>
     title \<noteq> [] \<and> normalizeLifecycleStatus (Some status) = status"
  by (auto simp: tool_built_def plain_tool_def)

lemma command_tool_built: "tool_built (command_tool num type r)"
  by (simp add: command_tool_def tool_built_def plain_tool_def status_field_normal Let_def)

lemma file_change_tool_built: "tool_built (file_change_tool num type r)"
  by (auto simp: file_change_tool_def tool_built_def plain_tool_def status_field_normal Let_def list_all_iff
      change_built_def change_of_def)

lemma mcp_tool_built: "tool_built (mcp_tool num type r)"
  by (simp add: mcp_tool_def tool_built_def plain_tool_def status_field_normal Let_def)

lemma collab_tool_built: "tool_built (collab_tool num r)"
  by (simp add: collab_tool_def plain_tool_built status_field_normal Let_def)

lemmas tools_built = command_tool_built file_change_tool_built mcp_tool_built collab_tool_built

lemma some_branch:
  "(if b then Some a else rest) = Some it \<Longrightarrow> Q a \<Longrightarrow> (rest = Some it \<Longrightarrow> Q it) \<Longrightarrow> Q it"
  by (auto split: if_splits)

lemma simple_item_built:
  assumes "simple_item num type i r = Some it" "i \<noteq> []"
  shows "item_built it \<and> item_id it = i"
  using assms(1) unfolding simple_item_def Let_def
  by (elim some_branch)
    (simp_all add: plain_tool_built tools_built status_field_normal known_statuses assms(2))

lemma user_input_images:
  assumes "user_input num v = Inr (texts, images)"
  shows "list_all image_built images"
  using assms
  by (auto simp: user_input_def image_built_def extractImageInputValue_def Let_def split: sum.splits if_splits)

lemma concat_images:
  "list_all2 (\<lambda>v p. user_input num v = Inr p) vs parts \<Longrightarrow> list_all image_built (concat (map snd parts))"
proof (induction rule: list_all2_induct)
  case (Cons v vs p parts)
  then show ?case using user_input_images [of num v "fst p" "snd p"] by simp
qed simp

lemma parsed_inputs:
  assumes "parseUserInputs num vs = Inr (t, images)"
  shows "list_all image_built images \<and> js_trim t = t"
proof -
  obtain parts where parts: "map_throwing (user_input num) vs = Inr parts"
    and eq: "t = js_trim (js_join '' '' (concat (map fst parts)))" "images = concat (map snd parts)"
    using assms by (auto simp: parseUserInputs_def split: sum.splits)
  show ?thesis unfolding eq using concat_images [OF map_throwing_Inr [OF parts]] by simp
qed

lemma user_message_built:
  assumes "user_message_item num i r = Inr it" "i \<noteq> []"
  shows "item_built it \<and> item_id it = i"
proof -
  obtain t images where p: "parseUserInputs num (array_of (field r ''content'')) = Inr (t, images)"
    and it: "it = Message i User t (if images \<noteq> [] then Some images else None)"
    using assms(1) by (auto simp: user_message_item_def split: sum.splits)
  show ?thesis unfolding it using parsed_inputs [OF p] assms(2) by simp
qed

lemma map_sum_Inr: "map_sum id f x = Inr y \<longleftrightarrow> (\<exists>z. x = Inr z \<and> y = f z)"
  by (cases x) auto

lemma live_item_built:
  assumes "buildConversationItem num v = Inr (Some it)" "object_of v = Inr r"
  shows "item_built it \<and> item_id it = asString num (field r ''id'')"
proof -
  let ?i = "asString num (field r ''id'')" and ?t = "asString num (field r ''type'')"
  from assms have "?i \<noteq> []" and "user_message_item num ?i r = Inr it \<or> simple_item num ?t ?i r = Some it"
    by (auto simp: buildConversationItem_def Let_def map_sum_Inr split: if_splits)
  then show ?thesis using user_message_built simple_item_built by blast
qed

lemma thread_item_built:
  assumes "buildConversationItemFromThreadItem num v = Inr (Some it)" "object_of v = Inr r"
  shows "item_built it \<and> item_id it = asString num (field r ''id'')"
proof -
  let ?i = "asString num (field r ''id'')"
  from assms have i: "?i \<noteq> []"
    and "user_message_item num ?i r = Inr it \<or> buildConversationItem num v = Inr (Some it) \<or>
      it = Message ?i Assistant (asString num (field r ''text'')) None \<or>
      it = Reasoning ?i (lines_field num r ''summary'') (lines_field num r ''content'')"
    by (auto simp: buildConversationItemFromThreadItem_def Let_def map_sum_Inr split: if_splits)
  from this(2) show ?thesis
  proof (elim disjE)
    assume "user_message_item num ?i r = Inr it"
    then show ?thesis using i by (rule user_message_built)
  next
    assume "buildConversationItem num v = Inr (Some it)"
    then show ?thesis using assms(2) by (rule live_item_built)
  qed (simp_all add: i)
qed

lemma build_object:
  "buildConversationItemFromThreadItem num v = Inr x \<Longrightarrow> \<exists>r. object_of v = Inr r"
  by (auto simp: buildConversationItemFromThreadItem_def split: sum.splits)

lemma built_item: "buildConversationItemFromThreadItem num v = Inr (Some it) \<Longrightarrow> item_built it"
  using build_object thread_item_built by blast

text \<open>C36: what a snapshot becomes.  When the items of a thread are built, every one has an identifier that is
  not empty, is a message, reasoning, review or tool, has a status in normal form, and changes, images and
  references that are never empty: the reducer relies on all of these, and the service guarantees none.\<close>

theorem snapshot_items_wellformed:
  assumes "buildItemsFromThread num thread = Inr items"
  shows "list_all item_built items"
proof -
  obtain raw built where built: "map_throwing (buildConversationItemFromThreadItem num) raw = Inr built"
    and items: "items = List.map_filter (\<lambda>x. x) built"
    using assms by (auto simp: buildItemsFromThread_def map_sum_Inr split: sum.splits)
  from map_throwing_Inr [OF built] show ?thesis unfolding items
  proof (induction rule: list_all2_induct)
    case (Cons v vs x xs)
    then show ?case by (cases x) (simp_all add: map_filter_Cons built_item)
  qed (simp add: map_filter_empty)
qed

text \<open>A thread with a message and a review that has started.\<close>

definition example_thread :: js_object where
  "example_thread = [(''turns'', Arr [Obj [(''items'', Arr [
     Obj [(''type'', Str ''userMessage''), (''id'', Str ''u''),
       (''content'', Arr [Obj [(''type'', Str ''text''), (''text'', Str ''hi'')]])],
     Obj [(''type'', Str ''enteredReviewMode''), (''id'', Str ''r''), (''review'', Str ''x'')]])]])]"

lemma example_thread_built:
  "buildItemsFromThread (\<lambda>_. []) example_thread = Inr [Message ''u'' User ''hi'' None, Review ''r'' Started ''x'']"
  by code_simp

theorem snapshot_items_wellformed_witness:
  "list_all item_built [Message ''u'' User ''hi'' None, Review ''r'' Started ''x'']"
  by (rule snapshot_items_wellformed [OF example_thread_built])

section \<open>The review mode\<close>

lemma build_review:
  assumes "buildConversationItemFromThreadItem num v = Inr x" "object_of v = Inr r"
    "asString num (field r ''id'') \<noteq> []"
  shows "(case x of Some (Review i st t) \<Rightarrow> st = Started | _ \<Rightarrow> b) = review_flag num v b"
proof -
  let ?i = "asString num (field r ''id'')" and ?t = "asString num (field r ''type'')"
  have flag: "review_flag num v b = (if ?t = ''enteredReviewMode'' then True else if ?t = ''exitedReviewMode'' then False else b)"
    by (simp add: review_flag_def object_of_field [OF assms(2)] Let_def)
  consider "?t = ''userMessage''" | "?t = ''agentMessage''" | "?t = ''reasoning''" | "?t = []"
    | "?t \<noteq> []" "?t \<noteq> ''userMessage''" "?t \<noteq> ''agentMessage''" "?t \<noteq> ''reasoning''" by blast
  then show ?thesis
  proof cases
    case 1
    then obtain it where "x = Some it" "user_message_item num ?i r = Inr it"
      using assms by (auto simp: buildConversationItemFromThreadItem_def map_sum_Inr)
    then obtain t images where "x = Some (Message ?i User t images)"
      by (auto simp: user_message_item_def split: sum.splits)
    then show ?thesis using 1 by (simp add: flag)
  next
    case 5
    then have "x = simple_item num ?t ?i r"
      using assms by (simp add: buildConversationItemFromThreadItem_def buildConversationItem_def)
    then show ?thesis using 5 by (simp add: flag simple_item_def Let_def)
  qed (use assms in \<open>auto simp: flag buildConversationItemFromThreadItem_def\<close>)
qed

definition last_review :: "conversation_item list \<Rightarrow> bool \<Rightarrow> bool" where
  "last_review items b = fold (\<lambda>it b. case it of Review i st t \<Rightarrow> st = Started | _ \<Rightarrow> b) items b"

lemma last_review_filter:
  "last_review items b = (let reviews = filter (\<lambda>it. kind_of it = KReview) items
     in if reviews = [] then b else rv_state (last reviews) = Started)"
  by (induction items rule: rev_induct) (auto simp: last_review_def Let_def split: conversation_item.split)

definition has_id :: "number_text \<Rightarrow> js_value \<Rightarrow> bool" where
  "has_id num v \<longleftrightarrow> asString num (field_if_any v ''id'') \<noteq> []"

lemma build_reviews:
  "list_all2 (\<lambda>v x. buildConversationItemFromThreadItem num v = Inr x) vs xs \<Longrightarrow> list_all (has_id num) vs \<Longrightarrow>
     fold (review_flag num) vs b = last_review (List.map_filter (\<lambda>x. x) xs) b"
proof (induction arbitrary: b rule: list_all2_induct)
  case (Cons v vs x xs)
  obtain r where r: "object_of v = Inr r" using build_object [OF Cons.hyps(1)] by blast
  have "asString num (field r ''id'') \<noteq> []" using Cons.prems by (simp add: has_id_def object_of_field [OF r])
  note review = build_review [OF Cons.hyps(1) r this, of b]
  have "fold (review_flag num) vs (review_flag num v b) = last_review (List.map_filter (\<lambda>x. x) xs) (review_flag num v b)"
    using Cons.IH Cons.prems by simp
  moreover have "last_review (List.map_filter (\<lambda>x. x) (x # xs)) b =
      last_review (List.map_filter (\<lambda>x. x) xs) (review_flag num v b)"
    unfolding review [symmetric] by (cases x) (simp_all add: map_filter_Cons last_review_def)
  ultimately show ?case by simp
qed (simp add: last_review_def map_filter_empty)

text \<open>C37: the two readings of a snapshot agree.  When the items of a thread can be built and all have an
  identifier, \<open>isReviewingFromThread\<close> says that a review is under way exactly when the last review among the
  built items is one that has started; it never throws when the builder does not.\<close>

theorem review_mode_of_snapshot:
  assumes "buildItemsFromThread num thread = Inr items"
    "thread_items thread = Inr raw" "list_all (has_id num) raw"
  shows "isReviewingFromThread num thread = Inr (let reviews = filter (\<lambda>it. kind_of it = KReview) items
     in reviews \<noteq> [] \<and> rv_state (last reviews) = Started)"
proof -
  obtain built where built: "map_throwing (buildConversationItemFromThreadItem num) raw = Inr built"
    and items: "items = List.map_filter (\<lambda>x. x) built"
    using assms(1,2) by (auto simp: buildItemsFromThread_def map_sum_Inr)
  show ?thesis
    using build_reviews [OF map_throwing_Inr [OF built] assms(3), of False]
    by (simp add: isReviewingFromThread_def assms(2) items last_review_filter Let_def)
qed

definition example_items :: "js_value list" where
  "example_items = (case thread_items example_thread of Inl e \<Rightarrow> [] | Inr items \<Rightarrow> items)"

lemma example_thread_items:
  "thread_items example_thread = Inr example_items" "list_all (has_id (\<lambda>_. [])) example_items"
  by code_simp+

theorem review_mode_of_snapshot_witness: "isReviewingFromThread (\<lambda>_. []) example_thread = Inr True"
  using review_mode_of_snapshot [OF example_thread_built example_thread_items] by simp

section \<open>Live items and items of a snapshot\<close>

text \<open>An item that arrives live becomes the same item as in a snapshot, but for two types.  A message of
  the agent is not built from a live item (its text is streamed), and the summary of a reasoning item
  that is an array is joined line by line in a snapshot and with commas when it arrives live.\<close>

theorem live_and_snapshot_items:
  "buildConversationItemFromThreadItem num v =
     (case object_of v of Inl e \<Rightarrow> Inl e
      | Inr r \<Rightarrow>
         let type = asString num (field r ''type''); i = asString num (field r ''id'')
         in if i \<noteq> [] \<and> type = ''agentMessage'' then Inr (Some (Message i Assistant (asString num (field r ''text'')) None))
            else if i \<noteq> [] \<and> type = ''reasoning'' then
              (case field r ''summary'' of
                 Arr vs \<Rightarrow> map_sum id (map_option (\<lambda>it. Reasoning i (js_join [CHR 0x0A] (map (asString num) vs)) (rs_content it)))
                   (buildConversationItem num v)
               | _ \<Rightarrow> buildConversationItem num v)
            else buildConversationItem num v)"
  by (auto simp: buildConversationItemFromThreadItem_def buildConversationItem_def simple_item_def lines_field_def
      Let_def split: sum.split js_value.split)

lemma live_reasoning_summary:
  assumes "object_of v = Inr r" "asString num (field r ''id'') = i" "i \<noteq> []"
    "field r ''type'' = Str ''reasoning''" "field r ''summary'' = Arr (map Str ss)"
  shows "buildConversationItem num v = Inr (Some (Reasoning i (js_join '','' ss) (lines_field num r ''content'')))"
  using assms
  by (simp add: buildConversationItem_def simple_item_def text_field_def js_nullish_def asString_def comp_def)

end
