(* ===== verification/SchemaErrors.thy ===== *)
theory SchemaErrors
  imports ToolPreflight JsText
begin

text \<open>
  The readers of errors: \<^verbatim>\<open>src/packages/code-runtime-client/src/webMcpInputSchemaValidationError.ts\<close>, which finds
  the result of a schema check in an error that other layers have wrapped or turned into a text, and
  \<open>toRuntimeRpcInvocationError\<close> of \<^verbatim>\<open>runtimeClientErrorUtils.ts\<close> with the inference of its code from
  \<^verbatim>\<open>codeRuntimeRpcCompat.ts\<close>.  As in \<open>RuntimeErrors\<close> an \<open>Error\<close> is an object with its fields, and the objects
  that the code has seen, kept against cycles, never come twice in a \<open>js_value\<close>.
\<close>

section \<open>The result of a check, read from an error\<close>

text \<open>A result whose entries need not be strings.\<close>

record raw_result =
  rr_errors :: "js_value list"
  rr_warnings :: "js_value list"
  rr_missingRequired :: "js_value list"
  rr_typeMismatches :: "js_value list"
  rr_extraFields :: "js_value list"

definition raw_of :: "schema_result \<Rightarrow> raw_result" where
  "raw_of v = \<lparr>rr_errors = map Str (sr_errors v), rr_warnings = map Str (sr_warnings v),
     rr_missingRequired = map Str (sr_missingRequired v), rr_typeMismatches = map Str (sr_typeMismatches v),
     rr_extraFields = map Str (sr_extraFields v)\<rparr>"

definition cloneSchemaValidationResult :: "js_value \<Rightarrow> raw_result" where
  "cloneSchemaValidationResult v =
     (case v of Obj r \<Rightarrow> \<lparr>rr_errors = array_of (field r ''errors''), rr_warnings = array_of (field r ''warnings''),
         rr_missingRequired = array_of (field r ''missingRequired''),
         rr_typeMismatches = array_of (field r ''typeMismatches''), rr_extraFields = array_of (field r ''extraFields'')\<rparr>
      | _ \<Rightarrow> raw_of empty_result)"

definition isValidationScope :: "js_value \<Rightarrow> bool" where
  "isValidationScope v = (v \<in> set (map Str [''write'', ''runtime'', ''createMessage'', ''elicitInput'']))"

definition isSchemaValidationResultLike :: "js_value \<Rightarrow> bool" where
  "isSchemaValidationResultLike v =
     (case v of Obj r \<Rightarrow> list_all (\<lambda>k. isArray (field r k))
         [''errors'', ''warnings'', ''missingRequired'', ''typeMismatches'', ''extraFields'']
      | _ \<Rightarrow> False)"

definition normalizeSchemaValidationResult :: "js_value \<Rightarrow> schema_result" where
  "normalizeSchemaValidationResult v =
     (case v of
        Obj r \<Rightarrow> if \<not> isSchemaValidationResultLike v then empty_result
          else \<lparr>sr_errors = schema_strings (field r ''errors''), sr_warnings = schema_strings (field r ''warnings''),
            sr_missingRequired = schema_strings (field r ''missingRequired''),
            sr_typeMismatches = schema_strings (field r ''typeMismatches''),
            sr_extraFields = schema_strings (field r ''extraFields'')\<rparr>
      | _ \<Rightarrow> empty_result)"

definition isWebMcpInputSchemaValidationError :: "js_value \<Rightarrow> bool" where
  "isWebMcpInputSchemaValidationError v =
     (case v of Obj r \<Rightarrow> field r ''name'' = Str ''WebMcpInputSchemaValidationError'' \<and>
         as_string (field r ''toolName'') \<noteq> None \<and> isValidationScope (field r ''scope'') \<and>
         isSchemaValidationResultLike (field r ''validation'')
      | _ \<Rightarrow> False)"

fun orElse :: "'a option \<Rightarrow> 'a option \<Rightarrow> 'a option" where
  "orElse None b = b"
| "orElse (Some a) b = Some a"

function extractSchemaValidationResultFromRecord :: "js_value \<Rightarrow> schema_result option" where
  "extractSchemaValidationResultFromRecord v =
     (case v of
        Obj r \<Rightarrow>
          if isSchemaValidationResultLike (field r ''validation'')
          then Some (normalizeSchemaValidationResult (field r ''validation''))
          else orElse (extractSchemaValidationResultFromRecord (field r ''details''))
            (orElse (extractSchemaValidationResultFromRecord (field r ''error''))
              (extractSchemaValidationResultFromRecord (field r ''cause'')))
      | _ \<Rightarrow> None)"
  by pat_completeness auto
termination
proof (relation "measure (\<lambda>v. error_weight v)")
  have "error_weight (field r k) < error_weight (Obj r)" for r k
    using field_weights [of k "k @ ''a''" "k @ ''b''" r] by (simp add: error_weight_def)
  then show "v = Obj r \<Longrightarrow> (field r ''details'', v) \<in> measure (\<lambda>v. error_weight v)"
    "v = Obj r \<Longrightarrow> (field r ''error'', v) \<in> measure (\<lambda>v. error_weight v)"
    "v = Obj r \<Longrightarrow> (field r ''cause'', v) \<in> measure (\<lambda>v. error_weight v)" for v r
    by simp_all
qed simp

declare extractSchemaValidationResultFromRecord.simps [simp del]

definition extractSchemaValidationResult :: "js_value \<Rightarrow> raw_result option" where
  "extractSchemaValidationResult v =
     (if isWebMcpInputSchemaValidationError v
      then map_option (\<lambda>r. cloneSchemaValidationResult (field r ''validation'')) (as_object v)
      else map_option raw_of (extractSchemaValidationResultFromRecord v))"

section \<open>The result of a check, read from its message\<close>

text \<open>The text after the first occurrence of a marker.\<close>

fun text_after :: "string \<Rightarrow> string \<Rightarrow> string option" where
  "text_after m [] = None"
| "text_after m (c # s) = (if prefix m (c # s) then Some (drop (length m) (c # s)) else text_after m s)"

text \<open>\<open>s.split(sep)\<close> for a text that is not empty; \<open>skip\<close> characters of a separator are still to be passed.\<close>

fun split_from :: "string \<Rightarrow> nat \<Rightarrow> string \<Rightarrow> string \<Rightarrow> string list" where
  "split_from sep skip acc [] = [acc]"
| "split_from sep skip acc (c # s) =
     (if 0 < skip then split_from sep (skip - 1) acc s
      else if prefix sep (c # s) then acc # split_from sep (length sep - 1) [] s
      else split_from sep 0 (acc @ [c]) s)"

definition extractSchemaValidationFromLegacyMessage :: "string \<Rightarrow> schema_result option" where
  "extractSchemaValidationFromLegacyMessage message =
     (if \<not> starts_with message ''Input schema validation failed for '' then None
      else case text_after '': '' message of None \<Rightarrow> None
        | Some rest \<Rightarrow>
            let details = trimmed_entries (split_from ''; '' 0 [] rest)
            in if details = [] then None else Some (empty_result\<lparr>sr_errors := details\<rparr>))"

text \<open>\<open>error instanceof Error\<close> is the first argument.\<close>

definition resolveWebMcpErrorMessage :: "bool \<Rightarrow> js_value \<Rightarrow> string" where
  "resolveWebMcpErrorMessage isError e =
     (if isError then getErrorMessage e
      else case e of
        Str s \<Rightarrow> s
      | Obj r \<Rightarrow> (case toNonEmptyString (field r ''message'') of
          Some _ \<Rightarrow> nullish (as_string (field r ''message'')) []
        | None \<Rightarrow> (case toNonEmptyString (field r ''code'') of
            Some _ \<Rightarrow> ''Request failed ('' @ nullish (as_string (field r ''code'')) [] @ '').''
          | None \<Rightarrow> ''Request failed.''))
      | _ \<Rightarrow> ''Request failed.'')"

section \<open>Errors of remote procedure calls\<close>

record invocation_error =
  ie_code :: string
  ie_message :: string
  ie_details :: js_value

text \<open>\<open>\b\<close> before and after a word, for a pattern that is only tested.\<close>

definition Word :: "string \<Rightarrow> re" where
  "Word s = Seqs [Word_start, Lit_i s, Word_end]"

text \<open>\<open>\bfirst .* last\b\<close>: a word boundary at both ends only.\<close>

definition Words :: "string list \<Rightarrow> re" where
  "Words ss = Seqs ([Word_start]
     @ tl (concat (map (\<lambda>s. [Star Dot, Lit_i s]) ss)) @ [Word_end])"

definition METHOD_NOT_FOUND_MESSAGE_PATTERNS :: "re list" where
  "METHOD_NOT_FOUND_MESSAGE_PATTERNS =
     [Sequ Bol (Lit_i ''unsupported rpc method:''), Word ''method not found'', Word ''unknown method'',
      Word ''unknown command'', Words [''command '', '' not found''],
      Words [''invalid args '', '' command '', '' not found'']]"

definition isCodeRuntimeRpcMethodNotFoundErrorCode :: "js_value \<Rightarrow> bool" where
  "isCodeRuntimeRpcMethodNotFoundErrorCode code =
     (case as_string code of None \<Rightarrow> False
      | Some s \<Rightarrow> js_trim s \<in> set [''METHOD_NOT_FOUND'', ''METHOD_NOT_FOUND_ERROR'', ''METHOD-NOT-FOUND'',
          ''method_not_found'', ''method-not-found''])"

definition inferCodeRuntimeRpcMethodNotFoundCodeFromMessage :: "js_value \<Rightarrow> string option" where
  "inferCodeRuntimeRpcMethodNotFoundCodeFromMessage message =
     (case toNonEmptyString message of None \<Rightarrow> None
      | Some trimmed \<Rightarrow>
          if list_ex (\<lambda>p. re_test p trimmed) METHOD_NOT_FOUND_MESSAGE_PATTERNS then Some ''METHOD_NOT_FOUND'' else None)"

definition normalizeRuntimeRpcError :: "js_object \<Rightarrow> invocation_error option" where
  "normalizeRuntimeRpcError r =
     (case toNonEmptyString (field r ''message'') of None \<Rightarrow> None
      | Some message \<Rightarrow>
          Some \<lparr>ie_code = nullish (nullish2 (toNonEmptyString (field r ''code''))
              (inferCodeRuntimeRpcMethodNotFoundCodeFromMessage (Str message))) ''INTERNAL_ERROR'',
            ie_message = message, ie_details = field r ''details''\<rparr>)"

definition toRuntimeRpcInvocationError :: "js_value \<Rightarrow> invocation_error option" where
  "toRuntimeRpcInvocationError cause =
     (case cause of Str s \<Rightarrow> normalizeRuntimeRpcError [(''message'', Str s)]
      | _ \<Rightarrow> (case as_object cause of None \<Rightarrow> None
          | Some r \<Rightarrow> nullish2 (normalizeRuntimeRpcError (nullish (as_object (field r ''error'')) []))
              (normalizeRuntimeRpcError r)))"

end
