(* ===== verification/SchemaErrorFacts.thy ===== *)
theory SchemaErrorFacts
  imports SchemaErrors
begin

text \<open>
  The result of a schema check survives its way to the caller: wrapped by other layers as \<open>details\<close>, \<open>error\<close> or
  \<open>cause\<close> it is read back whole, and from the message alone its errors are.
\<close>

section \<open>Wrapped errors\<close>

datatype error_layer = InDetails js_object | InError js_object | InCause js_object

text \<open>A layer around an error: a record with the error in one of the three fields.\<close>

fun wrap :: "error_layer \<Rightarrow> js_value \<Rightarrow> js_value" where
  "wrap (InDetails r) e = Obj ((''details'', e) # r)"
| "wrap (InError r) e = Obj ((''error'', e) # r)"
| "wrap (InCause r) e = Obj ((''cause'', e) # r)"

text \<open>A layer in which no other result is found before the error: it has none itself, and none can be read from
  a field that is looked at before the one that holds the error.\<close>

fun clean_layer :: "error_layer \<Rightarrow> bool" where
  "clean_layer (InDetails r) \<longleftrightarrow> \<not> isSchemaValidationResultLike (field r ''validation'')"
| "clean_layer (InError r) \<longleftrightarrow> \<not> isSchemaValidationResultLike (field r ''validation'')
     \<and> extractSchemaValidationResultFromRecord (field r ''details'') = None"
| "clean_layer (InCause r) \<longleftrightarrow> \<not> isSchemaValidationResultLike (field r ''validation'')
     \<and> extractSchemaValidationResultFromRecord (field r ''details'') = None
     \<and> extractSchemaValidationResultFromRecord (field r ''error'') = None"

lemma field_Cons: "field ((k, v) # r) x = (if x = k then v else field r x)"
  by (simp add: field_def)

lemma extract_Obj:
  "extractSchemaValidationResultFromRecord (Obj r) =
     (if isSchemaValidationResultLike (field r ''validation'')
      then Some (normalizeSchemaValidationResult (field r ''validation''))
      else orElse (extractSchemaValidationResultFromRecord (field r ''details''))
        (orElse (extractSchemaValidationResultFromRecord (field r ''error''))
          (extractSchemaValidationResultFromRecord (field r ''cause''))))"
  by (subst extractSchemaValidationResultFromRecord.simps) simp

lemma extract_no_object: "as_object v = None \<Longrightarrow> extractSchemaValidationResultFromRecord v = None"
  by (subst extractSchemaValidationResultFromRecord.simps) (cases v; simp)

lemma schema_strings_Str: "schema_strings (Arr (map Str xs)) = xs"
  by (induction xs) (simp_all add: List.map_filter_def)

text \<open>The \<open>validation\<close> of the error that the preflight throws.\<close>

definition carried :: "schema_result \<Rightarrow> js_value" where
  "carried v = Obj [(''errors'', Arr (map Str (sr_errors v))), (''warnings'', Arr (map Str (sr_warnings v))),
     (''missingRequired'', Arr (map Str (sr_missingRequired v))),
     (''typeMismatches'', Arr (map Str (sr_typeMismatches v))), (''extraFields'', Arr (map Str (sr_extraFields v)))]"

lemma carried_validation:
  "\<exists>r. schema_validation_error toolName scope v = Obj r \<and> field r ''validation'' = carried v"
  by (simp add: schema_validation_error_def Let_def carried_def field_def)

lemma carried_like: "isSchemaValidationResultLike (carried v)"
  by (simp add: isSchemaValidationResultLike_def carried_def field_def)

lemma carried_fields:
  "field [(''errors'', a), (''warnings'', b), (''missingRequired'', c), (''typeMismatches'', d), (''extraFields'', e)] ''errors'' = a"
  "field [(''errors'', a), (''warnings'', b), (''missingRequired'', c), (''typeMismatches'', d), (''extraFields'', e)] ''warnings'' = b"
  "field [(''errors'', a), (''warnings'', b), (''missingRequired'', c), (''typeMismatches'', d), (''extraFields'', e)] ''missingRequired'' = c"
  "field [(''errors'', a), (''warnings'', b), (''missingRequired'', c), (''typeMismatches'', d), (''extraFields'', e)] ''typeMismatches'' = d"
  "field [(''errors'', a), (''warnings'', b), (''missingRequired'', c), (''typeMismatches'', d), (''extraFields'', e)] ''extraFields'' = e"
  by (simp_all add: field_def)

lemma normalize_carried: "normalizeSchemaValidationResult (carried v) = v"
proof -
  have "normalizeSchemaValidationResult (carried v) = \<lparr>sr_errors = sr_errors v, sr_warnings = sr_warnings v,
      sr_missingRequired = sr_missingRequired v, sr_typeMismatches = sr_typeMismatches v, sr_extraFields = sr_extraFields v\<rparr>"
    using carried_like [of v]
    by (simp only: normalizeSchemaValidationResult_def carried_def js_value.case simp_thms if_False carried_fields schema_strings_Str)
  then show ?thesis by simp
qed

lemma clone_carried: "cloneSchemaValidationResult (carried v) = raw_of v"
  by (simp only: cloneSchemaValidationResult_def carried_def js_value.case carried_fields array_of.simps raw_of_def)

lemma extract_carried:
  "field r ''validation'' = carried v \<Longrightarrow> extractSchemaValidationResultFromRecord (Obj r) = Some v"
  by (simp add: extract_Obj carried_like normalize_carried)

lemma extract_wrapped:
  assumes "clean_layer l" "extractSchemaValidationResultFromRecord e = Some v"
  shows "extractSchemaValidationResultFromRecord (wrap l e) = Some v"
  using assms
  by (cases l) (simp_all add: extract_Obj field_Cons)

lemma wrapped_not_error: "clean_layer l \<Longrightarrow> \<not> isWebMcpInputSchemaValidationError (wrap l e)"
  by (cases l) (simp_all add: isWebMcpInputSchemaValidationError_def field_Cons)

text \<open>C38: the result of a schema check can be read back from the error that reports it, however many layers wrap it
  as their details, error or cause, as long as no layer leads to another result first:
  \<open>extractSchemaValidationResult\<close> returns the result that \<open>WebMcpInputSchemaValidationError\<close> was made
  with, all five lists of it.  A layer leads to another result first when it has one as its own
  \<open>validation\<close>, or has one in its details while the error is in its error or cause, or in its error
  while the error is in its cause: the code then returns that one.\<close>

theorem schema_result_roundtrip:
  assumes "list_all clean_layer layers"
  shows "extractSchemaValidationResult (foldr wrap layers (schema_validation_error toolName scope v)) = Some (raw_of v)"
proof -
  obtain r where r: "schema_validation_error toolName scope v = Obj r" "field r ''validation'' = carried v"
    using carried_validation by blast
  have inner: "extractSchemaValidationResultFromRecord (foldr wrap ls (Obj r)) = Some v" if "list_all clean_layer ls" for ls
    using that by (induction ls) (simp_all add: extract_carried [OF r(2)] extract_wrapped)
  show ?thesis
  proof (cases layers)
    case Nil
    then show ?thesis
      by (simp add: r extractSchemaValidationResult_def extract_carried [OF r(2)] clone_carried)
  next
    case (Cons l ls)
    then show ?thesis
      using inner [OF assms] assms wrapped_not_error
      by (simp add: r extractSchemaValidationResult_def)
  qed
qed

theorem schema_result_roundtrip_witness:
  "extractSchemaValidationResult
     (wrap (InCause [(''message'', Str ''failed'')]) (wrap (InDetails [])
       (schema_validation_error ''t'' ScRuntime (empty_result\<lparr>sr_errors := [''e'']\<rparr>))))
   = Some (raw_of (empty_result\<lparr>sr_errors := [''e'']\<rparr>))"
  using schema_result_roundtrip [of "[InCause [(''message'', Str ''failed'')], InDetails []]" "''t''" ScRuntime
      "empty_result\<lparr>sr_errors := [''e'']\<rparr>"]
  by (simp add: isSchemaValidationResultLike_def field_def extract_no_object)

section \<open>The legacy message\<close>

lemma text_after_marker: "\<not> str_includes a '': '' \<Longrightarrow> text_after '': '' (a @ '': '' @ d) = Some d"
proof (induction a)
  case (Cons c a)
  have "\<not> prefix '': '' ((c # a) @ '': '' @ d)"
    using Cons.prems by (cases a) (auto simp: prefix_def)
  then have "text_after '': '' ((c # a) @ '': '' @ d) = text_after '': '' (a @ '': '' @ d)"
    unfolding append_Cons by (simp only: text_after.simps if_False)
  then show ?case using Cons by simp
qed simp

lemma split_piece: "\<not> str_includes e ''; '' \<Longrightarrow> split_from ''; '' 0 acc (e @ ''; '' @ d) = (acc @ e) # split_from ''; '' 0 [] d"
proof (induction e arbitrary: acc)
  case (Cons c e)
  have "\<not> prefix ''; '' ((c # e) @ ''; '' @ d)"
    using Cons.prems by (cases e) (auto simp: prefix_def)
  then show ?case using Cons by simp
qed simp

lemma split_last: "\<not> str_includes e ''; '' \<Longrightarrow> split_from ''; '' 0 acc e = [acc @ e]"
proof (induction e arbitrary: acc)
  case (Cons c e)
  then have "\<not> prefix ''; '' (c # e)" by simp
  then show ?case using Cons by simp
qed simp

lemma split_joined:
  "es \<noteq> [] \<Longrightarrow> list_all (\<lambda>e. \<not> str_includes e ''; '') es \<Longrightarrow> split_from ''; '' 0 [] (js_join ''; '' es) = es"
proof (induction "''; ''" es rule: js_join.induct)
  case (3 e f es)
  then show ?case using split_piece [of e "[]" "js_join ''; '' (f # es)"] by simp
qed (simp_all add: split_last)

definition plain_error_text :: "string \<Rightarrow> bool" where
  "plain_error_text e \<longleftrightarrow> e \<noteq> [] \<and> js_trim e = e \<and> \<not> str_includes e ''; ''"

text \<open>From the message alone the errors are read back, one by one, when the name of the tool has no colon
  before a space and no error a semicolon before a space.\<close>

theorem schema_message_roundtrip:
  assumes "\<not> str_includes toolName '': ''" "sr_errors v \<noteq> []" "list_all plain_error_text (sr_errors v)"
  shows "extractSchemaValidationFromLegacyMessage (getErrorMessage (schema_validation_error toolName scope v))
    = Some (empty_result\<lparr>sr_errors := sr_errors v\<rparr>)"
proof -
  let ?start = "''Input schema validation failed for ''"
  have "\<not> str_includes (?start @ toolName) '': ''" using assms(1) by (simp add: prefix_def)
  note after = text_after_marker [OF this, of "js_join ''; '' (sr_errors v)"]
  have "split_from ''; '' 0 [] (js_join ''; '' (sr_errors v)) = sr_errors v"
    using assms(2,3) by (intro split_joined) (simp_all add: plain_error_text_def list_all_iff)
  moreover have "trimmed_entries (sr_errors v) = sr_errors v"
    using assms(3) unfolding trimmed_entries_def
    by (simp add: plain_error_text_def list_all_iff map_idI)
  moreover have "getErrorMessage (schema_validation_error toolName scope v)
      = (?start @ toolName) @ '': '' @ js_join ''; '' (sr_errors v)"
    using assms(2) by (simp add: schema_validation_error_def Let_def field_def)
  ultimately show ?thesis using after assms(2)
    by (simp add: extractSchemaValidationFromLegacyMessage_def)
qed

theorem schema_message_roundtrip_witness:
  "extractSchemaValidationFromLegacyMessage (getErrorMessage (schema_validation_error ''t'' ScRuntime
     (empty_result\<lparr>sr_errors := [''a: b'', ''c'']\<rparr>))) = Some (empty_result\<lparr>sr_errors := [''a: b'', ''c'']\<rparr>)"
proof -
  have "list_all plain_error_text [''a: b'', ''c'']" by code_simp
  then show ?thesis
    using schema_message_roundtrip [of "''t''" "empty_result\<lparr>sr_errors := [''a: b'', ''c'']\<rparr>" ScRuntime]
    by (simp add: empty_result_def prefix_def)
qed

end
