(* ===== verification/TaskGraphFacts.thy ===== *)
theory TaskGraphFacts
  imports TaskGraph SortFacts
begin

text \<open>What the readers of \<open>TaskGraph\<close> promise to the panels that show a graph.\<close>

section \<open>The nodes and edges of a snapshot\<close>

definition clean_text :: "string \<Rightarrow> bool" where
  "clean_text s \<longleftrightarrow> s \<noteq> [] \<and> js_trim s = s"

definition node_ok :: "graph_node \<Rightarrow> bool" where
  "node_ok n \<longleftrightarrow> clean_text (gn_id n) \<and> clean_text (gn_title n) \<and>
     list_all (pred_option clean_text) [gn_backendId n, gn_backendLabel n, gn_group n, gn_parentId n]"

definition edge_ok :: "graph_edge \<Rightarrow> bool" where
  "edge_ok e \<longleftrightarrow> clean_text (ge_fromId e) \<and> clean_text (ge_toId e) \<and> pred_option clean_text (ge_kind e)"

lemma text_clean: "pred_option clean_text (toNonEmptyString v)"
  by (simp add: toNonEmptyString_def clean_text_def Let_def split: option.split)

lemma text_clean_Some: "toNonEmptyString v = Some s \<Longrightarrow> clean_text s"
  using text_clean [of v] by simp

lemma first_text_clean: "pred_option clean_text (first_text r ks)"
proof -
  have "pred_option clean_text found \<Longrightarrow>
      pred_option clean_text (fold (\<lambda>k found. nullish2 found (toNonEmptyString (field r k))) ks found)" for found
  proof (induction ks arbitrary: found)
    case (Cons k ks)
    have "pred_option clean_text (nullish2 found (toNonEmptyString (field r k)))"
      using Cons.prems text_clean by (cases found) simp_all
    from Cons.IH [OF this] show ?case by simp
  qed simp
  then show ?thesis by (simp add: first_text_def)
qed

lemma nullish_clean: "pred_option clean_text a \<Longrightarrow> clean_text b \<Longrightarrow> clean_text (nullish a b)"
  by (cases a) simp_all

lemma digit_not_space: "d < 10 \<Longrightarrow> \<not> is_js_space (digit_char d)"
  by (simp add: is_js_space_def digit_char_def)

lemma show_nat_chars: "\<forall>c \<in> set (show_nat n). \<not> is_js_space c"
proof (induction n rule: show_nat.induct)
  case (1 n)
  then show ?case by (subst show_nat.simps) (auto simp: digit_not_space)
qed

lemma trim_no_space:
  assumes "\<forall>c \<in> set s. \<not> is_js_space c"
  shows "js_trim s = s"
proof -
  have "dropWhile is_js_space s = s" "dropWhile is_js_space (rev s) = rev s"
    using assms by (auto intro!: dropWhile_hd_id simp: hd_rev dest: hd_in_set last_in_set)
  then show ?thesis by (simp add: js_trim_def trim_start_def)
qed

lemma numbered_clean: "clean_text (''node-'' @ show_nat n)"
proof -
  have "\<forall>c \<in> set (''node-'' @ show_nat n). \<not> is_js_space c"
    using show_nat_chars [of n] by (auto simp: is_js_space_def)
  from trim_no_space [OF this] show ?thesis by (simp add: clean_text_def)
qed

lemma node_built:
  assumes "normalizeGraphNode entry = Some n"
  shows "node_ok n"
proof -
  obtain r where r: "toOptionalRecord (snd entry) = Some r"
    using assms by (auto simp: normalizeGraphNode_def split: option.splits)
  define i where "i = nullish (first_text r [''id'', ''nodeId'', ''node_id'', ''taskId'', ''task_id''])
    (''node-'' @ show_nat (fst entry + 1))"
  have "clean_text i" unfolding i_def by (intro nullish_clean first_text_clean numbered_clean)
  moreover have "gn_id n = i"
    "gn_title n = nullish (first_text r [''title'', ''label'', ''name'', ''role'', ''id'', ''taskId'']) i"
    "pred_option clean_text (gn_backendId n)" "pred_option clean_text (gn_backendLabel n)"
    "pred_option clean_text (gn_group n)" "pred_option clean_text (gn_parentId n)"
    using assms unfolding normalizeGraphNode_def r option.case Let_def i_def [symmetric] by (auto simp: text_clean)
  ultimately show ?thesis by (simp add: node_ok_def nullish_clean first_text_clean)
qed

lemma edge_built:
  assumes "normalizeGraphEdge v = Some e"
  shows "edge_ok e"
proof -
  have clean: "nullish2 (toNonEmptyString a) (toNonEmptyString b) = Some s \<Longrightarrow> clean_text s" for a b s
    by (cases "toNonEmptyString a") (auto intro: text_clean_Some)
  show ?thesis
    using assms unfolding normalizeGraphEdge_def Let_def
    by (auto simp: edge_ok_def text_clean dest: clean split: option.splits)
qed

lemma mapped_all: "(\<And>x y. f x = Some y \<Longrightarrow> P y) \<Longrightarrow> list_all P (List.map_filter f xs)"
  by (induction xs) (auto simp: List.map_filter_def split: option.splits)

lemma count_partition:
  "length (filter (\<lambda>n. f n = a) xs) + length (filter (\<lambda>n. f n = b) xs) + length (filter (\<lambda>n. f n = c) xs) \<le> length xs"
  if "a \<noteq> b" "a \<noteq> c" "b \<noteq> c"
  using that by (induction xs) auto

lemma derived_counts:
  "gs_runningNodes (normalizeSummary [] nodes) + gs_completedNodes (normalizeSummary [] nodes)
     + gs_failedNodes (normalizeSummary [] nodes) \<le> gs_totalNodes (normalizeSummary [] nodes)"
  using count_partition [of NodeRunning NodeCompleted NodeFailed gn_status nodes]
  by (simp add: normalizeSummary_def count_status_def field2_def field_def js_nullish_def flip: of_nat_add)

text \<open>A graph that is shown has something in it, and every node and edge of it can be named: the
  identifiers, titles and ends of edges are not empty and have no white space around them, whatever
  the value was that the graph was read from.\<close>

theorem task_graph_wellformed:
  assumes "normalizeDistributedTaskGraphSnapshot v = Some g"
  shows "(tg_nodes g \<noteq> [] \<or> tg_edges g \<noteq> []) \<and> list_all node_ok (tg_nodes g) \<and> list_all edge_ok (tg_edges g)"
proof -
  have "list_all node_ok (graph_nodes vs)" for vs
    unfolding graph_nodes_def by (rule mapped_all) (rule node_built)
  moreover have "list_all edge_ok (List.map_filter normalizeGraphEdge es)" for es
    by (rule mapped_all) (rule edge_built)
  ultimately show ?thesis
    using assms by (cases v) (auto simp: normalizeDistributedTaskGraphSnapshot_def Let_def split: if_splits)
qed

theorem task_graph_wellformed_witness:
  "case normalizeDistributedTaskGraphSnapshot (Arr [Obj [(''status'', Str ''done'')]]) of None \<Rightarrow> False
   | Some g \<Rightarrow> map gn_id (tg_nodes g) = [''node-1''] \<and> list_all node_ok (tg_nodes g)"
proof -
  have one: "show_nat (Suc 0) = ''1''" by code_simp
  let ?v = "Arr [Obj [(''status'', Str ''done'')]]"
  obtain g where g: "normalizeDistributedTaskGraphSnapshot ?v = Some g" "map gn_id (tg_nodes g) = [''node-1'']"
    by (simp add: normalizeDistributedTaskGraphSnapshot_def graph_nodes_def normalizeGraphNode_def List.map_filter_def
        first_text_def field_def toNonEmptyString_def Let_def one)
  from task_graph_wellformed [OF g(1)] show ?thesis by (simp add: g)
qed

section \<open>The groups\<close>

definition groups_ok :: "graph_node list \<Rightarrow> node_group list \<Rightarrow> bool" where
  "groups_ok nodes groups \<longleftrightarrow> distinct (map ng_id groups) \<and> ng_id ` set groups = group_key ` set nodes \<and>
     (\<forall>g \<in> set groups. ng_nodes g = filter (\<lambda>n. group_key n = ng_id g) nodes)"

lemma add_to_groups_ok:
  assumes "groups_ok nodes groups"
  shows "groups_ok (nodes @ [n]) (add_to_groups n groups)"
proof (cases "group_key n \<in> ng_id ` set groups")
  case True
  let ?f = "\<lambda>g. if ng_id g = group_key n then g\<lparr>ng_nodes := ng_nodes g @ [n]\<rparr> else g"
  have ids: "ng_id (?f g) = ng_id g" for g by simp
  have eq: "map ng_id (map ?f groups) = map ng_id groups" by (simp add: comp_def ids)
  have "ng_id ` set (map ?f groups) = set (map ng_id (map ?f groups))" by (simp only: set_map)
  also have "\<dots> = ng_id ` set groups" unfolding eq by simp
  also have "\<dots> = group_key ` set (nodes @ [n])" using assms True by (auto simp: groups_ok_def)
  finally have keys: "ng_id ` set (map ?f groups) = group_key ` set (nodes @ [n])" .
  have nodes: "ng_nodes g = filter (\<lambda>m. group_key m = ng_id g) (nodes @ [n])" if "g \<in> set (map ?f groups)" for g
    using that assms by (auto simp: groups_ok_def split: if_splits)
  have "distinct (map ng_id (map ?f groups))" unfolding eq using assms by (simp only: groups_ok_def)
  moreover have add: "add_to_groups n groups = map ?f groups" using True by (simp only: add_to_groups_def if_True)
  ultimately show ?thesis unfolding groups_ok_def add by (intro conjI ballI keys nodes)
next
  case False
  then have "filter (\<lambda>m. group_key m = group_key n) nodes = []"
    using assms unfolding groups_ok_def filter_empty_conv by (metis image_eqI)
  then show ?thesis using assms False by (auto simp: groups_ok_def add_to_groups_def image_iff)
qed

lemma groups_ok_fold: "groups_ok nodes (fold add_to_groups nodes [])"
  by (induction nodes rule: rev_induct) (simp_all add: groups_ok_def [of "[]"] add_to_groups_ok)

lemma groups_not_empty: "groups_ok nodes groups \<Longrightarrow> g \<in> set groups \<Longrightarrow> ng_nodes g \<noteq> []"
proof -
  assume ok: "groups_ok nodes groups" and g: "g \<in> set groups"
  then have "ng_id g \<in> group_key ` set nodes" unfolding groups_ok_def by blast
  then obtain n where "n \<in> set nodes" "group_key n = ng_id g" by force
  then have "n \<in> set (filter (\<lambda>n. group_key n = ng_id g) nodes)" by simp
  then show ?thesis using ok g unfolding groups_ok_def by (metis empty_iff list.set(1))
qed

text \<open>Grouping loses no node and repeats none.  The groups have distinct identifiers, one for every group
  key that occurs, and each holds exactly the nodes of its key in the order of the graph; none is empty.\<close>

theorem groups_partition_nodes:
  "let gs = groupDistributedTaskGraphNodesByBackend cmp nodes
   in distinct (map ng_id gs) \<and> ng_id ` set gs = group_key ` set nodes \<and>
      list_all (\<lambda>g. ng_nodes g = filter (\<lambda>n. group_key n = ng_id g) nodes \<and> ng_nodes g \<noteq> []) gs"
proof -
  let ?gs = "groupDistributedTaskGraphNodesByBackend cmp nodes"
  have "mset (map ng_id ?gs) = mset (map ng_id (fold add_to_groups nodes []))"
    by (simp add: groupDistributedTaskGraphNodesByBackend_def mset_js_sort)
  then have "distinct (map ng_id ?gs)"
    using groups_ok_fold [of nodes] mset_eq_imp_distinct_iff unfolding groups_ok_def by blast
  moreover have "set ?gs = set (fold add_to_groups nodes [])"
    by (simp add: groupDistributedTaskGraphNodesByBackend_def)
  ultimately show ?thesis
    using groups_ok_fold [of nodes] groups_not_empty [OF groups_ok_fold [of nodes]]
    by (simp add: groups_ok_def list_all_iff Let_def)
qed

text \<open>When the comparison of labels is a total preorder the groups are sorted by it.\<close>

lemma groups_sorted:
  assumes "\<And>a b. cmp a b \<le> 0 \<or> cmp b a \<le> 0" "\<And>a b c. cmp a b \<le> 0 \<Longrightarrow> cmp b c \<le> 0 \<Longrightarrow> cmp a c \<le> 0"
  shows "sorted_wrt (\<lambda>a b. cmp (ng_label a) (ng_label b) \<le> 0) (groupDistributedTaskGraphNodesByBackend cmp nodes)"
  unfolding groupDistributedTaskGraphNodesByBackend_def
  by (rule sorted_js_sort) (use assms in blast)+

end
