(* ===== verification/ThreadNormalize.thy ===== *)
theory ThreadNormalize
  imports ThreadItemBuilders ThreadState
begin

text \<open>
  The readers of the events of a thread that are not items:
  \<^verbatim>\<open>src/apps/code/src/features/threads/utils/threadNormalize.ts\<close>.  The runtime service and older versions of it
  spell a field in several ways and leave out what has not changed; the reader makes the values that the
  reducer stores.  The file's own \<open>asString\<close> and \<open>normalizeStringList\<close> are those of \<open>ThreadItemBuilders\<close>, its
  \<open>asFiniteNumber\<close> is \<open>finite_number_of\<close>.  A number that is not finite cannot come from JSON and counts as \<open>null\<close>.
\<close>

section \<open>Responses of the service\<close>

definition normalizeRootPath :: "string \<Rightarrow> string" where
  "normalizeRootPath s =
     rev (dropWhile (\<lambda>c. c = CHR ''/'') (rev (map (\<lambda>c. if c = CHR 0x5C then CHR ''/'' else c) s)))"

definition extractRpcErrorMessage :: "number_text \<Rightarrow> js_value \<Rightarrow> string option" where
  "extractRpcErrorMessage num response =
     (let err = field_if_any response ''error''
      in if js_falsy err then None
         else case err of
           Str s \<Rightarrow> Some s
         | Obj r \<Rightarrow> (let message = asString num (field r ''message'')
             in Some (if message \<noteq> [] then message else ''Request failed.''))
         | _ \<Rightarrow> Some ''Request failed.'')"

definition extractReviewThreadId :: "number_text \<Rightarrow> js_value \<Rightarrow> string option" where
  "extractReviewThreadId num response =
     (let result = field_if_any response ''result'';
          ofField = (\<lambda>v a b. js_nullish (field_if_any v a) (field_if_any v b))
      in some_text (asString num (js_nullish (ofField result ''reviewThreadId'' ''review_thread_id'')
           (ofField response ''reviewThreadId'' ''review_thread_id''))))"

section \<open>Token usage\<close>

definition token_count :: "js_value \<Rightarrow> rat" where
  "token_count v = nullish (finite_number_of v) 0"

definition token_breakdown_of :: "js_value \<Rightarrow> token_breakdown" where
  "token_breakdown_of v =
     (let count = (\<lambda>a b. token_count (js_nullish (field_if_any v a) (field_if_any v b)))
      in \<lparr>totalTokens = count ''totalTokens'' ''total_tokens'', inputTokens = count ''inputTokens'' ''input_tokens'',
          cachedInputTokens = count ''cachedInputTokens'' ''cached_input_tokens'',
          outputTokens = count ''outputTokens'' ''output_tokens'',
          reasoningOutputTokens = count ''reasoningOutputTokens'' ''reasoning_output_tokens''\<rparr>)"

fun context_window :: "js_value \<Rightarrow> rat option" where
  "context_window (Num n) = n"
| "context_window (Str s) = js_number_of_text s"
| "context_window _ = None"

definition normalizeTokenUsage :: "js_object option \<Rightarrow> thread_token_usage" where
  "normalizeTokenUsage raw =
     (let source = nullish raw []
      in \<lparr>tu_total = token_breakdown_of (field source ''total''), tu_last = token_breakdown_of (field source ''last''),
          modelContextWindow = context_window (field2 source ''modelContextWindow'' ''model_context_window'')\<rparr>)"

section \<open>Rate limits\<close>

definition clampPercentage :: "rat \<Rightarrow> rat" where
  "clampPercentage v = min (max v 0) 100"

definition readOptionalNumber :: "js_value \<Rightarrow> rat option \<Rightarrow> rat option" where
  "readOptionalNumber candidate fallback = nullish2 (finite_number_of candidate) fallback"

definition used_percent :: "js_object \<Rightarrow> rate_limit_window option \<Rightarrow> rat option" where
  "used_percent source previous =
     (case finite_number_of (field2 source ''usedPercent'' ''used_percent'') of
        Some directUsed \<Rightarrow> Some (clampPercentage directUsed)
      | None \<Rightarrow>
        (case finite_number_of (js_nullish (field2 source ''remainingPercent'' ''remaining_percent'')
                (field source ''remaining'')) of
           Some remaining \<Rightarrow> Some (clampPercentage (dbl (100 - remaining)))
         | None \<Rightarrow> map_option usedPercent previous))"

definition normalizeRateLimitWindow :: "js_object \<Rightarrow> rate_limit_window option \<Rightarrow> rate_limit_window option" where
  "normalizeRateLimitWindow source previous =
     map_option (\<lambda>used. \<lparr>usedPercent = used,
         windowDurationMins = readOptionalNumber (field2 source ''windowDurationMins'' ''window_duration_mins'')
           (Option.bind previous windowDurationMins),
         resetsAt = readOptionalNumber (field2 source ''resetsAt'' ''resets_at'') (Option.bind previous resetsAt)\<rparr>)
       (used_percent source previous)"

definition normalizeCreditsSnapshot :: "js_object \<Rightarrow> credits_snapshot option \<Rightarrow> credits_snapshot" where
  "normalizeCreditsSnapshot source previous =
     \<lparr>hasCredits = nullish (nullish2 (as_bool (field2 source ''hasCredits'' ''has_credits''))
          (map_option hasCredits previous)) False,
      unlimited = nullish (nullish2 (as_bool (field source ''unlimited'')) (map_option unlimited previous)) False,
      cr_balance = (case field source ''balance'' of Str s \<Rightarrow> Some s | Null \<Rightarrow> None
          | _ \<Rightarrow> Option.bind previous cr_balance)\<rparr>"

text \<open>A part of the snapshot: \<open>null\<close> clears it, an object updates it, anything else and no such key leave it.\<close>

definition updated_part :: "(js_object \<Rightarrow> 'a option \<Rightarrow> 'a option) \<Rightarrow> js_object \<Rightarrow> string \<Rightarrow> 'a option \<Rightarrow> 'a option" where
  "updated_part f raw k previous =
     (if k \<in> fst ` set raw then
        (case field raw k of Null \<Rightarrow> None | Obj r \<Rightarrow> f r previous | _ \<Rightarrow> previous)
      else previous)"

definition has_key :: "js_object \<Rightarrow> string \<Rightarrow> string \<Rightarrow> bool" where
  "has_key raw a b = (a \<in> fst ` set raw \<or> b \<in> fst ` set raw)"

definition either_string :: "js_object \<Rightarrow> string \<Rightarrow> string \<Rightarrow> string option" where
  "either_string raw a b = nullish2 (as_string (field raw a)) (as_string (field raw b))"

definition trimmed_value :: "string option \<Rightarrow> string option" where
  "trimmed_value v = (case v of None \<Rightarrow> None | Some s \<Rightarrow> some_text (js_trim s))"

definition limit_text :: "js_object \<Rightarrow> string \<Rightarrow> string \<Rightarrow> string option option \<Rightarrow> string option option" where
  "limit_text raw a b previous =
     (let v = trimmed_value (either_string raw a b);
          resolved = nullish2 v (if has_key raw a b then None else Option.bind previous (\<lambda>x. x))
      in if has_key raw a b \<or> v \<noteq> None \<or> previous \<noteq> None then Some resolved else None)"

definition normalizeRateLimits :: "js_object \<Rightarrow> rate_limit_snapshot option \<Rightarrow> rate_limit_snapshot" where
  "normalizeRateLimits raw previous =
     \<lparr>rl_primary = updated_part normalizeRateLimitWindow raw ''primary'' (Option.bind previous rl_primary),
      rl_secondary = updated_part normalizeRateLimitWindow raw ''secondary'' (Option.bind previous rl_secondary),
      rl_credits = updated_part (\<lambda>r p. Some (normalizeCreditsSnapshot r p)) raw ''credits''
        (Option.bind previous rl_credits),
      rl_planType = nullish2 (either_string raw ''planType'' ''plan_type'')
        (if has_key raw ''planType'' ''plan_type'' then None else Option.bind previous rl_planType),
      rl_limitId = limit_text raw ''limitId'' ''limit_id'' (Option.bind previous rl_limitId),
      rl_limitName = limit_text raw ''limitName'' ''limit_name'' (Option.bind previous rl_limitName)\<rparr>"

section \<open>Plans\<close>

definition normalizePlanStepStatus :: "js_value \<Rightarrow> plan_step_status" where
  "normalizePlanStepStatus v =
     (let normalized = to_lower (filter (\<lambda>c. \<not> (c \<in> {CHR ''_'', CHR ''-''} \<or> is_js_space c)) (nullish (as_string v) []))
      in if normalized \<in> {''inprogress'', ''running'', ''active'', ''working''} then StepInProgress
         else if normalized \<in> {''completed'', ''done'', ''success'', ''succeeded'', ''finished''} then StepCompleted
         else if normalized \<in> {''blocked'', ''awaitingapproval'', ''waitingapproval'', ''needsapproval'', ''onhold''}
         then StepBlocked
         else if normalized \<in> {''failed'', ''error'', ''errored''} then StepFailed
         else if normalized \<in> {''cancelled'', ''canceled'', ''aborted'', ''interrupted'', ''stopped'', ''terminated''}
         then StepCancelled
         else StepPending)"

definition raw_steps :: "js_value \<Rightarrow> js_value list" where
  "raw_steps plan =
     (case plan of
        Arr vs \<Rightarrow> vs
      | Obj r \<Rightarrow> array_of (js_nullish (field2 r ''steps'' ''plan'') (field2 r ''items'' ''entries''))
      | _ \<Rightarrow> [])"

definition plan_step :: "number_text \<Rightarrow> js_value \<Rightarrow> turn_plan_step option" where
  "plan_step num v =
     (case v of
        Obj r \<Rightarrow>
          let step = asString num (js_nullish (field2 r ''step'' ''text'') (js_nullish (field r ''title'') (Str [])))
          in if step = [] then None
             else Some \<lparr>ps_step = step, ps_status = normalizePlanStepStatus (field r ''status'')\<rparr>
      | _ \<Rightarrow> None)"

definition plan_graph :: "js_value \<Rightarrow> task_graph option" where
  "plan_graph plan =
     (let f = field_if_any plan
      in normalizeDistributedTaskGraphSnapshot
           (js_nullish (f ''distributedGraph'') (js_nullish (f ''distributed_graph'')
             (js_nullish (f ''distributedTaskGraph'') (js_nullish (f ''distributed_task_graph'')
               (js_nullish (f ''graph'') Null))))))"

definition normalizePlanUpdate :: "number_text \<Rightarrow> string \<Rightarrow> js_value \<Rightarrow> js_value \<Rightarrow> turn_plan option" where
  "normalizePlanUpdate num turnId explanation plan =
     (let steps = List.map_filter (plan_step num) (raw_steps plan);
          note = js_trim (asString num (js_nullish explanation
            (js_nullish (field_if_any plan ''explanation'') (field_if_any plan ''note''))));
          graph = plan_graph plan
      in if steps = [] \<and> note = [] \<and> graph = None then None
         else Some \<lparr>tp_turnId = turnId, tp_explanation = some_text note, tp_steps = steps, tp_distributedGraph = graph\<rparr>)"

section \<open>The target of a review\<close>

datatype review_target =
  ReviewUncommitted | ReviewBranch string | ReviewCommit string "string option" | ReviewCustom string

definition review_command :: re where
  "review_command = Seqs [Bol, Lit_i ''/review'', Word_end]"

text \<open>\<open>s.split(/\s+/)\<close>\<close>

function split_spaces :: "string \<Rightarrow> string list" where
  "split_spaces s =
     (let w = takeWhile (\<lambda>c. \<not> is_js_space c) s; r = dropWhile (\<lambda>c. \<not> is_js_space c) s
      in if r = [] then [w] else w # split_spaces (dropWhile is_js_space r))"
  by pat_completeness auto
termination
proof (relation "measure length")
  fix s w r
  assume r: "r = dropWhile (\<lambda>c. \<not> is_js_space c) s" "r \<noteq> []"
  obtain c r' where c: "r = c # r'" using r(2) by (cases r) simp_all
  have "is_js_space c"
    using hd_dropWhile [of "\<lambda>c. \<not> is_js_space c" s] r unfolding r(1) [symmetric] c by simp
  then have "length (dropWhile is_js_space r) \<le> length r'" unfolding c by (simp add: length_dropWhile_le)
  moreover have "length r \<le> length s" unfolding r(1) by (rule length_dropWhile_le)
  ultimately show "(dropWhile is_js_space r, s) \<in> measure length" unfolding c by simp
qed simp

declare split_spaces.simps [simp del]

definition parseReviewTarget :: "string \<Rightarrow> review_target" where
  "parseReviewTarget input =
     (let rest = js_trim (replace_first review_command [] (js_trim input)); lower = to_lower rest
      in if rest = [] then ReviewUncommitted
         else if starts_with lower ''base '' then ReviewBranch (js_trim (drop 5 rest))
         else if starts_with lower ''commit '' then
           (case split_spaces (js_trim (drop 7 rest)) of
              [] \<Rightarrow> ReviewCommit [] None
            | sha # titleParts \<Rightarrow> ReviewCommit sha (some_text (js_trim (js_join '' '' titleParts))))
         else if starts_with lower ''custom '' then ReviewCustom (js_trim (drop 7 rest))
         else ReviewCustom rest)"

end
