(* ===== verification/ThreadNormalizeFacts.thy ===== *)
theory ThreadNormalizeFacts
  imports ThreadNormalize
begin

text \<open>
  The rate limits that a workspace accumulates over its updates, and the targets that a review command can name.
\<close>

section \<open>Rate limits\<close>

definition window_ok :: "rate_limit_window option \<Rightarrow> bool" where
  "window_ok w = pred_option (\<lambda>w. 0 \<le> usedPercent w \<and> usedPercent w \<le> 100) w"

definition limits_ok :: "rate_limit_snapshot \<Rightarrow> bool" where
  "limits_ok s \<longleftrightarrow> window_ok (rl_primary s) \<and> window_ok (rl_secondary s) \<and>
     list_all (\<lambda>v. v \<noteq> Some (Some [])) [rl_limitId s, rl_limitName s]"

lemma clamp_bounds: "0 \<le> clampPercentage v" "clampPercentage v \<le> 100"
  by (simp_all add: clampPercentage_def)

lemma limit_window_step: "window_ok previous \<Longrightarrow> window_ok (normalizeRateLimitWindow source previous)"
  by (cases previous)
    (auto simp: window_ok_def normalizeRateLimitWindow_def used_percent_def clamp_bounds option.pred_map comp_def
      split: option.split)

lemma part_step:
  "P previous \<Longrightarrow> P None \<Longrightarrow> (\<And>r. P previous \<Longrightarrow> P (f r previous)) \<Longrightarrow> P (updated_part f raw k previous)"
  by (auto simp: updated_part_def split: js_value.split)

lemma limit_text_ok: "previous \<noteq> Some (Some []) \<Longrightarrow> limit_text raw a b previous \<noteq> Some (Some [])"
  by (cases previous) (auto simp: limit_text_def trimmed_value_def some_text_def Let_def nullish2_def split: option.splits if_splits)

lemma limits_step:
  assumes "pred_option limits_ok previous"
  shows "limits_ok (normalizeRateLimits raw previous)"
proof -
  have "window_ok (Option.bind previous rl_primary)" "window_ok (Option.bind previous rl_secondary)"
    "Option.bind previous rl_limitId \<noteq> Some (Some [])" "Option.bind previous rl_limitName \<noteq> Some (Some [])"
    using assms by (cases previous; simp add: limits_ok_def window_ok_def)+
  then show ?thesis
    unfolding limits_ok_def normalizeRateLimits_def
    by (auto intro!: part_step [where P = window_ok] limit_window_step limit_text_ok simp: window_ok_def [of None])
qed

text \<open>Repeating an update.\<close>

lemma window_again:
  "normalizeRateLimitWindow source (normalizeRateLimitWindow source previous) = normalizeRateLimitWindow source previous"
proof (cases "used_percent source previous")
  case None
  then show ?thesis by (simp add: normalizeRateLimitWindow_def used_percent_def split: option.splits)
next
  case (Some u)
  then have "used_percent source (normalizeRateLimitWindow source previous) = Some u"
    by (auto simp: normalizeRateLimitWindow_def used_percent_def split: option.splits)
  then show ?thesis
    using Some by (simp add: normalizeRateLimitWindow_def [of source] readOptionalNumber_def nullish2_def split: option.split)
qed

lemma credits_again:
  "normalizeCreditsSnapshot source (Some (normalizeCreditsSnapshot source previous)) = normalizeCreditsSnapshot source previous"
  by (simp add: normalizeCreditsSnapshot_def nullish_def nullish2_def split: option.split js_value.split)

lemma part_again:
  "(\<And>r. f r (f r previous) = f r previous) \<Longrightarrow>
     updated_part f raw k (updated_part f raw k previous) = updated_part f raw k previous"
  by (auto simp: updated_part_def split: js_value.split)

lemma limit_text_again: "limit_text raw a b (limit_text raw a b previous) = limit_text raw a b previous"
  by (cases previous) (auto simp: limit_text_def Let_def nullish2_def split: option.splits)

lemma limits_again:
  "normalizeRateLimits raw (Some (normalizeRateLimits raw previous)) = normalizeRateLimits raw previous"
proof -
  have parts: "updated_part normalizeRateLimitWindow raw k (updated_part normalizeRateLimitWindow raw k p)
      = updated_part normalizeRateLimitWindow raw k p" for k p
    by (rule part_again) (rule window_again)
  have credits: "updated_part (\<lambda>r p. Some (normalizeCreditsSnapshot r p)) raw k
      (updated_part (\<lambda>r p. Some (normalizeCreditsSnapshot r p)) raw k p)
      = updated_part (\<lambda>r p. Some (normalizeCreditsSnapshot r p)) raw k p" for k p
    by (rule part_again) (simp add: credits_again)
  show ?thesis
    unfolding normalizeRateLimits_def
    by (auto simp: parts credits limit_text_again nullish2_def split: option.split)
qed

text \<open>C39: over every history of updates the used share of a window stays between 0 and 100 percent and no limit
  has an empty name, and an update that arrives twice changes nothing more.  (An absent part keeps its
  last value, so without this a limit could drift away from what the service sent.)\<close>

theorem rate_limits_bounded_and_idempotent:
  "let s = foldl (\<lambda>s raw. Some (normalizeRateLimits raw s)) None updates
   in pred_option limits_ok s \<and>
      normalizeRateLimits raw (Some (normalizeRateLimits raw s)) = normalizeRateLimits raw s"
proof -
  have "pred_option limits_ok (foldl (\<lambda>s raw. Some (normalizeRateLimits raw s)) None updates)"
    by (rule foldl_invariant) (simp_all add: limits_step)
  then show ?thesis by (simp add: limits_again Let_def)
qed

section \<open>Trimmed texts\<close>

lemma trimmed_ends: "js_trim s = s \<Longrightarrow> s \<noteq> [] \<Longrightarrow> \<not> is_js_space (hd s) \<and> \<not> is_js_space (last s)"
proof -
  assume t: "js_trim s = s" and s: "s \<noteq> []"
  have "\<not> is_js_space (last s)"
  proof -
    have "rev s = dropWhile is_js_space (rev (dropWhile is_js_space s))"
      using t by (metis js_trim_def rev_rev_ident trim_start_def)
    then have "\<not> is_js_space (hd (rev s))" using s by (metis hd_dropWhile rev_is_Nil_conv)
    then show ?thesis by (simp add: hd_rev)
  qed
  moreover have "dropWhile is_js_space s = s"
  proof (rule ccontr)
    assume "dropWhile is_js_space s \<noteq> s"
    then have "length (dropWhile is_js_space s) < length s"
      by (metis append_eq_append_conv length_dropWhile_le nat_less_le self_append_conv2 takeWhile_dropWhile_id)
    then have "length (js_trim s) < length s"
      using length_dropWhile_le [of is_js_space "rev (dropWhile is_js_space s)"]
      by (simp add: js_trim_def trim_start_def)
    with t show False by simp
  qed
  then have "\<not> is_js_space (hd s)" using s by (metis hd_dropWhile)
  ultimately show ?thesis by simp
qed

lemma trim_id: "\<not> is_js_space (hd s) \<Longrightarrow> \<not> is_js_space (last s) \<Longrightarrow> js_trim s = s"
proof (cases "s = []")
  case False
  assume h: "\<not> is_js_space (hd s)" "\<not> is_js_space (last s)"
  have "dropWhile is_js_space s = s" using h(1) by (intro dropWhile_hd_id) simp
  moreover have "dropWhile is_js_space (rev s) = rev s" using h(2) by (intro dropWhile_hd_id) (simp add: hd_rev)
  ultimately show ?thesis by (simp add: js_trim_def trim_start_def)
qed simp

lemma trim_nonempty: "c \<in> set s \<Longrightarrow> \<not> is_js_space c \<Longrightarrow> js_trim s \<noteq> []"
proof -
  assume c: "c \<in> set s" "\<not> is_js_space c"
  have d: "c \<in> set xs \<Longrightarrow> c \<in> set (dropWhile is_js_space xs)" for xs
    using c(2) by (induction xs) auto
  have "c \<in> set (js_trim s)" using d [of "rev (dropWhile is_js_space s)"] d [OF c(1)]
    by (simp add: js_trim_def trim_start_def)
  then show ?thesis by auto
qed

section \<open>The target of a review\<close>

lemma split_spaces_first:
  "s \<noteq> [] \<Longrightarrow> \<not> is_js_space (hd s) \<Longrightarrow>
     \<exists>w ws. split_spaces s = w # ws \<and> w \<noteq> [] \<and> (\<forall>c \<in> set w. \<not> is_js_space c)"
  by (subst split_spaces.simps, cases s) (auto simp: Let_def dest: set_takeWhileD)

definition target_ok :: "review_target \<Rightarrow> bool" where
  "target_ok t =
     (case t of ReviewUncommitted \<Rightarrow> True
      | ReviewBranch b \<Rightarrow> b \<noteq> [] \<and> js_trim b = b
      | ReviewCommit sha title \<Rightarrow> sha \<noteq> [] \<and> list_all (\<lambda>c. \<not> is_js_space c) sha \<and> title \<noteq> Some []
      | ReviewCustom i \<Rightarrow> i \<noteq> [] \<and> js_trim i = i)"

lemma lower_char_space:
  assumes "lower_char c = CHR '' ''"
  shows "c = CHR '' ''"
proof (rule ccontr)
  let ?n = "of_char c :: nat"
  assume "c \<noteq> CHR '' ''"
  with assms have range: "65 \<le> ?n \<and> ?n \<le> 90 \<or> 192 \<le> ?n \<and> ?n \<le> 222" "lower_char c = char_of (?n + 32)"
    by (auto simp: lower_char_def Let_def split: if_splits)
  have "of_char (lower_char c) = (?n + 32) mod 256" unfolding range(2) by (rule of_char_of)
  also have "\<dots> = ?n + 32" using range(1) by auto
  finally have "?n + 32 = 32" using assms by simp
  with range(1) show False by auto
qed

text \<open>What follows a keyword and its space in a trimmed text is not blank.\<close>

lemma payload_not_blank:
  assumes "js_trim rest = rest" "starts_with (to_lower rest) k" "k \<noteq> []" "last k = CHR '' ''"
  shows "js_trim (drop (length k) rest) \<noteq> []"
proof -
  obtain more where m: "to_lower rest = k @ more" using assms(2) by (auto simp: prefix_def)
  have len: "length rest = length k + length more" using arg_cong [OF m, of length] by simp
  have rest: "rest \<noteq> []" using m assms(3) by auto
  have last: "\<not> is_js_space (last rest)" using trimmed_ends [OF assms(1) rest] by blast
  have "more \<noteq> []"
  proof
    assume "more = []"
    then have "last (to_lower rest) = CHR '' ''" using m assms(4) by simp
    then have "lower_char (last rest) = CHR '' ''" using rest by (simp add: to_lower_def last_map)
    then have "last rest = CHR '' ''" by (rule lower_char_space)
    with last show False by (simp add: is_js_space_def)
  qed
  then have "drop (length k) rest \<noteq> []" using len by simp
  then have "last rest \<in> set (drop (length k) rest)" by (metis last_drop last_in_set drop_eq_Nil not_less)
  then show ?thesis using last by (rule trim_nonempty)
qed

lemma trimmed_hd: "js_trim s \<noteq> [] \<Longrightarrow> \<not> is_js_space (hd (js_trim s))"
  using trimmed_ends [of "js_trim s"] by simp

text \<open>C40: a review is never asked for nothing: whatever is typed after the command, a branch or a commit is not
  empty, a commit has no white space in it, and instructions are not blank; otherwise it is the review
  of the uncommitted changes.\<close>

theorem review_target_never_empty: "target_ok (parseReviewTarget input)"
proof -
  define rest where "rest = js_trim (replace_first review_command [] (js_trim input))"
  have rest: "js_trim rest = rest" by (simp add: rest_def)
  have len: "length ''commit '' = 7" "length ''base '' = 5" "length ''custom '' = 7" by simp_all
  have commit: "target_ok (case split_spaces (js_trim (drop 7 rest)) of [] \<Rightarrow> ReviewCommit [] None
      | sha # titleParts \<Rightarrow> ReviewCommit sha (some_text (js_trim (js_join '' '' titleParts))))"
    if "starts_with (to_lower rest) ''commit ''"
  proof -
    have p: "js_trim (drop 7 rest) \<noteq> []" using payload_not_blank [OF rest that] unfolding len by simp
    from split_spaces_first [OF p trimmed_hd [OF p]] show ?thesis
      by (auto simp: target_ok_def some_text_def list_all_iff)
  qed
  moreover have "target_ok (ReviewBranch (js_trim (drop 5 rest)))" if "starts_with (to_lower rest) ''base ''"
    using payload_not_blank [OF rest that] unfolding len by (simp add: target_ok_def)
  moreover have "target_ok (ReviewCustom (js_trim (drop 7 rest)))" if "starts_with (to_lower rest) ''custom ''"
    using payload_not_blank [OF rest that] unfolding len by (simp add: target_ok_def)
  ultimately show ?thesis
    using rest unfolding parseReviewTarget_def Let_def rest_def [symmetric] by (simp add: target_ok_def)
qed

end
