(* ===== verification/Spec2Isabelle.thy ===== *)
theory Spec2Isabelle
  imports ThreadStore AutoDriveRuns AutoDrivePublishing AutoDriveLiveness AutoDriveContextFacts AutoDriveLedger SubAgentBatchResume LiveSkillFacts
    ToolInputSchemaFacts ToolReliabilityFacts ToolPreflightFacts EventSubscriptionFacts
    ThreadItemBuildersFacts SchemaErrorFacts TaskGraphFacts ThreadNormalizeFacts
begin

text \<open>
  \<^bold>\<open>HugeCode: the thread store, the AutoDrive controller, sub-agent batches, tool calls and events.\<close>

  HugeCode is a desktop and web client for coding agents.  Its own logic is in TypeScript, under
  \<^verbatim>\<open>src/apps/code/src\<close>; agents, git and the model providers sit behind a runtime service.  This
  library models five subsystems that carry decisions of their own.

  \<^bold>\<open>The thread store.\<close>  Events of the runtime service arrive in any order and are folded into the
  state of the application by a reducer.  \<open>ConversationItem\<close> has the data
  (\<^verbatim>\<open>types.ts\<close>, \<^verbatim>\<open>utils/lifecycleStatus.ts\<close>); \<open>CommandExplore\<close> summarises shell commands and
  \<open>ThreadItems\<close> prepares, updates and merges the items of a thread (both
  \<^verbatim>\<open>utils/threadItems.ts\<close>); \<open>ThreadState\<close> has the state and the actions
  (\<^verbatim>\<open>features/threads/hooks/useThreadsReducer.types.ts\<close>,
  \<^verbatim>\<open>features/threads/utils/threadExecutionState.ts\<close>); \<open>ThreadHelpers\<close> the helpers
  (\<^verbatim>\<open>useThreadsReducer.helpers.ts\<close>, \<^verbatim>\<open>threadTitle.ts\<close>); \<open>ThreadsReducer\<close> the reducer, one
  definition per case of its switch (\<^verbatim>\<open>useThreadsReducer.ts\<close>); \<open>ThreadStore\<close> the reachable
  states, \<open>store_reachable\<close> (after any actions, \<open>store_run\<close>), and their invariants.  Dictionaries are maps; where the code iterates over
  one or replaces it by spreading, a finite map; the time of day is an argument of the reducer.

  What the runtime service sends is untyped:
  \<open>ThreadItemBuilders\<close> makes items of it (the builders of \<^verbatim>\<open>utils/threadItems.ts\<close>), \<open>ThreadNormalize\<close> token
  usage, rate limits, plans and review targets (\<^verbatim>\<open>features/threads/utils/threadNormalize.ts\<close>) and \<open>TaskGraph\<close>
  the graph of a plan (\<^verbatim>\<open>features/plan/types/distributedGraph.ts\<close>); reading a field of \<open>undefined\<close> throws, as
  a left value.  \<open>ThreadItemBuildersFacts\<close>, \<open>ThreadNormalizeFacts\<close> and \<open>TaskGraphFacts\<close> show what they promise.

  \<^bold>\<open>AutoDrive.\<close>  A controller drives an agent towards a destination in iterations: it collects a
  context, proposes a waypoint, reviews the proposal, has the agent execute it, validates the result,
  summarises the report, and decides whether to go on, reroute, pause or stop.  \<open>AutoDriveTypes\<close> has
  the data (\<^verbatim>\<open>application/runtime/types/autoDrive.ts\<close>).  The other theories are files of
  \<^verbatim>\<open>application/runtime/facades\<close>: \<open>AutoDrivePolicy\<close> decides (\<^verbatim>\<open>runtimeAutoDrivePolicy.ts\<close>),
  \<open>AutoDriveParsing\<close> reads reports and rules on publishing (\<^verbatim>\<open>runtimeAutoDriveReviewParsing.ts\<close>,
  \<^verbatim>\<open>runtimeAutoDrivePublish.ts\<close>, \<^verbatim>\<open>runtimeAutoDrivePublishRecovery.ts\<close>), \<open>AutoDrivePlanner\<close> proposes
  and reviews (\<^verbatim>\<open>runtimeAutoDrivePlanner.ts\<close>), \<open>AutoDriveScoring\<close> ranks opportunities
  (\<^verbatim>\<open>runtimeAutoDriveOpportunityScoring.ts\<close>), \<open>AutoDriveExecution\<close> picks the session profile and the
  validation commands (\<^verbatim>\<open>runtimeAutoDriveExecution.ts\<close>), \<open>AutoDriveSupport\<close> derives navigation and
  summaries (\<^verbatim>\<open>runtimeAutoDriveCompat/controllerSupport.ts\<close>), and the controller itself
  composes them (\<^verbatim>\<open>runtimeAutoDriveController.ts\<close>): \<open>ControllerMonad\<close> has its state and the
  shape of a method (explicit state, exceptions as values, the injected services and the operator as a
  parameter \<open>env\<close>, every call recorded), \<open>AutoDriveController\<close> the methods, \<open>AutoDriveLoop\<close> one round
  of \<open>runLoop\<close>, cut into its phases, and \<open>AutoDriveRun\<close> the loop and \<open>start\<close>, \<open>resume\<close>, \<open>pause\<close> and
  \<open>stop\<close>.  \<open>AutoDriveInvariants\<close> states, as a contract, what a round may do to the run and to the
  log of its calls, and proves once that every method keeps an invariant that keeps the contract;
  \<open>AutoDriveRuns\<close> interprets it on the properties of whole runs, \<open>AutoDrivePublishing\<close> follows the
  git checkout, and \<open>AutoDriveLiveness\<close> shows that runs return.  \<open>AutoDriveExamples\<close> has the concrete
  run and summary that the witnesses use.

  Around the controller, in the same directory: \<open>AutoDriveSignals\<close> has the momentum of the commits, the
  stagnation of a route and the tuning of an iteration (\<^verbatim>\<open>runtimeAutoDriveRouteSignals.ts\<close>),
  \<open>AutoDriveHistory\<close> the corridor of an earlier publish (\<^verbatim>\<open>runtimeAutoDriveHistory.ts\<close> and its
  callers), and \<open>AutoDriveIntent\<close>, \<open>AutoDriveReadiness\<close> and \<open>AutoDriveContext\<close> the synthesis of the
  context of an iteration (\<^verbatim>\<open>runtimeAutoDriveContext.ts\<close>), with its services as parameters that may fail;
  \<open>AutoDriveContextFacts\<close> shows what a context promises to the rest of the controller.  \<open>AutoDriveLedger\<close>
  has the files a run writes and the texts in them (\<^verbatim>\<open>runtimeAutoDriveLedger.ts\<close>,
  \<^verbatim>\<open>runtimeAutoDriveReport.ts\<close>, \<^verbatim>\<open>runtimeAutoDrivePublishHandoff.ts\<close>,
  \<^verbatim>\<open>runtimeAutoDrivePublishRecoveryArtifact.ts\<close>), and that an earlier run is found again in them.

  \<^bold>\<open>Sub-agent batches.\<close>  A tool of the web bridge runs up to twelve delegated tasks with dependencies.
  \<open>RuntimeToolPolicy\<close> has the provider aliases and the policies of tools
  (\<^verbatim>\<open>codeRuntimeRpcCompat.ts\<close>, \<^verbatim>\<open>runtimeToolExecutionPolicy.ts\<close>); \<open>JsValue\<close> untyped inputs and what
  a call throws; \<open>LiveSkills\<close> the names of skills (\<^verbatim>\<open>services/runtimeClientLiveSkills.ts\<close>,
  \<^verbatim>\<open>services/webMcpBridgeRuntimeToolsShared.ts\<close>), with \<open>LiveSkillFacts\<close>; \<open>SubAgentBatchPlanner\<close> the
  division of a batch into waves (\<^verbatim>\<open>services/webMcpBridgeRuntimeSubAgentBatchPlanner.ts\<close>);
  \<open>SubAgentBatch\<close> the input, one attempt and the retries of a task; \<open>SubAgentBatchRun\<close> the chunks, the
  waves, the journal and the tool (\<^verbatim>\<open>services/webMcpBridgeRuntimeSubAgentBatchTool.ts\<close>).
  \<open>SubAgentBatchFacts\<close> has the invariant of a running batch, \<open>batch_inv\<close>: every result so far is justified
  by the others, and the calls made agree with the results; \<open>SubAgentBatchTool\<close> and
  \<open>SubAgentBatchResume\<close> carry it to the whole tool.  The methods of the runtime are functions of task,
  attempt and input.  The tasks of a chunk run concurrently in the code; none reads what another
  writes, so the model runs them in order and records the calls of each apart.

  \<^bold>\<open>Tool calls.\<close>  Every tool of the web bridge runs inside a wrapper.  \<open>ToolInputSchema\<close> has the check
  of its input against a JSON schema (\<^verbatim>\<open>webMcpToolInputSchemaValidation.ts\<close> of the runtime client),
  \<open>RuntimeErrors\<close> the classes of the errors of the runtime (\<^verbatim>\<open>runtimeErrorClassifier.ts\<close>), \<open>SchemaErrors\<close> the readers of
  wrapped errors (\<^verbatim>\<open>webMcpInputSchemaValidationError.ts\<close>, \<^verbatim>\<open>runtimeClientErrorUtils.ts\<close>), \<open>ToolMetrics\<close> the
  counts of the calls (\<^verbatim>\<open>services/runtimeToolExecutionMetrics.ts\<close>), \<open>ToolReliability\<close> the gate of payload
  limit, circuit breaker and rate limit (\<^verbatim>\<open>services/runtimeToolReliabilityPolicy.ts\<close>), and \<open>ToolPreflight\<close>
  the wrapper, which reports to the host, asks its guardrail, checks the input, runs the tool and counts
  (\<^verbatim>\<open>services/webMcpBridgeToolPreflight.ts\<close>, \<^verbatim>\<open>services/runtimeToolExecutionMetricsReporter.ts\<close>).  A call
  is a trace of its effects and a result or an exception; the host, the tool, the clock, the text of a
  value and the size of a payload are a parameter, \<open>call_env\<close>.  \<open>ToolInputSchemaFacts\<close>, \<open>SchemaErrorFacts\<close>,
  \<open>ToolReliabilityFacts\<close> and \<open>ToolPreflightFacts\<close> have the proofs.

  \<^bold>\<open>Events.\<close>  The events of the runtime come over a web socket, with server-sent events to fall back on.
  \<open>EventChannel\<close> has the diagnostics of the channels, their counters and the machine that moves them
  (\<^verbatim>\<open>runtimeEventChannelDiagnostics.ts\<close>, \<^verbatim>\<open>runtimeEventStabilityMetrics.ts\<close>,
  \<^verbatim>\<open>runtimeEventStateMachine.ts\<close>); \<open>EventDelivery\<close> what sits between a message and its consumer: the
  identifiers, the de-duplication, the retry scheduler and the queues of envelopes
  (\<^verbatim>\<open>services/eventsWebTransportHelpers.ts\<close>, \<^verbatim>\<open>services/retryScheduler.ts\<close>); \<open>EventSubscription\<close> the
  subscription as a step function over the variables of its closure
  (\<^verbatim>\<open>services/runtimeEventBridgeV2.ts\<close>), where the handlers of the socket, the timers and the disposal are the
  events and each step has its own answers of the clock, the socket, the fallback, \<^verbatim>\<open>JSON.parse\<close> and the adapter of
  payloads.  \<open>DictionarySum\<close> has sums over dictionaries, \<open>EventDeliveryFacts\<close> and
  \<open>EventSubscriptionFacts\<close> the proofs.

  \<^bold>\<open>Shared.\<close>  \<open>Prelude\<close> has lists, options and maps, \<open>SortFacts\<close> that sorting permutes; \<open>JsString\<close> the string and array functions of
  JavaScript that the code uses, and regular expressions (\<open>re\<close>) with a backtracking matcher
  \<open>re_steps\<close>; \<open>RegexLanguage\<close> relates the matcher to the language of an expression.  Strings are
  lists of 8-bit characters, so case folding and white space are those of that range; JavaScript's
  numbers are integers where the code counts, rounds and compares; \<open>JsNumber\<close> has the rounding to 53 bits
  for the scores that are fractions, and \<open>JsText\<close> the conversions between values, numbers and texts.  Contracts are
  locales: \<open>request_queue\<close> (queues of pending requests, interpreted on the three queues of the store)
  and \<open>severity_join\<close> (raising a risk level, interpreted on the policy's \<open>nextRiskLevel\<close>).  Two more
  are of the controller: \<open>run_invariant\<close>, with \<open>iteration_invariant\<close>, interpreted on the budget, the
  record and the written versions of a run, and \<open>answering_env\<close>, an environment whose calls succeed.

  \<^bold>\<open>What is shown.\<close>  Of the store: invariants of every reachable state (lists without hidden threads, and
  without repetitions unless the last snapshot has some; limits of the items, status and start times, queues), what the items of a snapshot look like,
  that they agree on whether a review is under way, how rate limits accumulate, how snapshots are reconciled,
  how streamed text, optimistic messages and reviews are merged, and that its queues refine sets.  Of
  AutoDrive: the exact decision after an iteration and its agreement with the check before the next
  one, the review of the controller's own proposals, the ranking of opportunities, the consistency of
  the summary derived from a report, the safety of continuing, rerouting and publishing, and the
  behaviours of the report parser that its authors may not expect.  Of whole runs: they stay within
  their budgets, agree with the ledger, end for a reason, and return when their services answer; what
  a request of the operator does and when it is looked at; and what publishing does to the checkout.  Of
  batches: a plan is a correct schedule and exists exactly for acyclic dependencies; every task has one
  result, justified by the results of its dependencies; what is run agrees with what is reported, within
  the width of the plan and not after a stop; attempts are bounded and sessions asked to be closed; what a rejected
  close and a second request of the same batch do.  Of tool calls: a tool runs exactly when every gate is
  passed; the metrics count the history, and balance however calls interleave; the reported schema errors agree with
  \<open>matchesSchema\<close>, and their result is read back from an error through any layers that hold no other result; no window of a minute has more than 12 observations, an open circuit blocks and can
  close again.  Of events: a subscription always has exactly one thing that moves it on, leaks neither
  sockets nor fallbacks, and is silent once disposed; de-duplication is a window over the last accepted
  identifiers; entered fallbacks are recovered or still open; and the queues of envelopes keep an entry for every envelope that waited for a result.

  \<^bold>\<open>Termination.\<close>  All definitions are total.  The loop of the controller ends because a round that
  continues uses up one of the iterations left (\<open>round_advances\<close>).  The matcher of \<open>re\<close> recurses
  on the expression and, in a star, on as many rounds as there are characters left, since every round
  must consume one; loops over lists are structural.  The loop over the ready tasks of a batch ends because
  a key becomes ready only when its count of open dependencies leaves the positive numbers, the retries
  of a task because every attempt uses one up.  The search for a free identifier, \<open>free_suffix\<close>, ends because only
  finitely many candidates are taken (\<open>ensureUniqueReviewId_fresh\<close>).  The check of an input ends
  because every call goes to a smaller schema, the search of a wrapped error because it goes inwards.

  \<^bold>\<open>Not modelled.\<close>  The user interface (React components and hooks), the calls of the transport to the
  runtime service, the subscription over server-sent events itself and the bridge to Tauri, the adapter
  of payloads, the other tools of the web bridge, the listeners of the controller and the order of the
  snapshots that listeners get, a \<open>pause\<close> or \<open>stop\<close> that arrives while \<open>start\<close> or \<open>resume\<close> is still writing its
  first version (before the loop runs; \<open>deliver\<close> ignores it), a second \<open>resume\<close> while one is under way, two batches at the same time,
  the Rust service and desktop shell, and the scripts of the repository.
\<close>

end
